(* ===== verification/Fifo_Queue.thy ===== *)
theory Fifo_Queue
  imports Main
begin

text \<open>
  The queue of src/sippy/container/fifo.go: a chain of nodes linked by pointers, with a pointer to the
  first and one to the last node. The nodes live in an explicit heap, because \<^verbatim>\<open>Put\<close> changes the node
  the last pointer names, so that two queues whose chains met would disturb each other. The locale
  \<open>queue_store\<close> is the contract of a family of queues kept in one state, and the chains of fifo.go are
  an instance of it.
\<close>

section \<open>The nodes and the queue\<close>

record 'a FifoNode =
  node_next :: "nat option"
  Value :: 'a

record 'a node_heap =
  cells :: "nat \<Rightarrow> 'a FifoNode option"
  fresh :: nat

record fifo =
  first :: "nat option"
  last_node :: "nat option"

definition NewFifo :: fifo where
  "NewFifo = \<lparr>first = None, last_node = None\<rparr>"

definition new_node :: "'a \<Rightarrow> 'a node_heap \<Rightarrow> nat \<times> 'a node_heap" where
  "new_node v h = (fresh h, h\<lparr>cells := (cells h)(fresh h \<mapsto> \<lparr>node_next = None, Value = v\<rparr>), fresh := fresh h + 1\<rparr>)"

definition set_next :: "nat \<Rightarrow> nat option \<Rightarrow> 'a node_heap \<Rightarrow> 'a node_heap option" where
  "set_next r p h = (case cells h r of None \<Rightarrow> None | Some n \<Rightarrow> Some (h\<lparr>cells := (cells h)(r \<mapsto> n\<lparr>node_next := p\<rparr>)\<rparr>))"

definition Put :: "'a \<Rightarrow> 'a node_heap \<Rightarrow> fifo \<Rightarrow> ('a node_heap \<times> fifo) option" where
  "Put v h self = (case new_node v h of (node, h1) \<Rightarrow>
     (case last_node self of
        Some l \<Rightarrow> map_option (\<lambda>h2. (h2, self\<lparr>last_node := Some node\<rparr>)) (set_next l (Some node) h1)
      | None \<Rightarrow> Some (h1, self\<lparr>first := Some node, last_node := Some node\<rparr>)))"

definition drop_last :: "fifo \<Rightarrow> fifo" where
  "drop_last self = (if first self = None then self\<lparr>last_node := None\<rparr> else self)"

definition Get :: "'a node_heap \<Rightarrow> fifo \<Rightarrow> (nat option \<times> 'a node_heap \<times> fifo) option" where
  "Get h self = (case first self of
     None \<Rightarrow> Some (None, h, drop_last self)
   | Some r \<Rightarrow> (case cells h r of None \<Rightarrow> None
       | Some n \<Rightarrow> map_option (\<lambda>h1. (Some r, h1, drop_last (self\<lparr>first := node_next n\<rparr>))) (set_next r None h)))"

definition IsEmpty :: "fifo \<Rightarrow> bool" where
  "IsEmpty self \<longleftrightarrow> first self = None"

section \<open>The contract of a family of queues\<close>

datatype 'a queue_op = Q_put nat 'a | Q_get nat | Q_empty nat

datatype 'a queue_out = Q_done | Q_got "'a option" | Q_is bool

fun list_queue :: "'a queue_op \<Rightarrow> (nat \<Rightarrow> 'a list) \<Rightarrow> 'a queue_out \<times> (nat \<Rightarrow> 'a list)" where
  "list_queue (Q_put i v) q = (Q_done, q(i := q i @ [v]))"
| "list_queue (Q_get i) q = (case q i of [] \<Rightarrow> (Q_got None, q) | v # vs \<Rightarrow> (Q_got (Some v), q(i := vs)))"
| "list_queue (Q_empty i) q = (Q_is (q i = []), q)"

fun list_queues :: "'a queue_op list \<Rightarrow> (nat \<Rightarrow> 'a list) \<Rightarrow> 'a queue_out list \<times> (nat \<Rightarrow> 'a list)" where
  "list_queues [] q = ([], q)"
| "list_queues (p # ps) q = (case list_queue p q of (out, q1) \<Rightarrow> (case list_queues ps q1 of (outs, q2) \<Rightarrow> (out # outs, q2)))"

text \<open>An implementation runs one operation on its own state; None stands for a dangling pointer.\<close>

fun run_queue :: "('a queue_op \<Rightarrow> 's \<Rightarrow> ('a queue_out \<times> 's) option) \<Rightarrow> 'a queue_op list \<Rightarrow> 's \<Rightarrow> ('a queue_out list \<times> 's) option" where
  "run_queue step [] s = Some ([], s)"
| "run_queue step (p # ps) s = (case step p s of None \<Rightarrow> None
     | Some (out, s1) \<Rightarrow> (case run_queue step ps s1 of None \<Rightarrow> None | Some (outs, s2) \<Rightarrow> Some (out # outs, s2)))"

locale queue_store =
  fixes holds :: "'s \<Rightarrow> (nat \<Rightarrow> 'a list) \<Rightarrow> bool"
    and step :: "'a queue_op \<Rightarrow> 's \<Rightarrow> ('a queue_out \<times> 's) option"
  assumes step_holds: "holds s q \<Longrightarrow> \<exists>s'. step p s = Some (fst (list_queue p q), s') \<and> holds s' (snd (list_queue p q))"
begin

lemma run_holds: "holds s q \<Longrightarrow> \<exists>s'. run_queue step ps s = Some (fst (list_queues ps q), s') \<and> holds s' (snd (list_queues ps q))"
proof (induction ps arbitrary: s q)
  case Nil
  then show ?case by simp
next
  case (Cons p ps)
  obtain s1 where s1: "step p s = Some (fst (list_queue p q), s1)" "holds s1 (snd (list_queue p q))"
    using step_holds [OF Cons.prems] by blast
  obtain s2 where "run_queue step ps s1 = Some (fst (list_queues ps (snd (list_queue p q))), s2)"
    "holds s2 (snd (list_queues ps (snd (list_queue p q))))" using Cons.IH [OF s1(2)] by blast
  with s1(1) show ?case by (simp add: split_beta)
qed

end

section \<open>What goes in comes out in order\<close>

fun put_values :: "nat \<Rightarrow> 'a queue_op list \<Rightarrow> 'a list" where
  "put_values i [] = []"
| "put_values i (Q_put j v # ps) = (if j = i then v # put_values i ps else put_values i ps)"
| "put_values i (_ # ps) = put_values i ps"

fun got_values :: "nat \<Rightarrow> 'a queue_op list \<Rightarrow> 'a queue_out list \<Rightarrow> 'a list" where
  "got_values i (Q_get j # ps) (Q_got (Some v) # outs) = (if j = i then v # got_values i ps outs else got_values i ps outs)"
| "got_values i (_ # ps) (_ # outs) = got_values i ps outs"
| "got_values i _ _ = []"

lemma list_queues_order: "got_values i ps (fst (list_queues ps q)) @ snd (list_queues ps q) i = q i @ put_values i ps"
proof (induction ps arbitrary: q)
  case Nil
  then show ?case by simp
next
  case (Cons p ps)
  show ?case
  proof (cases p)
    case (Q_get j)
    then show ?thesis using Cons [of q] Cons [of "q(j := tl (q j))"]
      by (cases "q j") (auto simp: split_beta simp del: fun_upd_apply simp: fun_upd_same fun_upd_other)
  next
    case (Q_put j v)
    then show ?thesis using Cons [of "q(j := q j @ [v])"]
      by (auto simp: split_beta simp del: fun_upd_apply simp: fun_upd_same fun_upd_other)
  next
    case (Q_empty j)
    then show ?thesis using Cons [of q] by (simp add: split_beta)
  qed
qed

section \<open>Chains in the heap\<close>

fun chain :: "'a node_heap \<Rightarrow> nat option \<Rightarrow> nat list \<Rightarrow> bool" where
  "chain h p [] \<longleftrightarrow> p = None"
| "chain h p (r # rs) \<longleftrightarrow> p = Some r \<and> (case cells h r of None \<Rightarrow> False | Some n \<Rightarrow> chain h (node_next n) rs)"

definition chain_values :: "'a node_heap \<Rightarrow> nat list \<Rightarrow> 'a list" where
  "chain_values h rs = map (\<lambda>r. Value (the (cells h r))) rs"

definition fifo_chain :: "'a node_heap \<Rightarrow> fifo \<Rightarrow> nat list \<Rightarrow> bool" where
  "fifo_chain h f rs \<longleftrightarrow> chain h (first f) rs \<and> distinct rs \<and> list_all (\<lambda>r. r < fresh h) rs
     \<and> last_node f = (if rs = [] then None else Some (last rs))"

lemma chain_cong: "(\<And>r. r \<in> set rs \<Longrightarrow> cells h' r = cells h r) \<Longrightarrow> chain h' p rs = chain h p rs"
  by (induction rs arbitrary: p) (auto split: option.splits)

lemma chain_values_cong: "(\<And>r. r \<in> set rs \<Longrightarrow> cells h' r = cells h r) \<Longrightarrow> chain_values h' rs = chain_values h rs"
  by (simp add: chain_values_def)

lemma fifo_chain_cong:
  "\<lbrakk>fifo_chain h f rs; \<And>r. r \<in> set rs \<Longrightarrow> cells h' r = cells h r; fresh h \<le> fresh h'\<rbrakk> \<Longrightarrow> fifo_chain h' f rs"
  using chain_cong [of rs h' h "first f"] by (fastforce simp: fifo_chain_def list_all_iff)

lemma chain_defined: "\<lbrakk>chain h p rs; r \<in> set rs\<rbrakk> \<Longrightarrow> cells h r \<noteq> None"
  by (induction rs arbitrary: p) (auto split: option.splits)

text \<open>A chain grows at its end when the last node's pointer is set to a node outside it.\<close>

lemma chain_extend:
  assumes "chain h p rs" "rs \<noteq> []" "distinct rs" "node \<notin> set rs" "cells h node = Some \<lparr>node_next = None, Value = v\<rparr>"
    "set_next (last rs) (Some node) h = Some h'"
  shows "chain h' p (rs @ [node])"
  using assms
proof (induction rs arbitrary: p)
  case (Cons r rs)
  show ?case
  proof (cases rs)
    case Nil
    then show ?thesis using Cons.prems by (auto simp: set_next_def split: option.splits)
  next
    case (Cons r2 rs2)
    then have "last (r # rs) = last rs" "r \<noteq> last rs" using Cons.prems(3) by auto
    then show ?thesis using Cons.prems Cons.IH \<open>rs = r2 # rs2\<close> by (auto simp: set_next_def split: option.splits if_splits)
  qed
qed simp

lemma set_next_Some: "cells h r \<noteq> None \<Longrightarrow> \<exists>h'. set_next r p h = Some h'"
  by (auto simp: set_next_def)

lemma set_next_frame:
  assumes "set_next r p h = Some h'"
  shows "fresh h' = fresh h" "r' \<noteq> r \<Longrightarrow> cells h' r' = cells h r'"
    "cells h' r' \<noteq> None \<longleftrightarrow> cells h r' \<noteq> None" "Value (the (cells h' r')) = Value (the (cells h r'))"
  using assms by (auto simp: set_next_def split: option.splits if_splits)

lemma set_next_values: "set_next r p h = Some h' \<Longrightarrow> chain_values h' rs = chain_values h rs"
  using set_next_frame(4) by (fastforce simp: chain_values_def)

text \<open>
  \<^verbatim>\<open>Put\<close> lengthens the chain of its queue by a new node, \<^verbatim>\<open>Get\<close> cuts the first node off it,
  and both leave every node outside the chain as it was.
\<close>

lemma Put_chain:
  assumes "fifo_chain h f rs"
  shows "\<exists>h' f'. Put v h f = Some (h', f') \<and> fifo_chain h' f' (rs @ [fresh h])
    \<and> chain_values h' (rs @ [fresh h]) = chain_values h rs @ [v] \<and> fresh h' = fresh h + 1
    \<and> (\<forall>r. r \<notin> set rs \<longrightarrow> r \<noteq> fresh h \<longrightarrow> cells h' r = cells h r)"
proof -
  obtain h1 where h1: "new_node v h = (fresh h, h1)" and h1_def: "h1 = snd (new_node v h)" by (simp add: new_node_def)
  have fresh1: "fresh h1 = fresh h + 1" "cells h1 (fresh h) = Some \<lparr>node_next = None, Value = v\<rparr>"
    and other: "\<And>r. r \<noteq> fresh h \<Longrightarrow> cells h1 r = cells h r" by (simp_all add: h1_def new_node_def)
  have out: "fresh h \<notin> set rs" using assms by (auto simp: fifo_chain_def list_all_iff)
  then have same: "\<And>r. r \<in> set rs \<Longrightarrow> cells h1 r = cells h r" using other by metis
  have f1: "fifo_chain h1 f rs" using fifo_chain_cong [OF assms same] fresh1 by simp
  have vals: "chain_values h1 (rs @ [fresh h]) = chain_values h rs @ [v]"
    using chain_values_cong [of rs h1 h] same fresh1 by (simp add: chain_values_def)
  show ?thesis
  proof (cases "rs = []")
    case True
    then show ?thesis using f1 fresh1 vals other h1 by (simp add: Put_def fifo_chain_def)
  next
    case False
    then have last: "last_node f = Some (last rs)" "cells h1 (last rs) \<noteq> None"
      using f1 chain_defined [of h1 "first f" rs "last rs"] by (auto simp: fifo_chain_def)
    obtain h2 where h2: "set_next (last rs) (Some (fresh h)) h1 = Some h2" using set_next_Some [OF last(2)] by blast
    have "chain h2 (first f) (rs @ [fresh h])"
      using chain_extend [of h1 "first f" rs "fresh h" v h2] f1 False out fresh1 h2 by (simp add: fifo_chain_def)
    moreover have "cells h2 r = cells h r" if "r \<notin> set rs" "r \<noteq> fresh h" for r
      using that set_next_frame(2) [OF h2, of r] other [of r] last_in_set [OF False] by metis
    ultimately show ?thesis
      using h1 last h2 f1 out fresh1 set_next_frame(1) [OF h2] set_next_values [OF h2] vals
      by (auto simp: Put_def fifo_chain_def list_all_iff)
  qed
qed

lemma Get_empty: "fifo_chain h f [] \<Longrightarrow> Get h f = Some (None, h, f)"
  by (cases f) (simp add: fifo_chain_def Get_def drop_last_def)

lemma Get_chain:
  assumes "fifo_chain h f (r # rs)"
  shows "\<exists>h' f'. Get h f = Some (Some r, h', f') \<and> fifo_chain h' f' rs \<and> chain_values h' (r # rs) = chain_values h (r # rs)
    \<and> fresh h' = fresh h \<and> (\<forall>r'. r' \<noteq> r \<longrightarrow> cells h' r' = cells h r')"
proof -
  from assms obtain n where n: "first f = Some r" "cells h r = Some n" "chain h (node_next n) rs"
    and ok: "r \<notin> set rs" "distinct rs" "list_all (\<lambda>r. r < fresh h) rs" "last_node f = Some (last (r # rs))"
    by (auto simp: fifo_chain_def split: option.splits)
  obtain h1 where h1: "set_next r None h = Some h1" using set_next_Some [of h r None] n(2) by auto
  have "chain h1 (node_next n) rs" using chain_cong [of rs h1 h] set_next_frame(2) [OF h1] n(3) ok(1) by metis
  then have "fifo_chain h1 (drop_last (f\<lparr>first := node_next n\<rparr>)) rs"
    using ok set_next_frame(1) [OF h1] by (cases rs) (auto simp: fifo_chain_def drop_last_def)
  then show ?thesis
    using n h1 set_next_frame [OF h1] set_next_values [OF h1] by (auto simp: Get_def)
qed

section \<open>Many queues in one heap\<close>

type_synonym 'a fifo_world = "'a node_heap \<times> (nat \<Rightarrow> fifo)"

definition got_value :: "'a node_heap \<Rightarrow> nat option \<Rightarrow> 'a option" where
  "got_value h p = (case p of None \<Rightarrow> None | Some r \<Rightarrow> map_option Value (cells h r))"

fun fifo_step :: "'a queue_op \<Rightarrow> 'a fifo_world \<Rightarrow> ('a queue_out \<times> 'a fifo_world) option" where
  "fifo_step (Q_put i v) (h, fs) = map_option (\<lambda>(h', f'). (Q_done, h', fs(i := f'))) (Put v h (fs i))"
| "fifo_step (Q_get i) (h, fs) = map_option (\<lambda>(p, h', f'). (Q_got (got_value h' p), h', fs(i := f'))) (Get h (fs i))"
| "fifo_step (Q_empty i) (h, fs) = Some (Q_is (IsEmpty (fs i)), h, fs)"

definition chains :: "'a node_heap \<Rightarrow> (nat \<Rightarrow> fifo) \<Rightarrow> (nat \<Rightarrow> nat list) \<Rightarrow> bool" where
  "chains h fs c \<longleftrightarrow> (\<forall>i. fifo_chain h (fs i) (c i)) \<and> (\<forall>i j. i \<noteq> j \<longrightarrow> set (c i) \<inter> set (c j) = {})"

definition fifo_holds :: "'a fifo_world \<Rightarrow> (nat \<Rightarrow> 'a list) \<Rightarrow> bool" where
  "fifo_holds w q \<longleftrightarrow> (\<exists>c. chains (fst w) (snd w) c \<and> (\<forall>i. chain_values (fst w) (c i) = q i))"

text \<open>One queue's chain is replaced; the others keep theirs when the nodes outside the old chain are kept.\<close>

lemma chains_update:
  assumes "chains h fs c" "\<And>i. chain_values h (c i) = q i" "fifo_chain h' f' rs" "chain_values h' rs = vs"
    "\<And>r. \<lbrakk>r \<notin> set (c i); r < fresh h\<rbrakk> \<Longrightarrow> cells h' r = cells h r" "fresh h \<le> fresh h'"
    "\<And>r. r \<in> set rs \<Longrightarrow> r \<in> set (c i) \<or> fresh h \<le> r"
  shows "fifo_holds (h', fs(i := f')) (q(i := vs))"
proof -
  have old: "r < fresh h" if "r \<in> set (c j)" for r j
    using assms(1) that by (auto simp: chains_def fifo_chain_def list_all_iff)
  have apart: "r \<notin> set (c i)" if "r \<in> set (c j)" "j \<noteq> i" for r j
    using assms(1) that by (fastforce simp: chains_def)
  have kept: "cells h' r = cells h r" if "r \<in> set (c j)" "j \<noteq> i" for r j
    using assms(5) apart [OF that] old [OF that(1)] by blast
  have "fifo_chain h' (fs j) (c j)" if "j \<noteq> i" for j
    using fifo_chain_cong [of h "fs j" "c j" h'] assms(1,6) kept [OF _ that] by (simp add: chains_def)
  moreover have "set rs \<inter> set (c j) = {}" if "j \<noteq> i" for j
    using assms(7) apart [OF _ that] old [of _ j] by fastforce
  ultimately have "chains h' (fs(i := f')) (c(i := rs))"
    using assms(1,3) by (auto simp: chains_def)
  moreover have "chain_values h' (c j) = q j" if "j \<noteq> i" for j
    using chain_values_cong [of "c j" h' h] kept [OF _ that] assms(2) by simp
  ultimately show ?thesis using assms(4) by (auto simp: fifo_holds_def intro!: exI [of _ "c(i := rs)"])
qed

lemma fifo_step_holds:
  assumes "fifo_holds w q"
  shows "\<exists>w'. fifo_step p w = Some (fst (list_queue p q), w') \<and> fifo_holds w' (snd (list_queue p q))"
proof -
  obtain h fs where w: "w = (h, fs)" by (cases w)
  obtain c where c: "chains h fs c" and q: "\<And>i. chain_values h (c i) = q i" using assms by (auto simp: fifo_holds_def w)
  have f: "fifo_chain h (fs i) (c i)" for i using c by (simp add: chains_def)
  show ?thesis
  proof (cases p)
    case (Q_put i v)
    obtain h' f' where put: "Put v h (fs i) = Some (h', f')" "fifo_chain h' f' (c i @ [fresh h])"
      "chain_values h' (c i @ [fresh h]) = q i @ [v]" "fresh h' = fresh h + 1"
      "\<And>r. \<lbrakk>r \<notin> set (c i); r \<noteq> fresh h\<rbrakk> \<Longrightarrow> cells h' r = cells h r"
      using Put_chain [OF f, of v i] q by auto
    have "fifo_holds (h', fs(i := f')) (q(i := q i @ [v]))"
      by (rule chains_update [OF c q put(2,3)]) (use put(4,5) in auto)
    then show ?thesis using put(1) by (simp add: Q_put w)
  next
    case (Q_get i)
    show ?thesis
    proof (cases "c i")
      case Nil
      then have "q i = []" using q [of i] by (simp add: chain_values_def)
      moreover have "Get h (fs i) = Some (None, h, fs i)" using Get_empty f [of i] Nil by metis
      ultimately show ?thesis using assms by (simp add: Q_get w got_value_def)
    next
      case (Cons r rs)
      obtain h' f' where get: "Get h (fs i) = Some (Some r, h', f')" "fifo_chain h' f' rs"
        "chain_values h' (r # rs) = q i" "fresh h' = fresh h" "\<And>r'. r' \<noteq> r \<Longrightarrow> cells h' r' = cells h r'"
        using Get_chain [of h "fs i" r rs] f [of i] Cons q [of i] by auto
      obtain n where n: "cells h r = Some n" using f [of i] Cons chain_defined [of h _ "c i" r] by (auto simp: fifo_chain_def)
      have n': "\<exists>n'. cells h' r = Some n'" using get(1) n by (auto simp: Get_def set_next_def split: option.splits)
      have qi: "q i = Value (the (cells h' r)) # chain_values h' rs" using get(3) by (simp add: chain_values_def)
      have "fifo_holds (h', fs(i := f')) (q(i := chain_values h' rs))"
        by (rule chains_update [OF c q get(2)]) (use get(4,5) Cons in auto)
      then show ?thesis using get(1) n' qi by (auto simp: Q_get w got_value_def)
    qed
  next
    case (Q_empty i)
    have "IsEmpty (fs i) \<longleftrightarrow> q i = []"
      using f [of i] q [of i] by (cases "c i") (auto simp: IsEmpty_def fifo_chain_def chain_values_def)
    then show ?thesis using assms by (simp add: Q_empty w)
  qed
qed

interpretation fifo_store: queue_store fifo_holds fifo_step
  by unfold_locales (rule fifo_step_holds)

definition no_nodes :: "'a node_heap" where
  "no_nodes = \<lparr>cells = (\<lambda>_. None), fresh = 0\<rparr>"

lemma new_fifos_hold: "fifo_holds (no_nodes, \<lambda>_. NewFifo) (\<lambda>_. [])"
  by (auto simp: fifo_holds_def chains_def fifo_chain_def chain_values_def NewFifo_def intro!: exI [of _ "\<lambda>_. []"])

text \<open>
  Property C17. Any number of queues of fifo.go, created empty and used in any interleaving, answer every
  sequence of \<^verbatim>\<open>Put\<close>, \<^verbatim>\<open>Get\<close> and \<^verbatim>\<open>IsEmpty\<close> calls exactly as independent list queues do, no call meets a dangling
  pointer, and the pointer structure reached still represents those lists: what each queue has handed
  out, followed by what it still holds, is what was put into it, in that order.
\<close>

theorem fifo_refines_list_queue:
  "\<exists>w. run_queue fifo_step ps (no_nodes, \<lambda>_. NewFifo) = Some (fst (list_queues ps (\<lambda>_. [])), w)
     \<and> fifo_holds w (snd (list_queues ps (\<lambda>_. [])))
     \<and> (\<forall>i. got_values i ps (fst (list_queues ps (\<lambda>_. []))) @ snd (list_queues ps (\<lambda>_. [])) i = put_values i ps)"
  using fifo_store.run_holds [OF new_fifos_hold, of ps] list_queues_order [of _ ps "\<lambda>_. []"] by simp

end
