(* ===== verification/Sippy_Prelude.thy ===== *)
theory Sippy_Prelude
  imports Main "HOL-Library.Monad_Syntax"
begin

text \<open>
  Shared vocabulary of the development: the simp collections the component
  theories feed, results of fallible calls, the parts of Go's string and
  strconv packages the sources use, and the interfaces (locales) that several
  components implement: keyed tables, two-generation caches, emitters of
  sequenced events and transition systems with an invariant.
\<close>

section \<open>Collections\<close>

named_theorems hdr_simps \<open>accessors of parsed header bodies\<close>
named_theorems msg_simps \<open>construction and projection of SIP messages\<close>
named_theorems tm_simps \<open>unfolding of the transaction manager's tables\<close>
named_theorems tx_simps \<open>unfolding of the transaction primitives\<close>
named_theorems ua_simps \<open>unfolding of the user agent's primitive operations\<close>

section \<open>Results\<close>

text \<open>
  A Go call that returns \<open>(value, error)\<close> is a sum with the error text on the left.
  A nil dereference inside such a call unwinds to the enclosing SafeCall without
  further effects of the caller; it is the error \<open>nil_panic\<close>.
\<close>

type_synonym 'a result = "string + 'a"

definition nil_panic :: string where
  "nil_panic = ''runtime error: invalid memory address or nil pointer dereference''"

definition bind_result :: "'a result \<Rightarrow> ('a \<Rightarrow> 'b result) \<Rightarrow> 'b result" where
  "bind_result r f = (case r of Inl e \<Rightarrow> Inl e | Inr x \<Rightarrow> f x)"

lemma bind_result_simps [simp]:
  "bind_result (Inl e) f = Inl e"
  "bind_result (Inr x) f = f x"
  by (simp_all add: bind_result_def)

lemma bind_result_Inr_iff:
  "bind_result r f = Inr y \<longleftrightarrow> (\<exists>x. r = Inr x \<and> f x = Inr y)"
  by (cases r) auto

lemma bind_result_split:
  "P (bind_result r f) \<longleftrightarrow> (\<forall>e. r = Inl e \<longrightarrow> P (Inl e)) \<and> (\<forall>x. r = Inr x \<longrightarrow> P (f x))"
  by (cases r) auto

definition of_option :: "'a option \<Rightarrow> 'a result" where
  "of_option x = (case x of None \<Rightarrow> Inl nil_panic | Some y \<Rightarrow> Inr y)"

lemma of_option_simps [simp]:
  "of_option None = Inl nil_panic"
  "of_option (Some y) = Inr y"
  by (simp_all add: of_option_def)

lemma of_option_Inr_iff [simp]: "of_option x = Inr y \<longleftrightarrow> x = Some y"
  by (cases x) auto

text \<open>A loop over a list that stops at the first failing element.\<close>

fun map_result :: "('a \<Rightarrow> 'b result) \<Rightarrow> 'a list \<Rightarrow> 'b list result" where
  "map_result f [] = Inr []"
| "map_result f (x # xs) =
     bind_result (f x) (\<lambda>y. bind_result (map_result f xs) (\<lambda>ys. Inr (y # ys)))"

lemma map_result_Inr_list_all2:
  "map_result f xs = Inr ys \<Longrightarrow> list_all2 (\<lambda>x y. f x = Inr y) xs ys"
  by (induction xs arbitrary: ys) (auto simp: bind_result_Inr_iff)

lemma map_result_Inr_length: "map_result f xs = Inr ys \<Longrightarrow> length ys = length xs"
  by (drule map_result_Inr_list_all2) (simp add: list_all2_lengthD)

lemma map_filter_append [simp]: "List.map_filter f (xs @ ys) = List.map_filter f xs @ List.map_filter f ys"
  by (simp add: List.map_filter_def)

section \<open>Strings\<close>

text \<open>Go strings are byte strings. \<open>Itoa\<close> and \<open>Atoi\<close> are strconv's decimal conversions
  on the 64-bit \<open>int\<close>.\<close>

fun nat_digits :: "nat \<Rightarrow> string" where
  "nat_digits n = (if n < 10 then [char_of (48 + n)]
     else nat_digits (n div 10) @ [char_of (48 + n mod 10)])"

declare nat_digits.simps [simp del]

definition Itoa :: "int \<Rightarrow> string" where
  "Itoa i = (if i < 0 then CHR ''-'' # nat_digits (nat (- i)) else nat_digits (nat i))"

definition is_digit :: "char \<Rightarrow> bool" where
  "is_digit c \<longleftrightarrow> 48 \<le> (of_char c :: nat) \<and> (of_char c :: nat) \<le> 57"

fun digits_val :: "nat \<Rightarrow> string \<Rightarrow> nat option" where
  "digits_val acc [] = Some acc"
| "digits_val acc (c # cs) =
     (if is_digit c then digits_val (10 * acc + (of_char c - 48)) cs else None)"

definition int64_min :: int where "int64_min = - (2 ^ 63)"
definition int64_max :: int where "int64_max = 2 ^ 63 - 1"

text \<open>\<open>strconv.Atoi\<close>: the value and whether the conversion succeeded. Without digits, or
  with a byte that is no digit, the value is 0; out of range it is the nearest bound.\<close>

definition Atoi_value :: "string \<Rightarrow> int \<times> bool" where
  "Atoi_value s =
     (let (neg, ds) = (case s of [] \<Rightarrow> (False, [])
                        | c # cs \<Rightarrow> if c = CHR ''-'' then (True, cs)
                                    else if c = CHR ''+'' then (False, cs) else (False, s))
      in if ds = [] then (0, False)
         else (case digits_val 0 ds of None \<Rightarrow> (0, False)
               | Some n \<Rightarrow> let v = (if neg then - int n else int n)
                           in if v < int64_min then (int64_min, False)
                              else if int64_max < v then (int64_max, False) else (v, True)))"

definition Atoi :: "string \<Rightarrow> int option" where
  "Atoi s = (if snd (Atoi_value s) then Some (fst (Atoi_value s)) else None)"

text \<open>\<open>strings.Split(s, sep)\<close> for a one-byte separator: always at least one piece.\<close>

fun go_split :: "char \<Rightarrow> string \<Rightarrow> string list" where
  "go_split sep [] = [[]]"
| "go_split sep (c # cs) =
     (if c = sep then [] # go_split sep cs
      else (case go_split sep cs of [] \<Rightarrow> [[c]] | p # ps \<Rightarrow> (c # p) # ps))"

lemma go_split_not_Nil [simp]: "go_split sep s \<noteq> []"
  by (induction s) (auto split: list.splits)

text \<open>
  \<open>strings.TrimSpace\<close>: Unicode white space at both ends, as UTF-8 bytes. The one-byte
  cases are ASCII; the others are U+0085, U+00A0, U+1680, U+2000..U+200A, U+2028,
  U+2029, U+202F, U+205F and U+3000.
\<close>

definition ascii_space :: "char \<Rightarrow> bool" where
  "ascii_space c \<longleftrightarrow> (let n = (of_char c :: nat) in n = 32 \<or> (9 \<le> n \<and> n \<le> 13))"

definition wide_space2 :: "char \<Rightarrow> char \<Rightarrow> bool" where
  "wide_space2 a b \<longleftrightarrow> (of_char a :: nat) = 194 \<and> (of_char b :: nat) \<in> {133, 160}"

definition wide_space3 :: "char \<Rightarrow> char \<Rightarrow> char \<Rightarrow> bool" where
  "wide_space3 a b c \<longleftrightarrow>
     (let x = (of_char a :: nat); y = (of_char b :: nat); z = (of_char c :: nat)
      in (x = 225 \<and> y = 154 \<and> z = 128)
       \<or> (x = 226 \<and> y = 128 \<and> ((128 \<le> z \<and> z \<le> 138) \<or> z \<in> {168, 169, 175}))
       \<or> (x = 226 \<and> y = 129 \<and> z = 159)
       \<or> (x = 227 \<and> y = 128 \<and> z = 128))"

fun trim_left :: "string \<Rightarrow> string" where
  "trim_left [] = []"
| "trim_left (a # s) =
     (if ascii_space a then trim_left s
      else (case s of
        [] \<Rightarrow> [a]
      | b # t \<Rightarrow>
          if wide_space2 a b then trim_left t
          else (case t of [] \<Rightarrow> a # s
                | c # u \<Rightarrow> if wide_space3 a b c then trim_left u else a # s)))"

text \<open>The same scan from the right end, on the reversed string.\<close>

fun trim_left_rev :: "string \<Rightarrow> string" where
  "trim_left_rev [] = []"
| "trim_left_rev (a # s) =
     (if ascii_space a then trim_left_rev s
      else (case s of
        [] \<Rightarrow> [a]
      | b # t \<Rightarrow>
          if wide_space2 b a then trim_left_rev t
          else (case t of [] \<Rightarrow> a # s
                | c # u \<Rightarrow> if wide_space3 c b a then trim_left_rev u else a # s)))"

definition TrimSpace :: "string \<Rightarrow> string" where
  "TrimSpace s = rev (trim_left_rev (rev (trim_left s)))"

section \<open>Maps used as tables\<close>

text \<open>What every table of the transaction manager promises its users.\<close>

locale keyed_table =
  fixes look :: "'t \<Rightarrow> 'k \<Rightarrow> 'v option"
    and put :: "'k \<Rightarrow> 'v \<Rightarrow> 't \<Rightarrow> 't"
    and del :: "'k \<Rightarrow> 't \<Rightarrow> 't"
  assumes look_put: "look (put k v t) k' = (if k' = k then Some v else look t k')"
    and look_del: "look (del k t) k' = (if k' = k then None else look t k')"
begin

lemma put_then_look: "look (put k v t) k = Some v"
  by (simp add: look_put)

lemma del_then_look: "look (del k t) k = None"
  by (simp add: look_del)

text \<open>Re-keying an entry: the old key is gone, the new one finds the entry, others are untouched.\<close>

lemma rekey_look:
  "look (put k' v (del k t)) j = (if j = k' then Some v else if j = k then None else look t j)"
  by (simp add: look_put look_del)

lemma del_commute_look: "look (del k (del k' t)) j = look (del k' (del k t)) j"
  by (simp add: look_del)

end

section \<open>Two-generation caches\<close>

text \<open>
  A cache with a young and an old generation: lookups try the young one first,
  a rotation drops the old generation and ages the young one. The retransmission
  cache of the transaction manager and the remote-to-local address cache both work so.
\<close>

locale two_generation_cache =
  fixes young :: "'t \<Rightarrow> 'k \<Rightarrow> 'v option"
    and old :: "'t \<Rightarrow> 'k \<Rightarrow> 'v option"
    and look :: "'t \<Rightarrow> 'k \<Rightarrow> 'v option"
    and put :: "'k \<Rightarrow> 'v \<Rightarrow> 't \<Rightarrow> 't"
    and rotate :: "'t \<Rightarrow> 't"
  assumes look_def': "look t k = (case young t k of Some v \<Rightarrow> Some v | None \<Rightarrow> old t k)"
    and young_put: "young (put k v t) k' = (if k' = k then Some v else young t k')"
    and old_put: "old (put k v t) k' = old t k'"
    and young_rotate: "young (rotate t) k = None"
    and old_rotate: "old (rotate t) k = young t k"
begin

lemma look_after_put: "look (put k v t) k' = (if k' = k then Some v else look t k')"
  by (simp add: look_def' young_put old_put split: option.splits)

lemma look_after_rotate: "look (rotate t) k = young t k"
  by (simp add: look_def' young_rotate old_rotate)

lemma put_survives_one_rotation: "look (rotate (put k v t)) k = Some v"
  by (simp add: look_after_rotate young_put)

lemma two_rotations_forget: "look (rotate (rotate t)) k = None"
  by (simp add: look_after_rotate young_rotate)

end

section \<open>Transition systems\<close>

inductive reach :: "('s \<Rightarrow> bool) \<Rightarrow> ('s \<Rightarrow> 's \<Rightarrow> bool) \<Rightarrow> 's \<Rightarrow> bool" for init step where
  reach_init: "init s \<Longrightarrow> reach init step s"
| reach_step: "reach init step s \<Longrightarrow> step s t \<Longrightarrow> reach init step t"

locale invariant_system =
  fixes init :: "'s \<Rightarrow> bool" and step :: "'s \<Rightarrow> 's \<Rightarrow> bool" and inv :: "'s \<Rightarrow> bool"
  assumes inv_init: "init s \<Longrightarrow> inv s"
    and inv_step: "inv s \<Longrightarrow> step s t \<Longrightarrow> inv t"
begin

lemma reach_inv: "reach init step s \<Longrightarrow> inv s"
  by (induction rule: reach.induct) (auto intro: inv_init inv_step)

end

section \<open>Objects with a life cycle\<close>

text \<open>
  A sequence of operations on an object and its environment, and what an object promises
  that is detached for good by a clean-up: it has no running timer and every operation
  leaves object and environment alone.
\<close>

definition run_ops :: "('x \<Rightarrow> 's \<Rightarrow> 'x \<times> 's) list \<Rightarrow> 'x \<times> 's \<Rightarrow> 'x \<times> 's" where
  "run_ops fs z = fold (\<lambda>f (x, s). f x s) fs z"

locale life_cycle =
  fixes alive :: "'x \<Rightarrow> bool"
    and timers :: "'x \<Rightarrow> bool"
    and clean :: "'x \<Rightarrow> 'x"
    and ops :: "('x \<Rightarrow> 's \<Rightarrow> 'x \<times> 's) set"
  assumes clean_dead: "\<not> alive (clean x)"
    and clean_timers: "\<not> timers (clean x)"
    and dead_op: "f \<in> ops \<Longrightarrow> \<not> alive x \<Longrightarrow> f x s = (x, s)"
begin

lemma dead_run: "set fs \<subseteq> ops \<Longrightarrow> \<not> alive x \<Longrightarrow> run_ops fs (x, s) = (x, s)"
  by (induction fs) (auto simp: run_ops_def dead_op)

lemma cleaned_run: "set fs \<subseteq> ops \<Longrightarrow> run_ops fs (clean x, s) = (clean x, s)"
  by (simp add: dead_run clean_dead)

end

end
