(* ===== verification/Sippy_Time.thy ===== *)
theory Sippy_Time
  imports Sippy_Prelude
begin

text \<open>
  Time stamps of \<^verbatim>\<open>sippy/time/monotime.go\<close>: a monotonic and a wall-clock instant, both
  in nanoseconds since their epochs, and the arithmetic the call logic uses. Reading the
  clocks is input of the model: every operation that calls \<open>NewMonoTime\<close> takes the
  reading as an argument. Durations are nanosecond counts, as Go's \<open>time.Duration\<close>.
\<close>

type_synonym duration = int

definition second :: duration where "second = 1000000000"
definition millisecond :: duration where "millisecond = 1000000"

text \<open>The wrap-around of 64-bit numbers, and a number of seconds as a duration.\<close>

definition wrap64 :: "int \<Rightarrow> int" where
  "wrap64 x = (x + 2 ^ 63) mod 2 ^ 64 - 2 ^ 63"

definition seconds :: "int \<Rightarrow> duration" where
  "seconds v = wrap64 (v * second)"

record monotime =
  monot :: int
  realt :: int

definition mt_Add :: "monotime \<Rightarrow> duration \<Rightarrow> monotime" where
  "mt_Add t d = \<lparr>monot = monot t + d, realt = realt t + d\<rparr>"

definition mt_Sub :: "monotime \<Rightarrow> monotime \<Rightarrow> duration" where
  "mt_Sub t u = monot t - monot u"

definition mt_After :: "monotime \<Rightarrow> monotime \<Rightarrow> bool" where
  "mt_After t u \<longleftrightarrow> monot u < monot t"

definition mt_Before :: "monotime \<Rightarrow> monotime \<Rightarrow> bool" where
  "mt_Before t u \<longleftrightarrow> monot t < monot u"

definition mt_GetOffsetCopy :: "monotime \<Rightarrow> duration \<Rightarrow> monotime" where
  "mt_GetOffsetCopy t d = \<lparr>monot = monot t + d, realt = realt t + d\<rparr>"

lemmas mt_defs = mt_Add_def mt_Sub_def mt_After_def mt_Before_def mt_GetOffsetCopy_def

lemma mt_Sub_Add [simp]: "mt_Sub (mt_Add t d) t = d"
  by (simp add: mt_defs)

lemma mt_After_asym: "mt_After t u \<Longrightarrow> \<not> mt_After u t"
  by (simp add: mt_defs)

lemma mt_After_Before [simp]: "mt_Before u t \<longleftrightarrow> mt_After t u"
  by (simp add: mt_defs)

lemma mt_Sub_nonneg: "\<not> mt_After u t \<longleftrightarrow> 0 \<le> mt_Sub t u"
  by (auto simp: mt_defs)

end
