(* ===== verification/Sippy_Headers.thy ===== *)
theory Sippy_Headers
  imports Sippy_Time Complex_Main
begin

text \<open>
  Addresses and header bodies: \<^verbatim>\<open>sippy/net/hostport.go\<close> and the structures of
  \<^verbatim>\<open>sippy/headers\<close> that the transaction layer and the user agent read and write
  (URLs, name-addresses, Via, CSeq, RAck, numeric headers, tag lists and the two
  transaction identifiers). A header whose body is parsed on demand is a result: the
  text of the parse error, or the parsed body. Copies made by the \<open>GetCopy\<close> methods are
  the same value here. A quality value is a rational number.
\<close>

section \<open>Host and port\<close>

record my_address =
  is_system :: bool
  ma_address :: string

record my_port =
  port_is_system :: bool
  mp_port :: string

definition normalize :: "string \<Rightarrow> string" where
  "normalize a =
     (if a = [] then a
      else if hd a \<noteq> CHR ''['' \<and> (CHR '':'' \<in> set a \<or> CHR ''%'' \<in> set a)
      then ''['' @ a @ '']'' else a)"

definition NewMyAddress :: "string \<Rightarrow> my_address" where
  "NewMyAddress a = \<lparr>is_system = False, ma_address = normalize a\<rparr>"

definition NewSystemAddress :: "string \<Rightarrow> my_address" where
  "NewSystemAddress a = \<lparr>is_system = True, ma_address = normalize a\<rparr>"

definition NewMyPort :: "string \<Rightarrow> my_port" where
  "NewMyPort p = \<lparr>port_is_system = False, mp_port = p\<rparr>"

definition NewSystemPort :: "string \<Rightarrow> my_port" where
  "NewSystemPort p = \<lparr>port_is_system = True, mp_port = p\<rparr>"

record host_port =
  hp_Host :: my_address
  hp_Port :: my_port

definition NewHostPort :: "string \<Rightarrow> string \<Rightarrow> host_port" where
  "NewHostPort h p = \<lparr>hp_Host = NewMyAddress h, hp_Port = NewMyPort p\<rparr>"

definition host_string :: "host_port \<Rightarrow> string" where
  "host_string hp = ma_address (hp_Host hp)"

definition port_string :: "host_port \<Rightarrow> string" where
  "port_string hp = mp_port (hp_Port hp)"

definition HostPort_String :: "host_port option \<Rightarrow> string" where
  "HostPort_String hp =
     (case hp of None \<Rightarrow> ''nil'' | Some h \<Rightarrow> host_string h @ '':'' @ port_string h)"

lemma normalize_idem [simp]: "normalize (normalize a) = normalize a"
  by (simp add: normalize_def)

section \<open>Configuration read by the modelled code\<close>

record sippy_config =
  cfg_MyAddress :: my_address
  cfg_MyPort :: my_port
  cfg_DefaultPort :: my_port
  cfg_SipPort :: my_port
  cfg_MyUAName :: string

section \<open>SIP URLs\<close>

record sip_url =
  url_Username :: string
  url_Password :: string
  url_Ttl :: int
  url_Host :: my_address
  url_Port :: "my_port option"
  url_Usertype :: string
  url_Transport :: string
  url_Maddr :: string
  url_Method :: string
  url_Tag :: string
  url_Lr :: bool
  url_Other :: "string list"
  url_Userparams :: "string list"
  url_Headers :: "string \<rightharpoonup> string"
  url_Scheme :: string

definition NewSipURL :: "string \<Rightarrow> my_address \<Rightarrow> my_port option \<Rightarrow> bool \<Rightarrow> sip_url" where
  "NewSipURL username host prt lr =
     \<lparr>url_Username = username, url_Password = [], url_Ttl = -1, url_Host = host,
      url_Port = prt, url_Usertype = [], url_Transport = [], url_Maddr = [],
      url_Method = [], url_Tag = [], url_Lr = lr, url_Other = [], url_Userparams = [],
      url_Headers = Map.empty, url_Scheme = ''sip''\<rparr>"

definition url_GetAddr :: "sippy_config \<Rightarrow> sip_url \<Rightarrow> host_port" where
  "url_GetAddr cfg u =
     (case url_Port u of
        Some p \<Rightarrow> NewHostPort (ma_address (url_Host u)) (mp_port p)
      | None \<Rightarrow> NewHostPort (ma_address (url_Host u)) (mp_port (cfg_DefaultPort cfg)))"

section \<open>Name-addresses\<close>

record sip_address =
  adr_params :: "string \<rightharpoonup> string option"
  adr_url :: sip_url
  adr_hadbrace :: bool
  adr_name :: string
  adr_q :: rat

definition NewSipAddress :: "string \<Rightarrow> sip_url \<Rightarrow> sip_address" where
  "NewSipAddress name url =
     \<lparr>adr_params = Map.empty, adr_url = url, adr_hadbrace = True, adr_name = name, adr_q = 1\<rparr>"

definition GetParam :: "string \<Rightarrow> sip_address \<Rightarrow> string" where
  "GetParam k a = (case adr_params a k of None \<Rightarrow> [] | Some None \<Rightarrow> [] | Some (Some v) \<Rightarrow> v)"

definition SetParam :: "string \<Rightarrow> string \<Rightarrow> sip_address \<Rightarrow> sip_address" where
  "SetParam k v a = a\<lparr>adr_params := (adr_params a)(k \<mapsto> Some v)\<rparr>"

definition GetTag :: "sip_address \<Rightarrow> string" where
  "GetTag a = GetParam ''tag'' a"

definition SetTag :: "string \<Rightarrow> sip_address \<Rightarrow> sip_address" where
  "SetTag t a = SetParam ''tag'' t a"

text \<open>A header made of one address (From, To, Contact, Route, \<dots>): parsed on demand.\<close>

type_synonym address_hf = "sip_address result"

definition NewSipContactFromHostPort :: "my_address \<Rightarrow> my_port \<Rightarrow> sip_address" where
  "NewSipContactFromHostPort h p =
     NewSipAddress ''Anonymous'' (NewSipURL [] h (Some p) False)"

definition NewSipContact :: "sippy_config \<Rightarrow> sip_address" where
  "NewSipContact cfg = NewSipContactFromHostPort (cfg_MyAddress cfg) (cfg_MyPort cfg)"

text \<open>\<open>NewSipFrom\<close> and \<open>NewSipTo\<close> with a nil address fall back to an anonymous local address.\<close>

definition NewSipFrom :: "sippy_config \<Rightarrow> sip_address option \<Rightarrow> address_hf" where
  "NewSipFrom cfg a = (case a of Some x \<Rightarrow> Inr x
     | None \<Rightarrow> Inr (NewSipAddress ''Anonymous''
          (NewSipURL [] (cfg_MyAddress cfg) (Some (cfg_MyPort cfg)) False)))"

lemma GetParam_SetParam [hdr_simps, simp]:
  "GetParam k (SetParam k' v a) = (if k = k' then v else GetParam k a)"
  by (simp add: GetParam_def SetParam_def)

lemma GetTag_SetTag [hdr_simps, simp]: "GetTag (SetTag t a) = t"
  by (simp add: GetTag_def SetTag_def)

lemma adr_url_SetTag [hdr_simps, simp]: "adr_url (SetTag t a) = adr_url a"
  by (simp add: SetTag_def SetParam_def)

section \<open>Via\<close>

record via_body =
  via_sipver :: string
  via_host :: my_address
  via_port :: "my_port option"
  via_extra_headers :: string
  via_received :: "string option"
  via_rport :: "string option"
  via_ttl :: "string option"
  via_maddr :: "string option"
  via_branch :: "string option"
  via_extension :: "string option"
  via_received_exists :: bool
  via_rport_exists :: bool
  via_ttl_exists :: bool
  via_maddr_exists :: bool
  via_branch_exists :: bool
  via_extension_exists :: bool

type_synonym via_hf = "via_body result"

definition newSipViaBody :: "sippy_config \<Rightarrow> via_body" where
  "newSipViaBody cfg =
     \<lparr>via_sipver = ''SIP/2.0/UDP'', via_host = cfg_MyAddress cfg,
      via_port = Some (cfg_DefaultPort cfg), via_extra_headers = [],
      via_received = None, via_rport = None, via_ttl = None, via_maddr = None,
      via_branch = None, via_extension = None,
      via_received_exists = False, via_rport_exists = True, via_ttl_exists = False,
      via_maddr_exists = False, via_branch_exists = False, via_extension_exists = False\<rparr>"

text \<open>The argument of \<open>GenBranch\<close> is the hex encoding of the sixteen random bytes drawn.\<close>

definition GenBranch :: "string \<Rightarrow> via_body \<Rightarrow> via_body" where
  "GenBranch rnd v = v\<lparr>via_branch := Some (''z9hG4bK'' @ rnd), via_branch_exists := True\<rparr>"

definition GetBranch :: "via_body \<Rightarrow> string" where
  "GetBranch v =
     (if via_branch_exists v then (case via_branch v of Some b \<Rightarrow> b | None \<Rightarrow> []) else [])"

definition via_GetAddr :: "sippy_config \<Rightarrow> via_body \<Rightarrow> string \<times> string" where
  "via_GetAddr cfg v =
     (case via_port v of
        None \<Rightarrow> (ma_address (via_host v), mp_port (cfg_DefaultPort cfg))
      | Some p \<Rightarrow> (ma_address (via_host v), mp_port p))"

definition GetTAddr :: "sippy_config \<Rightarrow> via_body \<Rightarrow> host_port" where
  "GetTAddr cfg v =
     (let rport = (if via_rport_exists v \<and> via_rport v \<noteq> None then the (via_rport v)
                   else snd (via_GetAddr cfg v));
          host = (if via_received_exists v \<and> via_received v \<noteq> None then the (via_received v)
                  else fst (via_GetAddr cfg v))
      in NewHostPort host rport)"

definition SetRport :: "string option \<Rightarrow> via_body \<Rightarrow> via_body" where
  "SetRport p v = v\<lparr>via_rport_exists := True, via_rport := p\<rparr>"

definition SetReceived :: "string \<Rightarrow> via_body \<Rightarrow> via_body" where
  "SetReceived h v = v\<lparr>via_received_exists := True, via_received := Some h\<rparr>"

definition HasRport :: "via_body \<Rightarrow> bool" where
  "HasRport v = via_rport_exists v"

lemma GetBranch_GenBranch [hdr_simps, simp]: "GetBranch (GenBranch r v) = ''z9hG4bK'' @ r"
  by (simp add: GetBranch_def GenBranch_def)

lemma GetBranch_SetRport [hdr_simps, simp]: "GetBranch (SetRport p v) = GetBranch v"
  by (simp add: GetBranch_def SetRport_def)

lemma GetBranch_SetReceived [hdr_simps, simp]: "GetBranch (SetReceived h v) = GetBranch v"
  by (simp add: GetBranch_def SetReceived_def)

section \<open>CSeq, RAck and numeric headers\<close>

record cseq_body =
  CSeq_num :: int
  CSeq_Method :: string

record rack_body =
  RAck_CSeq :: int
  RAck_RSeq :: int
  RAck_Method :: string

text \<open>
  Numeric headers (RSeq, Max-Forwards, Expires, Content-Length) keep the text until it is
  parsed; before that \<open>Number\<close> is zero, and some code reads \<open>Number\<close> directly.
\<close>

record numeric_hf =
  string_body :: string
  Number :: int
  parsed :: bool

definition newSipNumericHF :: "int \<Rightarrow> numeric_hf" where
  "newSipNumericHF n = \<lparr>string_body = [], Number = n, parsed = True\<rparr>"

definition createSipNumericHF :: "string \<Rightarrow> numeric_hf" where
  "createSipNumericHF s = \<lparr>string_body = s, Number = 0, parsed = False\<rparr>"

text \<open>\<open>GetBody\<close> parses in place: the header after the call and the call's result. A failed
  \<open>Atoi\<close> assigns its value to \<open>Number\<close> too.\<close>

definition numeric_GetBody :: "numeric_hf \<Rightarrow> numeric_hf \<times> int result" where
  "numeric_GetBody h =
     (if parsed h then (h, Inr (Number h))
      else (case Atoi_value (string_body h) of
              (n, False) \<Rightarrow> (h\<lparr>Number := n\<rparr>, Inl (''strconv.Atoi: parsing '' @ string_body h))
            | (n, True) \<Rightarrow> (h\<lparr>Number := n, parsed := True\<rparr>, Inr n)))"

definition numeric_StringBody :: "numeric_hf \<Rightarrow> string" where
  "numeric_StringBody h = (if parsed h then Itoa (Number h) else string_body h)"

lemma numeric_GetBody_idem:
  "numeric_GetBody h = (h', Inr n) \<Longrightarrow> numeric_GetBody h' = (h', Inr n) \<and> Number h' = n"
  by (auto simp: numeric_GetBody_def split: if_splits prod.splits bool.splits)

section \<open>Tag lists (Require, Supported)\<close>

definition newTagListBody :: "string \<Rightarrow> string list" where
  "newTagListBody body = map TrimSpace (go_split (CHR '','') body)"

definition HasTag :: "string \<Rightarrow> string \<Rightarrow> bool" where
  "HasTag body tag = (tag \<in> set (newTagListBody body))"

section \<open>Transaction identifiers\<close>

record tid =
  tid_CallId :: string
  tid_CSeq :: string
  tid_CSeqMethod :: string
  tid_FromTag :: string
  tid_ToTag :: string
  tid_Branch :: string

definition NewTID :: "string \<Rightarrow> string \<Rightarrow> string \<Rightarrow> string \<Rightarrow> string \<Rightarrow> string \<Rightarrow> tid" where
  "NewTID call_id cseq cseq_method from_tag to_tag via_br =
     \<lparr>tid_CallId = call_id, tid_CSeq = cseq, tid_CSeqMethod = cseq_method,
      tid_FromTag = from_tag, tid_ToTag = to_tag, tid_Branch = via_br\<rparr>"

record rtid =
  rtid_CallId :: string
  rtid_FromTag :: string
  rtid_RSeq :: int
  rtid_CSeq :: int
  rtid_Method :: string

definition NewRTID :: "string \<Rightarrow> string \<Rightarrow> int \<Rightarrow> int \<Rightarrow> string \<Rightarrow> rtid" where
  "NewRTID call_id from_tag rseq cseq method =
     \<lparr>rtid_CallId = call_id, rtid_FromTag = from_tag, rtid_RSeq = rseq,
      rtid_CSeq = cseq, rtid_Method = method\<rparr>"

lemma NewTID_inject [simp]:
  "NewTID a b c d e f = NewTID a' b' c' d' e' f' \<longleftrightarrow>
     a = a' \<and> b = b' \<and> c = c' \<and> d = d' \<and> e = e' \<and> f = f'"
  by (simp add: NewTID_def)

section \<open>Reason\<close>

text \<open>
  A Reason header made here has a body, a received one only its text: nothing in the library
  parses it, it is passed on as it came.
\<close>

record reason_body =
  rsn_reason :: string
  rsn_cause :: string
  rsn_protocol :: string

record sip_reason =
  rsn_string_body :: string
  rsn_body :: "reason_body option"

definition NewSipReason :: "string \<Rightarrow> string \<Rightarrow> string \<Rightarrow> sip_reason" where
  "NewSipReason protocol cause reason =
     \<lparr>rsn_string_body = [], rsn_body = Some \<lparr>rsn_reason = reason, rsn_cause = cause, rsn_protocol = protocol\<rparr>\<rparr>"

end
