(* ===== verification/Sippy_Text.thy ===== *)
theory Sippy_Text
  imports Sippy_Prelude
begin

text \<open>
  The string functions of the Go library that the header parsers and printers use, on byte
  strings: \<open>strings.SplitN\<close>, \<open>strings.ToLower\<close> and \<open>strings.Title\<close> (for ASCII letters),
  \<open>net.SplitHostPort\<close>, the repository's own \<open>FieldsN\<close> of \<^verbatim>\<open>utils/misc.go\<close> and the URL
  encoding of \<^verbatim>\<open>utils/urlencode.go\<close>, with the lemmas on printing and reading back that the
  round trips of the headers share. An index out of range panics in Go; here it is the error
  \<open>index_panic\<close>.
\<close>

definition index_panic :: string where
  "index_panic = ''runtime error: index out of range''"

named_theorems text_simps

section \<open>Splitting\<close>

text \<open>\<open>strings.SplitN(s, sep, 2)\<close>: the part before the first separator and, if there is one, the rest.\<close>

fun go_cut :: "char \<Rightarrow> string \<Rightarrow> string \<times> string option" where
  "go_cut sep [] = ([], None)"
| "go_cut sep (c # cs) =
     (if c = sep then ([], Some cs) else (case go_cut sep cs of (a, b) \<Rightarrow> (c # a, b)))"

text \<open>The concatenation of the pieces, each behind a separator.\<close>

definition each_after :: "char \<Rightarrow> string list \<Rightarrow> string" where
  "each_after sep ps = concat (map (\<lambda>p. sep # p) ps)"

lemma each_after_simps [simp]:
  "each_after sep [] = []" "each_after sep (p # ps) = sep # p @ each_after sep ps"
  "each_after sep (ps @ qs) = each_after sep ps @ each_after sep qs"
  by (simp_all add: each_after_def)

lemma set_each_after: "set (each_after sep ps) \<subseteq> insert sep (\<Union> (set ` set ps))"
  by (auto simp: each_after_def)

lemma cut_absent [text_simps]: "sep \<notin> set a \<Longrightarrow> go_cut sep a = (a, None)"
  by (induction a) auto

lemma cut_append [text_simps]: "sep \<notin> set a \<Longrightarrow> go_cut sep (a @ sep # b) = (a, Some b)"
  by (induction a) auto

lemma cut_None: "go_cut sep s = (a, None) \<Longrightarrow> a = s \<and> sep \<notin> set s"
  by (induction s arbitrary: a) (auto split: if_splits prod.splits)

lemma cut_Some: "go_cut sep s = (a, Some b) \<Longrightarrow> s = a @ sep # b \<and> sep \<notin> set a"
  by (induction s arbitrary: a) (auto split: if_splits prod.splits)

lemma go_split_absent [text_simps]: "sep \<notin> set a \<Longrightarrow> go_split sep a = [a]"
  by (induction a) auto

lemma go_split_append [text_simps]:
  "sep \<notin> set a \<Longrightarrow> go_split sep (a @ sep # b) = a # go_split sep b"
  by (induction a) (auto split: list.splits)

lemma go_split_each_after [text_simps]:
  "sep \<notin> set a \<Longrightarrow> \<forall>p \<in> set ps. sep \<notin> set p \<Longrightarrow> go_split sep (a @ each_after sep ps) = a # ps"
  by (induction ps arbitrary: a) (auto simp: text_simps)

lemma go_split_pieces: "p \<in> set (go_split sep s) \<Longrightarrow> sep \<notin> set p"
  by (induction s arbitrary: p) (auto split: if_splits list.splits)

text \<open>\<open>strings.Join\<close> with a one-byte separator.\<close>

fun go_join :: "char \<Rightarrow> string list \<Rightarrow> string" where
  "go_join sep [] = []"
| "go_join sep (p # ps) = p @ each_after sep ps"

lemma go_split_join [text_simps]:
  "ps \<noteq> [] \<Longrightarrow> \<forall>p \<in> set ps. sep \<notin> set p \<Longrightarrow> go_split sep (go_join sep ps) = ps"
  by (cases ps) (auto simp: text_simps)

lemma go_join_split: "go_join sep (go_split sep s) = s"
proof (induction s)
  case (Cons c s)
  then show ?case by (cases "go_split sep s") auto
qed simp

section \<open>Letters\<close>

definition lower :: "char \<Rightarrow> char" where
  "lower c = (if 65 \<le> (of_char c :: nat) \<and> (of_char c :: nat) \<le> 90 then char_of (of_char c + 32 :: nat) else c)"

definition upper :: "char \<Rightarrow> char" where
  "upper c = (if 97 \<le> (of_char c :: nat) \<and> (of_char c :: nat) \<le> 122 then char_of (of_char c - 32 :: nat) else c)"

definition ToLower :: "string \<Rightarrow> string" where
  "ToLower s = map lower s"

definition word_char :: "char \<Rightarrow> bool" where
  "word_char c \<longleftrightarrow> (let n = (of_char c :: nat) in
     (48 \<le> n \<and> n \<le> 57) \<or> (65 \<le> n \<and> n \<le> 90) \<or> (97 \<le> n \<and> n \<le> 122) \<or> n = 95 \<or> 128 \<le> n)"

text \<open>\<open>strings.Title\<close>: every letter that does not follow a letter, digit or underscore in upper case.\<close>

fun title_from :: "bool \<Rightarrow> string \<Rightarrow> string" where
  "title_from within [] = []"
| "title_from within (c # cs) = (if within then c else upper c) # title_from (word_char c) cs"

definition Title :: "string \<Rightarrow> string" where
  "Title s = title_from False s"

definition is_lower :: "string \<Rightarrow> bool" where
  "is_lower s \<longleftrightarrow> list_all (\<lambda>c. lower c = c) s"

lemma lower_upper: "lower c = c \<Longrightarrow> lower (upper c) = c"
proof (cases "97 \<le> (of_char c :: nat) \<and> (of_char c :: nat) \<le> 122")
  case True
  then have "(of_char c :: nat) - 32 < 256" by arith
  with True have "(of_char (upper c) :: nat) = of_char c - 32"
    by (simp add: upper_def of_char_of)
  moreover have "65 \<le> (of_char c :: nat) - 32" "(of_char c :: nat) - 32 \<le> 90" "(of_char c :: nat) - 32 + 32 = of_char c"
    using True by arith+
  ultimately show ?thesis by (simp add: lower_def)
qed (auto simp: upper_def)

lemma ToLower_title_from [text_simps]: "is_lower s \<Longrightarrow> ToLower (title_from w s) = s"
  by (induction s arbitrary: w) (auto simp: ToLower_def is_lower_def lower_upper)

lemma ToLower_Title [text_simps]: "is_lower s \<Longrightarrow> ToLower (Title s) = s"
  by (simp add: Title_def text_simps)

section \<open>Decimal numbers\<close>

lemma digits_val_append: "digits_val a (xs @ ys) = Option.bind (digits_val a xs) (\<lambda>b. digits_val b ys)"
  by (induction xs arbitrary: a) auto

lemma nat_digits_value: "digits_val a (nat_digits n) = Some (a * 10 ^ length (nat_digits n) + n)"
proof (induction n arbitrary: a rule: nat_digits.induct)
  case (1 n)
  have one: "digits_val b [char_of (48 + d)] = Some (10 * b + d)" if "d < 10" for b d :: nat
    using that by (simp add: is_digit_def of_char_of)
  show ?case
  proof (cases "n < 10")
    case True
    then show ?thesis using one [OF True] by (simp add: nat_digits.simps [of n] del: digits_val.simps)
  next
    case False
    have "digits_val a (nat_digits n) = Option.bind (digits_val a (nat_digits (n div 10)))
        (\<lambda>b. digits_val b [char_of (48 + n mod 10)])"
      using False by (subst nat_digits.simps) (simp add: digits_val_append del: digits_val.simps)
    also have "\<dots> = Some (10 * (a * 10 ^ length (nat_digits (n div 10)) + n div 10) + n mod 10)"
      using "1.IH" [OF False] one [of "n mod 10"] by simp
    also have "\<dots> = Some (a * 10 ^ length (nat_digits n) + n)"
      using False by (subst (2) nat_digits.simps) (simp add: algebra_simps)
    finally show ?thesis .
  qed
qed

lemma nat_digits_digit: "c \<in> set (nat_digits n) \<Longrightarrow> is_digit c"
proof (induction n rule: nat_digits.induct)
  case (1 n)
  then show ?case by (subst (asm) (2) nat_digits.simps)
      (auto simp: is_digit_def of_char_of split: if_splits)
qed

lemma nat_digits_not_Nil [simp]: "nat_digits n \<noteq> []"
  by (subst nat_digits.simps) simp

lemma nat_digits_head: "nat_digits n = c # cs \<Longrightarrow> c \<noteq> CHR ''-'' \<and> c \<noteq> CHR ''+''"
  using nat_digits_digit [of c n] by (auto simp: is_digit_def)

lemma Itoa_chars: "c \<in> set (Itoa i) \<Longrightarrow> is_digit c \<or> c = CHR ''-''"
  by (auto simp: Itoa_def nat_digits_digit split: if_splits)

lemma Itoa_not_Nil [simp]: "Itoa i \<noteq> []"
  by (simp add: Itoa_def)

lemma Atoi_Itoa [text_simps]:
  assumes "int64_min \<le> i" "i \<le> int64_max"
  shows "Atoi (Itoa i) = Some i"
proof (cases "i < 0")
  case True
  then show ?thesis using assms
    by (simp add: Atoi_def Atoi_value_def Itoa_def nat_digits_value)
next
  case False
  obtain c cs where "nat_digits (nat i) = c # cs" by (cases "nat_digits (nat i)") auto
  with False nat_digits_head [OF this] nat_digits_value [of 0 "nat i"] show ?thesis
    using assms by (auto simp: Atoi_def Atoi_value_def Itoa_def Let_def)
qed

section \<open>Fields\<close>

text \<open>The number of bytes of the white space at the head of a string, 0 when there is none.\<close>

fun space_len :: "string \<Rightarrow> nat" where
  "space_len [] = 0"
| "space_len (a # s) =
     (if ascii_space a then 1
      else (case s of
        [] \<Rightarrow> 0
      | b # t \<Rightarrow> if wide_space2 a b then 2
                else (case t of [] \<Rightarrow> 0 | c # u \<Rightarrow> if wide_space3 a b c then 3 else 0)))"

text \<open>
  \<open>FieldsN\<close>: the first fields, the last of them with everything behind it. The arguments are
  the fields left, whether a field has begun, its bytes, and the bytes of a white space still to skip.
\<close>

fun fields_scan :: "nat \<Rightarrow> bool \<Rightarrow> string \<Rightarrow> nat \<Rightarrow> string \<Rightarrow> string list" where
  "fields_scan n found buf k [] = (if buf = [] then [] else [buf])"
| "fields_scan n found buf (Suc k) (c # cs) = fields_scan n found buf k cs"
| "fields_scan n found buf 0 (c # cs) =
     (if n = 0 then fields_scan 0 found (buf @ [c]) 0 cs
      else if 0 < space_len (c # cs) then
        (if found then buf # fields_scan n False [] (space_len (c # cs) - 1) cs
         else fields_scan n False buf (space_len (c # cs) - 1) cs)
      else fields_scan (if found then n else n - 1) True (buf @ [c]) 0 cs)"

definition FieldsN :: "string \<Rightarrow> nat \<Rightarrow> string list" where
  "FieldsN s n = fields_scan n False [] 0 s"

text \<open>A string in which no white space begins, of one byte or of several.\<close>

definition no_space :: "string \<Rightarrow> bool" where
  "no_space s \<longleftrightarrow> list_all (\<lambda>c. \<not> ascii_space c \<and> (of_char c :: nat) \<notin> {194, 225, 226, 227}) s"

lemma no_space_simps [simp]:
  "no_space []" "no_space (c # s) \<longleftrightarrow> (\<not> ascii_space c \<and> (of_char c :: nat) \<notin> {194, 225, 226, 227}) \<and> no_space s"
  "no_space (s @ t) \<longleftrightarrow> no_space s \<and> no_space t"
  by (auto simp: no_space_def)

lemma no_space_head: "no_space (c # s) \<Longrightarrow> space_len (c # t) = 0"
  by (auto simp: wide_space2_def wide_space3_def Let_def split: list.splits)

lemma fields_scan_rest: "fields_scan 0 found buf 0 s = (if buf = [] \<and> s = [] then [] else [buf @ s])"
  by (induction s arbitrary: buf) auto

lemma fields_scan_within:
  "no_space s \<Longrightarrow> 0 < n \<Longrightarrow> buf \<noteq> [] \<Longrightarrow>
     fields_scan n True buf 0 (s @ CHR '' '' # t) = (buf @ s) # fields_scan n False [] 0 t"
proof (induction s arbitrary: buf)
  case Nil
  then show ?case by (simp add: ascii_space_def)
next
  case (Cons c s)
  then show ?case using no_space_head [OF Cons.prems(1), of "s @ CHR '' '' # t"]
    by (simp del: space_len.simps)
qed

lemma fields_scan_field [text_simps]:
  assumes "no_space s" "s \<noteq> []" "1 < n"
  shows "fields_scan n False [] 0 (s @ CHR '' '' # t) = s # fields_scan (n - 1) False [] 0 t"
proof -
  obtain c cs where s: "s = c # cs" using assms(2) by (cases s) auto
  then show ?thesis
    using assms no_space_head [of c cs] fields_scan_within [of cs "n - 1" "[c]" t] by (simp del: space_len.simps)
qed

lemma fields_scan_last [text_simps]:
  assumes "space_len s = 0" "s \<noteq> []"
  shows "fields_scan 1 False [] 0 s = [s]"
  using assms by (cases s) (simp_all add: fields_scan_rest del: space_len.simps)

lemma no_space_Itoa [simp]: "no_space (Itoa i)"
  using Itoa_chars by (fastforce simp: no_space_def list_all_iff is_digit_def ascii_space_def)

lemma trim_left_id: "space_len s = 0 \<Longrightarrow> trim_left s = s"
proof (cases s)
  case (Cons a t)
  assume "space_len s = 0"
  with Cons have *: "\<not> ascii_space a" "t = b # u \<Longrightarrow> \<not> wide_space2 a b" "t = b # c # v \<Longrightarrow> \<not> wide_space3 a b c" for b c u v
    by (auto split: if_splits)
  show ?thesis
  proof (cases t)
    case (Cons b u)
    then show ?thesis using * \<open>s = a # t\<close> by (cases u) auto
  qed (use * \<open>s = a # t\<close> in simp)
qed simp

lemma trim_left_rev_id:
  assumes "no_space s"
  shows "trim_left_rev (rev s) = rev s"
proof -
  have no: "\<not> ascii_space a" "\<not> wide_space2 a x" "\<not> wide_space3 a x y" if "a \<in> set s" for a x y
    using assms that by (auto simp: no_space_def list_all_iff wide_space2_def wide_space3_def Let_def)
  have "set (rev s) \<subseteq> set s" by simp
  then show ?thesis by (cases "rev s") (auto simp: no split: list.splits)
qed

lemma space_len_no_space [simp]: "no_space s \<Longrightarrow> space_len s = 0"
  by (cases s) (simp_all add: no_space_head del: space_len.simps(2) no_space_simps(2))

lemma TrimSpace_no_space [text_simps]: "no_space s \<Longrightarrow> TrimSpace s = s"
  by (simp add: TrimSpace_def trim_left_id trim_left_rev_id)

section \<open>Lines and words\<close>

text \<open>\<open>strings.Index\<close>: the text in front of the first occurrence of a separator, and behind it.\<close>

fun cut_at :: "string \<Rightarrow> string \<Rightarrow> (string \<times> string) option" where
  "cut_at d [] = (if d = [] then Some ([], []) else None)"
| "cut_at d (c # s) =
     (if take (length d) (c # s) = d then Some ([], drop (length d) (c # s))
      else map_option (\<lambda>(a, b). (c # a, b)) (cut_at d s))"

definition CRLF :: string where "CRLF = [CHR 0x0D, CHR 0x0A]"

definition line_break :: "char \<Rightarrow> bool" where
  "line_break c \<longleftrightarrow> c = CHR 0x0A \<or> c = CHR 0x0D"

definition crlf_fields :: "string \<Rightarrow> string list" where
  "crlf_fields s = filter (\<lambda>l. l \<noteq> []) (go_split (CHR 0x0A) (map (\<lambda>c. if line_break c then CHR 0x0A else c) s))"

text \<open>\<open>strings.Fields\<close>: the words of a text.\<close>

definition Fields :: "string \<Rightarrow> string list" where
  "Fields s = fields_scan (length s + 1) False [] 0 s"

definition line_ok :: "string \<Rightarrow> bool" where
  "line_ok l \<longleftrightarrow> l \<noteq> [] \<and> list_all (\<lambda>c. \<not> line_break c) l"

lemma crlf_fields_line: "line_ok l \<Longrightarrow> crlf_fields l = [l]"
proof -
  assume l: "line_ok l"
  then have "map (\<lambda>c. if line_break c then CHR 0x0A else c) l = l"
    by (auto simp: line_ok_def list_all_iff intro: map_idI)
  moreover have "CHR 0x0A \<notin> set l" using l by (auto simp: line_ok_def list_all_iff line_break_def)
  ultimately show ?thesis using l by (simp add: crlf_fields_def go_split_absent line_ok_def)
qed

lemma crlf_fields_more: "line_ok l \<Longrightarrow> crlf_fields (l @ CRLF @ s) = l # crlf_fields s"
proof -
  assume l: "line_ok l"
  then have "map (\<lambda>c. if line_break c then CHR 0x0A else c) l = l"
    by (auto simp: line_ok_def list_all_iff intro: map_idI)
  moreover have "CHR 0x0A \<notin> set l" using l by (auto simp: line_ok_def list_all_iff line_break_def)
  ultimately show ?thesis using l
    by (simp add: crlf_fields_def CRLF_def line_break_def go_split_append line_ok_def)
qed

lemma fields_scan_end: "no_space s \<Longrightarrow> buf \<noteq> [] \<Longrightarrow> fields_scan n True buf 0 s = [buf @ s]"
proof (induction s arbitrary: buf)
  case (Cons c s)
  then show ?case using no_space_head [OF Cons.prems(1), of s] by (simp add: fields_scan_rest del: space_len.simps)
qed simp

lemma fields_scan_words:
  assumes "no_space w" "w \<noteq> []" "\<forall>v \<in> set ws. no_space v \<and> v \<noteq> []" "length ws < n"
  shows "fields_scan n False [] 0 (w @ each_after (CHR '' '') ws) = w # ws"
  using assms
proof (induction ws arbitrary: w n)
  case Nil
  then obtain c cs where "w = c # cs" by (cases w) auto
  with Nil show ?case using no_space_head [of c cs cs] by (simp add: fields_scan_end del: space_len.simps)
next
  case (Cons v ws)
  then have "1 < n" "length ws < n - 1" by simp_all
  then show ?case using Cons fields_scan_field [of w n "v @ each_after (CHR '' '') ws"] by simp
qed

lemma length_each_after: "length ws \<le> length (each_after c ws)"
  by (induction ws) simp_all

lemma Fields_join [text_simps]:
  assumes "ws \<noteq> []" "\<forall>v \<in> set ws. no_space v \<and> v \<noteq> []"
  shows "Fields (go_join (CHR '' '') ws) = ws"
proof -
  obtain w vs where ws: "ws = w # vs" using assms(1) by (cases ws) auto
  then show ?thesis
    using assms(2) fields_scan_words [of w vs "length (w @ each_after (CHR '' '') vs) + 1"]
      length_each_after [of vs "CHR '' ''"]
    by (simp add: Fields_def)
qed

lemma trim_left_rev_word:
  assumes "no_space w" "w \<noteq> []"
  shows "trim_left_rev (rev w @ CHR '' '' # x) = rev w @ CHR '' '' # x"
proof -
  obtain a t where r: "rev w = a # t" using assms(2) by (cases "rev w") auto
  then have "set (a # t) = set w" by (metis set_rev)
  then have n: "\<not> ascii_space c \<and> (of_char c :: nat) \<notin> {194, 225, 226, 227}" if "c \<in> set (a # t)" for c
    using assms(1) that by (auto simp: no_space_def list_all_iff)
  have no: "\<not> wide_space2 c y" "\<not> wide_space3 c y z" if "c \<in> set t \<or> c = CHR '' ''" for c y z
    using that n [of c] by (auto simp: wide_space2_def wide_space3_def Let_def)
  have mid: "\<not> wide_space3 c (CHR '' '') y" for c y by (simp add: wide_space3_def Let_def)
  have "\<not> ascii_space a" using n by simp
  then show ?thesis unfolding r
  proof (cases t)
    case Nil
    then show "trim_left_rev ((a # t) @ CHR '' '' # x) = (a # t) @ CHR '' '' # x"
      using \<open>\<not> ascii_space a\<close> no mid by (cases x) simp_all
  next
    case (Cons b u)
    then show "trim_left_rev ((a # t) @ CHR '' '' # x) = (a # t) @ CHR '' '' # x"
      using \<open>\<not> ascii_space a\<close> no by (cases u) simp_all
  qed
qed

lemma space_len_word: "no_space s \<Longrightarrow> s \<noteq> [] \<Longrightarrow> space_len (s @ t) = 0"
  by (cases s) (auto simp: no_space_head simp del: space_len.simps no_space_simps)

section \<open>Host and port\<close>

text \<open>\<open>net.SplitHostPort\<close>; \<open>None\<close> is any of its errors. The last colon separates the port.\<close>

definition last_cut :: "char \<Rightarrow> string \<Rightarrow> (string \<times> string) option" where
  "last_cut sep s = (case go_cut sep (rev s) of (b, Some a) \<Rightarrow> Some (rev a, rev b) | (b, None) \<Rightarrow> None)"

definition SplitHostPort :: "string \<Rightarrow> (string \<times> string) option" where
  "SplitHostPort s =
     (case last_cut (CHR '':'') s of
        None \<Rightarrow> None
      | Some (h, p) \<Rightarrow>
          if s \<noteq> [] \<and> hd s = CHR ''['' then
            (case go_cut (CHR '']'') s of
               (a, None) \<Rightarrow> None
             | (a, Some b) \<Rightarrow>
                 if h = a @ '']'' \<and> CHR ''['' \<notin> set (tl s) \<and> CHR '']'' \<notin> set b
                 then Some (tl a, p) else None)
          else if CHR '':'' \<in> set h \<or> CHR ''['' \<in> set s \<or> CHR '']'' \<in> set s then None
          else Some (h, p))"

lemma last_cut_append [text_simps]:
  assumes "sep \<notin> set b"
  shows "last_cut sep (a @ sep # b) = Some (a, b)"
  using cut_append [of sep "rev b" "rev a"] assms by (simp add: last_cut_def)

lemma last_cut_absent [text_simps]: "sep \<notin> set a \<Longrightarrow> last_cut sep a = None"
  by (simp add: last_cut_def cut_absent)

lemma SplitHostPort_plain [text_simps]:
  assumes "CHR '':'' \<notin> set h" "CHR '':'' \<notin> set p" "CHR ''['' \<notin> set (h @ p)" "CHR '']'' \<notin> set (h @ p)"
  shows "SplitHostPort (h @ CHR '':'' # p) = Some (h, p)"
proof -
  have "last_cut (CHR '':'') (h @ CHR '':'' # p) = Some (h, p)"
    using assms(2) by (rule last_cut_append)
  moreover have "hd (h @ CHR '':'' # p) \<noteq> CHR ''[''" using assms(3) by (cases h) auto
  ultimately show ?thesis using assms by (simp add: SplitHostPort_def)
qed

lemma SplitHostPort_ipv6 [text_simps]:
  assumes "CHR ''['' \<notin> set (h @ p)" "CHR '']'' \<notin> set (h @ p)" "CHR '':'' \<notin> set p"
  shows "SplitHostPort (CHR ''['' # h @ CHR '']'' # CHR '':'' # p) = Some (h, p)"
proof -
  have "last_cut (CHR '':'') ((CHR ''['' # h @ [CHR '']'']) @ CHR '':'' # p) = Some (CHR ''['' # h @ [CHR '']''], p)"
    by (rule last_cut_append) (use assms in simp)
  moreover have "go_cut (CHR '']'') ((CHR ''['' # h) @ CHR '']'' # CHR '':'' # p) = (CHR ''['' # h, Some (CHR '':'' # p))"
    by (rule cut_append) (use assms in simp)
  ultimately show ?thesis using assms by (simp add: SplitHostPort_def)
qed

lemma SplitHostPort_no_colon [text_simps]: "CHR '':'' \<notin> set s \<Longrightarrow> SplitHostPort s = None"
  by (simp add: SplitHostPort_def last_cut_absent)

section \<open>URL encoding\<close>

text \<open>An encoder is the list of the bytes it leaves alone besides letters and digits.\<close>

definition shouldEscape :: "string \<Rightarrow> char \<Rightarrow> bool" where
  "shouldEscape unrestricted c =
     (let n = (of_char c :: nat) in
      if (65 \<le> n \<and> n \<le> 90) \<or> (97 \<le> n \<and> n \<le> 122) \<or> (48 \<le> n \<and> n \<le> 57) then False
      else c \<notin> set unrestricted)"

definition hex_digits :: string where
  "hex_digits = ''0123456789ABCDEF''"

definition Escape :: "string \<Rightarrow> string \<Rightarrow> string" where
  "Escape unrestricted s =
     concat (map (\<lambda>c. if shouldEscape unrestricted c
                      then [CHR ''%'', hex_digits ! (of_char c div 16), hex_digits ! (of_char c mod 16)]
                      else [c]) s)"

definition decodeNibble :: "char \<Rightarrow> nat option" where
  "decodeNibble c =
     (let n = (of_char c :: nat) in
      if 48 \<le> n \<and> n \<le> 57 then Some (n - 48)
      else if 97 \<le> n \<and> n \<le> 102 then Some (n - 97 + 10)
      else if 65 \<le> n \<and> n \<le> 70 then Some (n - 65 + 10)
      else None)"

definition decodeHex :: "char \<Rightarrow> char \<Rightarrow> char" where
  "decodeHex a b =
     (case (decodeNibble a, decodeNibble b) of
        (Some x, Some y) \<Rightarrow> char_of (16 * x + y)
      | _ \<Rightarrow> CHR ''.'')"

text \<open>The callers ignore the error value; a bad or cut off sequence decodes to a full stop.\<close>

fun Unescape :: "string \<Rightarrow> string" where
  "Unescape [] = []"
| "Unescape (c # cs) =
     (if c = CHR ''%'' then
        (case cs of
           a # b # ds \<Rightarrow> decodeHex a b # Unescape ds
         | _ \<Rightarrow> ''.'')
      else c # Unescape cs)"

lemma decodeNibble_hex: "n < 16 \<Longrightarrow> decodeNibble (hex_digits ! n) = Some n"
proof -
  assume "n < 16"
  then have "n \<in> {0, 1, 2, 3, 4, 5, 6, 7, 8, 9, 10, 11, 12, 13, 14, 15}"
    by (simp only: insert_iff empty_iff) arith
  then show ?thesis by (auto simp: hex_digits_def decodeNibble_def)
qed

lemma decodeHex_hex: "decodeHex (hex_digits ! (of_char c div 16)) (hex_digits ! (of_char c mod 16)) = c"
proof -
  have "(of_char c :: nat) < 256" by simp
  then have "(of_char c :: nat) div 16 < 16" by (simp add: less_mult_imp_div_less)
  then show ?thesis by (simp add: decodeHex_def decodeNibble_hex)
qed

lemma Unescape_Escape [text_simps]:
  assumes "CHR ''%'' \<notin> set unrestricted"
  shows "Unescape (Escape unrestricted s) = s"
proof (induction s)
  case (Cons c s)
  then show ?case using assms by (auto simp: Escape_def decodeHex_hex shouldEscape_def Let_def)
qed (simp add: Escape_def)

lemma Escape_Cons: "Escape u (c # s) = (if shouldEscape u c
    then [CHR ''%'', hex_digits ! (of_char c div 16), hex_digits ! (of_char c mod 16)] else [c]) @ Escape u s"
  by (simp add: Escape_def)

lemma hex_digits_nth: "n < 16 \<Longrightarrow> hex_digits ! n \<in> set hex_digits"
  by (rule nth_mem) (simp add: hex_digits_def)

text \<open>A byte that is to be escaped and is neither the percent sign nor a hexadecimal digit does not occur in the result.\<close>

lemma Escape_absent:
  assumes "shouldEscape u c" "c \<noteq> CHR ''%''" "c \<notin> set hex_digits"
  shows "c \<notin> set (Escape u s)"
proof (induction s)
  case (Cons x s)
  have "(of_char x :: nat) < 256" by simp
  then have "(of_char x :: nat) div 16 < 16" by (simp add: less_mult_imp_div_less)
  then have "hex_digits ! (of_char x div 16) \<noteq> c" "hex_digits ! (of_char x mod 16) \<noteq> c"
    using hex_digits_nth assms(3) by force+
  with Cons assms show ?case by (auto simp: Escape_Cons)
qed (simp add: Escape_def)

lemma Escape_eq_Nil [simp]: "Escape u s = [] \<longleftrightarrow> s = []"
  by (cases s) (auto simp: Escape_def)

end
