(* ===== verification/Sdp_Body.thy ===== *)
theory Sdp_Body
  imports Sippy_Text
begin

text \<open>
  Session descriptions: \<^verbatim>\<open>sippy/sdp_body.go\<close>, the headers of \<^verbatim>\<open>sippy/sdp/\<close> and the version fix-up of
  \<^verbatim>\<open>sippy/sdp_session.go\<close>. A header that may be nil is an option; the headers of which only the text
  matters are strings. The parser stores one and the same connection object in every media section that has none of
  its own, so that a change through one section shows in all of them: such a section refers to the
  shared object of the body.
\<close>

section \<open>Headers\<close>

record sdp_connection =
  sc_ntype :: string
  sc_atype :: string
  sc_addr :: string

definition ParseSdpConnecton :: "string \<Rightarrow> sdp_connection option" where
  "ParseSdpConnecton body =
     (case Fields body of [n, a, x] \<Rightarrow> Some \<lparr>sc_ntype = n, sc_atype = a, sc_addr = x\<rparr> | _ \<Rightarrow> None)"

definition connection_String :: "sdp_connection \<Rightarrow> string" where
  "connection_String c = sc_ntype c @ '' '' @ sc_atype c @ '' '' @ sc_addr c"

record sdp_origin =
  so_username :: string
  so_session_id :: string
  so_version :: int
  so_network_type :: string
  so_address_type :: string
  so_address :: string

definition ParseSdpOrigin :: "string \<Rightarrow> sdp_origin result" where
  "ParseSdpOrigin body =
     (case Fields body of
        [u, sid, v, nt, at, a] \<Rightarrow>
          (case Atoi v of
             None \<Rightarrow> Inl (''strconv.ParseInt: parsing '' @ v)
           | Some n \<Rightarrow> Inr \<lparr>so_username = u, so_session_id = sid, so_version = n, so_network_type = nt,
                           so_address_type = at, so_address = a\<rparr>)
      | _ \<Rightarrow> Inl (''Malformed field: '' @ body))"

definition origin_String :: "sdp_origin \<Rightarrow> string" where
  "origin_String r =
     go_join (CHR '' '') [so_username r, so_session_id r, Itoa (so_version r), so_network_type r, so_address_type r, so_address r]"

text \<open>The global counter of session identifiers is an argument.\<close>

definition NewSdpOrigin :: "int \<Rightarrow> sdp_origin" where
  "NewSdpOrigin sid =
     \<lparr>so_username = ''-'', so_session_id = Itoa sid, so_version = sid, so_network_type = ''IN'', so_address_type = ''IP4'',
      so_address = ''192.0.2.1''\<rparr>"

text \<open>The version is a 64-bit number.\<close>

definition IncVersion :: "sdp_origin \<Rightarrow> sdp_origin" where
  "IncVersion r = r\<lparr>so_version := (if so_version r = int64_max then int64_min else so_version r + 1)\<rparr>"

record sdp_media =
  sm_stype :: string
  sm_port :: string
  sm_transport :: string
  sm_formats :: "string list"

definition ParseSdpMedia :: "string \<Rightarrow> sdp_media option" where
  "ParseSdpMedia body =
     (case Fields body of
        s # p # t # fs \<Rightarrow> Some \<lparr>sm_stype = s, sm_port = p, sm_transport = t, sm_formats = fs\<rparr>
      | _ \<Rightarrow> None)"

definition media_String :: "sdp_media \<Rightarrow> string" where
  "media_String m = sm_stype m @ '' '' @ sm_port m @ '' '' @ sm_transport m @ each_after (CHR '' '') (sm_formats m)"

definition HasFormat :: "string \<Rightarrow> sdp_media \<Rightarrow> bool" where
  "HasFormat f m \<longleftrightarrow> f \<in> set (sm_formats m)"

section \<open>Media sections\<close>

datatype c_ref = Shared | Own sdp_connection

record sdp_section =
  ms_m :: "sdp_media option"
  ms_i :: "string option"
  ms_c :: "c_ref option"
  ms_b :: "string option"
  ms_k :: "string option"
  ms_a :: "string list"

definition NewSdpMediaDescription :: sdp_section where
  "NewSdpMediaDescription = \<lparr>ms_m = None, ms_i = None, ms_c = None, ms_b = None, ms_k = None, ms_a = []\<rparr>"

definition AddHeader :: "string \<Rightarrow> string \<Rightarrow> sdp_section \<Rightarrow> sdp_section" where
  "AddHeader name v s =
     (if name = ''a'' then s\<lparr>ms_a := ms_a s @ [v]\<rparr>
      else if name = ''m'' then s\<lparr>ms_m := ParseSdpMedia v\<rparr>
      else if name = ''i'' then s\<lparr>ms_i := Some v\<rparr>
      else if name = ''c'' then s\<lparr>ms_c := map_option Own (ParseSdpConnecton v)\<rparr>
      else if name = ''b'' then s\<lparr>ms_b := Some v\<rparr>
      else if name = ''k'' then s\<lparr>ms_k := Some v\<rparr>
      else s)"

text \<open>The payload type an attribute is about, if it is about one.\<close>

definition attribute_pt :: "string \<Rightarrow> string" where
  "attribute_pt ah =
     (if take 7 ah = ''rtpmap:'' then hd (go_split (CHR '' '') (drop 7 ah))
      else if take 5 ah = ''fmtp:'' then hd (go_split (CHR '' '') (drop 5 ah))
      else [])"

definition optimize_a :: "sdp_media \<Rightarrow> string list \<Rightarrow> string list" where
  "optimize_a m as = filter (\<lambda>ah. attribute_pt ah = [] \<or> HasFormat (attribute_pt ah) m) as"

definition SetFormats :: "string list \<Rightarrow> sdp_section \<Rightarrow> sdp_section" where
  "SetFormats formats s =
     (case ms_m s of
        None \<Rightarrow> s
      | Some m \<Rightarrow> (let m' = m\<lparr>sm_formats := formats\<rparr> in s\<lparr>ms_m := Some m', ms_a := optimize_a m' (ms_a s)\<rparr>))"

definition HasAHeader :: "string list \<Rightarrow> sdp_section \<Rightarrow> bool" where
  "HasAHeader headers s \<longleftrightarrow> (\<exists>h \<in> set (ms_a s). h \<in> set headers)"

definition RemoveAHeader :: "string \<Rightarrow> sdp_section \<Rightarrow> sdp_section" where
  "RemoveAHeader hdr s = s\<lparr>ms_a := filter (\<lambda>h. take (length hdr) h \<noteq> hdr) (ms_a s)\<rparr>"

section \<open>Bodies\<close>

record sdp_body =
  sd_sections :: "sdp_section list"
  sd_v :: "string option"
  sd_o :: "sdp_origin option"
  sd_s :: "string option"
  sd_i :: "string option"
  sd_u :: "string option"
  sd_e :: "string option"
  sd_p :: "string option"
  sd_b :: "string option"
  sd_t :: "string option"
  sd_r :: "string option"
  sd_z :: "string option"
  sd_k :: "string option"
  sd_a :: "string list"
  sd_c :: "sdp_connection option"
  sd_shared :: "sdp_connection option"

definition empty_sdp :: sdp_body where
  "empty_sdp =
     \<lparr>sd_sections = [], sd_v = None, sd_o = None, sd_s = None, sd_i = None, sd_u = None, sd_e = None, sd_p = None,
      sd_b = None, sd_t = None, sd_r = None, sd_z = None, sd_k = None, sd_a = [], sd_c = None, sd_shared = None\<rparr>"

text \<open>The connection a section refers to.\<close>

definition section_c :: "sdp_body \<Rightarrow> sdp_section \<Rightarrow> sdp_connection option" where
  "section_c b s = (case ms_c s of None \<Rightarrow> None | Some (Own c) \<Rightarrow> Some c | Some Shared \<Rightarrow> sd_shared b)"

text \<open>A header of the session, before the first media section. Other names are skipped.\<close>

definition session_header :: "string \<Rightarrow> string \<Rightarrow> sdp_body \<Rightarrow> sdp_body result" where
  "session_header name v b =
     (if name = ''c'' then Inr (b\<lparr>sd_shared := ParseSdpConnecton v\<rparr>)
      else if name = ''a'' then Inr (b\<lparr>sd_a := sd_a b @ [v]\<rparr>)
      else if name = ''v'' then Inr (b\<lparr>sd_v := Some v\<rparr>)
      else if name = ''o'' then bind_result (ParseSdpOrigin v) (\<lambda>r. Inr (b\<lparr>sd_o := Some r\<rparr>))
      else if name = ''s'' then Inr (b\<lparr>sd_s := Some v\<rparr>)
      else if name = ''i'' then Inr (b\<lparr>sd_i := Some v\<rparr>)
      else if name = ''u'' then Inr (b\<lparr>sd_u := Some v\<rparr>)
      else if name = ''e'' then Inr (b\<lparr>sd_e := Some v\<rparr>)
      else if name = ''p'' then Inr (b\<lparr>sd_p := Some v\<rparr>)
      else if name = ''b'' then Inr (b\<lparr>sd_b := Some v\<rparr>)
      else if name = ''t'' then Inr (b\<lparr>sd_t := Some v\<rparr>)
      else if name = ''r'' then Inr (b\<lparr>sd_r := Some v\<rparr>)
      else if name = ''z'' then Inr (b\<lparr>sd_z := Some v\<rparr>)
      else if name = ''k'' then Inr (b\<lparr>sd_k := Some v\<rparr>)
      else Inr b)"

definition sdp_header :: "string \<times> string \<Rightarrow> sdp_body \<Rightarrow> sdp_body result" where
  "sdp_header nv b =
     (case nv of (name, v) \<Rightarrow>
        let b1 = (if name = ''m'' then b\<lparr>sd_sections := sd_sections b @ [NewSdpMediaDescription]\<rparr> else b)
        in if sd_sections b1 = [] then session_header name v b1
           else Inr (b1\<lparr>sd_sections := butlast (sd_sections b1) @ [AddHeader name v (last (sd_sections b1))]\<rparr>))"

fun sdp_headers :: "(string \<times> string) list \<Rightarrow> sdp_body \<Rightarrow> sdp_body result" where
  "sdp_headers [] b = Inr b"
| "sdp_headers (x # xs) b = bind_result (sdp_header x b) (sdp_headers xs)"

text \<open>The lines that have a name and a value.\<close>

definition sdp_line :: "string \<Rightarrow> (string \<times> string) option" where
  "sdp_line l = (case go_cut (CHR ''='') (TrimSpace l) of (n, Some v) \<Rightarrow> Some (ToLower n, v) | (n, None) \<Rightarrow> None)"

definition sdp_lines :: "string \<Rightarrow> (string \<times> string) list" where
  "sdp_lines body = List.map_filter sdp_line (crlf_fields (TrimSpace body))"

text \<open>The session's connection goes to the sections without one, and to the body if there is no section.\<close>

definition share_connection :: "sdp_body \<Rightarrow> sdp_body" where
  "share_connection b =
     (if sd_shared b = None then b
      else b\<lparr>sd_sections := map (\<lambda>s. if ms_c s = None then s\<lparr>ms_c := Some Shared\<rparr> else s) (sd_sections b),
             sd_c := (if sd_sections b = [] then sd_shared b else None)\<rparr>)"

definition SanityCheck :: "sdp_section \<Rightarrow> string option" where
  "SanityCheck s =
     (if ms_m s = None then Some ''Mandatory \"m=\" SDP header is missing''
      else if ms_c s = None then Some ''Mandatory \"c=\" SDP header is missing''
      else None)"

definition sdp_sanity :: "sdp_body \<Rightarrow> sdp_body result" where
  "sdp_sanity b =
     (if sd_v b = None then Inl ''Mandatory \"v=\" SDP header is missing''
      else if sd_o b = None then Inl ''Mandatory \"o=\" SDP header is missing''
      else if sd_s b = None then Inl ''Mandatory \"s=\" SDP header is missing''
      else if sd_t b = None then Inl ''Mandatory \"t=\" SDP header is missing''
      else (case List.map_filter SanityCheck (sd_sections b) of [] \<Rightarrow> Inr b | e # _ \<Rightarrow> Inl e))"

definition ParseSdpBody :: "string \<Rightarrow> sdp_body result" where
  "ParseSdpBody body = bind_result (sdp_headers (sdp_lines body) empty_sdp) (\<lambda>b. sdp_sanity (share_connection b))"

section \<open>Printing\<close>

definition opt_header :: "string \<Rightarrow> string option \<Rightarrow> (string \<times> string) list" where
  "opt_header name h = (case h of Some v \<Rightarrow> [(name, v)] | None \<Rightarrow> [])"

definition first_half :: "sdp_body \<Rightarrow> (string \<times> string) list" where
  "first_half b =
     opt_header ''v'' (sd_v b) @ opt_header ''o'' (map_option origin_String (sd_o b)) @ opt_header ''s'' (sd_s b)
     @ opt_header ''i'' (sd_i b) @ opt_header ''u'' (sd_u b) @ opt_header ''e'' (sd_e b) @ opt_header ''p'' (sd_p b)"

definition second_half :: "sdp_body \<Rightarrow> (string \<times> string) list" where
  "second_half b =
     opt_header ''b'' (sd_b b) @ opt_header ''t'' (sd_t b) @ opt_header ''r'' (sd_r b) @ opt_header ''z'' (sd_z b)
     @ opt_header ''k'' (sd_k b)"

definition section_headers :: "sdp_body \<Rightarrow> bool \<Rightarrow> sdp_section \<Rightarrow> (string \<times> string) list" where
  "section_headers b noC s =
     opt_header ''m'' (map_option media_String (ms_m s)) @ opt_header ''i'' (ms_i s)
     @ (if noC then [] else opt_header ''c'' (map_option connection_String (section_c b s)))
     @ opt_header ''b'' (ms_b s) @ opt_header ''k'' (ms_k s) @ map (Pair ''a'') (ms_a s)"

definition headers_text :: "(string \<times> string) list \<Rightarrow> string" where
  "headers_text hs = concat (map (\<lambda>(n, v). n @ ''='' @ v @ CRLF) hs)"

text \<open>
  The connection moved in front of the sections: that of a single section, or that of the first of several when the
  second has the same. The second section's connection is read without looking whether there is one.
\<close>

definition hoisted_c :: "sdp_body \<Rightarrow> sdp_connection option result" where
  "hoisted_c b =
     (case sd_sections b of
        [s] \<Rightarrow> Inr (section_c b s)
      | s # s' # _ \<Rightarrow>
          if sd_c b \<noteq> None then Inr None
          else (case section_c b s of
                  None \<Rightarrow> Inr None
                | Some c \<Rightarrow>
                    (case section_c b s' of
                       None \<Rightarrow> Inl nil_panic
                     | Some c' \<Rightarrow> Inr (if connection_String c = connection_String c' then Some c else None)))
      | [] \<Rightarrow> Inr None)"

text \<open>A section leaves its connection out when it is the one moved.\<close>

definition omits_c :: "sdp_body \<Rightarrow> sdp_connection option \<Rightarrow> sdp_section \<Rightarrow> bool" where
  "omits_c b h s \<longleftrightarrow>
     (case (h, section_c b s) of (Some c, Some c') \<Rightarrow> connection_String c' = connection_String c | _ \<Rightarrow> False)"

definition front_c :: "sdp_body \<Rightarrow> sdp_connection option \<Rightarrow> (string \<times> string) list" where
  "front_c b h = opt_header ''c'' (map_option connection_String (case h of Some c \<Rightarrow> Some c | None \<Rightarrow> sd_c b))"

definition all_lines :: "sdp_body \<Rightarrow> sdp_connection option \<Rightarrow> (string \<times> string) list" where
  "all_lines b h =
     first_half b @ front_c b h @ second_half b @ map (Pair ''a'') (sd_a b)
     @ concat (map (\<lambda>s. section_headers b (omits_c b h s) s) (sd_sections b))"

definition sdp_String :: "sdp_body \<Rightarrow> string result" where
  "sdp_String b = bind_result (hoisted_c b) (\<lambda>h. Inr (headers_text (all_lines b h)))"

section \<open>Changes\<close>

text \<open>A copy has its own connection in every section.\<close>

definition section_GetCopy :: "sdp_body \<Rightarrow> sdp_section \<Rightarrow> sdp_section" where
  "section_GetCopy b s = s\<lparr>ms_c := map_option Own (section_c b s)\<rparr>"

definition sdp_GetCopy :: "sdp_body \<Rightarrow> sdp_body" where
  "sdp_GetCopy b = b\<lparr>sd_sections := map (section_GetCopy b) (sd_sections b), sd_shared := None\<rparr>"

text \<open>The address of the connection of one section; a shared connection changes for all sections that refer to it.\<close>

definition SetCHeaderAddr :: "nat \<Rightarrow> string \<Rightarrow> sdp_body \<Rightarrow> sdp_body result" where
  "SetCHeaderAddr i addr b =
     (if length (sd_sections b) \<le> i then Inl index_panic
      else (case ms_c (sd_sections b ! i) of
              None \<Rightarrow> Inl nil_panic
            | Some (Own c) \<Rightarrow>
                Inr (b\<lparr>sd_sections := (sd_sections b)[i := (sd_sections b ! i)\<lparr>ms_c := Some (Own (c\<lparr>sc_addr := addr\<rparr>))\<rparr>]\<rparr>)
            | Some Shared \<Rightarrow> Inr (b\<lparr>sd_shared := map_option (\<lambda>c. c\<lparr>sc_addr := addr\<rparr>) (sd_shared b)\<rparr>)))"

definition RemoveSection :: "int \<Rightarrow> sdp_body \<Rightarrow> sdp_body" where
  "RemoveSection idx b =
     (if idx < 0 \<or> int (length (sd_sections b)) \<le> idx then b
      else b\<lparr>sd_sections := take (nat idx) (sd_sections b) @ drop (nat idx + 1) (sd_sections b)\<rparr>)"

definition SetOHeader :: "sdp_origin option \<Rightarrow> sdp_body \<Rightarrow> sdp_body" where
  "SetOHeader r b = b\<lparr>sd_o := r\<rparr>"

definition sdp_AppendAHeader :: "string \<Rightarrow> sdp_body \<Rightarrow> sdp_body" where
  "sdp_AppendAHeader hdr b = b\<lparr>sd_a := sd_a b @ [hdr]\<rparr>"

definition IsOnHold :: "sdp_body \<Rightarrow> sdp_section \<Rightarrow> bool result" where
  "IsOnHold b s =
     (case section_c b s of
        None \<Rightarrow> Inl nil_panic
      | Some c \<Rightarrow> Inr (sc_atype c = ''IP4'' \<and> sc_addr c = ''0.0.0.0'' \<or> sc_atype c = ''IP6'' \<and> sc_addr c = ''::''
          \<or> ''sendonly'' \<in> set (ms_a s) \<or> ''inactive'' \<in> set (ms_a s)))"

section \<open>Versions\<close>

text \<open>
  The session a call controller presents: its own origin, whose version counts the changes of the other side's.
\<close>

record sdp_session =
  ss_last_origin :: "sdp_origin option"
  ss_origin :: sdp_origin

definition NewSdpSession :: "int \<Rightarrow> sdp_session" where
  "NewSdpSession sid = \<lparr>ss_last_origin = None, ss_origin = NewSdpOrigin sid\<rparr>"

definition new_version :: "sdp_origin \<Rightarrow> sdp_session \<Rightarrow> sdp_session" where
  "new_version r ss =
     \<lparr>ss_last_origin = Some r,
      ss_origin = (case ss_last_origin ss of
        Some l \<Rightarrow> if so_session_id l \<noteq> so_session_id r \<or> so_version l \<noteq> so_version r then IncVersion (ss_origin ss)
                  else ss_origin ss
      | None \<Rightarrow> ss_origin ss)\<rparr>"

text \<open>A description without origin is dereferenced.\<close>

definition FixupVersion_sdp :: "sdp_body \<Rightarrow> sdp_session \<Rightarrow> (sdp_body \<times> sdp_session) result" where
  "FixupVersion_sdp b ss =
     (case sd_o b of
        None \<Rightarrow> Inl nil_panic
      | Some r \<Rightarrow> (let ss' = new_version r ss in Inr (SetOHeader (Some (ss_origin ss')) b, ss')))"

end
