(* ===== verification/Msg_Body.thy ===== *)
theory Msg_Body
  imports Sdp_Body
begin

text \<open>
  Message bodies, \<^verbatim>\<open>sippy/msg_body.go\<close>: a text with its type, and the session description in it once somebody
  asked for it. Printing a body whose description is parsed prints the description.
\<close>

record msg_body =
  mb_content :: string
  mb_mtype :: string
  mb_needs_update :: bool
  mb_sdp :: "sdp_body option"
  mb_parsed :: bool

definition NewMsgBody :: "string \<Rightarrow> string \<Rightarrow> msg_body" where
  "NewMsgBody content mtype =
     \<lparr>mb_content = content, mb_mtype = mtype, mb_needs_update = True, mb_sdp = None, mb_parsed = False\<rparr>"

section \<open>Parts of a multipart body\<close>

lemma take_length_le:
  assumes "take (length ys) xs = ys"
  shows "length ys \<le> length xs"
proof -
  have "length (take (length ys) xs) = length ys" by (simp only: assms)
  then show ?thesis by simp
qed

lemma cut_at_length: "cut_at d s = Some (a, b) \<Longrightarrow> length d + length b \<le> length s"
proof (induction s arbitrary: a)
  case (Cons c s)
  show ?case
  proof (cases "take (length d) (c # s) = d")
    case True
    then have "length d \<le> length (c # s)" by (rule take_length_le)
    with True Cons.prems show ?thesis by auto
  next
    case False
    with Cons.prems obtain a' where "cut_at d s = Some (a', b)" by auto
    from Cons.IH [OF this] show ?thesis by simp
  qed
qed (auto split: if_splits)

text \<open>\<open>strings.Split\<close> at a separator of several bytes.\<close>

function split_at :: "string \<Rightarrow> string \<Rightarrow> string list" where
  "split_at d s = (case (if d = [] then None else cut_at d s) of None \<Rightarrow> [s] | Some (a, b) \<Rightarrow> a # split_at d b)"
  by pat_completeness auto

termination
proof (relation "measure (length \<circ> snd)")
  fix d s x2 and a b :: string
  assume "(if d = [] then None else cut_at d s) = Some x2" "(a, b) = x2"
  then have "d \<noteq> []" "cut_at d s = Some (a, b)" by (auto split: if_splits)
  from cut_at_length [OF this(2)] this(1) show "((d, b), d, s) \<in> measure (length \<circ> snd)" by (cases d) auto
qed simp

declare split_at.simps [simp del]

definition boundary_of :: "string \<Rightarrow> string option" where
  "boundary_of mtheaders =
     (case List.map_filter (\<lambda>s. case go_cut (CHR ''='') s of (a, Some v) \<Rightarrow> if a = ''boundary'' then Some v else None | _ \<Rightarrow> None)
             (go_split (CHR '';'') mtheaders) of
        [] \<Rightarrow> None
      | v # _ \<Rightarrow> Some v)"

text \<open>Head and content of a part, at the first kind of empty line that occurs.\<close>

definition part_break :: "string \<Rightarrow> (string \<times> string) option" where
  "part_break s =
     (case cut_at (CRLF @ CRLF) s of
        Some x \<Rightarrow> Some x
      | None \<Rightarrow> (case cut_at [CHR 0x0D, CHR 0x0D] s of Some x \<Rightarrow> Some x | None \<Rightarrow> cut_at [CHR 0x0A, CHR 0x0A] s))"

definition part_mtype :: "string \<Rightarrow> string" where
  "part_mtype head =
     fold (\<lambda>line mtype. let tmp = ToLower (TrimSpace line) in
             if take 13 tmp = ''content-type:'' then TrimSpace (drop 13 tmp) else mtype) (crlf_fields head) []"

fun find_sdp_part :: "string list \<Rightarrow> string option" where
  "find_sdp_part [] = None"
| "find_sdp_part (p # ps) =
     (case part_break (TrimSpace p) of
        None \<Rightarrow> find_sdp_part ps
      | Some (head, body) \<Rightarrow> if part_mtype head = ''application/sdp'' then Some body else find_sdp_part ps)"

section \<open>Parsing\<close>

definition sdp_part :: "msg_body \<Rightarrow> msg_body result" where
  "sdp_part mb =
     (if take 16 (mb_mtype mb) = ''multipart/mixed;'' then
        (case boundary_of (drop 16 (mb_mtype mb)) of
           None \<Rightarrow> Inl ''Error parsing the multipart message''
         | Some v \<Rightarrow>
             (case find_sdp_part (split_at (''--'' @ v) (mb_content mb)) of
                None \<Rightarrow> Inr mb
              | Some body \<Rightarrow> Inr (mb\<lparr>mb_mtype := ''application/sdp'', mb_content := body\<rparr>)))
      else Inr mb)"

text \<open>The body after parsing and the error, if there is one; parsing is tried again after an error.\<close>

definition msg_parse :: "msg_body \<Rightarrow> msg_body \<times> string option" where
  "msg_parse mb =
     (if mb_parsed mb then (mb, None)
      else (case sdp_part mb of
              Inl e \<Rightarrow> (mb, Some e)
            | Inr mb1 \<Rightarrow>
                if mb_mtype mb1 = ''application/sdp'' then
                  (case ParseSdpBody (mb_content mb1) of
                     Inl e \<Rightarrow> (mb1, Some (''error parsing the SDP: '' @ e))
                   | Inr d \<Rightarrow> (mb1\<lparr>mb_sdp := Some d, mb_parsed := True\<rparr>, None))
                else (mb1\<lparr>mb_parsed := True\<rparr>, None)))"

definition GetSdp :: "msg_body \<Rightarrow> msg_body \<times> sdp_body result" where
  "GetSdp mb =
     (case msg_parse mb of
        (mb1, Some e) \<Rightarrow> (mb1, Inl e)
      | (mb1, None) \<Rightarrow> (mb1, case mb_sdp mb1 of None \<Rightarrow> Inl ''Not an SDP message'' | Some d \<Rightarrow> Inr d))"

definition body_String :: "msg_body \<Rightarrow> string result" where
  "body_String mb = (case mb_sdp mb of Some d \<Rightarrow> sdp_String d | None \<Rightarrow> Inr (mb_content mb))"

definition body_GetCopy :: "msg_body \<Rightarrow> msg_body" where
  "body_GetCopy mb = mb\<lparr>mb_sdp := map_option sdp_GetCopy (mb_sdp mb), mb_needs_update := True\<rparr>"

definition body_AppendAHeader :: "string \<Rightarrow> msg_body \<Rightarrow> msg_body" where
  "body_AppendAHeader hdr mb =
     (case mb_sdp mb of
        Some d \<Rightarrow> mb\<lparr>mb_sdp := Some (sdp_AppendAHeader hdr d)\<rparr>
      | None \<Rightarrow> mb\<lparr>mb_content := mb_content mb @ ''a='' @ hdr @ CRLF\<rparr>)"

text \<open>The version fix-up of \<^verbatim>\<open>sdp_session.go\<close> on a body; the error of a body without description is dropped by its caller.\<close>

definition FixupVersion :: "msg_body \<Rightarrow> sdp_session \<Rightarrow> (msg_body \<times> sdp_session) result" where
  "FixupVersion mb ss =
     (case GetSdp mb of
        (mb1, Inl e) \<Rightarrow> Inr (mb1, ss)
      | (mb1, Inr d) \<Rightarrow> bind_result (FixupVersion_sdp d ss) (\<lambda>(d', ss'). Inr (mb1\<lparr>mb_sdp := Some d'\<rparr>, ss')))"

text \<open>A parsed description has an origin, so the fix-up of a body whose description has one does not fail.\<close>

lemma ParseSdpBody_origin: "ParseSdpBody s = Inr d \<Longrightarrow> sd_o d \<noteq> None"
  by (auto simp: ParseSdpBody_def bind_result_Inr_iff sdp_sanity_def split: if_splits list.splits)

lemma GetSdp_origin:
  assumes "GetSdp mb = (mb1, Inr d)" and "\<And>d. mb_sdp mb = Some d \<Longrightarrow> sd_o d \<noteq> None"
  shows "sd_o d \<noteq> None \<and> mb_sdp mb1 = Some d"
proof -
  have part: "mb_sdp m = mb_sdp mb" if "sdp_part mb = Inr m" for m
    using that by (auto simp: sdp_part_def split: if_splits option.splits)
  show ?thesis
    using assms ParseSdpBody_origin part
    by (auto simp: GetSdp_def msg_parse_def split: prod.splits option.splits if_splits sum.splits)
qed

lemma FixupVersion_Inr:
  assumes "\<And>d. mb_sdp mb = Some d \<Longrightarrow> sd_o d \<noteq> None"
  shows "\<exists>mb' ss'. FixupVersion mb ss = Inr (mb', ss')"
proof (cases "GetSdp mb")
  case (Pair mb1 r)
  then show ?thesis
    using GetSdp_origin [of mb mb1] assms by (cases r) (auto simp: FixupVersion_def FixupVersion_sdp_def Let_def)
qed

end
