(* ===== verification/Sippy_Msg.thy ===== *)
theory Sippy_Msg
  imports Sippy_Headers Msg_Body
begin

text \<open>
  SIP messages: \<^verbatim>\<open>sippy/sip_msg.go\<close>, \<^verbatim>\<open>sippy/sip_request.go\<close> and
  \<^verbatim>\<open>sippy/sip_response.go\<close> without the text parser. A message is a record with the typed
  header fields the code keeps beside the generic header list; requests and responses
  extend it. The theory has the header dispatcher, the constructors for requests,
  responses, ACK and CANCEL, and the derivation of transaction identifiers.
\<close>

section \<open>Header fields\<close>

text \<open>
  Digest challenges and credentials (\<^verbatim>\<open>sip_www_authenticate.go\<close>,
  \<^verbatim>\<open>sip_authorization.go\<close>): the parsed parameters; their
  texts and the computation of the digests are in \<open>Digest_Auth\<close>.
\<close>

record challenge_body =
  ch_realm :: "my_address option"
  ch_nonce :: string
  ch_algorithm :: string
  ch_qop :: "string list"
  ch_otherparams :: "string list"
  ch_opaque :: string

record authorization_body =
  au_username :: string
  au_uri :: string
  au_realm :: string
  au_nonce :: string
  au_response :: string
  au_qop :: string
  au_nc :: string
  au_cnonce :: string
  au_opaque :: string
  au_algorithm :: string
  au_otherparams :: string

record sip_contact =
  ct_Asterisk :: bool
  ct_address :: address_hf

datatype sip_header =
    H_CSeq "cseq_body result"
  | H_RSeq numeric_hf
  | H_RAck "rack_body result"
  | H_CallId string
  | H_From address_hf
  | H_To address_hf
  | H_MaxForwards numeric_hf
  | H_Via via_hf
  | H_ContentLength numeric_hf
  | H_ContentType string
  | H_Expires numeric_hf
  | H_RecordRoute address_hf
  | H_Route address_hf
  | H_Contact sip_contact
  | H_WWWAuthenticate "challenge_body result"
  | H_Authorization "authorization_body result"
  | H_Server string
  | H_UserAgent string
  | H_CiscoGUID string
  | H_H323ConfId string
  | H_Also address_hf
  | H_ReferTo address_hf
  | H_CCDiversion address_hf
  | H_ReferredBy address_hf
  | H_Diversion address_hf
  | H_ProxyAuthenticate "challenge_body result"
  | H_ProxyAuthorization "authorization_body result"
  | H_Replaces string
  | H_Reason sip_reason
  | H_Warning string
  | H_Require string
  | H_Supported string
  | H_Date string
  | H_Generic string string

record sip_msg =
  m_headers :: "sip_header list"
  m_startline :: string
  m_vias :: "via_hf list"
  m_contacts :: "sip_contact list"
  m_to :: "address_hf option"
  m_from :: "address_hf option"
  m_cseq :: "cseq_body result option"
  m_rseq :: "numeric_hf option"
  m_rack :: "rack_body result option"
  m_content_length :: "numeric_hf option"
  m_content_type :: "string option"
  m_call_id :: "string option"
  m_refer_to :: "address_hf option"
  m_maxforwards :: "numeric_hf option"
  m_also :: "address_hf list"
  m_rtime :: "monotime option"
  m_body :: "msg_body option"
  m_source :: "host_port option"
  m_record_routes :: "address_hf list"
  m_routes :: "address_hf list"
  m_target :: "host_port option"
  m_reason_hf :: "sip_reason option"
  m_sip_warning :: "string option"
  m_sip_www_authenticates :: "challenge_body result list"
  m_sip_authorization :: "authorization_body result option"
  m_sip_proxy_authorization :: "authorization_body result option"
  m_sip_proxy_authenticates :: "challenge_body result list"
  m_sip_server :: "string option"
  m_sip_user_agent :: "string option"
  m_sip_cisco_guid :: "string option"
  m_sip_h323_conf_id :: "string option"
  m_sip_require :: "string list"
  m_sip_supported :: "string list"
  m_sip_date :: "string option"

definition NewSipMsg :: "monotime option \<Rightarrow> sip_msg" where
  "NewSipMsg rt =
     \<lparr>m_headers = [], m_startline = [], m_vias = [], m_contacts = [], m_to = None,
      m_from = None, m_cseq = None, m_rseq = None, m_rack = None, m_content_length = None,
      m_content_type = None, m_call_id = None, m_refer_to = None, m_maxforwards = None,
      m_also = [], m_rtime = rt, m_body = None, m_source = None, m_record_routes = [],
      m_routes = [], m_target = None, m_reason_hf = None, m_sip_warning = None,
      m_sip_www_authenticates = [], m_sip_authorization = None,
      m_sip_proxy_authorization = None, m_sip_proxy_authenticates = [],
      m_sip_server = None, m_sip_user_agent = None, m_sip_cisco_guid = None,
      m_sip_h323_conf_id = None, m_sip_require = [], m_sip_supported = [],
      m_sip_date = None\<rparr>"

text \<open>
  The header dispatcher. Max-Forwards, Via, Content-Length, Content-Type, Route and the two
  credentials headers return early: they live in their own field only. Expires has a case
  but no field.
\<close>

definition push_header :: "sip_header \<Rightarrow> 'a sip_msg_scheme \<Rightarrow> 'a sip_msg_scheme" where
  "push_header h m = m\<lparr>m_headers := m_headers m @ [h]\<rparr>"

fun AppendHeader :: "sip_header \<Rightarrow> 'a sip_msg_scheme \<Rightarrow> 'a sip_msg_scheme" where
  "AppendHeader (H_CSeq t) m = push_header (H_CSeq t) (m\<lparr>m_cseq := Some t\<rparr>)"
| "AppendHeader (H_RSeq t) m = push_header (H_RSeq t) (m\<lparr>m_rseq := Some t\<rparr>)"
| "AppendHeader (H_RAck t) m = push_header (H_RAck t) (m\<lparr>m_rack := Some t\<rparr>)"
| "AppendHeader (H_CallId t) m = push_header (H_CallId t) (m\<lparr>m_call_id := Some t\<rparr>)"
| "AppendHeader (H_From t) m = push_header (H_From t) (m\<lparr>m_from := Some t\<rparr>)"
| "AppendHeader (H_To t) m = push_header (H_To t) (m\<lparr>m_to := Some t\<rparr>)"
| "AppendHeader (H_MaxForwards t) m = m\<lparr>m_maxforwards := Some t\<rparr>"
| "AppendHeader (H_Via t) m = m\<lparr>m_vias := m_vias m @ [t]\<rparr>"
| "AppendHeader (H_ContentLength t) m = m\<lparr>m_content_length := Some t\<rparr>"
| "AppendHeader (H_ContentType t) m = m\<lparr>m_content_type := Some t\<rparr>"
| "AppendHeader (H_Expires t) m = push_header (H_Expires t) m"
| "AppendHeader (H_RecordRoute t) m =
     push_header (H_RecordRoute t) (m\<lparr>m_record_routes := m_record_routes m @ [t]\<rparr>)"
| "AppendHeader (H_Route t) m = m\<lparr>m_routes := m_routes m @ [t]\<rparr>"
| "AppendHeader (H_Contact t) m =
     push_header (H_Contact t) (m\<lparr>m_contacts := m_contacts m @ [t]\<rparr>)"
| "AppendHeader (H_WWWAuthenticate t) m = push_header (H_WWWAuthenticate t)
     (m\<lparr>m_sip_www_authenticates := m_sip_www_authenticates m @ [t]\<rparr>)"
| "AppendHeader (H_Authorization t) m =
     m\<lparr>m_sip_authorization := Some t, m_sip_proxy_authorization := None\<rparr>"
| "AppendHeader (H_Server t) m = push_header (H_Server t) (m\<lparr>m_sip_server := Some t\<rparr>)"
| "AppendHeader (H_UserAgent t) m =
     push_header (H_UserAgent t) (m\<lparr>m_sip_user_agent := Some t\<rparr>)"
| "AppendHeader (H_CiscoGUID t) m =
     push_header (H_CiscoGUID t) (m\<lparr>m_sip_cisco_guid := Some t\<rparr>)"
| "AppendHeader (H_H323ConfId t) m =
     push_header (H_H323ConfId t) (m\<lparr>m_sip_h323_conf_id := Some t\<rparr>)"
| "AppendHeader (H_Also t) m = push_header (H_Also t) (m\<lparr>m_also := m_also m @ [t]\<rparr>)"
| "AppendHeader (H_ReferTo t) m = push_header (H_ReferTo t) (m\<lparr>m_refer_to := Some t\<rparr>)"
| "AppendHeader (H_CCDiversion t) m = push_header (H_CCDiversion t) m"
| "AppendHeader (H_ReferredBy t) m = push_header (H_ReferredBy t) m"
| "AppendHeader (H_Diversion t) m = push_header (H_Diversion t) m"
| "AppendHeader (H_ProxyAuthenticate t) m = push_header (H_ProxyAuthenticate t)
     (m\<lparr>m_sip_proxy_authenticates := m_sip_proxy_authenticates m @ [t]\<rparr>)"
| "AppendHeader (H_ProxyAuthorization t) m =
     m\<lparr>m_sip_proxy_authorization := Some t, m_sip_authorization := None\<rparr>"
| "AppendHeader (H_Replaces t) m = push_header (H_Replaces t) m"
| "AppendHeader (H_Reason t) m = push_header (H_Reason t) (m\<lparr>m_reason_hf := Some t\<rparr>)"
| "AppendHeader (H_Warning t) m = push_header (H_Warning t) (m\<lparr>m_sip_warning := Some t\<rparr>)"
| "AppendHeader (H_Require t) m =
     push_header (H_Require t) (m\<lparr>m_sip_require := m_sip_require m @ [t]\<rparr>)"
| "AppendHeader (H_Supported t) m =
     push_header (H_Supported t) (m\<lparr>m_sip_supported := m_sip_supported m @ [t]\<rparr>)"
| "AppendHeader (H_Date t) m = push_header (H_Date t) (m\<lparr>m_sip_date := Some t\<rparr>)"
| "AppendHeader (H_Generic n v) m = push_header (H_Generic n v) m"

definition appendHeaders :: "sip_header list \<Rightarrow> 'a sip_msg_scheme \<Rightarrow> 'a sip_msg_scheme" where
  "appendHeaders hs m = fold AppendHeader hs m"

text \<open>\<open>sipMsg.getCopy\<close> re-appends vias, routes and headers; Max-Forwards, the body length and
  type and the credentials are not carried over. It is total on the record.\<close>

definition msg_getCopy :: "sip_msg \<Rightarrow> sip_msg" where
  "msg_getCopy m =
     (appendHeaders (map H_Via (m_vias m) @ map H_Route (m_routes m) @ m_headers m)
        (NewSipMsg (m_rtime m)))
     \<lparr>m_body := m_body m, m_startline := m_startline m, m_target := m_target m,
      m_source := m_source m\<rparr>"

section \<open>Requests and responses\<close>

record sip_request = sip_msg +
  rq_method :: string
  rq_sipver :: string
  rq_ruri :: sip_url
  rq_expires :: "numeric_hf option"
  rq_user_agent :: "string option"
  rq_nated :: bool

record sip_response = sip_msg +
  rs_scode :: int
  rs_reason :: string
  rs_sipver :: string

text \<open>
  \<open>NewSipRequest\<close>: the random part of the Via branch and a generated Call-ID are
  arguments, used only where the code draws them.
\<close>

definition initial_request :: "string \<Rightarrow> sip_url \<Rightarrow> sip_request" where
  "initial_request method ruri =
     sip_msg.extend (NewSipMsg None)
       (sip_request.fields method [] ruri None None False)"

definition request_target ::
  "sippy_config \<Rightarrow> sip_url \<Rightarrow> address_hf list \<Rightarrow> host_port option \<Rightarrow> host_port result" where
  "request_target cfg ruri rts tgt =
     (case tgt of
        Some t \<Rightarrow> Inr t
      | None \<Rightarrow> (case rts of
            [] \<Rightarrow> Inr (url_GetAddr cfg ruri)
          | r0 # _ \<Rightarrow> bind_result r0 (\<lambda>a. Inr (url_GetAddr cfg (adr_url a)))))"

definition request_tail :: "address_hf option \<Rightarrow> numeric_hf option \<Rightarrow> string \<Rightarrow> string \<Rightarrow> sip_header list" where
  "request_tail contact expires method agent =
     (case contact of Some c \<Rightarrow> [H_Contact \<lparr>ct_Asterisk = False, ct_address = c\<rparr>] | None \<Rightarrow> [])
     @ (if expires = None \<and> method = ''INVITE'' then [H_Expires (newSipNumericHF 300)]
        else case expires of Some e \<Rightarrow> [H_Expires e] | None \<Rightarrow> [])
     @ [H_UserAgent agent]"

definition NewSipRequest ::
  "string \<Rightarrow> sip_url \<Rightarrow> string \<Rightarrow> address_hf option \<Rightarrow> address_hf option \<Rightarrow> via_hf option \<Rightarrow>
   int \<Rightarrow> string option \<Rightarrow> numeric_hf option \<Rightarrow> msg_body option \<Rightarrow> address_hf option \<Rightarrow>
   address_hf list \<Rightarrow> host_port option \<Rightarrow> string option \<Rightarrow> numeric_hf option \<Rightarrow>
   sippy_config \<Rightarrow> string \<Rightarrow> string \<Rightarrow> sip_request result" where
  "NewSipRequest method ruri sipver to_hf from_hf via cseq_n callid mf bdy contact rts tgt
                 ua_name expires cfg rnd_branch rnd_callid =
     bind_result (request_target cfg ruri rts tgt) (\<lambda>tg.
       let via_h = (case via of Some v \<Rightarrow> v
                    | None \<Rightarrow> Inr (GenBranch rnd_branch (newSipViaBody cfg)));
           agent = (case ua_name of Some n \<Rightarrow> n | None \<Rightarrow> cfg_MyUAName cfg);
           hs = [H_Via via_h] @ map H_Route rts
              @ [H_MaxForwards (case mf of Some x \<Rightarrow> x | None \<Rightarrow> newSipNumericHF 70),
                 H_From (case from_hf of Some f \<Rightarrow> f | None \<Rightarrow> NewSipFrom cfg None),
                 H_To (case to_hf of Some t \<Rightarrow> t | None \<Rightarrow> Inr (NewSipAddress [] ruri)),
                 H_CallId (case callid of Some c \<Rightarrow> c | None \<Rightarrow> rnd_callid),
                 H_CSeq (Inr \<lparr>CSeq_num = cseq_n, CSeq_Method = method\<rparr>)]
              @ request_tail contact expires method agent
       in Inr ((appendHeaders hs
                 ((initial_request method ruri)
                   \<lparr>m_target := Some tg,
                    rq_sipver := (if sipver = [] then ''SIP/2.0'' else sipver),
                    rq_user_agent := Some agent\<rparr>))\<lparr>m_body := bdy\<rparr>))"

definition NewSipResponse ::
  "int \<Rightarrow> string \<Rightarrow> string \<Rightarrow> address_hf \<Rightarrow> string \<Rightarrow> via_hf list \<Rightarrow> address_hf \<Rightarrow>
   cseq_body result \<Rightarrow> address_hf list \<Rightarrow> msg_body option \<Rightarrow> string option \<Rightarrow> sip_response" where
  "NewSipResponse scode reason sipver from_hf callid vs to_hf cseq_hf rrs bdy server =
     (appendHeaders
        (map H_Via vs @ map H_RecordRoute rrs
         @ [H_From from_hf, H_To to_hf, H_CallId callid, H_CSeq cseq_hf]
         @ (case server of Some s \<Rightarrow> [H_Server s] | None \<Rightarrow> []))
        (sip_msg.extend (NewSipMsg None) (sip_response.fields scode reason sipver)))
     \<lparr>m_body := bdy\<rparr>"

text \<open>
  \<open>GenResponse\<close>, \<open>GenACK\<close> and \<open>GenCANCEL\<close> dereference the mandatory headers, which the
  parser and the constructor guarantee; a missing one is a nil dereference.
\<close>

definition GenResponse :: "int \<Rightarrow> string \<Rightarrow> msg_body option \<Rightarrow> string option \<Rightarrow> sip_request \<Rightarrow>
    sip_response result" where
  "GenResponse scode reason bdy server rq =
     bind_result (of_option (m_from rq)) (\<lambda>f.
     bind_result (of_option (m_call_id rq)) (\<lambda>c.
     bind_result (of_option (m_to rq)) (\<lambda>t.
     bind_result (of_option (m_cseq rq)) (\<lambda>cs.
       Inr (NewSipResponse scode reason (rq_sipver rq) f c (m_vias rq) t cs
              (m_record_routes rq) bdy server)))))"

definition GenACK :: "sippy_config \<Rightarrow> address_hf option \<Rightarrow> sip_request \<Rightarrow> sip_request result" where
  "GenACK cfg to_hf rq =
     bind_result (case to_hf of Some t \<Rightarrow> Inr t | None \<Rightarrow> of_option (m_to rq)) (\<lambda>t.
     bind_result (of_option (m_cseq rq)) (\<lambda>ch.
     bind_result ch (\<lambda>cs.
     bind_result (of_option (m_from rq)) (\<lambda>f.
     bind_result (case m_vias rq of [] \<Rightarrow> Inl nil_panic | v # _ \<Rightarrow> Inr v) (\<lambda>v.
     bind_result (of_option (m_call_id rq)) (\<lambda>c.
       NewSipRequest ''ACK'' (rq_ruri rq) (rq_sipver rq) (Some t) (Some f) (Some v)
         (CSeq_num cs) (Some c) (m_maxforwards rq) None None [] None (rq_user_agent rq)
         None cfg [] []))))))"

definition GenCANCEL :: "sippy_config \<Rightarrow> sip_request \<Rightarrow> sip_request result" where
  "GenCANCEL cfg rq =
     bind_result (of_option (m_cseq rq)) (\<lambda>ch.
     bind_result ch (\<lambda>cs.
     bind_result (of_option (m_to rq)) (\<lambda>t.
     bind_result (of_option (m_from rq)) (\<lambda>f.
     bind_result (case m_vias rq of [] \<Rightarrow> Inl nil_panic | v # _ \<Rightarrow> Inr v) (\<lambda>v.
     bind_result (of_option (m_call_id rq)) (\<lambda>c.
       NewSipRequest ''CANCEL'' (rq_ruri rq) (rq_sipver rq) (Some t) (Some f) (Some v)
         (CSeq_num cs) (Some c) (m_maxforwards rq) None None (m_routes rq) (m_target rq)
         (rq_user_agent rq) None cfg [] []))))))"

definition response_GetCopy :: "sip_response \<Rightarrow> sip_response" where
  "response_GetCopy r =
     sip_msg.extend (msg_getCopy (sip_msg.truncate r))
       (sip_response.fields (rs_scode r) (rs_reason r) (rs_sipver r))"


text \<open>
  The typed field and the entry of the header list are the same object in the code, so a
  tag set on the parsed To body shows in both: the last To of the list is the one the
  field points to.
\<close>

fun upd_first_To :: "address_hf \<Rightarrow> sip_header list \<Rightarrow> sip_header list" where
  "upd_first_To a [] = []"
| "upd_first_To a (H_To x # hs) = H_To a # hs"
| "upd_first_To a (h # hs) = h # upd_first_To a hs"

definition set_To :: "address_hf \<Rightarrow> 'a sip_msg_scheme \<Rightarrow> 'a sip_msg_scheme" where
  "set_To a m = m\<lparr>m_to := Some a, m_headers := rev (upd_first_To a (rev (m_headers m)))\<rparr>"

section \<open>Transaction identifiers of a message\<close>

definition opt_field :: "'a result option \<Rightarrow> 'b \<Rightarrow> ('a \<Rightarrow> 'b) \<Rightarrow> 'b result" where
  "opt_field x d f = (case x of None \<Rightarrow> Inr d | Some r \<Rightarrow> bind_result r (\<lambda>a. Inr (f a)))"

definition GetTId :: "bool \<Rightarrow> bool \<Rightarrow> bool \<Rightarrow> 'a sip_msg_scheme \<Rightarrow> tid result" where
  "GetTId wCSM wBRN wTTG m =
     (case m_cseq m of
        None \<Rightarrow> Inl ''no CSeq: field''
      | Some ch \<Rightarrow>
          bind_result ch (\<lambda>cs.
          bind_result (opt_field (m_from m) [] GetTag) (\<lambda>from_tag.
          bind_result (if wBRN then (case m_vias m of [] \<Rightarrow> Inr []
                                     | v # _ \<Rightarrow> bind_result v (\<lambda>b. Inr (GetBranch b)))
                       else Inr []) (\<lambda>br.
          bind_result (if wTTG then bind_result (of_option (m_to m))
                                      (\<lambda>r. bind_result r (\<lambda>a. Inr (GetTag a)))
                       else Inr []) (\<lambda>to_tag.
            Inr (NewTID (case m_call_id m of Some c \<Rightarrow> c | None \<Rightarrow> [])
                   (Itoa (CSeq_num cs)) (if wCSM then CSeq_Method cs else [])
                   from_tag to_tag br))))))"

text \<open>\<open>getTIds\<close> hands the branch to \<open>NewTID\<close> in the to-tag position.\<close>

definition getTIds :: "'a sip_msg_scheme \<Rightarrow> tid list result" where
  "getTIds m =
     bind_result (of_option (m_call_id m)) (\<lambda>cid.
     bind_result (of_option (m_from m)) (\<lambda>fh.
     bind_result fh (\<lambda>f.
     (case m_cseq m of
        None \<Rightarrow> Inl ''no CSeq: field''
      | Some ch \<Rightarrow>
          bind_result ch (\<lambda>cs.
            map_result (\<lambda>v. bind_result v (\<lambda>b.
                Inr (NewTID cid (Itoa (CSeq_num cs)) (CSeq_Method cs) (GetTag f) (GetBranch b) [])))
              (m_vias m))))))"

definition request_GetRTId :: "sip_request \<Rightarrow> rtid result" where
  "request_GetRTId rq =
     (case m_rack rq of
        None \<Rightarrow> Inl ''No RAck field present''
      | Some rh \<Rightarrow> (case rh of
           Inl e \<Rightarrow> Inl (''Error parsing RSeq: '' @ e)
         | Inr rk \<Rightarrow>
             bind_result (of_option (m_call_id rq)) (\<lambda>cid.
             bind_result (of_option (m_from rq)) (\<lambda>fh.
             (case fh of Inl e \<Rightarrow> Inl (''Error parsing From: '' @ e)
              | Inr f \<Rightarrow> Inr (NewRTID cid (GetTag f) (RAck_RSeq rk) (RAck_CSeq rk) (RAck_Method rk)))))))"

text \<open>The response's RSeq is parsed in place: the response after the call comes back too.\<close>

definition response_GetRTId :: "sip_response \<Rightarrow> sip_response \<times> rtid result" where
  "response_GetRTId rs =
     (case m_rseq rs of
        None \<Rightarrow> (rs, Inl ''No RSeq present'')
      | Some h \<Rightarrow>
          (let (h', r) = numeric_GetBody h; rs' = rs\<lparr>m_rseq := Some h'\<rparr> in
           (rs', case r of
              Inl e \<Rightarrow> Inl (''Error parsing RSeq: '' @ e)
            | Inr n \<Rightarrow>
                bind_result (of_option (m_cseq rs)) (\<lambda>ch.
                (case ch of Inl e \<Rightarrow> Inl (''Error parsing CSeq: '' @ e)
                 | Inr cs \<Rightarrow>
                     bind_result (of_option (m_call_id rs)) (\<lambda>cid.
                     bind_result (of_option (m_from rs)) (\<lambda>fh.
                     (case fh of Inl e \<Rightarrow> Inl (''Error parsing From: '' @ e)
                      | Inr f \<Rightarrow> Inr (NewRTID cid (GetTag f) n (CSeq_num cs) (CSeq_Method cs))))))))))"

section \<open>Projections of constructed messages\<close>

lemma push_header_simps [msg_simps]:
  "m_cseq (push_header h m) = m_cseq m" "m_from (push_header h m) = m_from m"
  "m_to (push_header h m) = m_to m" "m_call_id (push_header h m) = m_call_id m"
  "m_vias (push_header h m) = m_vias m" "m_record_routes (push_header h m) = m_record_routes m"
  "m_routes (push_header h m) = m_routes m" "m_rseq (push_header h m) = m_rseq m"
  "m_rack (push_header h m) = m_rack m" "m_target (push_header h m) = m_target m"
  by (simp_all add: push_header_def)

lemma push_header_request_simps [msg_simps]:
  "rq_method (push_header h rq) = rq_method rq" "rq_ruri (push_header h rq) = rq_ruri rq"
  "rq_sipver (push_header h rq) = rq_sipver rq" "rq_expires (push_header h rq) = rq_expires rq"
  "rq_user_agent (push_header h rq) = rq_user_agent rq"
  by (simp_all add: push_header_def)

lemma push_header_response_simps [msg_simps]:
  "rs_scode (push_header h rs) = rs_scode rs" "rs_reason (push_header h rs) = rs_reason rs"
  "rs_sipver (push_header h rs) = rs_sipver rs"
  by (simp_all add: push_header_def)

lemma appendHeaders_simps [msg_simps]:
  "appendHeaders [] m = m"
  "appendHeaders (h # hs) m = appendHeaders hs (AppendHeader h m)"
  "appendHeaders (hs @ hs') m = appendHeaders hs' (appendHeaders hs m)"
  by (simp_all add: appendHeaders_def)

lemma appendHeaders_vias [msg_simps]:
  "appendHeaders (map H_Via vs) m = m\<lparr>m_vias := m_vias m @ vs\<rparr>"
  by (induction vs arbitrary: m) (simp_all add: appendHeaders_def)

lemma appendHeaders_routes [msg_simps]:
  "appendHeaders (map H_Route vs) m = m\<lparr>m_routes := m_routes m @ vs\<rparr>"
  by (induction vs arbitrary: m) (simp_all add: appendHeaders_def)

lemma appendHeaders_rrs [msg_simps]:
  "appendHeaders (map H_RecordRoute vs) m =
     m\<lparr>m_record_routes := m_record_routes m @ vs, m_headers := m_headers m @ map H_RecordRoute vs\<rparr>"
  by (induction vs arbitrary: m) (simp_all add: appendHeaders_def push_header_def)

text \<open>No header changes the request line, the status line or the Expires field of a request.\<close>

lemma AppendHeader_request [simp]:
  "rq_method (AppendHeader h rq) = rq_method rq" "rq_expires (AppendHeader h rq) = rq_expires rq"
  "rq_ruri (AppendHeader h rq) = rq_ruri rq" "rq_sipver (AppendHeader h rq) = rq_sipver rq"
  "rq_user_agent (AppendHeader h rq) = rq_user_agent rq"
  by (cases h; simp add: push_header_def)+

lemma AppendHeader_response [simp]:
  "rs_scode (AppendHeader h rs) = rs_scode rs" "rs_reason (AppendHeader h rs) = rs_reason rs"
  by (cases h; simp add: push_header_def)+

lemma appendHeaders_request [simp]:
  "rq_method (appendHeaders hs rq) = rq_method rq" "rq_expires (appendHeaders hs rq) = rq_expires rq"
  "rq_ruri (appendHeaders hs rq) = rq_ruri rq" "rq_sipver (appendHeaders hs rq) = rq_sipver rq"
  "rq_user_agent (appendHeaders hs rq) = rq_user_agent rq"
  unfolding appendHeaders_def by (induction hs arbitrary: rq) simp_all

lemma appendHeaders_response [simp]:
  "rs_scode (appendHeaders hs rs) = rs_scode rs" "rs_reason (appendHeaders hs rs) = rs_reason rs"
  unfolding appendHeaders_def by (induction hs arbitrary: rs) simp_all

lemma msg_extend_simps [msg_simps]:
  "m_headers (sip_msg.extend (NewSipMsg t) e) = []" "m_vias (sip_msg.extend (NewSipMsg t) e) = []"
  "m_routes (sip_msg.extend (NewSipMsg t) e) = []"
  "m_record_routes (sip_msg.extend (NewSipMsg t) e) = []"
  "m_contacts (sip_msg.extend (NewSipMsg t) e) = []"
  by (simp_all add: NewSipMsg_def sip_msg.defs)

lemma NewSipResponse_simps [msg_simps]:
  "m_cseq (NewSipResponse sc re sv f c vs t cs rrs b sr) = Some cs"
  "m_from (NewSipResponse sc re sv f c vs t cs rrs b sr) = Some f"
  "m_to (NewSipResponse sc re sv f c vs t cs rrs b sr) = Some t"
  "m_call_id (NewSipResponse sc re sv f c vs t cs rrs b sr) = Some c"
  "m_vias (NewSipResponse sc re sv f c vs t cs rrs b sr) = vs"
  "m_record_routes (NewSipResponse sc re sv f c vs t cs rrs b sr) = rrs"
  "rs_scode (NewSipResponse sc re sv f c vs t cs rrs b sr) = sc"
  "rs_reason (NewSipResponse sc re sv f c vs t cs rrs b sr) = re"
  "m_body (NewSipResponse sc re sv f c vs t cs rrs b sr) = b"
  by (simp_all add: NewSipResponse_def msg_simps sip_response.defs split: option.splits)
     (simp_all add: NewSipMsg_def sip_msg.defs sip_response.defs)

lemma GenResponse_Inr:
  assumes "GenResponse sc re b sr rq = Inr rs"
  shows "m_cseq rs = m_cseq rq" "m_from rs = m_from rq" "m_to rs = m_to rq"
    "m_call_id rs = m_call_id rq" "m_vias rs = m_vias rq"
    "m_record_routes rs = m_record_routes rq" "rs_scode rs = sc" "rs_reason rs = re"
    "m_body rs = b"
  using assms by (auto simp: GenResponse_def bind_result_Inr_iff msg_simps)

text \<open>Headers that touch none of the fields that identify a transaction or a dialog.\<close>

fun plain_header :: "sip_header \<Rightarrow> bool" where
  "plain_header (H_Contact _) = True"
| "plain_header (H_Expires _) = True"
| "plain_header (H_UserAgent _) = True"
| "plain_header (H_Server _) = True"
| "plain_header (H_Reason _) = True"
| "plain_header (H_Warning _) = True"
| "plain_header (H_MaxForwards _) = True"
| "plain_header (H_Authorization _) = True"
| "plain_header (H_ProxyAuthorization _) = True"
| "plain_header (H_Generic _ _) = True"
| "plain_header _ = False"

lemma AppendHeader_plain:
  assumes "plain_header h"
  shows "m_cseq (AppendHeader h m) = m_cseq m" "m_from (AppendHeader h m) = m_from m"
    "m_to (AppendHeader h m) = m_to m" "m_call_id (AppendHeader h m) = m_call_id m"
    "m_vias (AppendHeader h m) = m_vias m" "m_routes (AppendHeader h m) = m_routes m"
    "m_target (AppendHeader h m) = m_target m"
  using assms by (cases h; simp add: push_header_def)+

lemma appendHeaders_plain:
  assumes "list_all plain_header hs"
  shows "m_cseq (appendHeaders hs m) = m_cseq m" "m_from (appendHeaders hs m) = m_from m"
    "m_to (appendHeaders hs m) = m_to m" "m_call_id (appendHeaders hs m) = m_call_id m"
    "m_vias (appendHeaders hs m) = m_vias m" "m_routes (appendHeaders hs m) = m_routes m"
    "m_target (appendHeaders hs m) = m_target m"
  using assms by (induction hs arbitrary: m) (simp_all add: appendHeaders_def AppendHeader_plain)

lemma request_tail_plain: "list_all plain_header (request_tail ct ex me ag)"
  by (auto simp: request_tail_def split: option.splits)

lemma NewSipRequest_Inr:
  assumes "NewSipRequest meth ruri sv t f v n c mf b ct rts tgt un ex cfg rb rc = Inr rq"
  shows "rq_method rq = meth" "rq_ruri rq = ruri" "rq_expires rq = None" "m_body rq = b"
    "m_cseq rq = Some (Inr \<lparr>CSeq_num = n, CSeq_Method = meth\<rparr>)"
    "m_from rq = Some (case f of Some x \<Rightarrow> x | None \<Rightarrow> NewSipFrom cfg None)"
    "m_to rq = Some (case t of Some x \<Rightarrow> x | None \<Rightarrow> Inr (NewSipAddress [] ruri))"
    "m_call_id rq = Some (case c of Some x \<Rightarrow> x | None \<Rightarrow> rc)"
    "m_vias rq = [case v of Some x \<Rightarrow> x | None \<Rightarrow> Inr (GenBranch rb (newSipViaBody cfg))]"
    "m_routes rq = rts" "m_target rq \<noteq> None"
proof -
  from assms obtain tg where rq: "rq = (appendHeaders (request_tail ct ex meth
        (case un of Some n \<Rightarrow> n | None \<Rightarrow> cfg_MyUAName cfg))
      (appendHeaders ([H_Via (case v of Some v \<Rightarrow> v
                    | None \<Rightarrow> Inr (GenBranch rb (newSipViaBody cfg)))] @ map H_Route rts
              @ [H_MaxForwards (case mf of Some x \<Rightarrow> x | None \<Rightarrow> newSipNumericHF 70),
                 H_From (case f of Some f \<Rightarrow> f | None \<Rightarrow> NewSipFrom cfg None),
                 H_To (case t of Some t \<Rightarrow> t | None \<Rightarrow> Inr (NewSipAddress [] ruri)),
                 H_CallId (case c of Some c \<Rightarrow> c | None \<Rightarrow> rc),
                 H_CSeq (Inr \<lparr>CSeq_num = n, CSeq_Method = meth\<rparr>)])
         ((initial_request meth ruri)\<lparr>m_target := Some tg,
             rq_sipver := (if sv = [] then ''SIP/2.0'' else sv),
             rq_user_agent := Some (case un of Some n \<Rightarrow> n | None \<Rightarrow> cfg_MyUAName cfg)\<rparr>)))
       \<lparr>m_body := b\<rparr>"
    by (auto simp: NewSipRequest_def bind_result_Inr_iff Let_def
        appendHeaders_simps)
  show "rq_method rq = meth" "rq_ruri rq = ruri" "rq_expires rq = None" "m_body rq = b"
    by (simp_all add: rq initial_request_def sip_request.defs sip_msg.defs)
  note plain = appendHeaders_plain [OF request_tail_plain]
  show "m_cseq rq = Some (Inr \<lparr>CSeq_num = n, CSeq_Method = meth\<rparr>)"
    "m_from rq = Some (case f of Some x \<Rightarrow> x | None \<Rightarrow> NewSipFrom cfg None)"
    "m_to rq = Some (case t of Some x \<Rightarrow> x | None \<Rightarrow> Inr (NewSipAddress [] ruri))"
    "m_call_id rq = Some (case c of Some x \<Rightarrow> x | None \<Rightarrow> rc)"
    "m_vias rq = [case v of Some x \<Rightarrow> x | None \<Rightarrow> Inr (GenBranch rb (newSipViaBody cfg))]"
    "m_routes rq = rts" "m_target rq \<noteq> None"
    by (simp_all add: rq plain msg_simps initial_request_def)
qed

text \<open>A response carries the identifiers of the request it answers.\<close>

lemma GetTId_cong:
  assumes "m_cseq m = m_cseq m'" "m_from m = m_from m'" "m_vias m = m_vias m'"
    "m_call_id m = m_call_id m'" "wTTG \<Longrightarrow> m_to m = m_to m'"
  shows "GetTId wCSM wBRN wTTG m = GetTId wCSM wBRN wTTG m'"
  using assms by (auto simp: GetTId_def split: option.splits)


lemma NewSipRequest_ex:
  "tgt \<noteq> None \<or> rts = [] \<Longrightarrow>
   \<exists>rq. NewSipRequest meth ruri sv t f v n c mf b ct rts tgt un ex cfg rb rc = Inr rq"
  by (cases tgt) (auto simp: NewSipRequest_def request_target_def Let_def)

text \<open>What a request must have for the code not to dereference nil on it.\<close>

definition wf_request :: "sip_request \<Rightarrow> bool" where
  "wf_request rq \<longleftrightarrow> m_from rq \<noteq> None \<and> m_to rq \<noteq> None \<and> m_call_id rq \<noteq> None \<and> m_vias rq \<noteq> []
     \<and> (\<exists>c. m_cseq rq = Some (Inr c))"

lemma NewSipRequest_wf: "NewSipRequest meth ruri sv t f v n c mf b ct rts tgt un ex cfg rb rc = Inr rq
   \<Longrightarrow> wf_request rq"
  using NewSipRequest_Inr by (fastforce simp: wf_request_def)

lemma GenResponse_ex: "wf_request rq \<Longrightarrow> \<exists>rs. GenResponse sc re b sr rq = Inr rs"
  by (auto simp: wf_request_def GenResponse_def)

lemma GenACK_ex: "wf_request rq \<Longrightarrow> \<exists>ack. GenACK cfg None rq = Inr ack"
  unfolding wf_request_def GenACK_def
  by (cases "m_vias rq") (auto intro: NewSipRequest_ex)

lemma GenCANCEL_ex: "wf_request rq \<Longrightarrow> m_target rq \<noteq> None \<Longrightarrow> \<exists>c. GenCANCEL cfg rq = Inr c"
  unfolding wf_request_def GenCANCEL_def
  by (cases "m_vias rq") (auto intro!: NewSipRequest_ex)

lemma GenACK_Inr:
  assumes "GenACK cfg None rq = Inr ack"
  obtains c where "m_cseq rq = Some (Inr c)" "m_cseq ack = Some (Inr \<lparr>CSeq_num = CSeq_num c, CSeq_Method = ''ACK''\<rparr>)"
    "m_from ack = m_from rq" "m_to ack = m_to rq" "m_call_id ack = m_call_id rq"
    "m_vias ack = [hd (m_vias rq)]" "m_vias rq \<noteq> []" "rq_method ack = ''ACK''" "rq_ruri ack = rq_ruri rq"
proof -
  obtain t c f v vs i where f: "m_to rq = Some t" "m_cseq rq = Some (Inr c)" "m_from rq = Some f"
      "m_vias rq = v # vs" "m_call_id rq = Some i"
    and n: "NewSipRequest ''ACK'' (rq_ruri rq) (rq_sipver rq) (Some t) (Some f) (Some v)
         (CSeq_num c) (Some i) (m_maxforwards rq) None None [] None (rq_user_agent rq)
         None cfg [] [] = Inr ack"
    using assms unfolding GenACK_def
    by (auto simp: bind_result_Inr_iff split: list.splits option.splits)
  show thesis by (rule that [of c]) (use f NewSipRequest_Inr [OF n] in simp_all)
qed

lemma GenCANCEL_Inr:
  assumes "GenCANCEL cfg rq = Inr ca"
  obtains c where "m_cseq rq = Some (Inr c)"
    "m_cseq ca = Some (Inr \<lparr>CSeq_num = CSeq_num c, CSeq_Method = ''CANCEL''\<rparr>)"
    "m_from ca = m_from rq" "m_to ca = m_to rq" "m_call_id ca = m_call_id rq"
    "m_vias ca = [hd (m_vias rq)]" "m_vias rq \<noteq> []" "rq_method ca = ''CANCEL''"
    "rq_ruri ca = rq_ruri rq" "m_routes ca = m_routes rq"
proof -
  obtain t c f v vs i where f: "m_to rq = Some t" "m_cseq rq = Some (Inr c)" "m_from rq = Some f"
      "m_vias rq = v # vs" "m_call_id rq = Some i"
    and n: "NewSipRequest ''CANCEL'' (rq_ruri rq) (rq_sipver rq) (Some t) (Some f) (Some v)
         (CSeq_num c) (Some i) (m_maxforwards rq) None None (m_routes rq) (m_target rq)
         (rq_user_agent rq) None cfg [] [] = Inr ca"
    using assms unfolding GenCANCEL_def
    by (auto simp: bind_result_Inr_iff split: list.splits option.splits)
  show thesis by (rule that [of c]) (use f NewSipRequest_Inr [OF n] in simp_all)
qed

text \<open>
  The peer matches a CANCEL and the ACK of a failure to the INVITE they belong to: the
  CANCEL made for a request has the server-side key of the request (Call-ID, CSeq
  number, From tag, branch), and so has the ACK; as client transactions the CANCEL and
  the request are distinct as long as the request is not itself a CANCEL.
\<close>

theorem cancel_and_ack_match_their_invite:
  assumes "GenCANCEL cfg rq = Inr ca" "GenACK cfg None rq = Inr ack"
    and "GetTId False True False rq = Inr k" "GetTId True True False rq = Inr kc"
    and "CSeq_Method (projr (the (m_cseq rq))) \<noteq> ''CANCEL''"
  shows "GetTId False True False ca = Inr k \<and> GetTId False True False ack = Inr k
    \<and> (\<exists>kc'. GetTId True True False ca = Inr kc' \<and> kc' \<noteq> kc \<and> tid_Branch kc' = tid_Branch kc)"
proof -
  obtain c where c: "m_cseq rq = Some (Inr c)" and
    ca: "m_cseq ca = Some (Inr \<lparr>CSeq_num = CSeq_num c, CSeq_Method = ''CANCEL''\<rparr>)"
      "m_from ca = m_from rq" "m_call_id ca = m_call_id rq" "m_vias ca = [hd (m_vias rq)]"
    and v: "m_vias rq \<noteq> []"
    using assms(1) by (rule GenCANCEL_Inr) auto
  have a: "m_cseq ack = Some (Inr \<lparr>CSeq_num = CSeq_num c, CSeq_Method = ''ACK''\<rparr>)"
      "m_from ack = m_from rq" "m_call_id ack = m_call_id rq" "m_vias ack = [hd (m_vias rq)]"
    using assms(2) by (rule GenACK_Inr, use c in auto)+
  show ?thesis using assms(3-5) v
    by (cases "m_vias rq") (auto simp: GetTId_def c ca a opt_field_def bind_result_Inr_iff NewTID_def
        split: option.splits)
qed

text \<open>
  Every response made for a request has the request's transaction identifiers, in each of
  the variants the code looks up: the server finds its transaction from the response, the client from the
  response it receives, and reliable provisional responses keep the CSeq that RAck repeats.
\<close>

theorem response_keeps_transaction_ids:
  assumes "GenResponse scode reason body server rq = Inr rs"
  shows "GetTId wCSM wBRN wTTG rs = GetTId wCSM wBRN wTTG rq"
  using GenResponse_Inr [OF assms] by (intro GetTId_cong) auto

end
