(* ===== verification/Cc_Events.thy ===== *)
theory Cc_Events
  imports Sippy_Msg "HOL-Library.Multiset"
begin

text \<open>
  Call control events, \<^verbatim>\<open>sippy/cc_events.go\<close> and \<^verbatim>\<open>sippy/cc_event_redirect.go\<close>: what a user
  agent and its call controller exchange. Every event draws the next number of a global
  counter; constructors take the counter's value and the clock reading used when
  no time is given.
\<close>

record cc_generic =
  ev_seq :: int
  ev_rtime :: monotime
  ev_extra_headers :: "sip_header list"
  ev_origin :: string
  ev_sip_reason :: "sip_reason option"
  ev_max_forwards :: "numeric_hf option"

record try_info =
  try_call_id :: "string option"
  try_cli :: string
  try_cld :: string
  try_caller_name :: string
  try_auth_hdr :: "sip_header option"
  try_body :: "msg_body option"
  try_routes :: "address_hf list"

datatype cc_event =
    CCEventTry cc_generic try_info
  | CCEventRing cc_generic int string "msg_body option"
  | CCEventConnect cc_generic int string "msg_body option"
  | CCEventPreConnect cc_generic int string "msg_body option"
  | CCEventUpdate cc_generic "msg_body option"
  | CCEventInfo cc_generic "msg_body option"
  | CCEventDisconnect cc_generic "sip_address option"
  | CCEventFail cc_generic "sip_header list" int string "string option"
  | CCEventRedirect cc_generic "sip_address list" int string "msg_body option"

fun generic :: "cc_event \<Rightarrow> cc_generic" where
  "generic (CCEventTry g _) = g"
| "generic (CCEventRing g _ _ _) = g"
| "generic (CCEventConnect g _ _ _) = g"
| "generic (CCEventPreConnect g _ _ _) = g"
| "generic (CCEventUpdate g _) = g"
| "generic (CCEventInfo g _) = g"
| "generic (CCEventDisconnect g _) = g"
| "generic (CCEventFail g _ _ _ _) = g"
| "generic (CCEventRedirect g _ _ _ _) = g"

abbreviation GetSeq :: "cc_event \<Rightarrow> int" where "GetSeq e \<equiv> ev_seq (generic e)"
abbreviation GetRtime :: "cc_event \<Rightarrow> monotime" where "GetRtime e \<equiv> ev_rtime (generic e)"
abbreviation GetOrigin :: "cc_event \<Rightarrow> string" where "GetOrigin e \<equiv> ev_origin (generic e)"

text \<open>Max-Forwards and Reason are kept apart from the other extra headers, the last one of each wins.\<close>

fun split_header :: "sip_header \<Rightarrow> cc_generic \<Rightarrow> cc_generic" where
  "split_header (H_MaxForwards h) g = g\<lparr>ev_max_forwards := Some h\<rparr>"
| "split_header (H_Reason h) g = g\<lparr>ev_sip_reason := Some h\<rparr>"
| "split_header h g = g\<lparr>ev_extra_headers := ev_extra_headers g @ [h]\<rparr>"

definition newCCEventGeneric ::
  "int \<Rightarrow> monotime \<Rightarrow> monotime option \<Rightarrow> string \<Rightarrow> sip_header list \<Rightarrow> cc_generic" where
  "newCCEventGeneric seq now rtime origin hs =
     fold split_header hs
       \<lparr>ev_seq = seq, ev_rtime = (case rtime of Some t \<Rightarrow> t | None \<Rightarrow> now),
        ev_extra_headers = [], ev_origin = origin, ev_sip_reason = None, ev_max_forwards = None\<rparr>"

definition generic_GetExtraHeaders :: "cc_generic \<Rightarrow> sip_header list" where
  "generic_GetExtraHeaders g =
     ev_extra_headers g @ (case ev_sip_reason g of Some r \<Rightarrow> [H_Reason r] | None \<Rightarrow> [])"

definition GetExtraHeaders :: "cc_event \<Rightarrow> sip_header list" where
  "GetExtraHeaders e = generic_GetExtraHeaders (generic e) @
     (case e of CCEventFail _ challenges _ _ _ \<Rightarrow> challenges | _ \<Rightarrow> [])"

definition SetReason :: "sip_reason option \<Rightarrow> cc_generic \<Rightarrow> cc_generic" where
  "SetReason r g = g\<lparr>ev_sip_reason := r\<rparr>"

definition SetMaxForwards :: "numeric_hf option \<Rightarrow> cc_generic \<Rightarrow> cc_generic" where
  "SetMaxForwards h g = g\<lparr>ev_max_forwards := h\<rparr>"

text \<open>The first redirect address; an empty list is an index out of range.\<close>

definition redirect_GetRedirectURL :: "sip_address list \<Rightarrow> sip_address option" where
  "redirect_GetRedirectURL addrs = (case addrs of a # _ \<Rightarrow> Some a | [] \<Rightarrow> None)"

definition redirect_GetContacts :: "sip_address list \<Rightarrow> sip_contact list" where
  "redirect_GetContacts addrs = map (\<lambda>a. \<lparr>ct_Asterisk = False, ct_address = Inr a\<rparr>) addrs"

text \<open>\<open>SortAddresses\<close> orders by descending quality; the library's sort is not stable, so only
  the multiset and the order of qualities are promised. The model sorts stably.\<close>

definition SortAddresses :: "sip_address list \<Rightarrow> sip_address list" where
  "SortAddresses addrs = (if length addrs = 1 then addrs else sort_key (\<lambda>a. - adr_q a) addrs)"

section \<open>Properties\<close>

lemma split_header_seq [simp]: "ev_seq (split_header h g) = ev_seq g"
  "ev_rtime (split_header h g) = ev_rtime g" "ev_origin (split_header h g) = ev_origin g"
  by (cases h; simp)+

lemma fold_split_header [simp]: "ev_seq (fold split_header hs g) = ev_seq g"
  "ev_rtime (fold split_header hs g) = ev_rtime g" "ev_origin (fold split_header hs g) = ev_origin g"
  by (induction hs arbitrary: g) auto

lemma newCCEventGeneric_simps [simp]:
  "ev_seq (newCCEventGeneric s n t o' hs) = s"
  "ev_rtime (newCCEventGeneric s n t o' hs) = (case t of Some x \<Rightarrow> x | None \<Rightarrow> n)"
  "ev_origin (newCCEventGeneric s n t o' hs) = o'"
  by (simp_all add: newCCEventGeneric_def)

fun is_split :: "sip_header \<Rightarrow> bool" where
  "is_split (H_MaxForwards h) = True"
| "is_split (H_Reason h) = True"
| "is_split h = False"

lemma fold_split_extra:
  "ev_extra_headers (fold split_header hs g) = ev_extra_headers g @ filter (\<lambda>h. \<not> is_split h) hs"
proof (induction hs arbitrary: g)
  case (Cons h hs)
  then show ?case by (cases h) simp_all
qed simp

lemma fold_split_reason:
  "ev_sip_reason (fold split_header hs g) =
     fold (\<lambda>h r. case h of H_Reason x \<Rightarrow> Some x | _ \<Rightarrow> r) hs (ev_sip_reason g)"
proof (induction hs arbitrary: g)
  case (Cons h hs)
  then show ?case by (cases h) simp_all
qed simp

text \<open>
  What an event passes on: the headers it was built from, in their order, without Max-Forwards
  and with at most one Reason header, the last one given, at the end.
\<close>

theorem event_passes_headers_on:
  "generic_GetExtraHeaders (newCCEventGeneric seq now rtime origin hs) =
     filter (\<lambda>h. \<not> is_split h) hs @
     (case fold (\<lambda>h r. case h of H_Reason x \<Rightarrow> Some x | _ \<Rightarrow> r) hs None of
        Some r \<Rightarrow> [H_Reason r] | None \<Rightarrow> [])"
  by (simp add: generic_GetExtraHeaders_def newCCEventGeneric_def fold_split_extra fold_split_reason)

text \<open>
  Sorting redirect addresses keeps exactly the given addresses and puts them in
  descending order of quality.
\<close>

theorem redirect_addresses_sorted:
  "mset (SortAddresses addrs) = mset addrs \<and> sorted_wrt (\<ge>) (map adr_q (SortAddresses addrs))"
proof (cases "length addrs = 1")
  case True
  then obtain a where "addrs = [a]" by (auto simp: length_Suc_conv)
  then show ?thesis by (simp add: SortAddresses_def)
next
  case False
  have "sorted (map (\<lambda>a. - adr_q a) (sort_key (\<lambda>a. - adr_q a) addrs))" by (rule sorted_sort_key)
  then have "sorted_wrt (\<ge>) (map adr_q (sort_key (\<lambda>a. - adr_q a) addrs))"
    by (simp add: sorted_wrt_map)
  with False show ?thesis by (simp add: SortAddresses_def)
qed

end
