(* ===== verification/Tx_State.thy ===== *)
theory Tx_State
  imports Sippy_Msg
begin

text \<open>
  State of the transaction layer: the transaction objects of
  \<^verbatim>\<open>base_transaction.go\<close>, \<^verbatim>\<open>server_transaction.go\<close> and \<^verbatim>\<open>client_transaction.go\<close> as
  records, the tables of \<^verbatim>\<open>sip_transaction_manager.go\<close>, and the primitive operations on
  both: retransmission cache, transmission, table updates, retransmit timer.

  Conventions. A pointer to a transaction or to a user agent is a number. A running
  timer is the duration it was started with. A message on the wire is the message and the
  local address it is rendered for. Calls into the user agent (callbacks, response
  receivers) and datagrams handed to the transport are appended to the logs
  \<open>upcalls\<close> and \<open>sent\<close>, in the order the code makes them. Error logging is left out.
\<close>

section \<open>Objects\<close>

type_synonym ref = nat

record transport =
  uv_id :: nat
  uv_laddress :: host_port

datatype payload =
    P_req sip_request host_port
  | P_resp sip_response host_port
  | P_bytes string

datatype sip_transaction_state = TRYING | RINGING | COMPLETED | CONFIRMED | TERMINATED | UACK

definition sip_transaction_state_String :: "sip_transaction_state \<Rightarrow> string" where
  "sip_transaction_state_String s =
     (case s of TRYING \<Rightarrow> ''TRYING'' | RINGING \<Rightarrow> ''RINGING'' | COMPLETED \<Rightarrow> ''COMPLETED''
      | CONFIRMED \<Rightarrow> ''CONFIRMED'' | TERMINATED \<Rightarrow> ''TERMINATED'' | UACK \<Rightarrow> ''UNKNOWN'')"

text \<open>\<open>tx_alive\<close> says that the back pointer \<open>sip_tm\<close> is not nil.\<close>

record base_transaction =
  tx_ref :: ref
  tx_alive :: bool
  tx_userv :: "transport option"
  tx_state :: sip_transaction_state
  tx_tid :: "tid option"
  tx_teA :: "duration option"
  tx_address :: "host_port option"
  tx_needack :: bool
  tx_tout :: duration
  tx_data :: "payload option"

text \<open>A reliable provisional response in flight: its identifier and the closure of its timer,
  that is the last timeout and the remaining loss emulation.\<close>

record prov_in_flight =
  pif_rtid :: rtid
  pif_timeout :: duration
  pif_lossemul :: int

record server_transaction = base_transaction +
  st_checksum :: string
  st_teD :: "duration option"
  st_teE :: "duration option"
  st_r487 :: "sip_response option"
  st_cancel_cb :: "ref option"
  st_method :: string
  st_server :: "string option"
  st_noack_cb :: "ref option"
  st_branch :: string
  st_expires :: duration
  st_ack_cb :: "ref option"
  st_prov_inflight :: "prov_in_flight option"
  st_prack_cb :: "ref option"
  st_noprack_cb :: "ref option"
  st_rseq :: numeric_hf
  st_pr_rel :: bool

record client_transaction = base_transaction +
  ct_teB :: "duration option"
  ct_teC :: "duration option"
  ct_teG :: "duration option"
  ct_r408 :: "sip_response option"
  ct_resp_receiver :: "ref option"
  ct_expires :: duration
  ct_ack :: "sip_request option"
  ct_outbound_proxy :: "host_port option"
  ct_cancel :: "sip_request option"
  ct_cancelPending :: bool
  ct_uack :: bool
  ct_ack_rAddr :: "host_port option"
  ct_ack_checksum :: string
  ct_ack_rparams_present :: bool
  ct_ack_rTarget :: "sip_url option"
  ct_ack_routes :: "address_hf list"
  ct_txn_headers :: "sip_header list"
  ct_req_extra_hdrs :: "sip_header list"
  ct_seen_rseqs :: "rtid list"
  ct_last_rseq :: int

section \<open>The transaction manager\<close>

record rcache_entry =
  rc_userv :: "transport option"
  rc_data :: "payload option"
  rc_address :: "host_port option"
  rc_call_id :: string
  rc_lossemul :: int

datatype upcall =
    U_ack ref sip_request
  | U_cancel ref "monotime option" "sip_request option"
  | U_noack ref
  | U_prack ref sip_request sip_response
  | U_noprack ref
  | U_response ref "sip_response option" ref
  | U_unregister ref

record transmission =
  sn_userv :: transport
  sn_data :: payload
  sn_address :: host_port

record sip_tm =
  tm_l1rcache :: "string \<rightharpoonup> rcache_entry"
  tm_l2rcache :: "string \<rightharpoonup> rcache_entry"
  tm_tclient :: "tid \<rightharpoonup> ref"
  tm_tserver :: "tid \<rightharpoonup> ref"
  tm_req_consumers :: "string \<rightharpoonup> ref list"
  tm_rtid2tid :: "rtid \<rightharpoonup> tid"
  tm_tclient_lock :: bool
  tm_tserver_lock :: bool
  tm_call_map :: bool
  tm_nat_traversal :: bool
  tm_stxs :: "ref \<rightharpoonup> server_transaction"
  tm_ctxs :: "ref \<rightharpoonup> client_transaction"
  tm_next_ref :: ref
  tm_sent :: "transmission list"
  tm_upcalls :: "upcall list"

definition NewSipTransactionManager :: "bool \<Rightarrow> sip_tm" where
  "NewSipTransactionManager call_map =
     \<lparr>tm_l1rcache = Map.empty, tm_l2rcache = Map.empty, tm_tclient = Map.empty,
      tm_tserver = Map.empty, tm_req_consumers = Map.empty, tm_rtid2tid = Map.empty,
      tm_tclient_lock = False, tm_tserver_lock = False, tm_call_map = call_map,
      tm_nat_traversal = False, tm_stxs = Map.empty, tm_ctxs = Map.empty, tm_next_ref = 0,
      tm_sent = [], tm_upcalls = []\<rparr>"

definition upcall :: "upcall \<Rightarrow> sip_tm \<Rightarrow> sip_tm" where
  "upcall u tm = tm\<lparr>tm_upcalls := tm_upcalls tm @ [u]\<rparr>"

definition upcall_opt :: "ref option \<Rightarrow> (ref \<Rightarrow> upcall) \<Rightarrow> sip_tm \<Rightarrow> sip_tm" where
  "upcall_opt cb u tm = (case cb of None \<Rightarrow> tm | Some r \<Rightarrow> upcall (u r) tm)"

section \<open>Retransmission cache\<close>

definition rcache_put :: "string \<Rightarrow> rcache_entry \<Rightarrow> sip_tm \<Rightarrow> sip_tm" where
  "rcache_put checksum e tm = tm\<lparr>tm_l1rcache := (tm_l1rcache tm)(checksum \<mapsto> e)\<rparr>"

definition rcache_get :: "sip_tm \<Rightarrow> string \<Rightarrow> rcache_entry option" where
  "rcache_get tm checksum =
     (case tm_l1rcache tm checksum of Some e \<Rightarrow> Some e | None \<Rightarrow> tm_l2rcache tm checksum)"

definition empty_entry :: "string \<Rightarrow> rcache_entry" where
  "empty_entry cid =
     \<lparr>rc_userv = None, rc_data = None, rc_address = None, rc_call_id = cid, rc_lossemul = 0\<rparr>"

text \<open>An entry found in the cache is updated in place, in the generation that holds it.\<close>

definition rcache_set_call_id :: "string \<Rightarrow> string \<Rightarrow> sip_tm \<Rightarrow> sip_tm" where
  "rcache_set_call_id checksum cid tm =
     (case tm_l1rcache tm checksum of
        Some e \<Rightarrow> tm\<lparr>tm_l1rcache := (tm_l1rcache tm)(checksum \<mapsto> e\<lparr>rc_call_id := cid\<rparr>)\<rparr>
      | None \<Rightarrow> (case tm_l2rcache tm checksum of
            Some e \<Rightarrow> tm\<lparr>tm_l2rcache := (tm_l2rcache tm)(checksum \<mapsto> e\<lparr>rc_call_id := cid\<rparr>)\<rparr>
          | None \<Rightarrow> rcache_put checksum (empty_entry cid) tm))"

definition rCachePurge :: "sip_tm \<Rightarrow> sip_tm" where
  "rCachePurge tm = tm\<lparr>tm_l2rcache := tm_l1rcache tm, tm_l1rcache := Map.empty\<rparr>"

interpretation rcache: two_generation_cache tm_l1rcache tm_l2rcache rcache_get rcache_put rCachePurge
  by unfold_locales (auto simp: rcache_get_def rcache_put_def rCachePurge_def split: option.splits)

section \<open>Transmission\<close>

definition transmitData ::
  "transport \<Rightarrow> payload \<Rightarrow> host_port \<Rightarrow> string \<Rightarrow> string \<Rightarrow> int \<Rightarrow> sip_tm \<Rightarrow> sip_tm" where
  "transmitData userv dat addr cachesum cid lossemul tm =
     (let tm1 = (if lossemul = 0
                 then tm\<lparr>tm_sent := tm_sent tm @ [\<lparr>sn_userv = userv, sn_data = dat, sn_address = addr\<rparr>]\<rparr>
                 else tm)
      in if cachesum \<noteq> []
         then rcache_put cachesum
                \<lparr>rc_userv = Some userv, rc_data = Some dat, rc_address = Some addr,
                 rc_call_id = cid,
                 rc_lossemul = (if 0 < lossemul then lossemul - 1 else lossemul)\<rparr> tm1
         else tm1)"

definition transmit_response ::
  "transport \<Rightarrow> sip_response \<Rightarrow> host_port \<Rightarrow> string \<Rightarrow> string \<Rightarrow> sip_tm \<Rightarrow> sip_tm" where
  "transmit_response userv rs addr cachesum cid tm =
     transmitData userv (P_resp rs (uv_laddress userv)) addr cachesum cid 0 tm"

definition transmit_request ::
  "transport \<Rightarrow> sip_request \<Rightarrow> host_port \<Rightarrow> string \<Rightarrow> string \<Rightarrow> sip_tm \<Rightarrow> sip_tm" where
  "transmit_request userv rq addr cachesum cid tm =
     transmitData userv (P_req rq (uv_laddress userv)) addr cachesum cid 0 tm"

section \<open>Tables\<close>

definition tclient_put :: "tid \<Rightarrow> ref \<Rightarrow> sip_tm \<Rightarrow> sip_tm" where
  "tclient_put k r tm = tm\<lparr>tm_tclient := (tm_tclient tm)(k \<mapsto> r)\<rparr>"

definition tclient_del :: "tid \<Rightarrow> sip_tm \<Rightarrow> sip_tm" where
  "tclient_del k tm = tm\<lparr>tm_tclient := (tm_tclient tm)(k := None)\<rparr>"

definition tserver_put :: "tid \<Rightarrow> ref \<Rightarrow> sip_tm \<Rightarrow> sip_tm" where
  "tserver_put k r tm = tm\<lparr>tm_tserver := (tm_tserver tm)(k \<mapsto> r)\<rparr>"

definition tserver_del :: "tid \<Rightarrow> sip_tm \<Rightarrow> sip_tm" where
  "tserver_del k tm = tm\<lparr>tm_tserver := (tm_tserver tm)(k := None)\<rparr>"

definition tserver_replace :: "tid \<Rightarrow> tid \<Rightarrow> ref \<Rightarrow> sip_tm \<Rightarrow> sip_tm" where
  "tserver_replace old_tid new_tid r tm = tserver_put new_tid r (tserver_del old_tid tm)"

definition rtid_put :: "rtid \<Rightarrow> tid \<Rightarrow> sip_tm \<Rightarrow> sip_tm" where
  "rtid_put k v tm = tm\<lparr>tm_rtid2tid := (tm_rtid2tid tm)(k \<mapsto> v)\<rparr>"

definition rtid_del :: "rtid \<Rightarrow> sip_tm \<Rightarrow> sip_tm" where
  "rtid_del k tm = tm\<lparr>tm_rtid2tid := (tm_rtid2tid tm)(k := None)\<rparr>"

definition rtid_replace :: "rtid \<Rightarrow> tid \<Rightarrow> tid \<Rightarrow> sip_tm \<Rightarrow> sip_tm" where
  "rtid_replace k old_tid new_tid tm =
     (if tm_rtid2tid tm k = Some old_tid then rtid_put k new_tid tm else tm)"

interpretation tclient: keyed_table tm_tclient tclient_put tclient_del
  by unfold_locales (simp_all add: tclient_put_def tclient_del_def)

interpretation tserver: keyed_table tm_tserver tserver_put tserver_del
  by unfold_locales (simp_all add: tserver_put_def tserver_del_def)

interpretation rtids: keyed_table tm_rtid2tid rtid_put rtid_del
  by unfold_locales (simp_all add: rtid_put_def rtid_del_def)

section \<open>The retransmit timer of \<open>baseTransaction\<close>\<close>

definition half_second :: duration where "half_second = 500 * millisecond"

definition base_cleanup :: "'a base_transaction_scheme \<Rightarrow> 'a base_transaction_scheme" where
  "base_cleanup x =
     x\<lparr>tx_alive := False, tx_userv := None, tx_tid := None, tx_address := None, tx_teA := None\<rparr>"

definition cancelTeA :: "'a base_transaction_scheme \<Rightarrow> 'a base_transaction_scheme" where
  "cancelTeA x = x\<lparr>tx_teA := None\<rparr>"

definition startTeA :: "'a base_transaction_scheme \<Rightarrow> 'a base_transaction_scheme" where
  "startTeA x = x\<lparr>tx_teA := Some (tx_tout x)\<rparr>"

text \<open>
  Expiry of timer A: retransmit, double the period, restart. A transaction that is
  still attached always has its transport, its data, its destination and its identifier.
\<close>

definition timerA ::
  "'a base_transaction_scheme \<Rightarrow> sip_tm \<Rightarrow> 'a base_transaction_scheme \<times> sip_tm" where
  "timerA x tm =
     (if tx_alive x then
        (case (tx_userv x, tx_data x, tx_address x, tx_tid x) of
           (Some uv, Some d, Some a, Some k) \<Rightarrow>
             (x\<lparr>tx_tout := 2 * tx_tout x, tx_teA := Some (2 * tx_tout x)\<rparr>,
              transmitData uv d a [] (tid_CallId k) 0 tm)
         | _ \<Rightarrow> (x, tm))
      else (x, tm))"

lemmas tm_prim_defs = rcache_put_def rcache_get_def rcache_set_call_id_def rCachePurge_def
  transmitData_def transmit_response_def transmit_request_def tclient_put_def tclient_del_def
  tserver_put_def tserver_del_def tserver_replace_def rtid_put_def rtid_del_def rtid_replace_def
  upcall_def upcall_opt_def empty_entry_def

lemma transmitData_tables [tm_simps]:
  "tm_tserver (transmitData uv d a cs cid l tm) = tm_tserver tm"
  "tm_tclient (transmitData uv d a cs cid l tm) = tm_tclient tm"
  "tm_rtid2tid (transmitData uv d a cs cid l tm) = tm_rtid2tid tm"
  "tm_req_consumers (transmitData uv d a cs cid l tm) = tm_req_consumers tm"
  "tm_upcalls (transmitData uv d a cs cid l tm) = tm_upcalls tm"
  "tm_tserver_lock (transmitData uv d a cs cid l tm) = tm_tserver_lock tm"
  "tm_tclient_lock (transmitData uv d a cs cid l tm) = tm_tclient_lock tm"
  "tm_stxs (transmitData uv d a cs cid l tm) = tm_stxs tm"
  "tm_ctxs (transmitData uv d a cs cid l tm) = tm_ctxs tm"
  by (simp_all add: transmitData_def rcache_put_def)

lemma transmitData_sent [tm_simps]:
  "tm_sent (transmitData uv d a cs cid l tm) =
     (if l = 0 then tm_sent tm @ [\<lparr>sn_userv = uv, sn_data = d, sn_address = a\<rparr>] else tm_sent tm)"
  by (simp add: transmitData_def rcache_put_def)

lemma rcache_set_call_id_tables [tm_simps]:
  "tm_tserver (rcache_set_call_id cs cid tm) = tm_tserver tm"
  "tm_tclient (rcache_set_call_id cs cid tm) = tm_tclient tm"
  "tm_rtid2tid (rcache_set_call_id cs cid tm) = tm_rtid2tid tm"
  "tm_sent (rcache_set_call_id cs cid tm) = tm_sent tm"
  "tm_upcalls (rcache_set_call_id cs cid tm) = tm_upcalls tm"
  "tm_ctxs (rcache_set_call_id cs cid tm) = tm_ctxs tm"
  "tm_stxs (rcache_set_call_id cs cid tm) = tm_stxs tm"
  by (simp_all add: rcache_set_call_id_def rcache_put_def split: option.splits)

section \<open>What the primitives leave alone\<close>

lemma upcall_opt_tables [tm_simps]:
  "tm_tserver (upcall_opt cb u tm) = tm_tserver tm" "tm_sent (upcall_opt cb u tm) = tm_sent tm"
  "tm_rtid2tid (upcall_opt cb u tm) = tm_rtid2tid tm" "tm_tclient (upcall_opt cb u tm) = tm_tclient tm"
  by (simp_all add: upcall_opt_def upcall_def split: option.splits)

lemma table_prims_sent [tm_simps]:
  "tm_sent (tserver_put k r tm) = tm_sent tm" "tm_sent (tserver_del k tm) = tm_sent tm"
  "tm_sent (rtid_put rk k tm) = tm_sent tm" "tm_sent (rtid_del rk tm) = tm_sent tm"
  "tm_sent (rtid_replace rk k k' tm) = tm_sent tm" "tm_sent (upcall u tm) = tm_sent tm"
  "tm_sent (tserver_replace k k' r tm) = tm_sent tm"
  by (simp_all add: tm_prim_defs)

lemma table_prims_tserver [tm_simps]:
  "tm_tserver (rtid_put rk k tm) = tm_tserver tm" "tm_tserver (rtid_del rk tm) = tm_tserver tm"
  "tm_tserver (rtid_replace rk k k' tm) = tm_tserver tm" "tm_tserver (upcall u tm) = tm_tserver tm"
  "tm_tserver (rcache_put cs e tm) = tm_tserver tm"
  by (simp_all add: tm_prim_defs)

lemma table_prims_rtids [tm_simps]:
  "tm_rtid2tid (upcall u tm) = tm_rtid2tid tm" "tm_rtid2tid (tserver_del k tm) = tm_rtid2tid tm"
  "tm_rtid2tid (tserver_put k r tm) = tm_rtid2tid tm"
  by (simp_all add: tm_prim_defs)

lemma table_prims_upcalls [tm_simps]:
  "tm_upcalls (tserver_del k tm) = tm_upcalls tm" "tm_upcalls (tserver_put k r tm) = tm_upcalls tm"
  "tm_upcalls (rtid_del rk tm) = tm_upcalls tm" "tm_upcalls (rtid_put rk k tm) = tm_upcalls tm"
  "tm_upcalls (upcall u tm) = tm_upcalls tm @ [u]"
  by (simp_all add: tm_prim_defs)

lemma table_prims_tclient [tm_simps]:
  "tm_tclient (rtid_put rk k tm) = tm_tclient tm" "tm_tclient (rtid_del rk tm) = tm_tclient tm"
  "tm_tclient (upcall u tm) = tm_tclient tm" "tm_tclient (rcache_put cs e tm) = tm_tclient tm"
  "tm_sent (rcache_put cs e tm) = tm_sent tm" "tm_upcalls (rcache_put cs e tm) = tm_upcalls tm"
  "tm_sent (tclient_del k tm) = tm_sent tm" "tm_upcalls (tclient_del k tm) = tm_upcalls tm"
  "tm_sent (tclient_put k r tm) = tm_sent tm" "tm_upcalls (tclient_put k r tm) = tm_upcalls tm"
  by (simp_all add: tm_prim_defs)

text \<open>A transaction that can transmit: attached, with its transport, data, destination and key.\<close>

definition armed :: "'a base_transaction_scheme \<Rightarrow> transmission \<Rightarrow> bool" where
  "armed x sn \<longleftrightarrow> tx_alive x \<and> tx_tid x \<noteq> None \<and> tx_userv x = Some (sn_userv sn)
     \<and> tx_data x = Some (sn_data sn) \<and> tx_address x = Some (sn_address sn)"

lemma armed_fields:
  assumes "armed x sn"
  obtains k where "tx_alive x" "tx_tid x = Some k" "tx_userv x = Some (sn_userv sn)"
    "tx_data x = Some (sn_data sn)" "tx_address x = Some (sn_address sn)"
  using assms by (auto simp: armed_def)

lemma timerA_step:
  assumes "armed x sn"
  shows "snd (timerA x tm) = tm\<lparr>tm_sent := tm_sent tm @ [sn]\<rparr>"
    and "armed (fst (timerA x tm)) sn" "tx_tout (fst (timerA x tm)) = 2 * tx_tout x"
    and "tx_teA (fst (timerA x tm)) = Some (2 * tx_tout x)"
  using assms by (cases sn; auto simp: armed_def timerA_def transmitData_def)+

lemma timerA_iterate:
  assumes "armed x sn"
  shows "armed (fst (run_ops (replicate n timerA) (x, tm))) sn
    \<and> tx_tout (fst (run_ops (replicate n timerA) (x, tm))) = 2 ^ n * tx_tout x
    \<and> (tx_teA x = Some (tx_tout x) \<longrightarrow>
         tx_teA (fst (run_ops (replicate n timerA) (x, tm))) = Some (2 ^ n * tx_tout x))
    \<and> snd (run_ops (replicate n timerA) (x, tm)) = tm\<lparr>tm_sent := tm_sent tm @ replicate n sn\<rparr>"
  using assms
proof (induction n arbitrary: x tm)
  case 0
  then show ?case by (simp add: run_ops_def)
next
  case (Suc n)
  obtain x' tm' where t: "timerA x tm = (x', tm')" by fastforce
  have "run_ops (replicate (Suc n) timerA) (x, tm) = run_ops (replicate n timerA) (x', tm')"
    by (simp add: run_ops_def t)
  with timerA_step [OF Suc.prems, of tm] t Suc.IH [of x' tm'] show ?case
    by (simp add: replicate_app_Cons_same)
qed

end
