(* ===== verification/Server_Transaction.thy ===== *)
theory Server_Transaction
  imports Tx_State
begin

text \<open>
  Server transactions, \<^verbatim>\<open>sippy/server_transaction.go\<close>. Every operation maps the
  transaction object and the manager's state to new ones. Values the code draws (a To tag)
  or reads (the clock) are arguments.
\<close>

section \<open>Construction, timers, cleanup\<close>

definition NewServerTransaction ::
  "ref \<Rightarrow> sip_request \<Rightarrow> string \<Rightarrow> tid \<Rightarrow> transport \<Rightarrow> server_transaction result" where
  "NewServerTransaction r rq checksum k userv =
     bind_result
       (if rq_method rq = ''INVITE'' then
          bind_result (case m_vias rq of [] \<Rightarrow> Inl nil_panic | v # _ \<Rightarrow> v) (\<lambda>via0.
          bind_result (GenResponse 487 ''Request Terminated'' None None rq) (\<lambda>r487.
            Inr (True, Some r487, GetBranch via0,
                 (case rq_expires rq of
                    Some e \<Rightarrow> if 0 < Number e then Number e * second else 300 * second
                  | None \<Rightarrow> 300 * second))))
        else Inr (False, None, [], 0))
       (\<lambda>(needack, r487, br, expires).
          Inr \<lparr>tx_ref = r, tx_alive = True, tx_userv = Some userv, tx_state = TRYING,
               tx_tid = Some k, tx_teA = None, tx_address = None, tx_needack = needack,
               tx_tout = half_second, tx_data = None,
               st_checksum = checksum, st_teD = None, st_teE = None, st_r487 = r487,
               st_cancel_cb = None, st_method = rq_method rq, st_server = None,
               st_noack_cb = None, st_branch = br, st_expires = expires, st_ack_cb = None,
               st_prov_inflight = None, st_prack_cb = None, st_noprack_cb = None,
               st_rseq = newSipNumericHF 1, st_pr_rel = False\<rparr>)"

definition startTeE :: "duration \<Rightarrow> server_transaction \<Rightarrow> server_transaction" where
  "startTeE t x = x\<lparr>st_teE := Some t\<rparr>"

definition cancelTeE :: "server_transaction \<Rightarrow> server_transaction" where
  "cancelTeE x = x\<lparr>st_teE := None\<rparr>"

definition startTeD :: "server_transaction \<Rightarrow> server_transaction" where
  "startTeD x = x\<lparr>st_teD := Some (32 * second)\<rparr>"

definition cancelTeD :: "server_transaction \<Rightarrow> server_transaction" where
  "cancelTeD x = x\<lparr>st_teD := None\<rparr>"

definition server_StartTimers :: "server_transaction \<Rightarrow> server_transaction" where
  "server_StartTimers x = (if 0 < st_expires x then startTeE (st_expires x) x else x)"

definition server_cleanup :: "server_transaction \<Rightarrow> server_transaction" where
  "server_cleanup x =
     (base_cleanup x)\<lparr>st_r487 := None, st_cancel_cb := None, st_teD := None, st_teE := None,
        st_noack_cb := None, st_ack_cb := None, st_prack_cb := None, st_noprack_cb := None\<rparr>"

definition TimersAreActive :: "server_transaction \<Rightarrow> bool" where
  "TimersAreActive x \<longleftrightarrow> tx_teA x \<noteq> None \<or> st_teD x \<noteq> None \<or> st_teE x \<noteq> None"

definition SetCancelCB :: "ref option \<Rightarrow> server_transaction \<Rightarrow> server_transaction" where
  "SetCancelCB cb x = x\<lparr>st_cancel_cb := cb\<rparr>"

definition SetNoackCB :: "ref option \<Rightarrow> server_transaction \<Rightarrow> server_transaction" where
  "SetNoackCB cb x = x\<lparr>st_noack_cb := cb\<rparr>"

definition SetServer :: "string option \<Rightarrow> server_transaction \<Rightarrow> server_transaction" where
  "SetServer s x = x\<lparr>st_server := s\<rparr>"

definition SetPrackCBs :: "ref option \<Rightarrow> ref option \<Rightarrow> server_transaction \<Rightarrow> server_transaction" where
  "SetPrackCBs p n x = x\<lparr>st_prack_cb := p, st_noprack_cb := n\<rparr>"

definition Setup100rel :: "sip_request \<Rightarrow> server_transaction \<Rightarrow> server_transaction" where
  "Setup100rel rq x =
     (if list_ex (\<lambda>r. HasTag r ''100rel'') (m_sip_require rq)
         \<or> list_ex (\<lambda>r. HasTag r ''100rel'') (m_sip_supported rq)
      then x\<lparr>st_pr_rel := True\<rparr> else x)"

section \<open>Sending a response\<close>

text \<open>A response above 100 gets a To tag if it has none; a To that does not parse stops the call.\<close>

definition ensure_to_tag :: "string \<Rightarrow> sip_response \<Rightarrow> sip_response option" where
  "ensure_to_tag newtag rs =
     (if 100 < rs_scode rs then
        (case m_to rs of
           None \<Rightarrow> None
         | Some (Inl e) \<Rightarrow> None
         | Some (Inr a) \<Rightarrow> Some (if GetTag a = [] then set_To (Inr (SetTag newtag a)) rs else rs))
      else Some rs)"

text \<open>
  Reliable provisional responses: the RSeq header carries the current number, the
  transaction's number is incremented, and the first response in flight starts the PRACK
  timer. The result tells whether the call goes on.
\<close>

definition reliable_provisional ::
  "sip_response \<Rightarrow> int \<Rightarrow> server_transaction \<Rightarrow> sip_tm \<Rightarrow>
   server_transaction \<times> sip_tm \<times> (sip_response \<times> int) option" where
  "reliable_provisional rs lossemul x tm =
     (if st_pr_rel x \<and> 100 < rs_scode rs \<and> rs_scode rs < 200 then
        (case numeric_GetBody (st_rseq x) of
           (h, Inl e) \<Rightarrow> (x\<lparr>st_rseq := h\<rparr>, tm, None)
         | (h, Inr n) \<Rightarrow>
             (let x1 = x\<lparr>st_rseq := h\<lparr>Number := n + 1\<rparr>\<rparr>;
                  rs1 = AppendHeader (H_Require ''100rel'') (AppendHeader (H_RSeq (st_rseq x)) rs)
              in case GetTId False True False rs1 of
                   Inl e \<Rightarrow> (x1, tm, None)
                 | Inr k \<Rightarrow> (case response_GetRTId rs1 of
                      (rs2, Inl e) \<Rightarrow> (x1, tm, None)
                    | (rs2, Inr rk) \<Rightarrow>
                        (let l = (if 0 < lossemul then lossemul - 1 else lossemul);
                             x2 = (case st_prov_inflight x1 of
                                     None \<Rightarrow> x1\<lparr>st_prov_inflight :=
                                       Some \<lparr>pif_rtid = rk, pif_timeout = half_second, pif_lossemul = l\<rparr>\<rparr>
                                   | Some p \<Rightarrow> x1)
                         in (x2, rtid_put rk k tm, Some (rs2, l))))))
      else (x, tm, Some (rs, lossemul)))"

text \<open>
  A final response to an INVITE re-keys the transaction: from then on it is found by the To
  tag of the response instead of the branch, which is how the ACK is matched.
\<close>

definition rekey_for_ack ::
  "sip_response \<Rightarrow> server_transaction \<Rightarrow> sip_tm \<Rightarrow> (server_transaction \<times> sip_tm) option" where
  "rekey_for_ack rs x tm =
     (case tx_tid x of
        None \<Rightarrow> Some (x, tm)
      | Some k \<Rightarrow> (case m_to rs of
           Some (Inr a) \<Rightarrow>
             (let k' = k\<lparr>tid_Branch := [], tid_ToTag := GetTag a\<rparr>;
                  tm1 = (case st_prov_inflight x of
                           Some p \<Rightarrow> rtid_replace (pif_rtid p) k k' tm | None \<Rightarrow> tm)
              in Some (x\<lparr>tx_tid := Some k'\<rparr>, tserver_replace k k' (tx_ref x) tm1))
         | _ \<Rightarrow> None))"

text \<open>
  The transmission that ends every successful call, with the cleanup of a transaction that
  is done (a final response that needs no ACK).
\<close>

definition transmit_and_finish ::
  "int \<Rightarrow> bool \<Rightarrow> server_transaction \<Rightarrow> sip_tm \<Rightarrow> server_transaction \<times> sip_tm" where
  "transmit_and_finish lossemul need_cleanup x tm =
     (case (tx_userv x, tx_data x, tx_address x, tx_tid x) of
        (Some uv, Some d, Some a, Some k) \<Rightarrow>
          (if need_cleanup then server_cleanup x else x,
           transmitData uv d a (st_checksum x) (tid_CallId k) lossemul tm)
      | _ \<Rightarrow> (x, tm))"

definition SendResponseWithLossEmul ::
  "sippy_config \<Rightarrow> string \<Rightarrow> sip_response \<Rightarrow> bool \<Rightarrow> ref option \<Rightarrow> int \<Rightarrow>
   server_transaction \<Rightarrow> sip_tm \<Rightarrow> server_transaction \<times> sip_tm" where
  "SendResponseWithLossEmul cfg newtag rs retrans ack_cb lossemul x tm =
     (if \<not> tx_alive x then (x, tm) else
      case ensure_to_tag newtag rs of
        None \<Rightarrow> (x, tm)
      | Some rs1 \<Rightarrow>
      (case reliable_provisional rs1 lossemul x tm of
        (x1, tm1, None) \<Rightarrow> (x1, tm1)
      | (x1, tm1, Some (rs2, l)) \<Rightarrow>
      (case tx_userv x1 of None \<Rightarrow> (x1, tm1) | Some uv \<Rightarrow>
       (let x2 = x1\<lparr>tx_data := Some (P_resp rs2 (uv_laddress uv))\<rparr> in
        case m_vias rs2 of [] \<Rightarrow> (x2, tm1) | v # _ \<Rightarrow>
        (case v of Inl e \<Rightarrow> (x2, tm1) | Inr via0 \<Rightarrow>
         (let x3 = x2\<lparr>tx_address := Some (GetTAddr cfg via0)\<rparr> in
          if rs_scode rs2 < 200 then transmit_and_finish l False (x3\<lparr>tx_state := RINGING\<rparr>) tm1
          else
            let x4 = cancelTeE (x3\<lparr>tx_state := COMPLETED\<rparr>) in
            if tx_needack x4 then
              (let x5 = startTeD (x4\<lparr>st_ack_cb := ack_cb\<rparr>) in
               case rekey_for_ack rs2 x5 tm1 of
                 None \<Rightarrow> (x5, tm1)
               | Some (x6, tm2) \<Rightarrow>
                   transmit_and_finish l False (startTeA (x6\<lparr>tx_tout := half_second\<rparr>)) tm2)
            else transmit_and_finish l True x4
                   (case tx_tid x4 of Some k \<Rightarrow> tserver_del k tm1 | None \<Rightarrow> tm1)))))))"

definition SendResponse ::
  "sippy_config \<Rightarrow> string \<Rightarrow> sip_response \<Rightarrow> bool \<Rightarrow> ref option \<Rightarrow>
   server_transaction \<Rightarrow> sip_tm \<Rightarrow> server_transaction \<times> sip_tm" where
  "SendResponse cfg newtag rs retrans ack_cb x tm =
     SendResponseWithLossEmul cfg newtag rs retrans ack_cb 0 x tm"

section \<open>Cancellation, expiry and incoming requests\<close>

text \<open>The To tag that sending the 487 draws stays in the stored response.\<close>

definition doCancel ::
  "sippy_config \<Rightarrow> string \<Rightarrow> monotime option \<Rightarrow> sip_request option \<Rightarrow> monotime \<Rightarrow>
   server_transaction \<Rightarrow> sip_tm \<Rightarrow> server_transaction \<times> sip_tm" where
  "doCancel cfg newtag rt rq now x tm =
     (let t = (case rt of None \<Rightarrow> now | Some t \<Rightarrow> t);
          (x1, tm1) = (case st_r487 x of
                         Some r \<Rightarrow> SendResponse cfg newtag r True None
                           (case ensure_to_tag newtag r of
                              Some r' \<Rightarrow> x\<lparr>st_r487 := Some r'\<rparr> | None \<Rightarrow> x) tm
                       | None \<Rightarrow> (x, tm))
      in (x1, upcall_opt (st_cancel_cb x1) (\<lambda>u. U_cancel u (Some t) rq) tm1))"

definition timerD :: "server_transaction \<Rightarrow> sip_tm \<Rightarrow> server_transaction \<times> sip_tm" where
  "timerD x tm =
     (if \<not> tx_alive x then (x, tm)
      else
        let tm1 = (if tx_state x \<noteq> CONFIRMED then upcall_opt (st_noack_cb x) U_noack tm else tm);
            tm2 = (case tx_tid x of Some k \<Rightarrow> tserver_del k tm1 | None \<Rightarrow> tm1)
        in (server_cleanup x, tm2))"

definition timerE ::
  "sippy_config \<Rightarrow> string \<Rightarrow> monotime \<Rightarrow> server_transaction \<Rightarrow> sip_tm \<Rightarrow>
   server_transaction \<times> sip_tm" where
  "timerE cfg newtag now x tm =
     (if \<not> tx_alive x then (x, tm)
      else
        let x1 = cancelTeE x in
        if tx_state x1 = TRYING \<or> tx_state x1 = RINGING then
          doCancel cfg newtag None None now
            (x1\<lparr>st_r487 := map_option (\<lambda>r. r\<lparr>rs_reason := ''Request Expired''\<rparr>) (st_r487 x1)\<rparr>) tm
        else (x1, tm))"

text \<open>Answer a request of this transaction directly, to the address its top Via names.\<close>

definition reply_directly ::
  "sippy_config \<Rightarrow> sip_response \<Rightarrow> string \<Rightarrow> server_transaction \<Rightarrow> sip_tm \<Rightarrow> sip_tm option" where
  "reply_directly cfg rs checksum x tm =
     (case (m_vias rs, tx_userv x, tx_tid x) of
        (Inr via0 # _, Some uv, Some k) \<Rightarrow>
          Some (transmit_response uv rs (GetTAddr cfg via0) checksum (tid_CallId k) tm)
      | _ \<Rightarrow> None)"

definition incoming_ACK ::
  "string \<Rightarrow> sip_request \<Rightarrow> server_transaction \<Rightarrow> sip_tm \<Rightarrow> server_transaction \<times> sip_tm" where
  "incoming_ACK checksum rq x tm =
     (if tx_state x = COMPLETED then
        let x1 = cancelTeA (x\<lparr>tx_state := CONFIRMED\<rparr>);
            (x2, tm1) = (if st_prov_inflight x1 = None
                         then (cancelTeD x1, case tx_tid x1 of Some k \<Rightarrow> tserver_del k tm | None \<Rightarrow> tm)
                         else (x1, tm));
            tm2 = upcall_opt (st_ack_cb x2) (\<lambda>u. U_ack u rq) tm1;
            tm3 = (case tx_tid x2 of Some k \<Rightarrow> rcache_set_call_id checksum (tid_CallId k) tm2 | None \<Rightarrow> tm2)
        in (if st_prov_inflight x2 = None then server_cleanup x2 else x2, tm3)
      else (x, tm))"

text \<open>
  The PRACK callback runs inside the handler and may send on the same transaction; it is
  the parameter \<open>prack\<close>, applied after its call is logged. The other callbacks are
  the last thing their handler does with the transaction's tables or do not come back to it.
\<close>

type_synonym prack_handler =
  "sip_request \<Rightarrow> sip_response \<Rightarrow> server_transaction \<Rightarrow> sip_tm \<Rightarrow> server_transaction \<times> sip_tm"

definition incoming_PRACK ::
  "prack_handler \<Rightarrow> sippy_config \<Rightarrow> string \<Rightarrow> sip_request \<Rightarrow> server_transaction \<Rightarrow> sip_tm \<Rightarrow>
   server_transaction \<times> sip_tm" where
  "incoming_PRACK prack cfg checksum rq x tm =
     (case request_GetRTId rq of
        Inl e \<Rightarrow> (x, tm)
      | Inr rk \<Rightarrow>
          (let hit = (case st_prov_inflight x of Some p \<Rightarrow> pif_rtid p = rk | None \<Rightarrow> False);
               (x1, tm1) = (if hit then (x\<lparr>st_prov_inflight := None\<rparr>, rtid_del rk tm) else (x, tm))
           in case GenResponse (if hit then 200 else 481) (if hit then ''OK'' else ''Huh?'') None None rq of
                Inl e \<Rightarrow> (x1, tm1)
              | Inr rs \<Rightarrow>
                  (let (x2, tm2) = (case (hit, st_prack_cb x1) of
                                      (True, Some u) \<Rightarrow> prack rq rs x1 (upcall (U_prack u rq rs) tm1)
                                    | _ \<Rightarrow> (x1, tm1))
                   in (x2, case reply_directly cfg rs checksum x2 tm2 of Some t \<Rightarrow> t | None \<Rightarrow> tm2))))"

definition incoming_CANCEL ::
  "sippy_config \<Rightarrow> string \<Rightarrow> string \<Rightarrow> monotime \<Rightarrow> sip_request \<Rightarrow> server_transaction \<Rightarrow> sip_tm \<Rightarrow>
   server_transaction \<times> sip_tm" where
  "incoming_CANCEL cfg newtag checksum now rq x tm =
     (case GenResponse 200 ''OK'' None (st_server x) rq of
        Inl e \<Rightarrow> (x, tm)
      | Inr rs \<Rightarrow>
          (case reply_directly cfg rs checksum x tm of
             None \<Rightarrow> (x, tm)
           | Some tm1 \<Rightarrow>
               if tx_state x = TRYING \<or> tx_state x = RINGING
               then doCancel cfg newtag (m_rtime rq) (Some rq) now x tm1 else (x, tm1)))"

definition IncomingRequest ::
  "prack_handler \<Rightarrow> sippy_config \<Rightarrow> string \<Rightarrow> monotime \<Rightarrow> sip_request \<Rightarrow> string \<Rightarrow> server_transaction \<Rightarrow> sip_tm \<Rightarrow>
   server_transaction \<times> sip_tm" where
  "IncomingRequest prack cfg newtag now rq checksum x tm =
     (if \<not> tx_alive x then (x, tm)
      else if rq_method rq = st_method x then
        (case (tx_data x, tx_userv x, tx_address x, tx_tid x) of
           (Some d, Some uv, Some a, Some k) \<Rightarrow>
             (x, transmitData uv d a checksum (tid_CallId k) 0 tm)
         | _ \<Rightarrow> (x, tm))
      else if rq_method rq = ''CANCEL'' then incoming_CANCEL cfg newtag checksum now rq x tm
      else if rq_method rq = ''ACK'' then incoming_ACK checksum rq x tm
      else if rq_method rq = ''PRACK'' then incoming_PRACK prack cfg checksum rq x tm
      else (x, tm))"

text \<open>
  Expiry of the PRACK timer, called with the timeout that just elapsed and the loss
  emulation its closure holds. Below the limit the response is repeated and the timer
  restarted with twice the timeout; writing the new timer into a transaction whose
  response is no longer in flight is a nil dereference, whose only trace is the repetition.
\<close>

definition retrUasResponse ::
  "duration \<Rightarrow> int \<Rightarrow> server_transaction \<Rightarrow> sip_tm \<Rightarrow> server_transaction \<times> sip_tm" where
  "retrUasResponse last_timeout lossemul x tm =
     (if 16 * second < last_timeout then
        let x1 = x\<lparr>st_prov_inflight := None\<rparr>;
            tm1 = (case st_prov_inflight x of
                     Some p \<Rightarrow> if tx_alive x then rtid_del (pif_rtid p) tm else tm
                   | None \<Rightarrow> tm);
            tm2 = (if tx_state x = RINGING then upcall_opt (st_noprack_cb x) U_noprack tm1 else tm1)
        in (x1, tm2)
      else
        let tm1 = (if tx_alive x \<and> lossemul = 0 then
                     (case (tx_userv x, tx_data x, tx_address x, tx_tid x) of
                        (Some uv, Some d, Some a, Some k) \<Rightarrow>
                          transmitData uv d a [] (tid_CallId k) 0 tm
                      | _ \<Rightarrow> tm)
                   else tm);
            l = (if tx_alive x \<and> lossemul \<noteq> 0 then lossemul - 1 else lossemul)
        in (case st_prov_inflight x of
              Some p \<Rightarrow> x\<lparr>st_prov_inflight :=
                 Some (p\<lparr>pif_timeout := 2 * last_timeout, pif_lossemul := l\<rparr>)\<rparr>
            | None \<Rightarrow> x, tm1))"

section \<open>Timers and clean-up\<close>

lemmas server_timer_defs [tx_simps] = startTeE_def cancelTeE_def startTeD_def cancelTeD_def
  startTeA_def cancelTeA_def

lemma server_cleanup_simps [tx_simps]:
  "tx_alive (server_cleanup x) = False" "tx_tid (server_cleanup x) = None"
  "tx_teA (server_cleanup x) = None" "st_teD (server_cleanup x) = None"
  "st_teE (server_cleanup x) = None" "tx_state (server_cleanup x) = tx_state x"
  "tx_ref (server_cleanup x) = tx_ref x" "st_prov_inflight (server_cleanup x) = st_prov_inflight x"
  by (simp_all add: server_cleanup_def base_cleanup_def)

definition server_ops ::
  "(server_transaction \<Rightarrow> sip_tm \<Rightarrow> server_transaction \<times> sip_tm) set" where
  "server_ops =
     {timerA, timerD} \<union> {timerE cfg tg now | cfg tg now. True}
     \<union> {SendResponseWithLossEmul cfg tg rs rt cb l | cfg tg rs rt cb l. True}
     \<union> {IncomingRequest pr cfg tg now rq cs | pr cfg tg now rq cs. True}"

interpretation server_life: life_cycle tx_alive TimersAreActive server_cleanup server_ops
proof
  show "\<not> tx_alive (server_cleanup x)" for x by (simp add: tx_simps)
  show "\<not> TimersAreActive (server_cleanup x)" for x by (simp add: TimersAreActive_def tx_simps)
  show "f x s = (x, s)" if "f \<in> server_ops" "\<not> tx_alive x" for f x s
    using that
    by (auto simp: server_ops_def timerA_def timerD_def timerE_def SendResponseWithLossEmul_def
        IncomingRequest_def)
qed

text \<open>The timer of the reliable provisional response in flight fires.\<close>

definition fire_prov :: "server_transaction \<Rightarrow> sip_tm \<Rightarrow> server_transaction \<times> sip_tm" where
  "fire_prov x tm =
     (case st_prov_inflight x of
        Some p \<Rightarrow> retrUasResponse (pif_timeout p) (pif_lossemul p) x tm
      | None \<Rightarrow> (x, tm))"

section \<open>Sending and matching\<close>

lemma ensure_to_tag_Some:
  assumes "m_to rs = Some (Inr a)"
  shows "\<exists>rs'. ensure_to_tag newtag rs = Some rs' \<and> rs_scode rs' = rs_scode rs
    \<and> m_vias rs' = m_vias rs \<and> m_to rs' = Some (Inr (if 100 < rs_scode rs \<and> GetTag a = []
                                                      then SetTag newtag a else a))"
  using assms by (auto simp: ensure_to_tag_def set_To_def)

lemma reliable_provisional_final:
  "200 \<le> rs_scode rs \<Longrightarrow> reliable_provisional rs l x tm = (x, tm, Some (rs, l))"
  by (simp add: reliable_provisional_def)

text \<open>The key of a transaction after its final response.\<close>

definition ack_key :: "tid \<Rightarrow> string \<Rightarrow> tid" where
  "ack_key k tag = k\<lparr>tid_Branch := [], tid_ToTag := tag\<rparr>"

lemma final_response_needack:
  assumes "tx_alive x" "tx_needack x" "tx_userv x = Some uv" "tx_tid x = Some k"
    and "200 \<le> rs_scode rs" "m_to rs = Some (Inr a)" "m_vias rs = Inr via0 # vs"
  obtains rs' d where
    "SendResponseWithLossEmul cfg newtag rs retrans cb l x tm =
       (x\<lparr>tx_data := Some d, tx_address := Some (GetTAddr cfg via0), tx_state := COMPLETED,
          st_teE := None, st_ack_cb := cb, st_teD := Some (32 * second),
          tx_tid := Some (ack_key k (if GetTag a = [] then newtag else GetTag a)),
          tx_tout := half_second, tx_teA := Some half_second\<rparr>,
        transmitData uv d (GetTAddr cfg via0) (st_checksum x) (tid_CallId k) l
          (tserver_replace k (ack_key k (if GetTag a = [] then newtag else GetTag a)) (tx_ref x)
             (case st_prov_inflight x of
                Some p \<Rightarrow> rtid_replace (pif_rtid p) k
                            (ack_key k (if GetTag a = [] then newtag else GetTag a)) tm
              | None \<Rightarrow> tm)))"
    "d = P_resp rs' (uv_laddress uv)" "ensure_to_tag newtag rs = Some rs'"
proof -
  obtain rs' where e: "ensure_to_tag newtag rs = Some rs'" "rs_scode rs' = rs_scode rs"
      "m_vias rs' = m_vias rs"
      "m_to rs' = Some (Inr (if GetTag a = [] then SetTag newtag a else a))"
    using ensure_to_tag_Some [OF assms(6), of newtag] assms(5) by auto
  show thesis
    by (rule that [of "P_resp rs' (uv_laddress uv)" rs'])
      (use assms e in \<open>auto simp: SendResponseWithLossEmul_def reliable_provisional_final
         rekey_for_ack_def Let_def tx_simps ack_key_def transmit_and_finish_def
         split: option.splits\<close>)
qed

lemma final_response_effects:
  assumes "tx_alive x" "tx_needack x" "tx_userv x = Some uv" "tx_tid x = Some k"
    and "200 \<le> rs_scode rs" "m_to rs = Some (Inr a)" "m_vias rs = Inr via0 # vs"
    and "ensure_to_tag newtag rs = Some rs'"
    and "SendResponse cfg newtag rs retrans cb x tm = (x', tm')"
  defines "k' \<equiv> ack_key k (if GetTag a = [] then newtag else GetTag a)"
  shows "tx_state x' = COMPLETED" "tx_teA x' = Some half_second" "st_teE x' = None"
    "st_teD x' = Some (32 * second)" "tx_tid x' = Some k'" "st_cancel_cb x' = st_cancel_cb x"
    "tm_sent tm' = tm_sent tm @ [\<lparr>sn_userv = uv, sn_data = P_resp rs' (uv_laddress uv),
                                   sn_address = GetTAddr cfg via0\<rparr>]"
    "tm_upcalls tm' = tm_upcalls tm"
    "tm_tserver tm' = tm_tserver (tserver_replace k k' (tx_ref x) tm)"
proof -
  obtain d where s: "SendResponse cfg newtag rs retrans cb x tm =
       (x\<lparr>tx_data := Some d, tx_address := Some (GetTAddr cfg via0), tx_state := COMPLETED,
          st_teE := None, st_ack_cb := cb, st_teD := Some (32 * second), tx_tid := Some k',
          tx_tout := half_second, tx_teA := Some half_second\<rparr>,
        transmitData uv d (GetTAddr cfg via0) (st_checksum x) (tid_CallId k) 0
          (tserver_replace k k' (tx_ref x)
             (case st_prov_inflight x of
                Some p \<Rightarrow> rtid_replace (pif_rtid p) k k' tm | None \<Rightarrow> tm)))"
    "d = P_resp rs' (uv_laddress uv)"
    unfolding SendResponse_def k'_def
    by (rule final_response_needack [OF assms(1-7), of cfg newtag retrans cb 0 tm])
       (simp add: assms(8))
  show "tx_state x' = COMPLETED" "tx_teA x' = Some half_second" "st_teE x' = None"
    "st_teD x' = Some (32 * second)" "tx_tid x' = Some k'" "st_cancel_cb x' = st_cancel_cb x"
    using assms(9) by (auto simp: s)
  have tm': "tm' = snd (SendResponse cfg newtag rs retrans cb x tm)" by (simp add: assms(9))
  show "tm_sent tm' = tm_sent tm @ [\<lparr>sn_userv = uv, sn_data = P_resp rs' (uv_laddress uv),
                                   sn_address = GetTAddr cfg via0\<rparr>]"
    "tm_upcalls tm' = tm_upcalls tm"
    "tm_tserver tm' = tm_tserver (tserver_replace k k' (tx_ref x) tm)"
    unfolding tm' s by (simp_all add: tm_simps tserver_replace_def)
       (simp_all add: tm_prim_defs split: option.splits)
qed

lemma final_response_armed:
  assumes "tx_alive x" "tx_needack x" "tx_userv x = Some uv" "tx_tid x = Some k"
    and "200 \<le> rs_scode rs" "m_to rs = Some (Inr a)" "m_vias rs = Inr via0 # vs"
    and "ensure_to_tag newtag rs = Some rs'"
    and "SendResponse cfg newtag rs retrans cb x tm = (x', tm')"
  shows "armed x' \<lparr>sn_userv = uv, sn_data = P_resp rs' (uv_laddress uv), sn_address = GetTAddr cfg via0\<rparr>"
  by (rule final_response_needack [OF assms(1-7), of cfg newtag retrans cb 0 tm])
    (use assms(1,3,8,9) in \<open>auto simp: armed_def SendResponse_def\<close>)

text \<open>
  Property C12. After a final response to an INVITE the transaction is completed, both
  retransmission and give-up timers run, the request's own key no longer finds it, and an
  ACK finds it: any ACK of the same call, CSeq number and From tag that carries the To tag
  of the response that was sent, whatever its branch.
\<close>

theorem ack_finds_answered_invite:
  assumes alive: "tx_alive x" "tx_needack x" "tx_userv x = Some uv"
    and inv: "GetTId False True False ireq = Inr k" "tx_tid x = Some k" "tid_Branch k \<noteq> []"
    and resp: "GenResponse code reason body server ireq = Inr rs" "200 \<le> code"
      "m_to ireq = Some (Inr a)" "m_vias ireq = Inr via0 # vs"
    and ack: "m_call_id ack = m_call_id ireq" "m_from ack = m_from ireq"
      "m_cseq ack = Some (Inr c)" "m_cseq ireq = Some (Inr c')" "CSeq_num c = CSeq_num c'"
      "m_to ack = Some (Inr b)" "GetTag b = (if GetTag a = [] then newtag else GetTag a)"
    and send: "SendResponse cfg newtag rs retrans cb x tm = (x', tm')"
  shows "tx_state x' = COMPLETED \<and> tx_teA x' = Some half_second
    \<and> st_teD x' = Some (32 * second) \<and> st_teE x' = None
    \<and> tm_tserver tm' k = None
    \<and> (\<exists>k'. GetTId False False True ack = Inr k' \<and> tx_tid x' = Some k'
            \<and> tm_tserver tm' k' = Some (tx_ref x))"
proof -
  note g = GenResponse_Inr [OF resp(1)]
  have code: "200 \<le> rs_scode rs" and to: "m_to rs = Some (Inr a)"
    and via: "m_vias rs = Inr via0 # vs" using g resp by simp_all
  let ?k = "ack_key k (if GetTag a = [] then newtag else GetTag a)"
  obtain rs' where "ensure_to_tag newtag rs = Some rs'"
    using ensure_to_tag_Some [OF to] by blast
  note eff = final_response_effects [OF alive inv(2) code to via this send]
  have ne: "?k \<noteq> k" using inv(3) by (cases k) (auto simp: ack_key_def)
  have kk: "GetTId False False True ack = Inr ?k"
    using inv(1) ack resp by (auto simp: GetTId_def opt_field_def bind_result_Inr_iff
        ack_key_def NewTID_def split: option.splits)
  show ?thesis
    using eff(1-5) kk ne by (auto simp: eff(9) tserver_replace_def tserver.rekey_look)
qed

text \<open>
  The ACK of a completed transaction with no provisional response in flight
  confirms it: the transaction leaves the table and stops every timer, its ACK callback is called
  once, nothing is transmitted, and from then on no timer, response or request has any effect.
\<close>

theorem ack_confirms_and_retires:
  assumes "tx_alive x" "tx_state x = COMPLETED" "st_prov_inflight x = None" "tx_tid x = Some k"
    and "st_method x = ''INVITE''" "rq_method rq = ''ACK''"
    and "IncomingRequest prack cfg newtag now rq checksum x tm = (x', tm')"
    and "set fs \<subseteq> server_ops"
  shows "tx_state x' = CONFIRMED \<and> \<not> tx_alive x' \<and> \<not> TimersAreActive x'
    \<and> tm_tserver tm' k = None \<and> tm_sent tm' = tm_sent tm
    \<and> tm_upcalls tm' = tm_upcalls tm @ (case st_ack_cb x of Some u \<Rightarrow> [U_ack u rq] | None \<Rightarrow> [])
    \<and> run_ops fs (x', tm') = (x', tm')"
proof -
  have x': "x' = server_cleanup (cancelTeD (cancelTeA (x\<lparr>tx_state := CONFIRMED\<rparr>)))"
    and tm': "tm' = rcache_set_call_id checksum (tid_CallId k)
      (upcall_opt (st_ack_cb x) (\<lambda>u. U_ack u rq) (tserver_del k tm))"
    using assms by (auto simp: IncomingRequest_def incoming_ACK_def Let_def tx_simps)
  show ?thesis using assms(8)
    by (simp add: x' tm' tx_simps TimersAreActive_def tm_simps tserver.del_then_look
        server_life.cleaned_run) (simp add: upcall_opt_def tm_simps split: option.splits)
qed

text \<open>
  A repetition of the request that created a transaction has no effect before
  the first response, and afterwards sends the last response again, to where it was sent, and
  leaves the transaction as it is.
\<close>

theorem duplicate_request_repeats_response:
  assumes "tx_alive x" "rq_method rq = st_method x"
    and "tx_userv x = Some uv" "tx_tid x = Some k"
    and "tx_data x = None \<or> tx_address x \<noteq> None"
    and "IncomingRequest prack cfg newtag now rq checksum x tm = (x', tm')"
  shows "x' = x \<and> tm_sent tm' = tm_sent tm @
      (case (tx_data x, tx_address x) of
         (Some d, Some a) \<Rightarrow> [\<lparr>sn_userv = uv, sn_data = d, sn_address = a\<rparr>] | _ \<Rightarrow> [])"
  using assms by (auto simp: IncomingRequest_def tm_simps split: option.splits)

text \<open>
  The retransmission timer of a transaction: after \<open>n\<close> expiries \<open>n\<close> identical copies
  were sent and the timer runs with half a second times \<open>2 ^ n\<close>.
\<close>

theorem retransmission_backoff:
  assumes "armed x sn" "tx_tout x = half_second" "tx_teA x = Some half_second"
  shows "tx_teA (fst (run_ops (replicate n timerA) (x, tm))) = Some (2 ^ n * half_second)
    \<and> snd (run_ops (replicate n timerA) (x, tm)) = tm\<lparr>tm_sent := tm_sent tm @ replicate n sn\<rparr>"
  using timerA_iterate [OF assms(1)] assms(2,3) by simp

lemma fire_prov_step:
  assumes "armed x sn" "st_prov_inflight x = Some \<lparr>pif_rtid = rk, pif_timeout = d, pif_lossemul = 0\<rparr>"
    and "d \<le> 16 * second"
  shows "fire_prov x tm =
    (x\<lparr>st_prov_inflight := Some \<lparr>pif_rtid = rk, pif_timeout = 2 * d, pif_lossemul = 0\<rparr>\<rparr>,
     tm\<lparr>tm_sent := tm_sent tm @ [sn]\<rparr>)"
  using assms by (cases sn) (auto simp: fire_prov_def retrUasResponse_def armed_def transmitData_def)

lemma fire_prov_last:
  assumes "armed x sn" "st_prov_inflight x = Some \<lparr>pif_rtid = rk, pif_timeout = d, pif_lossemul = 0\<rparr>"
    and "16 * second < d"
  shows "fire_prov x tm = (x\<lparr>st_prov_inflight := None\<rparr>,
     (if tx_state x = RINGING then upcall_opt (st_noprack_cb x) U_noprack (rtid_del rk tm)
      else rtid_del rk tm))"
  using assms by (auto simp: fire_prov_def retrUasResponse_def armed_def)

lemma fire_prov_done: "st_prov_inflight x = None \<Longrightarrow> run_ops (replicate n fire_prov) (x, tm) = (x, tm)"
  by (induction n) (auto simp: run_ops_def fire_prov_def)

lemma fire_prov_iterate:
  assumes "armed x sn" "st_prov_inflight x = Some \<lparr>pif_rtid = rk, pif_timeout = d, pif_lossemul = 0\<rparr>"
    and "2 ^ n * d \<le> 32 * second" "0 < d"
  shows "run_ops (replicate n fire_prov) (x, tm) =
    (x\<lparr>st_prov_inflight := Some \<lparr>pif_rtid = rk, pif_timeout = 2 ^ n * d, pif_lossemul = 0\<rparr>\<rparr>,
     tm\<lparr>tm_sent := tm_sent tm @ replicate n sn\<rparr>)"
  using assms
proof (induction n arbitrary: x d tm)
  case 0
  then show ?case by (simp add: run_ops_def)
next
  case (Suc n)
  have "1 * d \<le> 2 ^ n * d" using Suc.prems(4) by (intro mult_right_mono) auto
  then have d: "d \<le> 16 * second" using Suc.prems(3) by (simp add: mult.commute)
  show ?case
    using Suc.IH [of "x\<lparr>st_prov_inflight := Some \<lparr>pif_rtid = rk, pif_timeout = 2 * d, pif_lossemul = 0\<rparr>\<rparr>"
        "2 * d" "tm\<lparr>tm_sent := tm_sent tm @ [sn]\<rparr>"] Suc.prems
    by (simp add: run_ops_def fire_prov_step [OF Suc.prems(1,2) d] armed_def ac_simps)
qed

text \<open>
  Property C35. A reliable provisional response that is never acknowledged is repeated exactly
  six times: the timer runs half a second before the first repetition and twice as long after each, so that after \<open>i\<close>
  repetitions it is set to half a second times \<open>2 ^ i\<close>. At the seventh expiry, after thirty-two seconds, the
  transaction gives up: its identifier is forgotten, the user agent is told once if the call is still ringing,
  and nothing more is sent however long one waits.
\<close>

theorem unacknowledged_provisional_gives_up:
  assumes "armed x sn" "7 \<le> n"
    and "st_prov_inflight x = Some \<lparr>pif_rtid = rk, pif_timeout = half_second, pif_lossemul = 0\<rparr>"
    and "run_ops (replicate n fire_prov) (x, tm) = (x', tm')"
  shows "(\<forall>i \<le> 6. \<exists>xi tmi. run_ops (replicate i fire_prov) (x, tm) = (xi, tmi)
        \<and> map_option pif_timeout (st_prov_inflight xi) = Some (2 ^ i * half_second) \<and> tm_sent tmi = tm_sent tm @ replicate i sn
        \<and> tm_upcalls tmi = tm_upcalls tm)
    \<and> st_prov_inflight x' = None \<and> tm_sent tm' = tm_sent tm @ replicate 6 sn
    \<and> tm_rtid2tid tm' rk = None
    \<and> tm_upcalls tm' = tm_upcalls tm @
        (case st_noprack_cb x of Some u \<Rightarrow> if tx_state x = RINGING then [U_noprack u] else [] | None \<Rightarrow> [])"
proof (rule conjI)
  have "(2 :: int) ^ i * half_second \<le> 32 * second" if "i \<le> 6" for i :: nat
  proof -
    have "(2 :: int) ^ i * half_second \<le> 2 ^ 6 * half_second"
      using power_increasing [OF that, of "2 :: int"] by (intro mult_right_mono) (simp_all add: half_second_def millisecond_def)
    then show ?thesis by (simp add: half_second_def second_def millisecond_def)
  qed
  then show "\<forall>i \<le> 6. \<exists>xi tmi. run_ops (replicate i fire_prov) (x, tm) = (xi, tmi)
        \<and> map_option pif_timeout (st_prov_inflight xi) = Some (2 ^ i * half_second) \<and> tm_sent tmi = tm_sent tm @ replicate i sn
        \<and> tm_upcalls tmi = tm_upcalls tm"
    by (auto simp: fire_prov_iterate [OF assms(1,3)] half_second_def millisecond_def)
  let ?p = "\<lambda>t. \<lparr>pif_rtid = rk, pif_timeout = t, pif_lossemul = 0\<rparr>"
  let ?x = "x\<lparr>st_prov_inflight := Some (?p (2 ^ 6 * half_second))\<rparr>"
  let ?tm = "tm\<lparr>tm_sent := tm_sent tm @ replicate 6 sn\<rparr>"
  have six: "run_ops (replicate 6 fire_prov) (x, tm) = (?x, ?tm)"
    by (rule fire_prov_iterate [OF assms(1,3)]) (simp_all add: half_second_def second_def millisecond_def)
  obtain m where n: "n = 6 + (1 + m)"
    using le_Suc_ex [OF assms(2)] by auto
  have "run_ops (replicate n fire_prov) (x, tm) =
      run_ops (replicate m fire_prov) (fire_prov ?x ?tm)"
    using six unfolding n replicate_add by (simp add: run_ops_def)
  moreover have "fire_prov ?x ?tm = (?x\<lparr>st_prov_inflight := None\<rparr>,
      if tx_state x = RINGING then upcall_opt (st_noprack_cb x) U_noprack (rtid_del rk ?tm)
      else rtid_del rk ?tm)"
    using fire_prov_last [of ?x sn rk "2 ^ 6 * half_second" ?tm] assms(1)
    by (simp add: armed_def half_second_def second_def millisecond_def)
  ultimately show "st_prov_inflight x' = None \<and> tm_sent tm' = tm_sent tm @ replicate 6 sn
    \<and> tm_rtid2tid tm' rk = None
    \<and> tm_upcalls tm' = tm_upcalls tm @
        (case st_noprack_cb x of Some u \<Rightarrow> if tx_state x = RINGING then [U_noprack u] else [] | None \<Rightarrow> [])"
    using assms(4) fire_prov_done [of "?x\<lparr>st_prov_inflight := None\<rparr>" m]
    by (auto simp: tm_simps rtids.del_then_look upcall_opt_def split: option.splits if_splits)
qed

lemma reply_directly_Some:
  assumes "m_vias rs = Inr via0 # vs" "tx_userv x = Some uv" "tx_tid x = Some k"
  shows "reply_directly cfg rs cs x tm =
    Some (transmit_response uv rs (GetTAddr cfg via0) cs (tid_CallId k) tm)"
  using assms by (simp add: reply_directly_def)

text \<open>
  A CANCEL is always answered with 200 to its own Via. While the INVITE is
  unanswered it is also terminated: the stored 487 goes out after the 200, the transaction is
  completed and waits for the ACK, and the cancel callback is called with the
  CANCEL's reception time. Once the INVITE has its final response a CANCEL changes nothing.
\<close>

theorem cancel_terminates_unanswered_invite:
  assumes "tx_alive x" "st_method x = ''INVITE''" "tx_needack x" "tx_userv x = Some uv"
    and "tx_tid x = Some k" "rq_method rq = ''CANCEL''"
    and "GenResponse 200 ''OK'' None (st_server x) rq = Inr ok" "m_vias rq = Inr cvia # cvs"
    and "st_r487 x = Some r" "487 = rs_scode r" "m_to r = Some (Inr a)" "m_vias r = Inr via0 # vs"
    and "ensure_to_tag newtag r = Some r'" "m_rtime rq = Some rt"
    and "IncomingRequest prack cfg newtag now rq checksum x tm = (x', tm')"
  shows "if tx_state x = TRYING \<or> tx_state x = RINGING
    then tx_state x' = COMPLETED \<and> tx_teA x' = Some half_second
       \<and> tm_sent tm' = tm_sent tm @
           [\<lparr>sn_userv = uv, sn_data = P_resp ok (uv_laddress uv), sn_address = GetTAddr cfg cvia\<rparr>,
            \<lparr>sn_userv = uv, sn_data = P_resp r' (uv_laddress uv), sn_address = GetTAddr cfg via0\<rparr>]
       \<and> tm_upcalls tm' = tm_upcalls tm @
           (case st_cancel_cb x of Some u \<Rightarrow> [U_cancel u (Some rt) (Some rq)] | None \<Rightarrow> [])
    else x' = x \<and> tm_upcalls tm' = tm_upcalls tm
       \<and> tm_sent tm' = tm_sent tm @
           [\<lparr>sn_userv = uv, sn_data = P_resp ok (uv_laddress uv), sn_address = GetTAddr cfg cvia\<rparr>]"
proof -
  have via: "m_vias ok = Inr cvia # cvs" using GenResponse_Inr [OF assms(7)] assms(8) by simp
  let ?tm = "transmit_response uv ok (GetTAddr cfg cvia) checksum (tid_CallId k) tm"
  let ?x = "x\<lparr>st_r487 := Some r'\<rparr>"
  have step: "IncomingRequest prack cfg newtag now rq checksum x tm =
      (if tx_state x = TRYING \<or> tx_state x = RINGING
       then doCancel cfg newtag (Some rt) (Some rq) now x ?tm else (x, ?tm))"
    using assms(1-14)
    by (simp add: IncomingRequest_def incoming_CANCEL_def reply_directly_Some [OF via])
  show ?thesis
  proof (cases "tx_state x = TRYING \<or> tx_state x = RINGING")
    case True
    have cond: "tx_alive ?x" "tx_needack ?x" "tx_userv ?x = Some uv" "tx_tid ?x = Some k"
      "200 \<le> rs_scode r"
      using assms by simp_all
    obtain y t where send: "SendResponse cfg newtag r True None ?x ?tm = (y, t)" by fastforce
    note eff = final_response_effects [OF cond assms(11-13) send]
    have "(x', tm') = doCancel cfg newtag (Some rt) (Some rq) now x ?tm"
      using step assms(15) True by simp
    then show ?thesis using True eff
      by (auto simp: doCancel_def assms(9,13) send upcall_opt_def tm_simps split: option.splits)
         (auto simp: transmit_response_def tm_simps)
  next
    case False
    then show ?thesis using step assms(15) by (auto simp: transmit_response_def tm_simps)
  qed
qed

text \<open>
  A PRACK for the provisional response in flight stops its repetition and forgets its
  identifier before the callback runs, and is answered 200 after it; a PRACK for anything
  else is answered 481 and leaves the transaction and the identifiers alone.
\<close>

theorem prack_acknowledges_in_flight:
  assumes "tx_alive x" "st_method x = ''INVITE''" "tx_userv x = Some uv" "tx_tid x = Some k"
    and "rq_method rq = ''PRACK''" "request_GetRTId rq = Inr rk" "m_vias rq = Inr via0 # vs"
    and "GenResponse 200 ''OK'' None None rq = Inr ok" "GenResponse 481 ''Huh?'' None None rq = Inr huh"
    and "\<And>y t. tx_tid y \<noteq> None \<Longrightarrow>
      tx_userv (fst (prack rq ok y t)) = tx_userv y \<and> tx_tid (fst (prack rq ok y t)) \<noteq> None"
    and "IncomingRequest prack cfg newtag now rq checksum x tm = (x', tm')"
  shows "if map_option pif_rtid (st_prov_inflight x) = Some rk
    then \<exists>tm1 tm2. st_prov_inflight x \<noteq> None
      \<and> tm_rtid2tid tm1 = (tm_rtid2tid tm)(rk := None) \<and> tm_sent tm1 = tm_sent tm
      \<and> (x', tm2) = (case st_prack_cb x of
            Some u \<Rightarrow> prack rq ok (x\<lparr>st_prov_inflight := None\<rparr>) tm1
          | None \<Rightarrow> (x\<lparr>st_prov_inflight := None\<rparr>, tm1))
      \<and> tm_sent tm' = tm_sent tm2 @ [\<lparr>sn_userv = uv, sn_data = P_resp ok (uv_laddress uv),
                                            sn_address = GetTAddr cfg via0\<rparr>]
    else x' = x \<and> tm_rtid2tid tm' = tm_rtid2tid tm
      \<and> tm_sent tm' = tm_sent tm @ [\<lparr>sn_userv = uv, sn_data = P_resp huh (uv_laddress uv),
                                            sn_address = GetTAddr cfg via0\<rparr>]"
proof -
  have v: "m_vias ok = Inr via0 # vs" "m_vias huh = Inr via0 # vs"
    using GenResponse_Inr(5) [OF assms(8)] GenResponse_Inr(5) [OF assms(9)] assms(7) by simp_all
  note defs = IncomingRequest_def incoming_PRACK_def reply_directly_def v transmit_response_def
  show ?thesis
  proof (cases "map_option pif_rtid (st_prov_inflight x) = Some rk")
    case False
    then have hit: "(case st_prov_inflight x of Some p \<Rightarrow> pif_rtid p = rk | None \<Rightarrow> False) = False"
      by (auto split: option.splits)
    from False show ?thesis using assms(1-9,11) by (auto simp: defs hit tm_simps)
  next
    case True
    then have hit: "(case st_prov_inflight x of Some p \<Rightarrow> pif_rtid p = rk | None \<Rightarrow> False) = True"
      by auto
    let ?x = "x\<lparr>st_prov_inflight := None\<rparr>"
    define tm1 where "tm1 = (case st_prack_cb x of Some u \<Rightarrow> upcall (U_prack u rq ok) (rtid_del rk tm)
                                                 | None \<Rightarrow> rtid_del rk tm)"
    obtain y t where yt: "(y, t) = (case st_prack_cb x of Some u \<Rightarrow> prack rq ok ?x tm1 | None \<Rightarrow> (?x, tm1))"
      by (metis surj_pair)
    have y: "tx_userv y = Some uv" "tx_tid y \<noteq> None"
      using yt assms(3,4) assms(10) [of ?x tm1] by (auto split: option.splits dest: sym)
    have "x' = y \<and> tm_sent tm' = tm_sent t @ [\<lparr>sn_userv = uv, sn_data = P_resp ok (uv_laddress uv),
                                            sn_address = GetTAddr cfg via0\<rparr>]"
      using assms(1-9,11) yt y by (auto simp: defs hit tm1_def tm_simps split: option.splits prod.splits)
    moreover have "tm_rtid2tid tm1 = (tm_rtid2tid tm)(rk := None) \<and> tm_sent tm1 = tm_sent tm"
      by (auto simp: tm1_def tm_simps rtid_del_def split: option.splits)
    ultimately show ?thesis using True yt by auto
  qed
qed

end
