(* ===== verification/Client_Transaction.thy ===== *)
theory Client_Transaction
  imports Tx_State
begin

text \<open>
  Client transactions: \<^verbatim>\<open>sippy/client_transaction.go\<close> and the client side of
  \<^verbatim>\<open>sippy/sip_transaction_manager.go\<close>. The object an operation works on is an argument;
  the objects it creates are stored in the manager. The receiver of responses is a
  function \<open>rcv\<close> that runs inside the handler, since a user agent changes the
  transaction from there (it asks for a delayed ACK, or gives the ACK's route); its call is
  logged first. Operations that take \<open>tclient_lock\<close> return None when they would wait
  for it: nobody but a failed creation leaves it locked. A nil dereference ends the
  handler where it occurs, as the recovery around it does.
\<close>

section \<open>Construction and timers\<close>

definition NewClientTransactionObj ::
  "ref \<Rightarrow> sippy_config \<Rightarrow> sip_request \<Rightarrow> tid \<Rightarrow> transport \<Rightarrow> ref option \<Rightarrow> sip_header list \<Rightarrow>
   client_transaction result" where
  "NewClientTransactionObj r cfg rq k userv receiver eh =
     bind_result (case receiver of
         Some u \<Rightarrow> bind_result (GenResponse 408 ''Request Timeout'' None None rq) (\<lambda>rs. Inr (Some rs))
       | None \<Rightarrow> Inr None) (\<lambda>r408.
     bind_result (if rq_method rq = ''INVITE''
         then bind_result (GenACK cfg None rq) (\<lambda>a.
              bind_result (GenCANCEL cfg rq) (\<lambda>c. Inr (Some a, Some c)))
         else Inr (None, None)) (\<lambda>(ack, cancel).
       Inr \<lparr>tx_ref = r, tx_alive = True, tx_userv = Some userv, tx_state = TRYING,
            tx_tid = Some k, tx_teA = None, tx_address = m_target rq,
            tx_needack = (rq_method rq = ''INVITE''), tx_tout = half_second,
            tx_data = Some (P_req rq (uv_laddress userv)),
            ct_teB = None, ct_teC = None, ct_teG = None, ct_r408 = r408,
            ct_resp_receiver = receiver,
            ct_expires =
              (if rq_method rq = ''INVITE'' then
                 (case rq_expires rq of
                    Some e \<Rightarrow> (case numeric_GetBody e of
                        (_, Inr n) \<Rightarrow> if 0 < n then n * second else 300 * second
                      | _ \<Rightarrow> 300 * second)
                  | None \<Rightarrow> 300 * second)
               else 32 * second),
            ct_ack = ack, ct_outbound_proxy = None, ct_cancel = cancel,
            ct_cancelPending = False, ct_uack = False, ct_ack_rAddr = None,
            ct_ack_checksum = [], ct_ack_rparams_present = False, ct_ack_rTarget = None,
            ct_ack_routes = [], ct_txn_headers = [], ct_req_extra_hdrs = eh,
            ct_seen_rseqs = [], ct_last_rseq = 0\<rparr>))"

definition startTeB :: "duration \<Rightarrow> client_transaction \<Rightarrow> client_transaction" where
  "startTeB t x = x\<lparr>ct_teB := Some t\<rparr>"

definition cancelTeB :: "client_transaction \<Rightarrow> client_transaction" where
  "cancelTeB x = x\<lparr>ct_teB := None\<rparr>"

definition startTeC :: "client_transaction \<Rightarrow> client_transaction" where
  "startTeC x = x\<lparr>ct_teC := Some (32 * second)\<rparr>"

definition client_StartTimers :: "client_transaction \<Rightarrow> client_transaction" where
  "client_StartTimers x = startTeB (32 * second) (startTeA x)"

definition client_cleanup :: "client_transaction \<Rightarrow> client_transaction" where
  "client_cleanup x =
     (base_cleanup x)\<lparr>ct_ack := None, ct_resp_receiver := None, ct_teB := None, ct_teC := None,
        ct_teG := None, ct_r408 := None, ct_cancel := None\<rparr>"

definition client_TransmitData :: "client_transaction \<Rightarrow> sip_tm \<Rightarrow> sip_tm" where
  "client_TransmitData x tm =
     (case (tx_alive x, tx_userv x, tx_data x, tx_address x, tx_tid x) of
        (True, Some uv, Some d, Some a, Some k) \<Rightarrow> transmitData uv d a [] (tid_CallId k) 0 tm
      | _ \<Rightarrow> tm)"

section \<open>Creation through the manager\<close>

text \<open>
  The transport is the given one, else the one for the local address, else the one
  for the target; the last two are the answers of the address cache.
\<close>

definition choose_userv ::
  "transport option \<Rightarrow> transport option \<Rightarrow> transport option \<Rightarrow> transport option" where
  "choose_userv userv for_laddress for_target =
     (case userv of Some u \<Rightarrow> Some u
      | None \<Rightarrow> (case for_laddress of Some u \<Rightarrow> Some u | None \<Rightarrow> for_target))"

definition CreateClientTransaction ::
  "sippy_config \<Rightarrow> transport option \<Rightarrow> ref option \<Rightarrow> sip_header list \<Rightarrow> sip_request \<Rightarrow> sip_tm \<Rightarrow>
   (sip_tm \<times> ref result) option" where
  "CreateClientTransaction cfg userv receiver eh rq tm =
     (case userv of
        None \<Rightarrow> Some (tm, Inl ''BUG: cannot get userv from local4remote!!!'')
      | Some uv \<Rightarrow> (case GetTId True True False rq of
          Inl e \<Rightarrow> Some (tm, Inl e)
        | Inr k \<Rightarrow>
            if tm_tclient_lock tm then None
            else if tm_tclient tm k \<noteq> None then
              Some (tm, Inl ''BUG: Attempt to initiate transaction with the same TID as existing one!!!'')
            else (case NewClientTransactionObj (tm_next_ref tm) cfg rq k uv receiver eh of
                Inl e \<Rightarrow> Some (tm\<lparr>tm_tclient_lock := True\<rparr>, Inl e)
              | Inr x \<Rightarrow>
                  Some (tclient_put k (tm_next_ref tm)
                          (tm\<lparr>tm_ctxs := (tm_ctxs tm)(tm_next_ref tm \<mapsto> x),
                              tm_next_ref := tm_next_ref tm + 1\<rparr>),
                        Inr (tm_next_ref tm)))))"

definition BeginClientTransaction :: "ref \<Rightarrow> sip_tm \<Rightarrow> sip_tm" where
  "BeginClientTransaction r tm =
     (case tm_ctxs tm r of
        Some x \<Rightarrow> (let x1 = client_StartTimers x in
                   client_TransmitData x1 (tm\<lparr>tm_ctxs := (tm_ctxs tm)(r \<mapsto> x1)\<rparr>))
      | None \<Rightarrow> tm)"

definition BeginNewClientTransaction ::
  "sippy_config \<Rightarrow> transport option \<Rightarrow> ref option \<Rightarrow> sip_request \<Rightarrow> sip_tm \<Rightarrow> sip_tm option" where
  "BeginNewClientTransaction cfg userv receiver rq tm =
     (case CreateClientTransaction cfg userv receiver [] rq tm of
        None \<Rightarrow> None
      | Some (tm1, Inl e) \<Rightarrow> Some tm1
      | Some (tm1, Inr r) \<Rightarrow> Some (BeginClientTransaction r tm1))"

section \<open>Responses\<close>

type_synonym response_receiver =
  "sip_response option \<Rightarrow> client_transaction \<Rightarrow> sip_tm \<Rightarrow> client_transaction \<times> sip_tm"

definition notify_receiver ::
  "response_receiver \<Rightarrow> sip_response option \<Rightarrow> client_transaction \<Rightarrow> sip_tm \<Rightarrow>
   client_transaction \<times> sip_tm" where
  "notify_receiver rcv rs x tm =
     (case ct_resp_receiver x of
        Some u \<Rightarrow> rcv rs x (upcall (U_response u rs (tx_ref x)) tm)
      | None \<Rightarrow> (x, tm))"

definition set_call_id_of :: "client_transaction \<Rightarrow> string \<Rightarrow> sip_tm \<Rightarrow> sip_tm option" where
  "set_call_id_of x checksum tm =
     (case tx_tid x of Some k \<Rightarrow> Some (rcache_set_call_id checksum (tid_CallId k) tm) | None \<Rightarrow> None)"

definition process_provisional_response ::
  "sippy_config \<Rightarrow> response_receiver \<Rightarrow> string \<Rightarrow> sip_response \<Rightarrow> client_transaction \<Rightarrow> sip_tm \<Rightarrow>
   (client_transaction \<times> sip_tm) option" where
  "process_provisional_response cfg rcv checksum rs x tm =
     (case (if tx_state x = TRYING then
              (if ct_cancelPending x then
                 (case ct_cancel x of
                    None \<Rightarrow> Some (x\<lparr>tx_state := RINGING\<rparr>, tm, False)
                  | Some c \<Rightarrow> map_option (\<lambda>t. (x\<lparr>tx_state := RINGING, ct_cancelPending := False\<rparr>, t, True))
                               (BeginNewClientTransaction cfg (tx_userv x) None c tm))
               else Some (x\<lparr>tx_state := RINGING\<rparr>, tm, True))
            else Some (x, tm, True)) of
        None \<Rightarrow> None
      | Some (x1, tm1, False) \<Rightarrow> Some (x1, tm1)
      | Some (x1, tm1, True) \<Rightarrow>
          (let x2 = startTeB (ct_expires x1) x1 in
           case set_call_id_of x2 checksum tm1 of
             None \<Rightarrow> Some (x2, tm1)
           | Some tm2 \<Rightarrow> Some (notify_receiver rcv (Some rs) x2 tm2)))"

text \<open>
  The ACK of a final response. First the To tag; for 2xx then the route: the
  reversed Record-Route set behind the outbound proxy, with the strict-router
  shuffle of RFC 2543, unless the user agent gave the route itself; then a fresh branch.
  Each stage returns the ACK as changed so far, and None when the code stops there.
\<close>

definition ack_to_tag :: "sip_response \<Rightarrow> sip_request \<Rightarrow> sip_request option" where
  "ack_to_tag rs ack =
     (case m_to rs of
        Some (Inr t) \<Rightarrow>
          (if GetTag t \<noteq> [] then
             (case m_to ack of Some (Inr a) \<Rightarrow> Some (set_To (Inr (SetTag (GetTag t) a)) ack) | _ \<Rightarrow> None)
           else Some ack)
      | _ \<Rightarrow> None)"

definition response_route_set :: "sip_response \<Rightarrow> client_transaction \<Rightarrow> address_hf list" where
  "response_route_set rs x =
     (case ct_outbound_proxy x of
        Some hp \<Rightarrow> [Inr (NewSipAddress [] (NewSipURL [] (hp_Host hp) (Some (hp_Port hp)) True))]
      | None \<Rightarrow> []) @ rev (m_record_routes rs)"

definition ack_route ::
  "sippy_config \<Rightarrow> address_hf list \<Rightarrow> sip_url option \<Rightarrow>
   (address_hf list \<times> sip_url option \<times> host_port option) option" where
  "ack_route cfg rts target =
     (case rts of
        [] \<Rightarrow> Some ([], target, map_option (url_GetAddr cfg) target)
      | Inl e # _ \<Rightarrow> None
      | Inr r0 # rest \<Rightarrow>
          (if url_Lr (adr_url r0)
           then Some (rts, target, Some (url_GetAddr cfg (adr_url r0)))
           else Some (rest @ (case target of Some t \<Rightarrow> [Inr (NewSipAddress [] t)] | None \<Rightarrow> []),
                      Some (adr_url r0), Some (url_GetAddr cfg (adr_url r0)))))"

definition response_target :: "sip_response \<Rightarrow> sip_url option option" where
  "response_target rs =
     (case m_contacts rs of
        [] \<Rightarrow> Some None
      | c # _ \<Rightarrow> (case ct_address c of Inr a \<Rightarrow> Some (Some (adr_url a)) | Inl e \<Rightarrow> None))"

definition ack_for_2xx ::
  "sippy_config \<Rightarrow> string \<Rightarrow> sip_response \<Rightarrow> client_transaction \<Rightarrow> sip_request \<Rightarrow>
   sip_request \<times> host_port option option" where
  "ack_for_2xx cfg rnd rs x ack =
     (case response_target rs of
        None \<Rightarrow> (ack, None)
      | Some target \<Rightarrow>
          (case (if ct_ack_rparams_present x then Some (ct_ack_routes x, None, ct_ack_rAddr x)
                 else ack_route cfg (response_route_set rs x) target) of
             None \<Rightarrow> (ack, None)
           | Some (rts, ruri, addr) \<Rightarrow>
               (let a1 = (case ruri of Some u \<Rightarrow> ack\<lparr>rq_ruri := u\<rparr> | None \<Rightarrow> ack);
                    a2 = (appendHeaders (ct_txn_headers x) a1)\<lparr>m_routes := rts\<rparr>
                in case m_vias a2 of
                     Inr v # vs \<Rightarrow> (a2\<lparr>m_vias := Inr (GenBranch rnd v) # vs\<rparr>, Some addr)
                   | _ \<Rightarrow> (a2, None))))"

definition build_ack ::
  "sippy_config \<Rightarrow> string \<Rightarrow> sip_response \<Rightarrow> client_transaction \<Rightarrow> sip_request \<Rightarrow>
   sip_request \<times> host_port option option" where
  "build_ack cfg rnd rs x ack =
     (case ack_to_tag rs ack of
        None \<Rightarrow> (ack, None)
      | Some a \<Rightarrow> if 200 \<le> rs_scode rs \<and> rs_scode rs < 300 then ack_for_2xx cfg rnd rs x a
                  else (a, Some None))"

definition retire :: "client_transaction \<Rightarrow> sip_tm \<Rightarrow> client_transaction \<times> sip_tm" where
  "retire x tm =
     (client_cleanup x, case tx_tid x of Some k \<Rightarrow> tclient_del k tm | None \<Rightarrow> tm)"

text \<open>
  The second half of the final response's handler, after the receiver ran. A transaction
  the receiver detached is not touched any more.
\<close>

definition acknowledge_final ::
  "sippy_config \<Rightarrow> string \<Rightarrow> string \<Rightarrow> sip_response \<Rightarrow> client_transaction \<Rightarrow> sip_tm \<Rightarrow>
   client_transaction \<times> sip_tm" where
  "acknowledge_final cfg rnd checksum rs x tm =
     (case (ct_ack x, tx_userv x, tx_tid x) of
        (Some ack, Some uv, Some k) \<Rightarrow>
          (case build_ack cfg rnd rs x ack of
             (a, None) \<Rightarrow> (x\<lparr>ct_ack := Some a\<rparr>, tm)
           | (a, Some raddr) \<Rightarrow>
               (case (case raddr of Some h \<Rightarrow> Some h | None \<Rightarrow> tx_address x) of
                  None \<Rightarrow> (x\<lparr>ct_ack := Some a\<rparr>, tm)
                | Some addr \<Rightarrow>
                    if \<not> ct_uack x
                    then retire (x\<lparr>ct_ack := Some a\<rparr>)
                           (transmit_request uv a addr checksum (tid_CallId k) tm)
                    else (x\<lparr>ct_ack := Some a, tx_state := UACK, ct_ack_rAddr := Some addr,
                            ct_ack_checksum := checksum, ct_teG := Some (64 * second)\<rparr>,
                          rcache_set_call_id checksum (tid_CallId k) tm)))
      | _ \<Rightarrow> (x, tm))"

definition process_final_response ::
  "sippy_config \<Rightarrow> response_receiver \<Rightarrow> string \<Rightarrow> string \<Rightarrow> sip_response \<Rightarrow> client_transaction \<Rightarrow>
   sip_tm \<Rightarrow> client_transaction \<times> sip_tm" where
  "process_final_response cfg rcv rnd checksum rs x tm =
     (case notify_receiver rcv (Some rs) x tm of
        (x1, tm1) \<Rightarrow>
          if tx_needack x1 then acknowledge_final cfg rnd checksum rs x1 tm1
          else (case set_call_id_of x1 checksum tm1 of
                  None \<Rightarrow> (x1, tm1) | Some tm2 \<Rightarrow> retire x1 tm2))"

definition response_in_states ::
  "sippy_config \<Rightarrow> response_receiver \<Rightarrow> string \<Rightarrow> string \<Rightarrow> sip_response \<Rightarrow> client_transaction \<Rightarrow>
   sip_tm \<Rightarrow> (client_transaction \<times> sip_tm) option" where
  "response_in_states cfg rcv rnd checksum rs x tm =
     (let x1 = cancelTeB (if tx_state x = TRYING then cancelTeA x else x) in
      if rs_scode rs < 200 then process_provisional_response cfg rcv checksum rs x1 tm
      else Some (process_final_response cfg rcv rnd checksum rs x1 tm))"

definition IncomingResponse ::
  "sippy_config \<Rightarrow> response_receiver \<Rightarrow> string \<Rightarrow> sip_response \<Rightarrow> string \<Rightarrow> client_transaction \<Rightarrow>
   sip_tm \<Rightarrow> (client_transaction \<times> sip_tm) option" where
  "IncomingResponse cfg rcv rnd rs checksum x tm =
     (if \<not> tx_alive x \<or> tx_state x = TERMINATED then Some (x, tm)
      else if 100 < rs_scode rs \<and> rs_scode rs < 200 \<and> m_rseq rs \<noteq> None then
        (case response_GetRTId rs of
           (rs1, Inl e) \<Rightarrow> Some (x, tm)
         | (rs1, Inr rk) \<Rightarrow>
             if rk \<in> set (ct_seen_rseqs x) then Some (x, rcache_put checksum (empty_entry []) tm)
             else response_in_states cfg rcv rnd checksum rs1
                    (x\<lparr>ct_seen_rseqs := rk # ct_seen_rseqs x\<rparr>) tm)
      else response_in_states cfg rcv rnd checksum rs x tm)"

section \<open>Expiry and requests of the user agent\<close>

definition timerB ::
  "response_receiver \<Rightarrow> monotime \<Rightarrow> client_transaction \<Rightarrow> sip_tm \<Rightarrow> client_transaction \<times> sip_tm" where
  "timerB rcv now x tm =
     (if \<not> tx_alive x then (x, tm)
      else
        let x1 = startTeC ((cancelTeB (cancelTeA x))\<lparr>tx_state := TERMINATED\<rparr>);
            x2 = x1\<lparr>ct_r408 := map_option (\<lambda>r. r\<lparr>m_rtime := Some now\<rparr>) (ct_r408 x1)\<rparr>
        in notify_receiver rcv (ct_r408 x2) x2 tm)"

definition timerC :: "client_transaction \<Rightarrow> sip_tm \<Rightarrow> client_transaction \<times> sip_tm" where
  "timerC x tm = (if tx_alive x then retire x tm else (x, tm))"

definition timerG :: "client_transaction \<Rightarrow> sip_tm \<Rightarrow> client_transaction \<times> sip_tm" where
  "timerG x tm = (if tx_alive x then (x\<lparr>ct_teG := None\<rparr>, tm) else (x, tm))"

definition Cancel ::
  "sippy_config \<Rightarrow> sip_header list \<Rightarrow> client_transaction \<Rightarrow> sip_tm \<Rightarrow>
   (client_transaction \<times> sip_tm) option" where
  "Cancel cfg extra_headers x tm =
     (if \<not> tx_alive x then Some (x, tm)
      else if tx_state x \<noteq> RINGING then Some (x\<lparr>ct_cancelPending := True\<rparr>, tm)
      else (case ct_cancel x of
              None \<Rightarrow> Some (x, tm)
            | Some c \<Rightarrow>
                (let c1 = appendHeaders (extra_headers @ ct_txn_headers x) c
                 in map_option (\<lambda>t. (x\<lparr>ct_cancel := Some c1\<rparr>, t))
                      (BeginNewClientTransaction cfg (tx_userv x) None c1 tm))))"

definition SendACK :: "client_transaction \<Rightarrow> sip_tm \<Rightarrow> client_transaction \<times> sip_tm" where
  "SendACK x tm =
     (if tx_alive x then
        (case (tx_userv x, ct_ack x, ct_ack_rAddr x, tx_tid x) of
           (Some uv, Some a, Some addr, Some k) \<Rightarrow>
             retire x (transmit_request uv a addr (ct_ack_checksum x) (tid_CallId k) tm)
         | _ \<Rightarrow> (x\<lparr>ct_teG := None\<rparr>, tm))
      else (client_cleanup x, tm))"

definition SetOutboundProxy :: "host_port option \<Rightarrow> client_transaction \<Rightarrow> client_transaction" where
  "SetOutboundProxy p x = x\<lparr>ct_outbound_proxy := p\<rparr>"

definition SetUAck :: "bool \<Rightarrow> client_transaction \<Rightarrow> client_transaction" where
  "SetUAck b x = x\<lparr>ct_uack := b\<rparr>"

definition SetAckRparams ::
  "host_port option \<Rightarrow> sip_url option \<Rightarrow> address_hf list \<Rightarrow> client_transaction \<Rightarrow> client_transaction" where
  "SetAckRparams a t rs x =
     x\<lparr>ct_ack_rparams_present := True, ct_ack_rAddr := a, ct_ack_rTarget := t, ct_ack_routes := rs\<rparr>"

definition SetTxnHeaders :: "sip_header list \<Rightarrow> client_transaction \<Rightarrow> client_transaction" where
  "SetTxnHeaders hs x = x\<lparr>ct_txn_headers := hs\<rparr>"

definition CheckRSeq :: "numeric_hf \<Rightarrow> client_transaction \<Rightarrow> bool \<times> client_transaction" where
  "CheckRSeq rseq x =
     (if ct_last_rseq x \<noteq> 0 \<and> ct_last_rseq x + 1 \<noteq> Number rseq then (False, x)
      else (True, x\<lparr>ct_last_rseq := Number rseq\<rparr>))"

section \<open>Timers and clean-up\<close>

lemmas client_timer_defs [tx_simps] = startTeB_def cancelTeB_def startTeC_def startTeA_def cancelTeA_def

definition client_timers_active :: "client_transaction \<Rightarrow> bool" where
  "client_timers_active x \<longleftrightarrow>
     tx_teA x \<noteq> None \<or> ct_teB x \<noteq> None \<or> ct_teC x \<noteq> None \<or> ct_teG x \<noteq> None"

lemma client_cleanup_simps [tx_simps]:
  "tx_alive (client_cleanup x) = False" "tx_tid (client_cleanup x) = None"
  "tx_state (client_cleanup x) = tx_state x" "ct_resp_receiver (client_cleanup x) = None"
  "ct_ack (client_cleanup x) = None" "ct_cancel (client_cleanup x) = None"
  "tx_teA (client_cleanup x) = None" "ct_teB (client_cleanup x) = None"
  "ct_teC (client_cleanup x) = None" "ct_teG (client_cleanup x) = None"
  by (simp_all add: client_cleanup_def base_cleanup_def)

definition client_ops ::
  "(client_transaction \<Rightarrow> sip_tm \<Rightarrow> client_transaction \<times> sip_tm) set" where
  "client_ops =
     {timerA, timerC, timerG} \<union> {timerB rcv now | rcv now. True}
     \<union> {\<lambda>x tm. case IncomingResponse cfg rcv rnd rs cs x tm of Some z \<Rightarrow> z | None \<Rightarrow> (x, tm)
        | cfg rcv rnd rs cs. True}
     \<union> {\<lambda>x tm. case Cancel cfg eh x tm of Some z \<Rightarrow> z | None \<Rightarrow> (x, tm) | cfg eh. True}"

interpretation client_life: life_cycle tx_alive client_timers_active client_cleanup client_ops
proof
  show "\<not> tx_alive (client_cleanup x)" for x by (simp add: tx_simps)
  show "\<not> client_timers_active (client_cleanup x)" for x
    by (simp add: client_timers_active_def tx_simps)
  show "f x s = (x, s)" if "f \<in> client_ops" "\<not> tx_alive x" for f x s
    using that
    by (auto simp: client_ops_def timerA_def timerB_def timerC_def timerG_def
        IncomingResponse_def Cancel_def)
qed

section \<open>Creation\<close>

text \<open>Every entry of the client table points to an object that was created, and no two to the same.\<close>

definition tclient_ok :: "sip_tm \<Rightarrow> bool" where
  "tclient_ok tm \<longleftrightarrow> (\<forall>k r. tm_tclient tm k = Some r \<longrightarrow> r < tm_next_ref tm)
     \<and> inj_on (tm_tclient tm) (dom (tm_tclient tm))"

lemma tclient_ok_put:
  assumes "tclient_ok tm" "tm_tclient tm k = None"
  shows "tclient_ok (tclient_put k (tm_next_ref tm) (tm\<lparr>tm_ctxs := c, tm_next_ref := tm_next_ref tm + 1\<rparr>))"
  using assms unfolding tclient_ok_def tclient_put_def
  by (auto simp: inj_on_def dom_def less_Suc_eq split: if_splits) fastforce+

lemma NewClientTransactionObj_ex:
  assumes "wf_request rq" "m_target rq \<noteq> None"
  shows "\<exists>x. NewClientTransactionObj r cfg rq k uv receiver eh = Inr x"
  using assms GenResponse_ex [OF assms(1)] GenACK_ex [OF assms(1)] GenCANCEL_ex [OF assms]
  by (auto simp: NewClientTransactionObj_def bind_result_def split: option.splits sum.splits)
     (metis Inl_Inr_False)+

lemma NewClientTransactionObj_fields:
  assumes "NewClientTransactionObj r cfg rq k uv receiver eh = Inr x"
  shows "tx_ref x = r" "tx_alive x" "tx_tid x = Some k" "tx_state x = TRYING" "tx_userv x = Some uv"
    "tx_data x = Some (P_req rq (uv_laddress uv))" "tx_address x = m_target rq"
    "tx_tout x = half_second" "tx_needack x = (rq_method rq = ''INVITE'')"
    "ct_cancelPending x = False" "ct_last_rseq x = 0" "ct_resp_receiver x = receiver"
    "rq_method rq = ''INVITE'' \<Longrightarrow> ct_cancel x \<noteq> None \<and> ct_ack x \<noteq> None"
  using assms by (auto simp: NewClientTransactionObj_def bind_result_Inr_iff split: if_splits)

text \<open>
  Creating a client transaction for a well-formed request never replaces one: with the table lock free it
  either refuses a key in use and changes nothing, or adds exactly the entry for the new key and
  a new object in state TRYING with that key; the table stays injective and the lock free.
\<close>

theorem client_transaction_keys_unique:
  assumes "tclient_ok tm" "\<not> tm_tclient_lock tm" "wf_request rq" "m_target rq \<noteq> None"
    and "GetTId True True False rq = Inr k"
    and "CreateClientTransaction cfg (Some uv) receiver eh rq tm = Some (tm', res)"
  shows "tclient_ok tm' \<and> \<not> tm_tclient_lock tm' \<and>
    (case res of
       Inl e \<Rightarrow> tm' = tm \<and> tm_tclient tm k \<noteq> None
     | Inr r \<Rightarrow> tm_tclient tm k = None \<and> tm_tclient tm' = (tm_tclient tm)(k \<mapsto> r)
         \<and> r \<notin> ran (tm_tclient tm)
         \<and> (\<exists>x. tm_ctxs tm' r = Some x \<and> tx_tid x = Some k \<and> tx_state x = TRYING \<and> tx_alive x))"
proof -
  obtain x where x: "NewClientTransactionObj (tm_next_ref tm) cfg rq k uv receiver eh = Inr x"
    using NewClientTransactionObj_ex [OF assms(3,4)] by blast
  note f = NewClientTransactionObj_fields [OF x]
  show ?thesis
  proof (cases "tm_tclient tm k")
    case None
    then have tm': "tm' = tclient_put k (tm_next_ref tm)
        (tm\<lparr>tm_ctxs := (tm_ctxs tm)(tm_next_ref tm \<mapsto> x), tm_next_ref := tm_next_ref tm + 1\<rparr>)"
      and res: "res = Inr (tm_next_ref tm)"
      using assms(2,5,6) x by (auto simp: CreateClientTransaction_def)
    show ?thesis using assms(1,2) f(2,3,4) None tclient_ok_put [OF assms(1) None]
      unfolding tm' res by (auto simp: tclient_put_def tclient_ok_def ran_def)
  next
    case (Some r)
    then show ?thesis using assms by (auto simp: CreateClientTransaction_def)
  qed
qed

lemma BeginNew_sends:
  assumes "\<not> tm_tclient_lock tm" "wf_request rq" "m_target rq = Some addr"
    and "GetTId True True False rq = Inr k" "tm_tclient tm k = None"
  obtains tm' where "BeginNewClientTransaction cfg (Some uv) receiver rq tm = Some tm'"
    "tm_sent tm' = tm_sent tm @ [\<lparr>sn_userv = uv, sn_data = P_req rq (uv_laddress uv), sn_address = addr\<rparr>]"
    "tm_tclient tm' = (tm_tclient tm)(k \<mapsto> tm_next_ref tm)" "tm_upcalls tm' = tm_upcalls tm"
proof -
  obtain x where x: "NewClientTransactionObj (tm_next_ref tm) cfg rq k uv receiver [] = Inr x"
    using NewClientTransactionObj_ex [OF assms(2)] assms(3) by fastforce
  note f = NewClientTransactionObj_fields [OF x]
  have b: "BeginNewClientTransaction cfg (Some uv) receiver rq tm =
     Some (BeginClientTransaction (tm_next_ref tm) (tclient_put k (tm_next_ref tm)
        (tm\<lparr>tm_ctxs := (tm_ctxs tm)(tm_next_ref tm \<mapsto> x), tm_next_ref := tm_next_ref tm + 1\<rparr>)))"
    using assms x by (simp add: BeginNewClientTransaction_def CreateClientTransaction_def)
  show thesis
    by (rule that [OF b])
       (use f assms(3) in \<open>simp_all add: BeginClientTransaction_def Let_def client_TransmitData_def
          client_StartTimers_def tx_simps tclient_put_def tm_simps\<close>)
qed

section \<open>Cancellation\<close>

lemma notify_receiver_keeps:
  assumes "\<And>r y t. tx_state (fst (rcv r y t)) = tx_state y \<and> ct_cancelPending (fst (rcv r y t)) = ct_cancelPending y
      \<and> tx_alive (fst (rcv r y t)) = tx_alive y \<and> tm_sent (snd (rcv r y t)) = tm_sent t"
  shows "tx_state (fst (notify_receiver rcv r x tm)) = tx_state x"
    "ct_cancelPending (fst (notify_receiver rcv r x tm)) = ct_cancelPending x"
    "tx_alive (fst (notify_receiver rcv r x tm)) = tx_alive x"
    "tm_sent (snd (notify_receiver rcv r x tm)) = tm_sent tm"
  using assms by (auto simp: notify_receiver_def tm_simps split: option.splits)

definition provisional_tail ::
  "response_receiver \<Rightarrow> string \<Rightarrow> sip_response \<Rightarrow> client_transaction \<Rightarrow> sip_tm \<Rightarrow>
   client_transaction \<times> sip_tm" where
  "provisional_tail rcv checksum rs x tm =
     (let x2 = startTeB (ct_expires x) x in
      case set_call_id_of x2 checksum tm of
        None \<Rightarrow> (x2, tm) | Some tm2 \<Rightarrow> notify_receiver rcv (Some rs) x2 tm2)"

lemma process_provisional_response_cases:
  "tx_state x \<noteq> TRYING \<Longrightarrow>
     process_provisional_response cfg rcv cs rs x tm = Some (provisional_tail rcv cs rs x tm)"
  "tx_state x = TRYING \<Longrightarrow> \<not> ct_cancelPending x \<Longrightarrow>
     process_provisional_response cfg rcv cs rs x tm =
       Some (provisional_tail rcv cs rs (x\<lparr>tx_state := RINGING\<rparr>) tm)"
  "tx_state x = TRYING \<Longrightarrow> ct_cancelPending x \<Longrightarrow> ct_cancel x = Some c \<Longrightarrow>
     BeginNewClientTransaction cfg (tx_userv x) None c tm = Some t \<Longrightarrow>
     process_provisional_response cfg rcv cs rs x tm =
       Some (provisional_tail rcv cs rs (x\<lparr>tx_state := RINGING, ct_cancelPending := False\<rparr>) t)"
  by (simp_all add: process_provisional_response_def provisional_tail_def Let_def split: option.splits)

lemma provisional_tail_keeps:
  assumes "\<And>r y t. tx_state (fst (rcv r y t)) = tx_state y \<and> ct_cancelPending (fst (rcv r y t)) = ct_cancelPending y
      \<and> tx_alive (fst (rcv r y t)) = tx_alive y \<and> tm_sent (snd (rcv r y t)) = tm_sent t"
  shows "tx_state (fst (provisional_tail rcv cs rs x tm)) = tx_state x"
    "ct_cancelPending (fst (provisional_tail rcv cs rs x tm)) = ct_cancelPending x"
    "tx_alive (fst (provisional_tail rcv cs rs x tm)) = tx_alive x"
    "tm_sent (snd (provisional_tail rcv cs rs x tm)) = tm_sent tm"
  by (simp_all add: provisional_tail_def Let_def set_call_id_of_def notify_receiver_keeps [OF assms]
      tx_simps tm_simps split: option.splits)

lemma IncomingResponse_plain_provisional:
  assumes "tx_alive x" "tx_state x \<noteq> TERMINATED" "rs_scode rs < 200" "m_rseq rs = None"
  shows "IncomingResponse cfg rcv rnd rs cs x tm =
    process_provisional_response cfg rcv cs rs (cancelTeB (if tx_state x = TRYING then cancelTeA x else x)) tm"
  using assms by (simp add: IncomingResponse_def response_in_states_def Let_def)

text \<open>
  A CANCEL requested before any response is not sent but remembered; the first provisional response sends it,
  in a client transaction of its own, and no later provisional response sends it again. The
  extra headers given with the request are not part of it.
\<close>

theorem deferred_cancel_sent_once:
  assumes x: "tx_alive x" "tx_state x = TRYING" "tx_userv x = Some uv" "ct_cancel x = Some c"
    and c: "wf_request c" "m_target c = Some addr" "GetTId True True False c = Inr kc"
    and tm: "\<not> tm_tclient_lock tm" "tm_tclient tm kc = None"
    and rcv: "\<And>r y t. tx_state (fst (rcv r y t)) = tx_state y \<and> ct_cancelPending (fst (rcv r y t)) = ct_cancelPending y
      \<and> tx_alive (fst (rcv r y t)) = tx_alive y \<and> tm_sent (snd (rcv r y t)) = tm_sent t"
    and p: "rs_scode p1 < 200" "m_rseq p1 = None" "rs_scode p2 < 200" "m_rseq p2 = None"
    and run: "Cancel cfg eh x tm = Some (x1, tm1)"
      "IncomingResponse cfg rcv rnd p1 cs1 x1 tm1 = Some (x2, tm2)"
      "IncomingResponse cfg rcv rnd p2 cs2 x2 tm2 = Some (x3, tm3)"
  shows "tm1 = tm \<and> ct_cancelPending x1
    \<and> tm_sent tm2 = tm_sent tm @ [\<lparr>sn_userv = uv, sn_data = P_req c (uv_laddress uv), sn_address = addr\<rparr>]
    \<and> tx_state x2 = RINGING \<and> \<not> ct_cancelPending x2
    \<and> tm_sent tm3 = tm_sent tm2"
proof -
  note keep = provisional_tail_keeps [of rcv, OF rcv]
  have 1: "x1 = x\<lparr>ct_cancelPending := True\<rparr>" "tm1 = tm"
    using run(1) x by (auto simp: Cancel_def)
  obtain t where t: "BeginNewClientTransaction cfg (Some uv) None c tm = Some t"
      "tm_sent t = tm_sent tm @ [\<lparr>sn_userv = uv, sn_data = P_req c (uv_laddress uv), sn_address = addr\<rparr>]"
    using BeginNew_sends [OF tm(1) c tm(2)] by metis
  let ?y = "cancelTeB (cancelTeA x1)"
  have "IncomingResponse cfg rcv rnd p1 cs1 x1 tm1 =
      Some (provisional_tail rcv cs1 p1 (?y\<lparr>tx_state := RINGING, ct_cancelPending := False\<rparr>) t)"
    using x p(1,2) t(1) process_provisional_response_cases(3) [of ?y c cfg tm t rcv cs1 p1]
    by (simp add: 1 IncomingResponse_plain_provisional tx_simps)
  with run(2) have "(x2, tm2) = provisional_tail rcv cs1 p1 (?y\<lparr>tx_state := RINGING, ct_cancelPending := False\<rparr>) t"
    by simp
  with keep [of cs1 p1 "?y\<lparr>tx_state := RINGING, ct_cancelPending := False\<rparr>" t] x
  have 2: "tx_state x2 = RINGING \<and> \<not> ct_cancelPending x2 \<and> tx_alive x2 \<and> tm_sent tm2 = tm_sent t"
    by (auto simp: 1 tx_simps dest: sym)
  have "(x3, tm3) = provisional_tail rcv cs2 p2 (cancelTeB x2) tm2"
    using run(3) 2 p(3,4)
    by (simp add: IncomingResponse_plain_provisional process_provisional_response_cases tx_simps)
  with keep(4) [of cs2 p2 "cancelTeB x2" tm2] have "tm_sent tm3 = tm_sent tm2"
    by (metis snd_conv)
  with 1 2 t show ?thesis by simp
qed

section \<open>Acknowledgement\<close>

lemma ack_to_tag_Some:
  assumes "m_to rs = Some (Inr t)" "GetTag t \<noteq> []" "m_to ack = Some (Inr ta)"
  shows "ack_to_tag rs ack = Some (set_To (Inr (SetTag (GetTag t) ta)) ack)"
  using assms by (simp add: ack_to_tag_def)

text \<open>
  The ACK of a 2xx response whose dialog has a route set: it carries the response's
  To tag and a branch of its own, and goes to the first route. With a loose first route the whole
  set, outermost proxy first, is kept and the request URI is the peer's contact; with a strict
  first route that route becomes the request URI and the contact moves to the end of the set.
\<close>

theorem ack_2xx_follows_route_set:
  assumes rs: "200 \<le> rs_scode rs" "rs_scode rs < 300" "m_to rs = Some (Inr t)" "GetTag t \<noteq> []"
      "m_contacts rs = c # cs" "ct_address c = Inr ca"
    and ack: "m_to ack = Some (Inr ta)" "m_vias ack = Inr v # vs"
    and x: "\<not> ct_ack_rparams_present x" "ct_txn_headers x = []" "response_route_set rs x = Inr r0 # rest"
  shows "\<exists>a. build_ack cfg rnd rs x ack = (a, Some (Some (url_GetAddr cfg (adr_url r0))))
    \<and> m_to a = Some (Inr (SetTag (GetTag t) ta)) \<and> m_vias a = Inr (GenBranch rnd v) # vs
    \<and> (if url_Lr (adr_url r0) then m_routes a = Inr r0 # rest \<and> rq_ruri a = adr_url ca
        else m_routes a = rest @ [Inr (NewSipAddress [] (adr_url ca))] \<and> rq_ruri a = adr_url r0)"
  using assms
  by (simp add: build_ack_def ack_to_tag_Some ack_for_2xx_def response_target_def ack_route_def
      msg_simps set_To_def Let_def)

text \<open>
  When the user agent asks for a delayed ACK the transaction outlives its 2xx response: nothing is sent, it
  stays in the table in state UACK with its guard timer running; when the user agent releases the ACK
  it is sent once, as built for the response and to the address chosen then, and
  the transaction is gone for good.
\<close>

theorem delayed_ack_keeps_transaction:
  assumes x: "tx_alive x" "tx_state x \<noteq> TERMINATED" "200 \<le> rs_scode rs"
    and rcv: "notify_receiver rcv (Some rs) (cancelTeB (if tx_state x = TRYING then cancelTeA x else x)) tm = (x1, tm1)"
    and x1: "tx_needack x1" "ct_uack x1" "tx_alive x1" "tx_tid x1 = Some k" "tx_userv x1 = Some uv" "ct_ack x1 = Some ack"
      "tm_tclient tm1 k = Some (tx_ref x1)"
    and b: "build_ack cfg rnd rs x1 ack = (a, Some (Some addr))"
    and run: "IncomingResponse cfg rcv rnd rs cs x tm = Some (x2, tm2)" "SendACK x2 tm2 = (x3, tm3)"
    and ops: "set fs \<subseteq> client_ops"
  shows "tx_state x2 = UACK \<and> ct_teG x2 = Some (64 * second) \<and> tm_sent tm2 = tm_sent tm1
    \<and> tm_tclient tm2 k = Some (tx_ref x1)
    \<and> tm_sent tm3 = tm_sent tm1 @ [\<lparr>sn_userv = uv, sn_data = P_req a (uv_laddress uv), sn_address = addr\<rparr>]
    \<and> tm_tclient tm3 k = None \<and> \<not> client_timers_active x3 \<and> run_ops fs (x3, tm3) = (x3, tm3)"
proof -
  have "IncomingResponse cfg rcv rnd rs cs x tm = Some (acknowledge_final cfg rnd cs rs x1 tm1)"
    using x rcv x1(1) by (simp add: IncomingResponse_def response_in_states_def process_final_response_def)
  then have 2: "x2 = x1\<lparr>ct_ack := Some a, tx_state := UACK, ct_ack_rAddr := Some addr,
                  ct_ack_checksum := cs, ct_teG := Some (64 * second)\<rparr>"
      "tm2 = rcache_set_call_id cs (tid_CallId k) tm1"
    using run(1) x1 b by (simp_all add: acknowledge_final_def)
  have 3: "x3 = client_cleanup x2"
      "tm3 = tclient_del k (transmit_request uv a addr cs (tid_CallId k) tm2)"
    using run(2) x1 by (simp_all add: SendACK_def 2(1) retire_def)
  show ?thesis
    using x1 client_life.clean_timers client_life.cleaned_run [OF ops]
    by (simp add: 2 3 tm_simps transmit_request_def tclient.del_then_look)
qed

section \<open>Provisional responses and timeouts\<close>

text \<open>
  A reliable provisional response reaches the user agent once: after it was
  processed, a copy with the same RSeq only renews its entry of the retransmission cache.
\<close>

theorem repeated_reliable_provisional_absorbed:
  assumes "tx_alive x" "tx_state x \<noteq> TERMINATED" "100 < rs_scode rs" "rs_scode rs < 200"
    and "response_GetRTId rs = (rs1, Inr rk)" "rk \<in> set (ct_seen_rseqs x)"
  shows "IncomingResponse cfg rcv rnd rs cs x tm = Some (x, rcache_put cs (empty_entry []) tm)"
proof -
  have "m_rseq rs \<noteq> None" using assms(5) by (auto simp: response_GetRTId_def split: option.splits)
  then show ?thesis using assms by (simp add: IncomingResponse_def)
qed

text \<open>The RSeq numbers a transaction accepts, in the order it was asked.\<close>

fun accepted_rseqs :: "numeric_hf list \<Rightarrow> client_transaction \<Rightarrow> int list" where
  "accepted_rseqs [] x = []"
| "accepted_rseqs (h # hs) x =
     (let (ok, x1) = CheckRSeq h x in (if ok then [Number h] else []) @ accepted_rseqs hs x1)"

lemma accepted_rseqs_from:
  assumes "0 < ct_last_rseq x" "\<forall>h \<in> set hs. 0 < Number h"
  shows "accepted_rseqs hs x = [ct_last_rseq x + 1 .. ct_last_rseq x + length (accepted_rseqs hs x)]"
  using assms
proof (induction hs arbitrary: x)
  case Nil
  then show ?case by simp
next
  case (Cons h hs)
  show ?case
  proof (cases "ct_last_rseq x + 1 = Number h")
    case True
    let ?x = "x\<lparr>ct_last_rseq := Number h\<rparr>"
    have "accepted_rseqs hs ?x = [Number h + 1 .. Number h + length (accepted_rseqs hs ?x)]"
      using Cons.IH [of ?x] Cons.prems by simp
    moreover have "[Number h .. Number h + length (accepted_rseqs hs ?x)] =
        Number h # [Number h + 1 .. Number h + length (accepted_rseqs hs ?x)]"
      by (rule upto_rec1) simp
    moreover have "accepted_rseqs (h # hs) x = Number h # accepted_rseqs hs ?x"
      using True by (simp add: CheckRSeq_def)
    moreover have "ct_last_rseq x = Number h - 1" using True by simp
    ultimately show ?thesis by (simp add: add.commute)
  next
    case False
    then show ?thesis using Cons.IH [of x] Cons.prems by (simp add: CheckRSeq_def)
  qed
qed

text \<open>
  Reliable provisional responses are accepted in order: whatever the RSeq numbers
  that arrive (positive, as the standard requires), those a fresh transaction accepts are
  consecutive, starting with the first that arrived.
\<close>

theorem accepted_rseqs_consecutive:
  assumes "ct_last_rseq x = 0" "\<forall>h' \<in> set (h # hs). 0 < Number h'"
  shows "\<exists>n. accepted_rseqs (h # hs) x = [Number h .. Number h + int n]"
proof -
  let ?x = "x\<lparr>ct_last_rseq := Number h\<rparr>"
  have "accepted_rseqs hs ?x = [Number h + 1 .. Number h + length (accepted_rseqs hs ?x)]"
    using accepted_rseqs_from [of ?x hs] assms by simp
  moreover have "[Number h .. Number h + length (accepted_rseqs hs ?x)] =
        Number h # [Number h + 1 .. Number h + length (accepted_rseqs hs ?x)]"
    by (rule upto_rec1) simp
  ultimately have "accepted_rseqs (h # hs) x = [Number h .. Number h + length (accepted_rseqs hs ?x)]"
    using assms by (simp add: CheckRSeq_def)
  then show ?thesis by blast
qed

text \<open>
  Expiry of a client transaction: the receiver gets exactly one answer, the
  stored 408 stamped with the current time; later responses have no effect, and 32
  seconds on the transaction leaves the table.
\<close>

theorem timeout_reported_once:
  assumes "tx_alive x" "tx_tid x = Some k" "ct_resp_receiver x = Some u" "ct_r408 x = Some r"
    and rcv: "\<And>r y t. rcv r y t = (y, t)"
    and "timerB rcv now x tm = (x1, tm1)" "timerC x1 tm1 = (x2, tm2)"
  shows "tm_upcalls tm1 = tm_upcalls tm @ [U_response u (Some (r\<lparr>m_rtime := Some now\<rparr>)) (tx_ref x)]
    \<and> tx_state x1 = TERMINATED \<and> ct_teC x1 = Some (32 * second) \<and> tx_teA x1 = None \<and> ct_teB x1 = None
    \<and> IncomingResponse cfg rcv' rnd rs cs x1 tm1 = Some (x1, tm1)
    \<and> tm_tclient tm2 k = None \<and> \<not> client_timers_active x2 \<and> tm_sent tm2 = tm_sent tm"
proof -
  let ?r = "r\<lparr>m_rtime := Some now\<rparr>"
  have 1: "x1 = (startTeC ((cancelTeB (cancelTeA x))\<lparr>tx_state := TERMINATED\<rparr>))\<lparr>ct_r408 := Some ?r\<rparr>"
      "tm1 = upcall (U_response u (Some ?r) (tx_ref x)) tm"
    using assms by (auto simp: timerB_def Let_def notify_receiver_def tx_simps)
  have 2: "x2 = client_cleanup x1" "tm2 = tclient_del k tm1"
    using assms(1,2,7) by (auto simp: timerC_def retire_def 1(1) tx_simps)
  show ?thesis using client_life.clean_timers
    by (simp add: 2) (simp add: 1 tx_simps tm_simps IncomingResponse_def tclient.del_then_look)
qed

end
