(* ===== verification/Sip_TM.thy ===== *)
theory Sip_TM
  imports Server_Transaction Client_Transaction "HOL-Library.Sublist"
begin

unbundle bit_operations_syntax

text \<open>
  The transaction manager's entry points, \<^verbatim>\<open>sippy/sip_transaction_manager.go\<close>: a datagram
  from the retransmission cache to the transaction it belongs to, new server
  transactions and their hand-over to a user agent, the consumers of a call, and
  responses sent by key. An entry point returns None when it would wait for a mutex
  that is held: the handlers run one at a time, so a mutex found locked was left
  locked. Server transaction objects are read from and written back to the manager.
  The parser's outcome, the digest of a datagram and the answers of the user
  agents are arguments, collected in a record.
\<close>

section \<open>Private and invalid addresses\<close>

definition parse_ip_field :: "string \<Rightarrow> nat option" where
  "parse_ip_field s =
     (if s = [] \<or> (1 < length s \<and> hd s = CHR ''0'') \<or> \<not> list_all is_digit s then None
      else case digits_val 0 s of Some n \<Rightarrow> if n \<le> 255 then Some n else None | None \<Rightarrow> None)"

text \<open>
  \<open>net.ParseIP\<close> followed by \<open>To4\<close>. An address text that holds a colon is bracketed by then
  (\<open>normalize\<close>) and does not parse.
\<close>

definition ParseIPv4 :: "string \<Rightarrow> nat list option" where
  "ParseIPv4 s =
     (case map parse_ip_field (go_split (CHR ''.'') s) of
        [Some a, Some b, Some c, Some d] \<Rightarrow> Some [a, b, c, d] | _ \<Rightarrow> None)"

definition NETS_1918 :: "(nat list \<times> nat list) list" where
  "NETS_1918 = [([10, 0, 0, 0], [255, 0, 0, 0]), ([172, 16, 0, 0], [255, 240, 0, 0]),
                ([192, 168, 0, 0], [255, 255, 0, 0])]"

definition check1918 :: "string \<Rightarrow> bool" where
  "check1918 host =
     (case ParseIPv4 host of
        None \<Rightarrow> False
      | Some ip \<Rightarrow> list_ex (\<lambda>(net, mask). map2 (\<lambda>x y. x AND y) ip mask = net) NETS_1918)"

definition check7118 :: "string \<Rightarrow> bool" where
  "check7118 host = suffix ''.invalid'' host"

section \<open>The environment of the manager\<close>

text \<open>What a user agent returns for a request, \<open>Ua_context\<close>.\<close>

record ua_context =
  uc_response :: "sip_response option"
  uc_cancel_cb :: "ref option"
  uc_noack_cb :: "ref option"

type_synonym request_receiver =
  "sip_request \<Rightarrow> server_transaction \<Rightarrow> sip_tm \<Rightarrow> server_transaction \<times> sip_tm \<times> ua_context option"

record tm_env =
  te_cfg :: sippy_config
  te_now :: monotime
  te_newtag :: string
  te_rnd :: string
  te_md5 :: "string \<Rightarrow> string"
  te_parse_request :: "string \<Rightarrow> sip_request + sip_response option"
  te_parse_response :: "string \<Rightarrow> sip_response option"
  te_getServer :: "host_port \<Rightarrow> transport option"
  te_is_yours :: "ref \<Rightarrow> sip_request \<Rightarrow> bool"
  te_recv_request :: "ref \<Rightarrow> request_receiver"
  te_new_dialog :: "sip_request \<Rightarrow> request_receiver + sip_response option"
  te_prack :: prack_handler
  te_recv_response :: response_receiver

section \<open>Consumers\<close>

definition RegConsumer :: "ref \<Rightarrow> string \<Rightarrow> sip_tm \<Rightarrow> sip_tm" where
  "RegConsumer ua cid tm =
     tm\<lparr>tm_req_consumers := (tm_req_consumers tm)(cid \<mapsto>
          (case tm_req_consumers tm cid of Some cs \<Rightarrow> cs | None \<Rightarrow> []) @ [ua])\<rparr>"

definition UnregConsumer :: "ref \<Rightarrow> string \<Rightarrow> sip_tm \<Rightarrow> sip_tm" where
  "UnregConsumer ua cid tm =
     (let tm1 = upcall (U_unregister ua) tm in
      case tm_req_consumers tm1 cid of
        None \<Rightarrow> tm1
      | Some cs \<Rightarrow>
          tm1\<lparr>tm_req_consumers := (tm_req_consumers tm1)(cid :=
                (if 1 < length cs then Some (remove1 ua cs) else None))\<rparr>)"

section \<open>Server transactions\<close>

definition store_stx :: "ref \<Rightarrow> server_transaction \<times> sip_tm \<Rightarrow> sip_tm" where
  "store_stx r z = (snd z)\<lparr>tm_stxs := (tm_stxs (snd z))(r \<mapsto> fst z)\<rparr>"

text \<open>Transmission of a response that belongs to no transaction; a response without a
  parseable top Via is dropped.\<close>

definition stateless_reply ::
  "tm_env \<Rightarrow> transport \<Rightarrow> string \<Rightarrow> string \<Rightarrow> sip_response result \<Rightarrow> sip_tm \<Rightarrow> sip_tm" where
  "stateless_reply env server checksum cid rs tm =
     (case rs of
        Inl e \<Rightarrow> tm
      | Inr r \<Rightarrow> (case m_vias r of
           Inr via0 # _ \<Rightarrow> transmit_response server r (GetTAddr (te_cfg env) via0) checksum cid tm
         | _ \<Rightarrow> tm))"

definition transaction_userv :: "tm_env \<Rightarrow> transport \<Rightarrow> sip_request \<Rightarrow> transport" where
  "transaction_userv env server rq =
     (if host_string (uv_laddress server) = ''0.0.0.0'' \<or> host_string (uv_laddress server) = ''[::]''
      then (case m_source rq of
              Some src \<Rightarrow> (case te_getServer env src of Some t \<Rightarrow> t | None \<Rightarrow> server)
            | None \<Rightarrow> server)
      else server)"

text \<open>What happens with the user agent's answer: no answer and no timer drops the transaction,
  an answer sets its callbacks and sends the response it holds.\<close>

definition finish_new_transaction ::
  "tm_env \<Rightarrow> tid \<Rightarrow> server_transaction \<times> sip_tm \<times> ua_context option \<Rightarrow> server_transaction \<times> sip_tm" where
  "finish_new_transaction env k z =
     (case z of
        (x, tm, None) \<Rightarrow>
          (if TimersAreActive x then (x, tm) else (server_cleanup x, tserver_del k tm))
      | (x, tm, Some rval) \<Rightarrow>
          (let x1 = SetNoackCB (uc_noack_cb rval) (SetCancelCB (uc_cancel_cb rval) x) in
           case uc_response rval of
             Some rs \<Rightarrow> SendResponse (te_cfg env) (te_newtag env) rs False None x1 tm
           | None \<Rightarrow> (x1, tm)))"

definition new_server_transaction ::
  "tm_env \<Rightarrow> transport \<Rightarrow> sip_request \<Rightarrow> tid \<Rightarrow> string \<Rightarrow> sip_tm \<Rightarrow> sip_tm" where
  "new_server_transaction env server rq k checksum tm =
     (case NewServerTransaction (tm_next_ref tm) rq checksum k (transaction_userv env server rq) of
        Inl e \<Rightarrow> tm\<lparr>tm_tserver_lock := True\<rparr>
      | Inr x0 \<Rightarrow>
          (let r = tm_next_ref tm;
               x = server_StartTimers x0;
               tm1 = tserver_put k r (tm\<lparr>tm_next_ref := r + 1\<rparr>);
               consumers = (case tm_req_consumers tm1 (tid_CallId k) of Some cs \<Rightarrow> cs | None \<Rightarrow> [])
           in store_stx r
               (case find (\<lambda>c. te_is_yours env c rq) consumers of
                  Some ua \<Rightarrow> finish_new_transaction env k (te_recv_request env ua rq x tm1)
                | None \<Rightarrow>
                    if \<not> tm_call_map tm1 then (x, rcache_put checksum (empty_entry []) tm1)
                    else (case te_new_dialog env rq of
                            Inr (Some resp) \<Rightarrow> SendResponse (te_cfg env) (te_newtag env) resp False None x tm1
                          | Inr None \<Rightarrow> finish_new_transaction env k (x, tm1, None)
                          | Inl receiver \<Rightarrow> finish_new_transaction env k (receiver rq x tm1)))))"

text \<open>The key a request is looked up by: an ACK by To tag, a PRACK through the identifier
  of the provisional response it acknowledges, everything else by branch.\<close>

definition request_key :: "sip_request \<Rightarrow> sip_tm \<Rightarrow> tid option" where
  "request_key rq tm =
     (if rq_method rq = ''ACK'' then
        (case GetTId False False True rq of Inr k \<Rightarrow> Some k | Inl e \<Rightarrow> None)
      else if rq_method rq = ''PRACK'' then
        (case request_GetRTId rq of Inr rk \<Rightarrow> tm_rtid2tid tm rk | Inl e \<Rightarrow> None)
      else (case GetTId False True False rq of Inr k \<Rightarrow> Some k | Inl e \<Rightarrow> None))"

definition unmatched_request ::
  "tm_env \<Rightarrow> transport \<Rightarrow> string \<Rightarrow> tid \<Rightarrow> sip_request \<Rightarrow> sip_tm \<Rightarrow> sip_tm" where
  "unmatched_request env server checksum k rq tm =
     (if rq_method rq = ''ACK'' then rcache_set_call_id checksum (tid_CallId k) tm
      else if rq_method rq = ''PRACK'' then
        stateless_reply env server checksum (tid_CallId k) (GenResponse 481 ''Huh?'' None None rq)
          (tm\<lparr>tm_tserver_lock := True\<rparr>)
      else if rq_method rq = ''CANCEL'' then
        stateless_reply env server checksum (tid_CallId k)
          (GenResponse 481 ''Call Leg/Transaction Does Not Exist'' None None rq) tm
      else new_server_transaction env server rq k checksum tm)"

definition tm_incomingRequest ::
  "tm_env \<Rightarrow> sip_request \<Rightarrow> string \<Rightarrow> tid list \<Rightarrow> transport \<Rightarrow> sip_tm \<Rightarrow> sip_tm option" where
  "tm_incomingRequest env rq checksum tids server tm =
     (if tm_tclient_lock tm then None
      else case find (\<lambda>k. tm_tclient tm k \<noteq> None) tids of
        Some k \<Rightarrow> Some (stateless_reply env server checksum (tid_CallId k)
                         (GenResponse 482 ''Loop Detected'' None None rq) tm)
      | None \<Rightarrow>
          (case request_key rq tm of
             None \<Rightarrow> Some tm
           | Some k \<Rightarrow>
               if tm_tserver_lock tm then None
               else (case tm_tserver tm k of
                   Some r \<Rightarrow> Some (case tm_stxs tm r of
                       Some x \<Rightarrow> store_stx r (IncomingRequest (te_prack env) (te_cfg env) (te_newtag env)
                                                (te_now env) rq checksum x tm)
                     | None \<Rightarrow> tm)
                 | None \<Rightarrow> Some (unmatched_request env server checksum k rq tm))))"

definition tm_SendResponseWithLossEmul ::
  "tm_env \<Rightarrow> sip_response \<Rightarrow> ref option \<Rightarrow> int \<Rightarrow> sip_tm \<Rightarrow> sip_tm option" where
  "tm_SendResponseWithLossEmul env rs ack_cb lossemul tm =
     (case GetTId False True False rs of
        Inl e \<Rightarrow> Some tm
      | Inr k \<Rightarrow>
          if tm_tserver_lock tm then None
          else Some (case tm_tserver tm k of
              Some r \<Rightarrow> (case tm_stxs tm r of
                  Some x \<Rightarrow> store_stx r (SendResponseWithLossEmul (te_cfg env) (te_newtag env) rs False
                                          ack_cb lossemul x tm)
                | None \<Rightarrow> tm)
            | None \<Rightarrow> tm))"

section \<open>Datagrams\<close>

text \<open>The first Contact of a message and its entry in the header list are one object.\<close>

fun upd_first_Contact :: "sip_contact \<Rightarrow> sip_header list \<Rightarrow> sip_header list" where
  "upd_first_Contact c [] = []"
| "upd_first_Contact c (H_Contact x # hs) = H_Contact c # hs"
| "upd_first_Contact c (h # hs) = h # upd_first_Contact c hs"

definition set_first_contact :: "sip_contact \<Rightarrow> 'a sip_msg_scheme \<Rightarrow> 'a sip_msg_scheme" where
  "set_first_contact c m =
     m\<lparr>m_contacts := c # tl (m_contacts m), m_headers := upd_first_Contact c (m_headers m)\<rparr>"

definition readdress_contact :: "string \<Rightarrow> string \<Rightarrow> sip_contact \<Rightarrow> sip_address \<Rightarrow> sip_contact" where
  "readdress_contact host prt c a =
     c\<lparr>ct_address := Inr (a\<lparr>adr_url := (adr_url a)\<lparr>url_Host := NewMyAddress host,
                                                   url_Port := Some (NewMyPort prt)\<rparr>\<rparr>)\<rparr>"

definition fix_via :: "tm_env \<Rightarrow> host_port \<Rightarrow> sip_tm \<Rightarrow> via_body \<Rightarrow> sip_request \<Rightarrow> sip_request" where
  "fix_via env addr tm via0 rq =
     (let (ahost, aport) = via_GetAddr (te_cfg env) via0;
          nated = (rq_nated rq \<or> (tm_nat_traversal tm \<and> port_string addr \<noteq> aport
                                    \<and> (check1918 ahost \<or> check7118 ahost)));
          v1 = (if ahost \<noteq> host_string addr then SetReceived (host_string addr) via0 else via0);
          v2 = (if HasRport v1 \<or> nated then SetRport (Some (port_string addr)) v1 else v1)
      in rq\<lparr>rq_nated := nated, m_vias := Inr v2 # tl (m_vias rq)\<rparr>)"

definition fix_contact :: "host_port \<Rightarrow> sip_tm \<Rightarrow> sip_request \<Rightarrow> sip_request option" where
  "fix_contact addr tm rq =
     (case m_contacts rq of
        c # _ \<Rightarrow>
          if tm_nat_traversal tm \<and> \<not> ct_Asterisk c \<and> length (m_vias rq) = 1 then
            (case ct_address c of
               Inl e \<Rightarrow> None
             | Inr a \<Rightarrow> Some (if check1918 (ma_address (url_Host (adr_url a)))
                 then (set_first_contact (readdress_contact (host_string addr) (port_string addr) c a) rq)
                        \<lparr>rq_nated := True\<rparr>
                 else rq))
          else Some rq
      | [] \<Rightarrow> Some rq)"

definition process_request ::
  "tm_env \<Rightarrow> string \<Rightarrow> string \<Rightarrow> host_port \<Rightarrow> transport \<Rightarrow> sip_tm \<Rightarrow> sip_tm option" where
  "process_request env dat checksum addr server tm =
     (case te_parse_request env dat of
        Inr resp \<Rightarrow> Some (case resp of
            Some rs \<Rightarrow> transmit_response server rs addr checksum
                         (case m_call_id rs of Some c \<Rightarrow> c | None \<Rightarrow> []) tm
          | None \<Rightarrow> tm)
      | Inl rq \<Rightarrow> (case getTIds rq of
            Inl e \<Rightarrow> Some tm
          | Inr tids \<Rightarrow> (case m_vias rq of
              Inr via0 # _ \<Rightarrow>
                (case fix_contact addr tm (fix_via env addr tm via0 rq) of
                   None \<Rightarrow> Some tm
                 | Some rq1 \<Rightarrow>
                     tm_incomingRequest env
                       (rq1\<lparr>m_source := Some (NewHostPort (host_string addr) (port_string addr))\<rparr>)
                       checksum tids server tm)
            | _ \<Rightarrow> Some tm)))"

definition relay_unmatched_response ::
  "tm_env \<Rightarrow> sip_response \<Rightarrow> string \<Rightarrow> tid \<Rightarrow> host_port \<Rightarrow> transport \<Rightarrow> sip_tm \<Rightarrow> sip_tm" where
  "relay_unmatched_response env rs checksum k addr server tm =
     (let fin = rcache_set_call_id checksum (tid_CallId k) in
      if length (m_vias rs) \<le> 1 then fin tm
      else case hd (m_vias rs) of
        Inl e \<Rightarrow> tm
      | Inr via0 \<Rightarrow>
          (let taddr = GetTAddr (te_cfg env) via0 in
           if port_string taddr = mp_port (cfg_SipPort (te_cfg env)) then fin tm
           else case m_contacts rs of
             [] \<Rightarrow> tm
           | c # _ \<Rightarrow>
               (let cid = (case m_call_id rs of Some c \<Rightarrow> c | None \<Rightarrow> []);
                    send = (\<lambda>r. fin (transmitData server (P_resp r (uv_laddress server)) taddr checksum cid 0 tm))
                in if ct_Asterisk c then send rs
                   else case ct_address c of
                     Inl e \<Rightarrow> tm
                   | Inr a \<Rightarrow>
                       (let readdressed = send (set_first_contact
                                (readdress_contact (host_string taddr) (port_string taddr) c a) rs)
                        in if check1918 (ma_address (url_Host (adr_url a))) then readdressed
                           else case url_Port (adr_url a) of
                             None \<Rightarrow> tm
                           | Some p \<Rightarrow> if mp_port p \<noteq> port_string addr then readdressed else send rs))))"

definition fix_response_contact :: "host_port \<Rightarrow> host_port option \<Rightarrow> sip_tm \<Rightarrow> sip_response \<Rightarrow> sip_response option" where
  "fix_response_contact addr peer tm rs =
     (case m_contacts rs of
        c # _ \<Rightarrow>
          if tm_nat_traversal tm \<and> \<not> ct_Asterisk c
             \<and> \<not> check1918 (case peer of Some p \<Rightarrow> host_string p | None \<Rightarrow> []) then
            (case ct_address c of
               Inl e \<Rightarrow> None
             | Inr a \<Rightarrow> Some (if check1918 (ma_address (url_Host (adr_url a)))
                 then set_first_contact (readdress_contact (host_string addr) (port_string addr) c a) rs
                 else rs))
          else Some rs
      | [] \<Rightarrow> Some rs)"

definition process_response ::
  "tm_env \<Rightarrow> string \<Rightarrow> string \<Rightarrow> host_port \<Rightarrow> transport \<Rightarrow> sip_tm \<Rightarrow> sip_tm option" where
  "process_response env dat checksum addr server tm =
     (case te_parse_response env dat of
        None \<Rightarrow> Some tm
      | Some rs \<Rightarrow> (case GetTId True True False rs of
          Inl e \<Rightarrow> Some tm
        | Inr k \<Rightarrow>
            if rs_scode rs < 100 \<or> 999 < rs_scode rs
            then Some (rcache_set_call_id checksum (tid_CallId k) tm)
            else if tm_tclient_lock tm then None
            else (case tm_tclient tm k of
                None \<Rightarrow> Some (relay_unmatched_response env rs checksum k addr server tm)
              | Some r \<Rightarrow> (case tm_ctxs tm r of
                  None \<Rightarrow> Some tm
                | Some x \<Rightarrow>
                    (case fix_response_contact addr (tx_address x) tm rs of
                       None \<Rightarrow> Some tm
                     | Some rs1 \<Rightarrow>
                         map_option (\<lambda>(x', t). t\<lparr>tm_ctxs := (tm_ctxs t)(r \<mapsto> x')\<rparr>)
                           (IncomingResponse (te_cfg env) (te_recv_response env) (te_rnd env)
                              (rs1\<lparr>m_source := Some (NewHostPort (host_string addr) (port_string addr))\<rparr>)
                              checksum x tm))))))"

definition handleIncoming ::
  "tm_env \<Rightarrow> string \<Rightarrow> host_port \<Rightarrow> transport \<Rightarrow> sip_tm \<Rightarrow> sip_tm option" where
  "handleIncoming env dat addr server tm =
     (if length dat < 32 then Some tm
      else
        let checksum = te_md5 env dat in
        case rcache_get tm checksum of
          Some e \<Rightarrow> Some (case (rc_userv e, rc_data e, rc_address e) of
              (Some uv, Some d, Some a) \<Rightarrow> transmitData uv d a [] (rc_call_id e) 0 tm
            | _ \<Rightarrow> tm)
        | None \<Rightarrow>
            (let tm1 = rcache_put checksum (empty_entry []) tm in
             if take 7 dat = ''SIP/2.0'' then process_response env dat checksum addr server tm1
             else process_request env dat checksum addr server tm1))"

section \<open>Private addresses\<close>

lemma mask_octet_255: "b \<le> 255 \<Longrightarrow> b AND 255 = (b :: nat)"
proof -
  assume "b \<le> 255"
  then have "take_bit 8 b = b" by (simp add: take_bit_nat_eq_self)
  moreover have "(255 :: nat) = mask 8" by (simp add: mask_eq_exp_minus_1)
  ultimately show ?thesis by (simp add: take_bit_eq_mask)
qed

lemma mask_octet_240: "b \<le> 255 \<Longrightarrow> b AND 240 = (16 :: nat) \<longleftrightarrow> 16 \<le> b \<and> b \<le> 31"
proof -
  assume b: "b \<le> 255"
  have m: "(240 :: nat) = push_bit 4 (mask 4)" by (simp add: mask_eq_exp_minus_1 push_bit_eq_mult)
  have "bit b n \<Longrightarrow> n - 4 < 4" for n
    using b bit_take_bit_iff [of 8 b n] take_bit_nat_eq_self [of b 8] by simp
  then have "b AND 240 = push_bit 4 (drop_bit 4 b)"
    by (intro bit_eqI) (auto simp: m bit_and_iff bit_push_bit_iff bit_drop_bit_eq bit_mask_iff)
  also have "\<dots> = 16 * (b div 16)" by (simp add: push_bit_eq_mult drop_bit_eq_div)
  finally show ?thesis by auto
qed

lemmas mask_octet = mask_octet_255 mask_octet_240

lemma ParseIPv4_octets:
  assumes "ParseIPv4 s = Some ip"
  obtains a b c d where "ip = [a, b, c, d]" "a \<le> 255" "b \<le> 255" "c \<le> 255" "d \<le> 255"
proof -
  have le: "parse_ip_field f = Some n \<Longrightarrow> n \<le> 255" for f n
    by (auto simp: parse_ip_field_def split: if_splits option.splits)
  obtain a b c d where m: "map parse_ip_field (go_split (CHR ''.'') s) = [Some a, Some b, Some c, Some d]"
    and "ip = [a, b, c, d]"
    using assms by (auto simp: ParseIPv4_def split: list.splits option.splits)
  moreover from m have "n \<le> 255" if "n \<in> {a, b, c, d}" for n
    using that by (auto simp: map_eq_Cons_conv intro: le)
  ultimately show thesis using that by auto
qed

text \<open>
  Property C36. The test for a private peer is exactly membership in 10.0.0.0/8, 172.16.0.0/12 or
  192.168.0.0/16; text that is not a dotted quad is never private.
\<close>

theorem check1918_ranges:
  "check1918 host \<longleftrightarrow> (\<exists>a b c d. ParseIPv4 host = Some [a, b, c, d] \<and>
     (a = 10 \<or> (a = 172 \<and> 16 \<le> b \<and> b \<le> 31) \<or> (a = 192 \<and> b = 168)))"
proof (cases "ParseIPv4 host")
  case None
  then show ?thesis by (simp add: check1918_def)
next
  case (Some ip)
  then obtain a b c d where "ip = [a, b, c, d]" "a \<le> 255" "b \<le> 255"
    by (rule ParseIPv4_octets)
  with Some show ?thesis by (auto simp: check1918_def NETS_1918_def mask_octet)
qed

section \<open>Retransmissions\<close>

text \<open>
  Property C18. A datagram whose request was answered is not processed again: an identical datagram, also after one
  purge of the cache, gets the same answer from the same transport to the same address and changes
  nothing else. After two purges it is forgotten and processed as new.
\<close>

theorem identical_datagram_answered_from_cache:
  assumes "32 \<le> length dat" "te_md5 env dat = cs" "cs \<noteq> []"
    and "tm1 = transmitData uv d a cs cid 0 tm0"
    and "tm2 = (if purged then rCachePurge tm1 else tm1)"
  shows "handleIncoming env dat addr server tm2 =
      Some (tm2\<lparr>tm_sent := tm_sent tm2 @ [\<lparr>sn_userv = uv, sn_data = d, sn_address = a\<rparr>]\<rparr>)
    \<and> rcache_get (rCachePurge (rCachePurge tm1)) cs = None"
proof -
  let ?e = "\<lparr>rc_userv = Some uv, rc_data = Some d, rc_address = Some a, rc_call_id = cid, rc_lossemul = 0\<rparr>"
  obtain t where t: "tm1 = rcache_put cs ?e t" using assms(3,4) by (simp add: transmitData_def)
  have "rcache_get tm2 cs = Some ?e"
    by (simp add: assms(5) t rcache.put_survives_one_rotation rcache.look_after_put)
  then show ?thesis using assms(1,2)
    by (simp add: handleIncoming_def Let_def transmitData_def rcache.two_rotations_forget)
qed

section \<open>One final response\<close>

text \<open>
  What can happen to an INVITE's transaction later: its timers, requests that match it (a repetition, CANCEL, ACK, PRACK), and
  further responses of the INVITE given to the manager. The PRACK callback itself is left out.
\<close>

definition respond_again :: "tm_env \<Rightarrow> sip_response \<Rightarrow> ref option \<Rightarrow> int \<Rightarrow> server_transaction \<Rightarrow> sip_tm \<Rightarrow> server_transaction \<times> sip_tm" where
  "respond_again env rs cb l x tm = (x, case tm_SendResponseWithLossEmul env rs cb l tm of Some t \<Rightarrow> t | None \<Rightarrow> tm)"

definition later_ops :: "tid \<Rightarrow> (server_transaction \<Rightarrow> sip_tm \<Rightarrow> server_transaction \<times> sip_tm) set" where
  "later_ops k =
     {timerA, timerD, fire_prov} \<union> {timerE cfg tg now | cfg tg now. True}
     \<union> {IncomingRequest (\<lambda>rq rs x t. (x, t)) cfg tg now rq cs | cfg tg now rq cs. True}
     \<union> {respond_again env rs cb l | env rs cb l. GetTId False True False rs = Inr k}"

text \<open>The answer to a request other than the INVITE: 200 for a CANCEL, 200 or 481 for a PRACK.\<close>

definition answers_other :: "transmission \<Rightarrow> bool" where
  "answers_other sn \<longleftrightarrow> (\<exists>rq code reason server rs a. sn_data sn = P_resp rs a \<and> GenResponse code reason None server rq = Inr rs
     \<and> (rq_method rq = ''CANCEL'' \<and> code = 200 \<or> rq_method rq = ''PRACK'' \<and> (code = 200 \<or> code = 481)))"

definition answered_with :: "tid \<Rightarrow> transmission \<Rightarrow> server_transaction \<Rightarrow> sip_tm \<Rightarrow> bool" where
  "answered_with k sn x tm \<longleftrightarrow> tm_tserver tm k = None
     \<and> (tx_alive x \<longrightarrow> tx_state x \<noteq> TRYING \<and> tx_state x \<noteq> RINGING \<and> armed x sn)"

definition sends_no_other :: "tid \<Rightarrow> transmission \<Rightarrow> sip_tm \<Rightarrow> server_transaction \<times> sip_tm \<Rightarrow> bool" where
  "sends_no_other k sn tm z \<longleftrightarrow> answered_with k sn (fst z) (snd z)
     \<and> (\<exists>ys. tm_sent (snd z) = tm_sent tm @ ys \<and> list_all (\<lambda>y. y = sn \<or> answers_other y) ys)"

lemma sends_nothing: "answered_with k sn x tm \<Longrightarrow> answered_with k sn x' tm' \<Longrightarrow> tm_sent tm' = tm_sent tm \<Longrightarrow> sends_no_other k sn tm (x', tm')"
  by (simp add: sends_no_other_def)

lemma sends_one:
  "answered_with k sn x' tm' \<Longrightarrow> tm_sent tm' = tm_sent tm @ [y] \<Longrightarrow> y = sn \<or> answers_other y \<Longrightarrow> sends_no_other k sn tm (x', tm')"
  by (simp add: sends_no_other_def)

lemma tserver_del_None: "tm_tserver tm k = None \<Longrightarrow> tm_tserver (tserver_del k' tm) k = None"
  by (simp add: tserver_del_def)

lemma answered_timers:
  assumes "answered_with k sn x tm"
  shows "sends_no_other k sn tm (timerA x tm)" "sends_no_other k sn tm (timerD x tm)" "sends_no_other k sn tm (timerE cfg tg now x tm)"
    "sends_no_other k sn tm (fire_prov x tm)"
proof -
  have sn: "\<lparr>sn_userv = sn_userv sn, sn_data = sn_data sn, sn_address = sn_address sn\<rparr> = sn" by simp
  show "sends_no_other k sn tm (timerA x tm)"
  proof (cases "tx_alive x")
    case True
    then have "armed x sn" using assms by (simp add: answered_with_def)
    then show ?thesis using assms True by (auto simp: armed_def timerA_def answered_with_def sends_no_other_def tm_simps sn)
  qed (use assms in \<open>simp add: timerA_def sends_nothing\<close>)
  show "sends_no_other k sn tm (timerD x tm)" using assms
    by (auto simp: timerD_def sends_no_other_def answered_with_def tx_simps tm_simps tserver_del_None Let_def split: option.splits)
  show "sends_no_other k sn tm (timerE cfg tg now x tm)" using assms
    by (auto simp: timerE_def sends_no_other_def answered_with_def cancelTeE_def armed_def Let_def)
  show "sends_no_other k sn tm (fire_prov x tm)"
  proof (cases "st_prov_inflight x")
    case (Some p)
    show ?thesis
    proof (cases "tx_alive x")
      case True
      then have "armed x sn" using assms by (simp add: answered_with_def)
      then show ?thesis using assms True Some
        by (auto simp: armed_def fire_prov_def retrUasResponse_def answered_with_def sends_no_other_def tm_simps sn Let_def)
    next
      case False
      then show ?thesis using assms Some
        by (auto simp: fire_prov_def retrUasResponse_def answered_with_def sends_no_other_def tm_simps Let_def)
    qed
  qed (use assms in \<open>simp add: fire_prov_def sends_nothing\<close>)
qed

lemma answered_reply:
  assumes "answered_with k sn x tm" "reply_directly cfg rs cs x t = Some t'" "tm_sent t = tm_sent tm" "tm_tserver t = tm_tserver tm"
    "GenResponse code reason None server rq = Inr rs"
    "rq_method rq = ''CANCEL'' \<and> code = 200 \<or> rq_method rq = ''PRACK'' \<and> (code = 200 \<or> code = 481)"
  shows "sends_no_other k sn tm (x, t')"
proof -
  obtain uv a cid where t': "t' = transmit_response uv rs a cs cid t"
    using assms(2) by (auto simp: reply_directly_def split: list.splits sum.splits option.splits)
  have "answers_other \<lparr>sn_userv = uv, sn_data = P_resp rs (uv_laddress uv), sn_address = a\<rparr>"
    using assms(5,6) by (auto simp: answers_other_def)
  then show ?thesis
    using assms by (intro sends_one) (auto simp: answered_with_def t' transmit_response_def tm_simps)
qed

lemma answered_requests:
  assumes "answered_with k sn x tm"
  shows "sends_no_other k sn tm (IncomingRequest (\<lambda>rq rs x t. (x, t)) cfg tg now rq cs x tm)"
proof (cases "tx_alive x")
  case False
  then show ?thesis using assms by (simp add: IncomingRequest_def sends_nothing)
next
  case True
  have sn: "\<lparr>sn_userv = sn_userv sn, sn_data = sn_data sn, sn_address = sn_address sn\<rparr> = sn" by simp
  have st: "tx_state x \<noteq> TRYING" "tx_state x \<noteq> RINGING" "armed x sn" "tm_tserver tm k = None"
    using assms True by (simp_all add: answered_with_def)
  have cancel: "sends_no_other k sn tm (incoming_CANCEL cfg tg cs now rq x tm)" if "rq_method rq = ''CANCEL''"
    using assms st that by (auto simp: incoming_CANCEL_def sends_nothing split: sum.splits option.splits intro: answered_reply)
  have ack: "sends_no_other k sn tm (incoming_ACK cs rq x tm)"
    using assms st by (auto simp: incoming_ACK_def Let_def sends_no_other_def answered_with_def armed_def tx_simps tm_simps tserver_del_None
        split: option.splits)
  have prack: "sends_no_other k sn tm (incoming_PRACK (\<lambda>rq rs x t. (x, t)) cfg cs rq x tm)" if "rq_method rq = ''PRACK''"
  proof (cases "request_GetRTId rq")
    case (Inr rk)
    define hit where "hit = (case st_prov_inflight x of Some p \<Rightarrow> pif_rtid p = rk | None \<Rightarrow> False)"
    define x1 where "x1 = (if hit then x\<lparr>st_prov_inflight := None\<rparr> else x)"
    define t1 where "t1 = (if hit then rtid_del rk tm else tm)"
    have x1: "answered_with k sn x1 tm" using assms by (auto simp: answered_with_def x1_def armed_def)
    have t1: "tm_sent t1 = tm_sent tm" "tm_tserver t1 = tm_tserver tm" by (simp_all add: t1_def tm_simps)
    have none: "sends_no_other k sn tm (x1, t)" if "tm_sent t = tm_sent tm" "tm_tserver t = tm_tserver tm" for t
      using x1 that by (auto simp: answered_with_def intro!: sends_nothing)
    show ?thesis
    proof (cases "GenResponse (if hit then 200 else 481) (if hit then ''OK'' else ''Huh?'') None None rq")
      case (Inl e)
      then have "incoming_PRACK (\<lambda>rq rs x t. (x, t)) cfg cs rq x tm = (x1, t1)"
        by (cases hit) (simp_all add: incoming_PRACK_def Inr hit_def [symmetric] x1_def t1_def Let_def)
      then show ?thesis using none [OF t1] by simp
    next
      case g: (Inr rs)
      define t2 where "t2 = (case (hit, st_prack_cb x1) of (True, Some u) \<Rightarrow> upcall (U_prack u rq rs) t1 | _ \<Rightarrow> t1)"
      have t2: "tm_sent t2 = tm_sent tm" "tm_tserver t2 = tm_tserver tm"
        using t1 by (auto simp: t2_def tm_simps split: option.splits bool.splits)
      have eq: "incoming_PRACK (\<lambda>rq rs x t. (x, t)) cfg cs rq x tm
          = (x1, case reply_directly cfg rs cs x1 t2 of Some t \<Rightarrow> t | None \<Rightarrow> t2)"
        using g by (cases hit) (simp_all add: incoming_PRACK_def Inr hit_def [symmetric] x1_def t1_def t2_def Let_def split: option.splits)
      show ?thesis
      proof (cases "reply_directly cfg rs cs x1 t2")
        case None
        then show ?thesis using none [OF t2] by (simp add: eq)
      next
        case (Some t)
        then show ?thesis using answered_reply [OF x1 Some t2 g] that by (simp add: eq)
      qed
    qed
  qed (use assms in \<open>simp add: incoming_PRACK_def sends_nothing\<close>)
  have same: "sends_no_other k sn tm (x, tm)" using assms assms by (rule sends_nothing) simp
  have "sends_no_other k sn tm (x, transmitData (sn_userv sn) (sn_data sn) (sn_address sn) cs cid 0 tm)" for cid
    using assms by (intro sends_one [of _ _ _ _ _ sn]) (auto simp: answered_with_def tm_simps sn)
  with same cancel ack prack True st(3) show ?thesis
    by (auto simp: IncomingRequest_def armed_def)
qed

lemma answered_again:
  assumes "answered_with k sn x tm" "GetTId False True False rs = Inr k"
  shows "sends_no_other k sn tm (respond_again env rs cb l x tm)"
  using assms by (simp add: respond_again_def tm_SendResponseWithLossEmul_def answered_with_def sends_no_other_def)

lemma answered_run:
  "answered_with k sn x tm \<Longrightarrow> set fs \<subseteq> later_ops k \<Longrightarrow> sends_no_other k sn tm (run_ops fs (x, tm))"
proof (induction fs arbitrary: x tm)
  case (Cons f fs)
  obtain x' tm' where z: "f x tm = (x', tm')" by fastforce
  have "sends_no_other k sn tm (f x tm)" using Cons.prems
    by (auto simp: later_ops_def answered_timers answered_requests answered_again)
  then obtain ys where ys: "answered_with k sn x' tm'" "tm_sent tm' = tm_sent tm @ ys" "list_all (\<lambda>y. y = sn \<or> answers_other y) ys"
    by (auto simp: z sends_no_other_def)
  moreover have "sends_no_other k sn tm' (run_ops fs (x', tm'))" using ys(1) Cons by simp
  ultimately show ?case by (force simp: sends_no_other_def run_ops_def z)
qed (simp add: run_ops_def sends_nothing)

text \<open>
  Property C13. The final response of an INVITE's transaction is its last: whatever follows in whatever order (its timers, repetitions of the
  INVITE, CANCEL, ACK and PRACK requests, further responses of the INVITE that are given to the manager), the only things sent for this transaction are
  repetitions of that same response, to the same address, and the answers to the CANCEL and PRACK requests themselves. (A response that is
  given to the transaction object itself, past the manager, is not held back by the code, and neither is what the user agent does in its PRACK callback.)
\<close>

theorem single_final_response:
  assumes x: "tx_alive x" "tx_needack x" "tx_userv x = Some uv" "tx_tid x = Some k" "tid_Branch k \<noteq> []"
    and rs: "200 \<le> rs_scode rs" "m_to rs = Some (Inr a)" "m_vias rs = Inr via0 # vs"
    and send: "SendResponse cfg newtag rs retrans cb x tm = (x1, tm1)"
    and later: "set fs \<subseteq> later_ops k" "run_ops fs (x1, tm1) = (x2, tm2)"
  shows "\<exists>rs' ys. ensure_to_tag newtag rs = Some rs' \<and> tm_sent tm1 = tm_sent tm @ [\<lparr>sn_userv = uv,
            sn_data = P_resp rs' (uv_laddress uv), sn_address = GetTAddr cfg via0\<rparr>]
    \<and> tm_sent tm2 = tm_sent tm1 @ ys
    \<and> list_all (\<lambda>y. y = \<lparr>sn_userv = uv, sn_data = P_resp rs' (uv_laddress uv), sn_address = GetTAddr cfg via0\<rparr> \<or> answers_other y) ys"
proof -
  obtain rs' where rs': "ensure_to_tag newtag rs = Some rs'" using ensure_to_tag_Some [OF rs(2)] by blast
  let ?sn = "\<lparr>sn_userv = uv, sn_data = P_resp rs' (uv_laddress uv), sn_address = GetTAddr cfg via0\<rparr>"
  note eff = final_response_effects [OF x(1-4) rs rs' send]
  have "k \<noteq> ack_key k tag" for tag using x(5) by (cases k) (auto simp: ack_key_def)
  then have "tm_tserver tm1 k = None" by (simp add: eff(9) tserver_replace_def tserver.rekey_look)
  moreover have "armed x1 ?sn" using final_response_armed [OF x(1-4) rs rs' send] .
  ultimately have "answered_with k ?sn x1 tm1" using eff(1) by (simp add: answered_with_def)
  then have "sends_no_other k ?sn tm1 (x2, tm2)" using answered_run later by metis
  then show ?thesis using rs' eff(7) by (auto simp: sends_no_other_def)
qed

section \<open>Loop detection and the server table's lock\<close>

definition keys_without_to_tag :: "sip_tm \<Rightarrow> bool" where
  "keys_without_to_tag tm \<longleftrightarrow> (\<forall>k. tm_tclient tm k \<noteq> None \<longrightarrow> tid_ToTag k = [])"

lemma GetTId_no_to_tag: "GetTId a b False m = Inr k \<Longrightarrow> tid_ToTag k = []"
  by (auto simp: GetTId_def bind_result_Inr_iff NewTID_def split: option.splits)

lemma CreateClientTransaction_keys:
  assumes "keys_without_to_tag tm" "CreateClientTransaction cfg userv receiver eh rq tm = Some (tm', res)"
  shows "keys_without_to_tag tm'"
  using assms
  by (auto simp: CreateClientTransaction_def keys_without_to_tag_def tclient_put_def GetTId_no_to_tag
      split: option.splits sum.splits if_splits)

lemma getTIds_to_tags:
  assumes "getTIds rq = Inr tids"
    and "list_all (\<lambda>v. case v of Inr b \<Rightarrow> GetBranch b \<noteq> [] | Inl e \<Rightarrow> True) (m_vias rq)"
  shows "\<forall>k \<in> set tids. tid_ToTag k \<noteq> []"
proof -
  have "\<exists>cid (cs :: cseq_body) f. map_result (\<lambda>v. bind_result v (\<lambda>b.
      Inr (NewTID cid (Itoa (CSeq_num cs)) (CSeq_Method cs) (GetTag f) (GetBranch b) []))) (m_vias rq) = Inr tids"
    using assms(1) by (fastforce simp: getTIds_def bind_result_Inr_iff split: option.splits)
  then obtain cid f and cs :: cseq_body where "map_result (\<lambda>v. bind_result v (\<lambda>b.
      Inr (NewTID cid (Itoa (CSeq_num cs)) (CSeq_Method cs) (GetTag f) (GetBranch b) []))) (m_vias rq) = Inr tids"
    by blast
  from map_result_Inr_list_all2 [OF this]
  have "list_all2 (\<lambda>v k. \<exists>b. v = Inr b \<and> tid_ToTag k = GetBranch b) (m_vias rq) tids"
    by (rule list_all2_mono) (auto simp: bind_result_Inr_iff NewTID_def)
  with assms(2) show ?thesis
    by (fastforce simp: list_all2_conv_all_nth list_all_length in_set_conv_nth)
qed

text \<open>
  A request the program itself sent and that comes back to it is not recognised: the identifiers
  compared with the client table carry the branch in the place of the To tag, while every key of the table has an empty
  To tag, so no request whose Via headers have branches is answered 482.
\<close>

theorem loop_detection_never_matches:
  assumes "keys_without_to_tag tm" "getTIds rq = Inr tids"
    and "list_all (\<lambda>v. case v of Inr b \<Rightarrow> GetBranch b \<noteq> [] | Inl e \<Rightarrow> True) (m_vias rq)"
    and "CreateClientTransaction cfg userv receiver eh sent tm = Some (tm', res)"
  shows "find (\<lambda>k. tm_tclient tm' k \<noteq> None) tids = None"
proof -
  have keys: "keys_without_to_tag tm'" by (rule CreateClientTransaction_keys [OF assms(1,4)])
  have "\<forall>k \<in> set tids. tid_ToTag k \<noteq> []" by (rule getTIds_to_tags [OF assms(2,3)])
  then show ?thesis using keys by (auto simp: find_None_iff keys_without_to_tag_def)
qed

text \<open>
  Property C39. A transaction that is given up while a provisional response is unacknowledged leaves that response's identifier
  behind; a PRACK for it then finds no transaction and is answered 481 with the server
  table's lock still held, and every request that is looked up after that waits forever.
\<close>

theorem late_prack_leaves_table_locked:
  assumes x: "tx_alive x" "tx_tid x = Some k" "st_prov_inflight x = Some p"
    and tm: "tm_rtid2tid tm (pif_rtid p) = Some k" "timerD x tm = (x', tm1)"
    and prack: "rq_method rq = ''PRACK''" "request_GetRTId rq = Inr (pif_rtid p)"
    and run: "tm_incomingRequest env rq cs tids server tm1 = Some tm2"
      "find (\<lambda>k. tm_tclient tm1 k \<noteq> None) tids = None"
    and later: "request_key rq' tm2 \<noteq> None" "find (\<lambda>k. tm_tclient tm2 k \<noteq> None) tids' = None"
  shows "tm_tserver_lock tm2 \<and> tm_incomingRequest env' rq' cs' tids' server' tm2 = None"
proof -
  have 1: "tm_rtid2tid tm1 (pif_rtid p) = Some k" "tm_tserver tm1 k = None"
    using tm x by (auto simp: timerD_def tm_simps Let_def tserver.del_then_look split: option.splits if_splits)
  have key: "request_key rq tm1 = Some k" using prack 1 by (simp add: request_key_def)
  have "tm2 = unmatched_request env server cs k rq tm1"
    using run key 1(2) by (auto simp: tm_incomingRequest_def split: if_splits)
  then have "tm_tserver_lock tm2"
    using prack(1) by (auto simp: unmatched_request_def stateless_reply_def transmit_response_def tm_simps
        split: sum.splits list.splits)
  with later show ?thesis by (auto simp: tm_incomingRequest_def split: option.splits)
qed

section \<open>Consumers\<close>

definition consumers :: "sip_tm \<Rightarrow> string \<Rightarrow> ref list" where
  "consumers tm cid = (case tm_req_consumers tm cid of Some cs \<Rightarrow> cs | None \<Rightarrow> [])"

text \<open>
  The user agents of a call: registering adds one at the end, unregistering a registered one removes its
  first occurrence and nothing else, and a call whose last user agent leaves has no entry; other calls are
  not affected.
\<close>

theorem consumers_register_unregister:
  assumes "ua' \<in> set (consumers tm cid)"
  shows "consumers (RegConsumer ua cid tm) cid = consumers tm cid @ [ua]
    \<and> consumers (UnregConsumer ua' cid tm) cid = remove1 ua' (consumers tm cid)
    \<and> (consumers tm cid = [ua'] \<longrightarrow> tm_req_consumers (UnregConsumer ua' cid tm) cid = None)
    \<and> (\<forall>cid'. cid' \<noteq> cid \<longrightarrow> consumers (RegConsumer ua cid tm) cid' = consumers tm cid'
          \<and> consumers (UnregConsumer ua' cid tm) cid' = consumers tm cid')"
proof -
  obtain cs where cs: "tm_req_consumers tm cid = Some cs" "ua' \<in> set cs"
    using assms by (cases "tm_req_consumers tm cid") (auto simp: consumers_def)
  have one: "\<not> 1 < length cs \<Longrightarrow> cs = [ua']" using cs(2) by (cases cs) auto
  show ?thesis
  proof (intro conjI allI impI)
    show "consumers (UnregConsumer ua' cid tm) cid = remove1 ua' (consumers tm cid)"
      using cs(1) one by (cases "1 < length cs") (simp_all add: consumers_def UnregConsumer_def upcall_def)
  qed (simp_all add: consumers_def RegConsumer_def UnregConsumer_def upcall_def cs(1))
qed

end
