(* ===== verification/Ua_Core.thy ===== *)
theory Ua_Core
  imports Cc_Events Sip_TM
begin

text \<open>
  The user agent of \<^verbatim>\<open>sippy/ua.go\<close>: its record, its states and the operations the states are
  written with. Everything a user agent does to the outside world (events for its
  controller, listener callbacks, responses and requests handed to transactions, SDP hooks,
  timers without a field of their own, registrations) is appended to the log \<open>u_out\<close>
  in program order; what the outside world then does to the user agent is a later input.

  What the code draws or reads during one operation is the record \<open>ua_env\<close>: the clock, the
  random branch of the \<open>n\<close>-th request made so far, the initial CSeq and Call-ID, the answer of
  \<open>CreateClientTransaction\<close>, the error an SDP hook returns, the credentials for a
  challenge and the digest algorithms supported. Error logging is left out. Messages handed
  to a user agent carry their time of reception.
\<close>

section \<open>States\<close>

record ringing_rel =
  rr_prack_received :: bool
  rr_prack_wait :: bool
  rr_pending_ev_ring :: "cc_event option"
  rr_pending_ev_connect :: "cc_event option"
  rr_pending_ev_update :: "cc_event option"

record keepalive_controller =
  ka_triedauth :: bool
  ka_ka_tr :: "ref option"
  ka_keepalives :: int

datatype ua_state =
    UasStateIdle
  | UasStateTrying
  | UasStateRinging
  | UasStateRingingRel ringing_rel
  | UasStatePreConnect "cc_event option" bool
  | UasStateUpdating
  | UacStateIdle
  | UacStateTrying
  | UacStateRinging
  | UacStateUpdating
  | UacStateCancelling "duration option"
  | UaStateConnected "keepalive_controller option"
  | UaStateDisconnected
  | UaStateFailed
  | UaStateDead

fun IsConnected :: "ua_state \<Rightarrow> bool" where
  "IsConnected (UasStatePreConnect p c) = True"
| "IsConnected UasStateUpdating = True"
| "IsConnected UacStateUpdating = True"
| "IsConnected (UaStateConnected k) = True"
| "IsConnected s = False"

text \<open>The listener a state change calls once the new state is active.\<close>

datatype ua_cb =
    CB_ring monotime string int
  | CB_conn monotime string
  | CB_disc monotime string int "sip_request option"
  | CB_fail monotime string int

datatype tr_receiver = R_none | R_redirect_controller

datatype ua_out =
    O_event cc_event
  | O_response bool sip_response bool int
  | O_begin_new sip_request tr_receiver
  | O_begin sip_request ref
  | O_prep_tr ref "host_port option" "(host_port option \<times> sip_url option \<times> address_hf list) option"
  | O_txn_headers ref "sip_header list"
  | O_cancel ref "sip_header list"
  | O_set_uack ref
  | O_ack_body ref "msg_body option"
  | O_send_ack ref
  | O_check_rseq ref numeric_hf
  | O_ring monotime string int
  | O_conn monotime string
  | O_disc monotime string int "sip_request option"
  | O_fail monotime string int
  | O_dead
  | O_local_sdp msg_body cc_event
  | O_remote_sdp msg_body cc_event
  | O_reg string
  | O_unreg string
  | O_go_dead_timer duration
  | O_ka_timer duration
  | O_ka_disconnect_timer duration
  | O_setup_complete
  | O_reinvite sip_request cc_event
  | O_cleanup
  | O_setup_100rel
  | O_prack_cbs

section \<open>The user agent\<close>

text \<open>
  A pointer that is only tested for nil is a Boolean; \<open>u_gseq\<close> is the global event
  counter and \<open>u_draws\<close> counts the branches drawn.
\<close>

record ua =
  u_ref :: ref
  u_sip_tm :: bool
  u_config :: sippy_config
  u_call_controller :: bool
  u_state :: "ua_state option"
  u_equeue :: "cc_event list"
  u_elast_seq :: int
  u_setup_ts :: "monotime option"
  u_connect_ts :: "monotime option"
  u_disconnect_ts :: "monotime option"
  u_origin :: string
  u_on_local_sdp_change :: bool
  u_on_remote_sdp_change :: bool
  u_cId :: "string option"
  u_rTarget :: "sip_url option"
  u_rAddr0 :: "host_port option"
  u_rUri :: "address_hf option"
  u_lUri :: "address_hf option"
  u_lCSeq :: int
  u_lContact :: "address_hf option"
  u_routes :: "address_hf list"
  u_lSDP :: "msg_body option"
  u_rSDP :: "msg_body option"
  u_outbound_proxy :: "host_port option"
  u_rAddr :: "host_port option"
  u_local_ua :: "string option"
  u_username :: string
  u_password :: string
  u_extra_headers :: "sip_header list"
  u_dlg_headers :: "sip_header list"
  u_reqs :: "int \<rightharpoonup> sip_request"
  u_tr :: "ref option"
  u_source_address :: "host_port option"
  u_remote_ua :: string
  u_expire_time :: duration
  u_expire_timer :: "duration option"
  u_no_progress_time :: duration
  u_no_reply_time :: duration
  u_no_reply_timer :: "duration option"
  u_no_progress_timer :: "duration option"
  u_ltag :: string
  u_rCSeq :: int
  u_branch :: string
  u_conn_cb :: bool
  u_dead_cb :: bool
  u_disc_cb :: bool
  u_fail_cb :: bool
  u_ring_cb :: bool
  u_credit_timer :: "(duration \<times> monotime) option"
  u_uasResp :: "sip_response option"
  u_useRefer :: bool
  u_kaInterval :: duration
  u_godead_timeout :: duration
  u_last_scode :: int
  u_np_mtime :: "monotime option"
  u_nr_mtime :: "monotime option"
  u_ex_mtime :: "monotime option"
  u_p100_ts :: "monotime option"
  u_p1xx_ts :: "monotime option"
  u_credit_time :: "duration option"
  u_credit_times :: "(int \<times> monotime) list"
  u_pass_auth :: bool
  u_pending_tr :: "ref option"
  u_late_media :: bool
  u_uas_lossemul :: int
  u_on_uac_setup_complete :: bool
  u_expire_starts_on_setup :: bool
  u_pr_rel :: bool
  u_auth_enalgs :: "string list option"
  u_gseq :: int
  u_draws :: nat
  u_out :: "ua_out list"

record ua_env =
  e_now :: monotime
  e_branch :: "nat \<Rightarrow> string"
  e_cseq_draw :: "int option"
  e_callid :: string
  e_create :: "ref result"
  e_sdp_err :: "string option"
  e_auth :: "challenge_body result \<Rightarrow> string \<Rightarrow> sip_header option"
  e_supported :: "string \<Rightarrow> bool"

definition NewUA ::
  "ref \<Rightarrow> sippy_config \<Rightarrow> host_port option \<Rightarrow> bool \<Rightarrow> string \<Rightarrow> int \<Rightarrow> ua" where
  "NewUA r cfg nh_address controller ltag gseq =
     \<lparr>u_ref = r, u_sip_tm = True, u_config = cfg, u_call_controller = controller, u_state = None,
      u_equeue = [], u_elast_seq = -1, u_setup_ts = None, u_connect_ts = None,
      u_disconnect_ts = None, u_origin = [], u_on_local_sdp_change = False,
      u_on_remote_sdp_change = False, u_cId = None, u_rTarget = None, u_rAddr0 = nh_address,
      u_rUri = None, u_lUri = None, u_lCSeq = 0, u_lContact = None, u_routes = [],
      u_lSDP = None, u_rSDP = None, u_outbound_proxy = None, u_rAddr = nh_address,
      u_local_ua = None, u_username = [], u_password = [], u_extra_headers = [],
      u_dlg_headers = [], u_reqs = Map.empty, u_tr = None, u_source_address = None,
      u_remote_ua = [], u_expire_time = 0, u_expire_timer = None, u_no_progress_time = 0,
      u_no_reply_time = 0, u_no_reply_timer = None, u_no_progress_timer = None,
      u_ltag = ltag, u_rCSeq = -1, u_branch = [], u_conn_cb = False, u_dead_cb = False,
      u_disc_cb = False, u_fail_cb = False, u_ring_cb = False, u_credit_timer = None,
      u_uasResp = None, u_useRefer = True, u_kaInterval = 0, u_godead_timeout = 32 * second,
      u_last_scode = 100, u_np_mtime = None, u_nr_mtime = None, u_ex_mtime = None,
      u_p100_ts = None, u_p1xx_ts = None, u_credit_time = None, u_credit_times = [],
      u_pass_auth = False, u_pending_tr = None, u_late_media = False, u_uas_lossemul = 0,
      u_on_uac_setup_complete = False, u_expire_starts_on_setup = True, u_pr_rel = False,
      u_auth_enalgs = None, u_gseq = gseq, u_draws = 0, u_out = []\<rparr>"

section \<open>Setters and listeners\<close>

definition out :: "ua_out \<Rightarrow> ua \<Rightarrow> ua" where
  "out x u = u\<lparr>u_out := u_out u @ [x]\<rparr>"

definition out_if :: "bool \<Rightarrow> ua_out \<Rightarrow> ua \<Rightarrow> ua" where
  "out_if b x u = (if b then out x u else u)"

definition SetOrigin :: "string \<Rightarrow> ua \<Rightarrow> ua" where "SetOrigin v u = u\<lparr>u_origin := v\<rparr>"
definition SetUasResp :: "sip_response option \<Rightarrow> ua \<Rightarrow> ua" where "SetUasResp v u = u\<lparr>u_uasResp := v\<rparr>"
definition SetLCSeq :: "int \<Rightarrow> ua \<Rightarrow> ua" where "SetLCSeq v u = u\<lparr>u_lCSeq := v\<rparr>"
definition SetLContact :: "address_hf option \<Rightarrow> ua \<Rightarrow> ua" where "SetLContact v u = u\<lparr>u_lContact := v\<rparr>"
definition SetRTarget :: "sip_url option \<Rightarrow> ua \<Rightarrow> ua" where "SetRTarget v u = u\<lparr>u_rTarget := v\<rparr>"
definition SetRAddr0 :: "host_port option \<Rightarrow> ua \<Rightarrow> ua" where "SetRAddr0 v u = u\<lparr>u_rAddr0 := v\<rparr>"
definition SetLUri :: "address_hf option \<Rightarrow> ua \<Rightarrow> ua" where "SetLUri v u = u\<lparr>u_lUri := v\<rparr>"
definition SetRUri :: "address_hf option \<Rightarrow> ua \<Rightarrow> ua" where "SetRUri v u = u\<lparr>u_rUri := v\<rparr>"
definition SetCallId :: "string option \<Rightarrow> ua \<Rightarrow> ua" where "SetCallId v u = u\<lparr>u_cId := v\<rparr>"
definition SetBranch :: "string \<Rightarrow> ua \<Rightarrow> ua" where "SetBranch v u = u\<lparr>u_branch := v\<rparr>"
definition SetRoutes :: "address_hf list \<Rightarrow> ua \<Rightarrow> ua" where "SetRoutes v u = u\<lparr>u_routes := v\<rparr>"
definition SetExMtime :: "monotime \<Rightarrow> ua \<Rightarrow> ua" where "SetExMtime v u = u\<lparr>u_ex_mtime := Some v\<rparr>"
definition SetNpMtime :: "monotime \<Rightarrow> ua \<Rightarrow> ua" where "SetNpMtime v u = u\<lparr>u_np_mtime := Some v\<rparr>"
definition SetNrMtime :: "monotime \<Rightarrow> ua \<Rightarrow> ua" where "SetNrMtime v u = u\<lparr>u_nr_mtime := Some v\<rparr>"
definition SetSetupTs :: "monotime \<Rightarrow> ua \<Rightarrow> ua" where "SetSetupTs v u = u\<lparr>u_setup_ts := Some v\<rparr>"
definition SetLSDP :: "msg_body option \<Rightarrow> ua \<Rightarrow> ua" where "SetLSDP v u = u\<lparr>u_lSDP := v\<rparr>"
definition SetRSDP :: "msg_body option \<Rightarrow> ua \<Rightarrow> ua" where "SetRSDP v u = u\<lparr>u_rSDP := v\<rparr>"
definition SetP1xxTs :: "monotime \<Rightarrow> ua \<Rightarrow> ua" where "SetP1xxTs v u = u\<lparr>u_p1xx_ts := Some v\<rparr>"
definition SetLastScode :: "int \<Rightarrow> ua \<Rightarrow> ua" where "SetLastScode v u = u\<lparr>u_last_scode := v\<rparr>"
definition SetLateMedia :: "bool \<Rightarrow> ua \<Rightarrow> ua" where "SetLateMedia v u = u\<lparr>u_late_media := v\<rparr>"
definition SetPendingTr :: "ref option \<Rightarrow> ua \<Rightarrow> ua" where "SetPendingTr v u = u\<lparr>u_pending_tr := v\<rparr>"
definition SetClientTransaction :: "ref option \<Rightarrow> ua \<Rightarrow> ua" where "SetClientTransaction v u = u\<lparr>u_tr := v\<rparr>"
definition SetCreditTime :: "duration \<Rightarrow> ua \<Rightarrow> ua" where "SetCreditTime v u = u\<lparr>u_credit_time := Some v\<rparr>"

definition SetP100Ts :: "monotime \<Rightarrow> ua \<Rightarrow> ua" where
  "SetP100Ts t u = (case u_p100_ts u of None \<Rightarrow> u\<lparr>u_p100_ts := Some t\<rparr> | Some _ \<Rightarrow> u)"

definition ResetSdpChange :: "ua \<Rightarrow> ua" where
  "ResetSdpChange u = u\<lparr>u_on_local_sdp_change := False, u_on_remote_sdp_change := False\<rparr>"

definition SetDisconnectTs :: "monotime \<Rightarrow> ua \<Rightarrow> ua" where
  "SetDisconnectTs ts u =
     (case u_connect_ts u of
        Some c \<Rightarrow> if mt_After c ts then u\<lparr>u_disconnect_ts := Some c\<rparr> else u\<lparr>u_disconnect_ts := Some ts\<rparr>
      | None \<Rightarrow> u\<lparr>u_disconnect_ts := Some ts\<rparr>)"

definition SetConnectTs :: "monotime \<Rightarrow> ua \<Rightarrow> ua" where
  "SetConnectTs ts u =
     (case u_connect_ts u of
        Some _ \<Rightarrow> u
      | None \<Rightarrow> (case u_disconnect_ts u of
           Some d \<Rightarrow> if mt_After ts d then u\<lparr>u_connect_ts := Some d\<rparr> else u\<lparr>u_connect_ts := Some ts\<rparr>
         | None \<Rightarrow> u\<lparr>u_connect_ts := Some ts\<rparr>))"

definition RingCb :: "monotime \<Rightarrow> string \<Rightarrow> int \<Rightarrow> ua \<Rightarrow> ua" where
  "RingCb t og c u = out_if (u_ring_cb u) (O_ring t og c) u"

definition ConnCb :: "monotime \<Rightarrow> string \<Rightarrow> ua \<Rightarrow> ua" where
  "ConnCb t og u = out_if (u_conn_cb u) (O_conn t og) u"

definition DiscCb :: "monotime \<Rightarrow> string \<Rightarrow> int \<Rightarrow> sip_request option \<Rightarrow> ua \<Rightarrow> ua" where
  "DiscCb t og c rq u = out_if (u_disc_cb u) (O_disc t og c rq) u"

definition FailCb :: "monotime \<Rightarrow> string \<Rightarrow> int \<Rightarrow> ua \<Rightarrow> ua" where
  "FailCb t og c u = out_if (u_fail_cb u) (O_fail t og c) u"

fun run_cb :: "ua_cb \<Rightarrow> ua \<Rightarrow> ua" where
  "run_cb (CB_ring t og c) u = RingCb t og c u"
| "run_cb (CB_conn t og) u = ConnCb t og u"
| "run_cb (CB_disc t og c rq) u = DiscCb t og c rq u"
| "run_cb (CB_fail t og c) u = FailCb t og c u"

definition update_ua :: "'a sip_msg_scheme \<Rightarrow> ua \<Rightarrow> ua" where
  "update_ua m u =
     (case m_sip_user_agent m of
        Some a \<Rightarrow> u\<lparr>u_remote_ua := a\<rparr>
      | None \<Rightarrow> (case m_sip_server m of Some s \<Rightarrow> u\<lparr>u_remote_ua := s\<rparr> | None \<Rightarrow> u))"

section \<open>Timers\<close>

definition StartNoReplyTimer :: "ua_env \<Rightarrow> ua \<Rightarrow> ua" where
  "StartNoReplyTimer env u =
     (case u_nr_mtime u of Some t \<Rightarrow> u\<lparr>u_no_reply_timer := Some (mt_Sub t (e_now env))\<rparr> | None \<Rightarrow> u)"

definition StartNoProgressTimer :: "ua_env \<Rightarrow> ua \<Rightarrow> ua" where
  "StartNoProgressTimer env u =
     (case u_np_mtime u of Some t \<Rightarrow> u\<lparr>u_no_progress_timer := Some (mt_Sub t (e_now env))\<rparr> | None \<Rightarrow> u)"

definition StartExpireTimer :: "ua_env \<Rightarrow> monotime \<Rightarrow> ua \<Rightarrow> ua" where
  "StartExpireTimer env start u =
     (if u_expire_starts_on_setup u then
        (case u_ex_mtime u of Some t \<Rightarrow> u\<lparr>u_expire_timer := Some (mt_Sub t (e_now env))\<rparr> | None \<Rightarrow> u)
      else u\<lparr>u_expire_timer := Some (u_expire_time u - mt_Sub (e_now env) start)\<rparr>)"

definition CancelExpireTimer :: "ua \<Rightarrow> ua" where
  "CancelExpireTimer u = u\<lparr>u_expire_timer := None\<rparr>"

definition CancelNoReplyTimer :: "ua \<Rightarrow> ua" where
  "CancelNoReplyTimer u = u\<lparr>u_no_reply_timer := None\<rparr>"

definition CancelNoProgressTimer :: "ua \<Rightarrow> ua" where
  "CancelNoProgressTimer u = u\<lparr>u_no_progress_timer := None\<rparr>"

definition CancelCreditTimer :: "ua \<Rightarrow> ua" where
  "CancelCreditTimer u = u\<lparr>u_credit_timer := None\<rparr>"

fun earliest :: "monotime option \<Rightarrow> monotime list \<Rightarrow> monotime option" where
  "earliest c [] = c"
| "earliest None (t # ts) = earliest (Some t) ts"
| "earliest (Some c) (t # ts) = earliest (Some (if mt_After c t then t else c)) ts"

definition credit_put :: "int \<Rightarrow> monotime \<Rightarrow> (int \<times> monotime) list \<Rightarrow> (int \<times> monotime) list" where
  "credit_put k v m = (k, v) # filter (\<lambda>(k', _). k' \<noteq> k) m"

definition StartCreditTimer :: "ua_env \<Rightarrow> monotime \<Rightarrow> ua \<Rightarrow> ua" where
  "StartCreditTimer env rtime u =
     (let u1 = (case u_credit_time u of
                  Some d \<Rightarrow> u\<lparr>u_credit_times := credit_put 0 (mt_Add rtime d) (u_credit_times u),
                              u_credit_time := None\<rparr>
                | None \<Rightarrow> u)
      in case earliest None (map snd (u_credit_times u1)) of
           None \<Rightarrow> u1
         | Some t \<Rightarrow> u1\<lparr>u_credit_timer := Some (mt_Sub t (e_now env), t)\<rparr>)"

section \<open>Events\<close>

text \<open>A new event takes the next number of the global counter.\<close>

definition new_event :: "ua_env \<Rightarrow> monotime option \<Rightarrow> string \<Rightarrow> sip_header list \<Rightarrow> ua \<Rightarrow> ua \<times> cc_generic" where
  "new_event env rtime origin hs u =
     (u\<lparr>u_gseq := u_gseq u + 1\<rparr>, newCCEventGeneric (u_gseq u) (e_now env) rtime origin hs)"

definition Enqueue :: "cc_event \<Rightarrow> ua \<Rightarrow> ua" where
  "Enqueue e u = u\<lparr>u_equeue := u_equeue u @ [e]\<rparr>"

definition EmitEvent :: "cc_event \<Rightarrow> ua \<Rightarrow> ua" where
  "EmitEvent e u =
     (if u_call_controller u \<and> \<not> (u_elast_seq u \<noteq> -1 \<and> GetSeq e \<le> u_elast_seq u)
      then out (O_event e) (u\<lparr>u_elast_seq := GetSeq e\<rparr>) else u)"

definition emitPendingEvents :: "ua \<Rightarrow> ua" where
  "emitPendingEvents u =
     (if u_call_controller u then fold EmitEvent (u_equeue u) (u\<lparr>u_equeue := []\<rparr>) else u)"

section \<open>Requests\<close>

definition GenerateSipCSeq :: "int option \<Rightarrow> int" where
  "GenerateSipCSeq draw = (case draw of None \<Rightarrow> 1 | Some idx \<Rightarrow> 1 + idx)"

definition GenRequest ::
  "ua_env \<Rightarrow> string \<Rightarrow> msg_body option \<Rightarrow> challenge_body result option \<Rightarrow> sip_header list \<Rightarrow> ua \<Rightarrow>
   ua \<times> sip_request result" where
  "GenRequest env method body challenge hs u =
     (case u_rTarget u of
        None \<Rightarrow> (u, Inl nil_panic)
      | Some ruri \<Rightarrow>
          (case NewSipRequest method ruri [] (u_rUri u) (u_lUri u) None (u_lCSeq u) (u_cId u) None body
                  (u_lContact u) (u_routes u)
                  (case u_outbound_proxy u of Some p \<Rightarrow> Some p | None \<Rightarrow> u_rAddr u)
                  (u_local_ua u) None (u_config u) (e_branch env (u_draws u)) (e_callid env) of
             Inl e \<Rightarrow> (u, Inl e)
           | Inr req0 \<Rightarrow>
               (let auth = (case challenge of
                              Some ch \<Rightarrow> (case e_auth env ch method of Some h \<Rightarrow> [h] | None \<Rightarrow> [])
                            | None \<Rightarrow> []);
                    req = appendHeaders (auth @ u_extra_headers u @ hs @ u_dlg_headers u) req0
                in (u\<lparr>u_reqs := (u_reqs u)(u_lCSeq u \<mapsto> req), u_lCSeq := u_lCSeq u + 1,
                      u_draws := u_draws u + 1\<rparr>, Inr req))))"

definition ua_isConnected :: "ua \<Rightarrow> bool" where
  "ua_isConnected u = (case u_state u of Some s \<Rightarrow> IsConnected s | None \<Rightarrow> False)"

definition PrepTr :: "ua_env \<Rightarrow> ua \<Rightarrow> ua \<times> ref result" where
  "PrepTr env u =
     (if \<not> u_sip_tm u then (u, Inl ''UA already dead'')
      else case e_create env of
        Inl e \<Rightarrow> (u, Inl e)
      | Inr tr \<Rightarrow>
          (out (O_prep_tr tr (u_outbound_proxy u)
                 (if ua_isConnected u
                  then Some (case u_outbound_proxy u of Some p \<Rightarrow> Some p | None \<Rightarrow> u_rAddr u,
                             u_rTarget u, u_routes u)
                  else None)) u, Inr tr))"

definition ua_BeginClientTransaction :: "sip_request \<Rightarrow> ref \<Rightarrow> ua \<Rightarrow> ua" where
  "ua_BeginClientTransaction rq tr u = out_if (u_sip_tm u) (O_begin rq tr) u"

definition ua_BeginNewClientTransaction :: "sip_request \<Rightarrow> tr_receiver \<Rightarrow> ua \<Rightarrow> ua" where
  "ua_BeginNewClientTransaction rq rcv u = out_if (u_sip_tm u) (O_begin_new rq rcv) u"

definition ua_RegConsumer :: "string \<Rightarrow> ua \<Rightarrow> ua" where
  "ua_RegConsumer cid u = out_if (u_sip_tm u) (O_reg cid) u"

text \<open>
  The two ways a request is sent. Outside INVITE: make the request, complete it (this may
  fail), start a transaction for it. For INVITE: make it, \<open>mid\<close>, prepare the
  transaction and start it; the transaction is returned.
\<close>

definition send_request ::
  "ua_env \<Rightarrow> string \<Rightarrow> sip_header list \<Rightarrow> (sip_request \<Rightarrow> sip_request result) \<Rightarrow> tr_receiver \<Rightarrow> ua \<Rightarrow>
   ua \<times> unit result" where
  "send_request env method hs finish rcv u =
     (case GenRequest env method None None hs u of
        (u1, Inl e) \<Rightarrow> (u1, Inl e)
      | (u1, Inr req) \<Rightarrow>
          (case finish req of
             Inl e \<Rightarrow> (u1, Inl e)
           | Inr req' \<Rightarrow> (ua_BeginNewClientTransaction req' rcv u1, Inr ())))"

definition start_invite ::
  "ua_env \<Rightarrow> msg_body option \<Rightarrow> challenge_body result option \<Rightarrow> sip_header list \<Rightarrow> (ua \<Rightarrow> ua) \<Rightarrow>
   (ref \<Rightarrow> ua \<Rightarrow> ua) \<Rightarrow> ua \<Rightarrow> ua \<times> ref result" where
  "start_invite env body challenge hs mid fin u =
     (case GenRequest env ''INVITE'' body challenge hs u of
        (u1, Inl e) \<Rightarrow> (u1, Inl e)
      | (u1, Inr req) \<Rightarrow>
          (case PrepTr env (mid u1) of
             (u2, Inl e) \<Rightarrow> (u2, Inl e)
           | (u2, Inr tr) \<Rightarrow> (ua_BeginClientTransaction req tr (fin tr u2), Inr tr)))"

definition send_bye :: "ua_env \<Rightarrow> sip_header list \<Rightarrow> ua \<Rightarrow> ua \<times> unit result" where
  "send_bye env hs u = send_request env ''BYE'' hs Inr R_none u"

section \<open>Responses, routing, life cycle\<close>

definition as_contact :: "address_hf \<Rightarrow> sip_contact" where
  "as_contact a = \<lparr>ct_Asterisk = False, ct_address = a\<rparr>"

definition GetLContacts :: "ua \<Rightarrow> sip_contact list" where
  "GetLContacts u = (case u_lContact u of Some c \<Rightarrow> [as_contact c] | None \<Rightarrow> [])"

definition SendUasResponse ::
  "bool \<Rightarrow> int \<Rightarrow> string \<Rightarrow> msg_body option \<Rightarrow> sip_contact list \<Rightarrow> bool \<Rightarrow> sip_header list \<Rightarrow> ua \<Rightarrow> ua" where
  "SendUasResponse via_t scode reason body contacts ack_wait hs u =
     (case u_uasResp u of
        None \<Rightarrow> u
      | Some r \<Rightarrow>
          (let rs = appendHeaders (map H_Contact contacts @ hs)
                      ((response_GetCopy r)\<lparr>rs_scode := scode, rs_reason := reason, m_body := body\<rparr>)
           in out_if (via_t \<or> u_sip_tm u) (O_response via_t rs ack_wait (u_uas_lossemul u)) u))"

text \<open>A response to a request in hand, sent on its own transaction.\<close>

definition respond :: "int \<Rightarrow> int \<Rightarrow> string \<Rightarrow> sip_request \<Rightarrow> ua \<Rightarrow> ua" where
  "respond lossemul scode reason rq u =
     (case GenResponse scode reason None (u_local_ua u) rq of
        Inr rs \<Rightarrow> out (O_response True rs False lossemul) u
      | Inl e \<Rightarrow> u)"

definition UpdateRouting :: "sip_response \<Rightarrow> bool \<Rightarrow> bool \<Rightarrow> ua \<Rightarrow> ua" where
  "UpdateRouting rs update_rtarget reverse_routes u =
     (case (if update_rtarget then
              (case m_contacts rs of
                 c # _ \<Rightarrow> (case ct_address c of Inr a \<Rightarrow> Some (Some (adr_url a)) | Inl e \<Rightarrow> None)
               | [] \<Rightarrow> Some (u_rTarget u))
            else Some (u_rTarget u)) of
        None \<Rightarrow> u
      | Some target \<Rightarrow>
          (let rts = (case u_outbound_proxy u of
                        Some hp \<Rightarrow> [Inr (NewSipAddress [] (NewSipURL [] (hp_Host hp) (Some (hp_Port hp)) True))]
                      | None \<Rightarrow> [])
                     @ (if reverse_routes then rev (m_record_routes rs) else m_record_routes rs);
               u1 = u\<lparr>u_rTarget := target, u_routes := rts\<rparr>
           in case rts of
                [] \<Rightarrow> u1\<lparr>u_rAddr := map_option (url_GetAddr (u_config u)) target\<rparr>
              | Inl e # _ \<Rightarrow> u1
              | Inr r0 # rest \<Rightarrow>
                  (if url_Lr (adr_url r0)
                   then u1\<lparr>u_rAddr := Some (url_GetAddr (u_config u) (adr_url r0))\<rparr>
                   else u1\<lparr>u_routes := rest @ (case target of Some t \<Rightarrow> [Inr (NewSipAddress [] t)] | None \<Rightarrow> []),
                           u_rTarget := Some (adr_url r0),
                           u_rAddr := Some (url_GetAddr (u_config u) (adr_url r0))\<rparr>)))"

definition OnDead :: "ua \<Rightarrow> ua" where
  "OnDead u =
     (if \<not> u_sip_tm u then u
      else
        let u1 = (case u_cId u of Some c \<Rightarrow> out (O_unreg c) u | None \<Rightarrow> u);
            u2 = u1\<lparr>u_tr := None, u_call_controller := False, u_conn_cb := False, u_fail_cb := False,
                    u_ring_cb := False, u_disc_cb := False, u_on_local_sdp_change := False,
                    u_on_remote_sdp_change := False, u_expire_timer := None,
                    u_no_progress_timer := None, u_credit_timer := None\<rparr>
        in (out_if (u_dead_cb u2) O_dead u2)\<lparr>u_dead_cb := False, u_sip_tm := False\<rparr>)"

text \<open>Leaving and entering a state.\<close>

definition OnDeactivate :: "ua_state \<Rightarrow> ua \<Rightarrow> ua" where
  "OnDeactivate s u =
     (case s of
        UaStateConnected ka \<Rightarrow>
          (let u1 = (case ka of
                       Some k \<Rightarrow> (case ka_ka_tr k of Some tr \<Rightarrow> out (O_cancel tr []) u | None \<Rightarrow> u)
                     | None \<Rightarrow> u);
               u2 = (case u_pending_tr u1 of
                       Some tr \<Rightarrow> SetPendingTr None (out (O_send_ack tr) u1)
                     | None \<Rightarrow> u1)
           in CancelExpireTimer u2)
      | UasStatePreConnect p c \<Rightarrow> CancelExpireTimer u
      | _ \<Rightarrow> u)"

definition set_state :: "ua_state \<Rightarrow> ua \<Rightarrow> ua" where
  "set_state s u = u\<lparr>u_state := Some s\<rparr>"

text \<open>The timer of the Cancelling state is started with the bare number 300, that is 300 nanoseconds.\<close>

definition OnActivation :: "ua_state \<Rightarrow> ua \<Rightarrow> ua" where
  "OnActivation s u =
     (case s of
        UacStateCancelling te \<Rightarrow> set_state (UacStateCancelling (Some 300)) u
      | UaStateConnected (Some k) \<Rightarrow> out (O_ka_timer (u_kaInterval u)) u
      | UaStateDisconnected \<Rightarrow> out (O_go_dead_timer (u_godead_timeout u)) u
      | UaStateFailed \<Rightarrow> out (O_go_dead_timer (u_godead_timeout u)) u
      | UaStateDead \<Rightarrow> out O_cleanup (OnDead u)
      | _ \<Rightarrow> u)"

definition ChangeState :: "ua_state \<Rightarrow> ua_cb option \<Rightarrow> ua \<Rightarrow> ua" where
  "ChangeState s cb u =
     (let u1 = (case u_state u of Some old \<Rightarrow> OnDeactivate old u | None \<Rightarrow> u);
          u2 = OnActivation s (set_state s u1)
      in case cb of Some c \<Rightarrow> run_cb c u2 | None \<Rightarrow> u2)"

text \<open>Constructors of states that touch the user agent, and the transition they begin.\<close>

type_synonym transition = "(ua_state \<times> ua_cb option) option"

definition stay :: "ua \<Rightarrow> ua \<times> transition" where
  "stay u = (u, None)"

definition go :: "ua_state \<Rightarrow> ua_cb option \<Rightarrow> ua \<Rightarrow> ua \<times> transition" where
  "go s cb u = (u, Some (s, cb))"

definition go_PreConnect :: "bool \<Rightarrow> ua_cb option \<Rightarrow> ua \<Rightarrow> ua \<times> transition" where
  "go_PreConnect confirm cb u = go (UasStatePreConnect None confirm) cb (SetBranch [] u)"

definition newKeepaliveController :: "ua \<Rightarrow> keepalive_controller option" where
  "newKeepaliveController u =
     (if u_kaInterval u \<le> 0 then None
      else Some \<lparr>ka_triedauth = False, ka_ka_tr = None, ka_keepalives = 0\<rparr>)"

definition go_Connected :: "ua_cb option \<Rightarrow> ua \<Rightarrow> ua \<times> transition" where
  "go_Connected cb u = go (UaStateConnected (newKeepaliveController u)) cb (SetBranch [] u)"

definition go_Disconnected :: "ua_cb option \<Rightarrow> ua \<Rightarrow> ua \<times> transition" where
  "go_Disconnected cb u = go UaStateDisconnected cb (ResetSdpChange u)"

definition go_Failed :: "ua_cb option \<Rightarrow> ua \<Rightarrow> ua \<times> transition" where
  "go_Failed cb u = go UaStateFailed cb (ResetSdpChange u)"

definition go_Cancelling :: "ua_cb option \<Rightarrow> ua \<Rightarrow> ua \<times> transition" where
  "go_Cancelling cb u = go (UacStateCancelling None) cb (ResetSdpChange u)"

text \<open>The body must pass the local SDP hook first.\<close>

definition local_sdp_pending :: "msg_body option \<Rightarrow> ua \<Rightarrow> msg_body option" where
  "local_sdp_pending body u =
     (case body of Some b \<Rightarrow> if u_on_local_sdp_change u \<and> mb_needs_update b then Some b else None
                 | None \<Rightarrow> None)"

section \<open>Matching requests, accounting\<close>

definition tag_matches :: "address_hf option \<Rightarrow> address_hf option \<Rightarrow> bool" where
  "tag_matches mine theirs =
     (case mine of
        None \<Rightarrow> True
      | Some m \<Rightarrow> (case (theirs, m) of (Some (Inr t), Inr a) \<Rightarrow> GetTag a = GetTag t | _ \<Rightarrow> False))"

definition IsYours :: "sip_request \<Rightarrow> bool \<Rightarrow> ua \<Rightarrow> bool" where
  "IsYours rq br0k3n_to u =
     (case m_vias rq of
        Inr via0 # _ \<Rightarrow>
          \<not> (rq_method rq \<noteq> ''BYE'' \<and> u_branch u \<noteq> [] \<and> u_branch u \<noteq> GetBranch via0)
          \<and> m_call_id rq = u_cId u \<and> u_cId u \<noteq> None
          \<and> tag_matches (u_rUri u) (m_from rq)
          \<and> (br0k3n_to \<or> tag_matches (u_lUri u) (m_to rq))
      | _ \<Rightarrow> False)"

text \<open>A call that was never set up has no accounting: the subtraction dereferences nil.\<close>

definition GetAcct ::
  "ua_env \<Rightarrow> monotime option \<Rightarrow> ua \<Rightarrow> (duration \<times> duration \<times> bool \<times> bool) option" where
  "GetAcct env disconnect_ts u =
     (let (dts, disconnected) = (case u_disconnect_ts u of
             Some d \<Rightarrow> (d, True)
           | None \<Rightarrow> (case disconnect_ts of Some d \<Rightarrow> (d, False) | None \<Rightarrow> (e_now env, False)))
      in case u_setup_ts u of
           None \<Rightarrow> None
         | Some s \<Rightarrow> (case u_connect_ts u of
             Some c \<Rightarrow> Some (mt_Sub dts c, mt_Sub c s, True, disconnected)
           | None \<Rightarrow> Some (0, mt_Sub dts s, False, disconnected)))"

end
