(* ===== verification/Ua_Events.thy ===== *)
theory Ua_Events
  imports Ua_Core
begin

text \<open>
  How each state of the user agent handles an event from the call controller: the \<open>RecvEvent\<close>
  methods of \<^verbatim>\<open>uas_state_*.go\<close>, \<^verbatim>\<open>uac_state_*.go\<close> and \<^verbatim>\<open>ua_state_*.go\<close>, and the
  user agent's own \<open>RecvEvent\<close> and \<open>Disconnect\<close> with the expiry handlers of its
  timers. A handler returns the user agent and either an error or the transition.
\<close>

type_synonym event_result = "ua \<times> transition result"

definition move :: "ua \<times> transition \<Rightarrow> event_result" where
  "move r = (fst r, Inr (snd r))"

definition ignore :: "ua \<Rightarrow> event_result" where
  "ignore u = (u, Inr None)"

text \<open>Hand the body to the local SDP hook when it has to be updated, else go on.\<close>

definition with_local_sdp :: "msg_body option \<Rightarrow> cc_event \<Rightarrow> ua \<Rightarrow> event_result \<Rightarrow> event_result" where
  "with_local_sdp body ev u r =
     (case local_sdp_pending body u of Some b \<Rightarrow> ignore (out (O_local_sdp b ev) u) | None \<Rightarrow> r)"

text \<open>The disconnect time is the event's unless it lies before the call's setup.\<close>

definition disconnect_at :: "ua_env \<Rightarrow> monotime \<Rightarrow> ua \<Rightarrow> ua" where
  "disconnect_at env t u =
     SetDisconnectTs (case u_setup_ts u of
                        Some s \<Rightarrow> if \<not> mt_After s t then t else e_now env
                      | None \<Rightarrow> e_now env) u"

section \<open>Called side\<close>

definition NewUasStateRingingRel :: "ua \<Rightarrow> ringing_rel" where
  "NewUasStateRingingRel u =
     \<lparr>rr_prack_received = False, rr_prack_wait = (u_lSDP u \<noteq> None), rr_pending_ev_ring = None,
      rr_pending_ev_connect = None, rr_pending_ev_update = None\<rparr>"

definition stop_no_progress :: "ua_env \<Rightarrow> monotime \<Rightarrow> ua \<Rightarrow> ua" where
  "stop_no_progress env t u =
     (if u_no_progress_timer u = None then u
      else if u_ex_mtime u = None then CancelNoProgressTimer u
      else StartExpireTimer env t (CancelNoProgressTimer u))"

definition first_p1xx :: "monotime \<Rightarrow> ua \<Rightarrow> ua" where
  "first_p1xx t u = (if u_p1xx_ts u = None then SetP1xxTs t u else u)"

definition ring_answer :: "int \<Rightarrow> string \<Rightarrow> msg_body option \<Rightarrow> int \<times> string \<times> msg_body option" where
  "ring_answer scode reason body = (if scode = 0 then (180, ''Ringing'', None) else (scode, reason, body))"

definition UasTrying_RecvEvent :: "ua_env \<Rightarrow> cc_event \<Rightarrow> ua \<Rightarrow> event_result" where
  "UasTrying_RecvEvent env ev u =
     (let eh = GetExtraHeaders ev; t = GetRtime ev; og = GetOrigin ev in
      case ev of
        CCEventRing g scode reason0 body0 \<Rightarrow>
          (if scode = 100 then ignore u
           else with_local_sdp (if scode = 0 then None else body0) ev u
             (case ring_answer scode reason0 body0 of (code, reason, body) \<Rightarrow>
               (let u1 = SetLSDP body u;
                    u2 = SendUasResponse False code reason body (GetLContacts u1) False eh u1;
                    u3 = first_p1xx t (stop_no_progress env t u2)
                in move (go (if u_pr_rel u3 then UasStateRingingRel (NewUasStateRingingRel u3)
                             else UasStateRinging) (Some (CB_ring t og code)) u3))))
      | CCEventPreConnect g code reason body \<Rightarrow>
          with_local_sdp body ev u
            (let u1 = CancelNoProgressTimer (SetLSDP body u)
             in move (go_PreConnect True None
                  (SendUasResponse False code reason body (GetLContacts u1) True eh u1)))
      | CCEventConnect g code reason body \<Rightarrow>
          with_local_sdp body ev u
            (let u1 = SetLSDP body u
             in move (go_PreConnect False (Some (CB_conn t og))
                  (SetConnectTs t (StartCreditTimer env t (CancelNoProgressTimer (CancelExpireTimer
                    (SendUasResponse False code reason body (GetLContacts u1) True eh u1)))))))
      | CCEventRedirect g addrs scode reason body \<Rightarrow>
          move (go_Failed (Some (CB_fail t og scode))
            (SetDisconnectTs t (CancelNoProgressTimer (CancelExpireTimer
              (SendUasResponse False scode reason body (redirect_GetContacts addrs) False eh u)))))
      | CCEventFail g chs scode reason warning \<Rightarrow>
          (let code = (if scode = 0 then 500 else scode)
           in move (go_Failed (Some (CB_fail t og code))
            (SetDisconnectTs t (CancelNoProgressTimer (CancelExpireTimer
              (SendUasResponse False code (if scode = 0 then ''Failed'' else reason) None [] False eh u))))))
      | CCEventDisconnect g rd \<Rightarrow>
          move (go_Disconnected (Some (CB_disc t og (u_last_scode u) None))
            (SetDisconnectTs t (CancelNoProgressTimer (CancelExpireTimer
              (SendUasResponse False 500 ''Disconnected'' None [] False eh u)))))
      | _ \<Rightarrow> ignore u)"

definition UasRinging_RecvEvent :: "ua_env \<Rightarrow> cc_event \<Rightarrow> ua \<Rightarrow> event_result" where
  "UasRinging_RecvEvent env ev u =
     (let eh = GetExtraHeaders ev; t = GetRtime ev; og = GetOrigin ev in
      case ev of
        CCEventRing g scode reason0 body0 \<Rightarrow>
          (if scode = 100 then ignore u
           else with_local_sdp (if scode = 0 then None else body0) ev u
             (case ring_answer scode reason0 body0 of (code, reason, body) \<Rightarrow>
               (let u1 = first_p1xx t (SetLSDP body u)
                in ignore (RingCb t og code
                     (SendUasResponse False code reason body (GetLContacts u1) False eh u1)))))
      | CCEventConnect g code reason body \<Rightarrow>
          with_local_sdp body ev u
            (let u1 = SetLSDP body u
             in move (go_PreConnect False (Some (CB_conn t og))
                  (SetConnectTs t (StartCreditTimer env t (CancelExpireTimer
                    (SendUasResponse False code reason body (GetLContacts u1) True eh u1))))))
      | CCEventPreConnect g code reason body \<Rightarrow>
          with_local_sdp body ev u
            (let u1 = SetLSDP body u
             in move (go_PreConnect True None
                  (SendUasResponse False code reason body (GetLContacts u1) True eh u1)))
      | CCEventRedirect g addrs scode reason body \<Rightarrow>
          move (go_Failed (Some (CB_fail t og scode))
            (SetDisconnectTs t (CancelExpireTimer
              (SendUasResponse False scode reason body (redirect_GetContacts addrs) False eh u))))
      | CCEventFail g chs scode reason warning \<Rightarrow>
          (let code = (if scode = 0 then 500 else scode)
           in move (go_Failed (Some (CB_fail t og code))
            (SetDisconnectTs t (CancelExpireTimer
              (SendUasResponse False code (if scode = 0 then ''Failed'' else reason) None [] False eh u)))))
      | CCEventDisconnect g rd \<Rightarrow>
          move (go_Disconnected (Some (CB_disc t og (u_last_scode u) None))
            (SetDisconnectTs t (CancelExpireTimer
              (SendUasResponse False 500 ''Disconnected'' None [] False eh u))))
      | _ \<Rightarrow> ignore u)"

text \<open>Ringing with reliable provisional responses: events wait for the PRACK.\<close>

definition UasRingingRel_RecvEvent :: "ua_env \<Rightarrow> ringing_rel \<Rightarrow> cc_event \<Rightarrow> ua \<Rightarrow> event_result" where
  "UasRingingRel_RecvEvent env rr ev u =
     (case ev of
        CCEventRing g scode reason body \<Rightarrow>
          (if \<not> rr_prack_received rr then
             ignore (if 100 < scode then set_state (UasStateRingingRel (rr\<lparr>rr_pending_ev_ring := Some ev\<rparr>)) u
                     else u)
           else UasRinging_RecvEvent env ev
                  (set_state (UasStateRingingRel (rr\<lparr>rr_prack_wait := (body \<noteq> None),
                                                    rr_prack_received := False\<rparr>)) u))
      | CCEventConnect g code reason body \<Rightarrow>
          (if rr_prack_wait rr \<and> \<not> rr_prack_received rr
           then ignore (set_state (UasStateRingingRel (rr\<lparr>rr_pending_ev_connect := Some ev\<rparr>)) u)
           else UasRinging_RecvEvent env ev u)
      | CCEventUpdate g body \<Rightarrow>
          ignore (set_state (UasStateRingingRel (rr\<lparr>rr_pending_ev_update := Some ev\<rparr>)) u)
      | _ \<Rightarrow> UasRinging_RecvEvent env ev u)"

definition UasUpdating_RecvEvent :: "ua_env \<Rightarrow> cc_event \<Rightarrow> ua \<Rightarrow> event_result" where
  "UasUpdating_RecvEvent env ev u =
     (let eh = GetExtraHeaders ev; t = GetRtime ev; og = GetOrigin ev in
      case ev of
        CCEventRing g scode reason0 body0 \<Rightarrow>
          (case ring_answer scode reason0 body0 of (code, reason, body) \<Rightarrow>
             with_local_sdp body ev u
               (ignore (SendUasResponse False code reason body [] False eh (SetLSDP body u))))
      | CCEventPreConnect g code reason body \<Rightarrow>
          with_local_sdp body ev u
            (let u1 = SetLSDP body u
             in move (go_PreConnect True None
                  (SendUasResponse False code reason body (GetLContacts u1) True eh u1)))
      | CCEventConnect g code reason body \<Rightarrow>
          with_local_sdp body ev u
            (let u1 = SetLSDP body u
             in move (go_PreConnect False None
                  (SendUasResponse False code reason body (GetLContacts u1) True eh u1)))
      | CCEventRedirect g addrs scode reason body \<Rightarrow>
          move (go_PreConnect False None
            (SendUasResponse False scode reason body (redirect_GetContacts addrs) True eh u))
      | CCEventFail g chs scode reason warning \<Rightarrow>
          move (go_PreConnect False None
            (SendUasResponse False (if scode = 0 then 500 else scode)
               (if scode = 0 then ''Failed'' else reason) None [] True
               (eh @ (case warning of Some w \<Rightarrow> [H_Warning w] | None \<Rightarrow> [])) (SetRSDP None u)))
      | CCEventDisconnect g rd \<Rightarrow>
          (case send_bye env eh (SendUasResponse False 487 ''Request Terminated'' None [] False eh u) of
             (u1, Inl e) \<Rightarrow> (u1, Inl e)
           | (u1, Inr _) \<Rightarrow>
               move (go_Disconnected (Some (CB_disc t og 0 None)) (SetDisconnectTs t (CancelCreditTimer u1))))
      | _ \<Rightarrow> ignore u)"

section \<open>Connected calls\<close>

text \<open>
  End a connected call: with a redirect target and REFER allowed a REFER whose answer is
  followed by BYE, else BYE, naming the target in Also.
\<close>

definition hang_up :: "ua_env \<Rightarrow> sip_address option \<Rightarrow> cc_event \<Rightarrow> ua \<Rightarrow> event_result" where
  "hang_up env redirect ev u =
     (let eh = GetExtraHeaders ev;
          sent = (case (redirect, u_useRefer u) of
             (Some a, True) \<Rightarrow>
               send_request env ''REFER'' eh
                 (\<lambda>rq. case u_lUri u of
                    Some (Inr l) \<Rightarrow> Inr (AppendHeader (H_ReferredBy (Inr (NewSipAddress [] (adr_url l))))
                                         (AppendHeader (H_ReferTo (Inr a)) rq))
                  | Some (Inl e) \<Rightarrow> Inl e
                  | None \<Rightarrow> Inl nil_panic) R_redirect_controller u
           | (Some a, False) \<Rightarrow>
               send_request env ''BYE'' eh (\<lambda>rq. Inr (AppendHeader (H_Also (Inr a)) rq)) R_none u
           | (None, _) \<Rightarrow> send_bye env eh u)
      in case sent of
           (u1, Inl e) \<Rightarrow> (u1, Inl e)
         | (u1, Inr _) \<Rightarrow>
             move (go_Disconnected (Some (CB_disc (GetRtime ev) (GetOrigin ev) 0 None))
                    (SetDisconnectTs (GetRtime ev) (CancelCreditTimer u1))))"

text \<open>The events that end a connected call; reading the target of an empty redirect panics.\<close>

definition ending_event :: "ua_env \<Rightarrow> cc_event \<Rightarrow> ua \<Rightarrow> event_result option" where
  "ending_event env ev u =
     (case ev of
        CCEventDisconnect g rd \<Rightarrow> Some (hang_up env rd ev u)
      | CCEventRedirect g addrs scode reason body \<Rightarrow>
          Some (case redirect_GetRedirectURL addrs of
                  Some a \<Rightarrow> hang_up env (Some a) ev u | None \<Rightarrow> (u, Inl nil_panic))
      | CCEventFail g chs scode reason warning \<Rightarrow> Some (hang_up env None ev u)
      | _ \<Rightarrow> None)"

definition send_info :: "ua_env \<Rightarrow> msg_body option \<Rightarrow> cc_event \<Rightarrow> ua \<Rightarrow> event_result" where
  "send_info env body ev u =
     (case send_request env ''INFO'' (GetExtraHeaders ev) (\<lambda>rq. Inr (rq\<lparr>m_body := body\<rparr>)) R_none u of
        (u1, Inl e) \<Rightarrow> (u1, Inl e)
      | (u1, Inr _) \<Rightarrow> ignore u1)"

definition UasPreConnect_RecvEvent :: "ua_env \<Rightarrow> bool \<Rightarrow> cc_event \<Rightarrow> ua \<Rightarrow> event_result" where
  "UasPreConnect_RecvEvent env confirm ev u =
     (case ev of
        CCEventUpdate g body \<Rightarrow> ignore (set_state (UasStatePreConnect (Some ev) confirm) u)
      | CCEventInfo g body \<Rightarrow> send_info env body ev u
      | _ \<Rightarrow> (case ending_event env ev u of Some r \<Rightarrow> r | None \<Rightarrow> ignore u))"

definition same_body :: "msg_body option \<Rightarrow> msg_body option \<Rightarrow> bool" where
  "same_body a b = (case (a, b) of (Some x, Some y) \<Rightarrow> body_String x = body_String y | _ \<Rightarrow> False)"

definition send_update :: "ua_env \<Rightarrow> msg_body option \<Rightarrow> sip_header list \<Rightarrow> ua \<Rightarrow> event_result" where
  "send_update env body hs u =
     (case start_invite env body None hs (SetLSDP body) (\<lambda>tr. SetClientTransaction (Some tr)) u of
        (u1, Inl e) \<Rightarrow> (u1, Inl e)
      | (u1, Inr tr) \<Rightarrow> move (go UacStateUpdating None u1))"

definition connected_update :: "ua_env \<Rightarrow> cc_generic \<Rightarrow> msg_body option \<Rightarrow> cc_event \<Rightarrow> ua \<Rightarrow> event_result" where
  "connected_update env g body ev u =
     (let t = GetRtime ev in
      if same_body (u_lSDP u) body then
        (case new_event env (Some t) (GetOrigin ev) [] u of
           (u1, g1) \<Rightarrow> ignore (Enqueue (CCEventConnect g1 200 ''OK'' (u_rSDP u)) u1))
      else case local_sdp_pending body u of
        Some b \<Rightarrow>
          (let u1 = out (O_local_sdp b ev) u in
           case e_sdp_err env of
             None \<Rightarrow> ignore u1
           | Some w \<Rightarrow> (case new_event env (Some t) [] [] u1 of
               (u2, g2) \<Rightarrow> ignore (Enqueue (CCEventFail g2 [] 400 ''Malformed SDP Body'' (Some w)) u2)))
      | None \<Rightarrow>
          (let u1 = (if body = None then SetLateMedia True u else u); eh = GetExtraHeaders ev in
           case ev_max_forwards g of
             None \<Rightarrow> send_update env body eh u1
           | Some h \<Rightarrow> (case snd (numeric_GetBody h) of
               Inl e \<Rightarrow> (u1, Inl e)
             | Inr n \<Rightarrow>
                 if n \<le> 0 then
                   (case new_event env (Some t) [] [] u1 of
                      (u2, g2) \<Rightarrow> ignore (Enqueue (CCEventFail g2 [] 483 ''Too Many Hops'' None) u2))
                 else send_update env body (eh @ [H_MaxForwards (newSipNumericHF (n - 1))]) u1)))"

definition connected_connect :: "ua_env \<Rightarrow> msg_body option \<Rightarrow> cc_event \<Rightarrow> ua \<Rightarrow> event_result" where
  "connected_connect env body ev u =
     (case u_pending_tr u of
        None \<Rightarrow> ignore u
      | Some tr \<Rightarrow>
          with_local_sdp body ev (CancelExpireTimer u)
            (let t = GetRtime ev;
                 u1 = SetLSDP body (SetConnectTs t (StartCreditTimer env t (CancelCreditTimer (CancelExpireTimer u))));
                 u2 = SetPendingTr None (out (O_send_ack tr) (out (O_ack_body tr body) u1))
             in ignore (ConnCb t (u_origin u2) u2)))"

definition Connected_RecvEvent :: "ua_env \<Rightarrow> cc_event \<Rightarrow> ua \<Rightarrow> event_result" where
  "Connected_RecvEvent env ev u =
     (case ending_event env ev u of
        Some r \<Rightarrow> r
      | None \<Rightarrow> (case ev of
          CCEventUpdate g body \<Rightarrow> connected_update env g body ev u
        | CCEventInfo g body \<Rightarrow> send_info env body ev u
        | CCEventConnect g code reason body \<Rightarrow> connected_connect env body ev u
        | _ \<Rightarrow> ignore u))"

section \<open>Calling side\<close>

fun ends_call :: "cc_event \<Rightarrow> bool" where
  "ends_call (CCEventFail _ _ _ _ _) = True"
| "ends_call (CCEventRedirect _ _ _ _ _) = True"
| "ends_call (CCEventDisconnect _ _) = True"
| "ends_call _ = False"

definition cancel_tr :: "sip_header list \<Rightarrow> ua \<Rightarrow> ua" where
  "cancel_tr hs u = (case u_tr u of Some tr \<Rightarrow> out (O_cancel tr hs) u | None \<Rightarrow> u)"

definition own_contact :: "ua \<Rightarrow> address_hf" where
  "own_contact u =
     (case u_lContact u of
        Some c \<Rightarrow> c
      | None \<Rightarrow> (case u_source_address u of
          Some a \<Rightarrow> Inr (NewSipContactFromHostPort (hp_Host a) (hp_Port a))
        | None \<Rightarrow> Inr (NewSipContact (u_config u))))"

text \<open>The timers a new outgoing call starts: the first of no-reply, no-progress and expiry.\<close>

definition set_deadlines :: "monotime \<Rightarrow> ua \<Rightarrow> ua" where
  "set_deadlines t u =
     (let ex = u_expire_time u; np = u_no_progress_time u; nr = u_no_reply_time u;
          u1 = (if 0 < ex then SetExMtime (mt_Add t ex) u else u);
          u2 = (if 0 < np \<and> (ex \<le> 0 \<or> np < ex) then SetNpMtime (mt_Add t np) u1 else u1)
      in if 0 < nr \<and> nr < 32 * second \<and> (ex \<le> 0 \<or> nr < ex) \<and> (np \<le> 0 \<or> nr < np)
         then SetNrMtime (mt_Add t nr) u2 else u2)"

definition start_first_timer :: "ua_env \<Rightarrow> monotime \<Rightarrow> ua \<Rightarrow> ua" where
  "start_first_timer env t u =
     (if u_nr_mtime u \<noteq> None then StartNoReplyTimer env u
      else if u_np_mtime u \<noteq> None then StartNoProgressTimer env u
      else if u_ex_mtime u \<noteq> None then StartExpireTimer env t u
      else u)"

text \<open>The dialog's local and remote identities; then the local contact with the caller's name.\<close>

definition UacIdle_identities :: "ua_env \<Rightarrow> try_info \<Rightarrow> host_port \<Rightarrow> ua \<Rightarrow> ua" where
  "UacIdle_identities env info rAddr0 u =
     (let cid = (case try_call_id info of Some c \<Rightarrow> c | None \<Rightarrow> e_callid env);
          target = NewSipURL (try_cld info) (hp_Host rAddr0) (Some (hp_Port rAddr0)) False;
          lurl = NewSipURL (try_cli info) (cfg_MyAddress (u_config u)) (Some (cfg_MyPort (u_config u))) False
      in SetLCSeq (GenerateSipCSeq (e_cseq_draw env))
          (ua_RegConsumer cid
            (SetLUri (Some (Inr (SetTag (u_ltag u) (NewSipAddress (try_caller_name info) (lurl\<lparr>url_Port := None\<rparr>)))))
              (SetRUri (Some (Inr (NewSipAddress [] (target\<lparr>url_Port := None\<rparr>))))
                (SetRTarget (Some target) (SetCallId (Some cid) u))))))"

definition UacIdle_prepare :: "ua_env \<Rightarrow> try_info \<Rightarrow> ua \<Rightarrow> ua \<times> unit result" where
  "UacIdle_prepare env info u =
     (case u_rAddr0 u of
        None \<Rightarrow> (SetCallId (Some (case try_call_id info of Some c \<Rightarrow> c | None \<Rightarrow> e_callid env)) u, Inl nil_panic)
      | Some rAddr0 \<Rightarrow>
          (let u1 = UacIdle_identities env info rAddr0 u in
           case own_contact u1 of
             Inl e \<Rightarrow> (SetLContact (Some (Inl e)) u1, Inl e)
           | Inr c \<Rightarrow>
               (out_if (u_on_uac_setup_complete u1) O_setup_complete
                  (SetLSDP (try_body info) (SetRoutes (try_routes info)
                    (SetLContact (Some (Inr (c\<lparr>adr_url := (adr_url c)\<lparr>url_Username := try_cli info\<rparr>\<rparr>))) u1))),
                Inr ())))"

definition keep_credentials :: "try_info \<Rightarrow> ua \<Rightarrow> ua" where
  "keep_credentials info u =
     (case (u_pass_auth u, try_auth_hdr info) of
        (True, Some h) \<Rightarrow>
          u\<lparr>u_reqs := (u_reqs u)(u_lCSeq u - 1 := map_option (AppendHeader h) (u_reqs u (u_lCSeq u - 1)))\<rparr>
      | _ \<Rightarrow> u)"

definition UacIdle_try :: "ua_env \<Rightarrow> cc_generic \<Rightarrow> try_info \<Rightarrow> cc_event \<Rightarrow> ua \<Rightarrow> event_result" where
  "UacIdle_try env g info ev u =
     (let t = GetRtime ev;
          u1 = SetOrigin ''callee'' (if u_setup_ts u = None then SetSetupTs t u else u)
      in with_local_sdp (try_body info) ev u1
          (case UacIdle_prepare env info (if try_body info = None then SetLateMedia True u1 else u1) of
             (u2, Inl e) \<Rightarrow> (u2, Inl e)
           | (u2, Inr _) \<Rightarrow>
               (let eh = GetExtraHeaders ev
                       @ (case ev_max_forwards g of Some h \<Rightarrow> [H_MaxForwards h] | None \<Rightarrow> [])
                in case start_invite env (try_body info) None eh (\<lambda>v. v)
                          (\<lambda>tr. SetClientTransaction (Some tr)) u2 of
                     (u3, Inl e) \<Rightarrow> (u3, Inl e)
                   | (u3, Inr tr) \<Rightarrow>
                       move (go UacStateTrying None
                         (start_first_timer env t (set_deadlines t (keep_credentials info u3)))))))"

definition UacIdle_RecvEvent :: "ua_env \<Rightarrow> cc_event \<Rightarrow> ua \<Rightarrow> event_result" where
  "UacIdle_RecvEvent env ev u =
     (case ev of
        CCEventTry g info \<Rightarrow> UacIdle_try env g info ev u
      | _ \<Rightarrow> if ends_call ev
             then move (go_Disconnected (Some (CB_disc (GetRtime ev) (GetOrigin ev) 0 None))
                    (disconnect_at env (GetRtime ev) u))
             else ignore u)"

definition UacTrying_RecvEvent :: "ua_env \<Rightarrow> cc_event \<Rightarrow> ua \<Rightarrow> event_result" where
  "UacTrying_RecvEvent env ev u =
     (if ends_call ev then
        move (go_Cancelling (Some (CB_disc (GetRtime ev) (GetOrigin ev) (u_last_scode u) None))
          (disconnect_at env (GetRtime ev)
            (CancelNoReplyTimer (CancelNoProgressTimer (CancelExpireTimer
              (cancel_tr (GetExtraHeaders ev) u))))))
      else ignore u)"

definition UacRinging_RecvEvent :: "ua_env \<Rightarrow> cc_event \<Rightarrow> ua \<Rightarrow> event_result" where
  "UacRinging_RecvEvent env ev u =
     (if ends_call ev then
        move (go_Cancelling (Some (CB_disc (GetRtime ev) (GetOrigin ev) (u_last_scode u) None))
          (disconnect_at env (GetRtime ev) (CancelExpireTimer (cancel_tr [] u))))
      else ignore u)"

definition UacUpdating_RecvEvent :: "ua_env \<Rightarrow> cc_event \<Rightarrow> ua \<Rightarrow> event_result" where
  "UacUpdating_RecvEvent env ev u =
     (if ends_call ev then
        (case send_bye env (GetExtraHeaders ev) (cancel_tr [] u) of
           (u1, Inl e) \<Rightarrow> (u1, Inl e)
         | (u1, Inr _) \<Rightarrow>
             move (go_Disconnected (Some (CB_disc (GetRtime ev) (GetOrigin ev) 0 None))
                    (SetDisconnectTs (GetRtime ev) (CancelCreditTimer u1))))
      else ignore u)"

section \<open>The user agent\<close>

definition state_RecvEvent :: "ua_env \<Rightarrow> ua_state \<Rightarrow> cc_event \<Rightarrow> ua \<Rightarrow> event_result" where
  "state_RecvEvent env s ev u =
     (case s of
        UasStateTrying \<Rightarrow> UasTrying_RecvEvent env ev u
      | UasStateRinging \<Rightarrow> UasRinging_RecvEvent env ev u
      | UasStateRingingRel rr \<Rightarrow> UasRingingRel_RecvEvent env rr ev u
      | UasStatePreConnect p confirm \<Rightarrow> UasPreConnect_RecvEvent env confirm ev u
      | UasStateUpdating \<Rightarrow> UasUpdating_RecvEvent env ev u
      | UacStateIdle \<Rightarrow> UacIdle_RecvEvent env ev u
      | UacStateTrying \<Rightarrow> UacTrying_RecvEvent env ev u
      | UacStateRinging \<Rightarrow> UacRinging_RecvEvent env ev u
      | UacStateUpdating \<Rightarrow> UacUpdating_RecvEvent env ev u
      | UaStateConnected k \<Rightarrow> Connected_RecvEvent env ev u
      | _ \<Rightarrow> ignore u)"

definition apply_transition :: "ua \<times> transition \<Rightarrow> ua" where
  "apply_transition r = (case snd r of Some (s, cb) \<Rightarrow> ChangeState s cb (fst r) | None \<Rightarrow> fst r)"

fun starts_call :: "cc_event \<Rightarrow> bool" where
  "starts_call (CCEventTry _ _) = True"
| "starts_call (CCEventFail _ _ _ _ _) = True"
| "starts_call (CCEventDisconnect _ _) = True"
| "starts_call _ = False"

definition ua_RecvEvent :: "ua_env \<Rightarrow> cc_event \<Rightarrow> ua \<Rightarrow> ua" where
  "ua_RecvEvent env ev u =
     (if u_state u = None \<and> \<not> starts_call ev then u
      else
        let u1 = (if u_state u = None then ChangeState UacStateIdle None u else u) in
        case u_state u1 of
          None \<Rightarrow> u1
        | Some s \<Rightarrow>
            (case state_RecvEvent env s ev u1 of
               (u2, Inl e) \<Rightarrow> u2
             | (u2, Inr tr) \<Rightarrow> emitPendingEvents (apply_transition (u2, tr))))"

text \<open>\<open>Disconnect\<close> queues one event for the controller and handles another one like it.\<close>

definition ua_Disconnect :: "ua_env \<Rightarrow> monotime option \<Rightarrow> string \<Rightarrow> ua \<Rightarrow> ua" where
  "ua_Disconnect env rtime origin u =
     (if \<not> u_sip_tm u then u
      else
        let t = (case rtime of Some t \<Rightarrow> t | None \<Rightarrow> e_now env) in
        case new_event env (Some t) origin [] u of
          (u1, g1) \<Rightarrow>
            (case new_event env (Some t) origin [] (Enqueue (CCEventDisconnect g1 None) u1) of
               (u2, g2) \<Rightarrow> ua_RecvEvent env (CCEventDisconnect g2 None) u2))"

definition expires :: "ua_env \<Rightarrow> ua \<Rightarrow> ua" where
  "expires env u = ua_Disconnect env None [] (CancelExpireTimer u)"

definition no_progress_expires :: "ua_env \<Rightarrow> ua \<Rightarrow> ua" where
  "no_progress_expires env u = ua_Disconnect env None [] (CancelNoProgressTimer u)"

definition no_reply_expires :: "ua_env \<Rightarrow> ua \<Rightarrow> ua" where
  "no_reply_expires env u = ua_Disconnect env None [] (CancelNoReplyTimer u)"

definition credit_expires :: "ua_env \<Rightarrow> monotime \<Rightarrow> ua \<Rightarrow> ua" where
  "credit_expires env rtime u = ua_Disconnect env (Some rtime) [] (CancelCreditTimer u)"

definition ResetCreditTime :: "ua_env \<Rightarrow> monotime \<Rightarrow> (int \<times> monotime) list \<Rightarrow> ua \<Rightarrow> ua" where
  "ResetCreditTime env rtime new_times u =
     (let u1 = u\<lparr>u_credit_times := fold (\<lambda>(k, v). credit_put k v) new_times (u_credit_times u)\<rparr>
      in if ua_isConnected u1 then StartCreditTimer env rtime (CancelCreditTimer u1) else u1)"

end
