(* ===== verification/Ua_Messages.thy ===== *)
theory Ua_Messages
  imports Ua_Events
begin

text \<open>
  How the user agent handles SIP messages: the \<open>RecvRequest\<close>, \<open>RecvResponse\<close>, \<open>RecvACK\<close>,
  \<open>RecvPRACK\<close> and \<open>RecvCancel\<close> methods of the states and of \<^verbatim>\<open>ua.go\<close>, the keep-alive and
  redirect controllers, authentication challenges, and the continuations of the SDP hooks.
\<close>

definition rtime_of :: "ua_env \<Rightarrow> 'a sip_msg_scheme \<Rightarrow> monotime" where
  "rtime_of env m = (case m_rtime m of Some t \<Rightarrow> t | None \<Rightarrow> e_now env)"

text \<open>Queue a disconnect event with the reason of the message that caused it.\<close>

definition enqueue_disconnect ::
  "ua_env \<Rightarrow> sip_address option \<Rightarrow> monotime \<Rightarrow> sip_reason option \<Rightarrow> ua \<Rightarrow> ua" where
  "enqueue_disconnect env also_addr t reason u =
     (case new_event env (Some t) (u_origin u) [] u of
        (u1, g) \<Rightarrow> Enqueue (CCEventDisconnect (SetReason reason g) also_addr) u1)"

text \<open>
  A body from the peer: with a remote SDP hook it is handed over and the event waits for
  the hook's continuation, else it is stored and the event queued.
\<close>

definition take_remote_sdp :: "msg_body option \<Rightarrow> cc_event \<Rightarrow> (ua \<Rightarrow> ua) \<Rightarrow> (ua \<Rightarrow> ua) \<Rightarrow> ua \<Rightarrow> ua" where
  "take_remote_sdp body ev hooked stored u =
     (case body of
        None \<Rightarrow> stored (Enqueue ev (SetRSDP None u))
      | Some b \<Rightarrow> if u_on_remote_sdp_change u then hooked (out (O_remote_sdp b ev) u)
                  else stored (Enqueue ev (SetRSDP (Some b) u)))"

section \<open>Requests in the early states\<close>

definition UasIdle_timers :: "ua_env \<Rightarrow> monotime \<Rightarrow> monotime \<Rightarrow> ua \<Rightarrow> ua" where
  "UasIdle_timers env ev_t rq_t u =
     (let ex = u_expire_time u; np = u_no_progress_time u;
          u1 = (if 0 < ex then SetExMtime (mt_Add ev_t ex) u else u);
          u2 = (if 0 < np \<and> (ex \<le> 0 \<or> np < ex) then SetNpMtime (mt_Add ev_t np) u1 else u1)
      in if u_np_mtime u2 \<noteq> None then StartNoProgressTimer env u2
         else if u_ex_mtime u2 \<noteq> None then StartExpireTimer env rq_t u2 else u2)"

definition GetSipAuthorizationHF :: "sip_request \<Rightarrow> sip_header option" where
  "GetSipAuthorizationHF rq =
     (case m_sip_authorization rq of
        Some a \<Rightarrow> Some (H_Authorization a)
      | None \<Rightarrow> (case m_sip_proxy_authorization rq of
          Some a \<Rightarrow> Some (H_ProxyAuthorization a) | None \<Rightarrow> None))"

fun auth_parses :: "sip_header option \<Rightarrow> bool" where
  "auth_parses (Some (H_Authorization (Inl e))) = False"
| "auth_parses (Some (H_ProxyAuthorization (Inl e))) = False"
| "auth_parses _ = True"

text \<open>The dialog's identities, from the 100 response, which gets the local tag after it was sent.\<close>

definition UasIdle_dialog :: "sip_response \<Rightarrow> sip_address \<Rightarrow> sip_address \<Rightarrow> ua \<Rightarrow> ua" where
  "UasIdle_dialog rs tob fromb u =
     (let tagged = SetTag (u_ltag u) tob;
          u1 = SetCallId (m_call_id rs) (SetRUri (Some (Inr fromb)) (SetLUri (Some (Inr tagged))
                 (SetUasResp (Some (set_To (Inr tagged) rs)) u)))
      in case m_call_id rs of Some c \<Rightarrow> ua_RegConsumer c u1 | None \<Rightarrow> u1)"

definition UasIdle_try :: "ua_env \<Rightarrow> sip_request \<Rightarrow> sip_address \<Rightarrow> ua \<Rightarrow> ua \<times> transition" where
  "UasIdle_try env rq fromb u =
     (case m_vias rq of
        Inr via0 # _ \<Rightarrow>
          (let u1 = SetBranch (GetBranch via0) u; auth = GetSipAuthorizationHF rq in
           if \<not> auth_parses auth then stay u1
           else case new_event env (m_rtime rq) (u_origin u1) [] u1 of
             (u2, g) \<Rightarrow>
               (let ev = CCEventTry (SetMaxForwards (m_maxforwards rq) (SetReason (m_reason_hf rq) g))
                           \<lparr>try_call_id = u_cId u2, try_cli = url_Username (adr_url fromb),
                            try_cld = url_Username (rq_ruri rq), try_caller_name = adr_name fromb,
                            try_auth_hdr = auth, try_body = m_body rq, try_routes = []\<rparr>;
                    u3 = UasIdle_timers env (ev_rtime g) (rtime_of env rq) u2;
                    fin = SetSetupTs (rtime_of env rq)
                in go UasStateTrying None (take_remote_sdp (m_body rq) ev fin fin u3)))
      | _ \<Rightarrow> stay u)"

definition UasIdle_RecvRequest :: "ua_env \<Rightarrow> sip_request \<Rightarrow> ua \<Rightarrow> ua \<times> transition" where
  "UasIdle_RecvRequest env rq u =
     (if rq_method rq \<noteq> ''INVITE'' then stay u
      else case GenResponse 100 ''Trying'' None (u_local_ua u) rq of
        Inl e \<Rightarrow> stay (SetOrigin ''caller'' u)
      | Inr rs \<Rightarrow>
          (let u0 = SetUasResp (Some rs) (SetOrigin ''caller'' u);
               u1 = SetLContact (Some (own_contact u0)) (SetLCSeq (GenerateSipCSeq (e_cseq_draw env)) u0)
           in case m_contacts rq of
                c # _ \<Rightarrow> (case ct_address c of
                    Inl e \<Rightarrow> stay u1
                  | Inr a \<Rightarrow>
                      (let u2 = UpdateRouting rs False False (SetRTarget (Some (adr_url a)) u1);
                           u3 = out (O_response True rs False 0) (SetRAddr0 (u_rAddr u2) u2)
                       in case (m_to rs, m_from rs) of
                            (Some (Inr tob), Some (Inr fromb)) \<Rightarrow>
                              UasIdle_try env rq fromb (UasIdle_dialog rs tob fromb u3)
                          | (Some (Inr tob), _) \<Rightarrow>
                              stay (SetUasResp (Some (set_To (Inr (SetTag (u_ltag u3) tob)) rs)) u3)
                          | _ \<Rightarrow> stay u3))
              | [] \<Rightarrow> stay u1))"

text \<open>A BYE that ends the call: both answers, the event, the disconnect time.\<close>

definition UasRinging_RecvRequest :: "ua_env \<Rightarrow> sip_request \<Rightarrow> ua \<Rightarrow> ua \<times> transition" where
  "UasRinging_RecvRequest env rq u =
     (if rq_method rq = ''BYE'' then
        (let u1 = respond (u_uas_lossemul u) 200 ''OK'' rq
                    (SendUasResponse True 487 ''Request Terminated'' None [] False [] u);
             t = rtime_of env rq;
             fin = (\<lambda>also_addr. go_Disconnected (Some (CB_disc t (u_origin u1) 0 (Some rq)))
                     (SetDisconnectTs t (CancelExpireTimer
                       (enqueue_disconnect env also_addr t (m_reason_hf rq) u1))))
         in case m_also rq of
              [] \<Rightarrow> fin None
            | Inr a # _ \<Rightarrow> fin (Some a)
            | Inl e # _ \<Rightarrow> stay u1)
      else stay u)"

section \<open>Requests in a connected call\<close>

text \<open>INVITE, BYE and REFER while an answer or an update is under way.\<close>

definition busy_RecvRequest ::
  "ua_env \<Rightarrow> int \<Rightarrow> string \<Rightarrow> sip_request \<Rightarrow> ua \<Rightarrow> ua \<times> transition" where
  "busy_RecvRequest env bye_code bye_reason rq u =
     (let t = rtime_of env rq; l = u_uas_lossemul u in
      if rq_method rq = ''INVITE'' then stay (respond l 491 ''Request Pending'' rq u)
      else if rq_method rq = ''BYE'' then
        (let u1 = respond l 200 ''OK'' rq (SendUasResponse True bye_code bye_reason None [] False [] u)
         in go_Disconnected (Some (CB_disc t (u_origin u1) 0 (Some rq)))
              (SetDisconnectTs t (CancelCreditTimer (enqueue_disconnect env None t (m_reason_hf rq) u1))))
      else if rq_method rq = ''REFER'' then
        (case m_refer_to rq of
           None \<Rightarrow> stay (respond l 400 ''Bad Request'' rq u)
         | Some r \<Rightarrow>
             (let u1 = respond l 202 ''Accepted'' rq
                         (SendUasResponse True 487 ''Request Terminated'' None [] False [] u)
              in case r of
                   Inl e \<Rightarrow> stay u1
                 | Inr a \<Rightarrow>
                     go_Disconnected (Some (CB_disc t (u_origin u1) 0 (Some rq)))
                       (SetDisconnectTs t (CancelCreditTimer (enqueue_disconnect env (Some a) t None u1)))))
      else stay u)"

definition UasUpdating_RecvRequest :: "ua_env \<Rightarrow> sip_request \<Rightarrow> ua \<Rightarrow> ua \<times> transition" where
  "UasUpdating_RecvRequest env rq u = busy_RecvRequest env 487 ''Request Terminated'' rq u"

definition UasPreConnect_RecvRequest :: "ua_env \<Rightarrow> sip_request \<Rightarrow> ua \<Rightarrow> ua \<times> transition" where
  "UasPreConnect_RecvRequest env rq u = busy_RecvRequest env 200 ''OK'' rq u"

definition UacUpdating_RecvRequest :: "ua_env \<Rightarrow> sip_request \<Rightarrow> ua \<Rightarrow> ua \<times> transition" where
  "UacUpdating_RecvRequest env rq u =
     (let t = rtime_of env rq in
      if rq_method rq = ''INVITE'' then stay (respond 0 491 ''Request Pending'' rq u)
      else if rq_method rq = ''BYE'' then
        (let u1 = respond 0 200 ''OK'' rq (cancel_tr [] u)
         in go_Disconnected (Some (CB_disc t (u_origin u1) 0 None))
              (SetDisconnectTs t (CancelCreditTimer (enqueue_disconnect env None t (m_reason_hf rq) u1))))
      else stay u)"

definition connected_REFER :: "ua_env \<Rightarrow> sip_request \<Rightarrow> ua \<Rightarrow> ua \<times> transition" where
  "connected_REFER env rq u =
     (case m_refer_to rq of
        None \<Rightarrow> stay (respond 0 400 ''Bad Request'' rq u)
      | Some r \<Rightarrow>
          (let u1 = respond 0 202 ''Accepted'' rq u; t = rtime_of env rq in
           case r of
             Inl e \<Rightarrow> stay u1
           | Inr a \<Rightarrow>
               (case new_event env (Some t) (u_origin u1) [] (enqueue_disconnect env (Some a) t None u1) of
                  (u2, g) \<Rightarrow> stay (ua_RecvEvent env (CCEventDisconnect g None) u2))))"

definition connected_INVITE :: "ua_env \<Rightarrow> sip_request \<Rightarrow> ua \<Rightarrow> ua \<times> transition" where
  "connected_INVITE env rq u =
     (case GenResponse 100 ''Trying'' None (u_local_ua u) rq of
        Inl e \<Rightarrow> stay u
      | Inr rs \<Rightarrow>
          (let u1 = out (O_response True rs False 0) (SetUasResp (Some rs) u) in
           if same_body (m_body rq) (u_rSDP u1)
           then stay (SendUasResponse True 200 ''OK'' (u_lSDP u1) (GetLContacts u1) False [] u1)
           else case new_event env (m_rtime rq) (u_origin u1) [] u1 of
             (u2, g) \<Rightarrow>
               (let ev = CCEventUpdate (SetMaxForwards (m_maxforwards rq) (SetReason (m_reason_hf rq) g)) (m_body rq)
                in go UasStateUpdating None
                     (take_remote_sdp (m_body rq) ev (\<lambda>v. v) (\<lambda>v. v) (out (O_reinvite rq ev) u2)))))"

definition connected_BYE :: "ua_env \<Rightarrow> sip_request \<Rightarrow> ua \<Rightarrow> ua \<times> transition" where
  "connected_BYE env rq u =
     (let u1 = respond 0 200 ''OK'' rq u; t = rtime_of env rq;
          fin = (\<lambda>also_addr. go_Disconnected (Some (CB_disc t (u_origin u1) 0 (Some rq)))
                  (SetDisconnectTs t (CancelCreditTimer
                    (enqueue_disconnect env also_addr t (m_reason_hf rq) u1))))
      in case m_also rq of
           [] \<Rightarrow> fin None
         | Inr a # _ \<Rightarrow> fin (Some a)
         | Inl e # _ \<Rightarrow> stay u1)"

definition connected_INFO :: "ua_env \<Rightarrow> sip_request \<Rightarrow> ua \<Rightarrow> ua \<times> transition" where
  "connected_INFO env rq u =
     (case new_event env (m_rtime rq) (u_origin u) [] (respond 0 200 ''OK'' rq u) of
        (u1, g) \<Rightarrow> stay (Enqueue (CCEventInfo (SetReason (m_reason_hf rq) g) (m_body rq)) u1))"

definition Connected_RecvRequest :: "ua_env \<Rightarrow> sip_request \<Rightarrow> ua \<Rightarrow> ua \<times> transition" where
  "Connected_RecvRequest env rq u =
     (if rq_method rq = ''REFER'' then connected_REFER env rq u
      else if rq_method rq = ''INVITE'' then connected_INVITE env rq u
      else if rq_method rq = ''BYE'' then connected_BYE env rq u
      else if rq_method rq = ''INFO'' then connected_INFO env rq u
      else if rq_method rq = ''OPTIONS'' \<or> rq_method rq = ''UPDATE''
      then stay (respond 0 200 ''OK'' rq u)
      else stay u)"

definition Disconnected_RecvRequest :: "sip_request \<Rightarrow> ua \<Rightarrow> ua \<times> transition" where
  "Disconnected_RecvRequest rq u =
     stay (if rq_method rq = ''BYE'' then respond 0 200 ''OK'' rq u
           else respond 0 500 ''Disconnected'' rq u)"

definition state_RecvRequest :: "ua_env \<Rightarrow> ua_state \<Rightarrow> sip_request \<Rightarrow> ua \<Rightarrow> ua \<times> transition" where
  "state_RecvRequest env s rq u =
     (case s of
        UasStateIdle \<Rightarrow> UasIdle_RecvRequest env rq u
      | UasStateRinging \<Rightarrow> UasRinging_RecvRequest env rq u
      | UasStateRingingRel rr \<Rightarrow> UasRinging_RecvRequest env rq u
      | UasStatePreConnect p c \<Rightarrow> UasPreConnect_RecvRequest env rq u
      | UasStateUpdating \<Rightarrow> UasUpdating_RecvRequest env rq u
      | UacStateUpdating \<Rightarrow> UacUpdating_RecvRequest env rq u
      | UaStateConnected k \<Rightarrow> Connected_RecvRequest env rq u
      | UaStateDisconnected \<Rightarrow> Disconnected_RecvRequest rq u
      | _ \<Rightarrow> stay u)"

text \<open>
  The user agent's entry point for requests. A request whose CSeq does not exceed the last one
  is answered 500 through the returned context; a first INVITE without a body that
  requires 100rel is refused.
\<close>

definition requires_100rel :: "sip_request \<Rightarrow> bool" where
  "requires_100rel rq = list_ex (\<lambda>r. HasTag r ''100rel'') (m_sip_require rq)"

definition context_of :: "sip_response result \<Rightarrow> ua_context option" where
  "context_of rs = (case rs of
     Inr r \<Rightarrow> Some \<lparr>uc_response = Some r, uc_cancel_cb = None, uc_noack_cb = None\<rparr> | Inl e \<Rightarrow> None)"

definition first_request :: "ua_env \<Rightarrow> sip_request \<Rightarrow> server_transaction \<Rightarrow> ua \<Rightarrow> ua" where
  "first_request env rq t u =
     (let t1 = (if m_body rq \<noteq> None then Setup100rel rq t else t);
          u1 = out_if (m_body rq \<noteq> None) O_setup_100rel u
      in ChangeState UasStateIdle None (u1\<lparr>u_pr_rel := st_pr_rel t1\<rparr>))"

definition handle_request :: "ua_env \<Rightarrow> sip_request \<Rightarrow> ua \<Rightarrow> ua \<times> ua_context option" where
  "handle_request env rq u =
     (case u_state u of
        None \<Rightarrow> (u, None)
      | Some s \<Rightarrow>
          (case state_RecvRequest env s rq u of
             (u1, tr) \<Rightarrow>
               (let u2 = emitPendingEvents (apply_transition (u1, tr)) in
                if tr \<noteq> None \<and> rq_method rq = ''INVITE''
                then (out_if (u_pr_rel u2) O_prack_cbs u2,
                      Some \<lparr>uc_response = None, uc_cancel_cb = Some (u_ref u2), uc_noack_cb = Some (u_ref u2)\<rparr>)
                else (u2, None))))"

definition ua_RecvRequest ::
  "ua_env \<Rightarrow> sip_request \<Rightarrow> server_transaction \<Rightarrow> ua \<Rightarrow> ua \<times> ua_context option" where
  "ua_RecvRequest env rq t u =
     (let u1 = (if u_remote_ua u = [] then update_ua rq u else u) in
      case m_cseq rq of
        Some (Inr c) \<Rightarrow>
          if u_rCSeq u1 \<noteq> -1 \<and> CSeq_num c \<le> u_rCSeq u1
          then (u1, context_of (GenResponse 500 ''Server Internal Error'' None (u_local_ua u1) rq))
          else
            (let u2 = u1\<lparr>u_rCSeq := CSeq_num c\<rparr> in
             if u_state u2 \<noteq> None then handle_request env rq u2
             else if rq_method rq \<noteq> ''INVITE'' then (u2, None)
             else if m_body rq = None \<and> requires_100rel rq
             then (u2, map_option (\<lambda>c. c\<lparr>uc_response := map_option
                         (AppendHeader (H_Generic ''Unsupported'' ''100rel'')) (uc_response c)\<rparr>)
                       (context_of (GenResponse 420 ''Bad Extension'' None (u_local_ua u2) rq)))
             else handle_request env rq (first_request env rq t u2))
      | _ \<Rightarrow> (u1, context_of (GenResponse 500 ''Server Internal Error'' None (u_local_ua u1) rq)))"

section \<open>Responses on the calling side\<close>

text \<open>Acknowledge a reliable provisional response; False when the response is to be ignored.\<close>

definition send_prack :: "ua_env \<Rightarrow> sip_response \<Rightarrow> client_transaction \<Rightarrow> ua \<Rightarrow> ua \<times> bool" where
  "send_prack env rs tr u =
     (case m_rseq rs of
        None \<Rightarrow> (u, True)
      | Some rseq \<Rightarrow>
          (let u1 = out (O_check_rseq (tx_ref tr) rseq) u in
           if \<not> fst (CheckRSeq rseq tr) then (u1, False)
           else case (m_to rs, u_rUri u1) of
             (Some (Inr tob), Some (Inr ruri)) \<Rightarrow>
               (let u2 = SetRUri (Some (Inr (SetTag (GetTag tob) ruri))) u1 in
                case m_cseq rs of
                  Some (Inr c) \<Rightarrow>
                    (case send_request env ''PRACK'' []
                            (\<lambda>rq. Inr (AppendHeader (H_RAck (Inr \<lparr>RAck_CSeq = CSeq_num c,
                               RAck_RSeq = Number rseq, RAck_Method = CSeq_Method c\<rparr>)) rq)) R_none u2 of
                       (u3, Inl e) \<Rightarrow> (u3, False)
                     | (u3, Inr _) \<Rightarrow> (u3, True))
                | _ \<Rightarrow> (u2, False))
           | _ \<Rightarrow> (u1, False)))"

text \<open>A 200 without a To tag: BYE and failure.\<close>

definition tagless_answer :: "ua_env \<Rightarrow> sip_response \<Rightarrow> int \<Rightarrow> ua \<Rightarrow> ua \<times> transition" where
  "tagless_answer env rs fail_code u =
     (let t = rtime_of env rs in
      case new_event env (Some t) (u_origin u) [] u of
        (u1, g) \<Rightarrow>
          (case send_bye env [] (Enqueue (CCEventFail g [] 502 ''Bad Gateway'' None) u1) of
             (u2, Inl e) \<Rightarrow> stay u2
           | (u2, Inr _) \<Rightarrow>
               go_Failed (Some (CB_fail t (u_origin u2) fail_code)) (disconnect_at env t u2)))"

text \<open>
  The 200 that answers the call. Without late media the call is connected now; with late
  media and a body the ACK is held back until the controller gives the local body.
\<close>

definition answered ::
  "ua_env \<Rightarrow> bool \<Rightarrow> sip_response \<Rightarrow> client_transaction \<Rightarrow> string \<Rightarrow> sip_address \<Rightarrow> ua \<Rightarrow> ua \<times> transition" where
  "answered env from_trying rs tr tag ruri u =
     (let t = rtime_of env rs; u1 = SetRUri (Some (Inr (SetTag tag ruri))) u in
      case new_event env (Some t) (u_origin u1) [] u1 of
        (u2, g) \<Rightarrow>
          (if \<not> u_late_media u \<or> m_body rs = None then
             go_Connected (Some (CB_conn t (u_origin u2)))
               (take_remote_sdp (m_body rs) (CCEventConnect g (rs_scode rs) (rs_reason rs) (m_body rs))
                  (if from_trying then SetConnectTs t else (\<lambda>v. v)) (\<lambda>v. v)
                  (SetConnectTs t (StartCreditTimer env t (SetLateMedia False u2))))
           else
             go_Connected None
               (take_remote_sdp (m_body rs) (CCEventPreConnect g (rs_scode rs) (rs_reason rs) (m_body rs))
                  (if from_trying then SetConnectTs t else (\<lambda>v. v)) (\<lambda>v. v)
                  (SetPendingTr (Some (tx_ref tr)) (out (O_set_uack (tx_ref tr)) u2)))))"

definition answer_2xx ::
  "ua_env \<Rightarrow> bool \<Rightarrow> sip_response \<Rightarrow> client_transaction \<Rightarrow> ua \<Rightarrow> ua \<times> transition" where
  "answer_2xx env from_trying rs tr u =
     (case m_to rs of
        Some (Inr tob) \<Rightarrow>
          (if GetTag tob = [] then tagless_answer env rs (if from_trying then rs_scode rs else 502) u
           else case u_rUri u of
             Some (Inr ruri) \<Rightarrow> answered env from_trying rs tr (GetTag tob) ruri u
           | _ \<Rightarrow> stay u)
      | _ \<Rightarrow> stay u)"

text \<open>The event for a final response that is not 2xx: a redirect with its addresses, or a failure.\<close>

definition redirect_addresses :: "sip_response \<Rightarrow> sip_address list option result" where
  "redirect_addresses rs =
     (if m_contacts rs = [] then Inr None
      else if rs_scode rs = 301 \<or> rs_scode rs = 302 then
        bind_result (ct_address (hd (m_contacts rs))) (\<lambda>a. Inr (Some [a]))
      else if rs_scode rs = 300 then
        bind_result (map_result ct_address (m_contacts rs)) (\<lambda>as. Inr (Some as))
      else Inr None)"

definition passed_challenges :: "bool \<Rightarrow> sip_response \<Rightarrow> sip_header list" where
  "passed_challenges pass_auth rs =
     (if pass_auth \<and> rs_scode rs = 401 then map H_WWWAuthenticate (m_sip_www_authenticates rs)
      else if pass_auth \<and> rs_scode rs = 407 then map H_ProxyAuthenticate (m_sip_proxy_authenticates rs)
      else [])"

definition rejection_event ::
  "ua_env \<Rightarrow> sip_header list \<Rightarrow> sip_response \<Rightarrow> ua \<Rightarrow> (ua \<times> cc_event \<times> bool) option" where
  "rejection_event env challenges rs u =
     (case redirect_addresses rs of
        Inl e \<Rightarrow> None
      | Inr a \<Rightarrow>
          (case new_event env (Some (rtime_of env rs)) (u_origin u) [] u of
             (u1, g) \<Rightarrow> Some (u1, case a of
                 Some addrs \<Rightarrow> (CCEventRedirect g addrs (rs_scode rs) (rs_reason rs) (m_body rs), True)
               | None \<Rightarrow> (CCEventFail (SetReason (m_reason_hf rs) g) challenges (rs_scode rs) (rs_reason rs) None,
                          False))))"

definition rejected :: "ua_env \<Rightarrow> sip_header list \<Rightarrow> sip_response \<Rightarrow> ua \<Rightarrow> ua \<times> transition" where
  "rejected env challenges rs u =
     (case rejection_event env challenges rs u of
        None \<Rightarrow> stay u
      | Some (u1, ev, _) \<Rightarrow>
          (let t = rtime_of env rs
           in go_Failed (Some (CB_fail t (u_origin u1) (rs_scode rs))) (disconnect_at env t (Enqueue ev u1))))"

definition trying_timers :: "ua_env \<Rightarrow> sip_response \<Rightarrow> ua \<Rightarrow> ua" where
  "trying_timers env rs u =
     (if u_no_reply_timer u = None then u
      else
        let u1 = CancelNoReplyTimer u in
        if rs_scode rs = 100 \<and> u_np_mtime u1 \<noteq> None then StartNoProgressTimer env u1
        else if rs_scode rs < 200 \<and> u_ex_mtime u1 \<noteq> None then StartExpireTimer env (rtime_of env rs) u1
        else u1)"

definition progress_timers :: "ua_env \<Rightarrow> sip_response \<Rightarrow> ua \<Rightarrow> ua" where
  "progress_timers env rs u =
     (if u_no_progress_timer u = None then u
      else
        let u1 = CancelNoProgressTimer u in
        if rs_scode rs < 200 \<and> u_ex_mtime u1 \<noteq> None then StartExpireTimer env (rtime_of env rs) u1 else u1)"

definition ring_event :: "ua_env \<Rightarrow> sip_response \<Rightarrow> ua \<Rightarrow> ua \<times> cc_event" where
  "ring_event env rs u =
     (case new_event env (Some (rtime_of env rs)) (u_origin u) [] u of
        (u1, g) \<Rightarrow> (u1, CCEventRing g (rs_scode rs) (rs_reason rs) (m_body rs)))"

definition UacTrying_RecvResponse ::
  "ua_env \<Rightarrow> sip_response \<Rightarrow> client_transaction \<Rightarrow> ua \<Rightarrow> ua \<times> transition" where
  "UacTrying_RecvResponse env rs tr u =
     (let code = rs_scode rs; t = rtime_of env rs; u1 = trying_timers env rs (SetLastScode code u) in
      if code = 100 then
        (case ring_event env rs (SetP100Ts t u1) of (u2, ev) \<Rightarrow> stay (Enqueue ev u2))
      else case send_prack env rs tr (progress_timers env rs u1) of
        (u2, False) \<Rightarrow> stay u2
      | (u2, True) \<Rightarrow>
          (let u3 = (if 100 < code \<and> code < 300 then UpdateRouting rs True True u2 else u2) in
           if code < 200 then
             (case ring_event env rs u3 of
                (u4, ev) \<Rightarrow> go UacStateRinging (Some (CB_ring t (u_origin u4) code))
                             (take_remote_sdp (m_body rs) ev (SetP1xxTs t) (SetP1xxTs t) u4))
           else
             let u4 = CancelExpireTimer u3 in
             if code < 300 then answer_2xx env True rs tr u4
             else rejected env (passed_challenges (u_pass_auth u4) rs) rs u4))"

definition UacRinging_RecvResponse ::
  "ua_env \<Rightarrow> sip_response \<Rightarrow> client_transaction \<Rightarrow> ua \<Rightarrow> ua \<times> transition" where
  "UacRinging_RecvResponse env rs tr u =
     (let code = rs_scode rs; t = rtime_of env rs;
          u1 = (if 180 < code then SetLastScode code u else u);
          u2 = (if 100 < code \<and> code < 300 then UpdateRouting rs True True u1 else u1)
      in if code < 200 then
           (case send_prack env rs tr u2 of
              (u3, False) \<Rightarrow> stay u3
            | (u3, True) \<Rightarrow>
                (case ring_event env rs (first_p1xx t u3) of
                   (u4, ev) \<Rightarrow> stay (take_remote_sdp (m_body rs) ev (\<lambda>v. v) (\<lambda>v. v)
                                      (RingCb t (u_origin u4) code u4))))
         else
           let u3 = CancelExpireTimer u2 in
           if code < 300 then answer_2xx env False rs tr u3
           else rejected env [] rs u3)"

definition updateFailed :: "ua_env \<Rightarrow> cc_event \<Rightarrow> ua \<Rightarrow> ua \<times> transition" where
  "updateFailed env ev u =
     (case send_bye env (case ev_sip_reason (generic ev) of Some r \<Rightarrow> [H_Reason r] | None \<Rightarrow> [])
             (Enqueue ev u) of
        (u1, Inl e) \<Rightarrow> stay u1
      | (u1, Inr _) \<Rightarrow>
          (let t = GetRtime ev in
           case new_event env (Some t) (u_origin u1) [] (SetDisconnectTs t (CancelCreditTimer u1)) of
             (u2, g) \<Rightarrow> go_Disconnected (Some (CB_disc t (u_origin u1) 0 None))
                         (Enqueue (CCEventDisconnect g None) u2)))"

definition update_answered ::
  "ua_env \<Rightarrow> sip_response \<Rightarrow> client_transaction \<Rightarrow> ua \<Rightarrow> ua \<times> transition" where
  "update_answered env rs tr u =
     (case new_event env (Some (rtime_of env rs)) (u_origin u) [] u of
        (u1, g) \<Rightarrow>
          (let late = (u_late_media u \<and> m_body rs \<noteq> None);
               ev = (if late then CCEventPreConnect g (rs_scode rs) (rs_reason rs) (m_body rs)
                     else CCEventConnect g (rs_scode rs) (rs_reason rs) (m_body rs));
               u2 = (if late then SetPendingTr (Some (tx_ref tr)) (out (O_set_uack (tx_ref tr)) u1) else u1)
           in case (m_body rs, u_on_remote_sdp_change u2, e_sdp_err env) of
                (Some b, True, Some w) \<Rightarrow>
                  (case new_event env (Some (GetRtime ev)) [] [] (out (O_remote_sdp b ev) u2) of
                     (u3, g3) \<Rightarrow> updateFailed env (CCEventFail g3 [] 502 ''Bad Gateway''
                         (Some (''Malformed SDP Body received from downstream: '' @ [CHR 0x22] @ w @ [CHR 0x22]))) u3)
              | _ \<Rightarrow> go_Connected None (take_remote_sdp (m_body rs) ev (\<lambda>v. v) (\<lambda>v. v) u2)))"

definition UacUpdating_RecvResponse ::
  "ua_env \<Rightarrow> sip_response \<Rightarrow> client_transaction \<Rightarrow> ua \<Rightarrow> ua \<times> transition" where
  "UacUpdating_RecvResponse env rs tr u =
     (let code = rs_scode rs in
      if code < 200 then
        (case ring_event env rs u of (u1, ev) \<Rightarrow> stay (Enqueue ev u1))
      else if code < 300 then update_answered env rs tr u
      else case rejection_event env [] rs u of
        None \<Rightarrow> stay u
      | Some (u1, ev, redirect) \<Rightarrow>
          (let u2 = (if redirect then u1 else SetLSDP None u1) in
           if code = 408 \<or> code = 481 then updateFailed env ev u2
           else go_Connected None (Enqueue ev u2)))"

definition UacCancelling_RecvResponse ::
  "ua_env \<Rightarrow> sip_response \<Rightarrow> ua \<Rightarrow> ua \<times> transition" where
  "UacCancelling_RecvResponse env rs u =
     (if rs_scode rs < 200 then stay u
      else
        let u1 = set_state (UacStateCancelling None) u in
        if rs_scode rs < 300 then
          (let u2 = UpdateRouting rs True True u1 in
           case (u_rUri u2, m_to rs) of
             (Some (Inr ruri), Some (Inr tob)) \<Rightarrow>
               (case send_bye env [] (SetRUri (Some (Inr (SetTag (GetTag tob) ruri))) u2) of
                  (u3, Inl e) \<Rightarrow> stay u3
                | (u3, Inr _) \<Rightarrow> go_Disconnected None u3)
           | _ \<Rightarrow> stay u2)
        else go UaStateDead None u1)"

definition state_RecvResponse ::
  "ua_env \<Rightarrow> ua_state \<Rightarrow> sip_response \<Rightarrow> client_transaction \<Rightarrow> ua \<Rightarrow> ua \<times> transition" where
  "state_RecvResponse env s rs tr u =
     (case s of
        UacStateTrying \<Rightarrow> UacTrying_RecvResponse env rs tr u
      | UacStateRinging \<Rightarrow> UacRinging_RecvResponse env rs tr u
      | UacStateUpdating \<Rightarrow> UacUpdating_RecvResponse env rs tr u
      | UacStateCancelling te \<Rightarrow> UacCancelling_RecvResponse env rs u
      | _ \<Rightarrow> stay u)"

section \<open>Challenges\<close>

fun pick_challenge ::
  "ua_env \<Rightarrow> string list option \<Rightarrow> challenge_body result list \<Rightarrow> challenge_body result option" where
  "pick_challenge env enalgs [] = None"
| "pick_challenge env enalgs (Inl e # chs) = None"
| "pick_challenge env enalgs (Inr c # chs) =
     (if (case enalgs of Some as \<Rightarrow> ch_algorithm c \<in> set as | None \<Rightarrow> True) \<and> e_supported env (ch_algorithm c)
      then Some (Inr c) else pick_challenge env enalgs chs)"

text \<open>Retry the INVITE with credentials. The CSeq is incremented once more after the request was made.\<close>

definition processChallenge ::
  "ua_env \<Rightarrow> challenge_body result list \<Rightarrow> int \<Rightarrow> sip_header list \<Rightarrow> ua \<Rightarrow> ua \<times> bool" where
  "processChallenge env chs cseq eh u =
     (case pick_challenge env (u_auth_enalgs u) chs of
        None \<Rightarrow> (u, False)
      | Some ch \<Rightarrow>
          (case start_invite env (u_lSDP u) (Some ch) eh (\<lambda>v. SetLCSeq (u_lCSeq v + 1) v)
                  (\<lambda>tr v. out (O_txn_headers tr (u_dlg_headers v)) (SetClientTransaction (Some tr) v)) u of
             (u1, Inl e) \<Rightarrow> (if u_lCSeq u1 \<noteq> u_lCSeq u then SetClientTransaction None u1 else u1, False)
           | (u1, Inr tr) \<Rightarrow> (u1\<lparr>u_reqs := (u_reqs u1)(cseq := None)\<rparr>, True)))"

definition try_challenge ::
  "ua_env \<Rightarrow> sip_response \<Rightarrow> cseq_body \<Rightarrow> sip_header list \<Rightarrow> ua \<Rightarrow> ua \<times> bool" where
  "try_challenge env rs c eh u =
     (case u_reqs u (CSeq_num c) of
        Some orig \<Rightarrow>
          (if CSeq_Method c = ''INVITE'' \<and> \<not> u_pass_auth u \<and> u_username u \<noteq> [] \<and> u_password u \<noteq> [] then
             (if rs_scode rs = 401 \<and> m_sip_authorization orig = None
              then processChallenge env (m_sip_www_authenticates rs) (CSeq_num c) eh u
              else if rs_scode rs = 407 \<and> m_sip_proxy_authorization orig = None
              then processChallenge env (m_sip_proxy_authenticates rs) (CSeq_num c) eh u
              else (u, False))
           else (u, False))
      | None \<Rightarrow> (u, False))"

definition ua_RecvResponse :: "ua_env \<Rightarrow> sip_response \<Rightarrow> client_transaction \<Rightarrow> ua \<Rightarrow> ua" where
  "ua_RecvResponse env rs tr u =
     (case u_state u of
        None \<Rightarrow> u
      | Some s \<Rightarrow> (case m_cseq rs of
          Some (Inr c) \<Rightarrow>
            (case try_challenge env rs c (ct_req_extra_hdrs tr) (update_ua rs u) of
               (u1, True) \<Rightarrow> u1
             | (u1, False) \<Rightarrow>
                 (let u2 = (if 200 \<le> rs_scode rs then u1\<lparr>u_reqs := (u_reqs u1)(CSeq_num c := None)\<rparr> else u1)
                  in emitPendingEvents (apply_transition (state_RecvResponse env s rs tr u2))))
        | _ \<Rightarrow> u))"

section \<open>ACK, PRACK, CANCEL\<close>

text \<open>
  The ACK of the answer. Where the answer waits for it (late media on the other leg), the
  connect event and time come from the ACK, and the connect listener is called both
  directly and by the state change.
\<close>

definition confirm_connect :: "ua_env \<Rightarrow> sip_request \<Rightarrow> ua \<Rightarrow> ua \<times> cc_event option \<times> ua_cb option" where
  "confirm_connect env rq u =
     (let t = rtime_of env rq; og = u_origin u in
      case new_event env (m_rtime rq) og [] u of
        (u1, g) \<Rightarrow>
          (let ev = CCEventConnect g 0 ''ACK'' (m_body rq);
               u2 = ConnCb t og (SetConnectTs t (StartCreditTimer env t (CancelCreditTimer (CancelExpireTimer u1))))
           in case m_body rq of
                None \<Rightarrow> (SetRSDP None u2, Some ev, Some (CB_conn t og))
              | Some b \<Rightarrow>
                  if u_on_remote_sdp_change u2 then (out (O_remote_sdp b ev) u2, None, Some (CB_conn t og))
                  else (SetRSDP (Some b) u2, Some ev, Some (CB_conn t og))))"

definition UasPreConnect_RecvACK :: "ua_env \<Rightarrow> cc_event option \<Rightarrow> bool \<Rightarrow> sip_request \<Rightarrow> ua \<Rightarrow> ua" where
  "UasPreConnect_RecvACK env pending confirm rq u =
     (case (if confirm then confirm_connect env rq u else (u, None, None)) of
        (u1, ev, cb) \<Rightarrow>
          (let u2 = apply_transition (go_Connected cb u1);
               u3 = (case ev of Some e \<Rightarrow> EmitEvent e u2 | None \<Rightarrow> u2)
           in case pending of Some p \<Rightarrow> ua_RecvEvent env p u3 | None \<Rightarrow> u3))"

definition ua_RecvACK :: "ua_env \<Rightarrow> sip_request \<Rightarrow> ua \<Rightarrow> ua" where
  "ua_RecvACK env rq u =
     (if \<not> ua_isConnected u then u
      else emitPendingEvents
        (case u_state u of
           Some (UasStatePreConnect pending confirm) \<Rightarrow> UasPreConnect_RecvACK env pending confirm rq u
         | _ \<Rightarrow> u))"

definition after_prack :: "ua_env \<Rightarrow> ringing_rel \<Rightarrow> ua \<Rightarrow> ua" where
  "after_prack env rr u =
     (case (case rr_pending_ev_connect rr of
              Some e \<Rightarrow> UasRingingRel_RecvEvent env rr e u
            | None \<Rightarrow> (case rr_pending_ev_ring rr of
                Some e \<Rightarrow> UasRingingRel_RecvEvent env rr e u | None \<Rightarrow> ignore u)) of
        (u1, Inl e) \<Rightarrow> u1
      | (u1, Inr tr) \<Rightarrow> apply_transition (u1, tr))"

definition clear_pending :: "ua \<Rightarrow> ua" where
  "clear_pending u =
     (case u_state u of
        Some (UasStateRingingRel rr) \<Rightarrow>
          set_state (UasStateRingingRel (rr\<lparr>rr_pending_ev_ring := None, rr_pending_ev_connect := None,
                                           rr_pending_ev_update := None\<rparr>)) u
      | _ \<Rightarrow> u)"

definition ua_RecvPRACK :: "ua_env \<Rightarrow> sip_request \<Rightarrow> ua \<Rightarrow> ua" where
  "ua_RecvPRACK env rq u =
     (case u_state u of
        Some (UasStateRingingRel rr) \<Rightarrow>
          (let rr1 = rr\<lparr>rr_prack_received := True\<rparr>;
               u1 = after_prack env rr1 (set_state (UasStateRingingRel rr1) u);
               u2 = (case rr_pending_ev_update rr1 of Some e \<Rightarrow> ua_RecvEvent env e u1 | None \<Rightarrow> u1);
               u3 = clear_pending u2
           in case m_body rq of Some b \<Rightarrow> SetRSDP (Some b) u3 | None \<Rightarrow> u3)
      | _ \<Rightarrow> u)"

text \<open>The cancel callback is bound to the state that handled the INVITE.\<close>

definition early_RecvCancel :: "ua_env \<Rightarrow> monotime \<Rightarrow> sip_request option \<Rightarrow> ua \<Rightarrow> ua" where
  "early_RecvCancel env rtime rq u =
     (case new_event env (Some rtime) (u_origin u) [] u of
        (u1, g) \<Rightarrow>
          EmitEvent (CCEventDisconnect (case rq of Some r \<Rightarrow> SetReason (m_reason_hf r) g | None \<Rightarrow> g) None)
            (apply_transition (go_Disconnected (Some (CB_disc rtime (u_origin u) 0 rq))
              (SetDisconnectTs rtime u1))))"

definition updating_RecvCancel :: "ua_env \<Rightarrow> monotime \<Rightarrow> sip_request option \<Rightarrow> ua \<Rightarrow> ua" where
  "updating_RecvCancel env rtime rq u =
     (case send_bye env [] u of
        (u1, Inl e) \<Rightarrow> u1
      | (u1, Inr _) \<Rightarrow>
          (let u2 = apply_transition (go_Disconnected (Some (CB_disc rtime (u_origin u1) 0 rq))
                      (SetDisconnectTs rtime (CancelCreditTimer u1)))
           in case new_event env (Some rtime) (u_origin u2) [] u2 of
                (u3, g) \<Rightarrow> EmitEvent
                  (CCEventDisconnect (case rq of Some r \<Rightarrow> SetReason (m_reason_hf r) g | None \<Rightarrow> g) None) u3))"

definition RecvCancel :: "ua_env \<Rightarrow> ua_state \<Rightarrow> monotime \<Rightarrow> sip_request option \<Rightarrow> ua \<Rightarrow> ua" where
  "RecvCancel env s rtime rq u =
     (case s of
        UasStateTrying \<Rightarrow> early_RecvCancel env rtime rq u
      | UasStateRinging \<Rightarrow> early_RecvCancel env rtime rq u
      | UasStateRingingRel rr \<Rightarrow> early_RecvCancel env rtime rq u
      | UasStateUpdating \<Rightarrow> updating_RecvCancel env rtime rq u
      | _ \<Rightarrow> u)"

section \<open>Timers of the states, controllers, SDP continuations\<close>

definition goDead :: "ua \<Rightarrow> ua" where
  "goDead u = ChangeState UaStateDead None u"

definition goIdle :: "ua \<Rightarrow> ua" where
  "goIdle u = ChangeState UaStateDead None
     (case u_state u of Some (UacStateCancelling te) \<Rightarrow> set_state (UacStateCancelling None) u | _ \<Rightarrow> u)"

text \<open>A keep-alive timer or answer acts on the controller of the Connected state the call is in.\<close>

definition set_ka :: "keepalive_controller \<Rightarrow> ua \<Rightarrow> ua" where
  "set_ka k u = set_state (UaStateConnected (Some k)) u"

definition keepAlive :: "ua_env \<Rightarrow> ua \<Rightarrow> ua" where
  "keepAlive env u =
     (case u_state u of
        Some (UaStateConnected (Some k)) \<Rightarrow>
          (case start_invite env (u_lSDP u) None [] (\<lambda>v. v) (\<lambda>tr v. v) u of
             (u1, Inl e) \<Rightarrow> (if u_lCSeq u1 \<noteq> u_lCSeq u
                             then set_ka (k\<lparr>ka_triedauth := False, ka_ka_tr := None\<rparr>) u1 else u1)
           | (u1, Inr tr) \<Rightarrow> set_ka (k\<lparr>ka_triedauth := False, ka_ka_tr := Some tr\<rparr>) u1)
      | _ \<Rightarrow> u)"

definition ka_challenge :: "sip_response \<Rightarrow> challenge_body result option" where
  "ka_challenge rs =
     (if rs_scode rs = 401 then (case m_sip_www_authenticates rs of c # _ \<Rightarrow> Some c | [] \<Rightarrow> None)
      else if rs_scode rs = 407 then (case m_sip_proxy_authenticates rs of c # _ \<Rightarrow> Some c | [] \<Rightarrow> None)
      else None)"

text \<open>A first keep-alive that fails starts a disconnect timer with the bare number 600.\<close>

definition ka_RecvResponse :: "ua_env \<Rightarrow> sip_response \<Rightarrow> ua \<Rightarrow> ua" where
  "ka_RecvResponse env rs u =
     (case u_state u of
        Some (UaStateConnected (Some k)) \<Rightarrow>
          (case (if u_username u \<noteq> [] \<and> u_password u \<noteq> [] \<and> \<not> ka_triedauth k then ka_challenge rs else None) of
             Some ch \<Rightarrow>
               (case start_invite env (u_lSDP u) (Some ch) [] (\<lambda>v. v) (\<lambda>tr v. v) u of
                  (u1, Inl e) \<Rightarrow> (if u_lCSeq u1 \<noteq> u_lCSeq u then set_ka (k\<lparr>ka_ka_tr := None\<rparr>) u1 else u1)
                | (u1, Inr tr) \<Rightarrow> set_ka (k\<lparr>ka_triedauth := True, ka_ka_tr := Some tr\<rparr>) u1)
           | None \<Rightarrow>
               if rs_scode rs < 200 then u
               else
                 let u1 = set_ka (k\<lparr>ka_ka_tr := None, ka_keepalives := ka_keepalives k + 1\<rparr>) u in
                 if rs_scode rs = 408 \<or> rs_scode rs = 481 \<or> rs_scode rs = 486 then
                   (if ka_keepalives k + 1 = 1 then out (O_ka_disconnect_timer 600) u1
                    else ua_Disconnect env None [] u1)
                 else out (O_ka_timer (u_kaInterval u1)) u1)
      | _ \<Rightarrow> u)"

definition redirect_RecvResponse :: "ua_env \<Rightarrow> ua \<Rightarrow> ua" where
  "redirect_RecvResponse env u = fst (send_bye env [] u)"

definition ccEventFailCtor :: "ua_env \<Rightarrow> int \<Rightarrow> string \<Rightarrow> sip_reason option \<Rightarrow> ua \<Rightarrow> ua \<times> cc_event" where
  "ccEventFailCtor env scode text reason u =
     (case new_event env None [] (case reason of Some r \<Rightarrow> [H_Reason r] | None \<Rightarrow> []) u of
        (u1, g) \<Rightarrow> (u1, CCEventFail g [] scode text None))"

text \<open>The continuations of the SDP hooks: the new body, or the status and reason of an error.\<close>

type_synonym sdp_answer = "msg_body + (int \<times> string \<times> sip_reason option)"

definition DelayedRemoteSdpUpdate :: "ua_env \<Rightarrow> cc_event \<Rightarrow> sdp_answer \<Rightarrow> ua \<Rightarrow> ua" where
  "DelayedRemoteSdpUpdate env ev ans u =
     (case ans of
        Inl b \<Rightarrow> emitPendingEvents (Enqueue ev (SetRSDP (Some b) u))
      | Inr (scode, text, reason) \<Rightarrow>
          (case ccEventFailCtor env scode text reason u of
             (u1, fail) \<Rightarrow> ua_RecvEvent env fail (emitPendingEvents (Enqueue fail u1))))"

definition DelayedLocalSdpUpdate ::
  "ua_env \<Rightarrow> cc_event \<Rightarrow> (int \<times> string \<times> sip_reason option) option \<Rightarrow> ua \<Rightarrow> ua" where
  "DelayedLocalSdpUpdate env ev ans u =
     (case ans of
        None \<Rightarrow> ua_RecvEvent env ev u
      | Some (scode, text, reason) \<Rightarrow>
          (case ccEventFailCtor env scode text reason u of
             (u1, fail) \<Rightarrow> ua_RecvEvent env fail (emitPendingEvents (Enqueue fail u1))))"

end
