(* ===== verification/Ua_Relation.thy ===== *)
theory Ua_Relation
  imports Ua_Messages
begin

text \<open>
  What is true of every operation of the user agent because it is true of its primitive
  operations. A relation between the user agent before and after that is reflexive and transitive,
  that ignores the fields no general property speaks of, and that holds for each primitive operation
  which touches the others, holds for every handler. The locale states this contract
  once; invariants are obtained by interpreting it.
\<close>

section \<open>The part of the user agent general properties speak of\<close>

definition view :: "ua \<Rightarrow> cc_event list \<times> int \<times> int \<times> monotime option \<times> monotime option \<times> int \<times>
    ua_state option \<times> ua_out list \<times> bool \<times> bool" where
  "view u = (u_equeue u, u_elast_seq u, u_gseq u, u_connect_ts u, u_disconnect_ts u, u_lCSeq u,
             u_state u, u_out u, u_sip_tm u, u_call_controller u)"

lemmas view_setters = SetOrigin_def SetUasResp_def SetLContact_def SetRTarget_def SetRAddr0_def
  SetLUri_def SetRUri_def SetCallId_def SetBranch_def SetRoutes_def SetExMtime_def SetNpMtime_def
  SetNrMtime_def SetSetupTs_def SetLSDP_def SetRSDP_def SetP1xxTs_def SetLastScode_def
  SetLateMedia_def SetPendingTr_def SetClientTransaction_def ResetSdpChange_def
  CancelExpireTimer_def CancelNoReplyTimer_def CancelNoProgressTimer_def CancelCreditTimer_def

lemma view_neutral [ua_simps]:
  "view (SetOrigin a1 u) = view u" "view (SetUasResp a2 u) = view u" "view (SetLContact a3 u) = view u"
  "view (SetRTarget a4 u) = view u" "view (SetRAddr0 a5 u) = view u" "view (SetLUri a6 u) = view u"
  "view (SetRUri a7 u) = view u" "view (SetCallId a8 u) = view u" "view (SetBranch a9 u) = view u"
  "view (SetRoutes b1 u) = view u" "view (SetExMtime b2 u) = view u" "view (SetNpMtime b3 u) = view u"
  "view (SetNrMtime b4 u) = view u" "view (SetSetupTs b5 u) = view u" "view (SetLSDP b6 u) = view u"
  "view (SetRSDP b7 u) = view u" "view (SetP1xxTs b8 u) = view u" "view (SetLastScode b9 u) = view u"
  "view (SetLateMedia c1 u) = view u" "view (SetPendingTr c2 u) = view u"
  "view (SetClientTransaction c3 u) = view u" "view (ResetSdpChange u) = view u"
  "view (CancelExpireTimer u) = view u" "view (CancelNoReplyTimer u) = view u"
  "view (CancelNoProgressTimer u) = view u" "view (CancelCreditTimer u) = view u"
  by (simp_all add: view_def view_setters)

lemma view_neutral_cases [ua_simps]:
  "view (SetP100Ts t u) = view u" "view (update_ua m u) = view u" "view (StartNoReplyTimer env u) = view u"
  "view (StartNoProgressTimer env u) = view u" "view (StartExpireTimer env t u) = view u"
  "view (StartCreditTimer env t u) = view u"
  by (auto simp: view_def SetP100Ts_def update_ua_def StartNoReplyTimer_def StartNoProgressTimer_def
      StartExpireTimer_def StartCreditTimer_def Let_def split: option.splits)

lemma view_UpdateRouting [ua_simps]: "view (UpdateRouting rs a b u) = view u"
  unfolding UpdateRouting_def
  by (auto simp: view_def Let_def split: option.splits list.splits sum.splits)

lemma view_reqs [ua_simps]:
  "view (u\<lparr>u_reqs := m\<rparr>) = view u" "view (u\<lparr>u_rCSeq := c\<rparr>) = view u" "view (u\<lparr>u_pr_rel := b\<rparr>) = view u"
  "view (u\<lparr>u_credit_times := ts\<rparr>) = view u" "view (keep_credentials info u) = view u"
  by (auto simp: view_def keep_credentials_def split: option.splits bool.splits)

text \<open>Outputs that are neither an event for the controller nor a request to send.\<close>

fun plain_out :: "ua_out \<Rightarrow> bool" where
  "plain_out (O_event e) = False"
| "plain_out (O_begin_new rq r) = False"
| "plain_out (O_begin rq tr) = False"
| "plain_out x = True"

text \<open>What may happen between making an INVITE and sending it: it leaves the view alone but for
  a CSeq that grows and outputs that are plain.\<close>

definition mild :: "(ua \<Rightarrow> ua) \<Rightarrow> bool" where
  "mild f \<longleftrightarrow> (\<forall>u. u_equeue (f u) = u_equeue u \<and> u_elast_seq (f u) = u_elast_seq u \<and> u_gseq (f u) = u_gseq u
     \<and> u_connect_ts (f u) = u_connect_ts u \<and> u_disconnect_ts (f u) = u_disconnect_ts u
     \<and> u_lCSeq u \<le> u_lCSeq (f u) \<and> u_state (f u) = u_state u \<and> u_sip_tm (f u) = u_sip_tm u
     \<and> u_call_controller (f u) = u_call_controller u
     \<and> (\<exists>xs. u_out (f u) = u_out u @ xs \<and> list_all plain_out xs))"

lemma mild_instances [simp]:
  "mild (\<lambda>v. v)" "mild (SetLSDP b)" "mild (SetClientTransaction tr)"
  "mild (\<lambda>v. SetLCSeq (u_lCSeq v + 1) v)"
  "mild (\<lambda>v. out (O_txn_headers r (u_dlg_headers v)) (SetClientTransaction tr v))"
  by (auto simp: mild_def SetLSDP_def SetClientTransaction_def SetLCSeq_def out_def)

text \<open>The CSeq number of a request on the wire: headers given later do not come before it.\<close>

fun cseq_header :: "sip_header \<Rightarrow> int option" where
  "cseq_header (H_CSeq (Inr c)) = Some (CSeq_num c)"
| "cseq_header h = None"

definition wire_cseq :: "'a sip_msg_scheme \<Rightarrow> int option" where
  "wire_cseq m = (case List.map_filter cseq_header (m_headers m) of n # _ \<Rightarrow> Some n | [] \<Rightarrow> None)"

definition extends_headers :: "'a sip_msg_scheme \<Rightarrow> 'a sip_msg_scheme \<Rightarrow> bool" where
  "extends_headers m m' \<longleftrightarrow> (\<exists>xs. m_headers m' = m_headers m @ xs)"

lemma wire_cseq_extends: "extends_headers m m' \<Longrightarrow> wire_cseq m = Some n \<Longrightarrow> wire_cseq m' = Some n"
  by (auto simp: extends_headers_def wire_cseq_def List.map_filter_def split: list.splits)

lemma extends_AppendHeader: "extends_headers m (AppendHeader h m)"
  by (cases h) (simp_all add: extends_headers_def push_header_def)

lemma extends_trans: "extends_headers m m' \<Longrightarrow> extends_headers m' m'' \<Longrightarrow> extends_headers m m''"
  by (auto simp: extends_headers_def)

lemma extends_appendHeaders: "extends_headers m (appendHeaders hs m)"
proof (induction hs arbitrary: m)
  case Nil
  then show ?case by (simp add: appendHeaders_def extends_headers_def)
next
  case (Cons h hs)
  then show ?case by (auto simp: appendHeaders_def intro: extends_trans [OF extends_AppendHeader])
qed

lemma NewSipRequest_wire_cseq:
  assumes "NewSipRequest meth ruri sv t f v n c mf b ct rts tgt un ex cfg rb rc = Inr rq"
  shows "wire_cseq rq = Some n"
proof -
  obtain tg tail where rq: "rq = (appendHeaders tail
      (appendHeaders ([H_Via (case v of Some v \<Rightarrow> v
                    | None \<Rightarrow> Inr (GenBranch rb (newSipViaBody cfg)))] @ map H_Route rts
              @ [H_MaxForwards (case mf of Some x \<Rightarrow> x | None \<Rightarrow> newSipNumericHF 70),
                 H_From (case f of Some f \<Rightarrow> f | None \<Rightarrow> NewSipFrom cfg None),
                 H_To (case t of Some t \<Rightarrow> t | None \<Rightarrow> Inr (NewSipAddress [] ruri)),
                 H_CallId (case c of Some c \<Rightarrow> c | None \<Rightarrow> rc),
                 H_CSeq (Inr \<lparr>CSeq_num = n, CSeq_Method = meth\<rparr>)])
         ((initial_request meth ruri)\<lparr>m_target := Some tg,
             rq_sipver := (if sv = [] then ''SIP/2.0'' else sv),
             rq_user_agent := Some (case un of Some n \<Rightarrow> n | None \<Rightarrow> cfg_MyUAName cfg)\<rparr>)))
       \<lparr>m_body := b\<rparr>"
    using assms by (auto simp: NewSipRequest_def bind_result_Inr_iff Let_def appendHeaders_simps)
  show ?thesis
  proof (rule wire_cseq_extends)
    show "extends_headers (appendHeaders ([H_Via (case v of Some v \<Rightarrow> v
                    | None \<Rightarrow> Inr (GenBranch rb (newSipViaBody cfg)))] @ map H_Route rts
              @ [H_MaxForwards (case mf of Some x \<Rightarrow> x | None \<Rightarrow> newSipNumericHF 70),
                 H_From (case f of Some f \<Rightarrow> f | None \<Rightarrow> NewSipFrom cfg None),
                 H_To (case t of Some t \<Rightarrow> t | None \<Rightarrow> Inr (NewSipAddress [] ruri)),
                 H_CallId (case c of Some c \<Rightarrow> c | None \<Rightarrow> rc),
                 H_CSeq (Inr \<lparr>CSeq_num = n, CSeq_Method = meth\<rparr>)])
         ((initial_request meth ruri)\<lparr>m_target := Some tg,
             rq_sipver := (if sv = [] then ''SIP/2.0'' else sv),
             rq_user_agent := Some (case un of Some n \<Rightarrow> n | None \<Rightarrow> cfg_MyUAName cfg)\<rparr>)) rq"
      using extends_appendHeaders unfolding rq by (auto simp: extends_headers_def)
  qed (simp add: wire_cseq_def msg_simps initial_request_def push_header_def List.map_filter_def)
qed

text \<open>Requests are completed by headers added after those they have.\<close>

definition keeps_cseq :: "(sip_request \<Rightarrow> sip_request result) \<Rightarrow> bool" where
  "keeps_cseq f \<longleftrightarrow> (\<forall>rq rq'. f rq = Inr rq' \<longrightarrow> extends_headers rq rq')"

text \<open>A request made: the number it takes, and what making it leaves alone.\<close>

lemma GenRequest_cases:
  assumes "GenRequest env m b ch hs u = (v, r)"
  obtains (Failed) e where "r = Inl e" "v = u"
  | (Made) rq d where "r = Inr rq" "v = u\<lparr>u_reqs := d, u_lCSeq := u_lCSeq u + 1, u_draws := u_draws u + 1\<rparr>"
      "wire_cseq rq = Some (u_lCSeq u)"
proof (cases r)
  case (Inl e)
  with assms have "v = u" by (simp add: GenRequest_def Let_def split: option.splits sum.splits)
  with Inl show ?thesis by (rule Failed)
next
  case (Inr rq)
  with assms obtain d req0 hs' ruri where
    "v = u\<lparr>u_reqs := d, u_lCSeq := u_lCSeq u + 1, u_draws := u_draws u + 1\<rparr>" "rq = appendHeaders hs' req0"
    "NewSipRequest m ruri [] (u_rUri u) (u_lUri u) None (u_lCSeq u) (u_cId u) None b
                  (u_lContact u) (u_routes u)
                  (case u_outbound_proxy u of Some p \<Rightarrow> Some p | None \<Rightarrow> u_rAddr u)
                  (u_local_ua u) None (u_config u) (e_branch env (u_draws u)) (e_callid env) = Inr req0"
    by (auto simp: GenRequest_def Let_def split: option.splits sum.splits)
  with Inr show ?thesis
    by (intro Made) (auto intro: wire_cseq_extends [OF extends_appendHeaders] NewSipRequest_wire_cseq)
qed

text \<open>
  The effect of sending a request on what general properties speak of: outputs that are plain, then
  at most one request, which takes the next CSeq.
\<close>

fun sent_request :: "ua_out \<Rightarrow> sip_request option" where
  "sent_request (O_begin_new rq r) = Some rq"
| "sent_request (O_begin rq tr) = Some rq"
| "sent_request x = None"

definition same_call :: "ua \<Rightarrow> ua \<Rightarrow> bool" where
  "same_call u v \<longleftrightarrow> u_equeue v = u_equeue u \<and> u_elast_seq v = u_elast_seq u \<and> u_gseq v = u_gseq u
     \<and> u_connect_ts v = u_connect_ts u \<and> u_disconnect_ts v = u_disconnect_ts u \<and> u_state v = u_state u
     \<and> u_sip_tm v = u_sip_tm u \<and> u_call_controller v = u_call_controller u"

definition sends :: "ua \<Rightarrow> ua \<Rightarrow> bool" where
  "sends u v \<longleftrightarrow> same_call u v \<and> (\<exists>xs ys. u_out v = u_out u @ xs @ ys \<and> list_all plain_out xs \<and>
     (ys = [] \<and> u_lCSeq u \<le> u_lCSeq v \<or>
      (\<exists>y rq. ys = [y] \<and> sent_request y = Some rq \<and> wire_cseq rq = Some (u_lCSeq u) \<and> u_lCSeq u < u_lCSeq v)))"

lemma sends_I:
  assumes "same_call u v" "u_out v = u_out u @ xs" "list_all plain_out xs" "u_lCSeq u \<le> u_lCSeq v"
  shows "sends u v"
  using assms unfolding sends_def by (intro conjI exI [of _ xs] exI [of _ "[]"]) auto

lemma sends_request_I:
  assumes "same_call u v" "u_out v = u_out u @ xs @ [y]" "list_all plain_out xs" "u_lCSeq u < u_lCSeq v"
    "sent_request y = Some rq" "wire_cseq rq = Some (u_lCSeq u)"
  shows "sends u v"
  using assms unfolding sends_def by (intro conjI exI [of _ xs] exI [of _ "[y]"]) auto

lemma send_request_sends:
  assumes "keeps_cseq f"
  shows "sends u (fst (send_request env m hs f rcv u))"
proof -
  obtain u1 r where g: "GenRequest env m None None hs u = (u1, r)" by fastforce
  from g show ?thesis
  proof (cases rule: GenRequest_cases)
    case (Failed e)
    then show ?thesis by (intro sends_I [of _ _ "[]"]) (simp_all add: send_request_def g same_call_def)
  next
    case (Made rq d)
    show ?thesis
    proof (cases "f rq")
      case (Inl e)
      with Made show ?thesis
        by (intro sends_I [of _ _ "[]"]) (simp_all add: send_request_def g same_call_def)
    next
      case (Inr rq')
      have "wire_cseq rq' = Some (u_lCSeq u)"
        using assms Inr Made(3) by (auto simp: keeps_cseq_def intro: wire_cseq_extends)
      with Made Inr show ?thesis
        by (cases "u_sip_tm u")
          (rule sends_request_I [of _ _ "[]" "O_begin_new rq' rcv" rq'] sends_I [of _ _ "[]"],
            simp_all add: send_request_def g same_call_def ua_BeginNewClientTransaction_def out_if_def out_def)+
    qed
  qed
qed

lemma start_invite_sends:
  assumes mid: "mild mid" and fin: "\<And>tr. mild (fin tr)"
  shows "sends u (fst (start_invite env b ch hs mid fin u))"
proof -
  obtain u1 r where g: "GenRequest env ''INVITE'' b ch hs u = (u1, r)" by fastforce
  from g show ?thesis
  proof (cases rule: GenRequest_cases)
    case (Failed e)
    then show ?thesis by (intro sends_I [of _ _ "[]"]) (simp_all add: start_invite_def g same_call_def)
  next
    case (Made rq d)
    have u1: "same_call u u1" "u_out u1 = u_out u" "u_lCSeq u1 = u_lCSeq u + 1"
      using Made(2) by (simp_all add: same_call_def)
    obtain xs where xs: "u_out (mid u1) = u_out u1 @ xs" "list_all plain_out xs"
      "same_call u1 (mid u1)" "u_lCSeq u1 \<le> u_lCSeq (mid u1)"
      using mid unfolding mild_def same_call_def by metis
    show ?thesis
    proof (cases "u_sip_tm (mid u1) \<and> (\<exists>tr. e_create env = Inr tr)")
      case False
      then have "fst (start_invite env b ch hs mid fin u) = mid u1"
        using Made by (cases "e_create env") (auto simp: start_invite_def g PrepTr_def)
      with u1 xs show ?thesis by (intro sends_I [of _ _ xs]) (auto simp: same_call_def)
    next
      case True
      then obtain tr where tr: "e_create env = Inr tr" and tm: "u_sip_tm (mid u1)" by blast
      obtain u2 y where u2: "PrepTr env (mid u1) = (u2, Inr tr)" "same_call (mid u1) u2"
        "u_lCSeq u2 = u_lCSeq (mid u1)" "u_out u2 = u_out (mid u1) @ [y]" "plain_out y"
        using tr tm by (auto simp: PrepTr_def out_def same_call_def)
      obtain ys where ys: "u_out (fin tr u2) = u_out u2 @ ys" "list_all plain_out ys"
        "same_call u2 (fin tr u2)" "u_lCSeq u2 \<le> u_lCSeq (fin tr u2)"
        using fin [of tr] unfolding mild_def same_call_def by metis
      have "fst (start_invite env b ch hs mid fin u) = out (O_begin rq tr) (fin tr u2)"
        using Made u2 ys(3) tm by (simp add: start_invite_def g ua_BeginClientTransaction_def out_if_def same_call_def)
      with u1 xs u2 ys Made(3) show ?thesis
        by (intro sends_request_I [of _ _ "xs @ [y] @ ys" "O_begin rq tr" rq])
          (auto simp: same_call_def out_def)
    qed
  qed
qed

text \<open>The stages of a call, in the order a user agent passes them.\<close>

fun phase :: "ua_state option \<Rightarrow> nat" where
  "phase None = 0"
| "phase (Some UasStateIdle) = 1"
| "phase (Some UacStateIdle) = 1"
| "phase (Some UasStateTrying) = 2"
| "phase (Some UacStateTrying) = 2"
| "phase (Some UasStateRinging) = 3"
| "phase (Some (UasStateRingingRel rr)) = 3"
| "phase (Some UacStateRinging) = 3"
| "phase (Some (UasStatePreConnect p c)) = 4"
| "phase (Some UasStateUpdating) = 4"
| "phase (Some UacStateUpdating) = 4"
| "phase (Some (UaStateConnected k)) = 4"
| "phase (Some (UacStateCancelling t)) = 5"
| "phase (Some UaStateDisconnected) = 6"
| "phase (Some UaStateFailed) = 6"
| "phase (Some UaStateDead) = 7"

section \<open>The contract\<close>

locale ua_handlers =
  fixes R :: "ua \<Rightarrow> ua \<Rightarrow> bool"
  assumes R_trans: "R u v \<Longrightarrow> R v w \<Longrightarrow> R u w"
    and R_frame: "view u = view v \<Longrightarrow> R u v"
    and R_out: "plain_out x \<Longrightarrow> R u (out x u)"
    and R_Enqueue: "R u (Enqueue e u)"
    and R_new_event: "R u (u\<lparr>u_gseq := u_gseq u + 1\<rparr>)"
    and R_EmitEvent: "R u (EmitEvent e u)"
    and R_flush: "R u (u\<lparr>u_equeue := []\<rparr>)"
    and R_SetDisconnectTs: "R u (SetDisconnectTs t u)"
    and R_SetConnectTs: "R u (SetConnectTs t u)"
    and R_sends: "sends u v \<Longrightarrow> R u v"
    and R_set_state: "phase (u_state u) = phase (Some s) \<Longrightarrow> R u (set_state s u)"
    and R_SetLCSeq: "phase (u_state u) \<le> 1 \<Longrightarrow> R u (SetLCSeq n u)"
begin

text \<open>A step from a later point: the form in which the facts are chained.\<close>

lemma R_neutral: "R u v \<Longrightarrow> view w = view v \<Longrightarrow> R u w"
  using R_trans R_frame by metis

lemma R_refl [intro!]: "R u u" by (rule R_frame) simp

lemma chain_out: "R u v \<Longrightarrow> plain_out x \<Longrightarrow> R u (out x v)" using R_trans R_out by blast

lemma chain_out_if: "R u v \<Longrightarrow> plain_out x \<Longrightarrow> R u (out_if b x v)"
  by (simp add: out_if_def chain_out)

lemma chain_events:
  "R u v \<Longrightarrow> R u (Enqueue e v)" "R u v \<Longrightarrow> R u (EmitEvent e v)" "R u v \<Longrightarrow> R u (v\<lparr>u_gseq := u_gseq v + 1\<rparr>)"
  using R_trans R_Enqueue R_EmitEvent R_new_event by blast+

lemma chain_ts: "R u v \<Longrightarrow> R u (SetDisconnectTs t v)" "R u v \<Longrightarrow> R u (SetConnectTs t v)"
  using R_trans R_SetDisconnectTs R_SetConnectTs by blast+

lemma chain_state: "R u v \<Longrightarrow> phase (u_state v) = phase (Some s) \<Longrightarrow> R u (set_state s v)"
  using R_trans R_set_state by blast

lemma chain_cseq: "R u v \<Longrightarrow> phase (u_state v) \<le> 1 \<Longrightarrow> R u (SetLCSeq n v)"
  using R_trans R_SetLCSeq by blast

lemma chain_send: "R u v \<Longrightarrow> keeps_cseq f \<Longrightarrow> R u (fst (send_request env m hs f rcv v))"
  using R_trans R_sends send_request_sends by blast

lemma chain_bye: "R u v \<Longrightarrow> R u (fst (send_bye env hs v))"
  unfolding send_bye_def by (rule chain_send) (auto simp: keeps_cseq_def extends_headers_def)

lemma chain_invite:
  "R u v \<Longrightarrow> mild mid \<Longrightarrow> (\<And>tr. mild (fin tr)) \<Longrightarrow> R u (fst (start_invite env b ch hs mid fin v))"
  using R_trans R_sends start_invite_sends by blast

lemma chain_neutral:
  "R u v \<Longrightarrow> R u (SetOrigin a1 v)" "R u v \<Longrightarrow> R u (SetUasResp a2 v)" "R u v \<Longrightarrow> R u (SetLContact a3 v)"
  "R u v \<Longrightarrow> R u (SetRTarget a4 v)" "R u v \<Longrightarrow> R u (SetRAddr0 a5 v)" "R u v \<Longrightarrow> R u (SetLUri a6 v)"
  "R u v \<Longrightarrow> R u (SetRUri a7 v)" "R u v \<Longrightarrow> R u (SetCallId a8 v)" "R u v \<Longrightarrow> R u (SetBranch a9 v)"
  "R u v \<Longrightarrow> R u (SetRoutes b1 v)" "R u v \<Longrightarrow> R u (SetExMtime b2 v)" "R u v \<Longrightarrow> R u (SetNpMtime b3 v)"
  "R u v \<Longrightarrow> R u (SetNrMtime b4 v)" "R u v \<Longrightarrow> R u (SetSetupTs b5 v)" "R u v \<Longrightarrow> R u (SetLSDP b6 v)"
  "R u v \<Longrightarrow> R u (SetRSDP b7 v)" "R u v \<Longrightarrow> R u (SetP1xxTs b8 v)" "R u v \<Longrightarrow> R u (SetLastScode b9 v)"
  "R u v \<Longrightarrow> R u (SetLateMedia c1 v)" "R u v \<Longrightarrow> R u (SetPendingTr c2 v)"
  "R u v \<Longrightarrow> R u (SetClientTransaction c3 v)" "R u v \<Longrightarrow> R u (ResetSdpChange v)"
  "R u v \<Longrightarrow> R u (CancelExpireTimer v)" "R u v \<Longrightarrow> R u (CancelNoReplyTimer v)"
  "R u v \<Longrightarrow> R u (CancelNoProgressTimer v)" "R u v \<Longrightarrow> R u (CancelCreditTimer v)"
  "R u v \<Longrightarrow> R u (SetP100Ts d1 v)" "R u v \<Longrightarrow> R u (update_ua d2 v)" "R u v \<Longrightarrow> R u (StartNoReplyTimer d3 v)"
  "R u v \<Longrightarrow> R u (StartNoProgressTimer d3 v)" "R u v \<Longrightarrow> R u (StartExpireTimer d3 d1 v)"
  "R u v \<Longrightarrow> R u (StartCreditTimer d3 d1 v)" "R u v \<Longrightarrow> R u (UpdateRouting d4 d5 d6 v)"
  "R u v \<Longrightarrow> R u (v\<lparr>u_reqs := d7\<rparr>)" "R u v \<Longrightarrow> R u (v\<lparr>u_rCSeq := d8\<rparr>)" "R u v \<Longrightarrow> R u (v\<lparr>u_pr_rel := d9\<rparr>)"
  "R u v \<Longrightarrow> R u (v\<lparr>u_credit_times := e1\<rparr>)" "R u v \<Longrightarrow> R u (keep_credentials e2 v)"
  by (erule R_neutral, simp add: ua_simps)+

lemmas chain = chain_out chain_out_if chain_events chain_ts chain_bye chain_neutral

section \<open>Composite operations\<close>

lemma chain_listeners:
  "R u v \<Longrightarrow> R u (RingCb t og c v)" "R u v \<Longrightarrow> R u (ConnCb t og v)"
  "R u v \<Longrightarrow> R u (DiscCb t og c rq v)" "R u v \<Longrightarrow> R u (FailCb t og c v)"
  by (simp_all add: RingCb_def ConnCb_def DiscCb_def FailCb_def chain)

lemma chain_run_cb: "R u v \<Longrightarrow> R u (run_cb cb v)"
  by (cases cb) (simp_all add: chain_listeners)

lemma chain_responses:
  "R u v \<Longrightarrow> R u (SendUasResponse a sc re b cs w hs v)" "R u v \<Longrightarrow> R u (respond l sc re rq v)"
  "R u v \<Longrightarrow> R u (ua_RegConsumer c v)" "R u v \<Longrightarrow> R u (cancel_tr hs v)"
  by (auto simp: SendUasResponse_def respond_def ua_RegConsumer_def cancel_tr_def Let_def
      intro!: chain split: option.splits sum.splits)

lemma chain_emitPending: "R u v \<Longrightarrow> R u (emitPendingEvents v)"
proof -
  assume uv: "R u v"
  have "R u w \<Longrightarrow> R u (fold EmitEvent es w)" for es w
    by (induction es arbitrary: w) (auto intro: chain)
  moreover have "R u (v\<lparr>u_equeue := []\<rparr>)" using uv R_flush R_trans by blast
  ultimately show ?thesis using uv by (simp add: emitPendingEvents_def)
qed

lemma chain_OnDeactivate: "R u v \<Longrightarrow> R u (OnDeactivate s v)"
  unfolding OnDeactivate_def Let_def
  by (cases s) (auto intro!: chain split: option.splits)

text \<open>Rules that follow the shape of a handler's body.\<close>

lemma shape_plain:
  "(b \<Longrightarrow> R u x) \<Longrightarrow> (\<not> b \<Longrightarrow> R u y) \<Longrightarrow> R u (if b then x else y)"
  "(b \<Longrightarrow> R u (f w)) \<Longrightarrow> (\<not> b \<Longrightarrow> R u (g w)) \<Longrightarrow> R u ((if b then f else g) w)"
  "R u x \<Longrightarrow> (\<And>a. R u (f a)) \<Longrightarrow> R u (case o' of None \<Rightarrow> x | Some a \<Rightarrow> f a)"
  "(\<And>a. R u (p a)) \<Longrightarrow> (\<And>a. R u (q a)) \<Longrightarrow> R u (case s of Inl a \<Rightarrow> p a | Inr a \<Rightarrow> q a)"
  "R u x \<Longrightarrow> (\<And>a as. R u (k a as)) \<Longrightarrow> R u (case l of [] \<Rightarrow> x | a # as \<Rightarrow> k a as)"
  "R u x \<Longrightarrow> R u y \<Longrightarrow> R u (case b of True \<Rightarrow> x | False \<Rightarrow> y)"
  by (simp_all split: option.splits sum.splits list.splits bool.splits)

lemma shape_fst:
  "(b \<Longrightarrow> R u (fst x)) \<Longrightarrow> (\<not> b \<Longrightarrow> R u (fst y)) \<Longrightarrow> R u (fst (if b then x else y))"
  "R u (fst x) \<Longrightarrow> (\<And>a. R u (fst (f a))) \<Longrightarrow> R u (fst (case o' of None \<Rightarrow> x | Some a \<Rightarrow> f a))"
  "(\<And>a. R u (fst (p a))) \<Longrightarrow> (\<And>a. R u (fst (q a))) \<Longrightarrow> R u (fst (case s of Inl a \<Rightarrow> p a | Inr a \<Rightarrow> q a))"
  "R u (fst x) \<Longrightarrow> (\<And>a as. R u (fst (k a as))) \<Longrightarrow> R u (fst (case l of [] \<Rightarrow> x | a # as \<Rightarrow> k a as))"
  "R u (fst x) \<Longrightarrow> R u (fst y) \<Longrightarrow> R u (fst (case b of True \<Rightarrow> x | False \<Rightarrow> y))"
  by (simp_all split: option.splits sum.splits list.splits bool.splits)

lemma shape_pair:
  "R u (fst p) \<Longrightarrow> (\<And>x y. R u x \<Longrightarrow> R u (f x y)) \<Longrightarrow> R u (case p of (x, y) \<Rightarrow> f x y)"
  "R u (fst p) \<Longrightarrow> (\<And>x y. R u x \<Longrightarrow> R u (fst (g x y))) \<Longrightarrow> R u (fst (case p of (x, y) \<Rightarrow> g x y))"
  "R u w \<Longrightarrow> (\<And>x. R u x \<Longrightarrow> R u (k x)) \<Longrightarrow> R u (let x = w in k x)"
  "R u w \<Longrightarrow> (\<And>x. R u x \<Longrightarrow> R u (fst (l x))) \<Longrightarrow> R u (fst (let x = w in l x))"
  by (cases p; simp)+

lemma shape_data:
  "(\<And>a b. R u (h a b)) \<Longrightarrow> R u (case d of (a, b) \<Rightarrow> h a b)"
  "(\<And>a b. R u (fst (k a b))) \<Longrightarrow> R u (fst (case d of (a, b) \<Rightarrow> k a b))"
  "(\<And>a. R u (f a)) \<Longrightarrow> R u (let a = e in f a)"
  "(\<And>a. R u (fst (g a))) \<Longrightarrow> R u (fst (let a = e in g a))"
  by (simp_all split: prod.splits)

lemmas shape = shape_plain shape_fst shape_pair

lemma chain_first_p1xx: "R u v \<Longrightarrow> R u (first_p1xx t v)"
  unfolding first_p1xx_def by (rule shape chain | assumption | rule shape_data)+

lemma chain_stop_no_progress: "R u v \<Longrightarrow> R u (stop_no_progress env t v)"
  unfolding stop_no_progress_def by (rule shape chain | assumption | rule shape_data)+

lemma chain_disconnect_at: "R u v \<Longrightarrow> R u (disconnect_at env t v)"
  unfolding disconnect_at_def by (rule shape chain | assumption | rule shape_data)+

lemma chain_set_deadlines: "R u v \<Longrightarrow> R u (set_deadlines t v)"
  unfolding set_deadlines_def by (rule shape chain | assumption | rule shape_data)+

lemma chain_start_first_timer: "R u v \<Longrightarrow> R u (start_first_timer env t v)"
  unfolding start_first_timer_def by (rule shape chain | assumption | rule shape_data)+

lemma chain_trying_timers: "R u v \<Longrightarrow> R u (trying_timers env rs v)"
  unfolding trying_timers_def by (rule shape chain | assumption | rule shape_data)+

lemma chain_progress_timers: "R u v \<Longrightarrow> R u (progress_timers env rs v)"
  unfolding progress_timers_def by (rule shape chain | assumption | rule shape_data)+

lemma chain_UasIdle_timers: "R u v \<Longrightarrow> R u (UasIdle_timers env t t' v)"
  unfolding UasIdle_timers_def by (rule shape chain | assumption | rule shape_data)+

lemma chain_new_event: "R u v \<Longrightarrow> R u (fst (new_event env t og hs v))"
  by (simp add: new_event_def chain)

lemma chain_disconnect_event: "R u v \<Longrightarrow> R u (enqueue_disconnect env a t re v)"
  unfolding enqueue_disconnect_def by (rule shape chain chain_new_event | assumption)+

lemma chain_remote_sdp:
  "R u v \<Longrightarrow> (\<And>w. R u w \<Longrightarrow> R u (hooked w)) \<Longrightarrow> (\<And>w. R u w \<Longrightarrow> R u (stored w)) \<Longrightarrow>
   R u (take_remote_sdp b e hooked stored v)"
  by (cases b) (simp_all add: take_remote_sdp_def chain)

lemma chain_go [simp]:
  "R u (fst (stay v)) = R u v" "R u (fst (go s cb v)) = R u v" "R u (fst (move r)) = R u (fst r)"
  "R u (fst (ignore v)) = R u v"
  by (simp_all add: stay_def go_def move_def ignore_def)

lemma chain_result:
  "R u v \<Longrightarrow> R u (fst (stay v))" "R u v \<Longrightarrow> R u (fst (go s cb v))" "R u (fst r) \<Longrightarrow> R u (fst (move r))"
  "R u v \<Longrightarrow> R u (fst (ignore v))" "R u v \<Longrightarrow> R u (fst (v, x))"
  by simp_all

lemma chain_go_states:
  "R u v \<Longrightarrow> R u (fst (go_PreConnect c cb v))" "R u v \<Longrightarrow> R u (fst (go_Connected cb v))"
  "R u v \<Longrightarrow> R u (fst (go_Disconnected cb v))" "R u v \<Longrightarrow> R u (fst (go_Failed cb v))"
  "R u v \<Longrightarrow> R u (fst (go_Cancelling cb v))"
  by (simp_all add: go_PreConnect_def go_Connected_def go_Disconnected_def go_Failed_def go_Cancelling_def chain)

lemma chain_local_sdp: "R u v \<Longrightarrow> R u (fst r) \<Longrightarrow> R u (fst (with_local_sdp b ev v r))"
  by (auto simp: with_local_sdp_def intro!: chain split: option.splits)

lemmas chain_all = chain chain_listeners chain_run_cb chain_responses chain_emitPending chain_OnDeactivate
  chain_first_p1xx chain_stop_no_progress chain_disconnect_at chain_set_deadlines
  chain_start_first_timer chain_trying_timers chain_progress_timers chain_UasIdle_timers chain_new_event chain_disconnect_event chain_remote_sdp chain_result
  chain_go_states chain_local_sdp

section \<open>Events from the controller\<close>

lemma keeps_cseq_instances:
  "keeps_cseq Inr" "keeps_cseq (\<lambda>rq. Inr (AppendHeader (H_Also h) rq))" "keeps_cseq (\<lambda>rq. Inr (rq\<lparr>m_body := b\<rparr>))"
  "keeps_cseq (\<lambda>rq. Inr (AppendHeader (H_RAck r) rq))"
  "keeps_cseq (\<lambda>rq. case l of Some (Inr a) \<Rightarrow> Inr (AppendHeader (H_ReferredBy (f a)) (AppendHeader (H_ReferTo x) rq))
     | Some (Inl e) \<Rightarrow> Inl e | None \<Rightarrow> Inl e')"
  by (auto simp: keeps_cseq_def extends_headers_def push_header_def split: option.splits sum.splits)

lemmas chain_msg = chain_all chain_send chain_invite keeps_cseq_instances

lemma event_Uas:
  assumes v: "R u v"
  shows "R u (fst (UasTrying_RecvEvent env ev v))" "R u (fst (UasRinging_RecvEvent env ev v))"
    "R u (fst (UasUpdating_RecvEvent env ev v))"
  unfolding UasTrying_RecvEvent_def UasRinging_RecvEvent_def UasUpdating_RecvEvent_def
  by (cases ev; simp only: cc_event.case; (rule v shape chain_all | rule shape_data | assumption | simp)+)+

lemma event_RingingRel:
  assumes v: "R u v" and s: "u_state v = Some (UasStateRingingRel rr')"
  shows "R u (fst (UasRingingRel_RecvEvent env rr ev v))"
  unfolding UasRingingRel_RecvEvent_def
  by (cases ev; simp only: cc_event.case; (rule v shape chain_all chain_state event_Uas | simp add: s)+)

lemma chain_hang_up: "R u v \<Longrightarrow> R u (fst (hang_up env rd ev v))"
  unfolding hang_up_def
  by (cases rd; cases "u_useRefer v"; simp only: option.case bool.case prod.case Let_def;
      (rule shape chain_msg | assumption | simp)+)

lemma chain_send_info: "R u v \<Longrightarrow> R u (fst (send_info env b ev v))"
  unfolding send_info_def by (rule shape chain_msg | assumption | simp)+

lemma chain_send_update: "R u v \<Longrightarrow> R u (fst (send_update env b hs v))"
  unfolding send_update_def by (rule shape chain_msg | assumption | simp)+

lemma chain_ending:
  "R u v \<Longrightarrow> R u (fst d) \<Longrightarrow> R u (fst (case ending_event env ev v of None \<Rightarrow> d | Some r \<Rightarrow> r))"
  by (cases ev) (simp_all add: ending_event_def chain_hang_up split: option.splits)

lemma event_PreConnect:
  "R u v \<Longrightarrow> u_state v = Some (UasStatePreConnect p c') \<Longrightarrow> R u (fst (UasPreConnect_RecvEvent env c ev v))"
  unfolding UasPreConnect_RecvEvent_def
  by (cases ev; simp only: cc_event.case;
      (rule chain_ending chain_send_info chain_result chain chain_state | assumption | simp)+)

lemma chain_connected_update: "R u v \<Longrightarrow> R u (fst (connected_update env g b ev v))"
  unfolding connected_update_def
  by (rule shape chain_msg chain_send_update | assumption | rule shape_data | simp)+

lemma chain_connected_connect: "R u v \<Longrightarrow> R u (fst (connected_connect env b ev v))"
  unfolding connected_connect_def
  by (rule shape chain_msg | assumption | rule shape_data | simp)+

lemma event_Connected: "R u v \<Longrightarrow> R u (fst (Connected_RecvEvent env ev v))"
  unfolding Connected_RecvEvent_def
  by (rule chain_ending)
    (assumption, cases ev, simp_all add: chain_send_info chain_connected_update chain_connected_connect)

lemma event_Uac:
  assumes v: "R u v"
  shows "R u (fst (UacTrying_RecvEvent env ev v))" "R u (fst (UacRinging_RecvEvent env ev v))"
    "R u (fst (UacUpdating_RecvEvent env ev v))"
  unfolding UacTrying_RecvEvent_def UacRinging_RecvEvent_def UacUpdating_RecvEvent_def
  by (rule v shape chain_all | assumption)+

section \<open>Messages\<close>

lemma chain_ring_event: "R u v \<Longrightarrow> R u (fst (ring_event env rs v))"
  unfolding ring_event_def by (rule shape chain_all | assumption)+

lemma chain_send_prack: "R u v \<Longrightarrow> R u (fst (send_prack env rs tr v))"
  unfolding send_prack_def by (rule shape chain_msg | assumption | rule shape_data | simp)+

lemma request_Ringing: "R u v \<Longrightarrow> R u (fst (UasRinging_RecvRequest env rq v))"
  unfolding UasRinging_RecvRequest_def Let_def by (rule shape chain_all | assumption)+

lemma request_busy: "R u v \<Longrightarrow> R u (fst (busy_RecvRequest env c r rq v))"
  unfolding busy_RecvRequest_def by (rule shape chain_all | assumption | rule shape_data)+

lemma request_UacUpdating: "R u v \<Longrightarrow> R u (fst (UacUpdating_RecvRequest env rq v))"
  unfolding UacUpdating_RecvRequest_def by (rule shape chain_all | assumption | rule shape_data)+

lemma request_INVITE: "R u v \<Longrightarrow> R u (fst (connected_INVITE env rq v))"
  unfolding connected_INVITE_def by (rule shape chain_all | assumption | rule shape_data | simp)+

lemma request_BYE: "R u v \<Longrightarrow> R u (fst (connected_BYE env rq v))"
  unfolding connected_BYE_def Let_def by (rule shape chain_all | assumption)+

lemma request_INFO: "R u v \<Longrightarrow> R u (fst (connected_INFO env rq v))"
  unfolding connected_INFO_def by (rule shape chain_all | assumption)+

lemma request_Disconnected: "R u v \<Longrightarrow> R u (fst (Disconnected_RecvRequest rq v))"
  unfolding Disconnected_RecvRequest_def by (rule shape chain_all | assumption)+

lemma response_tagless: "R u v \<Longrightarrow> R u (fst (tagless_answer env rs c v))"
  unfolding tagless_answer_def by (rule shape chain_all | assumption | rule shape_data)+

lemma response_answered: "R u v \<Longrightarrow> R u (fst (answered env b rs tr tag ruri v))"
  unfolding answered_def by (rule shape chain_all | assumption | rule shape_data | simp)+

lemma response_2xx: "R u v \<Longrightarrow> R u (fst (answer_2xx env b rs tr v))"
  unfolding answer_2xx_def
  by (rule shape chain_all response_tagless response_answered | assumption | rule shape_data)+

lemma chain_rejection: "R u v \<Longrightarrow> rejection_event env chs rs v = Some (w, x) \<Longrightarrow> R u w"
  by (auto simp: rejection_event_def new_event_def chain split: sum.splits option.splits)

lemma response_rejected: "R u v \<Longrightarrow> R u (fst (rejected env chs rs v))"
  by (auto simp: rejected_def Let_def split: option.splits intro!: chain_go_states chain_disconnect_at chain
      dest: chain_rejection)

lemma response_UacTrying: "R u v \<Longrightarrow> R u (fst (UacTrying_RecvResponse env rs tr v))"
  unfolding UacTrying_RecvResponse_def
  by (rule shape chain_all chain_ring_event chain_send_prack response_2xx response_rejected | assumption
      | rule shape_data)+

lemma response_UacRinging: "R u v \<Longrightarrow> R u (fst (UacRinging_RecvResponse env rs tr v))"
  unfolding UacRinging_RecvResponse_def
  by (rule shape chain_all chain_ring_event chain_send_prack response_2xx response_rejected | assumption
      | rule shape_data)+

lemma response_updateFailed: "R u v \<Longrightarrow> R u (fst (updateFailed env ev v))"
  unfolding updateFailed_def by (rule shape chain_all | assumption | rule shape_data)+

lemma response_update_answered: "R u v \<Longrightarrow> R u (fst (update_answered env rs tr v))"
  unfolding update_answered_def
  by (rule shape chain_all response_updateFailed | assumption | rule shape_data | simp)+

lemma response_UacUpdating: "R u v \<Longrightarrow> R u (fst (UacUpdating_RecvResponse env rs tr v))"
  unfolding UacUpdating_RecvResponse_def Let_def
  by (auto split: option.splits prod.splits intro!: response_update_answered response_updateFailed
      chain chain_go_states dest: chain_rejection chain_ring_event [of u v env rs])

lemma response_UacCancelling:
  "R u v \<Longrightarrow> u_state v = Some (UacStateCancelling te) \<Longrightarrow> R u (fst (UacCancelling_RecvResponse env rs v))"
  unfolding UacCancelling_RecvResponse_def
  by (rule shape chain_all chain_state | assumption | rule shape_data | simp)+

section \<open>Idle states\<close>

lemma event_UacIdle:
  assumes v: "R u v" and s: "phase (u_state v) \<le> 1"
  shows "R u (fst (UacIdle_RecvEvent env ev v))"
proof -
  have ident: "R u w \<Longrightarrow> phase (u_state w) \<le> 1 \<Longrightarrow> R u (UacIdle_identities env info a w)" for w info a
    unfolding UacIdle_identities_def Let_def
    by (rule chain_cseq chain_responses chain | assumption
        | simp add: ua_RegConsumer_def out_if_def out_def view_setters)+
  have prep: "R u w \<Longrightarrow> phase (u_state w) \<le> 1 \<Longrightarrow> R u (fst (UacIdle_prepare env info w))" for w info
    unfolding UacIdle_prepare_def
    by (rule shape ident chain_all | assumption | simp)+
  show ?thesis
    unfolding UacIdle_RecvEvent_def UacIdle_try_def Let_def
    by (cases ev; simp only: cc_event.case;
        (rule v shape prep chain_msg | assumption | simp add: s [simplified] SetOrigin_def SetSetupTs_def SetLateMedia_def)+)
qed

lemma request_UasIdle:
  assumes v: "R u v" and s: "phase (u_state v) \<le> 1"
  shows "R u (fst (UasIdle_RecvRequest env rq v))"
proof -
  have dialog: "R u w \<Longrightarrow> R u (UasIdle_dialog rs a b w)" for w rs a b
    unfolding UasIdle_dialog_def by (rule shape chain_all | assumption | rule shape_data)+
  have "R u w \<Longrightarrow> R u (fst (UasIdle_try env rq a w))" for w a
    unfolding UasIdle_try_def Let_def by (rule shape chain_all | assumption | rule shape_data)+
  note trying = this
  show ?thesis unfolding UasIdle_RecvRequest_def Let_def
    by (rule v shape chain_all chain_cseq trying dialog | assumption | rule shape_data
        | simp add: s [simplified] SetUasResp_def SetOrigin_def)+
qed

section \<open>Whole states\<close>

lemma event_state: "R u v \<Longrightarrow> u_state v = Some s \<Longrightarrow> R u (fst (state_RecvEvent env s ev v))"
  by (cases s) (simp_all add: state_RecvEvent_def event_Uas event_RingingRel event_PreConnect
      event_Connected event_Uac event_UacIdle)

lemma response_state:
  "R u v \<Longrightarrow> u_state v = Some s \<Longrightarrow> R u (fst (state_RecvResponse env s rs tr v))"
  by (cases s) (simp_all add: state_RecvResponse_def response_UacTrying response_UacRinging
      response_UacUpdating response_UacCancelling)

end

end
