(* ===== verification/Ua_Machine.thy ===== *)
theory Ua_Machine
  imports Ua_Relation
begin

text \<open>
  The user agent as a machine: its inputs, one step for each, and what holds of every step.
  The stages of a call are passed in one direction only; with that, the contract of
  \<open>Ua_Relation\<close> extends from the handlers to whole steps, and is instantiated by the order of the
  time stamps, of the events delivered, of the CSeq numbers sent and of the log.
\<close>

section \<open>Where the handlers lead\<close>

text \<open>A transition, if any, does not lead to an earlier stage.\<close>

definition up :: "nat \<Rightarrow> ua \<times> transition \<Rightarrow> bool" where
  "up n r = (case snd r of Some (s, cb) \<Rightarrow> n \<le> phase (Some s) | None \<Rightarrow> True)"

definition up_result :: "nat \<Rightarrow> event_result \<Rightarrow> bool" where
  "up_result n r = (case snd r of Inr (Some (s, cb)) \<Rightarrow> n \<le> phase (Some s) | _ \<Rightarrow> True)"

lemma up_simps [simp]:
  "up n (stay u)" "up n (go s cb u) = (n \<le> phase (Some s))" "up n (go_PreConnect c cb u) = (n \<le> 4)"
  "up n (go_Connected cb u) = (n \<le> 4)" "up n (go_Disconnected cb u) = (n \<le> 6)"
  "up n (go_Failed cb u) = (n \<le> 6)" "up n (go_Cancelling cb u) = (n \<le> 5)"
  by (simp_all add: up_def stay_def go_def go_PreConnect_def go_Connected_def go_Disconnected_def
      go_Failed_def go_Cancelling_def)

lemma up_result_simps [simp]:
  "up_result n (ignore u)" "up_result n (move r) = up n r" "up_result n (u, Inl e)"
  by (simp_all add: up_result_def up_def ignore_def move_def)

lemma up_result_local_sdp [simp]: "up_result n r \<Longrightarrow> up_result n (with_local_sdp b ev u r)"
  by (simp add: with_local_sdp_def split: option.splits)

lemma up_result_shape:
  "(\<And>a. up_result n (p a)) \<Longrightarrow> (\<And>a. up_result n (q a)) \<Longrightarrow> up_result n (case s of Inl a \<Rightarrow> p a | Inr a \<Rightarrow> q a)"
  "(\<And>a b. up_result n (g a b)) \<Longrightarrow> up_result n (case d of (a, b) \<Rightarrow> g a b)"
  "(\<And>a. up_result n (h a)) \<Longrightarrow> up_result n (let a = e in h a)"
  by (simp_all split: sum.splits prod.splits)

lemma up_hang_up [simp]: "n \<le> 6 \<Longrightarrow> up_result n (hang_up env rd ev u)"
  by (simp add: hang_up_def Let_def split: prod.splits sum.splits)

lemma up_ending: "n \<le> 6 \<Longrightarrow> up_result n d \<Longrightarrow>
    up_result n (case ending_event env ev u of None \<Rightarrow> d | Some r \<Rightarrow> r)"
  by (cases ev) (simp_all add: ending_event_def split: option.splits)

lemma up_send [simp]:
  "up_result n (send_info env b ev u)" "n \<le> 4 \<Longrightarrow> up_result n (send_update env b hs u)"
  by (simp_all add: send_info_def send_update_def split: prod.splits sum.splits)

lemma up_connected_update: "n \<le> 4 \<Longrightarrow> up_result n (connected_update env g b ev u)"
  by (simp add: connected_update_def Let_def split: prod.splits sum.splits option.splits)

lemma up_UasRinging: "up_result 3 (UasRinging_RecvEvent env ev u)"
  by (cases ev) (simp_all add: UasRinging_RecvEvent_def Let_def split: prod.splits)

lemma up_UasEvents:
  "up_result 2 (UasTrying_RecvEvent env ev u)" "up_result 4 (UasUpdating_RecvEvent env ev u)"
  "up_result 3 (UasRingingRel_RecvEvent env rr ev u)"
  by (cases ev; simp add: UasTrying_RecvEvent_def UasUpdating_RecvEvent_def UasRingingRel_RecvEvent_def
      up_UasRinging Let_def split: prod.splits sum.splits)+

lemma up_UacIdle: "up_result 1 (UacIdle_RecvEvent env ev u)"
proof -
  have "up_result 1 (UacIdle_try env g info ev u)" for g info ev
    unfolding UacIdle_try_def by (rule up_result_shape up_result_local_sdp | simp)+
  then show ?thesis by (cases ev) (simp_all add: UacIdle_RecvEvent_def)
qed

lemma up_UacEvents:
  "up_result 2 (UacTrying_RecvEvent env ev u)" "up_result 3 (UacRinging_RecvEvent env ev u)"
  "up_result 4 (UacUpdating_RecvEvent env ev u)"
  by (simp_all add: UacTrying_RecvEvent_def UacRinging_RecvEvent_def UacUpdating_RecvEvent_def
      split: prod.splits sum.splits)

lemma up_ConnectedEvents:
  "up_result 4 (UasPreConnect_RecvEvent env c ev u)" "up_result 4 (Connected_RecvEvent env ev u)"
proof -
  show "up_result 4 (UasPreConnect_RecvEvent env c ev u)"
    by (cases ev) (simp_all add: UasPreConnect_RecvEvent_def up_ending)
  have "up_result 4 (connected_connect env b ev u)" for b ev
    by (simp add: connected_connect_def Let_def split: option.splits)
  then show "up_result 4 (Connected_RecvEvent env ev u)"
    unfolding Connected_RecvEvent_def
    by (intro up_ending) (simp, cases ev, simp_all add: up_connected_update)
qed

lemma up_event: "up_result (phase (Some s)) (state_RecvEvent env s ev u)"
  by (cases s) (simp_all add: state_RecvEvent_def up_UasRinging up_UasEvents up_UacIdle [simplified] up_UacEvents up_ConnectedEvents)

lemma up_shape:
  "(b \<Longrightarrow> up n x) \<Longrightarrow> (\<not> b \<Longrightarrow> up n y) \<Longrightarrow> up n (if b then x else y)"
  "up n x \<Longrightarrow> (\<And>a. up n (f a)) \<Longrightarrow> up n (case o' of None \<Rightarrow> x | Some a \<Rightarrow> f a)"
  "(\<And>a. up n (p a)) \<Longrightarrow> (\<And>a. up n (q a)) \<Longrightarrow> up n (case s of Inl a \<Rightarrow> p a | Inr a \<Rightarrow> q a)"
  "up n x \<Longrightarrow> (\<And>a as. up n (k a as)) \<Longrightarrow> up n (case l of [] \<Rightarrow> x | a # as \<Rightarrow> k a as)"
  "up n x \<Longrightarrow> up n y \<Longrightarrow> up n (case b of True \<Rightarrow> x | False \<Rightarrow> y)"
  "(\<And>a b. up n (g a b)) \<Longrightarrow> up n (case d of (a, b) \<Rightarrow> g a b)"
  "(\<And>a. up n (h a)) \<Longrightarrow> up n (let a = e in h a)"
  by (simp_all split: option.splits sum.splits list.splits bool.splits prod.splits)

lemma up_connected_BYE: "up 4 (connected_BYE env rq u)"
  unfolding connected_BYE_def Let_def by (rule up_shape | simp)+

lemma up_requests:
  "up 1 (UasIdle_RecvRequest env rq u)" "up 3 (UasRinging_RecvRequest env rq u)"
  "up 4 (busy_RecvRequest env c r rq u)" "up 4 (UacUpdating_RecvRequest env rq u)"
  "up n (Disconnected_RecvRequest rq u)" "up 4 (Connected_RecvRequest env rq u)"
proof -
  show "up 3 (UasRinging_RecvRequest env rq u)"
    unfolding UasRinging_RecvRequest_def Let_def by (rule up_shape | simp)+
qed (unfold UasIdle_RecvRequest_def UasIdle_try_def busy_RecvRequest_def
      UacUpdating_RecvRequest_def Disconnected_RecvRequest_def Connected_RecvRequest_def connected_REFER_def
      connected_INVITE_def connected_INFO_def, (rule up_shape up_connected_BYE | simp)+)

lemma up_request: "up (phase (Some s)) (state_RecvRequest env s rq u)"
  by (cases s) (simp_all add: state_RecvRequest_def up_requests [simplified]
      UasPreConnect_RecvRequest_def UasUpdating_RecvRequest_def)

lemma up_answers:
  "n \<le> 4 \<Longrightarrow> up n (answer_2xx env b rs tr u)" "n \<le> 6 \<Longrightarrow> up n (rejected env chs rs u)"
  "n \<le> 6 \<Longrightarrow> up n (updateFailed env ev u)" "n \<le> 4 \<Longrightarrow> up n (update_answered env rs tr u)"
proof -
  show fail: "n \<le> 6 \<Longrightarrow> up n (updateFailed env ev u)" for ev u
    by (simp add: updateFailed_def Let_def split: prod.splits sum.splits)
  show "n \<le> 4 \<Longrightarrow> up n (answer_2xx env b rs tr u)"
    by (simp add: answer_2xx_def answered_def tagless_answer_def Let_def
        split: prod.splits sum.splits option.splits)
  show "n \<le> 6 \<Longrightarrow> up n (rejected env chs rs u)"
    by (simp add: rejected_def Let_def split: option.splits prod.splits)
  show "n \<le> 4 \<Longrightarrow> up n (update_answered env rs tr u)"
    by (simp add: update_answered_def Let_def fail split: prod.splits option.splits bool.splits)
qed

lemma up_response: "up (phase (Some s)) (state_RecvResponse env s rs tr u)"
proof (cases s)
  case UacStateTrying
  then show ?thesis
    by (simp add: state_RecvResponse_def UacTrying_RecvResponse_def Let_def up_answers
        split: prod.splits bool.splits)
next
  case UacStateRinging
  then show ?thesis
    by (simp add: state_RecvResponse_def UacRinging_RecvResponse_def Let_def up_answers
        split: prod.splits bool.splits)
next
  case UacStateUpdating
  then show ?thesis
    by (simp add: state_RecvResponse_def UacUpdating_RecvResponse_def Let_def up_answers
        split: prod.splits option.splits)
next
  case (UacStateCancelling te)
  then show ?thesis
    by (simp add: state_RecvResponse_def UacCancelling_RecvResponse_def Let_def
        split: prod.splits option.splits sum.splits)
qed (simp_all add: state_RecvResponse_def)

section \<open>Handlers keep the stage\<close>

text \<open>What the primitive operations change of the part general properties speak of.\<close>

lemma state_kept [ua_simps]:
  "u_state (out x u) = u_state u" "u_state (Enqueue e u) = u_state u" "u_state (EmitEvent e u) = u_state u"
  "u_state (SetDisconnectTs t u) = u_state u" "u_state (SetConnectTs t u) = u_state u"
  "u_state (SetLCSeq n u) = u_state u" "u_state (set_state s u) = Some s" "u_state (OnDead u) = u_state u"
  by (simp_all add: out_def Enqueue_def EmitEvent_def SetDisconnectTs_def SetConnectTs_def SetLCSeq_def
      set_state_def OnDead_def out_if_def Let_def split: option.splits)

lemma view_state: "view u = view v \<Longrightarrow> u_state u = u_state v"
  by (simp add: view_def)

interpretation stage: ua_handlers "\<lambda>u v. phase (u_state v) = phase (u_state u)"
  by unfold_locales
    (auto simp: state_kept sends_def same_call_def dest: view_state)

lemma OnDeactivate_phase: "phase (u_state (OnDeactivate s u)) = phase (u_state u)"
  by (rule stage.chain_OnDeactivate) simp

lemma state_event_phase:
  "u_state u = Some s \<Longrightarrow> phase (u_state (fst (state_RecvEvent env s ev u))) = phase (Some s)"
  using stage.event_state [of u u s env ev] by simp

lemma state_response_phase:
  "u_state u = Some s \<Longrightarrow> phase (u_state (fst (state_RecvResponse env s rs tr u))) = phase (Some s)"
  using stage.response_state [of u u s env rs tr] by simp

text \<open>A REFER in a connected call ends it on the way, but leads to no further transition.\<close>

lemma state_request_up:
  assumes "u_state u = Some s"
  shows "up (phase (u_state (fst (state_RecvRequest env s rq u)))) (state_RecvRequest env s rq u)"
proof (cases "\<exists>k. s = UaStateConnected k \<and> rq_method rq = ''REFER''")
  case True
  then show ?thesis
    by (auto simp: state_RecvRequest_def Connected_RecvRequest_def connected_REFER_def Let_def
        split: option.splits sum.splits prod.splits)
next
  case False
  then have "phase (u_state (fst (state_RecvRequest env s rq u))) = phase (Some s)"
    using assms
      stage.request_UasIdle [of u u env rq] stage.request_Ringing [of u u env rq]
      stage.request_busy [of u u env 200 "''OK''" rq]
      stage.request_busy [of u u env 487 "''Request Terminated''" rq]
      stage.request_UacUpdating [of u u env rq] stage.request_Disconnected [of u u rq]
      stage.request_INVITE [of u u env rq] stage.request_BYE [of u u env rq] stage.request_INFO [of u u env rq]
      stage.chain_responses(2) [of u u 0 200 "''OK''" rq]
    by (cases s) (simp_all add: state_RecvRequest_def UasPreConnect_RecvRequest_def
        UasUpdating_RecvRequest_def Connected_RecvRequest_def stay_def)
  then show ?thesis using up_request [of s env rq u] by simp
qed

lemma start_invite_state:
  "start_invite env b ch hs mid fin u = (w, r) \<Longrightarrow> mild mid \<Longrightarrow> (\<And>tr. mild (fin tr)) \<Longrightarrow> u_state w = u_state u"
  using start_invite_sends [of mid fin u env b ch hs] by (auto simp: sends_def same_call_def)

lemma try_challenge_state: "u_state (fst (try_challenge env rs c eh u)) = u_state u"
proof -
  have tr: "u_state (SetClientTransaction x v) = u_state v" for x v by (simp add: SetClientTransaction_def)
  have "u_state (fst (processChallenge env chs n eh u)) = u_state u" for chs n
    by (auto simp: processChallenge_def tr split: option.splits prod.splits sum.splits
        dest!: start_invite_state)
  then show ?thesis by (auto simp: try_challenge_def split: option.splits)
qed

section \<open>From handlers to steps\<close>

locale ua_machine = ua_handlers +
  assumes R_enter: "phase (u_state u) \<le> phase (Some s) \<Longrightarrow> R u (set_state s u)"
    and R_OnDead: "R u (OnDead u)"
begin

lemma chain_ChangeState: "R u v \<Longrightarrow> phase (u_state v) \<le> phase (Some s) \<Longrightarrow> R u (ChangeState s cb v)"
proof -
  assume uv: "R u v" and s: "phase (u_state v) \<le> phase (Some s)"
  define w where "w = (case u_state v of Some old \<Rightarrow> OnDeactivate old v | None \<Rightarrow> v)"
  have w: "R u w" "phase (u_state w) = phase (u_state v)"
    using uv by (auto simp: w_def chain_OnDeactivate OnDeactivate_phase split: option.splits)
  then have entered: "R u (set_state s w)" using s R_enter R_trans by metis
  have dead: "R u x \<Longrightarrow> R u (OnDead x)" for x using R_trans R_OnDead by blast
  have "R u (OnActivation s (set_state s w))"
    using entered unfolding OnActivation_def
    by (cases s) (auto intro!: chain dead chain_state simp: ua_simps split: option.splits)
  then show ?thesis
    by (auto simp: ChangeState_def Let_def w_def intro: chain_run_cb split: option.splits)
qed

lemma chain_transition:
  "R u (fst r) \<Longrightarrow> up (phase (u_state (fst r))) r \<Longrightarrow> R u (apply_transition r)"
  by (auto simp: apply_transition_def up_def intro: chain_ChangeState split: option.splits)

lemma chain_connected:
  "R u v \<Longrightarrow> phase (u_state v) \<le> 4 \<Longrightarrow> R u (apply_transition (go_Connected cb v))"
  by (rule chain_transition) (simp_all add: chain_go_states, simp add: go_Connected_def go_def SetBranch_def)

lemma chain_disconnected:
  "R u v \<Longrightarrow> phase (u_state v) \<le> 6 \<Longrightarrow> R u (apply_transition (go_Disconnected cb v))"
  by (rule chain_transition) (simp_all add: chain_go_states, simp add: go_Disconnected_def go_def ResetSdpChange_def)

lemma chain_handled:
  assumes "R u v" "u_state v = Some s" "state_RecvEvent env s ev v = (w, r)"
  shows "R u w" "r = Inr tr \<Longrightarrow> R u (apply_transition (w, tr))"
proof -
  show "R u w" using event_state [OF assms(1,2), of env ev] assms(3) by simp
  moreover have "phase (u_state w) = phase (Some s)"
    using state_event_phase [OF assms(2), of env ev] assms(3) by simp
  moreover have "up_result (phase (Some s)) (w, r)" using up_event [of s env ev v] assms(3) by simp
  ultimately show "r = Inr tr \<Longrightarrow> R u (apply_transition (w, tr))"
    by (intro chain_transition) (auto simp: up_def up_result_def)
qed

lemma step_RecvEvent: "R u v \<Longrightarrow> R u (ua_RecvEvent env ev v)"
proof -
  assume uv: "R u v"
  define v1 where "v1 = (if u_state v = None then ChangeState UacStateIdle None v else v)"
  have v1: "R u v1" using uv by (simp add: v1_def chain_ChangeState)
  show ?thesis
  proof (cases "u_state v = None \<and> \<not> starts_call ev")
    case True
    with uv show ?thesis by (auto simp: ua_RecvEvent_def)
  next
    case False
    then have eq: "ua_RecvEvent env ev v = (case u_state v1 of None \<Rightarrow> v1 | Some s \<Rightarrow>
            (case state_RecvEvent env s ev v1 of
               (u2, Inl e) \<Rightarrow> u2
             | (u2, Inr tr) \<Rightarrow> emitPendingEvents (apply_transition (u2, tr))))"
      unfolding ua_RecvEvent_def Let_def v1_def [symmetric] by (simp only: if_False)
    show ?thesis unfolding eq
      using v1 by (auto intro: chain_handled chain_emitPending v1 split: option.splits prod.splits sum.splits)
  qed
qed

lemma step_Disconnect: "R u v \<Longrightarrow> R u (ua_Disconnect env t og v)"
  unfolding ua_Disconnect_def Let_def
  by (rule shape chain_all step_RecvEvent | assumption)+

lemma step_timers:
  "R u v \<Longrightarrow> R u (expires env v)" "R u v \<Longrightarrow> R u (no_progress_expires env v)"
  "R u v \<Longrightarrow> R u (no_reply_expires env v)" "R u v \<Longrightarrow> R u (credit_expires env t v)"
  "R u v \<Longrightarrow> R u (ResetCreditTime env t ts v)"
  by (simp_all add: expires_def no_progress_expires_def no_reply_expires_def credit_expires_def
      ResetCreditTime_def Let_def step_Disconnect chain)

lemma chain_REFER: "R u v \<Longrightarrow> R u (fst (connected_REFER env rq v))"
  unfolding connected_REFER_def
  by (rule shape chain_all step_RecvEvent | assumption | rule shape_data)+

lemma step_state_request: "u_state v = Some s \<Longrightarrow> R u v \<Longrightarrow> R u (fst (state_RecvRequest env s rq v))"
  by (cases s) (simp_all add: state_RecvRequest_def request_UasIdle request_Ringing request_busy
      UasPreConnect_RecvRequest_def UasUpdating_RecvRequest_def request_UacUpdating request_Disconnected
      Connected_RecvRequest_def chain_REFER request_INVITE request_BYE request_INFO chain_responses)

lemma chain_first_request: "R u v \<Longrightarrow> u_state v = None \<Longrightarrow> R u (first_request env rq t v)"
  unfolding first_request_def Let_def
  by (rule chain_ChangeState) (simp_all add: chain, simp add: out_if_def out_def)

lemma chain_handle_request: "R u v \<Longrightarrow> R u (fst (handle_request env rq v))"
proof (cases "u_state v")
  case (Some s)
  assume uv: "R u v"
  obtain w tr where w: "state_RecvRequest env s rq v = (w, tr)" by fastforce
  have "R u (apply_transition (w, tr))"
    using step_state_request [OF Some uv, of env rq] state_request_up [OF Some, of env rq] w
    by (intro chain_transition) simp_all
  then show ?thesis using Some w by (simp add: handle_request_def Let_def chain chain_emitPending)
qed (simp add: handle_request_def)

lemma step_RecvRequest: "R u v \<Longrightarrow> R u (fst (ua_RecvRequest env rq t v))"
  unfolding ua_RecvRequest_def
  by (rule shape chain_handle_request chain_first_request chain_all | assumption | simp)+

lemma chain_challenge: "R u v \<Longrightarrow> R u (fst (try_challenge env rs c eh v))"
proof -
  assume uv: "R u v"
  have "R u (fst (processChallenge env chs n eh v))" for chs n
    unfolding processChallenge_def
    by (rule uv shape chain_msg | assumption | simp)+
  then show ?thesis using uv by (auto simp: try_challenge_def split: option.splits)
qed

lemma step_RecvResponse: "R u v \<Longrightarrow> R u (ua_RecvResponse env rs tr v)"
proof -
  assume uv: "R u v"
  have handled: "R u (apply_transition (state_RecvResponse env s rs tr w))"
    if "R u w" "u_state w = Some s" for w s
    using that response_state [of u w s env rs tr] up_response [of s env rs tr w]
      state_response_phase [of w s env rs tr]
    by (intro chain_transition) simp_all
  show ?thesis
  proof (cases "\<exists>s c. u_state v = Some s \<and> m_cseq rs = Some (Inr c)")
    case True
    then obtain s and c :: cseq_body where s: "u_state v = Some s" and c: "m_cseq rs = Some (Inr c)" by blast
    obtain w b where w: "try_challenge env rs c (ct_req_extra_hdrs tr) (update_ua rs v) = (w, b)" by fastforce
    have "R u w" using chain_challenge [of u "update_ua rs v" env rs c "ct_req_extra_hdrs tr"] uv w
      by (simp add: chain)
    moreover have "u_state w = Some s"
      using try_challenge_state [of env rs c "ct_req_extra_hdrs tr" "update_ua rs v"] w s
      by (simp add: update_ua_def split: option.splits)
    ultimately show ?thesis using s c w
      by (cases b) (auto simp: ua_RecvResponse_def Let_def intro!: chain_emitPending handled chain)
  next
    case False
    then show ?thesis using uv by (auto simp: ua_RecvResponse_def split: option.splits sum.splits)
  qed
qed

lemma step_RecvACK: "R u v \<Longrightarrow> R u (ua_RecvACK env rq v)"
proof -
  assume uv: "R u v"
  have confirm: "R u (fst (confirm_connect env rq v))"
    unfolding confirm_connect_def by (rule uv shape chain_all | assumption | rule shape_data | simp)+
  have same: "u_state (fst (confirm_connect env rq v)) = u_state v"
    by (auto simp: confirm_connect_def Let_def new_event_def ConnCb_def out_if_def SetRSDP_def
        CancelExpireTimer_def CancelCreditTimer_def state_kept split: option.splits)
      (auto simp: StartCreditTimer_def Let_def SetConnectTs_def split: option.splits)
  have "R u (UasPreConnect_RecvACK env p c rq v)" if "u_state v = Some (UasStatePreConnect p c)" for p c
    using confirm same uv that
    by (auto simp: UasPreConnect_RecvACK_def Let_def split: prod.splits option.splits if_splits
        intro!: step_RecvEvent chain chain_connected)
  then show ?thesis
    using uv by (auto simp: ua_RecvACK_def intro!: chain_emitPending split: option.splits ua_state.splits)
qed

lemma step_RecvPRACK: "R u v \<Longrightarrow> R u (ua_RecvPRACK env rq v)"
proof -
  assume uv: "R u v"
  have after: "R u (after_prack env rr w)" if "R u w" "u_state w = Some (UasStateRingingRel rr)" for rr w
    using that chain_handled [of u w "UasStateRingingRel rr" env] 
    by (auto simp: after_prack_def state_RecvEvent_def apply_transition_def ignore_def
        split: option.splits prod.splits sum.splits)
  have clear: "R u w \<Longrightarrow> R u (clear_pending w)" for w
    by (auto simp: clear_pending_def intro!: chain_state split: option.splits ua_state.splits)
  have ring: "R u (set_state (UasStateRingingRel rr') v)" if "u_state v = Some (UasStateRingingRel rr)" for rr rr'
    using that uv by (intro chain_state) simp_all
  show ?thesis
  proof (cases "\<exists>rr. u_state v = Some (UasStateRingingRel rr)")
    case True
    then obtain rr where rr: "u_state v = Some (UasStateRingingRel rr)" by blast
    show ?thesis unfolding ua_RecvPRACK_def rr
      by (simp only: option.case ua_state.case)
        (rule shape clear after ring [OF rr] step_RecvEvent chain | rule shape_data | assumption
          | simp add: state_kept)+
  next
    case False
    with uv show ?thesis by (auto simp: ua_RecvPRACK_def split: option.splits ua_state.splits)
  qed
qed

lemma chain_cancel:
  assumes uv: "R u v"
    and ended: "\<And>w cb. R u w \<Longrightarrow> phase (u_state w) = phase (u_state v) \<Longrightarrow> R u (apply_transition (go_Disconnected cb w))"
  shows "R u (RecvCancel env s t rq v)"
proof -
  have early: "R u (early_RecvCancel env t rq v)"
    unfolding early_RecvCancel_def new_event_def prod.case
    by (rule chain ended uv | simp add: state_kept)+
  have "R u (updating_RecvCancel env t rq v)"
  proof -
    obtain w r where w: "send_bye env [] v = (w, r)" by fastforce
    have "R u w" using chain_bye [OF uv, of env "[]"] w by simp
    moreover have "phase (u_state w) = phase (u_state v)" using stage.chain_bye [of v v env "[]"] w by simp
    moreover have "u_state (CancelCreditTimer w) = u_state w" by (simp add: CancelCreditTimer_def)
    ultimately show ?thesis
      by (auto simp: updating_RecvCancel_def w new_event_def Let_def state_kept
          split: sum.splits intro!: chain ended)
  qed
  with early uv show ?thesis by (cases s) (simp_all add: RecvCancel_def)
qed

lemma step_RecvCancel: "R u v \<Longrightarrow> phase (u_state v) \<le> 6 \<Longrightarrow> R u (RecvCancel env s t rq v)"
  by (rule chain_cancel) (simp_all add: chain_disconnected)

lemma step_dead: "R u v \<Longrightarrow> R u (goDead v)" "R u v \<Longrightarrow> R u (goIdle v)"
proof -
  have le: "phase x \<le> 7" for x by (cases x rule: phase.cases) simp_all
  show "R u v \<Longrightarrow> R u (goDead v)" by (simp add: goDead_def chain_ChangeState le)
  show "R u v \<Longrightarrow> R u (goIdle v)"
    by (auto simp: goIdle_def le intro!: chain_ChangeState chain_state split: option.splits ua_state.splits)
qed

lemma chain_set_ka: "R u v \<Longrightarrow> phase (u_state v) = 4 \<Longrightarrow> R u (set_ka k v)"
  by (simp add: set_ka_def chain_state)

lemma chain_ka_invite:
  assumes "R u v" "u_state v = Some (UaStateConnected k)"
    "start_invite env b ch hs (\<lambda>v. v) (\<lambda>tr v. v) v = (w, r)"
  shows "R u w" "phase (u_state w) = 4"
  using assms chain_invite [OF assms(1), of "\<lambda>v. v" "\<lambda>tr v. v" env b ch hs] start_invite_state [OF assms(3)]
  by simp_all

lemma step_keepAlive: "R u v \<Longrightarrow> R u (keepAlive env v)"
  by (auto simp: keepAlive_def intro!: chain_set_ka dest: chain_ka_invite
      split: option.splits ua_state.splits prod.splits sum.splits)

lemma step_ka_response: "R u v \<Longrightarrow> R u (ka_RecvResponse env rs v)"
proof (cases "\<exists>k. u_state v = Some (UaStateConnected (Some k))")
  case True
  assume uv: "R u v"
  from True obtain k where k: "u_state v = Some (UaStateConnected (Some k))" by blast
  obtain w r where w: "start_invite env (u_lSDP v) (Some ch) [] (\<lambda>v. v) (\<lambda>tr v. v) v = (w ch, r ch)" for ch
    by (meson surj_pair)
  have rw: "R u (w ch)" "phase (u_state (w ch)) = 4" for ch
    using chain_ka_invite [OF uv k w] by simp_all
  have v: "R u (set_ka k' v)" for k' using uv k by (simp add: chain_set_ka)
  show ?thesis unfolding ka_RecvResponse_def k option.case ua_state.case w prod.case
    by (rule shape chain_set_ka step_Disconnect chain v rw uv | rule shape_data | simp)+
next
  case False
  assume "R u v"
  with False show ?thesis by (auto simp: ka_RecvResponse_def split: option.splits ua_state.splits)
qed

lemma step_sdp:
  "R u v \<Longrightarrow> R u (DelayedRemoteSdpUpdate env ev ans v)" "R u v \<Longrightarrow> R u (DelayedLocalSdpUpdate env ev ans' v)"
  unfolding DelayedRemoteSdpUpdate_def DelayedLocalSdpUpdate_def ccEventFailCtor_def new_event_def
  by (auto intro!: step_RecvEvent chain_emitPending chain split: sum.splits option.splits prod.splits)

end

section \<open>Inputs and steps\<close>

datatype ua_input =
    I_event cc_event
  | I_disconnect "monotime option" string
  | I_expire
  | I_no_progress
  | I_no_reply
  | I_credit monotime
  | I_reset_credit monotime "(int \<times> monotime) list"
  | I_request sip_request server_transaction
  | I_response sip_response client_transaction
  | I_ack sip_request
  | I_prack sip_request
  | I_cancel ua_state monotime "sip_request option"
  | I_go_dead
  | I_go_idle
  | I_keepalive
  | I_ka_response sip_response
  | I_redirect_response
  | I_remote_sdp cc_event sdp_answer
  | I_local_sdp cc_event "(int \<times> string \<times> sip_reason option) option"

fun ua_step :: "ua_env \<Rightarrow> ua_input \<Rightarrow> ua \<Rightarrow> ua" where
  "ua_step env (I_event ev) u = ua_RecvEvent env ev u"
| "ua_step env (I_disconnect t og) u = ua_Disconnect env t og u"
| "ua_step env I_expire u = expires env u"
| "ua_step env I_no_progress u = no_progress_expires env u"
| "ua_step env I_no_reply u = no_reply_expires env u"
| "ua_step env (I_credit t) u = credit_expires env t u"
| "ua_step env (I_reset_credit t ts) u = ResetCreditTime env t ts u"
| "ua_step env (I_request rq t) u = fst (ua_RecvRequest env rq t u)"
| "ua_step env (I_response rs tr) u = ua_RecvResponse env rs tr u"
| "ua_step env (I_ack rq) u = ua_RecvACK env rq u"
| "ua_step env (I_prack rq) u = ua_RecvPRACK env rq u"
| "ua_step env (I_cancel s t rq) u = RecvCancel env s t rq u"
| "ua_step env I_go_dead u = goDead u"
| "ua_step env I_go_idle u = goIdle u"
| "ua_step env I_keepalive u = keepAlive env u"
| "ua_step env (I_ka_response rs) u = ka_RecvResponse env rs u"
| "ua_step env I_redirect_response u = redirect_RecvResponse env u"
| "ua_step env (I_remote_sdp ev a) u = DelayedRemoteSdpUpdate env ev a u"
| "ua_step env (I_local_sdp ev a) u = DelayedLocalSdpUpdate env ev a u"

text \<open>
  A run is a sequence of inputs, each with what the environment provides for it. Any input can come
  at any time: the cancel callback of an INVITE that was never answered even after the call is
  dead, where it takes the user agent back to the Disconnected state.
\<close>

inductive ua_trans :: "ua \<Rightarrow> ua \<Rightarrow> bool" where
  ua_trans: "ua_trans u (ua_step env i u)"

inductive_cases ua_transE: "ua_trans u v"

primrec ua_run :: "(ua_env \<times> ua_input) list \<Rightarrow> ua \<Rightarrow> ua" where
  "ua_run [] u = u"
| "ua_run (x # xs) u = ua_run xs (ua_step (fst x) (snd x) u)"

fun is_cancel :: "ua_input \<Rightarrow> bool" where
  "is_cancel (I_cancel s t rq) = True"
| "is_cancel i = False"

context ua_machine
begin

lemma step_live: "\<not> is_cancel i \<or> phase (u_state u) \<le> 6 \<Longrightarrow> R u (ua_step env i u)"
  by (cases i) (simp_all add: R_refl step_RecvEvent step_Disconnect step_timers step_RecvRequest step_RecvResponse
    step_RecvACK step_RecvPRACK step_RecvCancel step_dead step_keepAlive step_ka_response redirect_RecvResponse_def
    chain_bye step_sdp)

end

text \<open>A property that also survives the way back from Dead holds of every run.\<close>

locale ua_always = ua_machine +
  assumes R_late: "u_state u = Some UaStateDead \<Longrightarrow> R u (set_state UaStateDisconnected u)"
begin

lemma chain_late: "R u v \<Longrightarrow> u_state v = Some UaStateDead \<Longrightarrow> R u (ChangeState UaStateDisconnected cb v)"
proof -
  assume uv: "R u v" and d: "u_state v = Some UaStateDead"
  then have "R u (set_state UaStateDisconnected v)" using R_trans R_late by blast
  then have "R u (out (O_go_dead_timer (u_godead_timeout v)) (set_state UaStateDisconnected v))"
    by (rule chain) simp
  moreover have "OnActivation UaStateDisconnected (set_state UaStateDisconnected v)
      = out (O_go_dead_timer (u_godead_timeout v)) (set_state UaStateDisconnected v)"
    by (simp add: OnActivation_def set_state_def)
  ultimately show ?thesis using d
    by (auto simp: ChangeState_def OnDeactivate_def Let_def intro: chain_run_cb split: option.splits)
qed

lemma step_ua: "R u (ua_step env i u)"
proof (cases "is_cancel i \<and> u_state u = Some UaStateDead")
  case True
  then obtain s t rq where i: "i = I_cancel s t rq" by (cases i) auto
  have "R u (apply_transition (go_Disconnected cb w))"
    if "R u w" "phase (u_state w) = phase (u_state u)" for w cb
  proof -
    have "u_state w = Some UaStateDead" using that True by (cases "u_state w" rule: phase.cases) simp_all
    then have "u_state (ResetSdpChange w) = Some UaStateDead" by (simp add: ResetSdpChange_def)
    with that show ?thesis
      by (simp add: apply_transition_def go_Disconnected_def go_def chain chain_late)
  qed
  with R_refl show ?thesis by (simp add: i chain_cancel)
next
  case False
  then have "\<not> is_cancel i \<or> phase (u_state u) \<le> 6"
    by (cases "u_state u" rule: phase.cases) simp_all
  then show ?thesis by (rule step_live)
qed

lemma trans_ua: "ua_trans u v \<Longrightarrow> R u v"
  by (auto elim!: ua_transE intro: step_ua)

end

section \<open>Stages are passed in one direction\<close>

interpretation stages: ua_machine "\<lambda>u v. phase (u_state u) \<le> phase (u_state v)"
proof unfold_locales
  show "phase (u_state u) \<le> phase (u_state w)"
    if "phase (u_state u) \<le> phase (u_state v)" "phase (u_state v) \<le> phase (u_state w)" for u v w
    using that by (rule order.trans)
qed (auto simp: state_kept sends_def same_call_def dest: view_state)

lemma disconnected_state [simp]: "u_state (apply_transition (go_Disconnected cb w)) = Some UaStateDisconnected"
proof -
  have "u_state (run_cb c v) = u_state v" for c v
    by (cases c) (simp_all add: RingCb_def ConnCb_def DiscCb_def FailCb_def out_if_def state_kept)
  then show ?thesis
    by (simp add: apply_transition_def go_Disconnected_def go_def ChangeState_def OnActivation_def Let_def state_kept
        split: option.splits)
qed

lemma cancel_state:
  "u_state (RecvCancel env s t rq u) = Some UaStateDisconnected \<or> phase (u_state (RecvCancel env s t rq u)) = phase (u_state u)"
proof -
  have "phase (u_state (fst (send_bye env [] u))) = phase (u_state u)" using stage.chain_bye [of u u env "[]"] by simp
  then show ?thesis
    by (cases s) (auto simp: RecvCancel_def early_RecvCancel_def updating_RecvCancel_def new_event_def Let_def state_kept
        split: prod.splits sum.splits)
qed

text \<open>The only way back is that of a late cancel callback, from Dead to Disconnected.\<close>

lemma stage_step:
  "phase (u_state u) \<le> phase (u_state (ua_step env i u))
     \<or> is_cancel i \<and> u_state u = Some UaStateDead \<and> u_state (ua_step env i u) = Some UaStateDisconnected"
proof (cases "is_cancel i \<and> u_state u = Some UaStateDead")
  case True
  then obtain s t rq where "i = I_cancel s t rq" by (cases i) auto
  with True cancel_state [of env s t rq u] show ?thesis by auto
next
  case False
  then have "\<not> is_cancel i \<or> phase (u_state u) \<le> 6" by (cases "u_state u" rule: phase.cases) simp_all
  then show ?thesis using stages.step_live by blast
qed

end
