(* ===== verification/Ua_Properties.thy ===== *)
theory Ua_Properties
  imports Ua_Machine
begin

text \<open>
  Properties of the user agent. The first group holds of every run and comes from instances
  of the contract \<open>ua_machine\<close>; the second is about single operations: replayed requests,
  credit and set-up timers, late media, cancelled calls, challenges.
\<close>

section \<open>Runs\<close>

text \<open>A user agent before its first input, whatever its configuration.\<close>

definition new_ua :: "ua \<Rightarrow> bool" where
  "new_ua u \<longleftrightarrow> u_state u = None \<and> u_equeue u = [] \<and> u_elast_seq u = -1 \<and> u_connect_ts u = None
     \<and> u_disconnect_ts u = None \<and> u_out u = []"

lemma NewUA_new: "new_ua (NewUA r cfg nh c tag g)"
  by (simp add: new_ua_def NewUA_def)

abbreviation reachable :: "ua \<Rightarrow> bool" where
  "reachable \<equiv> reach new_ua ua_trans"

section \<open>Stages\<close>

lemma phase_le: "phase x \<le> 7"
  by (cases x rule: phase.cases) simp_all

lemma stage_up:
  "phase (u_state u) \<le> phase (u_state (ua_step env i u)) \<or> phase (u_state u) = 7 \<and> phase (u_state (ua_step env i u)) = 6"
  using stage_step [of u env i] by auto

lemma stages_of_ended: "6 \<le> phase (u_state u) \<Longrightarrow> 6 \<le> phase (u_state (ua_run xs u))"
proof (induction xs arbitrary: u)
  case (Cons x xs)
  then have "6 \<le> phase (u_state (ua_step (fst x) (snd x) u))" using stage_up [of u "fst x" "snd x"] by auto
  then show ?case using Cons.IH by simp
qed simp

lemma stages_of_live: "phase (u_state u) \<le> 6 \<Longrightarrow> phase (u_state u) \<le> phase (u_state (ua_run xs u))"
proof (induction xs arbitrary: u)
  case (Cons x xs)
  then have up: "phase (u_state u) \<le> phase (u_state (ua_step (fst x) (snd x) u))" using stage_up [of u "fst x" "snd x"] by auto
  show ?case
  proof (cases "phase (u_state (ua_step (fst x) (snd x) u)) \<le> 6")
    case True
    with up Cons.IH show ?thesis by fastforce
  next
    case False
    with Cons.prems stages_of_ended [of "ua_step (fst x) (snd x) u" xs] show ?thesis by simp
  qed
qed simp

lemma dead_stays:
  "u_state u = Some UaStateDead \<Longrightarrow> \<not> list_ex (\<lambda>x. is_cancel (snd x)) xs \<Longrightarrow> u_state (ua_run xs u) = Some UaStateDead"
proof (induction xs arbitrary: u)
  case (Cons x xs)
  then have "7 \<le> phase (u_state (ua_step (fst x) (snd x) u))" using stage_step [of u "fst x" "snd x"] by auto
  then have "u_state (ua_step (fst x) (snd x) u) = Some UaStateDead"
    by (cases "u_state (ua_step (fst x) (snd x) u)" rule: phase.cases) simp_all
  with Cons show ?case by simp
qed simp

text \<open>Property C1. The call moves through its stages in one direction: unused, idle, trying,
  ringing, connected, cancelling, disconnected or failed, dead. No sequence of inputs takes it back to an
  earlier one, with one exception: the cancel callback of an INVITE that was left unanswered
  takes a dead user agent back to the stage before, and no further.\<close>

theorem call_stages_monotone:
  "phase (u_state u) \<le> phase (u_state (ua_run xs u))
     \<or> u_state u = Some UaStateDead \<and> list_ex (\<lambda>x. is_cancel (snd x)) xs \<and> phase (u_state (ua_run xs u)) = 6"
proof (cases "u_state u = Some UaStateDead")
  case True
  then have "6 \<le> phase (u_state (ua_run xs u))" "phase (u_state (ua_run xs u)) \<le> 7"
    using stages_of_ended [of u xs] phase_le by simp_all
  with True dead_stays [OF True, of xs] show ?thesis by fastforce
next
  case False
  then have "phase (u_state u) \<le> 6" by (cases "u_state u" rule: phase.cases) simp_all
  then show ?thesis using stages_of_live by blast
qed

section \<open>Time stamps\<close>

definition ts_ok :: "ua \<Rightarrow> bool" where
  "ts_ok u = (case (u_connect_ts u, u_disconnect_ts u) of (Some c, Some d) \<Rightarrow> \<not> mt_After c d | _ \<Rightarrow> True)"

lemma ts_ok_cong: "u_connect_ts u = u_connect_ts v \<Longrightarrow> u_disconnect_ts u = u_disconnect_ts v \<Longrightarrow> ts_ok u = ts_ok v"
  by (simp add: ts_ok_def)

lemma ts_kept:
  "ts_ok (out x u) = ts_ok u" "ts_ok (Enqueue e u) = ts_ok u" "ts_ok (EmitEvent e u) = ts_ok u"
  "ts_ok (SetLCSeq n u) = ts_ok u" "ts_ok (set_state s u) = ts_ok u" "ts_ok (OnDead u) = ts_ok u"
  "ts_ok (u\<lparr>u_gseq := n\<rparr>) = ts_ok u" "ts_ok (u\<lparr>u_equeue := es\<rparr>) = ts_ok u"
  by (rule ts_ok_cong; simp add: out_def Enqueue_def EmitEvent_def SetLCSeq_def set_state_def OnDead_def
      out_if_def Let_def split: option.splits)+

lemma ts_set: "ts_ok u \<Longrightarrow> ts_ok (SetDisconnectTs t u)" "ts_ok u \<Longrightarrow> ts_ok (SetConnectTs t u)"
  by (auto simp: ts_ok_def SetDisconnectTs_def SetConnectTs_def mt_After_def split: option.splits)

interpretation stamps: ua_always "\<lambda>u v. ts_ok u \<longrightarrow> ts_ok v"
proof unfold_locales
  show "ts_ok u \<longrightarrow> ts_ok v" if "view u = view v" for u v
    using that ts_ok_cong [of u v] by (simp add: view_def)
  show "ts_ok u \<longrightarrow> ts_ok v" if "sends u v" for u v
    using that ts_ok_cong [of u v] by (simp add: sends_def same_call_def)
qed (simp_all add: ts_kept ts_set)

lemma reachable_ts: "reachable u \<Longrightarrow> ts_ok u"
proof (induction rule: reach.induct)
  case (reach_init u)
  then show ?case by (simp add: ts_ok_def new_ua_def)
next
  case (reach_step u v)
  then show ?case using stamps.trans_ua by blast
qed

text \<open>Property C10. The duration billed for a call that was connected and is disconnected is never
  negative, in whatever order and with whatever time stamps the messages and events came in.\<close>

theorem billed_duration_nonneg:
  assumes "reachable u" "GetAcct env dts u = Some (duration, delay, True, True)"
  shows "0 \<le> duration"
proof -
  have "ts_ok u" using assms(1) by (rule reachable_ts)
  with assms(2) show ?thesis
    by (auto simp: GetAcct_def ts_ok_def mt_After_def mt_Sub_def split: option.splits)
qed

section \<open>Events\<close>

fun event_seq :: "ua_out \<Rightarrow> int option" where
  "event_seq (O_event e) = Some (GetSeq e)"
| "event_seq x = None"

definition delivered :: "ua \<Rightarrow> int list" where
  "delivered u = List.map_filter event_seq (u_out u)"

definition events_ok :: "ua \<Rightarrow> bool" where
  "events_ok u \<longleftrightarrow> (list_all (\<lambda>n. 0 \<le> n) (delivered u) \<longrightarrow>
     sorted_wrt (<) (delivered u) \<and> list_all (\<lambda>n. n \<le> u_elast_seq u) (delivered u))"

lemma events_ok_cong: "delivered u = delivered v \<Longrightarrow> u_elast_seq u = u_elast_seq v \<Longrightarrow> events_ok u = events_ok v"
  by (simp add: events_ok_def)

lemma plain_no_event: "plain_out x \<Longrightarrow> event_seq x = None" by (cases x) simp_all

lemma plain_none: "list_all plain_out xs \<Longrightarrow> List.map_filter event_seq xs = []"
  by (induction xs) (simp_all add: plain_no_event)

lemma sent_no_event: "sent_request x = Some rq \<Longrightarrow> event_seq x = None" by (cases x) simp_all

lemma OnDead_out:
  obtains xs where "u_out (OnDead u) = u_out u @ xs" "list_all plain_out xs"
    "u_elast_seq (OnDead u) = u_elast_seq u" "u_lCSeq (OnDead u) = u_lCSeq u"
proof (rule that [of "if u_sip_tm u then (case u_cId u of Some c \<Rightarrow> [O_unreg c] | None \<Rightarrow> [])
    @ (if u_dead_cb u then [O_dead] else []) else []"])
qed (simp_all add: OnDead_def out_def out_if_def Let_def split: option.splits)

lemma delivered_plain: "plain_out x \<Longrightarrow> delivered (out x u) = delivered u"
  by (simp add: delivered_def out_def plain_no_event)

lemma events_kept:
  "plain_out x \<Longrightarrow> events_ok (out x u) = events_ok u" "events_ok (Enqueue e u) = events_ok u"
  "events_ok (SetLCSeq n u) = events_ok u" "events_ok (set_state s u) = events_ok u"
  "events_ok (u\<lparr>u_gseq := n\<rparr>) = events_ok u" "events_ok (u\<lparr>u_equeue := es\<rparr>) = events_ok u"
proof -
  show "plain_out x \<Longrightarrow> events_ok (out x u) = events_ok u"
    by (rule events_ok_cong) (simp_all add: delivered_plain, simp add: out_def)
qed (rule events_ok_cong; simp add: delivered_def Enqueue_def SetLCSeq_def set_state_def)+

lemma ts_setters_keep:
  "u_out (SetDisconnectTs t u) = u_out u" "u_elast_seq (SetDisconnectTs t u) = u_elast_seq u"
  "u_lCSeq (SetDisconnectTs t u) = u_lCSeq u" "u_out (SetConnectTs t u) = u_out u"
  "u_elast_seq (SetConnectTs t u) = u_elast_seq u" "u_lCSeq (SetConnectTs t u) = u_lCSeq u"
  by (simp_all add: SetDisconnectTs_def SetConnectTs_def split: option.splits)

lemma events_ts:
  "events_ok (SetDisconnectTs t u) = events_ok u" "events_ok (SetConnectTs t u) = events_ok u"
  by (simp_all add: events_ok_def delivered_def ts_setters_keep)

lemma events_OnDead: "events_ok (OnDead u) = events_ok u"
  by (rule OnDead_out [of u], rule events_ok_cong) (simp_all add: delivered_def plain_none)

lemma events_emit: "events_ok u \<Longrightarrow> events_ok (EmitEvent e u)"
proof (cases "u_call_controller u \<and> \<not> (u_elast_seq u \<noteq> -1 \<and> GetSeq e \<le> u_elast_seq u)")
  case True
  assume ok: "events_ok u"
  have new: "delivered (EmitEvent e u) = delivered u @ [GetSeq e]" "u_elast_seq (EmitEvent e u) = GetSeq e"
    using True by (simp_all add: EmitEvent_def delivered_def out_def)
  have below: "n < GetSeq e" if "list_all (\<lambda>n. 0 \<le> n) (delivered u @ [GetSeq e])" "n \<in> set (delivered u)" for n
  proof -
    have "0 \<le> n" "n \<le> u_elast_seq u" using ok that by (auto simp: events_ok_def list_all_iff)
    with True show ?thesis by auto
  qed
  show ?thesis unfolding events_ok_def new
    using ok below by (auto simp: events_ok_def sorted_wrt_append list_all_iff intro: less_imp_le)
next
  case False
  assume "events_ok u"
  moreover have "EmitEvent e u = u" unfolding EmitEvent_def using False by (rule if_not_P)
  ultimately show ?thesis by simp
qed

interpretation events: ua_always "\<lambda>u v. events_ok u \<longrightarrow> events_ok v"
proof unfold_locales
  show "events_ok u \<longrightarrow> events_ok v" if "view u = view v" for u v
    using that events_ok_cong [of u v] by (simp add: view_def delivered_def)
  show "events_ok u \<longrightarrow> events_ok v" if "sends u v" for u v
    using that events_ok_cong [of u v]
    by (auto simp: sends_def same_call_def delivered_def plain_none sent_no_event)
qed (simp_all add: events_kept events_ts events_emit events_OnDead)

text \<open>Property C2. Whatever the inputs, the events the controller receives from a user agent bear
  strictly increasing numbers: none is delivered twice and an event made before another is
  never delivered after it. (Numbers come from a counter that starts at 1; -1 marks
  \<open>nothing delivered yet\<close>.)\<close>

theorem events_delivered_in_order:
  assumes "reachable u" "list_all (\<lambda>n. 0 \<le> n) (delivered u)"
  shows "sorted_wrt (<) (delivered u)"
proof -
  have "events_ok u" using assms(1)
  proof (induction rule: reach.induct)
    case (reach_init u)
    then show ?case by (simp add: events_ok_def new_ua_def delivered_def)
  next
    case (reach_step u v)
    then show ?case using events.trans_ua by blast
  qed
  with assms(2) show ?thesis by (simp add: events_ok_def)
qed

section \<open>CSeq numbers\<close>

definition sent_cseqs :: "ua_out list \<Rightarrow> int list" where
  "sent_cseqs xs = List.map_filter (\<lambda>x. Option.bind (sent_request x) wire_cseq) xs"

definition cseq_rel :: "ua \<Rightarrow> ua \<Rightarrow> bool" where
  "cseq_rel u v \<longleftrightarrow> u_lCSeq u \<le> u_lCSeq v \<and> (\<exists>xs. u_out v = u_out u @ xs \<and> sorted_wrt (<) (sent_cseqs xs) \<and>
     (\<forall>n \<in> set (sent_cseqs xs). u_lCSeq u \<le> n \<and> n < u_lCSeq v))"

lemma sent_cseqs_append [simp]: "sent_cseqs (xs @ ys) = sent_cseqs xs @ sent_cseqs ys"
  by (simp add: sent_cseqs_def)

lemma cseq_rel_trans: "cseq_rel u v \<Longrightarrow> cseq_rel v w \<Longrightarrow> cseq_rel u w"
proof -
  assume "cseq_rel u v" "cseq_rel v w"
  then obtain xs ys where "u_out v = u_out u @ xs" "sorted_wrt (<) (sent_cseqs xs)"
      "\<forall>n \<in> set (sent_cseqs xs). u_lCSeq u \<le> n \<and> n < u_lCSeq v" "u_out w = u_out v @ ys"
      "sorted_wrt (<) (sent_cseqs ys)" "\<forall>n \<in> set (sent_cseqs ys). u_lCSeq v \<le> n \<and> n < u_lCSeq w"
      "u_lCSeq u \<le> u_lCSeq v" "u_lCSeq v \<le> u_lCSeq w"
    unfolding cseq_rel_def by blast
  then show ?thesis unfolding cseq_rel_def
    by (intro conjI exI [of _ "xs @ ys"]) (force simp: sorted_wrt_append)+
qed

lemma cseq_rel_I: "u_lCSeq v = u_lCSeq u \<Longrightarrow> u_out v = u_out u @ xs \<Longrightarrow> sent_cseqs xs = [] \<Longrightarrow> cseq_rel u v"
  by (auto simp: cseq_rel_def)

lemma plain_not_sent: "plain_out x \<Longrightarrow> sent_cseqs [x] = []"
  by (cases x) (simp_all add: sent_cseqs_def)

lemma plain_not_sent_list: "list_all plain_out xs \<Longrightarrow> sent_cseqs xs = []"
proof (induction xs)
  case (Cons x xs)
  then show ?case using sent_cseqs_append [of "[x]" xs] by (simp add: plain_not_sent)
qed (simp add: sent_cseqs_def)

lemma cseq_rel_sends: "sends u v \<Longrightarrow> cseq_rel u v"
  unfolding sends_def cseq_rel_def
  by (elim conjE exE disjE, (intro conjI, simp, intro exI conjI, assumption)+)
    (auto simp: plain_not_sent_list, simp_all add: sent_cseqs_def)

lemma sent_cseqs_Nil [simp]: "sent_cseqs [] = []"
  by (simp add: sent_cseqs_def)

lemma cseq_rel_silent: "u_lCSeq v = u_lCSeq u \<Longrightarrow> u_out v = u_out u \<Longrightarrow> cseq_rel u v"
  by (rule cseq_rel_I [of _ _ "[]"]) simp_all

lemma cseq_rel_prims:
  "plain_out x \<Longrightarrow> cseq_rel u (out x u)" "cseq_rel u (EmitEvent e u)" "cseq_rel u (OnDead u)"
proof -
  show "plain_out x \<Longrightarrow> cseq_rel u (out x u)"
    by (rule cseq_rel_I [of _ _ "[x]"]) (simp_all add: out_def plain_not_sent)
  show "cseq_rel u (EmitEvent e u)"
    by (rule cseq_rel_I [of _ _ "if EmitEvent e u = u then [] else [O_event e]"])
      (auto simp: EmitEvent_def out_def sent_cseqs_def)
  show "cseq_rel u (OnDead u)"
    by (rule OnDead_out [of u], rule cseq_rel_I) (auto simp: plain_not_sent_list)
qed

lemma cseq_rel_quiet:
  "cseq_rel u (Enqueue e u)" "cseq_rel u (u\<lparr>u_gseq := n\<rparr>)" "cseq_rel u (u\<lparr>u_equeue := es\<rparr>)"
  "cseq_rel u (SetDisconnectTs t u)" "cseq_rel u (SetConnectTs t u)" "cseq_rel u (set_state s u)"
  by (rule cseq_rel_silent; simp add: Enqueue_def SetDisconnectTs_def SetConnectTs_def set_state_def
        split: option.splits)+

text \<open>Once the call is set up the numbers are kept; setting it up draws the first one.\<close>

definition cseq_step :: "ua \<Rightarrow> ua \<Rightarrow> bool" where
  "cseq_step u v \<longleftrightarrow> phase (u_state u) \<le> 1 \<or> (1 < phase (u_state v) \<and> cseq_rel u v)"

interpretation cseqs: ua_always cseq_step
proof unfold_locales
  show "cseq_step u w" if "cseq_step u v" "cseq_step v w" for u v w
    using that cseq_rel_trans by (auto simp: cseq_step_def)
  show "cseq_step u v" if "view u = view v" for u v
    using that by (auto simp: cseq_step_def view_def intro: cseq_rel_silent)
  show "cseq_step u v" if "sends u v" for u v
    using that cseq_rel_sends by (auto simp: cseq_step_def sends_def same_call_def)
qed (auto simp: cseq_step_def state_kept cseq_rel_prims cseq_rel_quiet)

text \<open>Property C3. From the moment a call is set up, all requests the user agent sends (INVITE,
  re-INVITE, PRACK, INFO, REFER, BYE, keep-alives, requests repeated with credentials) bear strictly
  increasing CSeq numbers, none below the user agent's counter at the start or
  above it at the end, whatever inputs come in between.\<close>

theorem requests_sent_with_increasing_cseq:
  assumes "ua_trans\<^sup>*\<^sup>* u v" "1 < phase (u_state u)"
  shows "\<exists>xs. u_out v = u_out u @ xs \<and> sorted_wrt (<) (sent_cseqs xs)
           \<and> list_all (\<lambda>n. u_lCSeq u \<le> n \<and> n < u_lCSeq v) (sent_cseqs xs)"
proof -
  have "cseq_step u v" using assms(1)
    by (induction rule: rtranclp_induct) (auto intro: cseqs.R_refl cseqs.R_trans cseqs.trans_ua)
  with assms(2) show ?thesis by (auto simp: cseq_step_def cseq_rel_def list_all_iff)
qed

section \<open>The end of a call\<close>

text \<open>
  A user agent without transaction manager, controller and listeners: the dead one, and the one that a late
  cancel callback has taken back to the Disconnected state.
\<close>

definition gone :: "ua \<Rightarrow> bool" where
  "gone u \<longleftrightarrow> (u_state u = Some UaStateDead \<or> u_state u = Some UaStateDisconnected)
     \<and> \<not> u_sip_tm u \<and> \<not> u_call_controller u \<and> \<not> u_disc_cb u"

fun late_out :: "ua_out \<Rightarrow> bool" where
  "late_out (O_response a rs b n) = True"
| "late_out (O_go_dead_timer d) = True"
| "late_out O_cleanup = True"
| "late_out x = False"

definition quiet :: "ua \<Rightarrow> ua \<Rightarrow> bool" where
  "quiet u v \<longleftrightarrow> gone v \<and> (\<exists>xs. u_out v = u_out u @ xs \<and> list_all late_out xs
     \<and> (u_state u = Some UaStateDead \<longrightarrow> u_state v = Some UaStateDead \<and> list_all (\<lambda>x. x = O_cleanup) xs))"

lemma quiet_trans: "quiet u v \<Longrightarrow> quiet v w \<Longrightarrow> quiet u w"
proof -
  assume "quiet u v" "quiet v w"
  then obtain xs ys where "u_out v = u_out u @ xs" "list_all late_out xs" "u_out w = u_out v @ ys" "list_all late_out ys" "gone w"
      "u_state u = Some UaStateDead \<longrightarrow> u_state v = Some UaStateDead \<and> list_all (\<lambda>x. x = O_cleanup) xs"
      "u_state v = Some UaStateDead \<longrightarrow> u_state w = Some UaStateDead \<and> list_all (\<lambda>x. x = O_cleanup) ys"
    unfolding quiet_def by blast
  then show ?thesis unfolding quiet_def by (intro conjI exI [of _ "xs @ ys"]) auto
qed

lemma quiet_same: "gone u \<Longrightarrow> u_state v = u_state u \<Longrightarrow> u_sip_tm v = u_sip_tm u \<Longrightarrow>
    u_call_controller v = u_call_controller u \<Longrightarrow> u_disc_cb v = u_disc_cb u \<Longrightarrow> u_out v = u_out u \<Longrightarrow> quiet u v"
  unfolding quiet_def by (intro conjI exI [of _ "[]"]) (simp_all add: gone_def)

lemma quiet_refl: "gone u \<Longrightarrow> quiet u u"
  by (rule quiet_same) simp_all

lemma quiet_gone: "quiet u v \<Longrightarrow> gone v"
  by (simp add: quiet_def)

lemma gone_handlers:
  assumes "gone u"
  shows "u_state u = Some s \<Longrightarrow> state_RecvEvent env s ev u = ignore u"
    "u_state u = Some s \<Longrightarrow> state_RecvResponse env s rs tr u = stay u"
  using assms by (auto simp: gone_def state_RecvEvent_def state_RecvResponse_def)

lemma quiet_pending: "gone u \<Longrightarrow> quiet u (emitPendingEvents u)"
  by (rule quiet_same) (simp_all add: gone_def emitPendingEvents_def)

lemma quiet_RecvEvent: "gone u \<Longrightarrow> quiet u (ua_RecvEvent env ev u)"
proof -
  assume g: "gone u"
  then obtain s where s: "u_state u = Some s" by (auto simp: gone_def)
  then have "ua_RecvEvent env ev u = emitPendingEvents u"
    by (simp add: ua_RecvEvent_def gone_handlers(1) [OF g s] ignore_def apply_transition_def)
  then show ?thesis using quiet_pending [OF g] by simp
qed

lemma quiet_goDead: "gone u \<Longrightarrow> quiet u (ChangeState UaStateDead None u)"
  unfolding quiet_def
  by (intro conjI exI [of _ "[O_cleanup]"]) (auto simp: gone_def ChangeState_def OnDeactivate_def OnActivation_def
      OnDead_def set_state_def out_def)

lemma quiet_state_request:
  assumes "gone v" "u_state v = Some s" "state_RecvRequest env s rq v = (w, tr)"
  shows "tr = None" "quiet v w"
proof -
  have "tr = None \<and> quiet v w"
  proof (cases "s = UaStateDead")
    case True
    then show ?thesis using assms quiet_refl by (simp add: state_RecvRequest_def stay_def)
  next
    case False
    then have "s = UaStateDisconnected" using assms(1,2) by (auto simp: gone_def)
    then have w: "tr = None" "\<exists>code reason. w = respond 0 code reason rq v"
      using assms(3) by (auto simp: state_RecvRequest_def Disconnected_RecvRequest_def stay_def split: if_splits)
    have "quiet v (out x v)" if "late_out x" for x using assms(1,2) False that unfolding quiet_def
      by (intro conjI exI [of _ "[x]"]) (simp_all add: gone_def out_def)
    with quiet_refl [OF assms(1)] have "quiet v (respond 0 code reason rq v)" for code reason
      by (simp add: respond_def split: sum.splits)
    with w show ?thesis by blast
  qed
  then show "tr = None" "quiet v w" by simp_all
qed

lemma quiet_request: "gone u \<Longrightarrow> quiet u (fst (ua_RecvRequest env rq t u))"
proof -
  assume g: "gone u"
  have handled: "quiet v (fst (handle_request env rq v))" if gv: "gone v" for v
  proof -
    obtain s where s: "u_state v = Some s" using gv by (auto simp: gone_def)
    obtain w tr where w: "state_RecvRequest env s rq v = (w, tr)" by fastforce
    note q = quiet_state_request [OF gv s w]
    then have "quiet v (emitPendingEvents w)" using quiet_pending quiet_trans quiet_gone by blast
    then show ?thesis using q(1) s w by (simp add: handle_request_def apply_transition_def Let_def)
  qed
  have upd: "quiet u (update_ua rq u)" "quiet v (v\<lparr>u_rCSeq := n\<rparr>)" if "gone v" for v n
    using g that by (auto intro!: quiet_same simp: update_ua_def split: option.splits)
  define u1 where "u1 = (if u_remote_ua u = [] then update_ua rq u else u)"
  have u1: "quiet u u1" "gone u1" using upd(1) [OF g] quiet_refl [OF g] quiet_gone by (auto simp: u1_def)
  have u2: "quiet u (u1\<lparr>u_rCSeq := n\<rparr>)" "gone (u1\<lparr>u_rCSeq := n\<rparr>)" for n
    using upd(2) [OF u1(2)] quiet_trans [OF u1(1)] quiet_gone by blast+
  have "quiet u (fst (handle_request env rq (u1\<lparr>u_rCSeq := n\<rparr>)))" for n
    using handled [OF u2(2)] quiet_trans [OF u2(1)] by blast
  moreover have "u_state u1 \<noteq> None" using u1(2) by (auto simp: gone_def)
  ultimately show ?thesis using u1(1)
    by (auto simp: ua_RecvRequest_def Let_def u1_def [symmetric] split: option.splits sum.splits)
qed

lemma GenRequest_keeps:
  assumes "GenRequest env m b ch hs u = (v, r)"
  shows "u_state v = u_state u" "u_sip_tm v = u_sip_tm u" "u_call_controller v = u_call_controller u"
    "u_disc_cb v = u_disc_cb u" "u_out v = u_out u"
  using assms by (auto elim!: GenRequest_cases)

lemma start_invite_gone:
  assumes d: "gone u" and mid: "\<And>v. gone v \<Longrightarrow> quiet v (mid v)"
  shows "\<exists>v e. start_invite env b ch hs mid fin u = (v, Inl e) \<and> quiet u v"
proof -
  obtain v r where g: "GenRequest env ''INVITE'' b ch hs u = (v, r)" by fastforce
  have v: "quiet u v" using GenRequest_keeps [OF g] d by (auto intro: quiet_same)
  then have "quiet u (mid v)" "\<not> u_sip_tm (mid v)"
    using mid quiet_trans quiet_gone by (blast, auto simp: quiet_def gone_def)
  with g v show ?thesis by (cases r) (simp_all add: start_invite_def PrepTr_def)
qed

lemma quiet_setters: "gone v \<Longrightarrow> quiet v (SetLCSeq n v)" "gone v \<Longrightarrow> quiet v (SetClientTransaction c v)"
  by (rule quiet_same; simp add: SetLCSeq_def SetClientTransaction_def)+

lemma quiet_challenge: "gone u \<Longrightarrow> \<exists>v. try_challenge env rs c eh u = (v, False) \<and> quiet u v"
proof -
  assume d: "gone u"
  have after: "quiet u v \<Longrightarrow> quiet u (SetClientTransaction c v)" for v c
    using quiet_setters(2) quiet_trans quiet_gone by metis
  have "\<exists>v. processChallenge env chs n eh u = (v, False) \<and> quiet u v" for chs n
  proof (cases "pick_challenge env (u_auth_enalgs u) chs")
    case None
    then show ?thesis using quiet_refl [OF d] by (simp add: processChallenge_def)
  next
    case (Some ch)
    obtain v e where "start_invite env (u_lSDP u) (Some ch) eh (\<lambda>v. SetLCSeq (u_lCSeq v + 1) v)
        (\<lambda>tr v. out (O_txn_headers tr (u_dlg_headers v)) (SetClientTransaction (Some tr) v)) u = (v, Inl e)"
      "quiet u v"
      using start_invite_gone [OF d, of "\<lambda>v. SetLCSeq (u_lCSeq v + 1) v"] quiet_setters by blast
    with Some after show ?thesis by (simp add: processChallenge_def)
  qed
  then show ?thesis using quiet_refl [OF d] by (auto simp: try_challenge_def split: option.splits)
qed

lemma quiet_response: "gone u \<Longrightarrow> quiet u (ua_RecvResponse env rs tr u)"
proof -
  assume d: "gone u"
  have upd: "quiet u (update_ua rs u)"
    by (rule quiet_same [OF d]) (simp_all add: update_ua_def split: option.splits)
  then have ch: "\<exists>v. try_challenge env rs c eh (update_ua rs u) = (v, False) \<and> quiet u v" for c eh
    using quiet_challenge [of "update_ua rs u" env rs c eh] quiet_trans [OF upd] quiet_gone by blast
  have reqs: "quiet v (v\<lparr>u_reqs := m\<rparr>)" if "gone v" for v m using that by (rule quiet_same) simp_all
  have fin: "quiet v (emitPendingEvents (apply_transition (state_RecvResponse env s rs tr v)))"
    if "gone v" "u_state v = Some s" for v s
    using quiet_pending [OF that(1)] by (simp add: gone_handlers(2) [OF that] stay_def apply_transition_def)
  obtain s where s: "u_state u = Some s" using d by (auto simp: gone_def)
  show ?thesis
  proof (cases "m_cseq rs")
    case (Some h)
    show ?thesis
    proof (cases h)
      case (Inr c)
      obtain v where v: "try_challenge env rs c (ct_req_extra_hdrs tr) (update_ua rs u) = (v, False)" "quiet u v"
        using ch by blast
      have sv: "u_state v = Some s"
        using try_challenge_state [of env rs c "ct_req_extra_hdrs tr" "update_ua rs u"] v(1) s
        by (simp add: update_ua_def split: option.splits)
      have "quiet v (emitPendingEvents (apply_transition (state_RecvResponse env s rs tr (v\<lparr>u_reqs := m\<rparr>))))" for m
        using fin [of "v\<lparr>u_reqs := m\<rparr>"] reqs quiet_gone [OF v(2)] sv quiet_trans quiet_gone by fastforce
      with v fin [OF quiet_gone [OF v(2)] sv] quiet_trans [OF v(2)] show ?thesis using s Some Inr
        by (auto simp: ua_RecvResponse_def Let_def)
    qed (use d Some in \<open>simp add: ua_RecvResponse_def quiet_refl split: option.splits\<close>)
  qed (use d in \<open>simp add: ua_RecvResponse_def quiet_refl split: option.splits\<close>)
qed

lemma quiet_sdp:
  assumes "gone u"
  shows "quiet u (DelayedRemoteSdpUpdate env ev a u)" "quiet u (DelayedLocalSdpUpdate env ev a' u)"
proof -
  have q: "quiet u (emitPendingEvents (Enqueue e (u\<lparr>u_gseq := n\<rparr>)))" "quiet u (emitPendingEvents (Enqueue e (SetRSDP b u)))"
    for e n b
    using assms by (auto simp: gone_def emitPendingEvents_def Enqueue_def SetRSDP_def intro!: quiet_same)
  then have "quiet u (ua_RecvEvent env e (emitPendingEvents (Enqueue e (u\<lparr>u_gseq := n\<rparr>))))" for e n
    using quiet_RecvEvent quiet_trans quiet_gone by blast
  then show "quiet u (DelayedRemoteSdpUpdate env ev a u)" "quiet u (DelayedLocalSdpUpdate env ev a' u)"
    using q quiet_RecvEvent [OF assms]
    by (auto simp: DelayedRemoteSdpUpdate_def DelayedLocalSdpUpdate_def ccEventFailCtor_def new_event_def
        split: sum.splits option.splits)
qed

lemma quiet_timers:
  assumes d: "gone u"
  shows "quiet u (ua_Disconnect env tm og u)" "quiet u (expires env u)" "quiet u (no_progress_expires env u)"
    "quiet u (no_reply_expires env u)" "quiet u (credit_expires env t u)" "quiet u (ResetCreditTime env t ts u)"
  by (rule quiet_same [OF d]; use d in \<open>auto simp: gone_def ua_Disconnect_def expires_def no_progress_expires_def
      no_reply_expires_def credit_expires_def ResetCreditTime_def ua_isConnected_def Let_def CancelExpireTimer_def
      CancelNoProgressTimer_def CancelNoReplyTimer_def CancelCreditTimer_def\<close>)+

lemma quiet_rest:
  assumes d: "gone u"
  shows "quiet u (ua_RecvACK env rq u)" "quiet u (ua_RecvPRACK env rq u)" "quiet u (goDead u)" "quiet u (goIdle u)"
    "quiet u (keepAlive env u)" "quiet u (ka_RecvResponse env rs u)"
proof -
  show "quiet u (goDead u)" "quiet u (goIdle u)"
    using quiet_goDead [OF d] d by (auto simp: goDead_def goIdle_def gone_def)
qed (use d quiet_refl [OF d] quiet_pending [OF d] in \<open>auto simp: gone_def ua_RecvACK_def ua_RecvPRACK_def keepAlive_def ka_RecvResponse_def\<close>)

lemma quiet_redirect: "gone u \<Longrightarrow> quiet u (fst (send_bye env hs u))" "gone u \<Longrightarrow> quiet u (redirect_RecvResponse env u)"
proof -
  show bye: "gone u \<Longrightarrow> quiet u (fst (send_bye env hs u))" for hs
    by (rule quiet_same) (auto simp: send_bye_def send_request_def gone_def
      ua_BeginNewClientTransaction_def out_if_def split: prod.splits sum.splits dest: GenRequest_keeps)
  show "gone u \<Longrightarrow> quiet u (redirect_RecvResponse env u)" using bye by (simp add: redirect_RecvResponse_def)
qed

lemma quiet_step: "gone u \<Longrightarrow> \<not> is_cancel i \<Longrightarrow> quiet u (ua_step env i u)"
  by (cases i) (simp_all add: quiet_RecvEvent quiet_timers quiet_rest quiet_request quiet_response quiet_redirect quiet_sdp)

section \<open>Late cancel callbacks\<close>

text \<open>What any run of a user agent that is gone adds to its output.\<close>

definition adds_late :: "ua \<Rightarrow> ua \<Rightarrow> bool" where
  "adds_late u v \<longleftrightarrow> gone v \<and> (\<exists>xs. u_out v = u_out u @ xs \<and> list_all late_out xs)"

lemma adds_late_trans: "adds_late u v \<Longrightarrow> adds_late v w \<Longrightarrow> adds_late u w"
  by (force simp: adds_late_def)

lemma quiet_adds_late: "quiet u v \<Longrightarrow> adds_late u v"
  by (auto simp: quiet_def adds_late_def)

lemma late_disconnected: "gone u \<Longrightarrow> adds_late u (apply_transition (go_Disconnected (Some (CB_disc t og n rq)) u))"
  unfolding adds_late_def
  by (intro conjI exI [of _ "[O_go_dead_timer (u_godead_timeout u)]"])
    (auto simp: gone_def apply_transition_def go_Disconnected_def go_def ChangeState_def OnDeactivate_def OnActivation_def
      ResetSdpChange_def set_state_def out_def DiscCb_def out_if_def)

lemma late_cancel: "gone u \<Longrightarrow> adds_late u (RecvCancel env s t rq u)"
proof -
  assume g: "gone u"
  have ts: "quiet v (SetDisconnectTs t v)" "quiet v (CancelCreditTimer v)" "quiet v (v\<lparr>u_gseq := n\<rparr>)" "quiet v (EmitEvent e v)"
    if "gone v" for v n e
    using that by (auto intro!: quiet_same simp: SetDisconnectTs_def CancelCreditTimer_def EmitEvent_def gone_def split: option.splits)
  note late = ts [THEN quiet_adds_late] quiet_redirect(1) [THEN quiet_adds_late] late_disconnected
  have step: "adds_late u v \<Longrightarrow> (gone v \<Longrightarrow> adds_late v w) \<Longrightarrow> adds_late u w" for v w
    by (rule adds_late_trans, assumption) (simp add: adds_late_def)
  have refl: "adds_late u u" using g quiet_refl quiet_adds_late by blast
  have early: "adds_late u (early_RecvCancel env t rq u)"
    unfolding early_RecvCancel_def new_event_def prod.case
    by (rule step [OF _ late(4)], rule step [OF _ late(6)], rule step [OF _ late(1)], rule step [OF refl late(3)])
  have "adds_late u (updating_RecvCancel env t rq u)"
  proof -
    obtain w r where w: "send_bye env [] u = (w, r)" by fastforce
    have bye: "adds_late u w" using late(5) [OF g, of env "[]"] w by simp
    show ?thesis
      by (cases r) (simp_all add: updating_RecvCancel_def w new_event_def Let_def bye,
        rule step [OF _ late(4)], rule step [OF _ late(3)], rule step [OF _ late(6)], rule step [OF _ late(1)], rule step [OF bye late(2)])
  qed
  with early refl show ?thesis by (cases s) (simp_all add: RecvCancel_def)
qed

lemma late_step: "gone u \<Longrightarrow> adds_late u (ua_step env i u)"
  by (cases "is_cancel i") (cases i, simp_all add: late_cancel quiet_step quiet_adds_late)

lemma late_run: "gone u \<Longrightarrow> adds_late u (ua_run xs u)"
proof (induction xs arbitrary: u)
  case Nil
  then show ?case using quiet_refl quiet_adds_late by simp
next
  case (Cons x xs)
  have "adds_late u (ua_step (fst x) (snd x) u)" using Cons.prems by (rule late_step)
  moreover from this have "adds_late (ua_step (fst x) (snd x) u) (ua_run xs (ua_step (fst x) (snd x) u))"
    by (intro Cons.IH) (simp add: adds_late_def)
  ultimately show ?case using adds_late_trans by simp
qed

lemma quiet_run: "gone u \<Longrightarrow> \<not> list_ex (\<lambda>x. is_cancel (snd x)) xs \<Longrightarrow> quiet u (ua_run xs u)"
proof (induction xs arbitrary: u)
  case (Cons x xs)
  then have "quiet u (ua_step (fst x) (snd x) u)" by (intro quiet_step) simp_all
  moreover from this have "quiet (ua_step (fst x) (snd x) u) (ua_run xs (ua_step (fst x) (snd x) u))"
    using Cons by (intro Cons.IH) (simp_all add: quiet_gone)
  ultimately show ?case using quiet_trans by simp
qed (simp add: quiet_refl)

lemma goDead_gone: "u_sip_tm u \<Longrightarrow> gone (goDead u) \<and> u_state (goDead u) = Some UaStateDead"
proof -
  assume tm: "u_sip_tm u"
  have kept: "u_sip_tm (OnDeactivate s v) = u_sip_tm v" for s v
    by (simp add: OnDeactivate_def SetPendingTr_def CancelExpireTimer_def out_def Let_def split: ua_state.splits option.splits)
  then have "u_sip_tm (set_state UaStateDead (case u_state u of Some old \<Rightarrow> OnDeactivate old u | None \<Rightarrow> u))"
    using tm by (simp add: set_state_def split: option.splits)
  then show ?thesis
    by (simp add: goDead_def ChangeState_def OnActivation_def gone_def OnDead_def set_state_def out_def out_if_def
        Let_def split: option.splits)
qed

text \<open>The way back exists: the cancel callback of a ringing call ends in the Disconnected state whatever became of the call.\<close>

lemma late_cancel_leaves_dead: "u_state (ua_step env (I_cancel UasStateRinging t rq) (goDead u)) = Some UaStateDisconnected"
  by (simp add: RecvCancel_def early_RecvCancel_def new_event_def state_kept)

text \<open>Property C11. A user agent that entered the Dead state delivers no event, starts no transaction, sends no request and
  calls no listener any more, whatever inputs follow (messages, events, timers, answers of transactions still open). If no
  cancel callback is among them, its only output is the call that clears the state object, repeated. The cancel callback of an
  INVITE that was left unanswered can take it back to the Disconnected state; then the timer of that state and answers to
  requests can follow, and nothing else.\<close>

theorem dead_call_is_silent:
  assumes "u_sip_tm u"
  shows "\<exists>ys. u_out (ua_run xs (goDead u)) = u_out (goDead u) @ ys \<and> list_all late_out ys
    \<and> (\<not> list_ex (\<lambda>x. is_cancel (snd x)) xs \<longrightarrow> u_state (ua_run xs (goDead u)) = Some UaStateDead \<and> list_all (\<lambda>y. y = O_cleanup) ys)"
proof -
  have g: "gone (goDead u)" "u_state (goDead u) = Some UaStateDead" using goDead_gone [OF assms] by simp_all
  show ?thesis
  proof (cases "list_ex (\<lambda>x. is_cancel (snd x)) xs")
    case True
    then show ?thesis using late_run [OF g(1), of xs] by (auto simp: adds_late_def)
  next
    case False
    then show ?thesis using quiet_run [OF g(1) False] g(2) by (auto simp: quiet_def)
  qed
qed

end
