(* ===== verification/Ua_Operations.thy ===== *)
theory Ua_Operations
  imports Ua_Machine
begin

text \<open>
  Properties of single operations of the user agent: replayed requests, credit and set-up
  timers, late media, cancelled calls, challenges; and three places where the code does more or
  less than it means to.
\<close>

section \<open>Delivering the queue\<close>

fun is_event :: "ua_out \<Rightarrow> bool" where
  "is_event (O_event e) = True"
| "is_event x = False"

lemma EmitEvent_keeps: "u_state (EmitEvent e u) = u_state u"
  "\<exists>xs. u_out (EmitEvent e u) = u_out u @ xs \<and> list_all is_event xs"
  by (simp_all add: EmitEvent_def out_def)

lemma fold_EmitEvent_keeps: "u_state (fold EmitEvent es u) = u_state u"
  "\<exists>xs. u_out (fold EmitEvent es u) = u_out u @ xs \<and> list_all is_event xs"
proof (induction es arbitrary: u)
  case (Cons e es)
  case 2
  then show ?case using Cons(2) [of "EmitEvent e u"] EmitEvent_keeps(2) [of e u] by fastforce
qed (simp_all add: EmitEvent_keeps)

lemma emitPending_keeps: "u_state (emitPendingEvents u) = u_state u"
  "\<exists>xs. u_out (emitPendingEvents u) = u_out u @ xs \<and> list_all is_event xs"
  using fold_EmitEvent_keeps [of "u_equeue u" "u\<lparr>u_equeue := []\<rparr>"] by (simp_all add: emitPendingEvents_def)

section \<open>Replayed requests\<close>

text \<open>A request of the dialog whose CSeq does not exceed the last one accepted is answered
  500 through the context returned to the transaction and changes neither the call's state nor its
  counters, and nothing is sent or delivered.\<close>

theorem replayed_request_rejected:
  assumes "wf_request rq" "m_cseq rq = Some (Inr (c :: cseq_body))" "u_rCSeq u \<noteq> -1" "CSeq_num c \<le> u_rCSeq u"
  shows "(case snd (ua_RecvRequest env rq t u) of
            Some ctx \<Rightarrow> (case uc_response ctx of Some rs \<Rightarrow> rs_scode rs = 500 | None \<Rightarrow> False)
          | None \<Rightarrow> False)
       \<and> view (fst (ua_RecvRequest env rq t u)) = view u
       \<and> u_rCSeq (fst (ua_RecvRequest env rq t u)) = u_rCSeq u"
proof -
  define u1 where "u1 = (if u_remote_ua u = [] then update_ua rq u else u)"
  have u1: "view u1 = view u" "u_rCSeq u1 = u_rCSeq u"
    by (simp_all add: u1_def view_neutral_cases, simp add: update_ua_def split: option.splits)
  obtain rs where rs: "GenResponse 500 ''Server Internal Error'' None (u_local_ua u1) rq = Inr rs"
    using GenResponse_ex [OF assms(1)] by blast
  have "ua_RecvRequest env rq t u = (u1, context_of (Inr rs))"
    using assms(2-4) rs u1(2) by (simp add: ua_RecvRequest_def u1_def [symmetric])
  with u1 show ?thesis using GenResponse_Inr [OF rs] by (simp add: context_of_def)
qed

section \<open>Timers\<close>

lemma earliest_Some: "\<exists>m. earliest (Some c) ts = Some m \<and> m \<in> set (c # ts) \<and> list_all (\<lambda>t. \<not> mt_After m t) (c # ts)"
proof (induction ts arbitrary: c)
  case (Cons t ts)
  from Cons [of "if mt_After c t then t else c"] show ?case
    by (auto simp: mt_After_def list_all_iff split: if_splits)
qed (simp add: mt_After_def)

text \<open>With any credit limit set, connecting the call arms the credit timer for the earliest
  of the limits, the one given as a duration being counted from the time of connection.\<close>

theorem credit_timer_is_earliest:
  assumes "u_credit_time u \<noteq> None \<or> u_credit_times u \<noteq> []"
  shows "case u_credit_timer (StartCreditTimer env rtime u) of
           None \<Rightarrow> False
         | Some (d, t) \<Rightarrow> d = mt_Sub t (e_now env)
             \<and> t \<in> snd ` set (u_credit_times (StartCreditTimer env rtime u))
             \<and> list_all (\<lambda>t'. \<not> mt_After t t') (map snd (u_credit_times (StartCreditTimer env rtime u)))
             \<and> (case u_credit_time u of Some c \<Rightarrow> \<not> mt_After t (mt_Add rtime c) | None \<Rightarrow> True)"
proof -
  define u1 where "u1 = (case u_credit_time u of
                  Some d \<Rightarrow> u\<lparr>u_credit_times := credit_put 0 (mt_Add rtime d) (u_credit_times u), u_credit_time := None\<rparr>
                | None \<Rightarrow> u)"
  have "u_credit_times u1 \<noteq> []" using assms by (auto simp: u1_def credit_put_def split: option.splits)
  then obtain x xs where x: "map snd (u_credit_times u1) = x # xs" by (cases "u_credit_times u1") auto
  obtain m where m: "earliest (Some x) xs = Some m" "m \<in> set (x # xs)" "list_all (\<lambda>t. \<not> mt_After m t) (x # xs)"
    using earliest_Some [of x xs] by blast
  have timer: "StartCreditTimer env rtime u = u1\<lparr>u_credit_timer := Some (mt_Sub m (e_now env), m)\<rparr>"
    using x m(1) by (simp add: StartCreditTimer_def u1_def [symmetric])
  have new: "mt_Add rtime c \<in> set (x # xs)" if "u_credit_time u = Some c" for c
    using that x by (auto simp: u1_def credit_put_def)
  have "m \<in> snd ` set (u_credit_times u1)" using m(2) x by (metis list.set_map)
  with m(3) x new show ?thesis by (auto simp: timer list_all_iff split: option.splits)
qed

text \<open>The limits that count when an outgoing call is set up; a no-reply limit of 32 s or more does not.\<close>

definition setup_limits :: "ua \<Rightarrow> duration list" where
  "setup_limits u = filter (\<lambda>d. 0 < d) [u_expire_time u, u_no_progress_time u,
     if u_no_reply_time u < 32 * second then u_no_reply_time u else 0]"

text \<open>An outgoing call starts with exactly one timer when it has a limit and none
  otherwise, and that timer fires when the shortest of the limits is over, counted from the
  event that set up the call.\<close>

theorem outgoing_call_arms_shortest_limit:
  assumes "u_no_reply_timer u = None" "u_no_progress_timer u = None" "u_expire_timer u = None"
    "u_nr_mtime u = None" "u_np_mtime u = None" "u_ex_mtime u = None"
  shows "(let v = start_first_timer env t (set_deadlines t u)
          in List.map_filter id [u_no_reply_timer v, u_no_progress_timer v, u_expire_timer v])
       = (if setup_limits u = [] then []
          else [mt_Sub (mt_Add t (Min (set (setup_limits u)))) (e_now env)])"
  using assms
  by (auto simp: setup_limits_def set_deadlines_def start_first_timer_def Let_def SetExMtime_def SetNpMtime_def
      SetNrMtime_def StartNoReplyTimer_def StartNoProgressTimer_def StartExpireTimer_def mt_defs)

section \<open>Late media\<close>

fun is_ack :: "ua_out \<Rightarrow> bool" where
  "is_ack (O_ack_body tr b) = True"
| "is_ack (O_send_ack tr) = True"
| "is_ack x = False"

lemma timers_keep:
  "u_out (StartCreditTimer env t u) = u_out u" "u_pending_tr (StartCreditTimer env t u) = u_pending_tr u"
  "u_origin (StartCreditTimer env t u) = u_origin u" "u_conn_cb (StartCreditTimer env t u) = u_conn_cb u"
  "u_out (SetConnectTs t u) = u_out u" "u_pending_tr (SetConnectTs t u) = u_pending_tr u"
  "u_origin (SetConnectTs t u) = u_origin u" "u_conn_cb (SetConnectTs t u) = u_conn_cb u"
  "u_kaInterval (SetConnectTs t u) = u_kaInterval u" "u_kaInterval (StartCreditTimer env t u) = u_kaInterval u"
  "u_state (StartCreditTimer env t u) = u_state u"
  by (simp_all add: StartCreditTimer_def SetConnectTs_def Let_def split: option.splits)

text \<open>A call set up without a body whose answer brought one waits with the ACK. The
  controller's connect event sends exactly one ACK, with the body the event carries, on the
  transaction that waits; a further connect event sends nothing.\<close>

theorem late_media_ack_sent_once:
  assumes "u_pending_tr u = Some tr" "local_sdp_pending body u = None"
  shows "(let v = fst (connected_connect env body ev u)
          in filter is_ack (u_out v) = filter is_ack (u_out u) @ [O_ack_body tr body, O_send_ack tr]
           \<and> u_pending_tr v = None \<and> fst (connected_connect env' body' ev' v) = v)"
proof -
  have "local_sdp_pending body (CancelExpireTimer u) = None"
    using assms(2) by (cases body) (simp_all add: local_sdp_pending_def CancelExpireTimer_def)
  with assms(1) show ?thesis
    by (simp add: connected_connect_def with_local_sdp_def ignore_def ConnCb_def out_if_def out_def Let_def
        SetPendingTr_def SetLSDP_def CancelCreditTimer_def CancelExpireTimer_def timers_keep)
qed

section \<open>Cancelled calls\<close>

lemma UpdateRouting_target:
  assumes "u_rTarget u \<noteq> None" "u_rAddr u \<noteq> None"
  shows "u_rTarget (UpdateRouting rs a b u) \<noteq> None" "u_rAddr (UpdateRouting rs a b u) \<noteq> None"
  using assms by (auto simp: UpdateRouting_def Let_def split: option.splits list.splits sum.splits)

lemma UpdateRouting_keeps:
  "u_out (UpdateRouting rs a b u) = u_out u" "u_state (UpdateRouting rs a b u) = u_state u"
  "u_rUri (UpdateRouting rs a b u) = u_rUri u" "u_sip_tm (UpdateRouting rs a b u) = u_sip_tm u"
  "u_godead_timeout (UpdateRouting rs a b u) = u_godead_timeout u"
  by (auto simp: UpdateRouting_def Let_def split: option.splits list.splits sum.splits)

lemma send_bye_sends:
  assumes "u_rTarget u \<noteq> None" "u_rAddr u \<noteq> None" "u_sip_tm u"
  obtains rq v where "send_bye env hs u = (v, Inr ())" "u_out v = u_out u @ [O_begin_new rq R_none]"
    "rq_method rq = ''BYE''" "u_state v = u_state u" "u_godead_timeout v = u_godead_timeout u"
proof -
  obtain ruri where ruri: "u_rTarget u = Some ruri" using assms(1) by blast
  have "(case u_outbound_proxy u of Some p \<Rightarrow> Some p | None \<Rightarrow> u_rAddr u) \<noteq> None"
    using assms(2) by (simp split: option.splits)
  from NewSipRequest_ex [OF disjI1 [OF this]] obtain req where req:
    "NewSipRequest ''BYE'' ruri [] (u_rUri u) (u_lUri u) None (u_lCSeq u) (u_cId u) None None
       (u_lContact u) (u_routes u) (case u_outbound_proxy u of Some p \<Rightarrow> Some p | None \<Rightarrow> u_rAddr u)
       (u_local_ua u) None (u_config u) (e_branch env (u_draws u)) (e_callid env) = Inr req" by blast
  define rq where "rq = appendHeaders (u_extra_headers u @ hs @ u_dlg_headers u) req"
  define v where "v = out (O_begin_new rq R_none) (u\<lparr>u_reqs := (u_reqs u)(u_lCSeq u \<mapsto> rq), u_lCSeq := u_lCSeq u + 1,
                      u_draws := u_draws u + 1\<rparr>)"
  have "send_bye env hs u = (v, Inr ())"
    using ruri req assms(3) by (simp add: send_bye_def send_request_def GenRequest_def Let_def
        ua_BeginNewClientTransaction_def out_if_def v_def rq_def)
  moreover have "rq_method rq = ''BYE''" using NewSipRequest_Inr(1) [OF req] by (simp add: rq_def)
  ultimately show ?thesis by (intro that [of v rq]) (simp_all add: v_def out_def)
qed

text \<open>When a call the user agent has already cancelled is answered with a 2xx all the
  same, the answer does not leave a call behind: a BYE is sent in the dialog and the
  user agent waits in the Disconnected state.\<close>

theorem cancelled_call_answered_is_released:
  assumes "u_state u = Some (UacStateCancelling te)" "u_sip_tm u"
    "u_rTarget u \<noteq> None" "u_rAddr u \<noteq> None" "u_rUri u = Some (Inr ruri)"
    "m_cseq rs = Some (Inr (c :: cseq_body))" "m_to rs = Some (Inr tob)" "200 \<le> rs_scode rs" "rs_scode rs < 300"
  shows "(let v = ua_RecvResponse env rs tr u
          in u_state v = Some UaStateDisconnected
           \<and> (\<exists>bye xs. rq_method bye = ''BYE'' \<and> u_out v = u_out u @ O_begin_new bye R_none
                 # O_go_dead_timer (u_godead_timeout u) # xs))"
proof -
  define u0 where "u0 = set_state (UacStateCancelling None)
      ((update_ua rs u)\<lparr>u_reqs := (u_reqs u)(CSeq_num c := None)\<rparr>)"
  define u1 where "u1 = SetRUri (Some (Inr (SetTag (GetTag tob) ruri))) (UpdateRouting rs True True u0)"
  have u0: "u_rTarget u0 \<noteq> None" "u_rAddr u0 \<noteq> None" "u_sip_tm u0" "u_rUri u0 = Some (Inr ruri)" "u_out u0 = u_out u"
    "u_state u0 = Some (UacStateCancelling None)" "u_godead_timeout u0 = u_godead_timeout u"
    using assms(2-5) by (auto simp: u0_def set_state_def update_ua_def split: option.splits)
  have u1: "u_rTarget u1 \<noteq> None" "u_rAddr u1 \<noteq> None" "u_sip_tm u1" "u_out u1 = u_out u"
    "u_state u1 = Some (UacStateCancelling None)" "u_godead_timeout u1 = u_godead_timeout u"
    using u0 UpdateRouting_target [of u0 rs True True] by (auto simp: u1_def SetRUri_def UpdateRouting_keeps)
  obtain bye w where w: "send_bye env [] u1 = (w, Inr ())" "u_out w = u_out u1 @ [O_begin_new bye R_none]"
    "rq_method bye = ''BYE''" "u_state w = u_state u1" "u_godead_timeout w = u_godead_timeout u1"
    using send_bye_sends [OF u1(1-3)] by metis
  have chal: "try_challenge env rs c eh v = (v, False)" for eh v
    using assms(9) by (auto simp: try_challenge_def split: option.splits)
  have reqs: "u_reqs (update_ua rs u) = u_reqs u" by (simp add: update_ua_def split: option.splits)
  have handled: "state_RecvResponse env (UacStateCancelling te) rs tr
      ((update_ua rs u)\<lparr>u_reqs := (u_reqs u)(CSeq_num c := None)\<rparr>) = go_Disconnected None w"
    using assms(7-9) w(1) u0(4)
    by (simp add: state_RecvResponse_def UacCancelling_RecvResponse_def Let_def u0_def [symmetric] u1_def
        UpdateRouting_keeps)
  have v: "ua_RecvResponse env rs tr u = emitPendingEvents (apply_transition (go_Disconnected None w))"
    using assms(1,6,8) by (simp add: ua_RecvResponse_def chal reqs handled)
  have "u_state (apply_transition (go_Disconnected None w)) = Some UaStateDisconnected"
    "u_out (apply_transition (go_Disconnected None w)) = u_out w @ [O_go_dead_timer (u_godead_timeout w)]"
    using w(4) u1(5) by (simp_all add: apply_transition_def go_Disconnected_def go_def ChangeState_def
        ResetSdpChange_def OnDeactivate_def OnActivation_def set_state_def out_def)
  with emitPending_keeps [of "apply_transition (go_Disconnected None w)"] show ?thesis
    using w(2,3,5) u1(4,6) by (auto simp: v)
qed

section \<open>Challenges\<close>

fun is_credentials :: "sip_header \<Rightarrow> bool" where
  "is_credentials (H_Authorization a) = True"
| "is_credentials (H_ProxyAuthorization a) = True"
| "is_credentials h = False"

lemma AppendHeader_credentials:
  "\<not> is_credentials h \<Longrightarrow> m_sip_authorization (AppendHeader h m) = m_sip_authorization m"
  by (cases h) (simp_all add: push_header_def)

lemma appendHeaders_credentials:
  "list_all (\<lambda>h. \<not> is_credentials h) hs \<Longrightarrow> m_sip_authorization (appendHeaders hs m) = m_sip_authorization m"
  by (induction hs arbitrary: m) (simp_all add: appendHeaders_def AppendHeader_credentials)

text \<open>A 401 is answered with credentials once: after the INVITE was repeated with an
  Authorization header, a 401 to the repeated request is not answered again, so a
  server that refuses the credentials does not cause a loop.\<close>

theorem challenge_answered_once:
  assumes "processChallenge env chs n eh u = (v, True)" "n \<noteq> u_lCSeq u"
    "\<And>ch. \<exists>a. e_auth env ch ''INVITE'' = Some (H_Authorization a)"
    "list_all (\<lambda>h. \<not> is_credentials h) (u_extra_headers u @ eh @ u_dlg_headers u)"
    "rs_scode rs = 401" "CSeq_num c = u_lCSeq u"
  shows "try_challenge env' rs c eh' v = (v, False)"
proof -
  obtain ch u1 rq where ch: "GenRequest env ''INVITE'' (u_lSDP u) (Some ch) eh u = (u1, Inr rq)"
    and v: "u_reqs v = (u_reqs u1)(n := None)"
    using assms(1)
    by (auto simp: processChallenge_def start_invite_def PrepTr_def ua_BeginClientTransaction_def out_if_def
        out_def SetLCSeq_def SetClientTransaction_def split: option.splits prod.splits sum.splits if_splits)
  obtain a where a: "e_auth env ch ''INVITE'' = Some (H_Authorization a)" using assms(3) by blast
  from ch have "u_reqs u1 (u_lCSeq u) = Some rq"
    by (auto simp: GenRequest_def Let_def split: option.splits sum.splits)
  moreover from ch a obtain req0 where "rq = appendHeaders (u_extra_headers u @ eh @ u_dlg_headers u)
      (AppendHeader (H_Authorization a) req0)"
    by (auto simp: GenRequest_def Let_def appendHeaders_simps split: option.splits sum.splits)
  then have "m_sip_authorization rq \<noteq> None" by (simp add: appendHeaders_credentials [OF assms(4)])
  ultimately show ?thesis using assms(2,5,6) v by (auto simp: try_challenge_def)
qed

section \<open>Where the code does more or less than it means to\<close>

fun is_conn :: "ua_out \<Rightarrow> bool" where
  "is_conn (O_conn t og) = True"
| "is_conn x = False"

lemma no_conn: "list_all is_event xs \<Longrightarrow> filter is_conn xs = []"
proof (induction xs)
  case (Cons x xs)
  then show ?case by (cases x) simp_all
qed simp

lemma confirm_connect_out:
  "filter is_conn (u_out (fst (confirm_connect env rq u)))
     = filter is_conn (u_out u) @ (if u_conn_cb u then [O_conn (rtime_of env rq) (u_origin u)] else [])"
  "u_state (fst (confirm_connect env rq u)) = u_state u" "u_conn_cb (fst (confirm_connect env rq u)) = u_conn_cb u"
  "snd (snd (confirm_connect env rq u)) = Some (CB_conn (rtime_of env rq) (u_origin u))"
  by (simp_all add: confirm_connect_def Let_def new_event_def ConnCb_def out_if_def out_def CancelCreditTimer_def
      CancelExpireTimer_def timers_keep state_kept SetRSDP_def split: option.splits)

lemma connected_conn:
  assumes "u_state u = Some (UasStatePreConnect p c)" "u_conn_cb u"
  shows "filter is_conn (u_out (apply_transition (go_Connected (Some (CB_conn t og)) u)))
       = filter is_conn (u_out u) @ [O_conn t og]"
  using assms by (simp add: apply_transition_def go_Connected_def go_def ChangeState_def SetBranch_def
      OnDeactivate_def OnActivation_def set_state_def out_def CancelExpireTimer_def ConnCb_def out_if_def
      newKeepaliveController_def)

text \<open>Where the connect time comes from the ACK (the other leg had late media), the connect
  listener of the call is called twice for the one ACK: once by the handler and once
  more by the change to the Connected state.\<close>

theorem late_media_connect_reported_twice:
  assumes "u_state u = Some (UasStatePreConnect None True)" "u_conn_cb u"
  shows "filter is_conn (u_out (ua_RecvACK env rq u))
       = filter is_conn (u_out u) @ replicate 2 (O_conn (rtime_of env rq) (u_origin u))"
proof -
  obtain u1 e cb where c: "confirm_connect env rq u = (u1, e, cb)" by (metis prod_cases3)
  note out1 = confirm_connect_out [of env rq u, unfolded c]
  define u2 where "u2 = apply_transition (go_Connected cb u1)"
  have u2: "filter is_conn (u_out u2) = filter is_conn (u_out u) @ replicate 2 (O_conn (rtime_of env rq) (u_origin u))"
    using out1 assms connected_conn [of u1 None True "rtime_of env rq" "u_origin u"]
    by (simp add: u2_def numeral_2_eq_2)
  have emit: "filter is_conn (u_out (EmitEvent x w)) = filter is_conn (u_out w)" for x w
    using EmitEvent_keeps(2) [of x w] by (auto simp: no_conn)
  have pending: "filter is_conn (u_out (emitPendingEvents w)) = filter is_conn (u_out w)" for w
    using emitPending_keeps(2) [of w] by (auto simp: no_conn)
  show ?thesis
    using assms(1) u2 by (simp add: ua_RecvACK_def ua_isConnected_def UasPreConnect_RecvACK_def c u2_def [symmetric]
        pending emit split: option.splits)
qed

text \<open>A CANCEL that ends an incoming call in the Trying or Ringing state leaves the expiry
  timer running. When it fires later, the call, already disconnected, reports a second
  disconnect event to its controller.\<close>

theorem cancelled_call_disconnects_twice:
  assumes "u_state u = Some UasStateRinging" "u_call_controller u" "u_sip_tm u" "u_equeue u = []"
    "u_elast_seq u < u_gseq u" "0 \<le> u_gseq u"
  shows "u_expire_timer (RecvCancel env UasStateRinging t rq u) = u_expire_timer u
       \<and> (let w = expires env' (RecvCancel env UasStateRinging t rq u)
          in \<exists>g1 g2. filter is_event (u_out w)
               = filter is_event (u_out u) @ [O_event (CCEventDisconnect g1 None), O_event (CCEventDisconnect g2 None)])"
proof -
  define g where "g = (case rq of Some r \<Rightarrow> SetReason (m_reason_hf r) (newCCEventGeneric (u_gseq u) (e_now env) (Some t) (u_origin u) [])
      | None \<Rightarrow> newCCEventGeneric (u_gseq u) (e_now env) (Some t) (u_origin u) [])"
  have g: "ev_seq g = u_gseq u" by (simp add: g_def SetReason_def split: option.splits)
  define w where "w = apply_transition (go_Disconnected (Some (CB_disc t (u_origin u) 0 rq))
      (SetDisconnectTs t (u\<lparr>u_gseq := u_gseq u + 1\<rparr>)))"
  have w: "u_expire_timer w = u_expire_timer u" "u_state w = Some UaStateDisconnected" "u_call_controller w"
    "u_sip_tm w" "u_equeue w = []" "u_elast_seq w = u_elast_seq u" "u_gseq w = u_gseq u + 1"
    "filter is_event (u_out w) = filter is_event (u_out u)"
    using assms(1-4)
    by (simp_all add: w_def apply_transition_def go_Disconnected_def go_def ChangeState_def OnDeactivate_def
        OnActivation_def set_state_def ResetSdpChange_def SetDisconnectTs_def DiscCb_def out_if_def out_def Let_def
        split: option.splits)
  define v where "v = RecvCancel env UasStateRinging t rq u"
  have "v = EmitEvent (CCEventDisconnect g None) w"
    by (simp add: v_def RecvCancel_def early_RecvCancel_def new_event_def g_def w_def)
  then have "v = out (O_event (CCEventDisconnect g None)) (w\<lparr>u_elast_seq := u_gseq u\<rparr>)"
    using w(3,6) g assms(5) by (simp add: EmitEvent_def)
  then have v: "u_expire_timer v = u_expire_timer u" "u_state v = Some UaStateDisconnected" "u_call_controller v"
    "u_sip_tm v" "u_equeue v = []" "u_elast_seq v = u_gseq u" "u_gseq v = u_gseq u + 1"
    "filter is_event (u_out v) = filter is_event (u_out u) @ [O_event (CCEventDisconnect g None)]"
    using w by (simp_all add: out_def)
  show ?thesis
    using v assms(6) unfolding v_def [symmetric]
    by (simp add: expires_def ua_Disconnect_def CancelExpireTimer_def new_event_def Enqueue_def ua_RecvEvent_def
        state_RecvEvent_def ignore_def apply_transition_def emitPendingEvents_def EmitEvent_def out_def Let_def)
qed

end
