(* ===== verification/Local4Remote.thy ===== *)
theory Local4Remote
  imports Tx_State
begin

text \<open>
  \<^verbatim>\<open>sippy/local4remote.go\<close>: which local transport talks to a remote host. Remote hosts
  map to local addresses in a two-generation cache, local addresses to transports. What the
  operating system answers is input: \<open>route\<close> is the local address it picks for a remote one
  (None when resolving fails), \<open>bind\<close> the transport the factory opens on a local address.
\<close>

record local4remote =
  l4_cache_r2l :: "string \<rightharpoonup> host_port"
  l4_cache_r2l_old :: "string \<rightharpoonup> host_port"
  l4_cache_l2s :: "(string \<times> transport) list"
  l4_fixed :: bool

definition l4_addresses :: "my_address \<Rightarrow> my_port \<Rightarrow> bool \<Rightarrow> host_port list" where
  "l4_addresses sip_address sip_port ipv6 =
     (if is_system sip_address then
        NewHostPort ''0.0.0.0'' (mp_port sip_port)
        # (if ipv6 then [NewHostPort ''[::]'' (mp_port sip_port)] else [])
      else [NewHostPort (ma_address sip_address) (mp_port sip_port)])"

definition l2s_put :: "string \<Rightarrow> transport \<Rightarrow> (string \<times> transport) list \<Rightarrow> (string \<times> transport) list" where
  "l2s_put k v m = (if map_of m k = None then m @ [(k, v)]
                    else map (\<lambda>(k', v'). if k' = k then (k', v) else (k', v')) m)"

definition bind_all ::
  "(host_port \<Rightarrow> transport option) \<Rightarrow> host_port list \<Rightarrow> (string \<times> transport) list" where
  "bind_all bnd as =
     fold (\<lambda>a m. case bnd a of Some t \<Rightarrow> l2s_put (HostPort_String (Some a)) t m | None \<Rightarrow> m) as []"

definition NewLocal4Remote ::
  "(host_port \<Rightarrow> transport option) \<Rightarrow> my_address \<Rightarrow> my_port \<Rightarrow> bool \<Rightarrow> local4remote option" where
  "NewLocal4Remote bnd sip_address sip_port ipv6 =
     (let l2s = bind_all bnd (l4_addresses sip_address sip_port ipv6) in
      if l2s = [] then None
      else Some \<lparr>l4_cache_r2l = Map.empty, l4_cache_r2l_old = Map.empty, l4_cache_l2s = l2s,
                 l4_fixed = (\<not> is_system sip_address)\<rparr>)"

definition l4_look :: "local4remote \<Rightarrow> string \<Rightarrow> host_port option" where
  "l4_look l h = (case l4_cache_r2l l h of Some a \<Rightarrow> Some a | None \<Rightarrow> l4_cache_r2l_old l h)"

definition l4_put :: "string \<Rightarrow> host_port \<Rightarrow> local4remote \<Rightarrow> local4remote" where
  "l4_put h a l = l\<lparr>l4_cache_r2l := (l4_cache_r2l l)(h \<mapsto> a)\<rparr>"

definition rotateCache :: "local4remote \<Rightarrow> local4remote" where
  "rotateCache l = l\<lparr>l4_cache_r2l_old := l4_cache_r2l l, l4_cache_r2l := Map.empty\<rparr>"

interpretation l4: two_generation_cache l4_cache_r2l l4_cache_r2l_old l4_look l4_put rotateCache
  by unfold_locales (auto simp: l4_look_def l4_put_def rotateCache_def split: option.splits)

definition server_at ::
  "(host_port \<Rightarrow> transport option) \<Rightarrow> host_port \<Rightarrow> local4remote \<Rightarrow> local4remote \<times> transport option" where
  "server_at bnd laddr l =
     (case map_of (l4_cache_l2s l) (HostPort_String (Some laddr)) of
        Some t \<Rightarrow> (l, Some t)
      | None \<Rightarrow> (case bnd laddr of
          None \<Rightarrow> (l, None)
        | Some t \<Rightarrow> (l\<lparr>l4_cache_l2s := l2s_put (HostPort_String (Some laddr)) t (l4_cache_l2s l)\<rparr>, Some t)))"

definition getServer ::
  "sippy_config \<Rightarrow> (host_port \<Rightarrow> string option) \<Rightarrow> (host_port \<Rightarrow> transport option) \<Rightarrow> host_port \<Rightarrow>
   bool \<Rightarrow> local4remote \<Rightarrow> local4remote \<times> transport option" where
  "getServer cfg route bnd addr is_local l =
     (if l4_fixed l then (l, case l4_cache_l2s l of (k, t) # _ \<Rightarrow> Some t | [] \<Rightarrow> None)
      else if is_local then server_at bnd addr l
      else (case l4_look l (host_string addr) of
          Some la \<Rightarrow> (l4_put (host_string addr) la l,
                      map_of (l4_cache_l2s l) (HostPort_String (Some la)))
        | None \<Rightarrow> (case route addr of
            None \<Rightarrow> (l, None)
          | Some s \<Rightarrow>
              (let la = NewHostPort s (mp_port (cfg_SipPort cfg))
               in server_at bnd la (l4_put (host_string addr) la l)))))"

definition l4_shutdown :: "local4remote \<Rightarrow> local4remote" where
  "l4_shutdown l = l\<lparr>l4_cache_l2s := []\<rparr>"

section \<open>Lookups are stable\<close>

lemma l2s_put_look: "map_of (l2s_put k v m) k' = (if k' = k then Some v else map_of m k')"
proof (cases "map_of m k")
  case None
  then show ?thesis by (auto simp: l2s_put_def map_add_def split: option.splits)
next
  case (Some w)
  have "k' \<noteq> k \<Longrightarrow> map_of (map (\<lambda>(k', v'). if k' = k then (k', v) else (k', v')) m) k' = map_of m k'"
    by (induction m) auto
  moreover from Some have "map_of (map (\<lambda>(k', v'). if k' = k then (k', v) else (k', v')) m) k = Some v"
    by (induction m) (auto split: if_splits)
  ultimately have "map_of (map (\<lambda>(k', v'). if k' = k then (k', v) else (k', v')) m) k' =
      (if k' = k then Some v else map_of m k')"
    by simp
  with Some show ?thesis by (simp add: l2s_put_def)
qed

lemma server_at_look:
  "server_at bnd la l = (l', Some t) \<Longrightarrow> map_of (l4_cache_l2s l') (HostPort_String (Some la)) = Some t
     \<and> l4_cache_r2l l' = l4_cache_r2l l \<and> l4_cache_r2l_old l' = l4_cache_r2l_old l \<and> l4_fixed l' = l4_fixed l"
  by (auto simp: server_at_def l2s_put_look split: option.splits)

text \<open>
  A remote host keeps its local transport: once a lookup for a host succeeded, the next lookup
  for the same host gives the same transport whatever the operating system would answer then, also
  after one rotation of the cache in between, and that lookup makes the entry young again.
\<close>

theorem remote_host_keeps_transport:
  assumes "\<not> l4_fixed l" "getServer cfg route bnd addr False l = (l1, Some t)"
    and "host_string addr' = host_string addr"
    and "getServer cfg' route' bnd' addr' False (if rotated then rotateCache l1 else l1) = (l2, res)"
  shows "res = Some t \<and> l4_cache_r2l l2 (host_string addr') \<noteq> None"
proof -
  obtain la where la: "l4_cache_r2l l1 (host_string addr) = Some la"
      "map_of (l4_cache_l2s l1) (HostPort_String (Some la)) = Some t" and nf: "\<not> l4_fixed l1"
    using assms(1,2)
    by (auto simp: getServer_def l4_put_def Let_def split: option.splits dest!: server_at_look)
  have "l4_look (if rotated then rotateCache l1 else l1) (host_string addr') = Some la"
    using la(1) assms(3) by (simp add: l4.look_after_rotate) (simp add: l4_look_def)
  then show ?thesis
    using assms(4) nf la(2) by (auto simp: getServer_def rotateCache_def l4_put_def split: if_splits)
qed

end
