(* ===== verification/Sippy_Samples.thy ===== *)
theory Sippy_Samples
  imports Ua_Properties Ua_Operations Local4Remote
begin

text \<open>
  A concrete call: configuration, addresses, an INVITE with the messages that belong to it, the
  transactions and user agents on both sides. The witnesses of the properties
  are stated on these values.
\<close>

section \<open>Addresses and messages\<close>

definition s_cfg :: sippy_config where
  "s_cfg = \<lparr>cfg_MyAddress = NewMyAddress ''192.0.2.1'', cfg_MyPort = NewMyPort ''5060'',
            cfg_DefaultPort = NewMyPort ''5060'', cfg_SipPort = NewMyPort ''5060'', cfg_MyUAName = ''Sippy''\<rparr>"

definition s_peer :: host_port where "s_peer = NewHostPort ''192.0.2.7'' ''5070''"

definition s_uv :: transport where
  "s_uv = \<lparr>uv_id = 0, uv_laddress = NewHostPort ''192.0.2.1'' ''5060''\<rparr>"

definition s_url :: sip_url where
  "s_url = NewSipURL ''bob'' (NewMyAddress ''192.0.2.7'') (Some (NewMyPort ''5070'')) False"

definition s_from :: sip_address where
  "s_from = SetTag ''ft'' (NewSipAddress ''Alice'' (NewSipURL ''alice'' (NewMyAddress ''192.0.2.9'') None False))"

definition s_to :: "string \<Rightarrow> sip_address" where
  "s_to tag = (if tag = [] then NewSipAddress [] s_url else SetTag tag (NewSipAddress [] s_url))"

definition s_via :: "string \<Rightarrow> via_body" where "s_via br = GenBranch br (newSipViaBody s_cfg)"

definition s_time :: "int \<Rightarrow> monotime" where "s_time n = \<lparr>monot = n, realt = n\<rparr>"

text \<open>A request of the call: method, CSeq number, branch, To tag.\<close>

definition s_request :: "string \<Rightarrow> int \<Rightarrow> string \<Rightarrow> string \<Rightarrow> sip_request" where
  "s_request method n br tag =
     (appendHeaders [H_Via (Inr (s_via br)), H_From (Inr s_from), H_To (Inr (s_to tag)), H_CallId ''c1'',
        H_CSeq (Inr \<lparr>CSeq_num = n, CSeq_Method = method\<rparr>),
        H_Contact \<lparr>ct_Asterisk = False, ct_address = Inr s_from\<rparr>] (initial_request method s_url))
     \<lparr>m_target := Some s_peer, m_rtime := Some (s_time 5)\<rparr>"

lemma s_request_simps [simp]:
  "rq_method (s_request m n br tag) = m" "m_vias (s_request m n br tag) = [Inr (s_via br)]"
  "m_from (s_request m n br tag) = Some (Inr s_from)" "m_to (s_request m n br tag) = Some (Inr (s_to tag))"
  "m_call_id (s_request m n br tag) = Some ''c1''"
  "m_cseq (s_request m n br tag) = Some (Inr \<lparr>CSeq_num = n, CSeq_Method = m\<rparr>)"
  "m_target (s_request m n br tag) = Some s_peer" "m_rtime (s_request m n br tag) = Some (s_time 5)"
  "m_rack (s_request m n br tag) = None" "m_rseq (s_request m n br tag) = None"
  "rq_ruri (s_request m n br tag) = s_url" "rq_expires (s_request m n br tag) = None"
  "m_body (s_request m n br tag) = None" "m_record_routes (s_request m n br tag) = []"
  "m_contacts (s_request m n br tag) = [\<lparr>ct_Asterisk = False, ct_address = Inr s_from\<rparr>]"
  "m_routes (s_request m n br tag) = []" "m_also (s_request m n br tag) = []"
  by (simp_all add: s_request_def appendHeaders_def push_header_def initial_request_def NewSipMsg_def
      sip_msg.defs sip_request.defs)

lemma s_simps [simp]:
  "GetTag s_from = ''ft''" "GetTag (s_to tag) = tag" "GetBranch (s_via br) = ''z9hG4bK'' @ br"
proof -
  show "GetTag (s_to tag) = tag"
    by (cases "tag = []") (simp_all add: s_to_def, simp add: GetTag_def GetParam_def NewSipAddress_def)
qed (simp_all add: s_from_def s_via_def)

lemma Itoa_small [simp]: "Itoa 1 = ''1''" "Itoa 2 = ''2''"
  by code_simp+

definition s_key :: "string \<Rightarrow> string \<Rightarrow> string \<Rightarrow> tid" where
  "s_key method tag br = NewTID ''c1'' ''1'' method ''ft'' tag br"

lemma s_GetTId [simp]:
  "GetTId False True False (s_request m 1 br tag) = Inr (s_key [] [] (''z9hG4bK'' @ br))"
  "GetTId True True False (s_request m 1 br tag) = Inr (s_key m [] (''z9hG4bK'' @ br))"
  "GetTId False False True (s_request m 1 br tag) = Inr (s_key [] tag [])"
  by (simp_all add: GetTId_def opt_field_def s_key_def)

abbreviation s_invite :: sip_request where "s_invite \<equiv> s_request ''INVITE'' 1 ''b1'' []"

lemma s_wf [simp]: "wf_request (s_request m n br tag)"
  by (simp add: wf_request_def)

definition s_response :: "int \<Rightarrow> sip_request \<Rightarrow> sip_response" where
  "s_response code rq = NewSipResponse code ''X'' (rq_sipver rq) (the (m_from rq)) (the (m_call_id rq)) (m_vias rq)
     (the (m_to rq)) (the (m_cseq rq)) (m_record_routes rq) None None"

lemma s_GenResponse: "GenResponse code ''X'' None None (s_request m n br tag) = Inr (s_response code (s_request m n br tag))"
  by (simp add: GenResponse_def s_response_def)

section \<open>Transactions\<close>

definition s_stx :: server_transaction where
  "s_stx = \<lparr>tx_ref = 7, tx_alive = True, tx_userv = Some s_uv, tx_state = TRYING,
     tx_tid = Some (s_key [] [] ''z9hG4bKb1''), tx_teA = None, tx_address = Some s_peer, tx_needack = True,
     tx_tout = half_second, tx_data = None, st_checksum = ''cs'', st_teD = None, st_teE = Some (300 * second),
     st_r487 = Some (s_response 487 s_invite), st_cancel_cb = Some 1, st_method = ''INVITE'', st_server = None,
     st_noack_cb = Some 1, st_branch = ''z9hG4bKb1'', st_expires = 300 * second, st_ack_cb = None,
     st_prov_inflight = None, st_prack_cb = None, st_noprack_cb = Some 1, st_rseq = newSipNumericHF 1,
     st_pr_rel = True\<rparr>"

definition s_rtid :: rtid where "s_rtid = NewRTID ''c1'' ''ft'' 1 1 ''INVITE''"

text \<open>The same transaction with an unacknowledged provisional response that was sent.\<close>

definition s_ringing :: server_transaction where
  "s_ringing = s_stx\<lparr>tx_state := RINGING, tx_data := Some (P_resp (s_response 180 s_invite) (uv_laddress s_uv)),
     st_prov_inflight := Some \<lparr>pif_rtid = s_rtid, pif_timeout = half_second, pif_lossemul = 0\<rparr>\<rparr>"

definition s_sent :: transmission where
  "s_sent = \<lparr>sn_userv = s_uv, sn_data = P_resp (s_response 180 s_invite) (uv_laddress s_uv), sn_address = s_peer\<rparr>"

definition s_tm :: sip_tm where
  "s_tm = (NewSipTransactionManager True)\<lparr>tm_tserver := [s_key [] [] ''z9hG4bKb1'' \<mapsto> 7],
     tm_stxs := [7 \<mapsto> s_stx], tm_rtid2tid := [s_rtid \<mapsto> s_key [] [] ''z9hG4bKb1''], tm_next_ref := 8\<rparr>"

lemma s_tm_simps [simp]:
  "\<not> tm_tclient_lock s_tm" "\<not> tm_tserver_lock s_tm" "tm_tclient s_tm = Map.empty" "tm_sent s_tm = []" "tm_upcalls s_tm = []"
  "tm_tserver s_tm = [s_key [] [] ''z9hG4bKb1'' \<mapsto> 7]" "tm_stxs s_tm = [7 \<mapsto> s_stx]"
  "tm_rtid2tid s_tm = [s_rtid \<mapsto> s_key [] [] ''z9hG4bKb1'']" "tm_req_consumers s_tm = Map.empty" "tm_next_ref s_tm = 8"
  by (simp_all add: s_tm_def NewSipTransactionManager_def)

definition s_ctx :: client_transaction where
  "s_ctx = \<lparr>tx_ref = 3, tx_alive = True, tx_userv = Some s_uv, tx_state = TRYING,
     tx_tid = Some (s_key ''INVITE'' [] ''z9hG4bKb1''), tx_teA = Some half_second, tx_address = Some s_peer,
     tx_needack = True, tx_tout = half_second, tx_data = Some (P_req s_invite (uv_laddress s_uv)),
     ct_teB = Some (32 * second), ct_teC = None, ct_teG = None, ct_r408 = Some (s_response 408 s_invite),
     ct_resp_receiver = Some 1, ct_expires = 300 * second, ct_ack = Some (s_request ''ACK'' 1 ''b1'' []),
     ct_outbound_proxy = None, ct_cancel = Some (s_request ''CANCEL'' 1 ''b1'' []), ct_cancelPending = False,
     ct_uack = False, ct_ack_rAddr = None, ct_ack_checksum = [], ct_ack_rparams_present = False,
     ct_ack_rTarget = None, ct_ack_routes = [], ct_txn_headers = [], ct_req_extra_hdrs = [],
     ct_seen_rseqs = [], ct_last_rseq = 0\<rparr>"

lemma s_response_simps [simp]:
  "rs_scode (s_response code (s_request m n br tag)) = code"
  "m_to (s_response code (s_request m n br tag)) = Some (Inr (s_to tag))"
  "m_vias (s_response code (s_request m n br tag)) = [Inr (s_via br)]"
  "m_record_routes (s_response code (s_request m n br tag)) = []"
  "m_cseq (s_response code (s_request m n br tag)) = Some (Inr \<lparr>CSeq_num = n, CSeq_Method = m\<rparr>)"
  "GetTId a b c (s_response code (s_request m n br tag)) = GetTId a b c (s_request m n br tag)"
  using GenResponse_Inr [OF s_GenResponse [of code m n br tag]]
  by (simp_all, intro GetTId_cong, simp_all)

lemma s_response_fields [simp]:
  "m_rseq (s_response code (s_request m n br tag)) = None" "m_contacts (s_response code (s_request m n br tag)) = []"
  "m_body (s_response code (s_request m n br tag)) = None"
  by (simp_all add: s_response_def NewSipResponse_def appendHeaders_def push_header_def NewSipMsg_def sip_msg.defs
      sip_response.defs)

end
