(* ===== verification/Tx_Witnesses.thy ===== *)
theory Tx_Witnesses
  imports Sippy_Samples
begin

text \<open>Instances of the properties of messages, transactions, manager and address cache on the sample call.\<close>

section \<open>Messages\<close>

theorem cancel_and_ack_match_their_invite_witness:
  "GetTId False True False (projr (GenCANCEL s_cfg s_invite)) = Inr (s_key [] [] ''z9hG4bKb1'')"
proof -
  obtain ca ack where "GenCANCEL s_cfg s_invite = Inr ca" "GenACK s_cfg None s_invite = Inr ack"
    using GenCANCEL_ex [of s_invite] GenACK_ex [of s_invite] by fastforce
  with cancel_and_ack_match_their_invite [OF this] show ?thesis by simp
qed

theorem response_keeps_transaction_ids_witness:
  "GetTId True True False (s_response 200 s_invite) = GetTId True True False s_invite"
  by (rule response_keeps_transaction_ids [OF s_GenResponse])

section \<open>Server transactions\<close>

theorem ack_finds_answered_invite_witness:
  "(case SendResponse s_cfg ''tt'' (s_response 200 s_invite) False None s_stx s_tm of
      (x, tm) \<Rightarrow> tx_state x = COMPLETED \<and> tm_tserver tm (s_key [] ''tt'' []) = Some 7)"
proof -
  obtain x tm where s: "SendResponse s_cfg ''tt'' (s_response 200 s_invite) False None s_stx s_tm = (x, tm)" by fastforce
  from ack_finds_answered_invite [of s_stx s_uv s_invite "s_key [] [] ''z9hG4bKb1''" 200 "''X''" None None
      "s_response 200 s_invite" "s_to []" "s_via ''b1''" "[]" "s_request ''ACK'' 1 ''b2'' ''tt''"
      "\<lparr>CSeq_num = 1, CSeq_Method = ''ACK''\<rparr>" "\<lparr>CSeq_num = 1, CSeq_Method = ''INVITE''\<rparr>" "s_to ''tt''" "''tt''",
      OF _ _ _ _ _ _ s_GenResponse _ _ _ _ _ _ _ _ _ _ s]
  have "tx_state x = COMPLETED" "tm_tserver tm (s_key [] ''tt'' []) = Some 7"
    by (simp_all add: s_stx_def, simp_all add: s_key_def NewTID_def)
  with s show ?thesis by simp
qed

theorem ack_confirms_and_retires_witness:
  "tx_state (fst (IncomingRequest (\<lambda>rq rs x t. (x, t)) s_cfg ''tt'' (s_time 9) (s_request ''ACK'' 1 ''b2'' ''tt'') ''cs2''
     (s_stx\<lparr>tx_state := COMPLETED\<rparr>) s_tm)) = CONFIRMED"
  using ack_confirms_and_retires [of "s_stx\<lparr>tx_state := COMPLETED\<rparr>" "s_key [] [] ''z9hG4bKb1''"
      "s_request ''ACK'' 1 ''b2'' ''tt''" "\<lambda>rq rs x t. (x, t)" s_cfg "''tt''" "s_time 9" "''cs2''" s_tm _ _ "[]",
      OF _ _ _ _ _ _ prod.collapse [symmetric]]
  by (simp add: s_stx_def)

theorem duplicate_request_repeats_response_witness:
  "tm_sent (snd (IncomingRequest (\<lambda>rq rs x t. (x, t)) s_cfg ''tt'' (s_time 9) s_invite ''cs'' s_ringing s_tm)) = [s_sent]"
  using duplicate_request_repeats_response [of s_ringing s_invite s_uv "s_key [] [] ''z9hG4bKb1''"
      "\<lambda>rq rs x t. (x, t)" s_cfg "''tt''" "s_time 9" "''cs''" s_tm, OF _ _ _ _ _ prod.collapse [symmetric]]
  by (simp add: s_ringing_def s_stx_def s_sent_def)

theorem retransmission_backoff_witness:
  "tx_teA (fst (run_ops (replicate 5 timerA) (s_ringing\<lparr>tx_teA := Some half_second\<rparr>, s_tm))) = Some (32 * half_second)"
  using retransmission_backoff [of "s_ringing\<lparr>tx_teA := Some half_second\<rparr>" s_sent 5 s_tm]
  by (simp add: armed_def s_ringing_def s_stx_def s_sent_def)

theorem unacknowledged_provisional_gives_up_witness:
  "tm_sent (snd (run_ops (replicate 9 fire_prov) (s_ringing, s_tm))) = replicate 6 s_sent"
  using unacknowledged_provisional_gives_up [of s_ringing s_sent 9 s_rtid s_tm, OF _ _ _ prod.collapse [symmetric]]
  by (simp add: armed_def s_ringing_def s_stx_def s_sent_def)

theorem cancel_terminates_unanswered_invite_witness:
  "tm_upcalls (snd (IncomingRequest (\<lambda>rq rs x t. (x, t)) s_cfg ''tt'' (s_time 9) (s_request ''CANCEL'' 1 ''b1'' []) ''cs2''
     s_stx s_tm)) = [U_cancel 1 (Some (s_time 5)) (Some (s_request ''CANCEL'' 1 ''b1'' []))]"
proof -
  obtain ok where "GenResponse 200 ''OK'' None (st_server s_stx) (s_request ''CANCEL'' 1 ''b1'' []) = Inr ok"
    using GenResponse_ex s_wf by blast
  from cancel_terminates_unanswered_invite [of s_stx s_uv _ _ ok "s_via ''b1''" "[]" "s_response 487 s_invite"
      "s_to []" "s_via ''b1''" "[]" "''tt''" _ "s_time 5", OF _ _ _ _ _ _ this _ _ _ _ _ _ _ prod.collapse [symmetric]]
  show ?thesis
    by (simp add: s_stx_def ensure_to_tag_def)
qed

theorem prack_acknowledges_in_flight_witness:
  "st_prov_inflight (fst (IncomingRequest (\<lambda>rq rs x t. (x, t)) s_cfg ''tt'' (s_time 9)
     ((s_request ''PRACK'' 2 ''b3'' ''tt'')\<lparr>m_rack := Some (Inr \<lparr>RAck_CSeq = 1, RAck_RSeq = 1, RAck_Method = ''INVITE''\<rparr>)\<rparr>)
     ''cs3'' s_ringing s_tm)) = None"
proof -
  let ?rq = "(s_request ''PRACK'' 2 ''b3'' ''tt'')\<lparr>m_rack := Some (Inr \<lparr>RAck_CSeq = 1, RAck_RSeq = 1, RAck_Method = ''INVITE''\<rparr>)\<rparr>"
  have wf: "wf_request ?rq" by (simp add: wf_request_def)
  obtain ok huh where r: "GenResponse 200 ''OK'' None None ?rq = Inr ok" "GenResponse 481 ''Huh?'' None None ?rq = Inr huh"
    using GenResponse_ex [OF wf] by metis
  have rk: "request_GetRTId ?rq = Inr s_rtid" by (simp add: request_GetRTId_def s_rtid_def)
  show ?thesis
    using prack_acknowledges_in_flight [of s_ringing s_uv "s_key [] [] ''z9hG4bKb1''" ?rq s_rtid "s_via ''b3''" "[]" ok huh
        "\<lambda>rq rs x t. (x, t)" s_cfg "''tt''" "s_time 9" "''cs3''" s_tm,
        OF _ _ _ _ _ rk _ r _ prod.collapse [symmetric]]
    by (auto simp: s_ringing_def s_stx_def)
qed

section \<open>Client transactions\<close>

theorem client_transaction_keys_unique_witness:
  "(case CreateClientTransaction s_cfg (Some s_uv) None [] s_invite s_tm of
      Some (tm, res) \<Rightarrow> tclient_ok tm \<and> \<not> tm_tclient_lock tm | None \<Rightarrow> False)"
proof -
  have ok: "tclient_ok s_tm" "\<not> tm_tclient_lock s_tm" by (simp_all add: tclient_ok_def)
  obtain tm res where c: "CreateClientTransaction s_cfg (Some s_uv) None [] s_invite s_tm = Some (tm, res)"
    by (cases "NewClientTransactionObj 8 s_cfg s_invite (s_key ''INVITE'' [] ''z9hG4bKb1'') s_uv None []")
      (simp_all add: CreateClientTransaction_def)
  from client_transaction_keys_unique [OF ok, of s_invite, OF _ _ _ c] c show ?thesis by simp
qed

theorem deferred_cancel_sent_once_witness:
  "(case Cancel s_cfg [] s_ctx s_tm of
      None \<Rightarrow> False
    | Some (x1, tm1) \<Rightarrow>
        (case IncomingResponse s_cfg (\<lambda>r x t. (x, t)) ''r'' (s_response 180 s_invite) ''cs1'' x1 tm1 of
           None \<Rightarrow> False
         | Some (x2, tm2) \<Rightarrow> tm_sent tm2 = [\<lparr>sn_userv = s_uv,
              sn_data = P_req (s_request ''CANCEL'' 1 ''b1'' []) (uv_laddress s_uv), sn_address = s_peer\<rparr>]))"
proof -
  let ?rcv = "\<lambda>(r :: sip_response option) (x :: client_transaction) (t :: sip_tm). (x, t)"
  have 1: "Cancel s_cfg [] s_ctx s_tm = Some (s_ctx\<lparr>ct_cancelPending := True\<rparr>, s_tm)"
    by (simp add: Cancel_def s_ctx_def)
  obtain t where t: "BeginNewClientTransaction s_cfg (Some s_uv) None (s_request ''CANCEL'' 1 ''b1'' []) s_tm = Some t"
    by (rule BeginNew_sends [of s_tm "s_request ''CANCEL'' 1 ''b1'' []" s_peer "s_key ''CANCEL'' [] ''z9hG4bKb1''"]) simp_all
  obtain y where y: "IncomingResponse s_cfg ?rcv ''r'' (s_response 180 s_invite) ''cs1'' (s_ctx\<lparr>ct_cancelPending := True\<rparr>) s_tm
      = Some (provisional_tail ?rcv ''cs1'' (s_response 180 s_invite) (y\<lparr>tx_state := RINGING, ct_cancelPending := False\<rparr>) t)"
      "tx_alive y"
  proof (rule that)
    show "IncomingResponse s_cfg ?rcv ''r'' (s_response 180 s_invite) ''cs1'' (s_ctx\<lparr>ct_cancelPending := True\<rparr>) s_tm
      = Some (provisional_tail ?rcv ''cs1'' (s_response 180 s_invite)
          ((cancelTeB (cancelTeA (s_ctx\<lparr>ct_cancelPending := True\<rparr>)))\<lparr>tx_state := RINGING, ct_cancelPending := False\<rparr>) t)"
      using t IncomingResponse_plain_provisional [of "s_ctx\<lparr>ct_cancelPending := True\<rparr>" "s_response 180 s_invite"]
      by (simp add: s_ctx_def cancelTeB_def cancelTeA_def
        process_provisional_response_cases(3) [where c = "s_request ''CANCEL'' 1 ''b1'' []" and t = t])
  qed (simp add: s_ctx_def cancelTeB_def cancelTeA_def)
  obtain x2 tm2 where p: "provisional_tail ?rcv ''cs1'' (s_response 180 s_invite)
      (y\<lparr>tx_state := RINGING, ct_cancelPending := False\<rparr>) t = (x2, tm2)" by fastforce
  have 2: "IncomingResponse s_cfg ?rcv ''r'' (s_response 180 s_invite) ''cs1'' (s_ctx\<lparr>ct_cancelPending := True\<rparr>) s_tm = Some (x2, tm2)"
    using y(1) p by simp
  have x2: "tx_state x2 = RINGING" "tx_alive x2"
    using provisional_tail_keeps(1,3) [of ?rcv "''cs1''" "s_response 180 s_invite"
        "y\<lparr>tx_state := RINGING, ct_cancelPending := False\<rparr>" t] p y(2) by simp_all
  obtain x3 tm3 where 3: "IncomingResponse s_cfg ?rcv ''r'' (s_response 180 s_invite) ''cs2'' x2 tm2 = Some (x3, tm3)"
    using x2 IncomingResponse_plain_provisional [of x2 "s_response 180 s_invite"]
    by (simp add: process_provisional_response_cases(1) cancelTeB_def) (metis surj_pair)
  show ?thesis
    using deferred_cancel_sent_once [of s_ctx s_uv "s_request ''CANCEL'' 1 ''b1'' []" s_peer "s_key ''CANCEL'' [] ''z9hG4bKb1''"
        s_tm "\<lambda>r x t. (x, t)", OF _ _ _ _ _ _ _ _ _ _ _ _ _ _ 1 2 3] 1 2
    by (simp add: s_ctx_def)
qed

theorem ack_2xx_follows_route_set_witness:
  "(let r = NewSipAddress [] (NewSipURL [] (NewMyAddress ''192.0.2.20'') None True);
        rs = (s_response 200 (s_request ''INVITE'' 1 ''b1'' ''tt''))
               \<lparr>m_contacts := [\<lparr>ct_Asterisk = False, ct_address = Inr s_from\<rparr>], m_record_routes := [Inr r]\<rparr>
    in snd (build_ack s_cfg ''rb'' rs s_ctx (s_request ''ACK'' 1 ''b1'' [])) = Some (Some (url_GetAddr s_cfg (adr_url r))))"
proof -
  let ?r = "NewSipAddress [] (NewSipURL [] (NewMyAddress ''192.0.2.20'') None True)"
  let ?rs = "(s_response 200 (s_request ''INVITE'' 1 ''b1'' ''tt''))
               \<lparr>m_contacts := [\<lparr>ct_Asterisk = False, ct_address = Inr s_from\<rparr>], m_record_routes := [Inr ?r]\<rparr>"
  have "\<exists>a. build_ack s_cfg ''rb'' ?rs s_ctx (s_request ''ACK'' 1 ''b1'' []) = (a, Some (Some (url_GetAddr s_cfg (adr_url ?r))))"
    using ack_2xx_follows_route_set [of ?rs "s_to ''tt''" "\<lparr>ct_Asterisk = False, ct_address = Inr s_from\<rparr>" "[]" s_from
        "s_request ''ACK'' 1 ''b1'' []" "s_to []" "s_via ''b1''" "[]" s_ctx ?r "[]" s_cfg "''rb''"]
    by (auto simp: s_ctx_def response_route_set_def)
  then show ?thesis by (auto simp: Let_def)
qed

theorem repeated_reliable_provisional_absorbed_witness:
  "IncomingResponse s_cfg (\<lambda>r x t. (x, t)) ''r'' ((s_response 180 s_invite)\<lparr>m_rseq := Some (newSipNumericHF 1)\<rparr>) ''cs1''
     (s_ctx\<lparr>ct_seen_rseqs := [s_rtid]\<rparr>) s_tm
   = Some (s_ctx\<lparr>ct_seen_rseqs := [s_rtid]\<rparr>, rcache_put ''cs1'' (empty_entry []) s_tm)"
proof -
  let ?rs = "(s_response 180 s_invite)\<lparr>m_rseq := Some (newSipNumericHF 1)\<rparr>"
  have "m_call_id (s_response 180 s_invite) = Some ''c1''" "m_from (s_response 180 s_invite) = Some (Inr s_from)"
    using GenResponse_Inr [OF s_GenResponse [of 180 "''INVITE''" 1 "''b1''" "[]"]] by simp_all
  then have "response_GetRTId ?rs = (?rs, Inr s_rtid)"
    by (simp add: response_GetRTId_def numeric_GetBody_def newSipNumericHF_def s_rtid_def)
  from repeated_reliable_provisional_absorbed [OF _ _ _ _ this] show ?thesis by (simp add: s_ctx_def)
qed

theorem accepted_rseqs_consecutive_witness:
  "\<exists>n. accepted_rseqs [newSipNumericHF 4, newSipNumericHF 5, newSipNumericHF 5, newSipNumericHF 6] s_ctx = [4 .. 4 + int n]"
  using accepted_rseqs_consecutive [of s_ctx "newSipNumericHF 4"
      "[newSipNumericHF 5, newSipNumericHF 5, newSipNumericHF 6]"]
  by (simp add: s_ctx_def newSipNumericHF_def)

theorem timeout_reported_once_witness:
  "tm_upcalls (snd (timerB (\<lambda>r x t. (x, t)) (s_time 9) s_ctx s_tm))
   = [U_response 1 (Some ((s_response 408 s_invite)\<lparr>m_rtime := Some (s_time 9)\<rparr>)) 3]"
  using timeout_reported_once [of s_ctx "s_key ''INVITE'' [] ''z9hG4bKb1''" 1 "s_response 408 s_invite" "\<lambda>r x t. (x, t)"
      "s_time 9" s_tm, OF _ _ _ _ _ prod.collapse [symmetric] prod.collapse [symmetric]]
  by (simp add: s_ctx_def)

theorem delayed_ack_keeps_transaction_witness:
  "(case IncomingResponse s_cfg (\<lambda>r x t. (SetUAck True x, t)) ''r''
          ((s_response 200 (s_request ''INVITE'' 1 ''b1'' ''tt''))\<lparr>m_contacts := [\<lparr>ct_Asterisk = False, ct_address = Inr s_from\<rparr>]\<rparr>)
          ''cs'' s_ctx (tclient_put (s_key ''INVITE'' [] ''z9hG4bKb1'') 3 s_tm) of
      None \<Rightarrow> False
    | Some (x, tm) \<Rightarrow> tx_state x = UACK \<and> tm_sent tm = [] \<and> length (tm_sent (snd (SendACK x tm))) = 1)"
proof -
  let ?rs = "(s_response 200 (s_request ''INVITE'' 1 ''b1'' ''tt''))\<lparr>m_contacts := [\<lparr>ct_Asterisk = False, ct_address = Inr s_from\<rparr>]\<rparr>"
  let ?rcv = "\<lambda>(r :: sip_response option) x (t :: sip_tm). (SetUAck True x, t)"
  let ?tm = "tclient_put (s_key ''INVITE'' [] ''z9hG4bKb1'') 3 s_tm"
  let ?x1 = "SetUAck True (cancelTeB (cancelTeA s_ctx))"
  let ?tm1 = "upcall (U_response 1 (Some ?rs) 3) ?tm"
  have n: "notify_receiver ?rcv (Some ?rs) (cancelTeB (if tx_state s_ctx = TRYING then cancelTeA s_ctx else s_ctx)) ?tm = (?x1, ?tm1)"
    by (simp add: notify_receiver_def s_ctx_def cancelTeB_def cancelTeA_def)
  obtain a where a: "build_ack s_cfg ''r'' ?rs ?x1 (s_request ''ACK'' 1 ''b1'' []) = (a, Some (Some (url_GetAddr s_cfg (adr_url s_from))))"
    by (simp add: build_ack_def ack_to_tag_def ack_for_2xx_def response_target_def ack_route_def response_route_set_def
        s_ctx_def SetUAck_def cancelTeB_def cancelTeA_def set_To_def appendHeaders_def Let_def)
  obtain x2 tm2 where 2: "IncomingResponse s_cfg ?rcv ''r'' ?rs ''cs'' s_ctx ?tm = Some (x2, tm2)"
    by (simp add: IncomingResponse_def response_in_states_def s_ctx_def Let_def) (metis surj_pair)
  have fields: "tx_needack ?x1" "ct_uack ?x1" "tx_alive ?x1" "tx_tid ?x1 = Some (s_key ''INVITE'' [] ''z9hG4bKb1'')"
    "tx_userv ?x1 = Some s_uv" "ct_ack ?x1 = Some (s_request ''ACK'' 1 ''b1'' [])" "tx_ref ?x1 = 3"
    by (simp_all add: s_ctx_def SetUAck_def cancelTeB_def cancelTeA_def)
  have tab: "tm_tclient ?tm1 (s_key ''INVITE'' [] ''z9hG4bKb1'') = Some (tx_ref ?x1)" "tm_sent ?tm1 = []"
    unfolding fields(7) by (simp_all add: upcall_def tclient_put_def)
  have ctx: "tx_alive s_ctx" "tx_state s_ctx \<noteq> TERMINATED" "200 \<le> rs_scode ?rs" by (simp_all add: s_ctx_def)
  from delayed_ack_keeps_transaction [OF ctx n fields(1-6) tab(1) a 2 prod.collapse [symmetric], of "[]"] tab(2) 2
  show ?thesis by simp
qed

section \<open>Manager and address cache\<close>

theorem remote_host_keeps_transport_witness:
  "snd (getServer s_cfg (\<lambda>a. None) (\<lambda>a. None) s_peer False
     (rotateCache (fst (getServer s_cfg (\<lambda>a. Some ''192.0.2.1'') (\<lambda>a. Some s_uv) s_peer False
        \<lparr>l4_cache_r2l = Map.empty, l4_cache_r2l_old = Map.empty, l4_cache_l2s = [], l4_fixed = False\<rparr>)))) = Some s_uv"
proof -
  let ?l = "\<lparr>l4_cache_r2l = Map.empty, l4_cache_r2l_old = Map.empty, l4_cache_l2s = [], l4_fixed = False\<rparr>"
  obtain l1 where l1: "getServer s_cfg (\<lambda>a. Some ''192.0.2.1'') (\<lambda>a. Some s_uv) s_peer False ?l = (l1, Some s_uv)"
    by (simp add: getServer_def l4_look_def server_at_def l4_put_def Let_def)
  from remote_host_keeps_transport [where rotated = True, OF _ l1 refl prod.collapse [symmetric]] l1 show ?thesis by simp
qed

definition s_env :: tm_env where
  "s_env = \<lparr>te_cfg = s_cfg, te_now = s_time 9, te_newtag = ''tt'', te_rnd = ''rb'', te_md5 = take 4,
     te_parse_request = (\<lambda>d. Inr None), te_parse_response = (\<lambda>d. None), te_getServer = (\<lambda>a. None),
     te_is_yours = (\<lambda>u rq. False), te_recv_request = (\<lambda>u rq x tm. (x, tm, None)), te_new_dialog = (\<lambda>rq. Inr None),
     te_prack = (\<lambda>rq rs x t. (x, t)), te_recv_response = (\<lambda>r x t. (x, t))\<rparr>"

theorem identical_datagram_answered_from_cache_witness:
  "(let tm = rCachePurge (transmitData s_uv (P_bytes ''x'') s_peer (replicate 4 CHR ''a'') ''c1'' 0 s_tm)
    in map_option (\<lambda>t. length (tm_sent t)) (handleIncoming s_env (replicate 40 CHR ''a'') s_peer s_uv tm) = Some 2)"
proof -
  have l: "32 \<le> length (replicate 40 CHR ''a'')" by simp
  have md5: "te_md5 s_env (replicate 40 CHR ''a'') = replicate 4 CHR ''a''" by (simp add: s_env_def)
  have ne: "replicate 4 CHR ''a'' \<noteq> []" by simp
  show ?thesis
    using identical_datagram_answered_from_cache [where addr = s_peer and server = s_uv and uv = s_uv and d = "P_bytes ''x''"
        and a = s_peer and cid = "''c1''" and ?tm0.0 = s_tm and purged = True, OF l md5 ne refl refl]
    by (simp add: Let_def rCachePurge_def transmitData_def rcache_put_def)
qed

theorem single_final_response_witness:
  "\<exists>rs' ys. tm_sent (snd (run_ops [timerA, respond_again s_env (s_response 486 s_invite) None 0]
        (SendResponse s_cfg ''tt'' (s_response 200 s_invite) False None s_stx s_tm)))
      = tm_sent s_tm @ [\<lparr>sn_userv = s_uv, sn_data = P_resp rs' (uv_laddress s_uv), sn_address = GetTAddr s_cfg (s_via ''b1'')\<rparr>] @ ys
    \<and> list_all (\<lambda>y. y = \<lparr>sn_userv = s_uv, sn_data = P_resp rs' (uv_laddress s_uv), sn_address = GetTAddr s_cfg (s_via ''b1'')\<rparr>
        \<or> answers_other y) ys"
proof -
  let ?k = "s_key [] [] ''z9hG4bKb1''" and ?fs = "[timerA, respond_again s_env (s_response 486 s_invite) None 0]"
  obtain x1 tm1 where send: "SendResponse s_cfg ''tt'' (s_response 200 s_invite) False None s_stx s_tm = (x1, tm1)" by fastforce
  obtain x2 tm2 where run: "run_ops ?fs (x1, tm1) = (x2, tm2)" by fastforce
  have stx: "tx_alive s_stx" "tx_needack s_stx" "tx_userv s_stx = Some s_uv" "tx_tid s_stx = Some ?k" "tid_Branch ?k \<noteq> []"
    by (simp_all add: s_stx_def s_key_def NewTID_def)
  have "GetTId False True False (s_response 486 s_invite) = Inr ?k" by simp
  then have "respond_again s_env (s_response 486 s_invite) None 0 \<in> later_ops ?k" unfolding later_ops_def by blast
  then have ops: "set ?fs \<subseteq> later_ops ?k" by (simp add: later_ops_def)
  from single_final_response [OF stx, of "s_response 200 s_invite" "s_to []" "s_via ''b1''" "[]" s_cfg "''tt''" False None s_tm x1 tm1 ?fs x2 tm2]
    send ops run
  show ?thesis by auto
qed

theorem loop_detection_never_matches_witness:
  "(case CreateClientTransaction s_cfg (Some s_uv) None [] s_invite s_tm of
      None \<Rightarrow> False | Some (tm, res) \<Rightarrow> find (\<lambda>k. tm_tclient tm k \<noteq> None) (projr (getTIds s_invite)) = None)"
proof -
  obtain tm res where c: "CreateClientTransaction s_cfg (Some s_uv) None [] s_invite s_tm = Some (tm, res)"
    by (cases "NewClientTransactionObj 8 s_cfg s_invite (s_key ''INVITE'' [] ''z9hG4bKb1'') s_uv None []")
      (simp_all add: CreateClientTransaction_def)
  have k: "keys_without_to_tag s_tm" by (simp add: keys_without_to_tag_def)
  obtain tids where t: "getTIds s_invite = Inr tids" by (simp add: getTIds_def)
  from loop_detection_never_matches [OF k t _ c] c t show ?thesis by simp
qed

theorem late_prack_leaves_table_locked_witness:
  "(let rq = (s_request ''PRACK'' 2 ''b3'' ''tt'')\<lparr>m_rack := Some (Inr \<lparr>RAck_CSeq = 1, RAck_RSeq = 1, RAck_Method = ''INVITE''\<rparr>)\<rparr>
    in case tm_incomingRequest s_env rq ''cs3'' [] s_uv (snd (timerD s_ringing s_tm)) of
         None \<Rightarrow> False
       | Some tm \<Rightarrow> tm_incomingRequest s_env s_invite ''cs4'' [] s_uv tm = None)"
proof -
  let ?rq = "(s_request ''PRACK'' 2 ''b3'' ''tt'')\<lparr>m_rack := Some (Inr \<lparr>RAck_CSeq = 1, RAck_RSeq = 1, RAck_Method = ''INVITE''\<rparr>)\<rparr>"
  let ?tm1 = "snd (timerD s_ringing s_tm)"
  let ?p = "\<lparr>pif_rtid = s_rtid, pif_timeout = half_second, pif_lossemul = 0\<rparr>"
  have rk: "request_GetRTId ?rq = Inr (pif_rtid ?p)" by (simp add: request_GetRTId_def s_rtid_def)
  have tm1: "?tm1 = tserver_del (s_key [] [] ''z9hG4bKb1'') (upcall (U_noack 1) s_tm)"
    by (simp add: timerD_def s_ringing_def s_stx_def upcall_opt_def)
  have "tm_rtid2tid ?tm1 s_rtid = Some (s_key [] [] ''z9hG4bKb1'')" "\<not> tm_tclient_lock ?tm1" "\<not> tm_tserver_lock ?tm1"
    "tm_tserver ?tm1 (s_key [] [] ''z9hG4bKb1'') = None"
    unfolding tm1 by (simp_all add: tserver_del_def upcall_def)
  then obtain tm2 where 2: "tm_incomingRequest s_env ?rq ''cs3'' [] s_uv ?tm1 = Some tm2"
    using rk by (simp add: tm_incomingRequest_def request_key_def)
  have key: "request_key s_invite tm2 \<noteq> None" by (simp add: request_key_def)
  have x: "tx_alive s_ringing" "tx_tid s_ringing = Some (s_key [] [] ''z9hG4bKb1'')" "st_prov_inflight s_ringing = Some ?p"
    by (simp_all add: s_ringing_def s_stx_def)
  from late_prack_leaves_table_locked [OF x _ prod.collapse [symmetric] _ rk 2 _ key, of "[]"] 2 show ?thesis by simp
qed

theorem consumers_register_unregister_witness:
  "consumers (UnregConsumer 1 ''c1'' (RegConsumer 2 ''c1'' (RegConsumer 1 ''c1'' s_tm))) ''c1'' = [2]"
proof -
  have c: "consumers (RegConsumer 2 ''c1'' (RegConsumer 1 ''c1'' s_tm)) ''c1'' = [1, 2]"
    by (simp add: RegConsumer_def consumers_def)
  from consumers_register_unregister [of 1 "RegConsumer 2 ''c1'' (RegConsumer 1 ''c1'' s_tm)" "''c1''" 0]
  show ?thesis unfolding c by simp
qed

end
