(* ===== verification/Ua_Witnesses.thy ===== *)
theory Ua_Witnesses
  imports Sippy_Samples
begin

text \<open>Instances of the properties of the user agent on the sample call.\<close>

definition s_uaenv :: "int \<Rightarrow> ua_env" where
  "s_uaenv n = \<lparr>e_now = s_time n, e_branch = (\<lambda>i. ''b''), e_cseq_draw = Some 0, e_callid = ''c1'', e_create = Inr 3,
     e_sdp_err = None, e_auth = (\<lambda>ch m. Some (H_Authorization (Inl ''x''))), e_supported = (\<lambda>a. True)\<rparr>"

definition s_ua :: ua where
  "s_ua = NewUA 1 s_cfg (Some s_peer) True ''lt'' 1"

definition s_generic :: "int \<Rightarrow> int \<Rightarrow> cc_generic" where
  "s_generic n t = newCCEventGeneric n (s_time t) None ''switch'' []"

definition s_try :: cc_event where
  "s_try = CCEventTry (s_generic 1 10) \<lparr>try_call_id = Some ''c1'', try_cli = ''alice'', try_cld = ''bob'',
     try_caller_name = [], try_auth_hdr = None, try_body = Some ((NewMsgBody ''sdp'' ''application/sdp'')\<lparr>mb_needs_update := False\<rparr>), try_routes = []\<rparr>"

definition s_200 :: sip_response where
  "s_200 = (s_response 200 (s_request ''INVITE'' 1 ''b1'' ''tt''))\<lparr>m_rtime := Some (s_time 20)\<rparr>"

text \<open>A call that is set up, answered at 20 and ended at 30.\<close>

definition s_ua1 :: ua where "s_ua1 = ua_step (s_uaenv 10) (I_event s_try) s_ua"
definition s_ua2 :: ua where "s_ua2 = ua_step (s_uaenv 20) (I_response s_200 s_ctx) s_ua1"
definition s_ua3 :: ua where
  "s_ua3 = ua_step (s_uaenv 30) (I_event (CCEventDisconnect (s_generic 7 30) None)) s_ua2"

lemma s_trans: "ua_trans s_ua s_ua1" "ua_trans s_ua1 s_ua2" "ua_trans s_ua2 s_ua3"
  unfolding s_ua1_def s_ua2_def s_ua3_def by (rule ua_trans)+

lemma s_reachable: "reachable s_ua3"
proof -
  have "new_ua s_ua" by (simp add: s_ua_def NewUA_new)
  then have "reachable s_ua" by (rule reach_init)
  then have "reachable s_ua1" using s_trans(1) by (rule reach_step)
  then have "reachable s_ua2" using s_trans(2) by (rule reach_step)
  then show ?thesis using s_trans(3) by (rule reach_step)
qed

theorem billed_duration_nonneg_witness:
  "(case GetAcct (s_uaenv 50) None s_ua3 of Some (duration, delay, True, True) \<Rightarrow> 0 \<le> duration | _ \<Rightarrow> False)"
proof -
  have acct: "GetAcct (s_uaenv 50) None s_ua3 = Some (10, 10, True, True)" by code_simp
  from billed_duration_nonneg [OF s_reachable acct] show ?thesis by (simp add: acct)
qed

theorem events_delivered_in_order_witness:
  "delivered s_ua3 \<noteq> [] \<and> sorted_wrt (<) (delivered s_ua3)"
proof -
  have "delivered s_ua3 = [1]" by code_simp
  with events_delivered_in_order [OF s_reachable] show ?thesis by simp
qed

theorem requests_sent_with_increasing_cseq_witness:
  "\<exists>xs. u_out s_ua3 = u_out s_ua1 @ xs \<and> sorted_wrt (<) (sent_cseqs xs)"
proof -
  have "1 < phase (u_state s_ua1)" by code_simp
  moreover have "ua_trans\<^sup>*\<^sup>* s_ua1 s_ua3" using s_trans by (meson rtranclp.simps)
  ultimately show ?thesis using requests_sent_with_increasing_cseq by blast
qed

theorem dead_call_is_silent_witness:
  "\<exists>ys. u_out (ua_run [(s_uaenv 40, I_event s_try), (s_uaenv 41, I_go_dead)] (goDead s_ua3)) = u_out (goDead s_ua3) @ ys
     \<and> list_all (\<lambda>y. y = O_cleanup) ys"
proof -
  have "u_sip_tm s_ua3" by code_simp
  from dead_call_is_silent [OF this, of "[(s_uaenv 40, I_event s_try), (s_uaenv 41, I_go_dead)]"] show ?thesis
    by (auto simp del: ua_run.simps ua_step.simps)
qed

section \<open>Single operations\<close>

theorem replayed_request_rejected_witness:
  "u_rCSeq (fst (ua_RecvRequest (s_uaenv 40) (s_request ''INFO'' 1 ''b9'' ''tt'') s_stx (s_ua\<lparr>u_rCSeq := 5\<rparr>))) = 5"
  using replayed_request_rejected [of "s_request ''INFO'' 1 ''b9'' ''tt''" "\<lparr>CSeq_num = 1, CSeq_Method = ''INFO''\<rparr>"
      "s_ua\<lparr>u_rCSeq := 5\<rparr>" "s_uaenv 40" s_stx] by simp

theorem credit_timer_is_earliest_witness:
  "(case u_credit_timer (StartCreditTimer (s_uaenv 20) (s_time 20)
           (s_ua\<lparr>u_credit_time := Some 60, u_credit_times := [(1, s_time 50)]\<rparr>)) of
      None \<Rightarrow> False | Some (d, t) \<Rightarrow> d = 30)"
  using credit_timer_is_earliest [of "s_ua\<lparr>u_credit_time := Some 60, u_credit_times := [(1, s_time 50)]\<rparr>" "s_uaenv 20" "s_time 20"]
  by (auto simp: StartCreditTimer_def credit_put_def s_uaenv_def s_time_def mt_defs split: option.splits)

theorem outgoing_call_arms_shortest_limit_witness:
  "(let v = start_first_timer (s_uaenv 10) (s_time 10) (set_deadlines (s_time 10) (s_ua\<lparr>u_expire_time := 60, u_no_progress_time := 20\<rparr>))
    in List.map_filter id [u_no_reply_timer v, u_no_progress_timer v, u_expire_timer v]) = [20]"
  using outgoing_call_arms_shortest_limit [of "s_ua\<lparr>u_expire_time := 60, u_no_progress_time := 20\<rparr>" "s_uaenv 10" "s_time 10"]
  by (simp add: s_ua_def NewUA_def setup_limits_def s_uaenv_def mt_defs s_time_def second_def)

theorem late_media_ack_sent_once_witness:
  "filter is_ack (u_out (fst (connected_connect (s_uaenv 20) None s_try (s_ua\<lparr>u_pending_tr := Some 3\<rparr>))))
   = [O_ack_body 3 None, O_send_ack 3]"
  using late_media_ack_sent_once [of "s_ua\<lparr>u_pending_tr := Some 3\<rparr>" 3 None "s_uaenv 20" s_try "s_uaenv 20" None s_try]
  by (simp add: local_sdp_pending_def s_ua_def NewUA_def Let_def)

theorem cancelled_call_answered_is_released_witness:
  "u_state (ua_RecvResponse (s_uaenv 20) s_200 s_ctx (s_ua1\<lparr>u_state := Some (UacStateCancelling None)\<rparr>))
   = Some UaStateDisconnected"
proof -
  have "(case u_rUri s_ua1 of Some (Inr r) \<Rightarrow> True | _ \<Rightarrow> False)" "u_rTarget s_ua1 \<noteq> None" "u_rAddr s_ua1 \<noteq> None" "u_sip_tm s_ua1"
    by code_simp+
  then obtain r where u: "u_rUri s_ua1 = Some (Inr r)" "u_rTarget s_ua1 \<noteq> None" "u_rAddr s_ua1 \<noteq> None" "u_sip_tm s_ua1"
    by (auto split: option.splits sum.splits)
  from cancelled_call_answered_is_released [of "s_ua1\<lparr>u_state := Some (UacStateCancelling None)\<rparr>" None r s_200
      "\<lparr>CSeq_num = 1, CSeq_Method = ''INVITE''\<rparr>" "s_to ''tt''" "s_uaenv 20" s_ctx] u
  show ?thesis by (simp add: s_200_def Let_def)
qed

definition s_challenge :: challenge_body where
  "s_challenge = \<lparr>ch_realm = Some (NewMyAddress ''r''), ch_nonce = ''n'', ch_algorithm = ''MD5'', ch_qop = [], ch_otherparams = [], ch_opaque = []\<rparr>"

theorem challenge_answered_once_witness:
  "snd (try_challenge (s_uaenv 40) ((s_response 401 s_invite)\<lparr>m_sip_www_authenticates := []\<rparr>) \<lparr>CSeq_num = 2, CSeq_Method = ''INVITE''\<rparr> []
     (fst (processChallenge (s_uaenv 30) [Inr s_challenge] 1 [] s_ua1))) = False"
proof -
  have p: "snd (processChallenge (s_uaenv 30) [Inr s_challenge] 1 [] s_ua1) = True"
    "u_lCSeq s_ua1 = 2" "u_extra_headers s_ua1 = []" "u_dlg_headers s_ua1 = []" by code_simp+
  then have "processChallenge (s_uaenv 30) [Inr s_challenge] 1 [] s_ua1
      = (fst (processChallenge (s_uaenv 30) [Inr s_challenge] 1 [] s_ua1), True)"
    by (metis prod.collapse)
  from challenge_answered_once [OF this, of "(s_response 401 s_invite)\<lparr>m_sip_www_authenticates := []\<rparr>"
      "\<lparr>CSeq_num = 2, CSeq_Method = ''INVITE''\<rparr>" "s_uaenv 40" "[]"] p
  show ?thesis by (simp add: s_uaenv_def)
qed

theorem late_media_connect_reported_twice_witness:
  "length (filter is_conn (u_out (ua_RecvACK (s_uaenv 20) (s_request ''ACK'' 1 ''b2'' ''tt'')
     (s_ua\<lparr>u_state := Some (UasStatePreConnect None True), u_conn_cb := True\<rparr>)))) = 2"
  using late_media_connect_reported_twice [of "s_ua\<lparr>u_state := Some (UasStatePreConnect None True), u_conn_cb := True\<rparr>"
      "s_uaenv 20" "s_request ''ACK'' 1 ''b2'' ''tt''"]
  by (simp add: s_ua_def NewUA_def)

theorem cancelled_call_disconnects_twice_witness:
  "length (filter is_event (u_out (expires (s_uaenv 60) (RecvCancel (s_uaenv 50) UasStateRinging (s_time 50) None
     (s_ua\<lparr>u_state := Some UasStateRinging, u_expire_timer := Some 10\<rparr>))))) = 2"
  using cancelled_call_disconnects_twice [of "s_ua\<lparr>u_state := Some UasStateRinging, u_expire_timer := Some 10\<rparr>" "s_uaenv 50"
      "s_time 50" None "s_uaenv 60"]
  by (auto simp: s_ua_def NewUA_def Let_def)

end
