(* ===== verification/Nonce_Oracle.thy ===== *)
theory Nonce_Oracle
  imports Sippy_Text "HOL-Library.Word"
begin

text \<open>
  The nonces of digest challenges: the algorithms (\<^verbatim>\<open>security/algorithm.go\<close>), the oracle that
  encrypts the time a nonce was made together with the algorithm it was made for
  (\<^verbatim>\<open>security/hash_oracle.go\<close>), and the base64 variant that carries them
  (\<^verbatim>\<open>utils/base64.go\<close>). A byte is a character; \<open>aes\<close>, the block cipher under the process's random key,
  is an argument, and so are the random initialisation vectors.
\<close>

unbundle bit_operations_syntax

section \<open>Bytes as text\<close>

text \<open>\<open>encoding/hex\<close>: two lower-case digits a byte; reading takes both cases.\<close>

definition hex_lower :: string where
  "hex_lower = ''0123456789abcdef''"

definition hex_Encode :: "string \<Rightarrow> string" where
  "hex_Encode s = concat (map (\<lambda>c. [hex_lower ! (of_char c div 16), hex_lower ! (of_char c mod 16)]) s)"

definition hex_value :: "char \<Rightarrow> nat option" where
  "hex_value c = (let n = of_char c in
     if 48 \<le> n \<and> n \<le> 57 then Some (n - 48)
     else if 97 \<le> n \<and> n \<le> 102 then Some (n - 87)
     else if 65 \<le> n \<and> n \<le> 70 then Some (n - 55)
     else None)"

fun hex_Decode :: "string \<Rightarrow> string result" where
  "hex_Decode [] = Inr []"
| "hex_Decode [a] = Inl ''encoding/hex: odd length hex string''"
| "hex_Decode (a # b # s) =
     (case (hex_value a, hex_value b) of
        (Some x, Some y) \<Rightarrow> bind_result (hex_Decode s) (\<lambda>r. Inr (char_of (16 * x + y) # r))
      | _ \<Rightarrow> Inl ''encoding/hex: invalid byte'')"

text \<open>\<open>binary.BigEndian\<close>: the \<open>k\<close> low bytes of a number.\<close>

fun be_bytes :: "nat \<Rightarrow> nat \<Rightarrow> string" where
  "be_bytes 0 n = []"
| "be_bytes (Suc k) n = be_bytes k (n div 256) @ [char_of n]"

definition be_value :: "string \<Rightarrow> nat" where
  "be_value s = foldl (\<lambda>a c. 256 * a + of_char c) 0 s"

text \<open>
  \<open>base64.URLEncoding\<close> with padding, four characters for three bytes. Reading skips line breaks.
\<close>

definition b64_alphabet :: string where
  "b64_alphabet = ''ABCDEFGHIJKLMNOPQRSTUVWXYZabcdefghijklmnopqrstuvwxyz0123456789-_''"

definition b64_char :: "nat \<Rightarrow> char" where
  "b64_char n = b64_alphabet ! n"

definition b64_value :: "char \<Rightarrow> nat option" where
  "b64_value c = map_of (zip b64_alphabet [0..<64]) c"

fun b64_encode :: "string \<Rightarrow> string" where
  "b64_encode [] = []"
| "b64_encode [a] = (let x = of_char a in [b64_char (x div 4), b64_char (x mod 4 * 16), CHR ''='', CHR ''=''])"
| "b64_encode [a, b] = (let x = of_char a; y = of_char b in
     [b64_char (x div 4), b64_char (x mod 4 * 16 + y div 16), b64_char (y mod 16 * 4), CHR ''=''])"
| "b64_encode (a # b # c # s) = (let x = of_char a; y = of_char b; z = of_char c in
     b64_char (x div 4) # b64_char (x mod 4 * 16 + y div 16) # b64_char (y mod 16 * 4 + z div 64) # b64_char (z mod 64)
     # b64_encode s)"

definition b64_error :: string where
  "b64_error = ''illegal base64 data''"

text \<open>One group of four; padding ends the text.\<close>

fun b64_groups :: "string \<Rightarrow> string result" where
  "b64_groups [] = Inr []"
| "b64_groups (p # q # r # t # s) =
     (case (b64_value p, b64_value q, b64_value r, b64_value t) of
        (Some x, Some y, Some z, Some w) \<Rightarrow>
          bind_result (b64_groups s) (\<lambda>rest.
            Inr (char_of (x * 4 + y div 16) # char_of (y mod 16 * 16 + z div 4) # char_of (z mod 4 * 64 + w) # rest))
      | (Some x, Some y, Some z, None) \<Rightarrow>
          if t = CHR ''='' \<and> s = [] then Inr [char_of (x * 4 + y div 16), char_of (y mod 16 * 16 + z div 4)]
          else Inl b64_error
      | (Some x, Some y, None, None) \<Rightarrow>
          if r = CHR ''='' \<and> t = CHR ''='' \<and> s = [] then Inr [char_of (x * 4 + y div 16)] else Inl b64_error
      | _ \<Rightarrow> Inl b64_error)"
| "b64_groups _ = Inl b64_error"

definition b64_decode :: "string \<Rightarrow> string result" where
  "b64_decode s = b64_groups (filter (\<lambda>c. c \<noteq> CHR 0x0A \<and> c \<noteq> CHR 0x0D) s)"

definition B64EncodeNoPad :: "string \<Rightarrow> string" where
  "B64EncodeNoPad input = rev (dropWhile (\<lambda>c. c = CHR ''='') (rev (b64_encode input)))"

definition B64DecodeNoPad :: "string \<Rightarrow> string result" where
  "B64DecodeNoPad s =
     (let l = length s mod 4 in b64_decode (if 0 < l then s @ replicate (4 - l) (CHR ''='') else s))"

section \<open>Algorithms\<close>

datatype digest = Md5 | Sha256 | Sha512_256

record algorithm =
  alg_NewHash :: digest
  alg_Mask :: "64 word"

definition NUM_OF_DGSTS :: nat where
  "NUM_OF_DGSTS = 6"

definition algorithms :: "(string \<times> algorithm) list" where
  "algorithms =
    [('''', \<lparr>alg_NewHash = Md5, alg_Mask = 1\<rparr>),
     (''md5'', \<lparr>alg_NewHash = Md5, alg_Mask = 1\<rparr>),
     (''md5-sess'', \<lparr>alg_NewHash = Md5, alg_Mask = push_bit 1 1\<rparr>),
     (''sha-256'', \<lparr>alg_NewHash = Sha256, alg_Mask = push_bit 2 1\<rparr>),
     (''sha-256-sess'', \<lparr>alg_NewHash = Sha256, alg_Mask = push_bit 3 1\<rparr>),
     (''sha-512-256'', \<lparr>alg_NewHash = Sha512_256, alg_Mask = push_bit 4 1\<rparr>),
     (''sha-512-256-sess'', \<lparr>alg_NewHash = Sha512_256, alg_Mask = push_bit 5 1\<rparr>)]"

definition GetAlgorithm :: "string \<Rightarrow> algorithm option" where
  "GetAlgorithm name = map_of algorithms (ToLower name)"

section \<open>The oracle\<close>

definition BlockSize :: nat where
  "BlockSize = 16"

definition VTIME :: "64 word" where
  "VTIME = 32"

definition xor_char :: "char \<Rightarrow> char \<Rightarrow> char" where
  "xor_char a b = char_of ((of_char a :: nat) XOR of_char b)"

text \<open>
  Output feedback on at most one block: the text combined with the encrypted initialisation vector.
  \<open>XORKeyStream\<close> panics when the destination is shorter than the source.
\<close>

definition XORKeyStream :: "(string \<Rightarrow> string) \<Rightarrow> string \<Rightarrow> string \<Rightarrow> string" where
  "XORKeyStream aes iv src = map2 xor_char src (aes iv)"

definition Encrypt :: "(string \<Rightarrow> string) \<Rightarrow> string \<Rightarrow> 64 word \<Rightarrow> string" where
  "Encrypt aes iv ts64 =
     (let raw = hex_Encode (be_bytes 8 (unat ts64))
      in B64EncodeNoPad (iv @ XORKeyStream aes iv raw))"

definition slice_panic :: string where
  "slice_panic = ''runtime error: slice bounds out of range''"

definition output_panic :: string where
  "output_panic = ''crypto/cipher: output smaller than input''"

definition Decrypt :: "(string \<Rightarrow> string) \<Rightarrow> string \<Rightarrow> 64 word result" where
  "Decrypt aes enc =
     bind_result (B64DecodeNoPad enc) (\<lambda>raw.
       if length raw < BlockSize then Inl slice_panic
       else if 16 < length raw - BlockSize then Inl output_panic
       else (let iv = take BlockSize raw;
                 src = drop BlockSize raw;
                 decrypted = XORKeyStream aes iv src @ replicate (16 - length src) (char_of (0::nat))
             in bind_result (hex_Decode decrypted) (\<lambda>buf. Inr (of_nat (be_value buf)))))"

definition EmitChallenge :: "(string \<Rightarrow> string) \<Rightarrow> string \<Rightarrow> 64 word \<Rightarrow> 64 word \<Rightarrow> string" where
  "EmitChallenge aes iv cmask now = Encrypt aes iv (push_bit NUM_OF_DGSTS now OR cmask)"

text \<open>A panic is not caught; every other error of decryption makes the nonce invalid.\<close>

definition ValidateChallenge :: "(string \<Rightarrow> string) \<Rightarrow> string \<Rightarrow> 64 word \<Rightarrow> 64 word \<Rightarrow> bool result" where
  "ValidateChallenge aes cryptic cmask new_ts =
     (case Decrypt aes cryptic of
        Inl e \<Rightarrow> if e = slice_panic \<or> e = output_panic then Inl e else Inr False
      | Inr decryptic \<Rightarrow>
          if cmask AND decryptic = 0 then Inr False
          else (let orig_ts = signed_drop_bit NUM_OF_DGSTS decryptic;
                    tsdiff = new_ts - orig_ts
                in Inr (\<not> (sint tsdiff < 0 \<or> sint VTIME < sint tsdiff))))"

section \<open>Round trips\<close>

lemma hex_value_lower: "n < 16 \<Longrightarrow> hex_value (hex_lower ! n) = Some n"
proof -
  have "\<forall>n \<in> set [0..<16]. hex_value (hex_lower ! n) = Some n" by code_simp
  then show "n < 16 \<Longrightarrow> hex_value (hex_lower ! n) = Some n" by simp
qed

lemma hex_Decode_Encode: "hex_Decode (hex_Encode s) = Inr s"
proof (induction s)
  case (Cons c s)
  have "(of_char c :: nat) < 256" by simp
  then have "(of_char c :: nat) div 16 < 16" by (simp add: less_mult_imp_div_less)
  then show ?case using Cons by (simp add: hex_Encode_def hex_value_lower)
qed (simp add: hex_Encode_def)

lemma length_hex_Encode: "length (hex_Encode s) = 2 * length s"
  by (induction s) (simp_all add: hex_Encode_def)

lemma length_be_bytes [simp]: "length (be_bytes k n) = k"
  by (induction k arbitrary: n) simp_all

lemma be_value_bytes: "be_value (be_bytes k n) = n mod 256 ^ k"
proof (induction k arbitrary: n)
  case (Suc k)
  have "be_value (be_bytes (Suc k) n) = 256 * (n div 256 mod 256 ^ k) + n mod 256"
    using Suc by (simp add: be_value_def)
  then show ?case by (simp add: mod_mult2_eq)
qed (simp add: be_value_def)

lemma b64_value_char: "n < 64 \<Longrightarrow> b64_value (b64_char n) = Some n"
proof -
  have "\<forall>n \<in> set [0..<64]. b64_value (b64_char n) = Some n" by code_simp
  then show "n < 64 \<Longrightarrow> b64_value (b64_char n) = Some n" by simp
qed

lemma b64_char_plain: "n < 64 \<Longrightarrow> b64_char n \<noteq> CHR ''='' \<and> b64_char n \<noteq> CHR 0x0A \<and> b64_char n \<noteq> CHR 0x0D
    \<and> b64_char n \<noteq> CHR 0x22 \<and> b64_char n \<noteq> CHR '',''"
proof -
  have "\<forall>n \<in> set [0..<64]. b64_char n \<noteq> CHR ''='' \<and> b64_char n \<noteq> CHR 0x0A \<and> b64_char n \<noteq> CHR 0x0D
    \<and> b64_char n \<noteq> CHR 0x22 \<and> b64_char n \<noteq> CHR '',''" by code_simp
  then show "n < 64 \<Longrightarrow> b64_char n \<noteq> CHR ''='' \<and> b64_char n \<noteq> CHR 0x0A \<and> b64_char n \<noteq> CHR 0x0D
    \<and> b64_char n \<noteq> CHR 0x22 \<and> b64_char n \<noteq> CHR '',''" by simp
qed

text \<open>The four numbers a group of bytes is cut into are within the alphabet and give the bytes back.\<close>

lemma six_bits:
  fixes x y z :: nat
  assumes "x < 256" "y < 256" "z < 256"
  shows "x div 4 < 64" "x mod 4 * 16 < 64" "x mod 4 * 16 + y div 16 < 64" "y mod 16 * 4 < 64"
    "y mod 16 * 4 + z div 64 < 64"
    "x div 4 * 4 + x mod 4 = x" "(x mod 4 * 16 + y div 16) div 16 = x mod 4" "(x mod 4 * 16 + y div 16) mod 16 = y div 16"
    "(y mod 16 * 4 + z div 64) div 4 = y mod 16" "(y mod 16 * 4 + z div 64) mod 4 = z div 64"
    "y div 16 * 16 + y mod 16 = y" "z div 64 * 64 + z mod 64 = z"
proof -
  have "y div 16 < 16" "z div 64 < 4" using assms by (simp_all add: less_mult_imp_div_less)
  moreover have "x mod 4 < 4" "y mod 16 < 16" by simp_all
  ultimately show "x div 4 < 64" "x mod 4 * 16 < 64" "x mod 4 * 16 + y div 16 < 64" "y mod 16 * 4 < 64"
    "y mod 16 * 4 + z div 64 < 64"
    "x div 4 * 4 + x mod 4 = x" "(x mod 4 * 16 + y div 16) div 16 = x mod 4" "(x mod 4 * 16 + y div 16) mod 16 = y div 16"
    "(y mod 16 * 4 + z div 64) div 4 = y mod 16" "(y mod 16 * 4 + z div 64) mod 4 = z div 64"
    "y div 16 * 16 + y mod 16 = y" "z div 64 * 64 + z mod 64 = z"
    using assms by (simp_all add: less_mult_imp_div_less)
qed

lemma byte_bounds: "(of_char c :: nat) < 256"
  by simp

lemma b64_pad_value: "b64_value (CHR ''='') = None"
  by code_simp

lemma b64_groups_full:
  "x < 64 \<Longrightarrow> y < 64 \<Longrightarrow> z < 64 \<Longrightarrow> w < 64 \<Longrightarrow>
   b64_groups (b64_char x # b64_char y # b64_char z # b64_char w # s) = bind_result (b64_groups s) (\<lambda>rest.
     Inr (char_of (x * 4 + y div 16) # char_of (y mod 16 * 16 + z div 4) # char_of (z mod 4 * 64 + w) # rest))"
  by (simp add: b64_value_char)

lemma b64_groups_end:
  "x < 64 \<Longrightarrow> y < 64 \<Longrightarrow> z < 64 \<Longrightarrow> b64_groups [b64_char x, b64_char y, b64_char z, CHR ''=''] =
     Inr [char_of (x * 4 + y div 16), char_of (y mod 16 * 16 + z div 4)]"
  "x < 64 \<Longrightarrow> y < 64 \<Longrightarrow> b64_groups [b64_char x, b64_char y, CHR ''='', CHR ''=''] = Inr [char_of (x * 4 + y div 16)]"
  by (simp_all add: b64_value_char b64_pad_value)

lemma b64_groups_encode: "b64_groups (b64_encode s) = Inr s"
proof (induction s rule: b64_encode.induct)
  case (2 a)
  note b = six_bits [OF byte_bounds [of a] byte_bounds [of a] byte_bounds [of a]]
  show ?case unfolding b64_encode.simps Let_def b64_groups_end(2) [OF b(1,2)] using b(6) by simp
next
  case (3 a b)
  note b = six_bits [OF byte_bounds [of a] byte_bounds [of b] byte_bounds [of b]]
  show ?case unfolding b64_encode.simps Let_def b64_groups_end(1) [OF b(1,3,4)]
    using b(6,7,8,11) by simp
next
  case (4 a b c s)
  note b = six_bits [OF byte_bounds [of a] byte_bounds [of b] byte_bounds [of c]]
  have "of_char c mod 64 < (64::nat)" by simp
  then show ?case using 4 unfolding b64_encode.simps Let_def b64_groups_full [OF b(1,3,5) \<open>of_char c mod 64 < 64\<close>]
    using b(6-12) by simp
qed simp

definition b64_plain :: "string \<Rightarrow> bool" where
  "b64_plain s \<longleftrightarrow> (\<forall>c \<in> set s. \<exists>n < 64. c = b64_char n)"

lemma b64_plain_free:
  assumes "b64_plain s" "c \<in> {CHR ''='', CHR 0x0A, CHR 0x0D, CHR 0x22, CHR '',''}"
  shows "c \<notin> set s"
proof
  assume "c \<in> set s"
  then obtain n where "n < 64" "c = b64_char n" using assms(1) by (auto simp: b64_plain_def)
  then show False using b64_char_plain [of n] assms(2) by auto
qed

lemma b64_plain_simps [simp]:
  "b64_plain []" "n < 64 \<Longrightarrow> b64_plain (b64_char n # s) \<longleftrightarrow> b64_plain s"
  by (auto simp: b64_plain_def)

lemma b64_encode_padded:
  "\<exists>core k. b64_encode s = core @ replicate k (CHR ''='') \<and> b64_plain core \<and> k \<le> 2 \<and> (length core + k) mod 4 = 0"
proof (induction s rule: b64_encode.induct)
  case 1
  then show ?case by (intro exI [of _ "[]"] exI [of _ 0]) simp
next
  case (2 a)
  note b = six_bits [OF byte_bounds [of a] byte_bounds [of a] byte_bounds [of a]]
  show ?case unfolding b64_encode.simps Let_def using b(1,2)
    by (intro exI [of _ "[b64_char (of_char a div 4), b64_char (of_char a mod 4 * 16)]"] exI [of _ 2])
       (simp add: numeral_2_eq_2)
next
  case (3 a b)
  note b = six_bits [OF byte_bounds [of a] byte_bounds [of b] byte_bounds [of b]]
  show ?case unfolding b64_encode.simps Let_def using b(1,3,4)
    by (intro exI [of _ "[b64_char (of_char a div 4), b64_char (of_char a mod 4 * 16 + of_char b div 16),
      b64_char (of_char b mod 16 * 4)]"] exI [of _ 1]) simp
next
  case (4 a b c s)
  note b = six_bits [OF byte_bounds [of a] byte_bounds [of b] byte_bounds [of c]]
  obtain core k where IH: "b64_encode s = core @ replicate k (CHR ''='')" "b64_plain core" "k \<le> 2"
    "(length core + k) mod 4 = 0" using 4 [OF refl refl refl] by (elim exE conjE)
  have "(Suc (Suc (Suc (Suc (length core)))) + k) mod 4 = 0" using IH(4) by presburger
  then show ?case unfolding b64_encode.simps Let_def using IH b(1,3,5)
    by (intro exI [of _ "b64_char (of_char a div 4) # b64_char (of_char a mod 4 * 16 + of_char b div 16)
      # b64_char (of_char b mod 16 * 4 + of_char c div 64) # b64_char (of_char c mod 64) # core"] exI [of _ k]) simp
qed

lemma B64_NoPad:
  obtains core k where "B64EncodeNoPad s = core" "b64_encode s = core @ replicate k (CHR ''='')" "b64_plain core"
    "k \<le> 2" "(length core + k) mod 4 = 0"
proof -
  obtain core k where c: "b64_encode s = core @ replicate k (CHR ''='')" "b64_plain core" "k \<le> 2" "(length core + k) mod 4 = 0"
    using b64_encode_padded [of s] by (elim exE conjE)
  have "CHR ''='' \<notin> set core" using b64_plain_free [OF c(2)] by simp
  then have "dropWhile (\<lambda>c. c = CHR ''='') (rev core) = rev core" by (cases core rule: rev_cases) auto
  moreover have "dropWhile (\<lambda>c. c = CHR ''='') (replicate k (CHR ''='') @ rev core) = dropWhile (\<lambda>c. c = CHR ''='') (rev core)"
    by (rule dropWhile_append2) simp
  ultimately have "B64EncodeNoPad s = core" using c(1) by (simp add: B64EncodeNoPad_def)
  from that [OF this c] show thesis .
qed

lemma b64_plain_B64EncodeNoPad: "b64_plain (B64EncodeNoPad s)"
  by (rule B64_NoPad [of s]) simp

lemma B64_roundtrip: "B64DecodeNoPad (B64EncodeNoPad s) = Inr s"
proof (rule B64_NoPad [of s])
  fix core k
  assume c: "B64EncodeNoPad s = core" "b64_encode s = core @ replicate k (CHR ''='')" "b64_plain core"
    "k \<le> 2" "(length core + k) mod 4 = 0"
  have "filter (\<lambda>c. c \<noteq> CHR 0x0A \<and> c \<noteq> CHR 0x0D) (b64_encode s) = b64_encode s"
    using c(2) b64_plain_free [OF c(3)] by (auto simp: filter_id_conv)
  moreover have "(if 0 < length core mod 4 then core @ replicate (4 - length core mod 4) (CHR ''='') else core) = b64_encode s"
  proof -
    have "k = 0 \<or> k = 1 \<or> k = 2" using c(4) by auto
    then have "length core mod 4 = (if k = 0 then 0 else 4 - k)" using c(5) by presburger
    then show ?thesis using c(2,4) by auto
  qed
  ultimately show ?thesis using c(1) b64_groups_encode by (simp add: B64DecodeNoPad_def b64_decode_def Let_def)
qed

lemma xor_char_cancel [simp]: "xor_char (xor_char a b) b = a"
proof -
  have "((of_char a :: nat) XOR of_char b) mod 256 = of_char a XOR of_char b"
  proof -
    have "take_bit 8 ((of_char a :: nat) XOR of_char b) = take_bit 8 (of_char a) XOR take_bit 8 (of_char b)"
      by (rule take_bit_xor)
    then show ?thesis by (simp add: take_bit_eq_mod)
  qed
  then show ?thesis by (simp add: xor_char_def xor.assoc)
qed

lemma XORKeyStream_twice:
  "length src \<le> length (aes iv) \<Longrightarrow> XORKeyStream aes iv (XORKeyStream aes iv src) = src"
  by (rule nth_equalityI) (simp_all add: XORKeyStream_def)

lemma Decrypt_Encrypt:
  assumes "length iv = 16" "length (aes iv) = 16"
  shows "Decrypt aes (Encrypt aes iv ts) = Inr ts"
proof -
  let ?raw = "hex_Encode (be_bytes 8 (unat ts))"
  have "length ?raw = 16" by (simp add: length_hex_Encode)
  moreover have "be_value (be_bytes 8 (unat ts)) = unat ts"
    using unsigned_less [of ts, where 'a = nat] by (simp add: be_value_bytes)
  ultimately show ?thesis using assms XORKeyStream_twice [of ?raw aes iv]
    by (simp add: Decrypt_def Encrypt_def Let_def B64_roundtrip BlockSize_def XORKeyStream_def hex_Decode_Encode)
qed

section \<open>How long a nonce is valid\<close>

text \<open>Seconds since the start of the clock, as the oracle packs them beside the six algorithm bits.\<close>

definition clock_ok :: "int \<Rightarrow> bool" where
  "clock_ok t \<longleftrightarrow> 0 \<le> t \<and> t < 2 ^ 57"

lemma clock_sint: "clock_ok t \<Longrightarrow> sint (word_of_int t :: 64 word) = t"
  by (simp add: clock_ok_def signed_take_bit_int_eq_self sint_sbintrunc')

lemma clock_bit: "clock_ok t \<Longrightarrow> 57 \<le> n \<Longrightarrow> \<not> bit (word_of_int t :: 64 word) n"
proof -
  assume "clock_ok t" "57 \<le> n"
  then have "take_bit 57 t = t" by (simp add: clock_ok_def take_bit_int_eq_self)
  then have "\<not> bit t n" using \<open>57 \<le> n\<close> by (metis bit_take_bit_iff not_le)
  then show ?thesis by (simp add: bit_word_of_int_iff)
qed

lemma mask_bit: "m < 64 \<Longrightarrow> 6 \<le> n \<Longrightarrow> \<not> bit (m :: 64 word) n"
proof -
  assume m: "m < 64" "6 \<le> n"
  then have "unat m < 64" by (simp add: word_less_nat_alt)
  then have "unat (take_bit 6 m) = unat m" by (simp add: unsigned_take_bit_eq take_bit_nat_eq_self)
  then have "take_bit 6 m = m" by (simp only: word_unat_eq_iff)
  then show ?thesis using m(2) by (metis bit_take_bit_iff not_le)
qed

lemma packed_time:
  assumes "clock_ok t" "m < (64 :: 64 word)"
  shows "signed_drop_bit 6 (push_bit 6 (word_of_int t) OR m) = (word_of_int t :: 64 word)"
  using clock_bit [OF assms(1)] mask_bit [OF assms(2)]
  by (intro bit_word_eqI) (auto simp: bit_simps)

lemma packed_mask:
  assumes "m' < (64 :: 64 word)"
  shows "m' AND (push_bit 6 t OR m) = m' AND m"
  using mask_bit [OF assms] by (intro bit_word_eqI) (auto simp: bit_simps)

lemma clock_diff:
  assumes "clock_ok t" "clock_ok t'"
  shows "sint (word_of_int t' - word_of_int t :: 64 word) = t' - t"
proof -
  have "word_of_int t' - word_of_int t = (word_of_int (t' - t) :: 64 word)" by simp
  then show ?thesis using assms
    by (simp only: sint_sbintrunc' clock_ok_def) (simp add: signed_take_bit_int_eq_self)
qed

lemma nonce_validity:
  assumes "length iv = 16" "length (aes iv) = 16" "clock_ok t" "clock_ok t'" "m < 64" "m' < 64"
  shows "ValidateChallenge aes (EmitChallenge aes iv m (word_of_int t)) m' (word_of_int t') =
    Inr (m' AND m \<noteq> 0 \<and> t \<le> t' \<and> t' \<le> t + 32)"
  using assms packed_time [OF assms(3,5)] packed_mask [OF assms(6), of "word_of_int t" m] clock_diff [OF assms(3,4)]
  by (auto simp: ValidateChallenge_def EmitChallenge_def Decrypt_Encrypt NUM_OF_DGSTS_def Let_def VTIME_def)

text \<open>
  Property C28. A nonce made at time \<open>t\<close> for algorithms with mask \<open>m\<close> is valid at time \<open>t'\<close> for an
  algorithm with mask \<open>m'\<close> exactly when the masks meet and \<open>t'\<close> is not before \<open>t\<close> and at most
  32 seconds later, whatever the initialisation vector and the key.
\<close>

theorem nonce_validity_window:
  assumes "length iv = 16" "length (aes iv) = 16" "clock_ok t" "clock_ok t'" "m < 64" "m' < 64"
  shows "ValidateChallenge aes (EmitChallenge aes iv m (word_of_int t)) m' (word_of_int t') =
    Inr (m' AND m \<noteq> 0 \<and> t \<le> t' \<and> t' \<le> t + 32)"
  using assms by (rule nonce_validity)

text \<open>Every algorithm has one of the six bits.\<close>

lemma algorithm_masks: "GetAlgorithm name = Some alg \<Longrightarrow> alg_Mask alg \<noteq> 0 \<and> alg_Mask alg < 64"
  by (auto simp: GetAlgorithm_def algorithms_def split: if_splits)

text \<open>
  A nonce whose text is base64 but does not have the length of one the oracle made: with fewer than
  16 bytes, or more than 32, the check panics instead of refusing it.
\<close>

lemma foreign_nonce_panics:
  assumes "B64DecodeNoPad cryptic = Inr raw" "length raw < 16 \<or> 32 < length raw"
  shows "ValidateChallenge aes cryptic m now = Inl slice_panic \<or> ValidateChallenge aes cryptic m now = Inl output_panic"
  using assms by (auto simp: ValidateChallenge_def Decrypt_def BlockSize_def)

end
