(* ===== verification/Sip_Url_Text.thy ===== *)
theory Sip_Url_Text
  imports Sippy_Text Sippy_Headers
begin

text \<open>
  Reading and printing SIP URLs: \<^verbatim>\<open>headers/sip_url.go\<close>. The header map of a URL is printed in the
  order Go's map iteration happens to give; that order is an argument of the printer. The main
  result is that a URL whose components are printable is read back exactly from its text,
  whatever the order.
\<close>

definition RFC3261_USER_UNRESERVED :: string where
  "RFC3261_USER_UNRESERVED = ''&=+$,;?/#''"

definition RFC3261_UNRESERVED :: string where
  "RFC3261_UNRESERVED = ''-_.!~*'' @ [CHR 0x27] @ ''()''"

definition user_enc :: string where
  "user_enc = RFC3261_USER_UNRESERVED @ RFC3261_UNRESERVED"

definition passw_enc :: string where
  "passw_enc = RFC3261_UNRESERVED @ ''&=+$,''"

definition hnv_enc :: string where
  "hnv_enc = RFC3261_UNRESERVED @ ''[]/?:+$''"

section \<open>Parameters\<close>

definition url_reset_params :: "sip_url \<Rightarrow> sip_url" where
  "url_reset_params u =
     u\<lparr>url_Usertype := [], url_Transport := [], url_Maddr := [], url_Method := [], url_Tag := [],
       url_Ttl := -1, url_Other := [], url_Lr := False\<rparr>"

definition url_set_param :: "string \<Rightarrow> sip_url \<Rightarrow> sip_url" where
  "url_set_param p u =
     (case go_cut (CHR ''='') p of
        (name, None) \<Rightarrow>
          if p = ''lr'' then u\<lparr>url_Lr := True\<rparr> else u\<lparr>url_Other := url_Other u @ [p]\<rparr>
      | (name, Some v) \<Rightarrow>
          if name = ''user'' then u\<lparr>url_Usertype := v\<rparr>
          else if name = ''transport'' then u\<lparr>url_Transport := v\<rparr>
          else if name = ''ttl'' then (case Atoi v of Some n \<Rightarrow> u\<lparr>url_Ttl := n\<rparr> | None \<Rightarrow> u)
          else if name = ''maddr'' then u\<lparr>url_Maddr := v\<rparr>
          else if name = ''method'' then u\<lparr>url_Method := v\<rparr>
          else if name = ''tag'' then u\<lparr>url_Tag := v\<rparr>
          else if name = ''lr'' then u\<lparr>url_Lr := True\<rparr>
          else u\<lparr>url_Other := url_Other u @ [p]\<rparr>)"

definition url_SetParams :: "string list \<Rightarrow> sip_url \<Rightarrow> sip_url" where
  "url_SetParams ps u = fold url_set_param ps (url_reset_params u)"

definition named_param :: "string \<Rightarrow> string \<Rightarrow> string list" where
  "named_param name v = (if v = [] then [] else [name @ CHR ''='' # v])"

definition url_GetParams :: "sip_url \<Rightarrow> string list" where
  "url_GetParams u =
     named_param ''user'' (url_Usertype u) @ named_param ''transport'' (url_Transport u)
     @ named_param ''maddr'' (url_Maddr u) @ named_param ''method'' (url_Method u)
     @ named_param ''tag'' (url_Tag u)
     @ (if url_Ttl u \<noteq> -1 then [''ttl='' @ Itoa (url_Ttl u)] else [])
     @ url_Other u @ (if url_Lr u then [''lr''] else [])"

section \<open>Headers\<close>

definition url_headers :: "string \<Rightarrow> (string \<rightharpoonup> string) \<Rightarrow> (string \<rightharpoonup> string)" where
  "url_headers s m =
     fold (\<lambda>h m. case go_cut (CHR ''='') h of
             (k, Some v) \<Rightarrow> m(ToLower k \<mapsto> Unescape v)
           | (k, None) \<Rightarrow> m) (go_split (CHR ''&'') s) m"

definition header_pair :: "string \<times> string \<Rightarrow> string" where
  "header_pair = (\<lambda>(k, v). Title k @ CHR ''='' # Escape hnv_enc v)"

definition url_headers_text :: "(string \<times> string) list \<Rightarrow> string" where
  "url_headers_text hs = (if hs = [] then [] else CHR ''?'' # go_join (CHR ''&'') (map header_pair hs))"

section \<open>Printing\<close>

definition url_user_text :: "sip_url \<Rightarrow> string" where
  "url_user_text u =
     (if url_Username u = [] then []
      else Escape user_enc (url_Username u) @ each_after (CHR '';'') (url_Userparams u)
        @ (if url_Password u = [] then [] else CHR '':'' # Escape passw_enc (url_Password u)) @ ''@'')"

definition local_host :: "host_port option \<Rightarrow> my_address \<Rightarrow> string" where
  "local_host hostport h =
     (case hostport of Some hp \<Rightarrow> if is_system h then host_string hp else ma_address h
      | None \<Rightarrow> ma_address h)"

definition local_port :: "host_port option \<Rightarrow> my_port option \<Rightarrow> string" where
  "local_port hostport p =
     (case p of
        None \<Rightarrow> []
      | Some q \<Rightarrow> CHR '':'' # (case hostport of
          Some hp \<Rightarrow> if port_is_system q then port_string hp else mp_port q
        | None \<Rightarrow> mp_port q))"

definition url_LocalStr :: "host_port option \<Rightarrow> (string \<times> string) list \<Rightarrow> sip_url \<Rightarrow> string" where
  "url_LocalStr hostport hs u =
     url_Scheme u @ CHR '':'' # url_user_text u
     @ local_host hostport (url_Host u) @ local_port hostport (url_Port u)
     @ each_after (CHR '';'') (url_GetParams u) @ url_headers_text hs"

section \<open>Reading\<close>

definition parse_userpass :: "string \<Rightarrow> sip_url \<Rightarrow> sip_url" where
  "parse_userpass s u =
     (case go_cut (CHR '':'') s of
        (user, pw) \<Rightarrow>
          (let u1 = (case pw of Some p \<Rightarrow> u\<lparr>url_Password := Unescape p\<rparr> | None \<Rightarrow> u);
               uparts = go_split (CHR '';'') user
           in u1\<lparr>url_Userparams := (if 1 < length uparts then tl uparts else url_Userparams u1),
                 url_Username := Unescape (hd uparts)\<rparr>))"

text \<open>The host and the text of the port behind it.\<close>

definition parse_hostport :: "bool \<Rightarrow> string \<Rightarrow> (my_address \<times> string option) result" where
  "parse_hostport relaxed s =
     (if s = [] then (if relaxed then Inr (NewMyAddress [], None) else Inl index_panic)
      else if hd s = CHR ''['' then
        (case go_cut (CHR '']'') s of
           (h, None) \<Rightarrow> Inl index_panic
         | (h, Some rest) \<Rightarrow>
             Inr (NewMyAddress (h @ '']''), if rest = [] then None else snd (go_cut (CHR '':'') rest)))
      else (case go_cut (CHR '':'') s of (h, p) \<Rightarrow> Inr (NewMyAddress h, p)))"

text \<open>An empty port is ignored, and a number written twice is taken once.\<close>

definition parse_port :: "string \<Rightarrow> my_port option result" where
  "parse_port s =
     (let p = TrimSpace s in
      if p = [] then Inr None
      else if Atoi p \<noteq> None then Inr (Some (NewMyPort p))
      else (case go_cut (CHR '':'') p of
              (a, Some b) \<Rightarrow>
                if a = b \<and> Atoi a \<noteq> None then Inr (Some (NewMyPort a))
                else Inl (''strconv.Atoi: parsing '' @ p)
            | (a, None) \<Rightarrow> Inl (''strconv.Atoi: parsing '' @ p)))"

definition parse_url_params :: "string list \<Rightarrow> sip_url \<Rightarrow> sip_url" where
  "parse_url_params params u =
     (if params = [] then u
      else (case go_cut (CHR ''?'') (last params) of
              (p, hs) \<Rightarrow>
                (let u1 = url_SetParams (butlast params @ [p]) u
                 in case hs of Some h \<Rightarrow> u1\<lparr>url_Headers := url_headers h Map.empty\<rparr> | None \<Rightarrow> u1)))"

definition parseSipURL :: "bool \<Rightarrow> string \<Rightarrow> sip_url \<Rightarrow> sip_url result" where
  "parseSipURL relaxed url u =
     (let (userpass, rest) = (case go_cut (CHR ''@'') url of
                                (a, Some b) \<Rightarrow> (Some a, b) | (a, None) \<Rightarrow> (None, url));
          parts = go_split (CHR '';'') rest;
          params = tl parts;
          (hostport, hs) = (if params = [] then go_cut (CHR ''?'') (hd parts) else (hd parts, None));
          u1 = (case hs of Some h \<Rightarrow> u\<lparr>url_Headers := url_headers h (url_Headers u)\<rparr> | None \<Rightarrow> u);
          u2 = (case userpass of Some up \<Rightarrow> parse_userpass up u1 | None \<Rightarrow> u1)
      in bind_result (parse_hostport relaxed hostport) (\<lambda>(h, p).
           bind_result (case p of Some s \<Rightarrow> parse_port s | None \<Rightarrow> Inr None) (\<lambda>prt.
             Inr (parse_url_params params
               (u2\<lparr>url_Host := h, url_Port := (case prt of Some q \<Rightarrow> Some q | None \<Rightarrow> url_Port u2)\<rparr>)))))"

definition parseTelUrl :: "string \<Rightarrow> sip_url \<Rightarrow> sip_url" where
  "parseTelUrl url u =
     (let parts = go_split (CHR '';'') url
      in u\<lparr>url_Username := Unescape (hd parts),
           url_Userparams := url_Userparams u @ map (\<lambda>part.
             case go_cut (CHR ''='') part of
               (k, Some v) \<Rightarrow> ToLower k @ CHR ''='' # v
             | (k, None) \<Rightarrow> part) (tl parts)\<rparr>)"

definition convertTelUrl :: "bool \<Rightarrow> sippy_config \<Rightarrow> sip_url \<Rightarrow> sip_url" where
  "convertTelUrl relaxed cfg u =
     (if relaxed then u\<lparr>url_Scheme := ''sip'', url_Host := NewMyAddress []\<rparr>
      else u\<lparr>url_Scheme := ''sip'', url_Host := cfg_MyAddress cfg, url_Port := Some (cfg_DefaultPort cfg)\<rparr>)"

text \<open>\<open>auto_tel\<close> is the configuration's \<open>AutoConvertTelUrl\<close>; without it a tel URL is refused.\<close>

definition ParseSipURL :: "bool \<Rightarrow> bool \<Rightarrow> sippy_config \<Rightarrow> string \<Rightarrow> sip_url result" where
  "ParseSipURL auto_tel relaxed cfg url =
     (case go_cut (CHR '':'') url of
        (scheme, None) \<Rightarrow> Inl ''scheme is not present''
      | (scheme, Some rest) \<Rightarrow>
          (let sc = ToLower scheme; u = (NewSipURL [] (NewMyAddress []) None False)\<lparr>url_Scheme := sc\<rparr>
           in if sc = ''sip'' \<or> sc = ''sips'' then parseSipURL relaxed rest u
              else if sc = ''tel'' \<and> auto_tel then Inr (convertTelUrl relaxed cfg (parseTelUrl rest u))
              else Inl (''unsupported scheme: '' @ sc @ '':'')))"

section \<open>Printable URLs\<close>

definition avoids :: "string \<Rightarrow> string \<Rightarrow> bool" where
  "avoids cs s \<longleftrightarrow> list_all (\<lambda>c. c \<notin> set s) cs"

definition host_text_ok :: "string \<Rightarrow> bool" where
  "host_text_ok h \<longleftrightarrow> h \<noteq> [] \<and> avoids ''@;?'' h \<and>
     (if hd h = CHR ''['' then last h = CHR '']'' \<and> CHR '']'' \<notin> set (butlast h) else avoids '':%'' h)"

definition port_text_ok :: "my_port option \<Rightarrow> bool" where
  "port_text_ok p \<longleftrightarrow> (case p of None \<Rightarrow> True | Some q \<Rightarrow> \<not> port_is_system q \<and> Atoi (mp_port q) \<noteq> None)"

definition other_param_ok :: "string \<Rightarrow> bool" where
  "other_param_ok p \<longleftrightarrow> avoids ''@;?'' p \<and>
     (case go_cut (CHR ''='') p of
        (n, None) \<Rightarrow> p \<noteq> ''lr''
      | (n, Some v) \<Rightarrow> n \<notin> {''user'', ''transport'', ''ttl'', ''maddr'', ''method'', ''tag'', ''lr''})"

definition url_params_ok :: "sip_url \<Rightarrow> bool" where
  "url_params_ok u \<longleftrightarrow>
     list_all (avoids ''@;?'') [url_Usertype u, url_Transport u, url_Maddr u, url_Method u, url_Tag u]
     \<and> int64_min \<le> url_Ttl u \<and> url_Ttl u \<le> int64_max \<and> list_all other_param_ok (url_Other u)"

definition url_user_ok :: "sip_url \<Rightarrow> bool" where
  "url_user_ok u \<longleftrightarrow>
     (if url_Username u = [] then url_Password u = [] \<and> url_Userparams u = []
      else CHR '';'' \<notin> set (url_Username u) \<and> list_all (avoids ''@:;'') (url_Userparams u))"

definition url_header_key_ok :: "string \<Rightarrow> bool" where
  "url_header_key_ok k \<longleftrightarrow> is_lower k \<and> avoids ''@;=&'' k"

definition url_text_ok :: "sip_url \<Rightarrow> bool" where
  "url_text_ok u \<longleftrightarrow> url_Scheme u \<in> {''sip'', ''sips''} \<and> \<not> is_system (url_Host u)
     \<and> host_text_ok (ma_address (url_Host u)) \<and> port_text_ok (url_Port u)
     \<and> url_user_ok u \<and> url_params_ok u"

section \<open>The round trip\<close>

lemma avoids_iff: "avoids cs s \<longleftrightarrow> (\<forall>c \<in> set s. c \<notin> set cs)"
  by (auto simp: avoids_def list_all_iff)

lemma avoids_simps [simp]:
  "avoids cs []" "avoids cs (c # s) \<longleftrightarrow> c \<notin> set cs \<and> avoids cs s"
  "avoids cs (s @ t) \<longleftrightarrow> avoids cs s \<and> avoids cs t"
  by (auto simp: avoids_iff)

lemma avoidsD: "avoids cs s \<Longrightarrow> c \<in> set cs \<Longrightarrow> c \<notin> set s"
  by (auto simp: avoids_iff)

lemma avoids_each_after [simp]:
  "avoids cs (each_after sep ps) \<longleftrightarrow> ps = [] \<or> (sep \<notin> set cs \<and> list_all (avoids cs) ps)"
  by (induction ps) auto

lemma digits_val_chars: "digits_val a s \<noteq> None \<Longrightarrow> c \<in> set s \<Longrightarrow> is_digit c"
  by (induction s arbitrary: a) (auto split: if_splits)

lemma Atoi_chars:
  assumes "Atoi s \<noteq> None" "c \<in> set s"
  shows "is_digit c \<or> c = CHR ''-'' \<or> c = CHR ''+''"
  using assms digits_val_chars [of 0 "tl s" c] digits_val_chars [of 0 s c]
  by (cases s) (auto simp: Atoi_def Atoi_value_def Let_def split: if_splits option.splits)

lemma Atoi_plain:
  assumes "Atoi s \<noteq> None"
  shows "avoids ''@;?:[]'' s" "no_space s" "s \<noteq> []"
proof -
  show "avoids ''@;?:[]'' s" using Atoi_chars [OF assms] by (force simp: is_digit_def avoids_iff)
  show "no_space s" using Atoi_chars [OF assms]
    by (fastforce simp: no_space_def list_all_iff is_digit_def ascii_space_def)
  show "s \<noteq> []" using assms by (auto simp: Atoi_def Atoi_value_def Let_def)
qed

lemma Itoa_avoids: "avoids ''@;?'' (Itoa i)"
  using Itoa_chars [of _ i] by (force simp: is_digit_def avoids_iff)

text \<open>Parameters.\<close>

lemma set_param_named:
  "url_set_param (''user='' @ v) u = u\<lparr>url_Usertype := v\<rparr>"
  "url_set_param (''transport='' @ v) u = u\<lparr>url_Transport := v\<rparr>"
  "url_set_param (''maddr='' @ v) u = u\<lparr>url_Maddr := v\<rparr>"
  "url_set_param (''method='' @ v) u = u\<lparr>url_Method := v\<rparr>"
  "url_set_param (''tag='' @ v) u = u\<lparr>url_Tag := v\<rparr>"
  "url_set_param ''lr'' u = u\<lparr>url_Lr := True\<rparr>"
  "int64_min \<le> n \<Longrightarrow> n \<le> int64_max \<Longrightarrow> url_set_param (''ttl='' @ Itoa n) u = u\<lparr>url_Ttl := n\<rparr>"
  by (simp_all add: url_set_param_def text_simps)

lemma set_named_param:
  "url_Usertype u = [] \<Longrightarrow> fold url_set_param (named_param ''user'' v) u = u\<lparr>url_Usertype := v\<rparr>"
  "url_Transport u = [] \<Longrightarrow> fold url_set_param (named_param ''transport'' v) u = u\<lparr>url_Transport := v\<rparr>"
  "url_Maddr u = [] \<Longrightarrow> fold url_set_param (named_param ''maddr'' v) u = u\<lparr>url_Maddr := v\<rparr>"
  "url_Method u = [] \<Longrightarrow> fold url_set_param (named_param ''method'' v) u = u\<lparr>url_Method := v\<rparr>"
  "url_Tag u = [] \<Longrightarrow> fold url_set_param (named_param ''tag'' v) u = u\<lparr>url_Tag := v\<rparr>"
  using set_param_named(1-5) [where v = v and u = u] by (cases u; simp add: named_param_def)+

lemma set_ttl_param:
  assumes "url_Ttl u = -1" "int64_min \<le> n" "n \<le> int64_max"
  shows "fold url_set_param (if n \<noteq> -1 then [''ttl='' @ Itoa n] else []) u = u\<lparr>url_Ttl := n\<rparr>"
  using assms by (cases u) (simp add: set_param_named(7) [simplified])

lemma set_other_param: "other_param_ok p \<Longrightarrow> url_set_param p u = u\<lparr>url_Other := url_Other u @ [p]\<rparr>"
  by (cases "go_cut (CHR ''='') p"; cases "snd (go_cut (CHR ''='') p)")
    (simp_all add: url_set_param_def other_param_ok_def)

lemma set_other_params:
  "list_all other_param_ok ps \<Longrightarrow> url_Other u = os \<Longrightarrow> fold url_set_param ps u = u\<lparr>url_Other := os @ ps\<rparr>"
  by (induction ps arbitrary: u os) (simp_all add: set_other_param)

lemma set_lr_param: "\<not> url_Lr u \<Longrightarrow> fold url_set_param (if b then [''lr''] else []) u = u\<lparr>url_Lr := b\<rparr>"
  using set_param_named(6) [of u] by (cases u) simp

lemma SetParams_GetParams:
  "url_params_ok u \<Longrightarrow> url_SetParams (url_GetParams u) v =
     v\<lparr>url_Usertype := url_Usertype u, url_Transport := url_Transport u, url_Maddr := url_Maddr u,
       url_Method := url_Method u, url_Tag := url_Tag u, url_Ttl := url_Ttl u, url_Other := url_Other u,
       url_Lr := url_Lr u\<rparr>"
  by (simp add: url_SetParams_def url_GetParams_def url_params_ok_def url_reset_params_def
      set_named_param set_other_params set_ttl_param set_lr_param split del: if_split)

lemma GetParams_avoid: "url_params_ok u \<Longrightarrow> list_all (avoids ''@;?'') (url_GetParams u)"
  using Itoa_avoids [of "url_Ttl u"]
  by (auto simp: url_GetParams_def url_params_ok_def other_param_ok_def named_param_def list_all_iff)

text \<open>Headers.\<close>

lemma title_from_chars: "c \<in> set (title_from w s) \<Longrightarrow> c \<in> set s \<or> (65 \<le> (of_char c :: nat) \<and> (of_char c :: nat) \<le> 90)"
proof (induction s arbitrary: w)
  case (Cons x s)
  have "upper x = x \<or> (65 \<le> (of_char (upper x) :: nat) \<and> (of_char (upper x) :: nat) \<le> 90)"
    by (auto simp: upper_def of_char_of)
  with Cons show ?case by (auto split: if_splits)
qed simp

lemma Title_avoids: "avoids cs s \<Longrightarrow> \<forall>c \<in> set cs. \<not> (65 \<le> (of_char c :: nat) \<and> (of_char c :: nat) \<le> 90) \<Longrightarrow> avoids cs (Title s)"
  using title_from_chars by (fastforce simp: avoids_iff Title_def)

lemma hnv_avoids: "avoids ''@;&='' (Escape hnv_enc v)"
  by (simp add: avoids_def Escape_absent hnv_enc_def RFC3261_UNRESERVED_def shouldEscape_def hex_digits_def)

lemma header_pair_avoids: "url_header_key_ok k \<Longrightarrow> avoids ''@;&'' (header_pair (k, v))"
  using Title_avoids [of "''@;=&''" k] hnv_avoids [of v]
  by (simp add: header_pair_def url_header_key_ok_def avoids_def)

lemma header_pair_cut: "url_header_key_ok k \<Longrightarrow> go_cut (CHR ''='') (header_pair (k, v)) = (Title k, Some (Escape hnv_enc v))"
  using Title_avoids [of "''@;=&''" k]
  by (simp add: header_pair_def url_header_key_ok_def cut_append avoids_def)

lemma url_headers_fold:
  "list_all url_header_key_ok (map fst hs) \<Longrightarrow>
   fold (\<lambda>h m. case go_cut (CHR ''='') h of (k, Some v) \<Rightarrow> m(ToLower k \<mapsto> Unescape v) | (k, None) \<Rightarrow> m)
     (map header_pair hs) m = fold (\<lambda>(k, v) m. m(k \<mapsto> v)) hs m"
  by (induction hs arbitrary: m)
    (auto simp: header_pair_cut url_header_key_ok_def text_simps hnv_enc_def RFC3261_UNRESERVED_def)

lemma fold_upd_distinct: "distinct (map fst hs) \<Longrightarrow> fold (\<lambda>(k, v) m. m(k \<mapsto> v)) hs m = m ++ map_of hs"
  by (induction hs arbitrary: m) (fastforce simp: map_add_def fun_eq_iff image_iff split: option.splits dest: map_of_SomeD)+

lemma url_headers_text:
  assumes "list_all url_header_key_ok (map fst hs)" "distinct (map fst hs)" "hs \<noteq> []"
  shows "url_headers (go_join (CHR ''&'') (map header_pair hs)) Map.empty = map_of hs"
proof -
  have "\<forall>p \<in> set (map header_pair hs). CHR ''&'' \<notin> set p"
    using assms(1) header_pair_avoids by (fastforce simp: list_all_iff avoids_def)
  then show ?thesis
    using assms by (simp add: url_headers_def go_split_join url_headers_fold fold_upd_distinct)
qed

lemma url_headers_text_avoids: "list_all url_header_key_ok (map fst hs) \<Longrightarrow> avoids ''@;'' (url_headers_text hs)"
proof (cases hs)
  case (Cons h hs')
  assume "list_all url_header_key_ok (map fst hs)"
  then have "avoids ''@;'' (header_pair x)" if "x \<in> set hs" for x
    using header_pair_avoids [of "fst x" "snd x"] that by (auto simp: list_all_iff avoids_def)
  then show ?thesis using Cons by (auto simp: url_headers_text_def list_all_iff)
qed (simp add: url_headers_text_def)

text \<open>User part, host and port.\<close>

lemma Escape_chars: "c \<in> set (Escape enc s) \<Longrightarrow> c \<in> set s \<or> c = CHR ''%'' \<or> c \<in> set hex_digits"
proof (induction s)
  case (Cons x s)
  have "(of_char x :: nat) < 256" by simp
  then have "(of_char x :: nat) div 16 < 16" by (simp add: less_mult_imp_div_less)
  with Cons show ?case using hex_digits_nth by (auto simp: Escape_Cons split: if_splits)
qed (simp add: Escape_def)

lemma user_enc_avoids: "avoids ''@:'' (Escape user_enc s)"
  by (simp add: avoids_def Escape_absent user_enc_def RFC3261_USER_UNRESERVED_def RFC3261_UNRESERVED_def
      shouldEscape_def hex_digits_def)

lemma passw_enc_avoids: "avoids ''@:'' (Escape passw_enc s)"
  by (simp add: avoids_def Escape_absent passw_enc_def RFC3261_UNRESERVED_def shouldEscape_def hex_digits_def)

lemma Unescape_enc [simp]: "Unescape (Escape user_enc s) = s" "Unescape (Escape passw_enc s) = s"
  by (simp_all add: Unescape_Escape user_enc_def passw_enc_def RFC3261_USER_UNRESERVED_def RFC3261_UNRESERVED_def)

lemma parse_user_text:
  assumes "url_user_ok u" "url_Username u \<noteq> []"
  shows "\<exists>t. url_user_text u = t @ ''@'' \<and> CHR ''@'' \<notin> set t
    \<and> parse_userpass t v = v\<lparr>url_Username := url_Username u,
        url_Userparams := (if url_Userparams u = [] then url_Userparams v else url_Userparams u),
        url_Password := (if url_Password u = [] then url_Password v else url_Password u)\<rparr>"
proof -
  let ?n = "Escape user_enc (url_Username u)" and ?ps = "url_Userparams u"
  let ?up = "?n @ each_after (CHR '';'') ?ps"
  let ?pw = "if url_Password u = [] then [] else CHR '':'' # Escape passw_enc (url_Password u)"
  have semi: "CHR '';'' \<notin> set ?n"
    using Escape_chars [of "CHR '';''" user_enc "url_Username u"] assms by (auto simp: url_user_ok_def hex_digits_def)
  have ps: "list_all (avoids ''@:;'') ?ps" using assms by (simp add: url_user_ok_def)
  have split: "go_split (CHR '';'') ?up = ?n # ?ps"
    using semi ps by (intro go_split_each_after) (auto simp: list_all_iff avoids_def)
  have "list_all (avoids ''@:'') ?ps" using ps by (auto simp: list_all_iff avoids_def)
  then have up: "avoids ''@:'' ?up" using user_enc_avoids [of "url_Username u"] by simp
  have "go_cut (CHR '':'') (?up @ ?pw) = (?up, if url_Password u = [] then None else Some (Escape passw_enc (url_Password u)))"
    using avoidsD [OF up, of "CHR '':''"] by (auto simp: cut_absent intro: cut_append [of _ ?up, simplified])
  then have "parse_userpass (?up @ ?pw) v = v\<lparr>url_Username := url_Username u,
        url_Userparams := (if ?ps = [] then url_Userparams v else ?ps),
        url_Password := (if url_Password u = [] then url_Password v else url_Password u)\<rparr>"
    using split by (cases v) (simp add: parse_userpass_def)
  moreover have "CHR ''@'' \<notin> set (?up @ ?pw)"
    using up passw_enc_avoids [of "url_Password u"] by (auto simp: avoids_def)
  ultimately show ?thesis using assms(2)
    by (intro exI [of _ "?up @ ?pw"]) (simp add: url_user_text_def)
qed

lemma NewMyAddress_id: "\<not> is_system h \<Longrightarrow> host_text_ok (ma_address h) \<Longrightarrow> NewMyAddress (ma_address h) = h"
  by (cases h) (auto simp: NewMyAddress_def normalize_def host_text_ok_def avoids_def split: if_splits)

lemma parse_hostport_text:
  assumes h: "\<not> is_system h" "host_text_ok (ma_address h)" and p: "port_text_ok p"
  shows "parse_hostport relaxed (local_host hp h @ local_port hp p) = Inr (h, map_option mp_port p)"
proof -
  have lh: "local_host hp h = ma_address h" using h(1) by (simp add: local_host_def split: option.splits)
  have lp: "local_port hp p = (case p of None \<Rightarrow> [] | Some q \<Rightarrow> CHR '':'' # mp_port q)"
    using p by (auto simp: local_port_def port_text_ok_def split: option.splits)
  have addr: "ma_address h \<noteq> []" "NewMyAddress (ma_address h) = h"
    using h NewMyAddress_id by (auto simp: host_text_ok_def)
  show ?thesis
  proof (cases "hd (ma_address h) = CHR ''[''")
    case True
    then have "ma_address h = butlast (ma_address h) @ '']''" "CHR '']'' \<notin> set (butlast (ma_address h))"
      using h(2) append_butlast_last_id [of "ma_address h"] by (auto simp: host_text_ok_def)
    then have "go_cut (CHR '']'') (ma_address h @ t) = (butlast (ma_address h), Some t)" for t
      using cut_append [of "CHR '']''" "butlast (ma_address h)" t] by (metis append.assoc append_Cons append_Nil)
    with True addr \<open>ma_address h = butlast (ma_address h) @ '']''\<close> show ?thesis
      by (auto simp: parse_hostport_def lh lp split: option.splits)
  next
    case False
    then have "CHR '':'' \<notin> set (ma_address h)" using h(2) by (auto simp: host_text_ok_def avoids_def)
    with False addr show ?thesis
      by (auto simp: parse_hostport_def lh lp cut_absent cut_append split: option.splits)
  qed
qed

lemma parse_port_text: "port_text_ok (Some q) \<Longrightarrow> parse_port (mp_port q) = Inr (Some q)"
  using Atoi_plain [of "mp_port q"] by (cases q) (auto simp: port_text_ok_def parse_port_def TrimSpace_no_space NewMyPort_def)

lemma split_params:
  assumes "CHR '';'' \<notin> set hp" "list_all (avoids ''@;?'') ps" "CHR '';'' \<notin> set H"
  shows "go_split (CHR '';'') (hp @ each_after (CHR '';'') ps @ H) =
    (if ps = [] then [hp @ H] else hp # butlast ps @ [last ps @ H])"
proof (cases ps rule: rev_cases)
  case Nil
  then show ?thesis using assms by (simp add: go_split_absent)
next
  case (snoc qs q)
  have "go_split (CHR '';'') (hp @ each_after (CHR '';'') (qs @ [q @ H])) = hp # qs @ [q @ H]"
    using assms snoc by (intro go_split_each_after) (auto simp: list_all_iff avoids_def)
  then show ?thesis using snoc by simp
qed

text \<open>What the parser does with the parameters and headers behind host and port.\<close>

lemma parse_tail_text:
  assumes u: "url_params_ok u" and hs: "list_all url_header_key_ok (map fst hs)" "distinct (map fst hs)" "map_of hs = url_Headers u"
    and ps: "url_GetParams u \<noteq> []" and v: "url_Headers v = Map.empty"
  shows "parse_url_params (butlast (url_GetParams u) @ [last (url_GetParams u) @ url_headers_text hs]) v =
     v\<lparr>url_Usertype := url_Usertype u, url_Transport := url_Transport u, url_Maddr := url_Maddr u,
       url_Method := url_Method u, url_Tag := url_Tag u, url_Ttl := url_Ttl u, url_Other := url_Other u,
       url_Lr := url_Lr u, url_Headers := url_Headers u\<rparr>"
proof -
  have "CHR ''?'' \<notin> set (last (url_GetParams u))"
    using GetParams_avoid [OF u] ps by (auto simp: list_all_iff avoids_def)
  then have "go_cut (CHR ''?'') (last (url_GetParams u) @ url_headers_text hs) =
      (last (url_GetParams u), if hs = [] then None else Some (go_join (CHR ''&'') (map header_pair hs)))"
    by (simp add: url_headers_text_def cut_absent cut_append)
  then show ?thesis
    using ps SetParams_GetParams [OF u] url_headers_text [OF hs(1,2)] hs(3) v
    by (cases v) (auto simp: parse_url_params_def)
qed

lemma GetParams_Nil:
  "url_GetParams u = [] \<longleftrightarrow> url_Usertype u = [] \<and> url_Transport u = [] \<and> url_Maddr u = [] \<and> url_Method u = []
     \<and> url_Tag u = [] \<and> url_Ttl u = -1 \<and> url_Other u = [] \<and> \<not> url_Lr u"
  by (auto simp: url_GetParams_def named_param_def)

lemma ToLower_scheme: "s \<in> {''sip'', ''sips''} \<Longrightarrow> ToLower s = s \<and> CHR '':'' \<notin> set s"
  by (auto simp: ToLower_def lower_def)

lemma NewSipURL_sel [simp]:
  "url_Username (NewSipURL n h p l) = n" "url_Password (NewSipURL n h p l) = []"
  "url_Userparams (NewSipURL n h p l) = []" "url_Headers (NewSipURL n h p l) = Map.empty"
  "url_Port (NewSipURL n h p l) = p" "url_Host (NewSipURL n h p l) = h"
  by (simp_all add: NewSipURL_def)

lemma option_case_id: "(case x of None \<Rightarrow> None | Some y \<Rightarrow> Some y) = x"
  by (cases x) simp_all

lemma cut_user_text:
  assumes "url_user_ok u" "CHR ''@'' \<notin> set rest"
  shows "\<exists>up. (case go_cut (CHR ''@'') (url_user_text u @ rest) of
        (a, Some b) \<Rightarrow> (Some a, b) | (a, None) \<Rightarrow> (None, url_user_text u @ rest)) = (up, rest)
    \<and> (\<forall>w. url_Username w = [] \<and> url_Userparams w = [] \<and> url_Password w = [] \<longrightarrow>
          (case up of Some x \<Rightarrow> parse_userpass x w | None \<Rightarrow> w) =
          w\<lparr>url_Username := url_Username u, url_Userparams := url_Userparams u, url_Password := url_Password u\<rparr>)"
proof (cases "url_Username u = []")
  case True
  then have "url_user_text u = []" "url_Password u = []" "url_Userparams u = []"
    using assms(1) by (simp_all add: url_user_text_def url_user_ok_def)
  then show ?thesis using True assms(2) by (simp add: cut_absent)
next
  case False
  then obtain t where t: "url_user_text u = t @ ''@''" "CHR ''@'' \<notin> set t"
    using parse_user_text [OF assms(1)] by blast
  have "parse_userpass t w = w\<lparr>url_Username := url_Username u,
        url_Userparams := (if url_Userparams u = [] then url_Userparams w else url_Userparams u),
        url_Password := (if url_Password u = [] then url_Password w else url_Password u)\<rparr>" for w
    using parse_user_text [OF assms(1) False, of w] t by auto
  then show ?thesis using t by (intro exI [of _ "Some t"]) (auto simp: cut_append)
qed

lemma parseSipURL_eval:
  assumes "(case go_cut (CHR ''@'') url of (a, Some b) \<Rightarrow> (Some a, b) | (a, None) \<Rightarrow> (None, url)) = (up, rest)"
    and "go_split (CHR '';'') rest = hd0 # ps"
    and "(if ps = [] then go_cut (CHR ''?'') hd0 else (hd0, None)) = (hp, hs)"
    and "parse_hostport relaxed hp = Inr (h, p)" "(case p of Some s \<Rightarrow> parse_port s | None \<Rightarrow> Inr None) = Inr q"
    and "(case hs of Some x \<Rightarrow> u\<lparr>url_Headers := url_headers x (url_Headers u)\<rparr> | None \<Rightarrow> u) = u1"
    and "(case up of Some x \<Rightarrow> parse_userpass x u1 | None \<Rightarrow> u1) = u2" "url_Port u2 = None"
  shows "parseSipURL relaxed url u = Inr (parse_url_params ps (u2\<lparr>url_Host := h, url_Port := q\<rparr>))"
  by (simp only: parseSipURL_def Let_def assms prod.case list.sel bind_result_def sum.case option_case_id)

lemma parseSipURL_text:
  assumes u: "url_text_ok u"
    and hs: "list_all url_header_key_ok (map fst hs)" "distinct (map fst hs)" "map_of hs = url_Headers u"
  shows "parseSipURL relaxed (url_user_text u @ local_host hostport (url_Host u) @ local_port hostport (url_Port u)
      @ each_after (CHR '';'') (url_GetParams u) @ url_headers_text hs)
    ((NewSipURL [] (NewMyAddress []) None False)\<lparr>url_Scheme := url_Scheme u\<rparr>) = Inr u"
proof -
  let ?hp = "local_host hostport (url_Host u) @ local_port hostport (url_Port u)"
  let ?ps = "url_GetParams u" and ?H = "url_headers_text hs"
  let ?rest = "?hp @ each_after (CHR '';'') ?ps @ ?H"
  let ?u0 = "(NewSipURL [] (NewMyAddress []) None False)\<lparr>url_Scheme := url_Scheme u\<rparr>"
  have ok: "\<not> is_system (url_Host u)" "host_text_ok (ma_address (url_Host u))" "port_text_ok (url_Port u)"
    "url_user_ok u" "url_params_ok u" using u by (simp_all add: url_text_ok_def)
  have hp: "avoids ''@;?'' ?hp"
    using ok(1-3) Atoi_plain by (auto simp: local_host_def local_port_def host_text_ok_def port_text_ok_def avoids_def
        split: option.splits)
  note H = url_headers_text_avoids [OF hs(1)]
  have parts: "go_split (CHR '';'') ?rest = (if ?ps = [] then [?hp @ ?H] else ?hp # butlast ?ps @ [last ?ps @ ?H])"
    by (rule split_params [OF _ GetParams_avoid [OF ok(5)]]) (use hp H in \<open>auto simp: avoids_def\<close>)
  have at: "CHR ''@'' \<notin> set ?rest"
    using hp H GetParams_avoid [OF ok(5)] by (auto simp: avoids_def list_all_iff each_after_def)
  have hosts: "parse_hostport relaxed ?hp = Inr (url_Host u, map_option mp_port (url_Port u))"
    by (rule parse_hostport_text [OF ok(1-3)])
  have prt: "(case map_option mp_port (url_Port u) of Some s \<Rightarrow> parse_port s | None \<Rightarrow> Inr None) = Inr (url_Port u)"
    using parse_port_text ok(3) by (cases "url_Port u") auto
  have q: "go_cut (CHR ''?'') (?hp @ ?H) = (?hp, if hs = [] then None else Some (go_join (CHR ''&'') (map header_pair hs)))"
    using hp cut_append [of "CHR ''?''" ?hp] by (auto simp: url_headers_text_def cut_absent avoids_def)
  obtain up where cut: "(case go_cut (CHR ''@'') (url_user_text u @ ?rest) of
        (a, Some b) \<Rightarrow> (Some a, b) | (a, None) \<Rightarrow> (None, url_user_text u @ ?rest)) = (up, ?rest)"
    and up: "\<And>w. url_Username w = [] \<Longrightarrow> url_Userparams w = [] \<Longrightarrow> url_Password w = [] \<Longrightarrow>
          (case up of Some x \<Rightarrow> parse_userpass x w | None \<Rightarrow> w) =
          w\<lparr>url_Username := url_Username u, url_Userparams := url_Userparams u, url_Password := url_Password u\<rparr>"
    using cut_user_text [OF ok(4) at] by blast
  have "parseSipURL relaxed (url_user_text u @ ?rest) ?u0 = Inr u"
  proof (cases "?ps = []")
    case True
    then have fields: "url_Usertype u = []" "url_Transport u = []" "url_Maddr u = []" "url_Method u = []"
      "url_Tag u = []" "url_Ttl u = -1" "url_Other u = []" "\<not> url_Lr u" by (simp_all add: GetParams_Nil)
    have parts: "go_split (CHR '';'') ?rest = [?hp @ ?H]" using parts True by simp
    have hdr: "(case (if hs = [] then None else Some (go_join (CHR ''&'') (map header_pair hs))) of
        None \<Rightarrow> ?u0 | Some h \<Rightarrow> ?u0\<lparr>url_Headers := url_headers h (url_Headers ?u0)\<rparr>) = ?u0\<lparr>url_Headers := url_Headers u\<rparr>"
      using hs(3) url_headers_text [OF hs(1,2)] by (cases "hs = []") (auto simp: NewSipURL_def)
    have "parseSipURL relaxed (url_user_text u @ ?rest) ?u0 = Inr (parse_url_params []
        (?u0\<lparr>url_Headers := url_Headers u, url_Username := url_Username u, url_Userparams := url_Userparams u,
           url_Password := url_Password u, url_Host := url_Host u, url_Port := url_Port u\<rparr>))"
      by (rule parseSipURL_eval [where ?u1.0 = "?u0\<lparr>url_Headers := url_Headers u\<rparr>",
            OF cut parts _ hosts prt _ up, THEN trans]) (rule hdr | simp add: q del: append_assoc split del: if_split)+
    also have "\<dots> = Inr u" using fields by (cases u) (simp add: NewSipURL_def parse_url_params_def)
    finally show ?thesis .
  next
    case False
    have parts: "go_split (CHR '';'') ?rest = ?hp # butlast ?ps @ [last ?ps @ ?H]" using parts False by simp
    have "parseSipURL relaxed (url_user_text u @ ?rest) ?u0 = Inr (parse_url_params (butlast ?ps @ [last ?ps @ ?H])
        (?u0\<lparr>url_Username := url_Username u, url_Userparams := url_Userparams u,
           url_Password := url_Password u, url_Host := url_Host u, url_Port := url_Port u\<rparr>))"
      by (rule parseSipURL_eval [OF cut parts _ hosts prt _ up]) simp+
    also have "\<dots> = Inr u" unfolding parse_tail_text [OF ok(5) hs False, of "?u0\<lparr>url_Username := url_Username u,
        url_Userparams := url_Userparams u, url_Password := url_Password u, url_Host := url_Host u, url_Port := url_Port u\<rparr>", simplified]
      by (cases u) (simp add: NewSipURL_def)
    finally show ?thesis .
  qed
  then show ?thesis by simp
qed

text \<open>
  Every printable SIP URL is read back from its text exactly, in strict and in relaxed
  mode and in whatever order the map of its headers is printed.
\<close>

lemma sip_url_roundtrip:
  assumes "url_text_ok u" "map_of hs = url_Headers u" "distinct (map fst hs)" "list_all url_header_key_ok (map fst hs)"
  shows "ParseSipURL auto_tel relaxed cfg (url_LocalStr hostport hs u) = Inr u"
proof -
  have "url_Scheme u \<in> {''sip'', ''sips''}" using assms(1) by (simp add: url_text_ok_def)
  note sc = this ToLower_scheme [OF this]
  have "go_cut (CHR '':'') (url_LocalStr hostport hs u) = (url_Scheme u, Some (url_user_text u
      @ local_host hostport (url_Host u) @ local_port hostport (url_Port u)
      @ each_after (CHR '';'') (url_GetParams u) @ url_headers_text hs))"
    using sc by (simp add: url_LocalStr_def cut_append)
  then show ?thesis using sc parseSipURL_text [OF assms(1) assms(4,3,2)] by (simp add: ParseSipURL_def Let_def)
qed

text \<open>
  What the strict parser does not survive: a URL without a host, and an IPv6 address without the
  closing bracket, make it read beyond the end of the text.
\<close>

lemma sip_url_without_host_panics:
  assumes "CHR ''@'' \<notin> set user" "avoids ''@;?]'' v6"
  shows "ParseSipURL auto_tel False cfg (''sip:'' @ user @ ''@'') = Inl index_panic"
    and "ParseSipURL auto_tel relaxed cfg (''sip:['' @ v6) = Inl index_panic"
  using assms
  by (simp_all add: ParseSipURL_def parseSipURL_def ToLower_def lower_def cut_append cut_absent go_split_absent
      parse_hostport_def bind_result_def avoids_def Let_def split: option.splits)

end
