(* ===== verification/Sip_Address_Text.thy ===== *)
theory Sip_Address_Text
  imports Sip_Url_Text
begin

text \<open>
  Reading and printing name-addresses: \<^verbatim>\<open>headers/sip_address.go\<close>. Go's conversions between
  floating point numbers and text are the arguments \<open>pf\<close> and \<open>ff\<close>, whether the non-ASCII
  runes of a name are letters or numbers is the argument \<open>wide\<close>, and the order in which the
  maps of headers and parameters are printed is given by the lists \<open>hs\<close> and \<open>ps\<close>.
\<close>

section \<open>Reading\<close>

fun parse_params :: "(string \<Rightarrow> rat option) \<Rightarrow> string list \<Rightarrow> sip_address \<Rightarrow> sip_address result" where
  "parse_params pf [] a = Inr a"
| "parse_params pf (l # ls) a =
     (if l = [] then parse_params pf ls a
      else (case go_cut (CHR ''='') l of
              (k, v) \<Rightarrow>
                if adr_params a k \<noteq> None then Inl (''Duplicate parameter in SIP address: '' @ k)
                else if k = ''q'' then
                  parse_params pf ls (case v of
                      Some s \<Rightarrow> (case pf s of Some q \<Rightarrow> a\<lparr>adr_q := q\<rparr> | None \<Rightarrow> a)
                    | None \<Rightarrow> a)
                else parse_params pf ls (a\<lparr>adr_params := (adr_params a)(k \<mapsto> v)\<rparr>)))"

definition parse_paramstring :: "(string \<Rightarrow> rat option) \<Rightarrow> string \<Rightarrow> sip_address \<Rightarrow> sip_address result" where
  "parse_paramstring pf s a = parse_params pf (go_split (CHR '';'') s) a"

text \<open>A quoted name in front of the opening brace, with what follows the brace.\<close>

definition quoted_name :: "string \<Rightarrow> (string \<times> string) option" where
  "quoted_name address =
     (if hd address = CHR 0x22 then
        (case go_cut (CHR 0x22) (tl address) of
           (nm, Some rest) \<Rightarrow>
             (case go_cut (CHR ''<'') rest of
                (_, Some url) \<Rightarrow> Some (TrimSpace nm, url)
              | (_, None) \<Rightarrow> None)
         | (nm, None) \<Rightarrow> None)
      else None)"

definition strip_quotes :: "string \<Rightarrow> string" where
  "strip_quotes s =
     (let s1 = (if s \<noteq> [] \<and> hd s = CHR 0x22 then tl s else s)
      in if s1 \<noteq> [] \<and> last s1 = CHR 0x22 then butlast s1 else s1)"

definition name_and_url :: "string \<Rightarrow> (string \<times> string) result" where
  "name_and_url address =
     (case quoted_name address of
        Some r \<Rightarrow> Inr r
      | None \<Rightarrow> (case go_cut (CHR ''<'') address of
          (nm, Some url) \<Rightarrow> Inr (strip_quotes (TrimSpace nm), url)
        | (nm, None) \<Rightarrow> Inl ''ParseSipAddress #1''))"

definition ParseSipAddress ::
  "(string \<Rightarrow> rat option) \<Rightarrow> bool \<Rightarrow> bool \<Rightarrow> sippy_config \<Rightarrow> string \<Rightarrow> sip_address result" where
  "ParseSipAddress pf auto_tel relaxed cfg address =
     (if take 4 (ToLower address) = ''sip:'' \<and> CHR ''<'' \<notin> set address then
        (case go_cut (CHR '';'') address of
           (url, ps) \<Rightarrow>
             bind_result (ParseSipURL auto_tel relaxed cfg url) (\<lambda>u.
               bind_result (case ps of
                   Some s \<Rightarrow> parse_paramstring pf s (NewSipAddress [] u)
                 | None \<Rightarrow> Inr (NewSipAddress [] u)) (\<lambda>a. Inr (a\<lparr>adr_hadbrace := False\<rparr>))))
      else if address = [] then Inl index_panic
      else bind_result (name_and_url address) (\<lambda>(nm, rest).
             case go_cut (CHR ''>'') rest of
               (url, None) \<Rightarrow> Inl ''ParseSipAddress #2''
             | (url, Some ps) \<Rightarrow>
                 bind_result (ParseSipURL auto_tel relaxed cfg url) (\<lambda>u.
                   parse_paramstring pf (TrimSpace ps) (NewSipAddress nm u))))"

section \<open>Printing\<close>

definition token_char :: "char \<Rightarrow> bool" where
  "token_char c \<longleftrightarrow> (let n = (of_char c :: nat) in
     (48 \<le> n \<and> n \<le> 57) \<or> (65 \<le> n \<and> n \<le> 90) \<or> (97 \<le> n \<and> n \<le> 122)
     \<or> c \<in> set (''-.!%*_+'' @ [CHR 0x60, CHR 0x27, CHR 0x7E]))"

definition needs_quote :: "(string \<Rightarrow> bool) \<Rightarrow> string \<Rightarrow> bool" where
  "needs_quote wide nm \<longleftrightarrow>
     list_ex (\<lambda>c. (of_char c :: nat) < 128 \<and> \<not> token_char c) nm
     \<or> (list_ex (\<lambda>c. 128 \<le> (of_char c :: nat)) nm \<and> \<not> wide nm)"

definition param_text :: "string \<times> string option \<Rightarrow> string" where
  "param_text = (\<lambda>(k, v). case v of None \<Rightarrow> k | Some x \<Rightarrow> k @ CHR ''='' # x)"

definition q_text :: "(rat \<Rightarrow> string) \<Rightarrow> rat \<Rightarrow> string list" where
  "q_text ff q = (if q \<noteq> 1 then [''q='' @ ff q] else [])"

definition address_LocalStr ::
  "(rat \<Rightarrow> string) \<Rightarrow> (string \<Rightarrow> bool) \<Rightarrow> host_port option \<Rightarrow> (string \<times> string) list \<Rightarrow>
   (string \<times> string option) list \<Rightarrow> sip_address \<Rightarrow> string" where
  "address_LocalStr ff wide hostport hs ps a =
     (let nm = adr_name a;
          brace = adr_hadbrace a \<or> nm \<noteq> [];
          shown = (if nm = [] then []
                   else if needs_quote wide nm then [CHR 0x22] @ nm @ [CHR 0x22] @ '' '' else nm @ '' '')
      in shown @ (if brace then ''<'' else []) @ url_LocalStr hostport hs (adr_url a) @ (if brace then ''>'' else [])
         @ each_after (CHR '';'') (map param_text ps @ q_text ff (adr_q a)))"

section \<open>Printable addresses\<close>

definition name_text_ok :: "(string \<Rightarrow> bool) \<Rightarrow> string \<Rightarrow> bool" where
  "name_text_ok wide nm \<longleftrightarrow>
     (if needs_quote wide nm then TrimSpace nm = nm \<and> CHR 0x22 \<notin> set nm else no_space nm)"

definition param_text_ok :: "string \<times> string option \<Rightarrow> bool" where
  "param_text_ok = (\<lambda>(k, v). k \<noteq> [] \<and> k \<noteq> ''q'' \<and> no_space k \<and> avoids ''=;'' k
     \<and> (case v of None \<Rightarrow> True | Some x \<Rightarrow> no_space x \<and> CHR '';'' \<notin> set x))"

definition braced_text_ok :: "(string \<Rightarrow> bool) \<Rightarrow> string \<Rightarrow> sip_address \<Rightarrow> bool" where
  "braced_text_ok wide url a \<longleftrightarrow>
     (if adr_hadbrace a then name_text_ok wide (adr_name a) \<and> CHR ''>'' \<notin> set url
      else adr_name a = [] \<and> url_Scheme (adr_url a) = ''sip'' \<and> avoids ''<;'' url)"

definition address_text_ok ::
  "(rat \<Rightarrow> string) \<Rightarrow> (string \<Rightarrow> bool) \<Rightarrow> host_port option \<Rightarrow> (string \<times> string) list \<Rightarrow>
   (string \<times> string option) list \<Rightarrow> sip_address \<Rightarrow> bool" where
  "address_text_ok ff wide hostport hs ps a \<longleftrightarrow>
     url_text_ok (adr_url a) \<and> list_all url_header_key_ok (map fst hs) \<and> distinct (map fst hs)
     \<and> braced_text_ok wide (url_LocalStr hostport hs (adr_url a)) a
     \<and> list_all param_text_ok ps \<and> distinct (map fst ps)
     \<and> no_space (ff (adr_q a)) \<and> CHR '';'' \<notin> set (ff (adr_q a))
     \<and> (adr_hadbrace a \<or> CHR ''<'' \<notin> set (each_after (CHR '';'') (map param_text ps @ q_text ff (adr_q a))))"

section \<open>The round trip\<close>

lemma param_text_plain:
  "param_text_ok p \<Longrightarrow> CHR '';'' \<notin> set (param_text p) \<and> param_text p \<noteq> [] \<and> no_space (param_text p)"
  by (cases p) (auto simp: param_text_ok_def param_text_def avoids_def ascii_space_def split: option.splits)

lemma param_text_cut: "param_text_ok p \<Longrightarrow> go_cut (CHR ''='') (param_text p) = p"
  by (cases p) (auto simp: param_text_ok_def param_text_def avoids_def cut_absent cut_append split: option.splits)

lemma parse_params_text:
  "list_all param_text_ok ps \<Longrightarrow> distinct (map fst ps) \<Longrightarrow> \<forall>k \<in> fst ` set ps. adr_params a k = None \<Longrightarrow>
   parse_params pf (map param_text ps @ ls) a = parse_params pf ls (a\<lparr>adr_params := adr_params a ++ map_of ps\<rparr>)"
proof (induction ps arbitrary: a)
  case (Cons p ps)
  obtain k v where p: "p = (k, v)" by (cases p)
  have ok: "param_text_ok p" "k \<noteq> ''q''" "adr_params a k = None" "k \<notin> fst ` set ps"
    using Cons.prems p by (auto simp: param_text_ok_def)
  have "parse_params pf (map param_text (p # ps) @ ls) a =
      parse_params pf (map param_text ps @ ls) (a\<lparr>adr_params := (adr_params a)(k \<mapsto> v)\<rparr>)"
    using ok p param_text_plain [OF ok(1)] param_text_cut [OF ok(1)] by simp
  also have "\<dots> = parse_params pf ls (a\<lparr>adr_params := (adr_params a)(k \<mapsto> v) ++ map_of ps\<rparr>)"
    using Cons.prems ok(4) p by (subst Cons.IH) (auto simp: image_iff)
  also have "(adr_params a)(k \<mapsto> v) ++ map_of ps = adr_params a ++ map_of (p # ps)"
  proof -
    have "map_of ps k = None" using ok(4) by (simp add: map_of_eq_None_iff)
    then show ?thesis using p by (auto simp: fun_eq_iff map_add_def split: option.splits)
  qed
  finally show ?case .
qed simp

lemma parse_q_text:
  assumes "pf (ff q) = Some q" "adr_params a ''q'' = None" "adr_q a = 1"
  shows "parse_params pf (q_text ff q) a = Inr (a\<lparr>adr_q := q\<rparr>)"
  using assms by (cases a) (auto simp: q_text_def)

text \<open>All parameters, read from the pieces the printer writes.\<close>

lemma parse_all_params:
  assumes "list_all param_text_ok ps" "distinct (map fst ps)" "pf (ff q) = Some q"
  shows "parse_params pf (map param_text ps @ q_text ff q) (NewSipAddress nm u) =
    Inr ((NewSipAddress nm u)\<lparr>adr_params := map_of ps, adr_q := q\<rparr>)"
proof -
  have "map_of ps ''q'' = None" using assms(1) by (force simp: map_of_eq_None_iff list_all_iff param_text_ok_def)
  with parse_params_text [OF assms(1,2), of "NewSipAddress nm u" pf "q_text ff q"] parse_q_text [where pf = pf and ff = ff and q = q, OF assms(3)]
  show ?thesis by (simp add: NewSipAddress_def)
qed

lemma pieces_plain:
  assumes "list_all param_text_ok ps" "no_space (ff q)" "CHR '';'' \<notin> set (ff q)"
  shows "\<forall>p \<in> set (map param_text ps @ q_text ff q). CHR '';'' \<notin> set p \<and> no_space p"
  using assms param_text_plain by (auto simp: list_all_iff q_text_def ascii_space_def)

lemma no_space_each_after: "\<forall>p \<in> set ps. no_space p \<Longrightarrow> no_space (each_after (CHR '';'') ps)"
  by (induction ps) (auto simp: ascii_space_def)

lemma parse_paramstring_text:
  assumes "list_all param_text_ok ps" "distinct (map fst ps)" "pf (ff q) = Some q"
    and "no_space (ff q)" "CHR '';'' \<notin> set (ff q)"
  shows "parse_paramstring pf (TrimSpace (each_after (CHR '';'') (map param_text ps @ q_text ff q))) (NewSipAddress nm u) =
    Inr ((NewSipAddress nm u)\<lparr>adr_params := map_of ps, adr_q := q\<rparr>)"
proof -
  note pl = pieces_plain [where ff = ff and q = q, OF assms(1,4,5)]
  have "TrimSpace (each_after (CHR '';'') (map param_text ps @ q_text ff q)) = each_after (CHR '';'') (map param_text ps @ q_text ff q)"
    using pl by (intro TrimSpace_no_space no_space_each_after) auto
  moreover have "go_split (CHR '';'') ([] @ each_after (CHR '';'') (map param_text ps @ q_text ff q)) =
      [] # map param_text ps @ q_text ff q"
    using pl by (intro go_split_each_after) auto
  ultimately show ?thesis using parse_all_params [where pf = pf and ff = ff and q = q, OF assms(1-3)] by (simp add: parse_paramstring_def)
qed

text \<open>Behind a bare URL the parameters are cut off at the first semicolon.\<close>

lemma bare_params_text:
  assumes "list_all param_text_ok ps" "distinct (map fst ps)" "pf (ff q) = Some q"
    and "no_space (ff q)" "CHR '';'' \<notin> set (ff q)" "CHR '';'' \<notin> set url"
  shows "(case go_cut (CHR '';'') (url @ each_after (CHR '';'') (map param_text ps @ q_text ff q)) of (u, p) \<Rightarrow>
        (u, case p of Some s \<Rightarrow> parse_paramstring pf s (NewSipAddress [] v) | None \<Rightarrow> Inr (NewSipAddress [] v))) =
    (url, Inr ((NewSipAddress [] v)\<lparr>adr_params := map_of ps, adr_q := q\<rparr>))"
proof (cases "map param_text ps @ q_text ff q")
  case Nil
  then have "ps = []" "q = 1" by (auto simp: q_text_def split: if_splits)
  then show ?thesis using assms(6) by (simp add: q_text_def cut_absent NewSipAddress_def)
next
  case (Cons x xs)
  have plain: "\<forall>p \<in> set (x # xs). CHR '';'' \<notin> set p"
    using pieces_plain [where ff = ff and q = q, OF assms(1,4,5)] Cons by simp
  have "go_split (CHR '';'') (x @ each_after (CHR '';'') xs) = x # xs"
    using plain by (intro go_split_each_after) auto
  moreover have "go_cut (CHR '';'') (url @ CHR '';'' # x @ each_after (CHR '';'') xs) = (url, Some (x @ each_after (CHR '';'') xs))"
    by (rule cut_append [OF assms(6)])
  ultimately show ?thesis
    using parse_all_params [where pf = pf and ff = ff and q = q, OF assms(1-3)] Cons by (simp add: parse_paramstring_def)
qed

lemma TrimSpace_blank_behind: "no_space s \<Longrightarrow> TrimSpace (s @ '' '') = s"
proof (cases s)
  case (Cons c t)
  assume ns: "no_space s"
  have "space_len (s @ '' '') = 0" using Cons ns no_space_head [of c t] by simp
  then show ?thesis using ns trim_left_rev_id [OF ns] by (simp add: TrimSpace_def trim_left_id ascii_space_def)
qed (simp add: TrimSpace_def ascii_space_def)

lemma unquoted_chars:
  assumes "\<not> needs_quote wide nm" "c \<in> set nm" "(of_char c :: nat) < 128"
  shows "token_char c"
  using assms by (auto simp: needs_quote_def list_ex_iff)

lemma unquoted_plain:
  assumes "\<not> needs_quote wide nm"
  shows "CHR 0x22 \<notin> set nm" "CHR ''<'' \<notin> set nm"
  using unquoted_chars [OF assms, of "CHR 0x22"] unquoted_chars [OF assms, of "CHR ''<''"]
  by (auto simp: token_char_def)

text \<open>The name in front of the brace, quoted or not, is read back with what follows the brace.\<close>

lemma name_and_url_text:
  assumes "name_text_ok wide nm"
  shows "name_and_url ((if nm = [] then [] else if needs_quote wide nm then [CHR 0x22] @ nm @ [CHR 0x22] @ '' '' else nm @ '' '')
    @ ''<'' @ rest) = Inr (nm, rest)"
proof (cases "nm = []")
  case True
  then show ?thesis by (simp add: name_and_url_def quoted_name_def strip_quotes_def TrimSpace_def)
next
  case False
  show ?thesis
  proof (cases "needs_quote wide nm")
    case True
    have nm: "CHR 0x22 \<notin> set nm" "TrimSpace nm = nm" using assms True by (simp_all add: name_text_ok_def)
    have "go_cut (CHR 0x22) (nm @ CHR 0x22 # CHR '' '' # CHR ''<'' # rest) = (nm, Some (CHR '' '' # CHR ''<'' # rest))"
      by (rule cut_append [OF nm(1)])
    then show ?thesis using False True nm(2) by (simp add: name_and_url_def quoted_name_def)
  next
    case quote: False
    have ns: "no_space nm" using assms quote by (simp add: name_text_ok_def)
    note plain = unquoted_plain [OF quote]
    have "hd (nm @ t) \<noteq> CHR 0x22" for t using plain False by (cases nm) auto
    moreover have "go_cut (CHR ''<'') ((nm @ '' '') @ CHR ''<'' # rest) = (nm @ '' '', Some rest)"
      by (rule cut_append) (use plain in simp)
    moreover have "hd nm \<noteq> CHR 0x22" "last nm \<noteq> CHR 0x22"
      using plain(1) False hd_in_set [of nm] last_in_set [of nm] by metis+
    then have "strip_quotes nm = nm" by (simp add: strip_quotes_def)
    ultimately show ?thesis using False quote TrimSpace_blank_behind [OF ns]
      by (simp add: name_and_url_def quoted_name_def)
  qed
qed

lemma url_text_head: "url_text_ok u \<Longrightarrow> url_Scheme u = ''sip'' \<Longrightarrow> take 4 (ToLower (url_LocalStr hostport hs u @ t)) = ''sip:''"
  by (simp add: url_LocalStr_def ToLower_def lower_def)

lemma address_roundtrip:
  assumes ok: "address_text_ok ff wide hostport hs ps a"
    and maps: "map_of hs = url_Headers (adr_url a)" "map_of ps = adr_params a"
    and q: "pf (ff (adr_q a)) = Some (adr_q a)"
  shows "ParseSipAddress pf auto_tel relaxed cfg (address_LocalStr ff wide hostport hs ps a) = Inr a"
proof -
  let ?url = "url_LocalStr hostport hs (adr_url a)"
  let ?ps = "each_after (CHR '';'') (map param_text ps @ q_text ff (adr_q a))"
  have o: "url_text_ok (adr_url a)" "list_all url_header_key_ok (map fst hs)" "distinct (map fst hs)"
    "braced_text_ok wide ?url a" "list_all param_text_ok ps" "distinct (map fst ps)"
    "no_space (ff (adr_q a))" "CHR '';'' \<notin> set (ff (adr_q a))"
    using ok by (simp_all add: address_text_ok_def)
  have url: "ParseSipURL auto_tel relaxed cfg ?url = Inr (adr_url a)"
    by (rule sip_url_roundtrip [OF o(1) maps(1) o(3,2)])
  have params: "parse_paramstring pf (TrimSpace ?ps) (NewSipAddress nm (adr_url a)) =
      Inr ((NewSipAddress nm (adr_url a))\<lparr>adr_params := adr_params a, adr_q := adr_q a\<rparr>)" for nm
    using parse_paramstring_text [where pf = pf and ff = ff and q = "adr_q a", OF o(5,6) q o(7,8)] maps(2) by simp
  show ?thesis
  proof (cases "adr_hadbrace a")
    case True
    let ?nm = "if adr_name a = [] then [] else if needs_quote wide (adr_name a)
        then [CHR 0x22] @ adr_name a @ [CHR 0x22] @ '' '' else adr_name a @ '' ''"
    have shown: "address_LocalStr ff wide hostport hs ps a = ?nm @ ''<'' @ ?url @ CHR ''>'' # ?ps"
      using True by (simp add: address_LocalStr_def Let_def)
    have b: "name_text_ok wide (adr_name a)" "CHR ''>'' \<notin> set ?url"
      using o(4) True by (simp_all add: braced_text_ok_def)
    have "go_cut (CHR ''>'') (?url @ CHR ''>'' # ?ps) = (?url, Some ?ps)" by (rule cut_append [OF b(2)])
    then have "ParseSipAddress pf auto_tel relaxed cfg (?nm @ ''<'' @ ?url @ CHR ''>'' # ?ps) =
        Inr ((NewSipAddress (adr_name a) (adr_url a))\<lparr>adr_params := adr_params a, adr_q := adr_q a\<rparr>)"
      using name_and_url_text [OF b(1), of "?url @ CHR ''>'' # ?ps"] url params
      by (simp add: ParseSipAddress_def bind_result_def del: append_Cons append_assoc each_after_simps)
    also have "(NewSipAddress (adr_name a) (adr_url a))\<lparr>adr_params := adr_params a, adr_q := adr_q a\<rparr> = a"
      using True by (cases a) (simp add: NewSipAddress_def)
    finally show ?thesis by (simp only: shown)
  next
    case False
    then have b: "adr_name a = []" "url_Scheme (adr_url a) = ''sip''" "avoids ''<;'' ?url" "CHR ''<'' \<notin> set ?ps"
      using o(4) ok by (simp_all add: braced_text_ok_def address_text_ok_def)
    have shown: "address_LocalStr ff wide hostport hs ps a = ?url @ ?ps"
      using False b(1) by (simp add: address_LocalStr_def Let_def)
    note head = url_text_head [OF o(1) b(2), of hostport hs ?ps]
    have lt: "CHR ''<'' \<notin> set (?url @ ?ps)" "CHR '';'' \<notin> set ?url" using b(3,4) by (auto simp: avoids_def)
    have "(case go_cut (CHR '';'') (?url @ ?ps) of (u, p) \<Rightarrow>
          (u, case p of Some s \<Rightarrow> parse_paramstring pf s (NewSipAddress [] (adr_url a)) | None \<Rightarrow> Inr (NewSipAddress [] (adr_url a)))) =
        (?url, Inr ((NewSipAddress [] (adr_url a))\<lparr>adr_params := adr_params a, adr_q := adr_q a\<rparr>))"
      using bare_params_text [where pf = pf and ff = ff and q = "adr_q a", OF o(5,6) q o(7,8) lt(2)] maps(2) by simp
    then have "ParseSipAddress pf auto_tel relaxed cfg (?url @ ?ps) =
        Inr ((NewSipAddress [] (adr_url a))\<lparr>adr_params := adr_params a, adr_q := adr_q a, adr_hadbrace := False\<rparr>)"
      using head lt(1) url by (auto simp: ParseSipAddress_def bind_result_def split: prod.splits)
    also have "(NewSipAddress [] (adr_url a))\<lparr>adr_params := adr_params a, adr_q := adr_q a, adr_hadbrace := False\<rparr> = a"
      using False b(1) by (cases a) (simp add: NewSipAddress_def)
    finally show ?thesis by (simp only: shown)
  qed
qed

text \<open>
  Property C30. Every printable name-address is read back from its text exactly: with a quoted, a plain
  or no display name, with braces or without, whatever the order of the parameters, given
  that the text of its q value reads back as that value.
\<close>

theorem sip_address_roundtrip:
  assumes ok: "address_text_ok ff wide hostport hs ps a"
    and maps: "map_of hs = url_Headers (adr_url a)" "map_of ps = adr_params a"
    and q: "pf (ff (adr_q a)) = Some (adr_q a)"
  shows "ParseSipAddress pf auto_tel relaxed cfg (address_LocalStr ff wide hostport hs ps a) = Inr a"
  using assms by (rule address_roundtrip)

end
