(* ===== verification/Sip_Header_Text.thy ===== *)
theory Sip_Header_Text
  imports Sip_Address_Text
begin

text \<open>
  Reading and printing the headers that identify a transaction: Via (\<^verbatim>\<open>headers/sip_via.go\<close>), CSeq
  (\<^verbatim>\<open>headers/sip_cseq.go\<close>) and RAck (\<^verbatim>\<open>headers/sip_rack.go\<close>), the Reason header
  (\<^verbatim>\<open>headers/sip_reason.go\<close>), and how a header with several addresses is cut into them
  (\<^verbatim>\<open>headers/sip_address_hf.go\<close>).
\<close>

section \<open>CSeq and RAck\<close>

definition cseq_String :: "cseq_body \<Rightarrow> string" where
  "cseq_String c = Itoa (CSeq_num c) @ '' '' @ CSeq_Method c"

definition cseq_parse :: "string \<Rightarrow> cseq_body result" where
  "cseq_parse s =
     (case FieldsN s 2 of
        [] \<Rightarrow> Inl index_panic
      | n # ms \<Rightarrow> (case Atoi n of
          None \<Rightarrow> Inl (''strconv.Atoi: parsing '' @ n)
        | Some i \<Rightarrow> Inr \<lparr>CSeq_num = i, CSeq_Method = (case ms of [m] \<Rightarrow> m | _ \<Rightarrow> [])\<rparr>))"

definition rack_String :: "rack_body \<Rightarrow> string" where
  "rack_String r = Itoa (RAck_RSeq r) @ '' '' @ Itoa (RAck_CSeq r) @ '' '' @ RAck_Method r"

definition rack_parse :: "string \<Rightarrow> rack_body result" where
  "rack_parse s =
     (case FieldsN s 3 of
        [a, b, m] \<Rightarrow>
          (case Atoi a of
             None \<Rightarrow> Inl (''strconv.Atoi: parsing '' @ a)
           | Some rseq \<Rightarrow> (case Atoi b of
               None \<Rightarrow> Inl (''strconv.Atoi: parsing '' @ b)
             | Some cseq \<Rightarrow> Inr \<lparr>RAck_CSeq = cseq, RAck_RSeq = rseq, RAck_Method = m\<rparr>))
      | _ \<Rightarrow> Inl ''Malformed RAck field'')"

definition int64 :: "int \<Rightarrow> bool" where
  "int64 i \<longleftrightarrow> int64_min \<le> i \<and> i \<le> int64_max"

lemma cseq_roundtrip:
  assumes "int64 (CSeq_num c)" "no_space (CSeq_Method c)" "CSeq_Method c \<noteq> []"
  shows "cseq_parse (cseq_String c) = Inr c"
proof -
  have "FieldsN (cseq_String c) 2 = [Itoa (CSeq_num c), CSeq_Method c]"
    using fields_scan_field [of "Itoa (CSeq_num c)" 2 "CSeq_Method c"] fields_scan_last [of "CSeq_Method c"] assms
    by (simp add: FieldsN_def cseq_String_def)
  then show ?thesis using assms by (cases c) (simp add: cseq_parse_def int64_def Atoi_Itoa)
qed

lemma rack_roundtrip:
  assumes "int64 (RAck_RSeq r)" "int64 (RAck_CSeq r)" "no_space (RAck_Method r)" "RAck_Method r \<noteq> []"
  shows "rack_parse (rack_String r) = Inr r"
proof -
  have "FieldsN (rack_String r) 3 = [Itoa (RAck_RSeq r), Itoa (RAck_CSeq r), RAck_Method r]"
    using fields_scan_field [of "Itoa (RAck_RSeq r)" 3 "Itoa (RAck_CSeq r) @ '' '' @ RAck_Method r"]
      fields_scan_field [of "Itoa (RAck_CSeq r)" 2 "RAck_Method r"] fields_scan_last [of "RAck_Method r"] assms
    by (simp add: FieldsN_def rack_String_def)
  then show ?thesis using assms by (cases r) (simp add: rack_parse_def int64_def Atoi_Itoa)
qed

section \<open>Via\<close>

definition empty_via :: "string \<Rightarrow> via_body" where
  "empty_via sipver =
     \<lparr>via_sipver = sipver, via_host = NewMyAddress [], via_port = None, via_extra_headers = [],
      via_received = None, via_rport = None, via_ttl = None, via_maddr = None, via_branch = None, via_extension = None,
      via_received_exists = False, via_rport_exists = False, via_ttl_exists = False,
      via_maddr_exists = False, via_branch_exists = False, via_extension_exists = False\<rparr>"

definition via_set_param :: "string \<Rightarrow> via_body \<Rightarrow> via_body" where
  "via_set_param param v =
     (case go_cut (CHR ''='') (TrimSpace param) of
        (k, val) \<Rightarrow>
          if k = ''received'' then v\<lparr>via_received := val, via_received_exists := True\<rparr>
          else if k = ''rport'' then v\<lparr>via_rport := val, via_rport_exists := True\<rparr>
          else if k = ''ttl'' then v\<lparr>via_ttl := val, via_ttl_exists := True\<rparr>
          else if k = ''maddr'' then v\<lparr>via_maddr := val, via_maddr_exists := True\<rparr>
          else if k = ''branch'' then v\<lparr>via_branch := val, via_branch_exists := True\<rparr>
          else if k = ''extension'' then v\<lparr>via_extension := val, via_extension_exists := True\<rparr>
          else v\<lparr>via_extra_headers := via_extra_headers v @ CHR '';'' # k
                  @ (case val of Some x \<Rightarrow> CHR ''='' # x | None \<Rightarrow> [])\<rparr>)"

definition via_parse :: "string \<Rightarrow> via_body result" where
  "via_parse s =
     (case FieldsN s 2 of
        [sipver, rest] \<Rightarrow>
          (let arr = go_split (CHR '';'') rest;
               v = fold via_set_param (tl arr) (empty_via sipver)
           in Inr (case SplitHostPort (hd arr) of
                     None \<Rightarrow> v\<lparr>via_host := NewMyAddress (hd arr), via_port := None\<rparr>
                   | Some (h, p) \<Rightarrow> v\<lparr>via_host := NewMyAddress h, via_port := Some (NewMyPort p)\<rparr>))
      | _ \<Rightarrow> Inl (''Bad via: '' @ s))"

definition via_param :: "string \<Rightarrow> string option \<Rightarrow> bool \<Rightarrow> string list" where
  "via_param k val present = (if present then [param_text (k, val)] else [])"

definition via_params :: "via_body \<Rightarrow> string list" where
  "via_params v =
     via_param ''received'' (via_received v) (via_received_exists v)
     @ via_param ''rport'' (via_rport v) (via_rport_exists v)
     @ via_param ''ttl'' (via_ttl v) (via_ttl_exists v)
     @ via_param ''maddr'' (via_maddr v) (via_maddr_exists v)
     @ via_param ''branch'' (via_branch v) (via_branch_exists v)
     @ via_param ''extension'' (via_extension v) (via_extension_exists v)"

definition via_localString :: "host_port option \<Rightarrow> via_body \<Rightarrow> string" where
  "via_localString hostport v =
     via_sipver v @ '' '' @ local_host hostport (via_host v) @ local_port hostport (via_port v)
     @ each_after (CHR '';'') (via_params v) @ via_extra_headers v"

text \<open>A printable Via: the parameters present in it, the extra ones as a list, host and port.\<close>

definition via_value_ok :: "string option \<Rightarrow> bool \<Rightarrow> bool" where
  "via_value_ok val present \<longleftrightarrow> (if present then (case val of None \<Rightarrow> True | Some x \<Rightarrow> no_space x \<and> CHR '';'' \<notin> set x)
     else val = None)"

definition via_extra_ok :: "string \<times> string option \<Rightarrow> bool" where
  "via_extra_ok p \<longleftrightarrow> param_text_ok p
     \<and> fst p \<notin> set [''received'', ''rport'', ''ttl'', ''maddr'', ''branch'', ''extension'']"

definition via_host_ok :: "my_address \<Rightarrow> my_port option \<Rightarrow> bool" where
  "via_host_ok h p \<longleftrightarrow> \<not> is_system h \<and> host_text_ok (ma_address h) \<and> no_space (ma_address h)
     \<and> (case p of
          Some q \<Rightarrow> \<not> port_is_system q \<and> avoids '':;[]'' (mp_port q) \<and> no_space (mp_port q)
             \<and> (if hd (ma_address h) = CHR ''[''
                then CHR ''['' \<notin> set (tl (ma_address h)) \<and> avoids '']['' (butlast (tl (ma_address h)))
                     \<and> NewMyAddress (butlast (tl (ma_address h))) = h
                else avoids ''[]'' (ma_address h))
        | None \<Rightarrow> hd (ma_address h) = CHR ''['' \<or> CHR '':'' \<notin> set (ma_address h))"

definition via_text_ok :: "(string \<times> string option) list \<Rightarrow> via_body \<Rightarrow> bool" where
  "via_text_ok extra v \<longleftrightarrow>
     via_sipver v \<noteq> [] \<and> no_space (via_sipver v) \<and> via_host_ok (via_host v) (via_port v)
     \<and> via_value_ok (via_received v) (via_received_exists v) \<and> via_value_ok (via_rport v) (via_rport_exists v)
     \<and> via_value_ok (via_ttl v) (via_ttl_exists v) \<and> via_value_ok (via_maddr v) (via_maddr_exists v)
     \<and> via_value_ok (via_branch v) (via_branch_exists v) \<and> via_value_ok (via_extension v) (via_extension_exists v)
     \<and> list_all via_extra_ok extra \<and> via_extra_headers v = each_after (CHR '';'') (map param_text extra)"

lemma known_param:
  assumes "via_value_ok val True" "no_space k" "avoids ''=;'' k"
  shows "TrimSpace (param_text (k, val)) = param_text (k, val)" "go_cut (CHR ''='') (param_text (k, val)) = (k, val)"
    "CHR '';'' \<notin> set (param_text (k, val))" "no_space (param_text (k, val))"
proof -
  show "go_cut (CHR ''='') (param_text (k, val)) = (k, val)" "CHR '';'' \<notin> set (param_text (k, val))"
    using assms by (auto simp: param_text_def avoids_def via_value_ok_def cut_absent cut_append split: option.splits)
  show *: "no_space (param_text (k, val))"
    using assms by (auto simp: param_text_def via_value_ok_def ascii_space_def split: option.splits)
  show "TrimSpace (param_text (k, val)) = param_text (k, val)" by (rule TrimSpace_no_space [OF *])
qed

definition via_names :: "string list" where
  "via_names = [''received'', ''rport'', ''ttl'', ''maddr'', ''branch'', ''extension'']"

lemma via_name_plain: "k \<in> set via_names \<Longrightarrow> no_space k \<and> avoids ''=;'' k"
  by (auto simp: via_names_def avoids_def ascii_space_def)

lemma via_name_cut:
  assumes "via_value_ok val True" "k \<in> set via_names"
  shows "go_cut (CHR ''='') (TrimSpace (param_text (k, val))) = (k, val)"
  using known_param [OF assms(1)] via_name_plain [OF assms(2)] by simp

lemma set_via_param:
  "via_value_ok a p \<Longrightarrow> via_received v = None \<Longrightarrow> \<not> via_received_exists v \<Longrightarrow>
     fold via_set_param (via_param ''received'' a p) v = v\<lparr>via_received := a, via_received_exists := p\<rparr>"
  "via_value_ok a p \<Longrightarrow> via_rport v = None \<Longrightarrow> \<not> via_rport_exists v \<Longrightarrow>
     fold via_set_param (via_param ''rport'' a p) v = v\<lparr>via_rport := a, via_rport_exists := p\<rparr>"
  "via_value_ok a p \<Longrightarrow> via_ttl v = None \<Longrightarrow> \<not> via_ttl_exists v \<Longrightarrow>
     fold via_set_param (via_param ''ttl'' a p) v = v\<lparr>via_ttl := a, via_ttl_exists := p\<rparr>"
  "via_value_ok a p \<Longrightarrow> via_maddr v = None \<Longrightarrow> \<not> via_maddr_exists v \<Longrightarrow>
     fold via_set_param (via_param ''maddr'' a p) v = v\<lparr>via_maddr := a, via_maddr_exists := p\<rparr>"
  "via_value_ok a p \<Longrightarrow> via_branch v = None \<Longrightarrow> \<not> via_branch_exists v \<Longrightarrow>
     fold via_set_param (via_param ''branch'' a p) v = v\<lparr>via_branch := a, via_branch_exists := p\<rparr>"
  "via_value_ok a p \<Longrightarrow> via_extension v = None \<Longrightarrow> \<not> via_extension_exists v \<Longrightarrow>
     fold via_set_param (via_param ''extension'' a p) v = v\<lparr>via_extension := a, via_extension_exists := p\<rparr>"
  by (cases p; cases v; simp add: via_param_def via_set_param_def via_name_cut via_names_def; simp add: via_value_ok_def)+

lemma set_via_extra:
  "list_all via_extra_ok ps \<Longrightarrow> fold via_set_param (map param_text ps) v =
     v\<lparr>via_extra_headers := via_extra_headers v @ each_after (CHR '';'') (map param_text ps)\<rparr>"
proof (induction ps arbitrary: v)
  case (Cons p ps)
  have ok: "param_text_ok p" "via_extra_ok p" using Cons.prems by (simp_all add: via_extra_ok_def)
  then have "TrimSpace (param_text p) = param_text p" using param_text_plain TrimSpace_no_space by blast
  moreover have "param_text p = fst p @ (case snd p of Some x \<Rightarrow> CHR ''='' # x | None \<Rightarrow> [])"
    by (cases p) (simp add: param_text_def split: option.splits)
  ultimately have "via_set_param (param_text p) v = v\<lparr>via_extra_headers := via_extra_headers v @ CHR '';'' # param_text p\<rparr>"
    using param_text_cut [OF ok(1)] ok(2) by (cases p) (simp add: via_set_param_def via_extra_ok_def)
  then show ?case using Cons by simp
qed simp

lemma via_param_plain:
  "via_value_ok val present \<Longrightarrow> k \<in> set via_names \<Longrightarrow> \<forall>p \<in> set (via_param k val present). CHR '';'' \<notin> set p \<and> no_space p"
  using known_param [of val k] via_name_plain [of k] by (cases present) (simp_all add: via_param_def)

lemma via_params_plain:
  assumes "via_text_ok extra v"
  shows "\<forall>p \<in> set (via_params v @ map param_text extra). CHR '';'' \<notin> set p \<and> no_space p"
proof -
  have "\<forall>p \<in> set (via_params v). CHR '';'' \<notin> set p \<and> no_space p"
    using assms unfolding via_params_def set_append ball_Un via_text_ok_def
    by (intro conjI via_param_plain) (simp_all add: via_names_def)
  moreover have "\<forall>p \<in> set (map param_text extra). CHR '';'' \<notin> set p \<and> no_space p"
    using assms param_text_plain by (simp add: via_text_ok_def via_extra_ok_def list_all_iff)
  ultimately show ?thesis by (simp only: set_append ball_Un)
qed

lemma last_cut_Some: "last_cut sep s = Some (h, p) \<Longrightarrow> s = h @ sep # p"
  using cut_Some [of sep "rev s"] by (auto simp: last_cut_def rev_swap split: prod.splits option.splits)

lemma SplitHostPort_bracketed:
  assumes "CHR '']'' \<notin> set a"
  shows "SplitHostPort (CHR ''['' # a @ '']'') = None"
proof (cases "last_cut (CHR '':'') (CHR ''['' # a @ '']'')")
  case (Some hp)
  then obtain h p where hp: "hp = (h, p)" "CHR ''['' # a @ '']'' = h @ CHR '':'' # p"
    using last_cut_Some by (cases hp) blast
  have "go_cut (CHR '']'') ((CHR ''['' # a) @ CHR '']'' # []) = (CHR ''['' # a, Some [])"
    by (rule cut_append) (use assms in simp)
  moreover have "h \<noteq> CHR ''['' # a @ '']''" using hp(2) by auto
  ultimately show ?thesis using Some hp(1) by (simp add: SplitHostPort_def)
qed (simp add: SplitHostPort_def)

lemma bracketed_host:
  assumes "host_text_ok h" "hd h = CHR ''[''"
  shows "h = CHR ''['' # butlast (tl h) @ '']''"
proof -
  obtain t where t: "h = CHR ''['' # t" "t \<noteq> []" "last t = CHR '']''"
    using assms by (cases h) (auto simp: host_text_ok_def split: if_splits)
  then show ?thesis using append_butlast_last_id [of t] by simp
qed

lemma SplitHostPort_host:
  assumes "via_host_ok h p"
  shows "(case SplitHostPort (local_host hp h @ local_port hp p) of
      None \<Rightarrow> (NewMyAddress (local_host hp h @ local_port hp p), None)
    | Some (x, q) \<Rightarrow> (NewMyAddress x, Some (NewMyPort q))) = (h, p)"
proof -
  have sys: "\<not> is_system h" "host_text_ok (ma_address h)" using assms by (simp_all add: via_host_ok_def)
  have lh: "local_host hp h = ma_address h" using sys by (simp add: local_host_def split: option.splits)
  note same = NewMyAddress_id [OF sys]
  show ?thesis
  proof (cases p)
    case None
    have "SplitHostPort (ma_address h) = None"
    proof (cases "hd (ma_address h) = CHR ''[''")
      case True
      have "CHR '']'' \<notin> set (butlast (tl (ma_address h)))"
        using sys(2) True in_set_butlastD [of "CHR '']''" "tl (ma_address h)"]
        by (cases "ma_address h") (auto simp: host_text_ok_def split: if_splits)
      then show ?thesis using SplitHostPort_bracketed bracketed_host [OF sys(2) True] by metis
    next
      case False
      then show ?thesis using assms None by (simp add: via_host_ok_def SplitHostPort_no_colon)
    qed
    then show ?thesis using None lh same by (simp add: local_port_def)
  next
    case (Some q)
    have q: "local_port hp p = CHR '':'' # mp_port q" "NewMyPort (mp_port q) = q" "avoids '':;[]'' (mp_port q)"
      using assms Some by (auto simp: via_host_ok_def local_port_def NewMyPort_def split: option.splits)
    show ?thesis
    proof (cases "hd (ma_address h) = CHR ''[''")
      case True
      let ?b = "butlast (tl (ma_address h))"
      have b: "avoids '']['' ?b" "NewMyAddress ?b = h" using assms Some True by (simp_all add: via_host_ok_def)
      then have "SplitHostPort (CHR ''['' # ?b @ CHR '']'' # CHR '':'' # mp_port q) = Some (?b, mp_port q)"
        by (intro SplitHostPort_ipv6) (use q(3) in \<open>auto simp: avoids_def\<close>)
      moreover have "CHR ''['' # ?b @ CHR '']'' # CHR '':'' # mp_port q = ma_address h @ CHR '':'' # mp_port q"
        using bracketed_host [OF sys(2) True] by (metis append_Cons append_Nil append_assoc)
      ultimately show ?thesis using b(2) q Some lh by simp
    next
      case False
      have "SplitHostPort (ma_address h @ CHR '':'' # mp_port q) = Some (ma_address h, mp_port q)"
        using assms Some False q(3) by (intro SplitHostPort_plain) (auto simp: via_host_ok_def host_text_ok_def avoids_def)
      then show ?thesis using q Some lh same by simp
    qed
  qed
qed

lemma via_roundtrip:
  assumes ok: "via_text_ok extra v"
  shows "via_parse (via_localString hp v) = Inr v"
proof -
  let ?host = "local_host hp (via_host v) @ local_port hp (via_port v)"
  let ?ps = "via_params v @ map param_text extra"
  let ?rest = "?host @ each_after (CHR '';'') ?ps"
  have host: "via_host_ok (via_host v) (via_port v)" using ok by (simp add: via_text_ok_def)
  have plain: "\<not> is_system (via_host v)" "ma_address (via_host v) \<noteq> []" "CHR '';'' \<notin> set (ma_address (via_host v))"
    "no_space (ma_address (via_host v))" "CHR '';'' \<notin> set (local_port hp (via_port v))" "no_space (local_port hp (via_port v))"
    using host by (auto simp: via_host_ok_def host_text_ok_def avoids_def local_port_def ascii_space_def split: option.splits)
  have lh: "local_host hp (via_host v) = ma_address (via_host v)"
    using plain(1) by (simp add: local_host_def split: option.splits)
  have sp: "go_split (CHR '';'') ?rest = ?host # ?ps"
    by (rule go_split_each_after) (use plain lh via_params_plain [OF ok] in simp_all)
  have "no_space (each_after (CHR '';'') qs)" if "\<forall>q\<in>set qs. no_space q" for qs
    using that by (induction qs) (auto simp: ascii_space_def)
  then have "no_space ?rest" using via_params_plain [OF ok] plain(4,6) lh by simp
  moreover have "?rest \<noteq> []" using plain lh by simp
  moreover have "via_localString hp v = via_sipver v @ '' '' @ ?rest"
    using ok by (simp add: via_localString_def via_text_ok_def each_after_def)
  ultimately have f: "FieldsN (via_localString hp v) 2 = [via_sipver v, ?rest]"
    using fields_scan_field [of "via_sipver v" 2 ?rest] fields_scan_last [of ?rest] ok
    by (simp add: FieldsN_def via_text_ok_def)
  have "fold via_set_param ?ps (empty_via (via_sipver v)) = v\<lparr>via_host := NewMyAddress [], via_port := None\<rparr>"
    using ok by (simp add: via_params_def via_text_ok_def set_via_param set_via_extra empty_via_def)
  then show ?thesis using SplitHostPort_host [OF host, of hp] f sp
    by (simp add: via_parse_def Let_def split: option.splits prod.splits) (cases v; simp)
qed

section \<open>The headers of a transaction survive printing and reading\<close>

text \<open>
  The three headers that identify a transaction survive being printed and read back: a Via
  with known parameters in any combination and further parameters in the order they were given, a CSeq
  and a RAck whose numbers fit a 64-bit integer and whose method is a word. So the transaction
  identifiers computed from a received copy are those of the message that was sent.
\<close>

theorem transaction_headers_roundtrip:
  "(via_text_ok extra v \<longrightarrow> via_parse (via_localString hp v) = Inr v)
   \<and> (int64 (CSeq_num c) \<and> no_space (CSeq_Method c) \<and> CSeq_Method c \<noteq> [] \<longrightarrow> cseq_parse (cseq_String c) = Inr c)
   \<and> (int64 (RAck_RSeq r) \<and> int64 (RAck_CSeq r) \<and> no_space (RAck_Method r) \<and> RAck_Method r \<noteq> []
       \<longrightarrow> rack_parse (rack_String r) = Inr r)"
  using via_roundtrip cseq_roundtrip rack_roundtrip by blast

end
