(* ===== verification/Digest_Auth.thy ===== *)
theory Digest_Auth
  imports Nonce_Oracle Sip_Header_Text Sippy_Msg
begin

text \<open>
  Digest authentication: challenges (\<^verbatim>\<open>headers/sip_www_authenticate.go\<close>) and credentials
  (\<^verbatim>\<open>headers/sip_authorization.go\<close>), made, printed, read and verified. The hash functions of the Go
  library are the argument \<open>hash\<close>, the block cipher of the nonces is \<open>aes\<close>, random bytes are arguments.
\<close>

section \<open>Digests\<close>

text \<open>What the strings of a login are: names of users, realms and algorithms, secrets, nonces and other parameters.\<close>

type_synonym login_name = string
type_synonym secret = string
type_synonym nonce = string
type_synonym hash_fun = "digest \<Rightarrow> string \<Rightarrow> string"

definition sess_suffix :: "string \<Rightarrow> bool" where
  "sess_suffix s \<longleftrightarrow> 5 \<le> length s \<and> drop (length s - 5) s = ''-sess''"

definition DigestCalcHA1 ::
  "hash_fun \<Rightarrow> algorithm \<Rightarrow> login_name \<Rightarrow> login_name \<Rightarrow> login_name \<Rightarrow> secret \<Rightarrow> nonce \<Rightarrow> nonce \<Rightarrow> secret" where
  "DigestCalcHA1 hash alg pszAlg user realm passw nonce cnonce =
     (let HA1 = hash (alg_NewHash alg) (user @ '':'' @ realm @ '':'' @ passw)
      in if sess_suffix pszAlg
         then hex_Encode (hash (alg_NewHash alg) (hex_Encode HA1 @ '':'' @ nonce @ '':'' @ cnonce))
         else hex_Encode HA1)"

definition DigestCalcResponse ::
  "hash_fun \<Rightarrow> algorithm \<Rightarrow> secret \<Rightarrow> nonce \<Rightarrow> string \<Rightarrow> nonce \<Rightarrow> string \<Rightarrow> string \<Rightarrow> string \<Rightarrow> string \<Rightarrow> secret" where
  "DigestCalcResponse hash alg HA1 nonce nc cnonce qop method uri entity =
     (let h = (\<lambda>s. hex_Encode (hash (alg_NewHash alg) s));
          s = method @ '':'' @ uri @ (if qop = ''auth-int'' then '':'' @ h entity else []);
          HA2 = h s
      in h (HA1 @ '':'' @ nonce @ '':''
            @ (if nc \<noteq> [] \<and> cnonce \<noteq> [] then nc @ '':'' @ cnonce @ '':'' @ qop @ '':'' else []) @ HA2))"

section \<open>Challenges\<close>

text \<open>\<open>rnd\<close> is the random nonce for an algorithm the library does not know.\<close>

definition newSipWWWAutenticateBody ::
  "(string \<Rightarrow> string) \<Rightarrow> string \<Rightarrow> nonce \<Rightarrow> login_name \<Rightarrow> login_name \<Rightarrow> 64 word \<Rightarrow> challenge_body" where
  "newSipWWWAutenticateBody aes iv rnd realm alg now =
     \<lparr>ch_realm = Some (NewMyAddress realm),
      ch_nonce = (case GetAlgorithm alg of None \<Rightarrow> hex_Encode rnd | Some a \<Rightarrow> EmitChallenge aes iv (alg_Mask a) now),
      ch_algorithm = alg, ch_qop = (if alg \<noteq> [] then [''auth''] else []), ch_otherparams = [], ch_opaque = []\<rparr>"

definition trim_quotes :: "string \<Rightarrow> string" where
  "trim_quotes s = rev (dropWhile (\<lambda>c. c = CHR 0x22) (rev (dropWhile (\<lambda>c. c = CHR 0x22) s)))"

definition quoted :: "string \<Rightarrow> string \<Rightarrow> string" where
  "quoted k v = k @ ''='' @ [CHR 0x22] @ v @ [CHR 0x22]"

definition challenge_params :: "challenge_body \<Rightarrow> string list" where
  "challenge_params b =
     [quoted ''nonce'' (ch_nonce b)]
     @ (if ch_algorithm b \<noteq> [] then [quoted ''algorithm'' (ch_algorithm b)] else [])
     @ (if ch_opaque b \<noteq> [] then [quoted ''opaque'' (ch_opaque b)] else [])
     @ (case ch_qop b of [] \<Rightarrow> [] | [q] \<Rightarrow> [''qop='' @ q] | qs \<Rightarrow> [quoted ''qop'' (go_join (CHR '','') qs)])
     @ ch_otherparams b"

definition challenge_localString :: "host_port option \<Rightarrow> challenge_body \<Rightarrow> string result" where
  "challenge_localString hostport b =
     (case ch_realm b of
        None \<Rightarrow> Inl nil_panic
      | Some r \<Rightarrow> Inr (''Digest '' @ quoted ''realm'' (local_host hostport r) @ each_after (CHR '','') (challenge_params b)))"

definition empty_challenge :: challenge_body where
  "empty_challenge = \<lparr>ch_realm = None, ch_nonce = [], ch_algorithm = [], ch_qop = [], ch_otherparams = [], ch_opaque = []\<rparr>"

definition challenge_param :: "string \<Rightarrow> challenge_body \<Rightarrow> challenge_body" where
  "challenge_param part b =
     (case go_cut (CHR ''='') (TrimSpace part) of
        (k, None) \<Rightarrow> b
      | (k, Some v) \<Rightarrow>
          if k = ''realm'' then b\<lparr>ch_realm := Some (NewMyAddress (trim_quotes v))\<rparr>
          else if k = ''nonce'' then b\<lparr>ch_nonce := trim_quotes v\<rparr>
          else if k = ''opaque'' then b\<lparr>ch_opaque := trim_quotes v\<rparr>
          else if k = ''algorithm'' then b\<lparr>ch_algorithm := trim_quotes v\<rparr>
          else if k = ''qop'' then b\<lparr>ch_qop := go_split (CHR '','') (trim_quotes v)\<rparr>
          else b\<lparr>ch_otherparams := ch_otherparams b @ [part]\<rparr>)"

definition challenge_parse :: "string \<Rightarrow> challenge_body result" where
  "challenge_parse s =
     (case FieldsN s 2 of
        [_, rest] \<Rightarrow> Inr (fold challenge_param (go_split (CHR '','') rest) empty_challenge)
      | _ \<Rightarrow> Inl ''Error parsing authentication (1)'')"

definition SupportedAlgorithm :: "challenge_body \<Rightarrow> bool" where
  "SupportedAlgorithm b \<longleftrightarrow> GetAlgorithm (ch_algorithm b) \<noteq> None"

section \<open>Credentials\<close>

definition newSipAuthorizationBody :: "login_name \<Rightarrow> nonce \<Rightarrow> string \<Rightarrow> login_name \<Rightarrow> login_name \<Rightarrow> authorization_body" where
  "newSipAuthorizationBody realm nonce uri username alg =
     \<lparr>au_username = username, au_uri = uri, au_realm = realm, au_nonce = nonce, au_response = [], au_qop = [],
      au_nc = [], au_cnonce = [], au_opaque = [], au_algorithm = alg, au_otherparams = []\<rparr>"

text \<open>\<open>rnd\<close> are the four random bytes of the client nonce.\<close>

definition constructAuthHF :: "string \<Rightarrow> string \<Rightarrow> string \<Rightarrow> challenge_body \<Rightarrow> authorization_body result" where
  "constructAuthHF rnd username uri b =
     (case ch_realm b of
        None \<Rightarrow> Inl nil_panic
      | Some r \<Rightarrow>
          (let a = newSipAuthorizationBody (ma_address r) (ch_nonce b) uri username (ch_algorithm b);
               a1 = (case ch_qop b of
                       [] \<Rightarrow> a
                     | q # _ \<Rightarrow> a\<lparr>au_qop := q, au_nc := ''00000001'', au_cnonce := hex_Encode rnd\<rparr>)
           in Inr (if ch_opaque b \<noteq> [] then a1\<lparr>au_opaque := ch_opaque b\<rparr> else a1)))"

definition GenResponseHA1 ::
  "(digest \<Rightarrow> string \<Rightarrow> string) \<Rightarrow> string \<Rightarrow> string \<Rightarrow> string \<Rightarrow> authorization_body \<Rightarrow> authorization_body" where
  "GenResponseHA1 hash HA1 method entity a =
     (case GetAlgorithm (au_algorithm a) of
        None \<Rightarrow> a
      | Some alg \<Rightarrow> a\<lparr>au_response := DigestCalcResponse hash alg HA1 (au_nonce a) (au_nc a) (au_cnonce a) (au_qop a)
            method (au_uri a) entity\<rparr>)"

definition auth_GenResponse ::
  "(digest \<Rightarrow> string \<Rightarrow> string) \<Rightarrow> string \<Rightarrow> string \<Rightarrow> string \<Rightarrow> authorization_body \<Rightarrow> authorization_body" where
  "auth_GenResponse hash password method entity a =
     (case GetAlgorithm (au_algorithm a) of
        None \<Rightarrow> a
      | Some alg \<Rightarrow>
          (let HA1 = DigestCalcHA1 hash alg (au_algorithm a) (au_username a) (au_realm a) password (au_nonce a) (au_cnonce a)
           in a\<lparr>au_response := DigestCalcResponse hash alg HA1 (au_nonce a) (au_nc a) (au_cnonce a) (au_qop a)
                method (au_uri a) entity\<rparr>))"

definition GenAuthHF ::
  "hash_fun \<Rightarrow> nonce \<Rightarrow> login_name \<Rightarrow> secret \<Rightarrow> string \<Rightarrow> string \<Rightarrow> string \<Rightarrow> challenge_body result \<Rightarrow>
   authorization_body result" where
  "GenAuthHF hash rnd username password method uri entity c =
     bind_result c (\<lambda>b. bind_result (constructAuthHF rnd username uri b) (\<lambda>a. Inr (auth_GenResponse hash password method entity a)))"

definition auth_String :: "authorization_body \<Rightarrow> string" where
  "auth_String a =
     ''Digest '' @ quoted ''username'' (au_username a)
     @ each_after (CHR '','') (
         [quoted ''realm'' (au_realm a), quoted ''nonce'' (au_nonce a), quoted ''uri'' (au_uri a), quoted ''response'' (au_response a)]
         @ (if au_algorithm a \<noteq> [] then [quoted ''algorithm'' (au_algorithm a)] else [])
         @ (if au_qop a \<noteq> [] then [quoted ''nc'' (au_nc a), quoted ''cnonce'' (au_cnonce a), ''qop='' @ au_qop a] else [])
         @ (if au_opaque a \<noteq> [] then [quoted ''opaque'' (au_opaque a)] else []))
     @ au_otherparams a"

definition auth_param :: "string \<Rightarrow> authorization_body \<Rightarrow> authorization_body result" where
  "auth_param param a =
     (case go_cut (CHR ''='') (TrimSpace param) of
        (name, None) \<Rightarrow> Inl ''Error parsing authorization (2)''
      | (name, Some value) \<Rightarrow>
          (let n = ToLower name; v = trim_quotes value in
           Inr (if n = ''username'' then a\<lparr>au_username := v\<rparr>
                else if n = ''uri'' then a\<lparr>au_uri := v\<rparr>
                else if n = ''realm'' then a\<lparr>au_realm := v\<rparr>
                else if n = ''nonce'' then a\<lparr>au_nonce := v\<rparr>
                else if n = ''response'' then a\<lparr>au_response := v\<rparr>
                else if n = ''qop'' then a\<lparr>au_qop := v\<rparr>
                else if n = ''cnonce'' then a\<lparr>au_cnonce := v\<rparr>
                else if n = ''nc'' then a\<lparr>au_nc := v\<rparr>
                else if n = ''algorithm'' then a\<lparr>au_algorithm := v\<rparr>
                else if n = ''opaque'' then a\<lparr>au_opaque := v\<rparr>
                else a\<lparr>au_otherparams := au_otherparams a @ CHR '','' # param\<rparr>)))"

fun auth_params :: "string list \<Rightarrow> authorization_body \<Rightarrow> authorization_body result" where
  "auth_params [] a = Inr a"
| "auth_params (p # ps) a = bind_result (auth_param p a) (auth_params ps)"

definition parseSipAuthorizationBody :: "string \<Rightarrow> authorization_body result" where
  "parseSipAuthorizationBody s =
     (case FieldsN s 2 of
        [_, rest] \<Rightarrow> auth_params (go_split (CHR '','') rest) (newSipAuthorizationBody [] [] [] [] [])
      | _ \<Rightarrow> Inl ''Error parsing authorization (1)'')"

section \<open>Verification\<close>

definition VerifyHA1 ::
  "(digest \<Rightarrow> string \<Rightarrow> string) \<Rightarrow> (string \<Rightarrow> string) \<Rightarrow> 64 word \<Rightarrow> string \<Rightarrow> string \<Rightarrow> string \<Rightarrow> authorization_body \<Rightarrow> bool result" where
  "VerifyHA1 hash aes now HA1 method entity a =
     (case GetAlgorithm (au_algorithm a) of
        None \<Rightarrow> Inr False
      | Some alg \<Rightarrow>
          if au_qop a \<noteq> [] \<and> au_qop a \<noteq> ''auth'' then Inr False
          else bind_result (ValidateChallenge aes (au_nonce a) (alg_Mask alg) now) (\<lambda>valid.
            if \<not> valid then Inr False
            else Inr (DigestCalcResponse hash alg HA1 (au_nonce a) (au_nc a) (au_cnonce a) (au_qop a) method (au_uri a) entity
                      = au_response a)))"

definition Verify ::
  "(digest \<Rightarrow> string \<Rightarrow> string) \<Rightarrow> (string \<Rightarrow> string) \<Rightarrow> 64 word \<Rightarrow> string \<Rightarrow> string \<Rightarrow> string \<Rightarrow> authorization_body \<Rightarrow> bool result" where
  "Verify hash aes now passwd method entity a =
     (case GetAlgorithm (au_algorithm a) of
        None \<Rightarrow> Inr False
      | Some alg \<Rightarrow>
          VerifyHA1 hash aes now (DigestCalcHA1 hash alg (au_algorithm a) (au_username a) (au_realm a) passwd (au_nonce a) (au_cnonce a))
            method entity a)"

section \<open>Texts\<close>

definition quote_ok :: "string \<Rightarrow> bool" where
  "quote_ok v \<longleftrightarrow> CHR 0x22 \<notin> set v \<and> CHR '','' \<notin> set v"

definition auth_names :: "string list" where
  "auth_names = [''username'', ''uri'', ''realm'', ''nonce'', ''response'', ''qop'', ''cnonce'', ''nc'', ''algorithm'', ''opaque'']"

lemma TrimSpace_plain_ends:
  assumes "no_space [c]" "(of_char d :: nat) < 128" "\<not> ascii_space d"
  shows "TrimSpace (c # m @ [d]) = c # m @ [d]"
proof -
  have "trim_left (c # m @ [d]) = c # m @ [d]" by (rule trim_left_id [OF no_space_head [OF assms(1)]])
  moreover have "trim_left_rev (d # rev m @ [c]) = d # rev m @ [c]"
    using assms(2,3) by (auto simp: wide_space2_def wide_space3_def Let_def split: list.splits)
  ultimately show ?thesis by (simp add: TrimSpace_def)
qed

lemma trim_quotes_quoted [simp]: "CHR 0x22 \<notin> set v \<Longrightarrow> trim_quotes (CHR 0x22 # v @ [CHR 0x22]) = v"
proof -
  assume v: "CHR 0x22 \<notin> set v"
  have l: "dropWhile (\<lambda>c. c = CHR 0x22) (CHR 0x22 # v @ [CHR 0x22]) = (if v = [] then [] else v @ [CHR 0x22])"
    using v by (cases v) auto
  have "dropWhile (\<lambda>c. c = CHR 0x22) (CHR 0x22 # rev v) = rev v" using v by (cases "rev v") auto
  then show ?thesis unfolding trim_quotes_def l by simp
qed

lemma trim_quotes_absent: "CHR 0x22 \<notin> set v \<Longrightarrow> trim_quotes v = v"
proof -
  assume v: "CHR 0x22 \<notin> set v"
  then have "dropWhile (\<lambda>c. c = CHR 0x22) v = v" by (cases v) auto
  moreover have "dropWhile (\<lambda>c. c = CHR 0x22) (rev v) = rev v" using v by (cases "rev v") auto
  ultimately show ?thesis by (simp add: trim_quotes_def)
qed

lemma quoted_cut:
  assumes "k \<in> set auth_names"
  shows "go_cut (CHR ''='') (TrimSpace (quoted k v)) = (k, Some (CHR 0x22 # v @ [CHR 0x22]))"
proof -
  have "list_all (\<lambda>k. k \<noteq> [] \<and> no_space [hd k] \<and> CHR ''='' \<notin> set k) auth_names" by code_simp
  then have k: "k \<noteq> []" "no_space [hd k]" "CHR ''='' \<notin> set k" using assms by (auto simp only: list_all_iff)
  then obtain c m where c: "k = c # m" "no_space [c]" by (cases k) auto
  have "TrimSpace (c # (m @ ''='' @ [CHR 0x22] @ v) @ [CHR 0x22]) = c # (m @ ''='' @ [CHR 0x22] @ v) @ [CHR 0x22]"
    by (rule TrimSpace_plain_ends [OF c(2)]) (simp_all add: ascii_space_def)
  then have "TrimSpace (quoted k v) = k @ CHR ''='' # CHR 0x22 # v @ [CHR 0x22]"
    using c(1) by (simp add: quoted_def)
  then show ?thesis using k(3) by (simp add: cut_append)
qed

lemma qop_cut: "q \<in> {''auth'', ''auth-int''} \<Longrightarrow> go_cut (CHR ''='') (TrimSpace (''qop='' @ q)) = (''qop'', Some q)"
  by (auto simp: TrimSpace_no_space ascii_space_def)

lemma comma_quoted: "k \<in> set auth_names \<Longrightarrow> quote_ok v \<Longrightarrow> CHR '','' \<notin> set (quoted k v)"
proof -
  assume "k \<in> set auth_names" "quote_ok v"
  moreover have "list_all (\<lambda>k. CHR '','' \<notin> set k) auth_names" by code_simp
  ultimately show ?thesis by (simp add: quoted_def quote_ok_def list_all_iff)
qed

text \<open>The scheme and the parameters behind it.\<close>

lemma digest_fields:
  assumes "no_space [c]"
  shows "FieldsN (''Digest '' @ c # s) 2 = [''Digest'', c # s]"
proof -
  have "fields_scan 2 False [] 0 (''Digest'' @ CHR '' '' # c # s) = ''Digest'' # fields_scan (2 - 1) False [] 0 (c # s)"
    by (rule fields_scan_field) (simp_all add: ascii_space_def)
  moreover have "fields_scan 1 False [] 0 (c # s) = [c # s]"
    by (rule fields_scan_last [OF no_space_head [OF assms]]) simp
  ultimately show ?thesis by (simp add: FieldsN_def)
qed

definition auth_ok :: "authorization_body \<Rightarrow> bool" where
  "auth_ok a \<longleftrightarrow> list_all quote_ok [au_username a, au_uri a, au_realm a, au_nonce a, au_response a, au_nc a, au_cnonce a,
       au_algorithm a, au_opaque a]
     \<and> au_qop a \<in> set [[], ''auth'', ''auth-int''] \<and> (au_qop a = [] \<longrightarrow> au_nc a = [] \<and> au_cnonce a = []) \<and> au_otherparams a = []"

lemma ToLower_names: "k \<in> set auth_names \<Longrightarrow> ToLower k = k"
proof -
  assume "k \<in> set auth_names"
  moreover have "list_all (\<lambda>k. ToLower k = k) auth_names" by code_simp
  ultimately show ?thesis by (simp only: list_all_iff)
qed

lemma auth_param_quoted:
  "quote_ok v \<Longrightarrow> auth_param (quoted ''username'' v) a = Inr (a\<lparr>au_username := v\<rparr>)"
  "quote_ok v \<Longrightarrow> auth_param (quoted ''uri'' v) a = Inr (a\<lparr>au_uri := v\<rparr>)"
  "quote_ok v \<Longrightarrow> auth_param (quoted ''realm'' v) a = Inr (a\<lparr>au_realm := v\<rparr>)"
  "quote_ok v \<Longrightarrow> auth_param (quoted ''nonce'' v) a = Inr (a\<lparr>au_nonce := v\<rparr>)"
  "quote_ok v \<Longrightarrow> auth_param (quoted ''response'' v) a = Inr (a\<lparr>au_response := v\<rparr>)"
  "quote_ok v \<Longrightarrow> auth_param (quoted ''cnonce'' v) a = Inr (a\<lparr>au_cnonce := v\<rparr>)"
  "quote_ok v \<Longrightarrow> auth_param (quoted ''nc'' v) a = Inr (a\<lparr>au_nc := v\<rparr>)"
  "quote_ok v \<Longrightarrow> auth_param (quoted ''algorithm'' v) a = Inr (a\<lparr>au_algorithm := v\<rparr>)"
  "quote_ok v \<Longrightarrow> auth_param (quoted ''opaque'' v) a = Inr (a\<lparr>au_opaque := v\<rparr>)"
  by (simp_all add: auth_param_def quoted_cut auth_names_def quote_ok_def Let_def ToLower_names)

lemma auth_param_qop: "q \<in> {''auth'', ''auth-int''} \<Longrightarrow> auth_param (''qop='' @ q) a = Inr (a\<lparr>au_qop := q\<rparr>)"
  unfolding auth_param_def qop_cut by (auto simp: Let_def trim_quotes_absent ToLower_names auth_names_def)

lemma auth_roundtrip:
  assumes ok: "auth_ok a"
  shows "parseSipAuthorizationBody (auth_String a) = Inr a"
proof -
  let ?ps = "[quoted ''realm'' (au_realm a), quoted ''nonce'' (au_nonce a), quoted ''uri'' (au_uri a), quoted ''response'' (au_response a)]
         @ (if au_algorithm a \<noteq> [] then [quoted ''algorithm'' (au_algorithm a)] else [])
         @ (if au_qop a \<noteq> [] then [quoted ''nc'' (au_nc a), quoted ''cnonce'' (au_cnonce a), ''qop='' @ au_qop a] else [])
         @ (if au_opaque a \<noteq> [] then [quoted ''opaque'' (au_opaque a)] else [])"
  have q: "quote_ok (au_username a)" "quote_ok (au_uri a)" "quote_ok (au_realm a)" "quote_ok (au_nonce a)"
    "quote_ok (au_response a)" "quote_ok (au_nc a)" "quote_ok (au_cnonce a)" "quote_ok (au_algorithm a)" "quote_ok (au_opaque a)"
    and qop: "au_qop a = [] \<or> au_qop a \<in> {''auth'', ''auth-int''}" and rest: "au_qop a = [] \<longrightarrow> au_nc a = [] \<and> au_cnonce a = []"
    "au_otherparams a = []"
    using ok by (auto simp: auth_ok_def)
  have "CHR '','' \<notin> set (''qop='' @ au_qop a)" using qop by auto
  then have "\<forall>p \<in> set ?ps. CHR '','' \<notin> set p"
    by (simp add: q comma_quoted auth_names_def del: set_append)
  moreover have "CHR '','' \<notin> set (quoted ''username'' (au_username a))" by (simp add: q comma_quoted auth_names_def)
  ultimately have "go_split (CHR '','') (quoted ''username'' (au_username a) @ each_after (CHR '','') ?ps)
      = quoted ''username'' (au_username a) # ?ps" by (intro go_split_each_after)
  moreover have "FieldsN (auth_String a) 2 = [''Digest'', quoted ''username'' (au_username a) @ each_after (CHR '','') ?ps]"
    using digest_fields [of "CHR ''u''"] rest(2) by (simp add: auth_String_def quoted_def ascii_space_def)
  moreover have "auth_params (quoted ''username'' (au_username a) # ?ps) (newSipAuthorizationBody [] [] [] [] []) = Inr a"
    using q qop rest by (cases a) (auto simp: auth_param_quoted auth_param_qop [simplified] newSipAuthorizationBody_def)
  ultimately show ?thesis by (simp only: parseSipAuthorizationBody_def list.case)
qed

definition challenge_ok :: "challenge_body \<Rightarrow> bool" where
  "challenge_ok b \<longleftrightarrow> (case ch_realm b of
       Some r \<Rightarrow> \<not> is_system r \<and> quote_ok (ma_address r) \<and> NewMyAddress (ma_address r) = r
     | None \<Rightarrow> False)
     \<and> list_all quote_ok [ch_nonce b, ch_algorithm b, ch_opaque b]
     \<and> ch_qop b \<in> set [[], [''auth''], [''auth-int'']] \<and> ch_otherparams b = []"

lemma challenge_param_quoted:
  "quote_ok v \<Longrightarrow> challenge_param (quoted ''realm'' v) b = b\<lparr>ch_realm := Some (NewMyAddress v)\<rparr>"
  "quote_ok v \<Longrightarrow> challenge_param (quoted ''nonce'' v) b = b\<lparr>ch_nonce := v\<rparr>"
  "quote_ok v \<Longrightarrow> challenge_param (quoted ''opaque'' v) b = b\<lparr>ch_opaque := v\<rparr>"
  "quote_ok v \<Longrightarrow> challenge_param (quoted ''algorithm'' v) b = b\<lparr>ch_algorithm := v\<rparr>"
  by (simp_all add: challenge_param_def quoted_cut auth_names_def quote_ok_def)

lemma challenge_param_qop: "q \<in> {''auth'', ''auth-int''} \<Longrightarrow> challenge_param (''qop='' @ q) b = b\<lparr>ch_qop := [q]\<rparr>"
  unfolding challenge_param_def qop_cut by (auto simp: trim_quotes_absent)

lemma challenge_roundtrip:
  assumes ok: "challenge_ok b"
  shows "\<exists>s. challenge_localString None b = Inr s \<and> challenge_parse s = Inr b"
proof -
  obtain r where r: "ch_realm b = Some r" "\<not> is_system r" "quote_ok (ma_address r)" "NewMyAddress (ma_address r) = r"
    using ok by (auto simp: challenge_ok_def split: option.splits)
  have q: "quote_ok (ch_nonce b)" "quote_ok (ch_algorithm b)" "quote_ok (ch_opaque b)"
    and qop: "ch_qop b = [] \<or> ch_qop b = [''auth''] \<or> ch_qop b = [''auth-int'']" and oth: "ch_otherparams b = []"
    using ok by (auto simp: challenge_ok_def)
  let ?realm = "quoted ''realm'' (ma_address r)"
  have "\<forall>p \<in> set (challenge_params b). CHR '','' \<notin> set p"
    using q qop oth comma_quoted [of "''nonce''"] comma_quoted [of "''algorithm''"] comma_quoted [of "''opaque''"]
    by (auto simp: challenge_params_def auth_names_def)
  moreover have "CHR '','' \<notin> set ?realm" using r(3) by (intro comma_quoted) (simp_all add: auth_names_def)
  ultimately have "go_split (CHR '','') (?realm @ each_after (CHR '','') (challenge_params b)) = ?realm # challenge_params b"
    by (intro go_split_each_after)
  moreover have "FieldsN (''Digest '' @ ?realm @ each_after (CHR '','') (challenge_params b)) 2 =
      [''Digest'', ?realm @ each_after (CHR '','') (challenge_params b)]"
    using digest_fields [of "CHR ''r''"] by (simp add: quoted_def ascii_space_def)
  moreover have "fold challenge_param (?realm # challenge_params b) empty_challenge = b"
    using q qop oth r by (cases b) (auto simp: challenge_params_def challenge_param_quoted challenge_param_qop [simplified] empty_challenge_def)
  ultimately have "challenge_parse (''Digest '' @ ?realm @ each_after (CHR '','') (challenge_params b)) = Inr b"
    by (simp only: challenge_parse_def list.case)
  then show ?thesis using r(1) by (simp add: challenge_localString_def local_host_def)
qed

section \<open>A login\<close>

text \<open>
  The whole exchange: the server's challenge as text, the client's credentials as text, and the
  server's verdict with the password it knows.
\<close>

definition digest_login ::
  "hash_fun \<Rightarrow> (string \<Rightarrow> string) \<Rightarrow> string \<Rightarrow> nonce \<Rightarrow> nonce \<Rightarrow> login_name \<Rightarrow> login_name \<Rightarrow> 64 word \<Rightarrow> 64 word \<Rightarrow>
   login_name \<Rightarrow> secret \<Rightarrow> secret \<Rightarrow> string \<Rightarrow> string \<Rightarrow> string \<Rightarrow> bool result" where
  "digest_login hash aes iv rnd crnd realm alg t t' user passw passw' method uri entity =
     bind_result (challenge_localString None (newSipWWWAutenticateBody aes iv rnd realm alg t)) (\<lambda>text.
     bind_result (GenAuthHF hash crnd user passw method uri entity (challenge_parse text)) (\<lambda>a.
     bind_result (parseSipAuthorizationBody (auth_String a)) (\<lambda>a'.
       Verify hash aes t' passw' method entity a')))"

lemma quote_ok_hex [simp]: "quote_ok (hex_Encode s)"
proof (induction s)
  case (Cons c s)
  have no: "n < 16 \<Longrightarrow> hex_lower ! n \<noteq> CHR 0x22 \<and> hex_lower ! n \<noteq> CHR '',''" for n
  proof -
    have "\<forall>n \<in> set [0..<16]. hex_lower ! n \<noteq> CHR 0x22 \<and> hex_lower ! n \<noteq> CHR '',''" by code_simp
    then show "n < 16 \<Longrightarrow> hex_lower ! n \<noteq> CHR 0x22 \<and> hex_lower ! n \<noteq> CHR '',''" by simp
  qed
  have "(of_char c :: nat) div 16 < 16" using byte_bounds [of c] by (simp add: less_mult_imp_div_less)
  then have "hex_lower ! (of_char c div 16) \<noteq> CHR 0x22 \<and> hex_lower ! (of_char c div 16) \<noteq> CHR '',''"
    "hex_lower ! (of_char c mod 16) \<noteq> CHR 0x22 \<and> hex_lower ! (of_char c mod 16) \<noteq> CHR '',''" using no by simp_all
  then show ?case using Cons by (auto simp: quote_ok_def hex_Encode_def)
qed (simp add: quote_ok_def hex_Encode_def)

lemma hex_Encode_inject [simp]: "hex_Encode a = hex_Encode b \<longleftrightarrow> a = b"
  by (metis hex_Decode_Encode sum.inject(2))

lemma quote_ok_nonce: "quote_ok (EmitChallenge aes iv m t)"
  using b64_plain_free [OF b64_plain_B64EncodeNoPad] by (simp add: quote_ok_def EmitChallenge_def Encrypt_def Let_def)

lemma quote_ok_response: "quote_ok (DigestCalcResponse hash alg HA1 nonce nc cnonce qop method uri entity)"
  by (simp add: DigestCalcResponse_def Let_def)

text \<open>The verdict on what the client answers to a challenge read from its text.\<close>

lemma digest_login_eval:
  fixes crnd :: string and "method" :: string and entity :: string and hash :: "digest \<Rightarrow> string \<Rightarrow> string"
  assumes "GetAlgorithm alg = Some x" "quote_ok alg" "quote_ok (normalize realm)" "quote_ok user" "quote_ok uri"
    and "length iv = 16" "length (aes iv) = 16" "clock_ok t" "clock_ok t'"
  defines "nonce \<equiv> EmitChallenge aes iv (alg_Mask x) (word_of_int t)"
    and "cnonce \<equiv> (if alg = [] then [] else hex_Encode crnd)" and "qop \<equiv> (if alg = [] then [] else ''auth'')"
    and "nc \<equiv> (if alg = [] then [] else ''00000001'')"
  defines "resp \<equiv> (\<lambda>pw. DigestCalcResponse hash x (DigestCalcHA1 hash x alg user (normalize realm) pw nonce cnonce)
      nonce nc cnonce qop method uri entity)"
  shows "digest_login hash aes iv rnd crnd realm alg (word_of_int t) (word_of_int t') user passw passw' method uri entity =
    Inr (t \<le> t' \<and> t' \<le> t + 32 \<and> resp passw' = resp passw)"
proof -
  let ?b = "newSipWWWAutenticateBody aes iv rnd realm alg (word_of_int t)"
  have "challenge_ok ?b" using assms(1-3) quote_ok_nonce
    by (simp add: challenge_ok_def newSipWWWAutenticateBody_def NewMyAddress_def quote_ok_def)
  then obtain ctext where ctext: "challenge_localString None ?b = Inr ctext" "challenge_parse ctext = Inr ?b"
    using challenge_roundtrip by blast
  let ?a = "(newSipAuthorizationBody (normalize realm) nonce uri user alg)
    \<lparr>au_qop := qop, au_nc := nc, au_cnonce := cnonce, au_response := resp passw\<rparr>"
  have gen: "GenAuthHF hash crnd user passw method uri entity (Inr ?b) = Inr ?a"
    using assms(1) by (cases "alg = []") (simp_all add: GenAuthHF_def constructAuthHF_def newSipWWWAutenticateBody_def
        NewMyAddress_def auth_GenResponse_def newSipAuthorizationBody_def nonce_def cnonce_def qop_def nc_def resp_def Let_def)
  have "auth_ok ?a" using assms(2-5) quote_ok_nonce quote_ok_response
    by (simp add: auth_ok_def newSipAuthorizationBody_def nonce_def cnonce_def qop_def nc_def resp_def) (simp add: quote_ok_def)
  then have "parseSipAuthorizationBody (auth_String ?a) = Inr ?a" by (rule auth_roundtrip)
  moreover have "ValidateChallenge aes nonce (alg_Mask x) (word_of_int t') = Inr (t \<le> t' \<and> t' \<le> t + 32)"
    using nonce_validity [where aes = aes and iv = iv, OF assms(6-9), of "alg_Mask x" "alg_Mask x"] algorithm_masks [OF assms(1)]
    by (simp add: nonce_def)
  ultimately show ?thesis using ctext gen assms(1)
    by (auto simp: digest_login_def Verify_def VerifyHA1_def newSipAuthorizationBody_def resp_def qop_def)
qed

text \<open>The digest of a password for a challenge: with an algorithm named, the client adds its own nonce, a count and the quality of protection.\<close>

definition client_digest ::
  "hash_fun \<Rightarrow> algorithm \<Rightarrow> string \<Rightarrow> nonce \<Rightarrow> nonce \<Rightarrow> login_name \<Rightarrow> login_name \<Rightarrow> secret \<Rightarrow> string \<Rightarrow> string \<Rightarrow> string \<Rightarrow> string" where
  "client_digest hash x alg nonce crnd realm user passw method uri entity =
     (let named = (\<lambda>v. if alg = [] then [] else v); cnonce = named (hex_Encode crnd)
      in DigestCalcResponse hash x (DigestCalcHA1 hash x alg user realm passw nonce cnonce)
           nonce (named ''00000001'') cnonce (named ''auth'') method uri entity)"

text \<open>
  Property C27. A client answers a challenge that was emitted at \<open>t\<close> with a digest of its password, and the server checks the answer at \<open>t'\<close>
  against the password it knows, both texts having gone over the wire. The answer is accepted exactly if the check is not before and at most 32
  seconds after the emission, by the clock both were read from, and the digest of the server's password for this challenge is the one the client sent;
  so the right password is let in exactly within the window. This holds for every supported algorithm, with or without the session variant, for
  names without quotes and commas. (The two readings are arguments: a caller that emits with a clock that is ahead of the one of the check, as the wall clock
  is ahead of the monotonic one, is refused with every password.)
\<close>

theorem login_with_password:
  assumes "GetAlgorithm alg = Some x" "quote_ok alg" "quote_ok (normalize realm)" "quote_ok user" "quote_ok uri"
    and "length iv = 16" "length (aes iv) = 16" "clock_ok t" "clock_ok t'"
  shows "digest_login hash aes iv rnd crnd realm alg (word_of_int t) (word_of_int t') user passw passw' method uri entity =
      Inr (t \<le> t' \<and> t' \<le> t + 32
        \<and> client_digest hash x alg (EmitChallenge aes iv (alg_Mask x) (word_of_int t)) crnd (normalize realm) user passw' method uri entity
          = client_digest hash x alg (EmitChallenge aes iv (alg_Mask x) (word_of_int t)) crnd (normalize realm) user passw method uri entity)"
  using digest_login_eval [where aes = aes and iv = iv, OF assms] by (simp add: client_digest_def Let_def)

text \<open>
  Credentials whose nonce is not one of the server's crash the check instead of being
  refused: whatever password, realm and user they name, a nonce that decodes to fewer than 16 bytes is
  sliced out of range, one that decodes to more than 32 bytes overruns the cipher's output.
\<close>

theorem foreign_nonce_crashes_verification:
  assumes "GetAlgorithm (au_algorithm a) = Some x" "au_qop a = [] \<or> au_qop a = ''auth''"
    and "B64DecodeNoPad (au_nonce a) = Inr raw" "length raw < 16 \<or> 32 < length raw"
  shows "Verify hash aes now passwd method entity a \<in> {Inl slice_panic, Inl output_panic}"
  using foreign_nonce_panics [OF assms(3,4), of aes "alg_Mask x" now] assms(1,2)
  by (auto simp: Verify_def VerifyHA1_def)

text \<open>A second quality of protection is lost on the way: the parameter list is cut inside the quotes.\<close>

lemma second_qop_lost:
  "bind_result (challenge_localString None (empty_challenge\<lparr>ch_realm := Some (NewMyAddress ''r''), ch_qop := [''auth'', ''auth-int'']\<rparr>))
     challenge_parse = Inr (empty_challenge\<lparr>ch_realm := Some (NewMyAddress ''r''), ch_qop := [''auth'']\<rparr>)"
  by code_simp

end
