(* ===== verification/Sip_Msg_Text.thy ===== *)
theory Sip_Msg_Text
  imports Digest_Auth
begin

text \<open>
  Reading messages: how a header line becomes header objects (\<^verbatim>\<open>sip_header.go\<close> and the constructors of
  \<^verbatim>\<open>headers/\<close>), how a datagram is cut into start line, headers and body, and how the body is
  reconciled with Content-Length (\<^verbatim>\<open>sip_msg.go\<close>, \<^verbatim>\<open>sip_request.go\<close>, \<^verbatim>\<open>sip_response.go\<close>), and
  printing of responses. The code parses a header's text when it is first used; here the result of that
  parse is part of the header.
\<close>

section \<open>Header lines\<close>

text \<open>Where a comma ends an address: outside quotes and braces, counted from the last cut.\<close>

definition address_complete :: "string \<Rightarrow> bool" where
  "address_complete s \<longleftrightarrow>
     (let onum = count_list s (CHR ''<''); cnum = count_list s (CHR ''>''); qnum = count_list s (CHR 0x22)
      in (onum = 0 \<and> cnum = 0 \<and> qnum = 0) \<or> (onum > 0 \<and> onum = cnum \<and> qnum mod 2 = 0))"

fun split_addresses :: "string \<Rightarrow> string \<Rightarrow> string list" where
  "split_addresses seen [] = (if seen = [] then [] else [seen])"
| "split_addresses seen (c # s) =
     (if c = CHR '','' \<and> address_complete seen then seen # split_addresses [] s
      else split_addresses (seen @ [c]) s)"

definition CreateSipAddressHFs :: "string \<Rightarrow> string list" where
  "CreateSipAddressHFs body = split_addresses [] body"

record parse_env =
  pe_float :: "string \<Rightarrow> rat option"
  pe_tel :: bool
  pe_cfg :: sippy_config

definition address_headers :: "parse_env \<Rightarrow> (address_hf \<Rightarrow> sip_header) \<Rightarrow> string \<Rightarrow> sip_header list" where
  "address_headers pe mk body =
     map (\<lambda>s. mk (ParseSipAddress (pe_float pe) (pe_tel pe) False (pe_cfg pe) s)) (CreateSipAddressHFs body)"

definition CreateSipContact :: "parse_env \<Rightarrow> string \<Rightarrow> sip_header list" where
  "CreateSipContact pe body =
     (if body = ''*'' then [H_Contact \<lparr>ct_Asterisk = True, ct_address = Inl nil_panic\<rparr>]
      else address_headers pe (\<lambda>a. H_Contact \<lparr>ct_Asterisk = False, ct_address = a\<rparr>) body)"

definition CreateSipVia :: "string \<Rightarrow> sip_header list" where
  "CreateSipVia body = map (\<lambda>s. H_Via (via_parse s)) (go_split (CHR '','') body)"

definition sip_header_name_map :: "parse_env \<Rightarrow> (string \<times> (string \<Rightarrow> sip_header list)) list" where
  "sip_header_name_map pe =
    [(''cseq'', \<lambda>b. [H_CSeq (cseq_parse b)]),
     (''rseq'', \<lambda>b. [H_RSeq (createSipNumericHF b)]),
     (''rack'', \<lambda>b. [H_RAck (rack_parse b)]),
     (''call-id'', \<lambda>b. [H_CallId b]), (''i'', \<lambda>b. [H_CallId b]),
     (''from'', address_headers pe H_From), (''f'', address_headers pe H_From),
     (''to'', address_headers pe H_To), (''t'', address_headers pe H_To),
     (''max-forwards'', \<lambda>b. [H_MaxForwards (createSipNumericHF b)]),
     (''via'', CreateSipVia), (''v'', CreateSipVia),
     (''content-length'', \<lambda>b. [H_ContentLength (createSipNumericHF b)]),
     (''l'', \<lambda>b. [H_ContentLength (createSipNumericHF b)]),
     (''content-type'', \<lambda>b. [H_ContentType b]), (''c'', \<lambda>b. [H_ContentType b]),
     (''expires'', \<lambda>b. [H_Expires (createSipNumericHF b)]),
     (''record-route'', address_headers pe H_RecordRoute),
     (''route'', address_headers pe H_Route),
     (''contact'', CreateSipContact pe), (''m'', CreateSipContact pe),
     (''www-authenticate'', \<lambda>b. [H_WWWAuthenticate (challenge_parse b)]),
     (''authorization'', \<lambda>b. [H_Authorization (parseSipAuthorizationBody b)]),
     (''server'', \<lambda>b. [H_Server b]),
     (''user-agent'', \<lambda>b. [H_UserAgent b]),
     (''cisco-guid'', \<lambda>b. [H_CiscoGUID b]),
     (''h323-conf-id'', \<lambda>b. [H_H323ConfId b]),
     (''also'', address_headers pe H_Also),
     (''refer-to'', address_headers pe H_ReferTo), (''r'', address_headers pe H_ReferTo),
     (''cc-diversion'', address_headers pe H_CCDiversion),
     (''referred-by'', address_headers pe H_ReferredBy),
     (''proxy-authenticate'', \<lambda>b. [H_ProxyAuthenticate (challenge_parse b)]),
     (''proxy-authorization'', \<lambda>b. [H_ProxyAuthorization (parseSipAuthorizationBody b)]),
     (''replaces'', \<lambda>b. [H_Replaces []]),
     (''reason'', \<lambda>b. [H_Reason \<lparr>rsn_string_body = b, rsn_body = None\<rparr>]),
     (''warning'', \<lambda>b. [H_Warning b]),
     (''diversion'', address_headers pe H_Diversion),
     (''require'', \<lambda>b. [H_Require b]),
     (''supported'', \<lambda>b. [H_Supported b]),
     (''date'', \<lambda>b. [H_Date b])]"

definition ParseSipHeader :: "parse_env \<Rightarrow> string \<Rightarrow> sip_header list result" where
  "ParseSipHeader pe s =
     (case go_cut (CHR '':'') s of
        (_, None) \<Rightarrow> Inl (''Bad header line: '' @ s)
      | (n, Some b) \<Rightarrow>
          (let name = TrimSpace n; body = TrimSpace b in
           case map_of (sip_header_name_map pe) (ToLower name) of
             Some factory \<Rightarrow> Inr (factory body)
           | None \<Rightarrow> Inr [H_Generic (Title name) body]))"

section \<open>Datagrams\<close>

fun locate_body :: "string list \<Rightarrow> string \<Rightarrow> string \<times> string option" where
  "locate_body [] buf = (buf, None)"
| "locate_body (d # ds) buf =
     (case cut_at d buf of
        Some (h, b) \<Rightarrow> (h, if b = [] then None else Some b)
      | None \<Rightarrow> locate_body ds buf)"

text \<open>Lines that begin with a blank continue the line before them.\<close>

fun fold_lines :: "string \<Rightarrow> string list \<Rightarrow> string list" where
  "fold_lines prev [] = (if prev \<noteq> [] then [prev] else [])"
| "fold_lines prev (l # ls) =
     (if l = [] \<or> hd l = CHR '' '' \<or> hd l = CHR 0x09 then fold_lines (prev @ TrimSpace l) ls
      else (if prev \<noteq> [] then [prev] else []) @ fold_lines l ls)"

fun asterisk :: "sip_header \<Rightarrow> bool" where
  "asterisk (H_Contact c) = ct_Asterisk c"
| "asterisk _ = False"

fun parse_headers :: "parse_env \<Rightarrow> string list \<Rightarrow> sip_msg \<Rightarrow> sip_msg result" where
  "parse_headers pe [] m = Inr m"
| "parse_headers pe (l # ls) m =
     bind_result (ParseSipHeader pe l) (\<lambda>hs. parse_headers pe ls (appendHeaders (filter (\<lambda>h. \<not> asterisk h) hs) m))"

definition required_headers :: "sip_msg \<Rightarrow> sip_msg result" where
  "required_headers m =
     (if m_vias m = [] then Inl ''Via HF is missed''
      else if m_to m = None then Inl ''To HF is missed''
      else if m_from m = None then Inl ''From HF is missed''
      else if m_cseq m = None then Inl ''CSeq HF is missed''
      else if m_call_id m = None then Inl ''Call-ID HF is missed''
      else Inr m)"

text \<open>The message and the text of its body.\<close>

definition ParseSipMsg :: "parse_env \<Rightarrow> monotime option \<Rightarrow> string \<Rightarrow> (sip_msg \<times> string option) result" where
  "ParseSipMsg pe rtime buf =
     (case locate_body [CRLF @ CRLF, [CHR 0x0D, CHR 0x0D], [CHR 0x0A, CHR 0x0A]] buf of
        (head, mbody) \<Rightarrow>
          (case crlf_fields head of
             [] \<Rightarrow> Inl index_panic
           | startline # ls \<Rightarrow>
               bind_result (parse_headers pe (fold_lines [] ls) ((NewSipMsg rtime)\<lparr>m_startline := startline\<rparr>)) (\<lambda>m.
               bind_result (required_headers m) (\<lambda>m. Inr (m, mbody)))))"

section \<open>Bodies\<close>

definition ends_with :: "string \<Rightarrow> string \<Rightarrow> bool" where
  "ends_with s e \<longleftrightarrow> drop (length s - length e) s = e"

text \<open>
  A body shorter than announced is repaired when it ends in certain line breaks; the slices that look at its
  end are out of range when it is too short for them.
\<close>

definition short_body :: "int \<Rightarrow> string \<Rightarrow> string result" where
  "short_body blen b =
     (let mblen = int (length b); CL = CRLF in
      if blen - mblen < 7 \<and> mblen > 7 \<and> ends_with b (CL @ CL) then Inr b
      else if blen - mblen = 2 \<and> length b < 2 then Inl slice_panic
      else if blen - mblen = 2 \<and> ends_with b CL then Inr (b @ CL)
      else if blen - mblen = 1 \<and> length b < 3 then Inl slice_panic
      else if blen - mblen = 1 \<and> ends_with b (CL @ [CHR 0x0A]) then Inr (take (length b - 3) b @ CL @ CL)
      else if blen - mblen = 1 \<and> ends_with b CL then Inr (b @ CL)
      else Inl (''Truncated SIP body, '' @ Itoa blen @ '' bytes expected, '' @ Itoa mblen @ '' received''))"

definition fit_body :: "int \<Rightarrow> string option \<Rightarrow> string option result" where
  "fit_body blen mbody =
     (if blen = 0 then Inr None
      else (case mbody of
              None \<Rightarrow> Inl (''Missed SIP body, '' @ Itoa blen @ '' bytes expected'')
            | Some b \<Rightarrow>
                if int (length b) < blen then bind_result (short_body blen b) (\<lambda>x. Inr (Some x))
                else if blen < 0 then Inl slice_panic
                else Inr (Some (take (nat blen) b))))"

definition init_body :: "string option \<Rightarrow> 'a sip_msg_scheme \<Rightarrow> 'a sip_msg_scheme result" where
  "init_body mbody m =
     (let (m1, blen) = (case m_content_length m of
            None \<Rightarrow> (m, None)
          | Some h \<Rightarrow> (case numeric_GetBody h of
              (h', Inr n) \<Rightarrow> (m\<lparr>m_content_length := Some h'\<rparr>, Some n)
            | (h', Inl e) \<Rightarrow> (m\<lparr>m_content_length := Some h'\<rparr>, None)))
      in bind_result (case blen of None \<Rightarrow> Inr mbody | Some n \<Rightarrow> fit_body n mbody) (\<lambda>b.
           case b of
             None \<Rightarrow> Inr m1
           | Some s \<Rightarrow> Inr (m1\<lparr>m_body := Some (NewMsgBody s (case m_content_type m1 of
                 Some t \<Rightarrow> ToLower t | None \<Rightarrow> ''application/sdp''))\<rparr>)))"

section \<open>Requests and responses\<close>

definition ParseSipRequest :: "parse_env \<Rightarrow> monotime option \<Rightarrow> string \<Rightarrow> sip_request result" where
  "ParseSipRequest pe rtime buf =
     bind_result (ParseSipMsg pe rtime buf) (\<lambda>(m, mbody).
       case Fields (m_startline m) of
         [method, ruri, sipver] \<Rightarrow>
           (case ParseSipURL (pe_tel pe) False (pe_cfg pe) ruri of
              Inl e \<Rightarrow> Inl (if e = index_panic then e else ''Bad SIP URL in SIP request: '' @ ruri)
            | Inr u \<Rightarrow> init_body mbody (sip_msg.extend m (sip_request.fields method sipver u None None False)))
       | _ \<Rightarrow> Inl (''SIP bad start line in SIP request: '' @ m_startline m))"

definition response_startline :: "string \<Rightarrow> (string \<times> string \<times> string) result" where
  "response_startline s =
     (case FieldsN s 3 of
        [sipver, scode] \<Rightarrow> Inr (sipver, scode, ''Unspecified'')
      | [sipver, scode, reason] \<Rightarrow> Inr (sipver, scode, reason)
      | _ \<Rightarrow> Inl (''Bad response: '' @ s))"

definition ParseSipResponse :: "parse_env \<Rightarrow> monotime option \<Rightarrow> string \<Rightarrow> sip_response result" where
  "ParseSipResponse pe rtime buf =
     bind_result (ParseSipMsg pe rtime buf) (\<lambda>(m, mbody).
     bind_result (response_startline (m_startline m)) (\<lambda>(sipver, scode, reason).
       case Atoi scode of
         None \<Rightarrow> Inl (''strconv.Atoi: parsing '' @ scode)
       | Some n \<Rightarrow> init_body mbody (sip_msg.extend m (sip_response.fields n reason sipver))))"

section \<open>Printing\<close>

text \<open>
  What printing depends on besides the message: the conversions of numbers and wide characters, the order in
  which the maps of URL headers and address parameters happen to be walked, the local address that
  stands in for default ones, and whether names are abbreviated.
\<close>

record print_env =
  pr_float :: "rat \<Rightarrow> string"
  pr_wide :: "string \<Rightarrow> bool"
  pr_headers :: "sip_url \<Rightarrow> (string \<times> string) list"
  pr_params :: "sip_address \<Rightarrow> (string \<times> string option) list"
  pr_hostport :: "host_port option"
  pr_compact :: bool

definition address_text :: "print_env \<Rightarrow> sip_address \<Rightarrow> string" where
  "address_text pr a =
     address_LocalStr (pr_float pr) (pr_wide pr) (pr_hostport pr) (pr_headers pr (adr_url a)) (pr_params pr a) a"

definition reason_text :: "sip_reason \<Rightarrow> string" where
  "reason_text r =
     (case rsn_body r of
        None \<Rightarrow> rsn_string_body r
      | Some b \<Rightarrow> rsn_protocol b @ ''; cause='' @ rsn_cause b
          @ (if rsn_reason b = [] then [] else ''; text='' @ [CHR 0x22] @ rsn_reason b @ [CHR 0x22]))"

fun header_name :: "bool \<Rightarrow> sip_header \<Rightarrow> string" where
  "header_name abbr (H_CSeq t) = ''CSeq''"
| "header_name abbr (H_RSeq t) = ''RSeq''"
| "header_name abbr (H_RAck t) = ''RAck''"
| "header_name abbr (H_CallId t) = (if abbr then ''i'' else ''Call-ID'')"
| "header_name abbr (H_From t) = (if abbr then ''f'' else ''From'')"
| "header_name abbr (H_To t) = (if abbr then ''t'' else ''To'')"
| "header_name abbr (H_MaxForwards t) = ''Max-Forwards''"
| "header_name abbr (H_Via t) = (if abbr then ''v'' else ''Via'')"
| "header_name abbr (H_ContentLength t) = (if abbr then ''l'' else ''Content-Length'')"
| "header_name abbr (H_ContentType t) = (if abbr then ''c'' else ''Content-Type'')"
| "header_name abbr (H_Expires t) = ''Expires''"
| "header_name abbr (H_RecordRoute t) = ''Record-Route''"
| "header_name abbr (H_Route t) = ''Route''"
| "header_name abbr (H_Contact t) = (if abbr then ''m'' else ''Contact'')"
| "header_name abbr (H_WWWAuthenticate t) = ''WWW-Authenticate''"
| "header_name abbr (H_Authorization t) = ''Authorization''"
| "header_name abbr (H_Server t) = ''Server''"
| "header_name abbr (H_UserAgent t) = ''User-Agent''"
| "header_name abbr (H_CiscoGUID t) = ''Cisco-GUID''"
| "header_name abbr (H_H323ConfId t) = ''h323-conf-id''"
| "header_name abbr (H_Also t) = ''Also''"
| "header_name abbr (H_ReferTo t) = (if abbr then ''r'' else ''Refer-To'')"
| "header_name abbr (H_CCDiversion t) = ''CC-Diversion''"
| "header_name abbr (H_ReferredBy t) = ''Referred-By''"
| "header_name abbr (H_Diversion t) = ''Diversion''"
| "header_name abbr (H_ProxyAuthenticate t) = ''Proxy-Authenticate''"
| "header_name abbr (H_ProxyAuthorization t) = ''Proxy-Authorization''"
| "header_name abbr (H_Replaces t) = ''Replaces''"
| "header_name abbr (H_Reason t) = ''Reason''"
| "header_name abbr (H_Warning t) = ''Warning''"
| "header_name abbr (H_Require t) = ''Require''"
| "header_name abbr (H_Supported t) = ''Supported''"
| "header_name abbr (H_Date t) = ''Date''"
| "header_name abbr (H_Generic n t) = n"

text \<open>The text of a header's body; \<open>None\<close> for one whose text was never parsed, which the code keeps as it came.\<close>

definition parsed_text :: "('a \<Rightarrow> string) \<Rightarrow> 'a result \<Rightarrow> string option" where
  "parsed_text f r = (case r of Inr x \<Rightarrow> Some (f x) | Inl _ \<Rightarrow> None)"

fun header_StringBody :: "print_env \<Rightarrow> sip_header \<Rightarrow> string option" where
  "header_StringBody pr (H_CSeq t) = parsed_text cseq_String t"
| "header_StringBody pr (H_RSeq t) = Some (numeric_StringBody t)"
| "header_StringBody pr (H_RAck t) = parsed_text rack_String t"
| "header_StringBody pr (H_CallId t) = Some t"
| "header_StringBody pr (H_From t) = parsed_text (address_text pr) t"
| "header_StringBody pr (H_To t) = parsed_text (address_text pr) t"
| "header_StringBody pr (H_MaxForwards t) = Some (numeric_StringBody t)"
| "header_StringBody pr (H_Via t) = parsed_text (via_localString (pr_hostport pr)) t"
| "header_StringBody pr (H_ContentLength t) = Some (numeric_StringBody t)"
| "header_StringBody pr (H_ContentType t) = Some t"
| "header_StringBody pr (H_Expires t) = Some (numeric_StringBody t)"
| "header_StringBody pr (H_RecordRoute t) = parsed_text (address_text pr) t"
| "header_StringBody pr (H_Route t) = parsed_text (address_text pr) t"
| "header_StringBody pr (H_Contact t) = (if ct_Asterisk t then Some ''*'' else parsed_text (address_text pr) (ct_address t))"
| "header_StringBody pr (H_WWWAuthenticate t) = (case bind_result t (challenge_localString (pr_hostport pr)) of Inr s \<Rightarrow> Some s | Inl _ \<Rightarrow> None)"
| "header_StringBody pr (H_Authorization t) = parsed_text auth_String t"
| "header_StringBody pr (H_Server t) = Some t"
| "header_StringBody pr (H_UserAgent t) = Some t"
| "header_StringBody pr (H_CiscoGUID t) = Some t"
| "header_StringBody pr (H_H323ConfId t) = Some t"
| "header_StringBody pr (H_Also t) = parsed_text (address_text pr) t"
| "header_StringBody pr (H_ReferTo t) = parsed_text (address_text pr) t"
| "header_StringBody pr (H_CCDiversion t) = parsed_text (address_text pr) t"
| "header_StringBody pr (H_ReferredBy t) = parsed_text (address_text pr) t"
| "header_StringBody pr (H_Diversion t) = parsed_text (address_text pr) t"
| "header_StringBody pr (H_ProxyAuthenticate t) = (case bind_result t (challenge_localString (pr_hostport pr)) of Inr s \<Rightarrow> Some s | Inl _ \<Rightarrow> None)"
| "header_StringBody pr (H_ProxyAuthorization t) = parsed_text auth_String t"
| "header_StringBody pr (H_Replaces t) = Some t"
| "header_StringBody pr (H_Reason t) = Some (reason_text t)"
| "header_StringBody pr (H_Warning t) = Some t"
| "header_StringBody pr (H_Require t) = Some t"
| "header_StringBody pr (H_Supported t) = Some t"
| "header_StringBody pr (H_Date t) = Some t"
| "header_StringBody pr (H_Generic n t) = Some t"

definition header_LocalStr :: "print_env \<Rightarrow> sip_header \<Rightarrow> string option" where
  "header_LocalStr pr h = map_option (\<lambda>b. header_name (pr_compact pr) h @ '': '' @ b) (header_StringBody pr h)"

text \<open>The text of a body, and whether printing its description dereferences nil.\<close>

definition body_text :: "msg_body \<Rightarrow> string" where
  "body_text b = (case body_String b of Inr t \<Rightarrow> t | Inl e \<Rightarrow> [])"

definition body_panics :: "msg_body \<Rightarrow> bool" where
  "body_panics b = (case body_String b of Inr t \<Rightarrow> False | Inl e \<Rightarrow> True)"

text \<open>The headers in the order they are printed.\<close>

definition printed_headers :: "'a sip_msg_scheme \<Rightarrow> sip_header list" where
  "printed_headers m =
     map H_Via (m_vias m) @ map H_Route (m_routes m)
     @ (case m_maxforwards m of Some n \<Rightarrow> [H_MaxForwards n] | None \<Rightarrow> [])
     @ m_headers m
     @ (case m_sip_authorization m of
          Some a \<Rightarrow> [H_Authorization a]
        | None \<Rightarrow> (case m_sip_proxy_authorization m of Some a \<Rightarrow> [H_ProxyAuthorization a] | None \<Rightarrow> []))
     @ (case m_body m of
          Some b \<Rightarrow> [H_ContentLength (newSipNumericHF (int (length (body_text b)))), H_ContentType (mb_mtype b)]
        | None \<Rightarrow> [H_ContentLength (newSipNumericHF 0)])"

definition lines_text :: "string list \<Rightarrow> string" where
  "lines_text ls = concat (map (\<lambda>l. l @ CRLF) ls)"

definition localStr :: "print_env \<Rightarrow> 'a sip_msg_scheme \<Rightarrow> string option" where
  "localStr pr m =
     (if (case m_body m of Some b \<Rightarrow> body_panics b | None \<Rightarrow> False) then None
      else map_option (\<lambda>ls. lines_text ls @ CRLF @ (case m_body m of Some b \<Rightarrow> body_text b | None \<Rightarrow> []))
             (those (map (header_LocalStr pr) (printed_headers m))))"

definition GetSL :: "sip_response \<Rightarrow> string" where
  "GetSL r = rs_sipver r @ '' '' @ Itoa (rs_scode r) @ '' '' @ rs_reason r"

definition response_LocalStr :: "print_env \<Rightarrow> sip_response \<Rightarrow> string option" where
  "response_LocalStr pr r = map_option (\<lambda>s. GetSL r @ CRLF @ s) (localStr pr r)"

section \<open>Looking for headers\<close>

definition match_name :: "string \<Rightarrow> sip_header \<Rightarrow> bool" where
  "match_name name h \<longleftrightarrow> ToLower (header_name False h) = ToLower name \<or> ToLower (header_name True h) = ToLower name"

definition own_headers :: "'a sip_msg_scheme \<Rightarrow> sip_header list" where
  "own_headers m = (case m_content_length m of Some h \<Rightarrow> [H_ContentLength h] | None \<Rightarrow> [])
     @ (case m_content_type m of Some t \<Rightarrow> [H_ContentType t] | None \<Rightarrow> [])"

definition GetFirstHF :: "string \<Rightarrow> 'a sip_msg_scheme \<Rightarrow> sip_header option" where
  "GetFirstHF name m = List.find (match_name name)
     (m_headers m @ own_headers m @ map H_Via (take 1 (m_vias m)) @ map H_Route (take 1 (m_routes m)))"

definition GetHFs :: "string \<Rightarrow> 'a sip_msg_scheme \<Rightarrow> sip_header list" where
  "GetHFs name m = filter (match_name name) (m_headers m @ own_headers m @ map H_Via (m_vias m) @ map H_Route (m_routes m))"

end
