(* ===== verification/Sip_Wire.thy ===== *)
theory Sip_Wire
  imports Sip_Msg_Text
begin

text \<open>
  What reading a datagram guarantees: a message that parses has the headers the transactions rely on, its
  body fits the announced length, and a response that was printed is read back with the same
  status, identity and body.
\<close>

section \<open>What a parsed message has\<close>

lemma init_body_keeps:
  assumes "init_body b m = Inr m'"
  shows "m_vias m' = m_vias m" "m_to m' = m_to m" "m_from m' = m_from m" "m_cseq m' = m_cseq m" "m_call_id m' = m_call_id m"
    "m_contacts m' = m_contacts m" "m_record_routes m' = m_record_routes m" "m_routes m' = m_routes m"
  using assms by (auto simp: init_body_def Let_def bind_result_def split: option.splits sum.splits prod.splits)

lemma ParseSipMsg_required:
  assumes "ParseSipMsg pe rt buf = Inr (m, b)"
  shows "m_vias m \<noteq> []" "m_to m \<noteq> None" "m_from m \<noteq> None" "m_cseq m \<noteq> None" "m_call_id m \<noteq> None"
  using assms by (auto simp: ParseSipMsg_def required_headers_def bind_result_def split: prod.splits list.splits sum.splits if_splits)

text \<open>
  Property C34. Every datagram that parses as a request has the headers the rest of the library
  dereferences without looking: a Via, To, From, CSeq and Call-ID. So a response to it can always be made,
  and it goes back the way the request came.
\<close>

theorem parsed_request_answerable:
  assumes "ParseSipRequest pe rt buf = Inr rq"
  shows "m_vias rq \<noteq> [] \<and> m_to rq \<noteq> None \<and> m_from rq \<noteq> None \<and> m_cseq rq \<noteq> None \<and> m_call_id rq \<noteq> None
    \<and> (\<exists>rs. GenResponse scode reason bdy server rq = Inr rs \<and> rs_scode rs = scode \<and> m_vias rs = m_vias rq
         \<and> m_call_id rs = m_call_id rq)"
proof -
  obtain m b where m: "ParseSipMsg pe rt buf = Inr (m, b)" using assms by (auto simp: ParseSipRequest_def bind_result_def split: sum.splits)
  obtain x where x: "init_body b (sip_msg.extend m x) = Inr rq"
    using assms m by (auto simp: ParseSipRequest_def bind_result_def split: sum.splits list.splits)
  have "m_vias rq = m_vias m" "m_to rq = m_to m" "m_from rq = m_from m" "m_cseq rq = m_cseq m" "m_call_id rq = m_call_id m"
    using init_body_keeps [OF x] by (simp_all add: sip_msg.defs)
  then have f: "m_vias rq \<noteq> []" "m_to rq \<noteq> None" "m_from rq \<noteq> None" "m_cseq rq \<noteq> None" "m_call_id rq \<noteq> None"
    using ParseSipMsg_required [OF m] by simp_all
  then obtain rs where "GenResponse scode reason bdy server rq = Inr rs" by (auto simp: GenResponse_def)
  moreover from this have "rs_scode rs = scode" "m_vias rs = m_vias rq" "m_call_id rs = m_call_id rq"
    using GenResponse_Inr by fastforce+
  ultimately show ?thesis using f by blast
qed

section \<open>Body and Content-Length\<close>

lemma short_body_length:
  assumes "short_body n b = Inr c" "int (length b) < n"
  shows "n - 6 \<le> int (length c)" "int (length c) \<le> n + 1" "int (length b) < n \<and> n < int (length b) + 7"
proof -
  have "n - 6 \<le> int (length c) \<and> int (length c) \<le> n + 1 \<and> n < int (length b) + 7"
    using assms by (auto simp: short_body_def Let_def CRLF_def split: if_splits)
  then show "n - 6 \<le> int (length c)" "int (length c) \<le> n + 1" "int (length b) < n \<and> n < int (length b) + 7"
    using assms(2) by simp_all
qed

text \<open>
  The body of a message and its Content-Length \<open>n\<close>: a body at least that long is cut to
  exactly \<open>n\<close> bytes; a shorter one is taken only if at most six bytes are missing and the result has at least
  \<open>n - 6\<close> and at most \<open>n + 1\<close> bytes; zero means no body; a negative number panics.
\<close>

theorem body_fits_content_length:
  assumes "m_content_length m = Some h" "snd (numeric_GetBody h) = Inr n" "m_body m = None"
  shows "case init_body (Some b) m of
      Inl e \<Rightarrow> n < 0 \<and> e = slice_panic \<or> int (length b) < n
    | Inr m' \<Rightarrow>
        if n = 0 then m_body m' = None
        else if n \<le> int (length b) then 0 < n \<and> map_option mb_content (m_body m') = Some (take (nat n) b)
        else n - int (length b) \<le> 6 \<and> (\<exists>c. map_option mb_content (m_body m') = Some c
          \<and> n - 6 \<le> int (length c) \<and> int (length c) \<le> n + 1)"
proof -
  obtain h' where h: "numeric_GetBody h = (h', Inr n)" using assms(2) by (cases "numeric_GetBody h") simp
  show ?thesis
  proof (cases "int (length b) < n")
    case True
    show ?thesis
    proof (cases "short_body n b")
      case (Inl e)
      then show ?thesis using True h assms(1) by (simp add: init_body_def fit_body_def NewMsgBody_def)
    next
      case (Inr c)
      then show ?thesis using short_body_length [OF Inr True] True h assms(1)
        by (auto simp: init_body_def fit_body_def NewMsgBody_def)
    qed
  next
    case False
    then show ?thesis using h assms(1,3) by (auto simp: init_body_def fit_body_def NewMsgBody_def)
  qed
qed

section \<open>Lines\<close>

definition head_text :: "string \<Rightarrow> string list \<Rightarrow> string" where
  "head_text start ls = start @ concat (map (\<lambda>l. CRLF @ l) ls)"

lemma head_text_lines: "CRLF @ lines_text ls = concat (map (\<lambda>l. CRLF @ l) ls) @ CRLF"
  by (induction ls) (simp_all add: lines_text_def)

lemma cut_at_line:
  "list_all (\<lambda>c. \<not> line_break c) l \<Longrightarrow>
   cut_at (CRLF @ CRLF) (l @ s) = map_option (\<lambda>(a, b). (l @ a, b)) (cut_at (CRLF @ CRLF) s)"
proof (induction l)
  case Nil
  then show ?case by (simp add: option.map_ident case_prod_unfold)
next
  case (Cons c l)
  then have "c \<noteq> CHR 0x0D" by (simp add: line_break_def)
  then show ?case using Cons by (simp add: CRLF_def option.map_comp comp_def case_prod_unfold)
qed

lemma cut_at_break:
  assumes "line_ok l"
  shows "cut_at (CRLF @ CRLF) (CRLF @ l @ s) = map_option (\<lambda>(a, b). (CRLF @ a, b)) (cut_at (CRLF @ CRLF) (l @ s))"
proof -
  obtain c t where l: "l = c # t" "c \<noteq> CHR 0x0D" using assms by (cases l) (auto simp: line_ok_def line_break_def)
  then show ?thesis by (simp add: CRLF_def option.map_comp comp_def case_prod_unfold)
qed

lemma cut_at_head:
  "list_all (\<lambda>c. \<not> line_break c) start \<Longrightarrow> list_all line_ok ls \<Longrightarrow>
   cut_at (CRLF @ CRLF) (head_text start ls @ CRLF @ CRLF @ body) = Some (head_text start ls, body)"
proof (induction ls arbitrary: start)
  case Nil
  have "cut_at (CRLF @ CRLF) (CRLF @ CRLF @ body) = Some ([], body)" by (simp add: CRLF_def)
  then show ?case using cut_at_line [OF Nil(1), of "CRLF @ CRLF @ body"] by (simp add: head_text_def)
next
  case (Cons l ls)
  have "cut_at (CRLF @ CRLF) (head_text l ls @ CRLF @ CRLF @ body) = Some (head_text l ls, body)"
    using Cons by (intro Cons.IH) (simp_all add: line_ok_def)
  then have "cut_at (CRLF @ CRLF) (CRLF @ l @ concat (map (\<lambda>l. CRLF @ l) ls) @ CRLF @ CRLF @ body)
      = Some (CRLF @ head_text l ls, body)"
    using cut_at_break [of l "concat (map (\<lambda>l. CRLF @ l) ls) @ CRLF @ CRLF @ body"] Cons(3) by (simp add: head_text_def)
  then show ?case
    using cut_at_line [OF Cons(2), of "CRLF @ l @ concat (map (\<lambda>l. CRLF @ l) ls) @ CRLF @ CRLF @ body"]
    by (simp add: head_text_def)
qed

lemma crlf_fields_head: "line_ok start \<Longrightarrow> list_all line_ok ls \<Longrightarrow> crlf_fields (head_text start ls) = start # ls"
proof (induction ls arbitrary: start)
  case Nil
  then show ?case by (simp add: head_text_def crlf_fields_line)
next
  case (Cons l ls)
  then show ?case using crlf_fields_more [of start "head_text l ls"] by (simp add: head_text_def)
qed

definition header_line :: "string \<Rightarrow> bool" where
  "header_line l \<longleftrightarrow> line_ok l \<and> hd l \<noteq> CHR '' '' \<and> hd l \<noteq> CHR 0x09"

lemma fold_lines_plain: "list_all header_line ls \<Longrightarrow> fold_lines prev ls = (if prev \<noteq> [] then [prev] else []) @ ls"
proof (induction ls arbitrary: prev)
  case (Cons l ls)
  then have "l \<noteq> []" "hd l \<noteq> CHR '' ''" "hd l \<noteq> CHR 0x09" by (simp_all add: header_line_def line_ok_def)
  then show ?case using Cons by simp
qed simp

text \<open>A text made of a start line and header lines is cut into them again.\<close>

lemma ParseSipMsg_lines:
  assumes "line_ok start" "list_all header_line ls"
    and "parse_headers pe ls ((NewSipMsg rt)\<lparr>m_startline := start\<rparr>) = Inr m" "required_headers m = Inr m"
  shows "ParseSipMsg pe rt (start @ CRLF @ lines_text ls @ CRLF @ body) = Inr (m, if body = [] then None else Some body)"
proof -
  have ok: "list_all line_ok ls" using assms(2) by (simp add: header_line_def list_all_iff)
  have "start @ CRLF @ lines_text ls @ CRLF @ body = head_text start ls @ CRLF @ CRLF @ body"
    using head_text_lines [of ls] by (simp add: head_text_def)
  moreover have "cut_at (CRLF @ CRLF) (head_text start ls @ CRLF @ CRLF @ body) = Some (head_text start ls, body)"
    using assms(1) ok by (intro cut_at_head) (simp_all add: line_ok_def)
  moreover have "crlf_fields (head_text start ls) = start # ls" by (rule crlf_fields_head [OF assms(1) ok])
  ultimately show ?thesis using fold_lines_plain [OF assms(2), of "[]"] assms(3,4)
    by (simp only: ParseSipMsg_def locate_body.simps option.case prod.case list.case) simp
qed

section \<open>Headers that read back\<close>

text \<open>What a header is when it was received: numbers and the Reason header are texts until they are used.\<close>

fun received :: "sip_header \<Rightarrow> sip_header" where
  "received (H_RSeq t) = H_RSeq (createSipNumericHF (numeric_StringBody t))"
| "received (H_MaxForwards t) = H_MaxForwards (createSipNumericHF (numeric_StringBody t))"
| "received (H_ContentLength t) = H_ContentLength (createSipNumericHF (numeric_StringBody t))"
| "received (H_Expires t) = H_Expires (createSipNumericHF (numeric_StringBody t))"
| "received (H_Reason t) = H_Reason \<lparr>rsn_string_body = reason_text t, rsn_body = None\<rparr>"
| "received h = h"

definition address_wire_ok :: "parse_env \<Rightarrow> print_env \<Rightarrow> address_hf \<Rightarrow> bool" where
  "address_wire_ok pe pr t \<longleftrightarrow>
     (case t of
        Inl _ \<Rightarrow> False
      | Inr a \<Rightarrow>
          address_text_ok (pr_float pr) (pr_wide pr) (pr_hostport pr) (pr_headers pr (adr_url a)) (pr_params pr a) a
          \<and> map_of (pr_headers pr (adr_url a)) = url_Headers (adr_url a) \<and> map_of (pr_params pr a) = adr_params a
          \<and> pe_float pe (pr_float pr (adr_q a)) = Some (adr_q a)
          \<and> CHR '','' \<notin> set (address_text pr a) \<and> address_text pr a \<noteq> ''*'')"

definition via_wire_ok :: "print_env \<Rightarrow> via_hf \<Rightarrow> bool" where
  "via_wire_ok pr t \<longleftrightarrow>
     (case t of Inl _ \<Rightarrow> False | Inr v \<Rightarrow> (\<exists>extra. via_text_ok extra v) \<and> CHR '','' \<notin> set (via_localString (pr_hostport pr) v))"

definition cseq_wire_ok :: "cseq_body result \<Rightarrow> bool" where
  "cseq_wire_ok t \<longleftrightarrow>
     (case t of Inl _ \<Rightarrow> False | Inr c \<Rightarrow> int64 (CSeq_num c) \<and> no_space (CSeq_Method c) \<and> CSeq_Method c \<noteq> [])"

definition rack_wire_ok :: "rack_body result \<Rightarrow> bool" where
  "rack_wire_ok t \<longleftrightarrow>
     (case t of Inl _ \<Rightarrow> False
      | Inr r \<Rightarrow> int64 (RAck_RSeq r) \<and> int64 (RAck_CSeq r) \<and> no_space (RAck_Method r) \<and> RAck_Method r \<noteq> [])"

definition challenge_wire_ok :: "print_env \<Rightarrow> challenge_body result \<Rightarrow> bool" where
  "challenge_wire_ok pr t \<longleftrightarrow> (case t of Inl _ \<Rightarrow> False | Inr b \<Rightarrow> challenge_ok b)"

definition auth_wire_ok :: "authorization_body result \<Rightarrow> bool" where
  "auth_wire_ok t \<longleftrightarrow> (case t of Inl _ \<Rightarrow> False | Inr a \<Rightarrow> auth_ok a)"

fun content_wire_ok :: "parse_env \<Rightarrow> print_env \<Rightarrow> sip_header \<Rightarrow> bool" where
  "content_wire_ok pe pr (H_CSeq t) = cseq_wire_ok t"
| "content_wire_ok pe pr (H_RAck t) = rack_wire_ok t"
| "content_wire_ok pe pr (H_Via t) = via_wire_ok pr t"
| "content_wire_ok pe pr (H_From t) = address_wire_ok pe pr t"
| "content_wire_ok pe pr (H_To t) = address_wire_ok pe pr t"
| "content_wire_ok pe pr (H_RecordRoute t) = address_wire_ok pe pr t"
| "content_wire_ok pe pr (H_Route t) = address_wire_ok pe pr t"
| "content_wire_ok pe pr (H_Contact t) = (\<not> ct_Asterisk t \<and> address_wire_ok pe pr (ct_address t))"
| "content_wire_ok pe pr (H_Also t) = address_wire_ok pe pr t"
| "content_wire_ok pe pr (H_ReferTo t) = address_wire_ok pe pr t"
| "content_wire_ok pe pr (H_CCDiversion t) = address_wire_ok pe pr t"
| "content_wire_ok pe pr (H_ReferredBy t) = address_wire_ok pe pr t"
| "content_wire_ok pe pr (H_Diversion t) = address_wire_ok pe pr t"
| "content_wire_ok pe pr (H_WWWAuthenticate t) = challenge_wire_ok pr t"
| "content_wire_ok pe pr (H_ProxyAuthenticate t) = challenge_wire_ok pr t"
| "content_wire_ok pe pr (H_Authorization t) = auth_wire_ok t"
| "content_wire_ok pe pr (H_ProxyAuthorization t) = auth_wire_ok t"
| "content_wire_ok pe pr (H_Replaces t) = False"
| "content_wire_ok pe pr (H_Generic n t) =
     (n \<noteq> [] \<and> TrimSpace n = n \<and> list_all (\<lambda>c. \<not> line_break c) n \<and> hd n \<noteq> CHR '' '' \<and> hd n \<noteq> CHR 0x09
      \<and> CHR '':'' \<notin> set n \<and> Title n = n \<and> map_of (sip_header_name_map pe) (ToLower n) = None)"
| "content_wire_ok pe pr _ = True"

text \<open>A header that can be printed on one line and read back.\<close>

definition header_wire_ok :: "parse_env \<Rightarrow> print_env \<Rightarrow> sip_header \<Rightarrow> bool" where
  "header_wire_ok pe pr h \<longleftrightarrow> content_wire_ok pe pr h
     \<and> (case header_StringBody pr h of None \<Rightarrow> False | Some b \<Rightarrow> TrimSpace b = b \<and> list_all (\<lambda>c. \<not> line_break c) b)"

lemma CreateSipAddressHFs_single: "CHR '','' \<notin> set s \<Longrightarrow> s \<noteq> [] \<Longrightarrow> CreateSipAddressHFs s = [s]"
proof -
  have "CHR '','' \<notin> set s \<Longrightarrow> split_addresses acc s = (if acc @ s = [] then [] else [acc @ s])" for acc
    by (induction s arbitrary: acc) auto
  then show "CHR '','' \<notin> set s \<Longrightarrow> s \<noteq> [] \<Longrightarrow> CreateSipAddressHFs s = [s]" by (simp add: CreateSipAddressHFs_def)
qed

lemma address_text_not_Nil: "address_text pr a \<noteq> []"
  by (simp add: address_text_def address_LocalStr_def url_LocalStr_def Let_def)

lemma address_headers_back:
  assumes "address_wire_ok pe pr t" "parsed_text (address_text pr) t = Some b"
  shows "address_headers pe mk b = [mk t]" "b \<noteq> ''*''"
proof -
  obtain a where a: "t = Inr a" "b = address_text pr a"
    using assms by (auto simp: address_wire_ok_def parsed_text_def split: sum.splits)
  have "ParseSipAddress (pe_float pe) (pe_tel pe) False (pe_cfg pe) b = Inr a"
    unfolding a(2) address_text_def using assms(1) a(1)
    by (intro address_roundtrip) (simp_all add: address_wire_ok_def)
  then show "address_headers pe mk b = [mk t]" "b \<noteq> ''*''"
    using assms(1) a address_text_not_Nil by (simp_all add: address_headers_def address_wire_ok_def CreateSipAddressHFs_single)
qed

lemma via_back: "via_wire_ok pr t \<Longrightarrow> parsed_text (via_localString (pr_hostport pr)) t = Some b \<Longrightarrow> CreateSipVia b = [H_Via t]"
  by (auto simp: via_wire_ok_def parsed_text_def CreateSipVia_def go_split_absent via_roundtrip split: sum.splits)

lemma simple_back:
  "cseq_wire_ok c \<Longrightarrow> parsed_text cseq_String c = Some b \<Longrightarrow> cseq_parse b = c"
  "rack_wire_ok r \<Longrightarrow> parsed_text rack_String r = Some b \<Longrightarrow> rack_parse b = r"
  "auth_wire_ok a \<Longrightarrow> parsed_text auth_String a = Some b \<Longrightarrow> parseSipAuthorizationBody b = a"
  by (auto simp: cseq_wire_ok_def rack_wire_ok_def auth_wire_ok_def parsed_text_def cseq_roundtrip rack_roundtrip auth_roundtrip
      split: sum.splits)

text \<open>A realm of its own is printed as it is, whatever the local address.\<close>

lemma challenge_local: "challenge_ok b \<Longrightarrow> challenge_localString hp b = challenge_localString None b"
  by (auto simp: challenge_ok_def challenge_localString_def local_host_def split: option.splits)

lemma challenge_back:
  assumes "challenge_wire_ok pr t"
    and "(case bind_result t (challenge_localString (pr_hostport pr)) of Inr s \<Rightarrow> Some s | Inl _ \<Rightarrow> None) = Some b"
  shows "challenge_parse b = t"
proof -
  obtain c where c: "t = Inr c" "challenge_ok c" using assms(1) by (auto simp: challenge_wire_ok_def split: sum.splits)
  have "challenge_localString None c = Inr b"
    using assms(2) challenge_local [OF c(2), of "pr_hostport pr"] c(1) by (simp split: sum.splits)
  with challenge_roundtrip [OF c(2)] c(1) show ?thesis by simp
qed

lemma TrimSpace_blank: "TrimSpace (CHR '' '' # s) = TrimSpace s"
  by (simp add: TrimSpace_def ascii_space_def)

text \<open>The standard names find their own constructors.\<close>

definition standard_names :: "string list" where
  "standard_names = [''CSeq'', ''RSeq'', ''RAck'', ''Call-ID'', ''i'', ''From'', ''f'', ''To'', ''t'', ''Max-Forwards'', ''Via'', ''v'',
     ''Content-Length'', ''l'', ''Content-Type'', ''c'', ''Expires'', ''Record-Route'', ''Route'', ''Contact'', ''m'',
     ''WWW-Authenticate'', ''Authorization'', ''Server'', ''User-Agent'', ''Cisco-GUID'', ''h323-conf-id'', ''Also'', ''Refer-To'', ''r'',
     ''CC-Diversion'', ''Referred-By'', ''Diversion'', ''Proxy-Authenticate'', ''Proxy-Authorization'', ''Replaces'', ''Reason'',
     ''Warning'', ''Require'', ''Supported'', ''Date'']"

definition plain_name :: "string \<Rightarrow> bool" where
  "plain_name n \<longleftrightarrow> n \<noteq> [] \<and> TrimSpace n = n \<and> list_all (\<lambda>c. \<not> line_break c) n \<and> hd n \<noteq> CHR '' '' \<and> hd n \<noteq> CHR 0x09 \<and> CHR '':'' \<notin> set n"

lemma standard_names_plain: "n \<in> set standard_names \<Longrightarrow> plain_name n"
proof -
  have "list_all plain_name standard_names" by code_simp
  then show "n \<in> set standard_names \<Longrightarrow> plain_name n" by (simp only: list_all_iff)
qed

lemma header_name_plain: "content_wire_ok pe pr h \<Longrightarrow> plain_name (header_name abbr h)"
  by (cases h) (simp_all add: standard_names_plain standard_names_def, simp_all add: plain_name_def)

lemma ParseSipHeader_line:
  assumes "plain_name n" "TrimSpace b = b"
  shows "ParseSipHeader pe (n @ '': '' @ b) =
    (case map_of (sip_header_name_map pe) (ToLower n) of Some factory \<Rightarrow> Inr (factory b) | None \<Rightarrow> Inr [H_Generic (Title n) b])"
proof -
  have "go_cut (CHR '':'') (n @ CHR '':'' # CHR '' '' # b) = (n, Some (CHR '' '' # b))"
    using assms(1) by (intro cut_append) (simp add: plain_name_def)
  then show ?thesis using assms TrimSpace_blank [of b]
    by (cases "map_of (sip_header_name_map pe) (ToLower n)") (simp_all add: ParseSipHeader_def plain_name_def Let_def)
qed

lemma lower_names:
  "ToLower ''CSeq'' = ''cseq''" "ToLower ''RSeq'' = ''rseq''" "ToLower ''RAck'' = ''rack''" "ToLower ''Call-ID'' = ''call-id''"
  "ToLower ''i'' = ''i''" "ToLower ''From'' = ''from''" "ToLower ''f'' = ''f''" "ToLower ''To'' = ''to''"
  "ToLower ''t'' = ''t''" "ToLower ''Max-Forwards'' = ''max-forwards''" "ToLower ''Via'' = ''via''"
  "ToLower ''v'' = ''v''" "ToLower ''Content-Length'' = ''content-length''" "ToLower ''l'' = ''l''"
  "ToLower ''Content-Type'' = ''content-type''" "ToLower ''c'' = ''c''" "ToLower ''Expires'' = ''expires''"
  "ToLower ''Record-Route'' = ''record-route''" "ToLower ''Route'' = ''route''" "ToLower ''Contact'' = ''contact''"
  "ToLower ''m'' = ''m''" "ToLower ''WWW-Authenticate'' = ''www-authenticate''" "ToLower ''Authorization'' = ''authorization''"
  "ToLower ''Server'' = ''server''" "ToLower ''User-Agent'' = ''user-agent''" "ToLower ''Cisco-GUID'' = ''cisco-guid''"
  "ToLower ''h323-conf-id'' = ''h323-conf-id''" "ToLower ''Also'' = ''also''" "ToLower ''Refer-To'' = ''refer-to''"
  "ToLower ''r'' = ''r''" "ToLower ''CC-Diversion'' = ''cc-diversion''" "ToLower ''Referred-By'' = ''referred-by''"
  "ToLower ''Diversion'' = ''diversion''" "ToLower ''Proxy-Authenticate'' = ''proxy-authenticate''"
  "ToLower ''Proxy-Authorization'' = ''proxy-authorization''" "ToLower ''Replaces'' = ''replaces''"
  "ToLower ''Reason'' = ''reason''" "ToLower ''Warning'' = ''warning''" "ToLower ''Require'' = ''require''"
  "ToLower ''Supported'' = ''supported''" "ToLower ''Date'' = ''date''"
  by code_simp+

text \<open>The constructor a standard name stands for.\<close>

lemma factories:
  "map_of (sip_header_name_map pe) (ToLower ''CSeq'') = Some (\<lambda>b. [H_CSeq (cseq_parse b)])"
  "map_of (sip_header_name_map pe) (ToLower ''RSeq'') = Some (\<lambda>b. [H_RSeq (createSipNumericHF b)])"
  "map_of (sip_header_name_map pe) (ToLower ''RAck'') = Some (\<lambda>b. [H_RAck (rack_parse b)])"
  "map_of (sip_header_name_map pe) (ToLower (if a then ''i'' else ''Call-ID'')) = Some (\<lambda>b. [H_CallId b])"
  "map_of (sip_header_name_map pe) (ToLower (if a then ''f'' else ''From'')) = Some (address_headers pe H_From)"
  "map_of (sip_header_name_map pe) (ToLower (if a then ''t'' else ''To'')) = Some (address_headers pe H_To)"
  "map_of (sip_header_name_map pe) (ToLower ''Max-Forwards'') = Some (\<lambda>b. [H_MaxForwards (createSipNumericHF b)])"
  "map_of (sip_header_name_map pe) (ToLower (if a then ''v'' else ''Via'')) = Some CreateSipVia"
  "map_of (sip_header_name_map pe) (ToLower (if a then ''l'' else ''Content-Length'')) = Some (\<lambda>b. [H_ContentLength (createSipNumericHF b)])"
  "map_of (sip_header_name_map pe) (ToLower (if a then ''c'' else ''Content-Type'')) = Some (\<lambda>b. [H_ContentType b])"
  "map_of (sip_header_name_map pe) (ToLower ''Expires'') = Some (\<lambda>b. [H_Expires (createSipNumericHF b)])"
  "map_of (sip_header_name_map pe) (ToLower ''Record-Route'') = Some (address_headers pe H_RecordRoute)"
  "map_of (sip_header_name_map pe) (ToLower ''Route'') = Some (address_headers pe H_Route)"
  "map_of (sip_header_name_map pe) (ToLower (if a then ''m'' else ''Contact'')) = Some (CreateSipContact pe)"
  "map_of (sip_header_name_map pe) (ToLower ''WWW-Authenticate'') = Some (\<lambda>b. [H_WWWAuthenticate (challenge_parse b)])"
  "map_of (sip_header_name_map pe) (ToLower ''Authorization'') = Some (\<lambda>b. [H_Authorization (parseSipAuthorizationBody b)])"
  "map_of (sip_header_name_map pe) (ToLower ''Server'') = Some (\<lambda>b. [H_Server b])"
  "map_of (sip_header_name_map pe) (ToLower ''User-Agent'') = Some (\<lambda>b. [H_UserAgent b])"
  "map_of (sip_header_name_map pe) (ToLower ''Cisco-GUID'') = Some (\<lambda>b. [H_CiscoGUID b])"
  "map_of (sip_header_name_map pe) (ToLower ''h323-conf-id'') = Some (\<lambda>b. [H_H323ConfId b])"
  "map_of (sip_header_name_map pe) (ToLower ''Also'') = Some (address_headers pe H_Also)"
  "map_of (sip_header_name_map pe) (ToLower (if a then ''r'' else ''Refer-To'')) = Some (address_headers pe H_ReferTo)"
  "map_of (sip_header_name_map pe) (ToLower ''CC-Diversion'') = Some (address_headers pe H_CCDiversion)"
  "map_of (sip_header_name_map pe) (ToLower ''Referred-By'') = Some (address_headers pe H_ReferredBy)"
  "map_of (sip_header_name_map pe) (ToLower ''Diversion'') = Some (address_headers pe H_Diversion)"
  "map_of (sip_header_name_map pe) (ToLower ''Proxy-Authenticate'') = Some (\<lambda>b. [H_ProxyAuthenticate (challenge_parse b)])"
  "map_of (sip_header_name_map pe) (ToLower ''Proxy-Authorization'') = Some (\<lambda>b. [H_ProxyAuthorization (parseSipAuthorizationBody b)])"
  "map_of (sip_header_name_map pe) (ToLower ''Reason'') = Some (\<lambda>b. [H_Reason \<lparr>rsn_string_body = b, rsn_body = None\<rparr>])"
  "map_of (sip_header_name_map pe) (ToLower ''Warning'') = Some (\<lambda>b. [H_Warning b])"
  "map_of (sip_header_name_map pe) (ToLower ''Require'') = Some (\<lambda>b. [H_Require b])"
  "map_of (sip_header_name_map pe) (ToLower ''Supported'') = Some (\<lambda>b. [H_Supported b])"
  "map_of (sip_header_name_map pe) (ToLower ''Date'') = Some (\<lambda>b. [H_Date b])"
  by (simp_all add: sip_header_name_map_def lower_names)

lemma CreateSipContact_back:
  "\<not> ct_Asterisk c \<Longrightarrow> address_wire_ok pe pr (ct_address c) \<Longrightarrow> parsed_text (address_text pr) (ct_address c) = Some b \<Longrightarrow>
   CreateSipContact pe b = [H_Contact c]"
  using address_headers_back [of pe pr "ct_address c" b]
  by (cases c) (simp add: CreateSipContact_def)

lemma header_reads_back:
  assumes "content_wire_ok pe pr h" "header_StringBody pr h = Some b" "TrimSpace b = b"
  shows "ParseSipHeader pe (header_name abbr h @ '': '' @ b) = Inr [received h]"
  unfolding ParseSipHeader_line [OF header_name_plain [OF assms(1)] assms(3)]
  using assms(1,2)
  by (cases h) (simp_all only: header_name.simps factories option.case, auto simp: address_headers_back via_back simple_back
      challenge_back CreateSipContact_back)

section \<open>Responses\<close>

lemma received_not_asterisk: "content_wire_ok pe pr h \<Longrightarrow> \<not> asterisk (received h)"
  by (cases h) simp_all

lemma header_wire_line:
  assumes "header_wire_ok pe pr h"
  obtains l where "header_LocalStr pr h = Some l" "header_line l" "ParseSipHeader pe l = Inr [received h]"
    "\<not> asterisk (received h)"
proof -
  obtain b where b: "content_wire_ok pe pr h" "header_StringBody pr h = Some b" "TrimSpace b = b" "list_all (\<lambda>c. \<not> line_break c) b"
    using assms by (auto simp: header_wire_ok_def split: option.splits)
  let ?n = "header_name (pr_compact pr) h"
  have n: "plain_name ?n" by (rule header_name_plain [OF b(1)])
  have "header_line (?n @ '': '' @ b)"
    using n b(4) by (auto simp: header_line_def line_ok_def plain_name_def line_break_def)
  then show thesis
    using that [of "?n @ '': '' @ b"] header_reads_back [OF b(1-3), of "pr_compact pr"] b(2) received_not_asterisk [OF b(1)]
    by (simp add: header_LocalStr_def)
qed

lemma headers_wire_lines:
  assumes "list_all (header_wire_ok pe pr) hs"
  shows "\<exists>ls. those (map (header_LocalStr pr) hs) = Some ls \<and> list_all header_line ls
    \<and> (\<forall>m. parse_headers pe ls m = Inr (appendHeaders (map received hs) m))"
  using assms
proof (induction hs)
  case (Cons h hs)
  then obtain ls where ls: "those (map (header_LocalStr pr) hs) = Some ls" "list_all header_line ls"
    "\<And>m. parse_headers pe ls m = Inr (appendHeaders (map received hs) m)" by auto
  obtain l where l: "header_LocalStr pr h = Some l" "header_line l" "ParseSipHeader pe l = Inr [received h]"
    "\<not> asterisk (received h)" using Cons.prems by (auto elim: header_wire_line)
  show ?case using ls l by (intro exI [of _ "l # ls"]) (simp add: appendHeaders_def)
qed (simp add: appendHeaders_def)

text \<open>
  A message that reads as another one: the same headers in the same order, as they are when they were received, and the same in all the fields
  that are filled from them.
\<close>

definition numeric_received :: "numeric_hf \<Rightarrow> numeric_hf" where
  "numeric_received t = createSipNumericHF (numeric_StringBody t)"

definition same_fields :: "'a sip_msg_scheme \<Rightarrow> 'b sip_msg_scheme \<Rightarrow> bool" where
  "same_fields m m' \<longleftrightarrow> m_to m = m_to m' \<and> m_from m = m_from m' \<and> m_cseq m = m_cseq m' \<and> m_call_id m = m_call_id m'
     \<and> m_contacts m = m_contacts m' \<and> m_record_routes m = m_record_routes m' \<and> m_rack m = m_rack m' \<and> m_refer_to m = m_refer_to m' \<and> m_also m = m_also m'
     \<and> m_sip_www_authenticates m = m_sip_www_authenticates m' \<and> m_sip_proxy_authenticates m = m_sip_proxy_authenticates m'
     \<and> m_sip_server m = m_sip_server m' \<and> m_sip_user_agent m = m_sip_user_agent m' \<and> m_sip_require m = m_sip_require m'
     \<and> m_sip_supported m = m_sip_supported m' \<and> m_sip_warning m = m_sip_warning m' \<and> m_sip_date m = m_sip_date m'"

definition reads_as :: "'a sip_msg_scheme \<Rightarrow> 'b sip_msg_scheme \<Rightarrow> bool" where
  "reads_as m m' \<longleftrightarrow> same_fields m m' \<and> m_headers m = map received (m_headers m') \<and> m_rseq m = map_option numeric_received (m_rseq m')"

lemma AppendHeader_received:
  fixes m m' :: sip_msg
  assumes "reads_as m m'" "m_vias m = vs @ m_vias m'" "m_routes m = rs @ m_routes m'"
  shows "reads_as (AppendHeader (received h) m) (AppendHeader h m')"
    "m_vias (AppendHeader (received h) m) = vs @ m_vias (AppendHeader h m')"
    "m_routes (AppendHeader (received h) m) = rs @ m_routes (AppendHeader h m')"
  using assms by (cases h; simp add: push_header_def reads_as_def same_fields_def numeric_received_def)+

lemma received_identity:
  fixes m m' :: sip_msg
  assumes "reads_as m m'" "m_vias m = vs @ m_vias m'" "m_routes m = rs @ m_routes m'"
  shows "reads_as (appendHeaders (map received hs) m) (appendHeaders hs m')
    \<and> m_vias (appendHeaders (map received hs) m) = vs @ m_vias (appendHeaders hs m')
    \<and> m_routes (appendHeaders (map received hs) m) = rs @ m_routes (appendHeaders hs m')"
  using assms
proof (induction hs arbitrary: m m')
  case (Cons h hs)
  show ?case unfolding appendHeaders_def list.map fold_Cons comp_apply
    using AppendHeader_received [OF Cons.prems] by (intro Cons.IH [unfolded appendHeaders_def])
qed (simp add: appendHeaders_def)

text \<open>The fields of a response are those its headers fill, as the constructors leave them.\<close>

definition response_typed :: "sip_response \<Rightarrow> bool" where
  "response_typed r \<longleftrightarrow> (let m = appendHeaders (m_headers r) (NewSipMsg None) in
     same_fields m r \<and> m_headers m = m_headers r \<and> m_rseq m = m_rseq r \<and> m_vias m = [] \<and> m_routes m = []
     \<and> m_to r \<noteq> None \<and> m_from r \<noteq> None \<and> m_cseq r \<noteq> None \<and> m_call_id r \<noteq> None \<and> m_vias r \<noteq> [])"

definition body_wire_ok :: "msg_body option \<Rightarrow> bool" where
  "body_wire_ok b \<longleftrightarrow> (case b of None \<Rightarrow> True
     | Some c \<Rightarrow> \<not> body_panics c \<and> body_text c \<noteq> [] \<and> int64 (int (length (body_text c))) \<and> ToLower (mb_mtype c) = mb_mtype c)"

text \<open>
  A response that fits on the wire: its headers are parsed ones, and the text of each is one line without blanks around it, with no comma inside an address or a Via
  (the reader would split it); its status line is one line.
\<close>

definition response_wire_ok :: "parse_env \<Rightarrow> print_env \<Rightarrow> sip_response \<Rightarrow> bool" where
  "response_wire_ok pe pr r \<longleftrightarrow>
     list_all (header_wire_ok pe pr) (printed_headers r) \<and> response_typed r \<and> body_wire_ok (m_body r)
     \<and> rs_sipver r \<noteq> [] \<and> no_space (rs_sipver r) \<and> int64 (rs_scode r)
     \<and> rs_reason r \<noteq> [] \<and> space_len (rs_reason r) = 0 \<and> list_all (\<lambda>c. \<not> line_break c) (GetSL r)"

lemma map_received [simp]: "map received (map H_Via vs) = map H_Via vs" "map received (map H_Route rs) = map H_Route rs"
  by simp_all

text \<open>The message read from the lines of a response, before its body is attached.\<close>

lemma received_message:
  fixes r :: sip_response and base :: sip_msg
  assumes "response_typed r" "base = (NewSipMsg rt)\<lparr>m_startline := start\<rparr>"
  defines "m \<equiv> appendHeaders (map received (printed_headers r)) base"
  shows "reads_as m r" "m_vias m = m_vias r" "m_routes m = m_routes r"
    "required_headers m = Inr m" "m_startline m = start" "m_body m = None"
    "m_content_length m = Some (createSipNumericHF (Itoa (case m_body r of Some b \<Rightarrow> int (length (body_text b)) | None \<Rightarrow> 0)))"
    "m_body r = Some b \<Longrightarrow> m_content_type m = Some (mb_mtype b)"
proof -
  let ?mf = "case m_maxforwards r of Some n \<Rightarrow> [H_MaxForwards n] | None \<Rightarrow> []"
  let ?au = "case m_sip_authorization r of Some a \<Rightarrow> [H_Authorization a]
        | None \<Rightarrow> (case m_sip_proxy_authorization r of Some a \<Rightarrow> [H_ProxyAuthorization a] | None \<Rightarrow> [])"
  let ?m1 = "appendHeaders (map received ?mf) (appendHeaders (map H_Route (m_routes r)) (appendHeaders (map H_Via (m_vias r)) base))"
  have m1: "reads_as ?m1 (NewSipMsg None)" "m_vias ?m1 = m_vias r" "m_routes ?m1 = m_routes r" "m_startline ?m1 = start" "m_body ?m1 = None"
    unfolding assms(2) by (simp_all add: msg_simps NewSipMsg_def reads_as_def same_fields_def split: option.splits)
  let ?m2 = "appendHeaders (map received (m_headers r)) ?m1"
  have t: "reads_as ?m2 (appendHeaders (m_headers r) (NewSipMsg None)) \<and> m_vias ?m2 = m_vias r @ m_vias (appendHeaders (m_headers r) (NewSipMsg None))
      \<and> m_routes ?m2 = m_routes r @ m_routes (appendHeaders (m_headers r) (NewSipMsg None))"
    by (rule received_identity) (simp_all add: m1, simp_all add: NewSipMsg_def)
  then have m2: "reads_as ?m2 r" "m_vias ?m2 = m_vias r" "m_routes ?m2 = m_routes r"
    using assms(1) by (simp_all add: response_typed_def Let_def reads_as_def same_fields_def)
  have sl: "m_startline (appendHeaders hs x) = m_startline x \<and> m_body (appendHeaders hs x) = m_body x" for hs and x :: sip_msg
  proof (induction hs arbitrary: x)
    case (Cons h hs)
    then show ?case by (cases h) (simp_all add: appendHeaders_def push_header_def)
  qed (simp add: appendHeaders_def)
  let ?m3 = "appendHeaders (map received ?au) ?m2"
  have m3: "reads_as ?m3 r" "m_vias ?m3 = m_vias r" "m_routes ?m3 = m_routes r"
    using m2 by (simp_all add: appendHeaders_def reads_as_def same_fields_def split: option.splits)
  have m: "m = (case m_body r of
      Some b \<Rightarrow> ?m3\<lparr>m_content_length := Some (createSipNumericHF (Itoa (int (length (body_text b))))), m_content_type := Some (mb_mtype b)\<rparr>
    | None \<Rightarrow> ?m3\<lparr>m_content_length := Some (createSipNumericHF (Itoa 0))\<rparr>)"
    unfolding m_def printed_headers_def map_append map_received appendHeaders_simps
    by (simp add: appendHeaders_simps numeric_StringBody_def newSipNumericHF_def split: option.split)
  show r: "reads_as m r" and v: "m_vias m = m_vias r" "m_routes m = m_routes r"
    using m3 by (simp_all add: m reads_as_def same_fields_def split: option.split)
  show "m_startline m = start" "m_body m = None"
    "m_content_length m = Some (createSipNumericHF (Itoa (case m_body r of Some b \<Rightarrow> int (length (body_text b)) | None \<Rightarrow> 0)))"
    "m_body r = Some b \<Longrightarrow> m_content_type m = Some (mb_mtype b)"
    using m1 sl by (simp_all add: m split: option.split)
  show "required_headers m = Inr m"
    using assms(1) r v by (simp add: required_headers_def response_typed_def reads_as_def same_fields_def Let_def)
qed

lemma response_startline_back:
  assumes "rs_sipver r \<noteq> []" "no_space (rs_sipver r)" "rs_reason r \<noteq> []" "space_len (rs_reason r) = 0"
  shows "response_startline (GetSL r) = Inr (rs_sipver r, Itoa (rs_scode r), rs_reason r)"
proof -
  have "FieldsN (GetSL r) 3 = [rs_sipver r, Itoa (rs_scode r), rs_reason r]"
    using fields_scan_field [of "rs_sipver r" 3 "Itoa (rs_scode r) @ '' '' @ rs_reason r"]
      fields_scan_field [of "Itoa (rs_scode r)" 2 "rs_reason r"] fields_scan_last [of "rs_reason r"] assms
    by (simp add: FieldsN_def GetSL_def)
  then show ?thesis by (simp add: response_startline_def)
qed

lemma numeric_text_value: "int64 n \<Longrightarrow> snd (numeric_GetBody (createSipNumericHF (Itoa n))) = Inr n"
  using Atoi_Itoa [of n] by (auto simp: numeric_GetBody_def createSipNumericHF_def int64_def Atoi_def split: prod.splits if_splits)

definition body_received :: "msg_body \<Rightarrow> msg_body" where
  "body_received c = NewMsgBody (body_text c) (mb_mtype c)"

lemma init_body_exact:
  assumes "m_content_length m = Some h" "snd (numeric_GetBody h) = Inr (case b of Some c \<Rightarrow> int (length (body_text c)) | None \<Rightarrow> 0)"
    and "m_body m = None" "body_wire_ok b" "\<And>c. b = Some c \<Longrightarrow> m_content_type m = Some (mb_mtype c)"
  shows "\<exists>h'. init_body (case b of Some c \<Rightarrow> Some (body_text c) | None \<Rightarrow> None) m =
    Inr (m\<lparr>m_content_length := Some h', m_body := map_option body_received b\<rparr>)"
proof -
  obtain h' where h: "numeric_GetBody h = (h', Inr (case b of Some c \<Rightarrow> int (length (body_text c)) | None \<Rightarrow> 0))"
    using assms(2) by (cases "numeric_GetBody h") simp
  show ?thesis
  proof (cases b)
    case None
    then show ?thesis using h assms(1,3) by (intro exI [of _ h']) (simp add: init_body_def fit_body_def)
  next
    case (Some c)
    then have "NewMsgBody (body_text c) (ToLower (mb_mtype c)) = body_received c"
      using assms(4) by (simp add: body_wire_ok_def body_received_def)
    then show ?thesis using Some h assms(1,4,5) by (intro exI [of _ h']) (simp add: init_body_def fit_body_def body_wire_ok_def)
  qed
qed

text \<open>
  Property C6. A response that fits on the wire survives it. It fits if every header it prints is a parsed one and well formed
  (\<open>header_wire_ok\<close>: the text is one line with no blanks around it; an address or a Via has no comma in its text, since the reader would
  split it there; a challenge has a realm of its own and at most one quality of protection; no Replaces header and no
  \<open>Contact: *\<close>), if the fields of the message are those its headers fill, if its status line is one line with a reason, and if its body, when it
  has one, is not empty and its type is in lower case. Printed for any local address, with full or abbreviated names and in any order
  of the maps, it is then read back with the same status line, the same Via stack and routes and the same headers in the same
  order (so To, From, CSeq, Call-ID, Contact, Record-Route, RSeq and the challenges; numbers and Reason headers are texts until they are used), with the
  same transaction identifiers, and with a body of the same type whose content is the text of the original, also when that was a parsed
  session description.
\<close>

theorem response_survives_wire:
  assumes "response_wire_ok pe pr r" "response_LocalStr pr r = Some wire"
  shows "\<exists>r'. ParseSipResponse pe rt wire = Inr r' \<and> rs_scode r' = rs_scode r \<and> rs_reason r' = rs_reason r \<and> rs_sipver r' = rs_sipver r
    \<and> m_vias r' = m_vias r \<and> m_routes r' = m_routes r \<and> reads_as r' r
    \<and> GetTId wCSM wBRN wTTG r' = GetTId wCSM wBRN wTTG r \<and> m_body r' = map_option body_received (m_body r)"
proof -
  have ok: "list_all (header_wire_ok pe pr) (printed_headers r)" "response_typed r" "body_wire_ok (m_body r)"
    "rs_sipver r \<noteq> []" "no_space (rs_sipver r)" "int64 (rs_scode r)" "rs_reason r \<noteq> []" "space_len (rs_reason r) = 0"
    "list_all (\<lambda>c. \<not> line_break c) (GetSL r)" using assms(1) by (simp_all add: response_wire_ok_def)
  obtain ls where ls: "those (map (header_LocalStr pr) (printed_headers r)) = Some ls" "list_all header_line ls"
    "\<And>m. parse_headers pe ls m = Inr (appendHeaders (map received (printed_headers r)) m)"
    using headers_wire_lines [OF ok(1)] by blast
  let ?body = "case m_body r of Some b \<Rightarrow> body_text b | None \<Rightarrow> []"
  have wire: "wire = GetSL r @ CRLF @ lines_text ls @ CRLF @ ?body"
    using assms(2) ls(1) ok(3) by (cases "m_body r") (simp_all add: response_LocalStr_def localStr_def body_wire_ok_def)
  let ?base = "(NewSipMsg rt)\<lparr>m_startline := GetSL r\<rparr>"
  define m where "m = appendHeaders (map received (printed_headers r)) ?base"
  note f = received_message [where rt = rt and start = "GetSL r", OF ok(2) refl, folded m_def]
  have "line_ok (GetSL r)" using ok(4,9) by (simp add: line_ok_def GetSL_def)
  then have p: "ParseSipMsg pe rt wire = Inr (m, if ?body = [] then None else Some ?body)"
    unfolding wire using ls(2) f(4) by (intro ParseSipMsg_lines) (simp_all add: ls(3) m_def)
  let ?r = "sip_msg.extend m (sip_response.fields (rs_scode r) (rs_reason r) (rs_sipver r))"
  have ex: "reads_as ?r r" "m_vias ?r = m_vias r" "m_routes ?r = m_routes r" "rs_scode ?r = rs_scode r" "rs_reason ?r = rs_reason r" "rs_sipver ?r = rs_sipver r"
    "m_body ?r = None" "m_content_length ?r = m_content_length m" "m_content_type ?r = m_content_type m"
    using f by (simp_all add: sip_msg.defs sip_response.defs reads_as_def same_fields_def)
  have b: "(if ?body = [] then None else Some ?body) = (case m_body r of Some c \<Rightarrow> Some (body_text c) | None \<Rightarrow> None)"
    using ok(3) by (auto simp: body_wire_ok_def split: option.splits)
  have "int64 (case m_body r of Some c \<Rightarrow> int (length (body_text c)) | None \<Rightarrow> 0)"
    using ok(3) by (auto simp: body_wire_ok_def int64_def int64_min_def int64_max_def split: option.splits)
  then obtain h' where init: "init_body (if ?body = [] then None else Some ?body) ?r
      = Inr (?r\<lparr>m_content_length := Some h', m_body := map_option body_received (m_body r)\<rparr>)" (is "_ = Inr ?r'")
    unfolding b using init_body_exact [of ?r _ "m_body r"] numeric_text_value f(7,8) ex ok(3) by fastforce
  then have "ParseSipResponse pe rt wire = Inr ?r'"
    using p f(5) response_startline_back [OF ok(4,5,7,8)] ok(6) Atoi_Itoa [of "rs_scode r"]
    by (simp add: ParseSipResponse_def int64_def)
  moreover have r': "reads_as ?r' r" "m_vias ?r' = m_vias r" "m_routes ?r' = m_routes r" "rs_scode ?r' = rs_scode r" "rs_reason ?r' = rs_reason r"
      "rs_sipver ?r' = rs_sipver r" "m_body ?r' = map_option body_received (m_body r)"
    using ex by (simp_all add: reads_as_def same_fields_def)
  moreover have "GetTId wCSM wBRN wTTG ?r' = GetTId wCSM wBRN wTTG r"
    using r'(1,2) by (intro GetTId_cong) (simp_all only: reads_as_def same_fields_def)
  ultimately show ?thesis by blast
qed

end
