(* ===== verification/Text_Witnesses.thy ===== *)
theory Text_Witnesses
  imports Digest_Auth Sip_Header_Text Sippy_Samples
begin

text \<open>
  Concrete headers on which the properties of the text layer are applied: an address with a quoted
  display name, a tag and a URL with parameters, and a Via with known and further parameters.
\<close>

definition w_url :: sip_url where
  "w_url = (NewSipURL ''bob@home'' (NewMyAddress ''example.org'') (Some (NewMyPort ''5070'')) True)
     \<lparr>url_Transport := ''udp'', url_Ttl := 16, url_Other := [''x=1'', ''y''], url_Password := ''p:w''\<rparr>"

definition w_address :: sip_address where
  "w_address = (NewSipAddress ''Bob B.'' w_url)\<lparr>adr_params := map_of [(''tag'', Some ''a7f''), (''early'', None)]\<rparr>"

definition w_ff :: "rat \<Rightarrow> string" where "w_ff q = (if q = 1 then ''1'' else ''0.5'')"
definition w_pf :: "string \<Rightarrow> rat option" where "w_pf s = (if s = ''1'' then Some 1 else Some (1 / 2))"
definition w_wide :: "string \<Rightarrow> bool" where "w_wide s = False"

definition w_via :: via_body where
  "w_via = (empty_via ''SIP/2.0/UDP'')\<lparr>via_host := NewMyAddress ''192.0.2.7'', via_port := Some (NewMyPort ''5070''),
     via_rport_exists := True, via_branch := Some ''z9hG4bK77'', via_branch_exists := True,
     via_extra_headers := '';alias;x=y''\<rparr>"

lemma w_address_ok:
  "address_text_ok w_ff w_wide None [] [(''tag'', Some ''a7f''), (''early'', None)] w_address"
  by code_simp

lemma w_via_ok: "via_text_ok [(''alias'', None), (''x'', Some ''y'')] w_via"
  by code_simp

theorem sip_address_roundtrip_witness:
  "ParseSipAddress w_pf False False s_cfg
     (address_LocalStr w_ff w_wide None [] [(''tag'', Some ''a7f''), (''early'', None)] w_address) = Inr w_address"
  by (rule sip_address_roundtrip [OF w_address_ok])
     (simp_all add: w_address_def w_url_def NewSipURL_def NewSipAddress_def w_pf_def w_ff_def)

theorem transaction_headers_roundtrip_witness:
  "via_parse (via_localString None w_via) = Inr w_via
   \<and> cseq_parse (cseq_String \<lparr>CSeq_num = 101, CSeq_Method = ''INVITE''\<rparr>) = Inr \<lparr>CSeq_num = 101, CSeq_Method = ''INVITE''\<rparr>
   \<and> rack_parse (rack_String \<lparr>RAck_CSeq = 101, RAck_RSeq = 7, RAck_Method = ''INVITE''\<rparr>)
       = Inr \<lparr>RAck_CSeq = 101, RAck_RSeq = 7, RAck_Method = ''INVITE''\<rparr>"
  using transaction_headers_roundtrip [of "[(''alias'', None), (''x'', Some ''y'')]" w_via None
      "\<lparr>CSeq_num = 101, CSeq_Method = ''INVITE''\<rparr>" "\<lparr>RAck_CSeq = 101, RAck_RSeq = 7, RAck_Method = ''INVITE''\<rparr>"] w_via_ok
  by (simp add: int64_def int64_min_def int64_max_def ascii_space_def)

section \<open>Digest authentication\<close>

definition w_iv :: string where "w_iv = ''0123456789abcdef''"

definition w_aes :: "string \<Rightarrow> string" where "w_aes s = rev s"

definition w_hash :: "digest \<Rightarrow> string \<Rightarrow> string" where "w_hash d s = CHR ''h'' # s"

lemma w_lengths: "length w_iv = 16" "length (w_aes w_iv) = 16"
  by (simp_all add: w_iv_def w_aes_def)

lemma w_clock: "clock_ok 100" "clock_ok 120" "clock_ok 133"
  by (simp_all add: clock_ok_def)

lemma w_alg: "GetAlgorithm ''SHA-256-sess'' = Some \<lparr>alg_NewHash = Sha256, alg_Mask = push_bit 3 1\<rparr>"
  by code_simp

lemma w_quotes: "quote_ok ''SHA-256-sess''" "quote_ok (normalize ''example.org'')" "quote_ok ''alice''" "quote_ok ''sip:bob@example.org''"
  by code_simp+

theorem nonce_validity_window_witness:
  "ValidateChallenge w_aes (EmitChallenge w_aes w_iv 1 (word_of_int 100)) 3 (word_of_int 120) = Inr True
   \<and> ValidateChallenge w_aes (EmitChallenge w_aes w_iv 1 (word_of_int 100)) 3 (word_of_int 133) = Inr False"
  using nonce_validity_window [where aes = w_aes, OF w_lengths w_clock(1,2), of 1 3]
    nonce_validity_window [where aes = w_aes, OF w_lengths w_clock(1,3), of 1 3] by simp

theorem login_with_password_witness:
  "digest_login w_hash w_aes w_iv ''r'' ''abcd'' ''example.org'' ''SHA-256-sess'' (word_of_int 100) (word_of_int 120)
      ''alice'' ''secret'' ''secret'' ''INVITE'' ''sip:bob@example.org'' ''v=0'' = Inr True
   \<and> digest_login w_hash w_aes w_iv ''r'' ''abcd'' ''example.org'' ''SHA-256-sess'' (word_of_int 100) (word_of_int 120)
      ''alice'' ''guess'' ''secret'' ''INVITE'' ''sip:bob@example.org'' ''v=0'' = Inr False"
proof -
  note l = login_with_password [where aes = w_aes, OF w_alg w_quotes w_lengths w_clock(1,2), of w_hash "''r''" "''abcd''" _ _ "''INVITE''" "''v=0''"]
  have d: "client_digest w_hash x a n c r ''alice'' ''secret'' m u e \<noteq> client_digest w_hash x a n c r ''alice'' ''guess'' m u e"
    for x a n c r m u e
    by (simp add: client_digest_def DigestCalcResponse_def DigestCalcHA1_def w_hash_def Let_def)
  show ?thesis using l [of "''secret''" "''secret''"] l [of "''guess''" "''secret''"] d by simp
qed

theorem foreign_nonce_crashes_verification_witness:
  "Verify w_hash w_aes 0 ''secret'' ''INVITE'' [] (newSipAuthorizationBody ''r'' ''AAAA'' ''sip:bob'' ''alice'' ''MD5'')
     \<in> {Inl slice_panic, Inl output_panic}"
proof (rule foreign_nonce_crashes_verification)
  show "GetAlgorithm (au_algorithm (newSipAuthorizationBody ''r'' ''AAAA'' ''sip:bob'' ''alice'' ''MD5''))
      = Some \<lparr>alg_NewHash = Md5, alg_Mask = 1\<rparr>" by code_simp
  show "B64DecodeNoPad (au_nonce (newSipAuthorizationBody ''r'' ''AAAA'' ''sip:bob'' ''alice'' ''MD5'')) = Inr (replicate 3 (CHR 0x00))"
    by code_simp
qed (simp_all add: newSipAuthorizationBody_def)

end
