(* ===== verification/Wire_Witnesses.thy ===== *)
theory Wire_Witnesses
  imports Sip_Wire Text_Witnesses
begin

text \<open>A datagram, a body with its announced length and a response on which the properties of the message text are applied.\<close>

definition w_pe :: parse_env where
  "w_pe = \<lparr>pe_float = w_pf, pe_tel = False, pe_cfg = s_cfg\<rparr>"

definition w_pr :: print_env where
  "w_pr = \<lparr>pr_float = w_ff, pr_wide = w_wide, pr_headers = (\<lambda>u. []),
     pr_params = (\<lambda>a. case adr_params a ''tag'' of Some v \<Rightarrow> [(''tag'', v)] | None \<Rightarrow> []),
     pr_hostport = None, pr_compact = True\<rparr>"

definition w_datagram :: string where
  "w_datagram = ''OPTIONS sip:b@h SIP/2.0'' @ CRLF @ ''v: SIP/2.0/UDP h;branch=z1'' @ CRLF @ ''f: <sip:a@h>;tag=x'' @ CRLF
     @ ''t: <sip:b@h>'' @ CRLF @ ''i: c1'' @ CRLF @ ''CSeq: 1 OPTIONS'' @ CRLF @ CRLF"

lemma w_datagram_parses: "case ParseSipRequest w_pe None w_datagram of Inr rq \<Rightarrow> True | Inl e \<Rightarrow> False"
  by code_simp

theorem parsed_request_answerable_witness:
  "\<exists>rq rs. ParseSipRequest w_pe None w_datagram = Inr rq \<and> m_vias rq \<noteq> []
     \<and> GenResponse 200 ''OK'' None None rq = Inr rs \<and> m_vias rs = m_vias rq"
proof -
  obtain rq where rq: "ParseSipRequest w_pe None w_datagram = Inr rq"
    using w_datagram_parses by (auto split: sum.splits)
  show ?thesis using parsed_request_answerable [OF rq, of 200 "''OK''" None None] rq by blast
qed

definition w_msg :: sip_msg where
  "w_msg = (NewSipMsg None)\<lparr>m_content_length := Some (createSipNumericHF ''4'')\<rparr>"

theorem body_fits_content_length_witness:
  "case init_body (Some ''v=0 s=-'') w_msg of Inl e \<Rightarrow> False | Inr m' \<Rightarrow> map_option mb_content (m_body m') = Some ''v=0 ''"
proof -
  have h: "snd (numeric_GetBody (createSipNumericHF ''4'')) = Inr 4" by code_simp
  show ?thesis
    using body_fits_content_length [OF _ h, of w_msg "''v=0 s=-''"]
    by (simp add: w_msg_def NewSipMsg_def split: sum.splits)
qed

definition w_from :: sip_address where
  "w_from = SetTag ''ft'' (NewSipAddress ''Alice'' (NewSipURL ''alice'' (NewMyAddress ''192.0.2.9'') None False))"

definition w_to :: sip_address where
  "w_to = SetTag ''tt'' (NewSipAddress [] (NewSipURL ''bob'' (NewMyAddress ''192.0.2.7'') (Some (NewMyPort ''5070'')) False))"

definition w_response :: sip_response where
  "w_response = NewSipResponse 200 ''OK'' ''SIP/2.0'' (Inr w_from) ''c1'' [Inr w_via] (Inr w_to)
     (Inr \<lparr>CSeq_num = 7, CSeq_Method = ''INVITE''\<rparr>) [] (Some (NewMsgBody ''v=0'' ''application/sdp'')) (Some ''Sippy'')"

lemma w_addresses: "address_wire_ok w_pe w_pr (Inr w_from)" "address_wire_ok w_pe w_pr (Inr w_to)"
proof -
  have "address_text_ok w_ff w_wide None [] [(''tag'', Some ''ft'')] w_from" "CHR '','' \<notin> set (address_text w_pr w_from)"
    "address_text_ok w_ff w_wide None [] [(''tag'', Some ''tt'')] w_to" "CHR '','' \<notin> set (address_text w_pr w_to)"
    "address_text w_pr w_from \<noteq> ''*''" "address_text w_pr w_to \<noteq> ''*''" by code_simp+
  then show "address_wire_ok w_pe w_pr (Inr w_from)" "address_wire_ok w_pe w_pr (Inr w_to)"
    by (auto simp: address_wire_ok_def w_pr_def w_pe_def w_from_def w_to_def SetTag_def SetParam_def NewSipAddress_def NewSipURL_def
        w_pf_def w_ff_def)
qed

lemma w_via_wire: "via_wire_ok w_pr (Inr w_via)"
proof -
  have "CHR '','' \<notin> set (via_localString None w_via)" by code_simp
  then show ?thesis using w_via_ok by (auto simp: via_wire_ok_def w_pr_def)
qed

definition text_part_ok :: "sip_header \<Rightarrow> bool" where
  "text_part_ok h \<longleftrightarrow> (case header_StringBody w_pr h of None \<Rightarrow> False | Some b \<Rightarrow> TrimSpace b = b \<and> list_all (\<lambda>c. \<not> line_break c) b)"

lemma w_printed: "printed_headers w_response =
    [H_Via (Inr w_via), H_From (Inr w_from), H_To (Inr w_to), H_CallId ''c1'', H_CSeq (Inr \<lparr>CSeq_num = 7, CSeq_Method = ''INVITE''\<rparr>),
     H_Server ''Sippy'', H_ContentLength (newSipNumericHF 3), H_ContentType ''application/sdp'']"
  by (simp add: w_response_def NewSipResponse_def printed_headers_def msg_simps push_header_def NewSipMsg_def NewMsgBody_def body_text_def body_String_def
      sip_msg.defs sip_response.defs)

lemma w_response_ok: "response_wire_ok w_pe w_pr w_response"
proof -
  have "list_all text_part_ok [H_Via (Inr w_via), H_From (Inr w_from), H_To (Inr w_to), H_CallId ''c1'',
      H_CSeq (Inr \<lparr>CSeq_num = 7, CSeq_Method = ''INVITE''\<rparr>), H_Server ''Sippy'', H_ContentLength (newSipNumericHF 3),
      H_ContentType ''application/sdp'']" by code_simp
  moreover have "cseq_wire_ok (Inr \<lparr>CSeq_num = 7, CSeq_Method = ''INVITE''\<rparr>)" by code_simp
  ultimately have "list_all (header_wire_ok w_pe w_pr) (printed_headers w_response)"
    unfolding w_printed using w_addresses w_via_wire by (simp add: header_wire_ok_def text_part_ok_def)
  moreover have "response_typed w_response"
    by (simp add: response_typed_def same_fields_def w_response_def NewSipResponse_def msg_simps push_header_def NewSipMsg_def
        sip_msg.defs sip_response.defs)
  moreover have "body_wire_ok (Some (NewMsgBody ''v=0'' ''application/sdp''))" by code_simp
  moreover have "list_all (\<lambda>c. \<not> line_break c) (GetSL w_response)" "int64 200" "space_len ''OK'' = 0" by code_simp+
  ultimately show ?thesis
    by (simp add: response_wire_ok_def) (simp add: w_response_def NewSipResponse_def msg_simps push_header_def
        sip_msg.defs sip_response.defs NewSipMsg_def ascii_space_def)
qed

theorem response_survives_wire_witness:
  "\<exists>wire r'. response_LocalStr w_pr w_response = Some wire \<and> ParseSipResponse w_pe None wire = Inr r'
     \<and> rs_scode r' = 200 \<and> m_vias r' = [Inr w_via] \<and> m_call_id r' = Some ''c1'' \<and> m_sip_server r' = Some ''Sippy''"
proof -
  have "response_LocalStr w_pr w_response \<noteq> None" by code_simp
  then obtain wire where w: "response_LocalStr w_pr w_response = Some wire" by blast
  have "rs_scode w_response = 200 \<and> m_vias w_response = [Inr w_via] \<and> m_call_id w_response = Some ''c1'' \<and> m_sip_server w_response = Some ''Sippy''"
    by (simp add: w_response_def NewSipResponse_def msg_simps push_header_def sip_msg.defs sip_response.defs NewSipMsg_def)
  then show ?thesis using response_survives_wire [OF w_response_ok w, of None False False False] w by (auto simp: reads_as_def same_fields_def)
qed

end
