(* ===== verification/B2b_Route.thy ===== *)
theory B2b_Route
  imports Sip_Msg_Text Sippy_Time
begin

text \<open>
  The routes a call may take, as the RADIUS server or the configuration gives them:
  \<^verbatim>\<open>cmd/b2bua_radius/b2broute.go\<close>, and the number translation rules of
  \<^verbatim>\<open>cmd/b2bua_radius/re_replace.go\<close>. The resolver and the regular expression engine are arguments.
\<close>

section \<open>Values\<close>

text \<open>Durations are 64-bit nanosecond counts; a product that does not fit wraps around.\<close>

definition nonneg_seconds :: "int \<Rightarrow> duration" where
  "nonneg_seconds v = seconds (if v < 0 then 0 else v)"

text \<open>\<open>url.QueryUnescape\<close>: a percent sign needs two hexadecimal digits, a plus sign is a blank.\<close>

fun QueryUnescape :: "string \<Rightarrow> string option" where
  "QueryUnescape [] = Some []"
| "QueryUnescape (c # s) =
     (if c = CHR ''%'' then
        (case s of
           a # b # t \<Rightarrow> (case (hex_value a, hex_value b) of
               (Some x, Some y) \<Rightarrow> map_option (\<lambda>r. char_of (16 * x + y) # r) (QueryUnescape t)
             | _ \<Rightarrow> None)
         | _ \<Rightarrow> None)
      else map_option (\<lambda>r. (if c = CHR ''+'' then CHR '' '' else c) # r) (QueryUnescape s))"

record ainfo_item =
  ai_ip :: string
  ai_port :: string

definition ainfo_HostPort :: "ainfo_item \<Rightarrow> host_port" where
  "ainfo_HostPort i = NewHostPort (ai_ip i) (ai_port i)"

definition IsIP4 :: "string \<Rightarrow> bool" where
  "IsIP4 ip \<longleftrightarrow> CHR ''.'' \<in> set ip"

record b2b_route =
  br_cld :: string
  br_cld_set :: bool
  br_hostport :: string
  br_hostonly :: string
  br_huntstop_scodes :: "int list"
  br_ainfo :: "ainfo_item list"
  br_credit_time :: duration
  br_crt_set :: bool
  br_expires :: duration
  br_no_progress_expires :: duration
  br_forward_on_fail :: bool
  br_user :: string
  br_passw :: string
  br_cli :: string
  br_cli_set :: bool
  br_caller_name :: string
  br_extra_headers :: "sip_header list"
  br_rtpp :: bool
  br_outbound_proxy :: "host_port option"
  br_rnum :: int
  br_params :: "string \<rightharpoonup> string"

definition empty_route :: b2b_route where
  "empty_route =
     \<lparr>br_cld = [], br_cld_set = False, br_hostport = [], br_hostonly = [], br_huntstop_scodes = [], br_ainfo = [],
      br_credit_time = -1, br_crt_set = False, br_expires = -1, br_no_progress_expires = 0, br_forward_on_fail = False,
      br_user = [], br_passw = [], br_cli = [], br_cli_set = False, br_caller_name = [], br_extra_headers = [],
      br_rtpp = True, br_outbound_proxy = None, br_rnum = 0, br_params = Map.empty\<rparr>"

section \<open>Reading a route\<close>

definition int_param :: "string \<Rightarrow> string \<Rightarrow> (int \<Rightarrow> b2b_route) \<Rightarrow> b2b_route result" where
  "int_param what v f = (case Atoi v of None \<Rightarrow> Inl (what @ v) | Some n \<Rightarrow> Inr (f n))"

fun hs_scodes :: "string list \<Rightarrow> int list result" where
  "hs_scodes [] = Inr []"
| "hs_scodes (s # ss) =
     (if TrimSpace s = [] then hs_scodes ss
      else (case Atoi (TrimSpace s) of
              None \<Rightarrow> Inl (''Error parsing hs_scodes '' @ TrimSpace s)
            | Some n \<Rightarrow> bind_result (hs_scodes ss) (\<lambda>ns. Inr (n # ns))))"

text \<open>
  One parameter of a route. A user without a password makes the error message from a nil error. A
  parameter of another name is kept.
\<close>

definition route_param :: "parse_env \<Rightarrow> string \<Rightarrow> b2b_route \<Rightarrow> b2b_route result" where
  "route_param pe x r =
     (case go_cut (CHR ''='') x of
        (a, None) \<Rightarrow> Inr r
      | (a, Some v) \<Rightarrow>
          if a = ''credit-time'' then
            int_param ''Error parsing credit-time '' v (\<lambda>n. r\<lparr>br_credit_time := nonneg_seconds n, br_crt_set := True\<rparr>)
          else if a = ''expires'' then
            int_param ''Error parsing the expires '' v (\<lambda>n. r\<lparr>br_expires := nonneg_seconds n\<rparr>)
          else if a = ''hs_scodes'' then
            bind_result (hs_scodes (go_split (CHR '','') v)) (\<lambda>ns. Inr (r\<lparr>br_huntstop_scodes := br_huntstop_scodes r @ ns\<rparr>))
          else if a = ''np_expires'' then
            int_param ''Error parsing the no_progress_expires '' v (\<lambda>n. r\<lparr>br_no_progress_expires := nonneg_seconds n\<rparr>)
          else if a = ''forward_on_fail'' then Inr (r\<lparr>br_forward_on_fail := True\<rparr>)
          else if a = ''auth'' then
            (case go_cut (CHR '':'') v of
               (u, Some p) \<Rightarrow> Inr (r\<lparr>br_user := u, br_passw := p\<rparr>)
             | (u, None) \<Rightarrow> Inl nil_panic)
          else if a = ''cli'' then Inr (r\<lparr>br_cli := v, br_cli_set := True\<rparr>)
          else if a = ''cnam'' then
            (case QueryUnescape v of Some n \<Rightarrow> Inr (r\<lparr>br_caller_name := n\<rparr>) | None \<Rightarrow> Inl (''Error parsing the cnam '' @ v))
          else if a = ''ash'' then
            (case QueryUnescape v of
               Some h \<Rightarrow> bind_result (ParseSipHeader pe h) (\<lambda>hs. Inr (r\<lparr>br_extra_headers := br_extra_headers r @ hs\<rparr>))
             | None \<Rightarrow> Inl (''Error parsing the ash '' @ v))
          else if a = ''rtpp'' then
            int_param ''Error parsing the rtpp '' v (\<lambda>n. r\<lparr>br_rtpp := (n \<noteq> 0)\<rparr>)
          else if a = ''op'' then
            Inr (r\<lparr>br_outbound_proxy := Some (case go_cut (CHR '':'') v of
                (h, Some p) \<Rightarrow> NewHostPort h p | (h, None) \<Rightarrow> NewHostPort v ''5060'')\<rparr>)
          else Inr (r\<lparr>br_params := (br_params r)(a \<mapsto> v)\<rparr>))"

fun route_params :: "parse_env \<Rightarrow> string list \<Rightarrow> b2b_route \<Rightarrow> b2b_route result" where
  "route_params pe [] r = Inr r"
| "route_params pe (x # xs) r = bind_result (route_param pe x r) (route_params pe xs)"

text \<open>Host, port and whether only IPv6 addresses count, from the text in front of the parameters.\<close>

definition route_host :: "string \<Rightarrow> (string \<times> string \<times> string option \<times> bool) result" where
  "route_host hp =
     (if hp = [] then Inl index_panic
      else if hd hp \<noteq> CHR ''['' then
        (case go_cut (CHR '':'') hp of (h, p) \<Rightarrow> Inr (h, h, p, False))
      else (case go_cut (CHR '']'') (tl hp) of
              (h, p) \<Rightarrow> Inr (''['' @ h @ '']'', h,
                (case p of None \<Rightarrow> None | Some q \<Rightarrow> if q = [] then None else Some (tl q)), True)))"

text \<open>\<open>resolve\<close> is the resolver: the addresses of a host, or \<open>None\<close> when it fails.\<close>

definition NewB2BRoute :: "parse_env \<Rightarrow> (string \<Rightarrow> string list option) \<Rightarrow> string \<Rightarrow> b2b_route result" where
  "NewB2BRoute pe resolve sroute =
     (let route = go_split (CHR '';'') sroute;
          r0 = (case go_cut (CHR ''@'') (hd route) of
                  (cld, Some hp) \<Rightarrow> empty_route\<lparr>br_cld := cld, br_hostport := hp, br_cld_set := True\<rparr>
                | (hp, None) \<Rightarrow> empty_route\<lparr>br_hostport := hp\<rparr>)
      in bind_result (route_host (br_hostport r0)) (\<lambda>(hostonly, host, p, ipv6only).
           case resolve host of
             None \<Rightarrow> Inl (''NewB2BRoute: error resolving host IP '' @ host)
           | Some ips \<Rightarrow>
               let prt = (case p of None \<Rightarrow> mp_port (cfg_MyPort (pe_cfg pe)) | Some q \<Rightarrow> q)
               in route_params pe (tl route) (r0\<lparr>br_hostonly := hostonly,
                    br_ainfo := map (\<lambda>ip. \<lparr>ai_ip = ip, ai_port = prt\<rparr>)
                                  (filter (\<lambda>ip. \<not> (ipv6only \<and> IsIP4 ip)) ips)\<rparr>)))"

section \<open>Using a route\<close>

definition customize ::
  "int \<Rightarrow> string \<Rightarrow> string \<Rightarrow> duration \<Rightarrow> sip_header list \<Rightarrow> duration \<Rightarrow> b2b_route \<Rightarrow> b2b_route" where
  "customize rnum default_cld default_cli default_credit_time pass_headers max_credit_time r =
     (let r1 = r\<lparr>br_rnum := rnum,
                 br_cld := (if br_cld_set r then br_cld r else default_cld),
                 br_cli := (if br_cli_set r then br_cli r else default_cli),
                 br_credit_time := (if br_crt_set r then br_credit_time r else default_credit_time),
                 br_extra_headers := br_extra_headers r @ pass_headers\<rparr>
      in if max_credit_time \<noteq> 0 \<and> (br_credit_time r1 = 0 \<or> br_credit_time r1 > max_credit_time)
         then r1\<lparr>br_credit_time := max_credit_time\<rparr> else r1)"

text \<open>
  The address the call is sent to: the first one of the family of the caller's address, else the
  first one. \<open>src_is_ip\<close> is whether the caller's host is an IP address.
\<close>

definition getNHAddr :: "bool \<Rightarrow> host_port \<Rightarrow> b2b_route \<Rightarrow> host_port result" where
  "getNHAddr src_is_ip source r =
     (let first = (case br_ainfo r of [] \<Rightarrow> Inl index_panic | i # _ \<Rightarrow> Inr (ainfo_HostPort i))
      in if \<not> src_is_ip then first
         else (case filter (\<lambda>i. IsIP4 (ai_ip i) = IsIP4 (host_string source)) (br_ainfo r) of
                 i # _ \<Rightarrow> Inr (ainfo_HostPort i)
               | [] \<Rightarrow> first))"

section \<open>Number translation\<close>

text \<open>
  The regular expression engine: a replacement of all matches or of the first one, or \<open>None\<close> when the
  expression is malformed.
\<close>

type_synonym re_engine = "bool \<Rightarrow> string \<Rightarrow> string \<Rightarrow> string \<Rightarrow> string option"

text \<open>The text so far and whether all went well, from the rules left: the text in front of the first slash, then expression, replacement and modifiers in turn.\<close>

function re_rules :: "re_engine \<Rightarrow> string list \<Rightarrow> string \<Rightarrow> string \<times> bool" where
  "re_rules re arr s =
     (if length arr < 4 then (s, True)
      else (let m = TrimSpace (arr ! 3);
                own = m \<noteq> [] \<and> hd m \<noteq> CHR '';'';
                rest = (if own then tl m else m);
                mods = (if own then ToLower (take 1 m) else m)
            in case re (CHR ''g'' \<in> set mods) (arr ! 1) (arr ! 2) s of
                 None \<Rightarrow> (s, False)
               | Some s' \<Rightarrow> if length arr = 4 \<and> rest = [] then (s', True) else re_rules re (rest # drop 4 arr) s'))"
  by pat_completeness auto
termination by (relation "measure (\<lambda>(re, arr, s). length arr)") auto

declare re_rules.simps [simp del]

definition re_replace :: "re_engine \<Rightarrow> string \<Rightarrow> string \<Rightarrow> string \<times> bool" where
  "re_replace re ptrn s = re_rules re (go_split (CHR ''/'') ptrn) (fst (go_cut (CHR ''#'') s))"

end
