(* ===== verification/B2b_Controller.thy ===== *)
theory B2b_Controller
  imports B2b_Route Ua_Events
begin

text \<open>
  The call controller of the RADIUS B2BUA: \<^verbatim>\<open>cmd/b2bua_radius/call_controller.go\<close>, with the states of
  \<^verbatim>\<open>cc_states.go\<close> and the authorisation request of \<^verbatim>\<open>radius_authorisation.go\<close>. The controller sits between the
  answering leg, user agent A, and the originating legs it makes one after the other. What it asks of others - events for
  a leg, a new leg with its first event, requests to the RADIUS server, accounting records - leaves a handler as a
  list of actions in the order of the calls; the states of the legs are read from the environment. The SDP
  code, the regular expression engine and the resolver are arguments.
\<close>

datatype cc_state =
    CCStateIdle | CCStateWaitRoute | CCStateARComplete | CCStateConnected | CCStateDead | CCStateDisconnecting

datatype leg = LegA | LegO

text \<open>The identifiers of a leg's state; reliable ringing has the one of ringing.\<close>

datatype ua_state_id =
    UA_STATE_NONE | UAS_STATE_IDLE | UAS_STATE_TRYING | UAS_STATE_RINGING | UAS_STATE_UPDATING | UAS_STATE_PRE_CONNECT
  | UAC_STATE_IDLE | UAC_STATE_TRYING | UAC_STATE_RINGING | UAC_STATE_UPDATING | UAC_STATE_CANCELLING
  | UA_STATE_CONNECTED | UA_STATE_DISCONNECTED | UA_STATE_FAILED | UA_STATE_DEAD

fun state_ID :: "ua_state \<Rightarrow> ua_state_id" where
  "state_ID UasStateIdle = UAS_STATE_IDLE"
| "state_ID UasStateTrying = UAS_STATE_TRYING"
| "state_ID UasStateRinging = UAS_STATE_RINGING"
| "state_ID (UasStateRingingRel r) = UAS_STATE_RINGING"
| "state_ID (UasStatePreConnect e c) = UAS_STATE_PRE_CONNECT"
| "state_ID UasStateUpdating = UAS_STATE_UPDATING"
| "state_ID UacStateIdle = UAC_STATE_IDLE"
| "state_ID UacStateTrying = UAC_STATE_TRYING"
| "state_ID UacStateRinging = UAC_STATE_RINGING"
| "state_ID UacStateUpdating = UAC_STATE_UPDATING"
| "state_ID (UacStateCancelling t) = UAC_STATE_CANCELLING"
| "state_ID (UaStateConnected k) = UA_STATE_CONNECTED"
| "state_ID UaStateDisconnected = UA_STATE_DISCONNECTED"
| "state_ID UaStateFailed = UA_STATE_FAILED"
| "state_ID UaStateDead = UA_STATE_DEAD"

definition ua_GetState :: "ua \<Rightarrow> ua_state_id" where
  "ua_GetState u = (case u_state u of Some s \<Rightarrow> state_ID s | None \<Rightarrow> UA_STATE_NONE)"

datatype cc_action =
    C_event leg cc_event
  | C_originate int ua cc_event
  | C_disconnect leg "monotime option"
  | C_auth "(string \<times> string) list"
  | C_cancel_auth
  | C_acct_conn leg monotime string
  | C_acct_disc leg monotime string int
  | C_group_timer int int
  | C_rtpp_delete
  | C_drop int
  | C_panic

text \<open>What a leg calls back: connected, disconnected, failed and dead, with time, origin and result.\<close>

datatype cc_callback =
    L_conn leg monotime string
  | L_disc leg monotime string int
  | L_fail leg monotime string int
  | L_dead leg

record cc_config =
  cf_sip :: sippy_config
  cf_Auth_enable :: bool
  cf_Acct_enable :: bool
  cf_Hide_call_id :: bool
  cf_Static_tr_in :: string
  cf_Static_tr_out :: string
  cf_Allowed_pts :: string
  cf_Allowed_pts_map :: "string list"
  cf_Max_credit_time :: int
  cf_Keepalive_ans_dur :: duration
  cf_Keepalive_orig_dur :: duration
  cf_rtp_proxy :: bool
  cf_static_route :: "b2b_route option"

record cc_env =
  ce_cf :: cc_config
  ce_pe :: parse_env
  ce_a_state :: ua_state_id
  ce_o_state :: ua_state_id
  ce_now :: monotime
  ce_re :: re_engine
  ce_md5 :: "string \<Rightarrow> string"
  ce_resolve :: "string \<Rightarrow> string list option"
  ce_src_is_ip :: bool
  ce_rtpp_ok :: bool
  ce_calls :: "leg \<Rightarrow> cc_event \<Rightarrow> cc_callback list"
  ce_ref :: ref
  ce_ltag :: string

record call_controller =
  cc_id :: int
  cc_username :: string
  cc_uaO :: bool
  cc_state :: cc_state
  cc_remote_ip :: string
  cc_source :: host_port
  cc_routes :: "b2b_route list"
  cc_pass_headers :: "sip_header list"
  cc_cId :: "string option"
  cc_cGUID :: string
  cc_cli :: string
  cc_cld :: string
  cc_caller_name :: string
  cc_challenge :: "challenge_body option"
  cc_rtp_proxy_session :: bool
  cc_eTry :: "(cc_generic \<times> try_info) option"
  cc_huntstop_scodes :: "int list"
  cc_acctA :: "bool option"
  cc_acctO :: bool
  cc_proxied :: bool
  cc_cmap :: bool
  cc_auth_proc :: bool
  cc_sdp_session :: sdp_session
  cc_gseq :: int
  cc_acts :: "cc_action list"

text \<open>\<open>cc_acctA\<close>: no accounting yet, or a RADIUS one (\<open>True\<close>) or the one that does nothing (\<open>False\<close>).\<close>

definition NewCallController ::
  "int \<Rightarrow> string \<Rightarrow> host_port \<Rightarrow> sip_header list \<Rightarrow> string \<Rightarrow> challenge_body option \<Rightarrow> int \<Rightarrow> int \<Rightarrow> call_controller" where
  "NewCallController i remote_ip source pass_headers cguid challenge gseq sid =
     \<lparr>cc_id = i, cc_username = [], cc_uaO = False, cc_state = CCStateIdle, cc_remote_ip = remote_ip, cc_source = source,
      cc_routes = [], cc_pass_headers = pass_headers, cc_cId = None, cc_cGUID = cguid, cc_cli = [], cc_cld = [],
      cc_caller_name = [], cc_challenge = challenge, cc_rtp_proxy_session = False, cc_eTry = None,
      cc_huntstop_scodes = [], cc_acctA = None, cc_acctO = False, cc_proxied = False, cc_cmap = True,
      cc_auth_proc = False, cc_sdp_session = NewSdpSession sid, cc_gseq = gseq, cc_acts = []\<rparr>"

text \<open>The answering leg as the constructor sets it up.\<close>

definition answering_leg :: "cc_config \<Rightarrow> ref \<Rightarrow> string \<Rightarrow> int \<Rightarrow> ua" where
  "answering_leg cf r ltag gseq =
     (NewUA r (cf_sip cf) None True ltag gseq)
     \<lparr>u_kaInterval := cf_Keepalive_ans_dur cf, u_local_ua := Some (cfg_MyUAName (cf_sip cf)), u_conn_cb := True,
      u_disc_cb := True, u_fail_cb := True, u_dead_cb := True\<rparr>"

definition act :: "cc_action \<Rightarrow> call_controller \<Rightarrow> call_controller" where
  "act x cc = cc\<lparr>cc_acts := cc_acts cc @ [x]\<rparr>"

definition act_if :: "bool \<Rightarrow> cc_action \<Rightarrow> call_controller \<Rightarrow> call_controller" where
  "act_if b x cc = (if b then act x cc else cc)"

section \<open>Callbacks of the legs\<close>

definition oConn :: "monotime \<Rightarrow> string \<Rightarrow> call_controller \<Rightarrow> call_controller" where
  "oConn rtime origin cc = act_if (cc_acctO cc) (C_acct_conn LegO rtime origin) cc"

text \<open>An accounting that was never made is a nil interface; the one that does nothing writes no record.\<close>

definition aConn :: "monotime \<Rightarrow> string \<Rightarrow> call_controller \<Rightarrow> call_controller" where
  "aConn rtime origin cc =
     (let cc1 = cc\<lparr>cc_state := CCStateConnected\<rparr> in
      case cc_acctA cc1 of None \<Rightarrow> act C_panic cc1 | Some written \<Rightarrow> act_if written (C_acct_conn LegA rtime origin) cc1)"

definition aDisc :: "monotime \<Rightarrow> string \<Rightarrow> int \<Rightarrow> call_controller \<Rightarrow> call_controller" where
  "aDisc rtime origin res cc =
     (let cc1 = (if cc_state cc = CCStateWaitRoute \<and> cc_auth_proc cc then act C_cancel_auth (cc\<lparr>cc_auth_proc := False\<rparr>) else cc);
          cc2 = cc1\<lparr>cc_state := (if cc_uaO cc1 \<and> cc_state cc1 \<noteq> CCStateDead then CCStateDisconnecting else CCStateDead)\<rparr>;
          cc3 = act_if (cc_acctA cc2 = Some True) (C_acct_disc LegA rtime origin res) cc2
      in if cc_rtp_proxy_session cc3 then act C_rtpp_delete (cc3\<lparr>cc_rtp_proxy_session := False\<rparr>) else cc3)"

definition aFail :: "monotime \<Rightarrow> string \<Rightarrow> int \<Rightarrow> call_controller \<Rightarrow> call_controller" where
  "aFail rtime origin res cc = aDisc rtime origin res cc"

text \<open>The call is dropped from the map when both legs are dead; the first leg to notice forgets the map.\<close>

definition aDead :: "cc_env \<Rightarrow> call_controller \<Rightarrow> call_controller" where
  "aDead env cc =
     (if \<not> cc_uaO cc \<or> ce_o_state env = UA_STATE_DEAD then
        if cc_cmap cc then act (C_drop (cc_id cc)) (cc\<lparr>cc_acctA := None, cc_acctO := False, cc_cmap := False\<rparr>)
        else act C_panic cc
      else cc)"

definition oDead :: "cc_env \<Rightarrow> call_controller \<Rightarrow> call_controller" where
  "oDead env cc =
     (if ce_a_state env = UA_STATE_DEAD then
        if cc_cmap cc then act (C_drop (cc_id cc)) (cc\<lparr>cc_acctA := None, cc_acctO := False\<rparr>)
        else act C_panic cc
      else cc)"

text \<open>
  The disconnect and fail callbacks of an originating leg end the accounting the controller holds when they run; a nil
  one is dereferenced.
\<close>

definition oDisc :: "monotime \<Rightarrow> string \<Rightarrow> int \<Rightarrow> call_controller \<Rightarrow> call_controller" where
  "oDisc rtime origin scode cc = (if cc_acctO cc then act (C_acct_disc LegO rtime origin scode) cc else act C_panic cc)"

fun callback :: "cc_env \<Rightarrow> cc_callback \<Rightarrow> call_controller \<Rightarrow> call_controller" where
  "callback env (L_conn LegA t o') cc = aConn t o' cc"
| "callback env (L_conn LegO t o') cc = oConn t o' cc"
| "callback env (L_disc LegA t o' r) cc = aDisc t o' r cc"
| "callback env (L_disc LegO t o' r) cc = oDisc t o' r cc"
| "callback env (L_fail LegA t o' r) cc = aFail t o' r cc"
| "callback env (L_fail LegO t o' r) cc = oDisc t o' r cc"
| "callback env (L_dead LegA) cc = aDead env cc"
| "callback env (L_dead LegO) cc = oDead env cc"

section \<open>Events for the legs\<close>

text \<open>
  A leg handles an event at once and calls back while it does: \<open>ce_calls\<close> says what it calls. Only then does the
  controller go on.
\<close>

definition leg_event :: "cc_env \<Rightarrow> leg \<Rightarrow> cc_event \<Rightarrow> call_controller \<Rightarrow> call_controller" where
  "leg_event env l ev cc = fold (callback env) (ce_calls env l ev) (act (C_event l ev) cc)"

text \<open>A new event takes the next number of the global counter.\<close>

definition cc_generic_event :: "cc_env \<Rightarrow> monotime option \<Rightarrow> sip_header list \<Rightarrow> call_controller \<Rightarrow> call_controller \<times> cc_generic" where
  "cc_generic_event env rtime hs cc =
     (cc\<lparr>cc_gseq := cc_gseq cc + 1\<rparr>, newCCEventGeneric (cc_gseq cc) (ce_now env) rtime [] hs)"

definition send_fail :: "cc_env \<Rightarrow> int \<Rightarrow> string \<Rightarrow> monotime option \<Rightarrow> sip_header list \<Rightarrow> call_controller \<Rightarrow> call_controller" where
  "send_fail env scode reason rtime hs cc =
     (case cc_generic_event env rtime hs cc of
        (cc1, g) \<Rightarrow> leg_event env LegA (CCEventFail g [] scode reason None) cc1)"

definition fail_call :: "cc_env \<Rightarrow> int \<Rightarrow> string \<Rightarrow> monotime option \<Rightarrow> call_controller \<Rightarrow> call_controller" where
  "fail_call env scode reason rtime cc = (send_fail env scode reason rtime [] cc)\<lparr>cc_state := CCStateDead\<rparr>"

section \<open>Placing a call\<close>

definition auth_body :: "sip_header option \<Rightarrow> authorization_body option result" where
  "auth_body h =
     (case h of
        Some (H_Authorization a) \<Rightarrow> bind_result a (\<lambda>x. Inr (Some x))
      | Some (H_ProxyAuthorization a) \<Rightarrow> bind_result a (\<lambda>x. Inr (Some x))
      | _ \<Rightarrow> Inr None)"

definition uses_rtpp :: "b2b_route \<Rightarrow> call_controller \<Rightarrow> bool" where
  "uses_rtpp r cc \<longleftrightarrow> cc_rtp_proxy_session cc \<and> br_rtpp r"

definition originating_leg :: "cc_env \<Rightarrow> b2b_route \<Rightarrow> host_port \<Rightarrow> call_controller \<Rightarrow> ua" where
  "originating_leg env r nh cc =
     (let cf = ce_cf env;
          accounted = \<not> br_forward_on_fail r \<and> cf_Acct_enable cf;
          rtpp = uses_rtpp r cc
      in (NewUA (ce_ref env) (cf_sip cf) (Some nh) True (ce_ltag env) (cc_gseq cc))
         \<lparr>u_username := br_user r, u_password := br_passw r,
          u_credit_time := (if br_credit_time r > 0 then Some (br_credit_time r) else None),
          u_conn_cb := True, u_disc_cb := accounted, u_fail_cb := accounted, u_dead_cb := True,
          u_expire_time := (if br_expires r > 0 then br_expires r else 0),
          u_no_progress_time := br_no_progress_expires r,
          u_extra_headers := [H_CiscoGUID (cc_cGUID cc), H_H323ConfId (cc_cGUID cc)] @ br_extra_headers r,
          u_local_ua := Some (cfg_MyUAName (cf_sip cf)),
          u_outbound_proxy := (case br_outbound_proxy r of
             None \<Rightarrow> None
           | Some p \<Rightarrow> if HostPort_String (Some (cc_source cc)) \<noteq> HostPort_String (Some p) then Some p else None),
          u_on_local_sdp_change := rtpp, u_on_remote_sdp_change := rtpp,
          u_kaInterval := cf_Keepalive_orig_dur cf\<rparr>)"

definition group_timer :: "b2b_route \<Rightarrow> cc_action list" where
  "group_timer r =
     (case br_params r ''gt'' of
        None \<Rightarrow> []
      | Some gt \<Rightarrow> (case go_cut (CHR '','') gt of
          (_, None) \<Rightarrow> []
        | (t, Some s) \<Rightarrow> (case (Atoi t, Atoi s) of (Some timeout, Some skipto) \<Rightarrow> [C_group_timer timeout skipto] | _ \<Rightarrow> [])))"

definition originate_call_id :: "cc_env \<Rightarrow> string \<Rightarrow> int \<Rightarrow> string" where
  "originate_call_id env cid rnum =
     (if cf_Hide_call_id (ce_cf env) then ce_md5 env cid else cid) @ ''-b2b_'' @ Itoa rnum"

text \<open>
  The number of hops left, from the Max-Forwards header the call came with; it is read before the error of
  parsing it is looked at.
\<close>

definition hops_left :: "numeric_hf option \<Rightarrow> int option result" where
  "hops_left mf =
     (case mf of
        None \<Rightarrow> Inr None
      | Some h \<Rightarrow> (case snd (numeric_GetBody h) of Inl e \<Rightarrow> Inl nil_panic | Inr n \<Rightarrow> Inr (Some (n - 1))))"

text \<open>The event that starts the leg: its Call-ID is made from the caller's, Max-Forwards and Reason are passed on.\<close>

definition leg_try ::
  "cc_env \<Rightarrow> b2b_route \<Rightarrow> string \<Rightarrow> msg_body option \<Rightarrow> cc_generic \<Rightarrow> cc_generic \<Rightarrow> try_info \<Rightarrow> string \<Rightarrow> int option \<Rightarrow> string \<Rightarrow> cc_event" where
  "leg_try env r cld body g eg ti cid mf caller_name =
     CCEventTry (SetReason (ev_sip_reason eg) (case mf of Some n \<Rightarrow> SetMaxForwards (Some (newSipNumericHF n)) g | None \<Rightarrow> g))
       \<lparr>try_call_id = Some (originate_call_id env cid (br_rnum r)), try_cli = br_cli r, try_cld = cld,
        try_caller_name = (if br_caller_name r = [] then caller_name else br_caller_name r),
        try_auth_hdr = try_auth_hdr ti, try_body = body, try_routes = []\<rparr>"

text \<open>
  Handing it to the leg is the last thing the controller does for it, so what the leg calls back are its next
  inputs. An authorization header that does not parse leaves no event to set Max-Forwards of.
\<close>

definition too_many_hops :: "int option \<Rightarrow> bool" where
  "too_many_hops mf \<longleftrightarrow> (case mf of Some n \<Rightarrow> n \<le> 0 | None \<Rightarrow> False)"

definition start_leg ::
  "cc_env \<Rightarrow> b2b_route \<Rightarrow> string \<Rightarrow> ua \<Rightarrow> msg_body option \<Rightarrow> cc_generic \<times> try_info \<Rightarrow> call_controller \<Rightarrow> call_controller" where
  "start_leg env r cld u body et cc =
     (case try_call_id (snd et) of
        None \<Rightarrow> act C_panic cc
      | Some cid \<Rightarrow>
          (case cc_generic_event env None [] cc of
             (cc0, g) \<Rightarrow>
               (let made = (case auth_body (try_auth_hdr (snd et)) of Inl e \<Rightarrow> False | Inr a \<Rightarrow> True);
                    cc1 = (if made then cc0 else cc)
                in case hops_left (ev_max_forwards (fst et)) of
                     Inl e \<Rightarrow> act C_panic cc1
                   | Inr mf \<Rightarrow>
                       if too_many_hops mf then fail_call env 483 ''Too Many Hops'' None cc1
                       else if \<not> made then act C_panic cc1
                       else act (C_originate (br_rnum r) u
                              (leg_try env r cld body g (fst et) (snd et) cid mf (cc_caller_name cc))) cc1)))"

text \<open>What changes in the controller when the leg is made: its accounting, the media session and the group timer.\<close>

definition prepare_leg :: "cc_env \<Rightarrow> b2b_route \<Rightarrow> call_controller \<Rightarrow> call_controller" where
  "prepare_leg env r cc =
     fold act (group_timer r)
       (cc\<lparr>cc_acctO := (\<not> br_forward_on_fail r \<and> cf_Acct_enable (ce_cf env)), cc_uaO := True,
           cc_proxied := (uses_rtpp r cc \<or> cc_proxied cc)\<rparr>)"

definition translate_out :: "cc_env \<Rightarrow> b2b_route \<Rightarrow> string \<times> bool" where
  "translate_out env r =
     (if cf_Static_tr_out (ce_cf env) = [] then (br_cld r, True)
      else re_replace (ce_re env) (cf_Static_tr_out (ce_cf env)) (br_cld r))"

definition placeOriginate :: "cc_env \<Rightarrow> b2b_route \<Rightarrow> call_controller \<Rightarrow> call_controller" where
  "placeOriginate env r cc =
     (let cc1 = cc\<lparr>cc_huntstop_scodes := br_huntstop_scodes r\<rparr> in
      case translate_out env r of
        (_, False) \<Rightarrow> fail_call env 500 ''Internal Server Error (7)'' None cc1
      | (cld, True) \<Rightarrow>
          (case (if br_hostport r = ''sip-ua'' then Inr (cc_source cc1) else getNHAddr (ce_src_is_ip env) (cc_source cc1) r) of
             Inl e \<Rightarrow> act C_panic cc1
           | Inr nh \<Rightarrow>
               if \<not> br_forward_on_fail r \<and> cf_Acct_enable (ce_cf env) \<and> cc_cId cc1 = None then act C_panic cc1
               else (case (cc_eTry cc1, prepare_leg env r cc1) of
                       (None, cc2) \<Rightarrow> act C_panic cc2
                     | (Some et, cc2) \<Rightarrow>
                         start_leg env r cld (originating_leg env r nh cc2)
                           (if uses_rtpp r cc1 then try_body (snd et) else None) et cc2)))"

section \<open>Authorisation\<close>

definition Do_auth :: "call_controller \<Rightarrow> authorization_body option \<Rightarrow> (string \<times> string) list" where
  "Do_auth cc a =
     (case a of
        Some x \<Rightarrow>
          if au_realm x \<noteq> [] \<and> au_nonce x \<noteq> [] \<and> au_uri x \<noteq> [] \<and> au_response x \<noteq> [] then
            [(''User-Name'', au_username x), (''Digest-Realm'', au_realm x), (''Digest-Nonce'', au_nonce x),
             (''Digest-Method'', ''INVITE''), (''Digest-URI'', au_uri x), (''Digest-Algorithm'', ''MD5''),
             (''Digest-User-Name'', au_username x), (''Digest-Response'', au_response x)]
          else [(''User-Name'', cc_remote_ip cc), (''Password'', ''cisco'')]
      | None \<Rightarrow> [(''User-Name'', cc_remote_ip cc), (''Password'', ''cisco'')])
     @ [(''Calling-Station-Id'', cc_cli cc), (''Called-Station-Id'', cc_cld cc), (''h323-conf-id'', cc_cGUID cc),
        (''call-id'', (case cc_cId cc of Some c \<Rightarrow> c | None \<Rightarrow> [])), (''h323-remote-address'', cc_remote_ip cc),
        (''h323-session-protocol'', ''sipv2'')]"

type_synonym avp = "string \<times> string"

text \<open>The answer of the RADIUS server; \<open>None\<close> is an error sending the request.\<close>

record radius_result =
  rr_Rcode :: int
  rr_Avps :: "avp list"

definition ivr_values :: "avp list \<Rightarrow> string list" where
  "ivr_values avps = map snd (filter (\<lambda>a. fst a = ''h323-ivr-in'') avps)"

text \<open>The credit time is read from the first of these attributes, whatever it is about.\<close>

definition result_credit_time :: "avp list \<Rightarrow> duration" where
  "result_credit_time avps =
     (case ivr_values avps of [] \<Rightarrow> 0 | v # _ \<Rightarrow> (case Atoi v of Some n \<Rightarrow> seconds n | None \<Rightarrow> 0))"

definition is_panic :: "string \<Rightarrow> bool" where
  "is_panic e \<longleftrightarrow> e = nil_panic \<or> e = index_panic"

text \<open>The routes among the attributes; one that does not parse is left out, a panic ends it all.\<close>

fun read_routes :: "cc_env \<Rightarrow> string list \<Rightarrow> b2b_route list result" where
  "read_routes env [] = Inr []"
| "read_routes env (v # vs) =
     (if take 8 v = ''Routing:'' then
        (case NewB2BRoute (ce_pe env) (ce_resolve env) (drop 8 v) of
           Inl e \<Rightarrow> if is_panic e then Inl e else read_routes env vs
         | Inr r \<Rightarrow> bind_result (read_routes env vs) (\<lambda>rs. Inr (r # rs)))
      else read_routes env vs)"

text \<open>Every route is customized twice, then the ones without credit or time are skipped.\<close>

definition customize_route :: "cc_env \<Rightarrow> duration \<Rightarrow> call_controller \<Rightarrow> int \<Rightarrow> b2b_route \<Rightarrow> b2b_route" where
  "customize_route env credit cc rnum r =
     customize rnum (cc_cld cc) (cc_cli cc) credit (cc_pass_headers cc) (seconds (cf_Max_credit_time (ce_cf env)))
       (customize rnum (cc_cld cc) (cc_cli cc) 0 (cc_pass_headers cc) 0 r)"

fun usable_routes :: "cc_env \<Rightarrow> duration \<Rightarrow> call_controller \<Rightarrow> int \<Rightarrow> b2b_route list \<Rightarrow> b2b_route list" where
  "usable_routes env credit cc n [] = []"
| "usable_routes env credit cc n (r # rs) =
     (let r' = customize_route env credit cc (n + 1) r
      in if br_credit_time r' = 0 \<or> br_expires r' = 0 then usable_routes env credit cc (n + 1) rs
         else r' # usable_routes env credit cc (n + 1) rs)"

definition next_route :: "cc_env \<Rightarrow> call_controller \<Rightarrow> call_controller" where
  "next_route env cc = (case cc_routes cc of [] \<Rightarrow> act C_panic cc | r # rs \<Rightarrow> placeOriginate env r (cc\<lparr>cc_routes := rs\<rparr>))"

definition auth_failed :: "cc_env \<Rightarrow> call_controller \<Rightarrow> call_controller" where
  "auth_failed env cc =
     (if ce_a_state env = UAS_STATE_TRYING then
        (case cc_challenge cc of
           Some c \<Rightarrow> (send_fail env 401 ''Unauthorized'' None [H_WWWAuthenticate (Inr c)] cc)\<lparr>cc_state := CCStateDead\<rparr>
         | None \<Rightarrow> fail_call env 403 ''Auth Failed'' None cc)
      else cc)"

text \<open>The routes the answer gives the call, and the first attempt.\<close>

definition start_hunt :: "cc_env \<Rightarrow> avp list \<Rightarrow> b2b_route list \<Rightarrow> call_controller \<Rightarrow> call_controller" where
  "start_hunt env avps routing cc =
     (if routing = [] then fail_call env 500 ''Internal Server Error (2)'' None cc
      else (let cc1 = cc\<lparr>cc_routes := cc_routes cc @ usable_routes env (result_credit_time avps) cc 0 routing\<rparr>
            in if cc_routes cc1 = [] then fail_call env 500 ''Internal Server Error (3)'' None cc1
               else next_route env (cc1\<lparr>cc_state := CCStateARComplete\<rparr>)))"

definition routing_of :: "cc_env \<Rightarrow> avp list \<Rightarrow> b2b_route list result" where
  "routing_of env avps =
     (case cf_static_route (ce_cf env) of None \<Rightarrow> read_routes env (ivr_values avps) | Some r \<Rightarrow> Inr [r])"

text \<open>
  An accepted call: the caller's accounting is made, which ends at once when the caller is gone by now;
  otherwise the hunt for a route begins.
\<close>

definition auth_accepted :: "cc_env \<Rightarrow> avp list \<Rightarrow> call_controller \<Rightarrow> call_controller" where
  "auth_accepted env avps cc =
     (let acct = cf_Acct_enable (ce_cf env); cc1 = cc\<lparr>cc_acctA := Some acct\<rparr> in
      if acct \<and> cc_cId cc = None then act C_panic cc
      else if ce_a_state env \<noteq> UAS_STATE_TRYING then act_if acct (C_acct_disc LegA (ce_now env) ''caller'' 0) cc1
      else (case routing_of env avps of Inl e \<Rightarrow> act C_panic cc1 | Inr routing \<Rightarrow> start_hunt env avps routing cc1))"

definition rDone_nolock :: "cc_env \<Rightarrow> radius_result option \<Rightarrow> call_controller \<Rightarrow> call_controller" where
  "rDone_nolock env results cc =
     (case results of
        Some res \<Rightarrow> if rr_Rcode res = 0 then auth_accepted env (rr_Avps res) cc else auth_failed env cc
      | None \<Rightarrow> auth_failed env cc)"

section \<open>Events of the legs\<close>

text \<open>
  The payload types the configuration allows; the body, or the failure the caller gets. Zero stands for
  the nil dereference that a section without media header would be.
\<close>

definition allowed_media :: "string list \<Rightarrow> sdp_section \<Rightarrow> int \<times> string + sdp_section" where
  "allowed_media pts s =
     (case ms_m s of
        None \<Rightarrow> Inl (0, nil_panic)
      | Some m \<Rightarrow>
          if ToLower (sm_transport m) = ''rtp/avp'' then
            (let formats = filter (\<lambda>pt. pt \<in> set pts) (sm_formats m) in
             if formats = [] then Inl (488, ''Not Acceptable Here'')
             else if length (sm_formats m) > length formats then Inr (SetFormats formats s)
             else Inr s)
          else Inr s)"

definition allowed_body :: "cc_env \<Rightarrow> msg_body option \<Rightarrow> int \<times> string + msg_body option" where
  "allowed_body env body =
     (case body of
        None \<Rightarrow> Inr None
      | Some b \<Rightarrow>
          if cf_Allowed_pts (ce_cf env) = [] then Inr (Some b)
          else (case GetSdp b of
                  (b1, Inl e) \<Rightarrow> Inl (400, ''Malformed SDP Body'')
                | (b1, Inr d) \<Rightarrow>
                    (case sd_sections d of
                       [] \<Rightarrow> Inr (Some b1)
                     | s # ss \<Rightarrow> (case allowed_media (cf_Allowed_pts_map (ce_cf env)) s of
                         Inl x \<Rightarrow> Inl x
                       | Inr s' \<Rightarrow> Inr (Some (b1\<lparr>mb_sdp := Some (d\<lparr>sd_sections := s' # ss\<rparr>)\<rparr>))))))"

text \<open>
  The event the handler reads the time of is made anew after the number was changed; with a malformed
  authorization header it is nil from then on.
\<close>

definition renew_event :: "cc_env \<Rightarrow> try_info \<Rightarrow> call_controller \<Rightarrow> call_controller \<times> monotime option" where
  "renew_event env ti cc =
     (case auth_body (try_auth_hdr ti) of
        Inl e \<Rightarrow> (cc, None)
      | Inr a \<Rightarrow> (cc\<lparr>cc_gseq := cc_gseq cc + 1\<rparr>, Some (ce_now env)))"

definition fail_at :: "cc_env \<Rightarrow> int \<Rightarrow> string \<Rightarrow> monotime option \<Rightarrow> call_controller \<Rightarrow> call_controller" where
  "fail_at env scode reason t cc =
     (case t of None \<Rightarrow> act C_panic cc | Some rtime \<Rightarrow> fail_call env scode reason (Some rtime) cc)"

definition strip_nat ::
  "cc_env \<Rightarrow> try_info \<Rightarrow> monotime option \<Rightarrow> call_controller \<Rightarrow> call_controller \<times> monotime option \<times> try_info" where
  "strip_nat env ti t cc =
     (if take 4 (cc_cld cc) = ''nat-'' then
        (let ti1 = ti\<lparr>try_body := map_option (body_AppendAHeader ''nated:yes'') (try_body ti)\<rparr>
         in case renew_event env ti1 (cc\<lparr>cc_cld := drop 4 (cc_cld cc)\<rparr>) of (cc1, t1) \<Rightarrow> (cc1, t1, ti1))
      else (cc, t, ti))"

text \<open>The number translation of the caller's side; a malformed rule leaves what the rules before it made.\<close>

definition translate_in ::
  "cc_env \<Rightarrow> try_info \<Rightarrow> monotime option \<Rightarrow> call_controller \<Rightarrow> bool \<times> call_controller \<times> monotime option" where
  "translate_in env ti t cc =
     (if cf_Static_tr_in (ce_cf env) = [] then (True, cc, t)
      else (case re_replace (ce_re env) (cf_Static_tr_in (ce_cf env)) (cc_cld cc) of
              (cld, False) \<Rightarrow> (False, cc\<lparr>cc_cld := cld\<rparr>, t)
            | (cld, True) \<Rightarrow> (True, renew_event env ti (cc\<lparr>cc_cld := cld\<rparr>))))"

definition request_auth :: "authorization_body option \<Rightarrow> call_controller \<Rightarrow> call_controller" where
  "request_auth a cc =
     (if cc_cId cc = None then act C_panic cc
      else act (C_auth (Do_auth cc a)) (cc\<lparr>cc_auth_proc := True\<rparr>))"

definition authorise :: "cc_env \<Rightarrow> try_info \<Rightarrow> monotime option \<Rightarrow> call_controller \<Rightarrow> call_controller" where
  "authorise env ti t cc =
     (if \<not> cf_Auth_enable (ce_cf env) then
        rDone_nolock env (Some \<lparr>rr_Rcode = 0, rr_Avps = []\<rparr>) (cc\<lparr>cc_username := cc_remote_ip cc\<rparr>)
      else (case auth_body (try_auth_hdr ti) of
              Inl e \<Rightarrow> fail_at env 500 ''Internal Server Error (6)'' t cc
            | Inr None \<Rightarrow> request_auth None (cc\<lparr>cc_username := cc_remote_ip cc\<rparr>)
            | Inr (Some a) \<Rightarrow>
                if au_username a = [] then request_auth None (cc\<lparr>cc_username := cc_remote_ip cc\<rparr>)
                else request_auth (Some a) (cc\<lparr>cc_username := au_username a\<rparr>)))"

definition media_session :: "cc_env \<Rightarrow> call_controller \<Rightarrow> bool option" where
  "media_session env cc =
     (if \<not> cf_rtp_proxy (ce_cf env) then Some False
      else if cc_cId cc = None then None else Some True)"

definition new_call :: "cc_env \<Rightarrow> cc_generic \<Rightarrow> try_info \<Rightarrow> call_controller \<Rightarrow> call_controller" where
  "new_call env g ti cc =
     (let cc1 = cc\<lparr>cc_cId := try_call_id ti, cc_cli := try_cli ti, cc_cld := try_cld ti, cc_caller_name := try_caller_name ti\<rparr>
      in if cc_cld cc1 = [] then fail_call env 500 ''Internal Server Error (1)'' (Some (ev_rtime g)) cc1
         else (case allowed_body env (try_body ti) of
            Inl (scode, reason) \<Rightarrow> if scode = 0 then act C_panic cc1 else fail_call env scode reason (Some (ev_rtime g)) cc1
          | Inr body \<Rightarrow>
              (case strip_nat env (ti\<lparr>try_body := body\<rparr>) (Some (ev_rtime g)) cc1 of
                 (cc2, t2, ti2) \<Rightarrow>
                   (case translate_in env ti2 t2 cc2 of
                      (False, cc3, t3) \<Rightarrow> fail_at env 500 ''Internal Server Error (5)'' t3 cc3
                    | (True, cc3, t3) \<Rightarrow>
                        (case media_session env cc3 of
                           None \<Rightarrow> act C_panic cc3
                         | Some s \<Rightarrow>
                             if s \<and> \<not> ce_rtpp_ok env then fail_at env 500 ''Internal Server Error (4)'' t3 cc3
                             else authorise env ti2 t3 (cc3\<lparr>cc_rtp_proxy_session := s, cc_eTry := Some (g, ti2),
                                                           cc_state := CCStateWaitRoute\<rparr>))))))"

definition forwards :: "cc_state \<Rightarrow> bool" where
  "forwards s \<longleftrightarrow> s = CCStateARComplete \<or> s = CCStateConnected \<or> s = CCStateDisconnecting"

definition RecvEvent_A :: "cc_env \<Rightarrow> cc_event \<Rightarrow> call_controller \<Rightarrow> call_controller" where
  "RecvEvent_A env ev cc =
     (if cc_state cc = CCStateIdle then
        (case ev of
           CCEventTry g ti \<Rightarrow> new_call env g ti cc
         | _ \<Rightarrow> (case cc_generic_event env (Some (GetRtime ev)) [] cc of
                   (cc1, g) \<Rightarrow> leg_event env LegA (CCEventDisconnect g None) cc1))
      else if \<not> forwards (cc_state cc) \<or> \<not> cc_uaO cc then cc
      else leg_event env LegO ev cc)"

definition early :: "ua_state_id \<Rightarrow> bool" where
  "early s \<longleftrightarrow> s = UAS_STATE_TRYING \<or> s = UAS_STATE_RINGING"

text \<open>
  A failed attempt is followed by the next route, unless its code is among those that end the hunt. The
  test that is to recognise a disconnect tests for a failure again.
\<close>

definition hunts :: "cc_env \<Rightarrow> cc_event \<Rightarrow> call_controller \<Rightarrow> bool" where
  "hunts env ev cc \<longleftrightarrow>
     (case ev of
        CCEventFail _ _ scode _ _ \<Rightarrow>
          cc_state cc = CCStateARComplete \<and> early (ce_a_state env)
          \<and> cc_routes cc \<noteq> [] \<and> scode \<notin> set (cc_huntstop_scodes cc)
      | _ \<Rightarrow> False)"

fun event_GetBody :: "cc_event \<Rightarrow> msg_body option" where
  "event_GetBody (CCEventTry g ti) = try_body ti"
| "event_GetBody (CCEventRing g scode reason body) = body"
| "event_GetBody (CCEventConnect g scode reason body) = body"
| "event_GetBody (CCEventPreConnect g scode reason body) = body"
| "event_GetBody (CCEventUpdate g body) = body"
| "event_GetBody (CCEventInfo g body) = body"
| "event_GetBody ev = None"

text \<open>The body an event refers to is changed in place.\<close>

fun event_put_body :: "msg_body \<Rightarrow> cc_event \<Rightarrow> cc_event" where
  "event_put_body b (CCEventTry g ti) = CCEventTry g (ti\<lparr>try_body := Some b\<rparr>)"
| "event_put_body b (CCEventRing g scode reason body) = CCEventRing g scode reason (Some b)"
| "event_put_body b (CCEventConnect g scode reason body) = CCEventConnect g scode reason (Some b)"
| "event_put_body b (CCEventPreConnect g scode reason body) = CCEventPreConnect g scode reason (Some b)"
| "event_put_body b (CCEventUpdate g body) = CCEventUpdate g (Some b)"
| "event_put_body b (CCEventInfo g body) = CCEventInfo g (Some b)"
| "event_put_body b ev = ev"

text \<open>The caller is shown one session whatever leg answers: the origin of the description is the controller's own.\<close>

definition fixup_event :: "cc_event \<Rightarrow> call_controller \<Rightarrow> (cc_event \<times> call_controller) result" where
  "fixup_event ev cc =
     (case event_GetBody ev of
        None \<Rightarrow> Inr (ev, cc)
      | Some b \<Rightarrow> bind_result (FixupVersion b (cc_sdp_session cc)) (\<lambda>(b', ss).
            Inr (event_put_body b' ev, cc\<lparr>cc_sdp_session := ss\<rparr>)))"

definition relay_event :: "cc_env \<Rightarrow> cc_event \<Rightarrow> call_controller \<Rightarrow> call_controller" where
  "relay_event env ev cc =
     (case fixup_event ev cc of Inl e \<Rightarrow> act C_panic cc | Inr (ev', cc') \<Rightarrow> leg_event env LegA ev' cc')"

definition RecvEvent_O :: "cc_env \<Rightarrow> cc_event \<Rightarrow> call_controller \<Rightarrow> call_controller" where
  "RecvEvent_O env ev cc = (if hunts env ev cc then next_route env cc else relay_event env ev cc)"

definition cc_RecvEvent :: "cc_env \<Rightarrow> leg \<Rightarrow> cc_event \<Rightarrow> call_controller \<Rightarrow> call_controller" where
  "cc_RecvEvent env l ev cc = (case l of LegA \<Rightarrow> RecvEvent_A env ev cc | LegO \<Rightarrow> RecvEvent_O env ev cc)"

section \<open>Commands and timers\<close>

definition cc_disconnect :: "monotime option \<Rightarrow> call_controller \<Rightarrow> call_controller" where
  "cc_disconnect rtime cc = act (C_disconnect LegA rtime) cc"

text \<open>
  The time of a group of routes is over: the routes up to \<open>skipto\<close> are given up and the attempt under way is
  ended, or only the remaining routes when the last group is over. The loop runs past the end of the
  list when no route has that number.
\<close>

definition group_expires :: "cc_env \<Rightarrow> int \<Rightarrow> call_controller \<Rightarrow> call_controller" where
  "group_expires env skipto cc =
     (if cc_state cc \<noteq> CCStateARComplete \<or> cc_routes cc = [] \<or> br_rnum (hd (cc_routes cc)) > skipto
         \<or> \<not> early (ce_a_state env) then cc
      else if skipto = br_rnum (last (cc_routes cc)) + 1 then cc\<lparr>cc_routes := []\<rparr>
      else (case dropWhile (\<lambda>r. br_rnum r \<noteq> skipto) (cc_routes cc) of
              [] \<Rightarrow> act C_panic (cc\<lparr>cc_routes := []\<rparr>)
            | rs \<Rightarrow> act (C_disconnect LegO None) (cc\<lparr>cc_routes := rs\<rparr>)))"

end
