(* ===== verification/B2b_Config.thy ===== *)
theory B2b_Config
  imports B2b_Controller
begin

text \<open>
  The configuration of the RADIUS B2BUA, src/cmd/b2bua_radius/my_config_parser.go: the option tables, the
  command line flags with their defaults, the configuration file and the checks of the values. The flags
  are given as the assignments the flag package makes, in their order; the file is read through the
  ini package, whose answers are arguments.
\<close>

section \<open>Options\<close>

record my_config =
  Accept_ips :: string
  Acct_enable :: bool
  Alive_acct_int :: int
  Allowed_pts :: string
  Auth_enable :: bool
  B2bua_socket :: string
  Foreground :: bool
  Hide_call_id :: bool
  Keepalive_ans :: int
  Keepalive_orig :: int
  Logfile :: string
  Max_credit_time :: int
  Max_radius_clients :: int
  Nat_traversal :: bool
  Precise_acct :: bool
  Digest_auth :: bool
  Digest_auth_only :: bool
  Pass_headers :: string
  Pidfile :: string
  Radiusclient :: string
  Radiusclient_conf :: string
  Rtp_proxy_clients :: string
  Rtpp_hrtb_ival :: int
  Rtpp_hrtb_retr_ival :: int
  Static_route :: string
  Sip_address :: string
  Static_tr_in :: string
  Static_tr_out :: string
  Sip_port :: int
  Sip_proxy :: string
  Start_acct_enable :: bool
  Accept_ips_map :: "string list"
  Allowed_pts_map :: "string list"
  Rtp_proxy_clients_arr :: "string list"
  Pass_headers_arr :: "string list"
  Keepalive_ans_dur :: duration
  Keepalive_orig_dur :: duration
  Hrtb_ival_dur :: duration
  Hrtb_retr_ival_dur :: duration

text \<open>An option: its name, how its variable is set, and its default value.\<close>

type_synonym 'v opt = "string \<times> ('v \<Rightarrow> my_config \<Rightarrow> my_config) \<times> 'v"

definition bool_opts :: "bool opt list" where
  "bool_opts =
     [(''acct_enable'', \<lambda>v c. c\<lparr>Acct_enable := v\<rparr>, True),
      (''precise_acct'', \<lambda>v c. c\<lparr>Precise_acct := v\<rparr>, False),
      (''auth_enable'', \<lambda>v c. c\<lparr>Auth_enable := v\<rparr>, True),
      (''digest_auth'', \<lambda>v c. c\<lparr>Digest_auth := v\<rparr>, True),
      (''foreground'', \<lambda>v c. c\<lparr>Foreground := v\<rparr>, False),
      (''hide_call_id'', \<lambda>v c. c\<lparr>Hide_call_id := v\<rparr>, False),
      (''start_acct_enable'', \<lambda>v c. c\<lparr>Start_acct_enable := v\<rparr>, False),
      (''digest_auth_only'', \<lambda>v c. c\<lparr>Digest_auth_only := v\<rparr>, False),
      (''nat_traversal'', \<lambda>v c. c\<lparr>Nat_traversal := v\<rparr>, False)]"

definition int_opts :: "int opt list" where
  "int_opts =
     [(''alive_acct_int'', \<lambda>v c. c\<lparr>Alive_acct_int := v\<rparr>, -1),
      (''keepalive_ans'', \<lambda>v c. c\<lparr>Keepalive_ans := v\<rparr>, 0),
      (''keepalive_orig'', \<lambda>v c. c\<lparr>Keepalive_orig := v\<rparr>, 0),
      (''max_credit_time'', \<lambda>v c. c\<lparr>Max_credit_time := v\<rparr>, -1),
      (''max_radiusclients'', \<lambda>v c. c\<lparr>Max_radius_clients := v\<rparr>, 20),
      (''sip_port'', \<lambda>v c. c\<lparr>Sip_port := v\<rparr>, 5060),
      (''rtpp_hrtb_ival'', \<lambda>v c. c\<lparr>Rtpp_hrtb_ival := v\<rparr>, 10),
      (''rtpp_hrtb_retr_ival'', \<lambda>v c. c\<lparr>Rtpp_hrtb_retr_ival := v\<rparr>, 60)]"

definition str_opts :: "string opt list" where
  "str_opts =
     [(''b2bua_socket'', \<lambda>v c. c\<lparr>B2bua_socket := v\<rparr>, ''/var/run/b2bua.sock''),
      (''logfile'', \<lambda>v c. c\<lparr>Logfile := v\<rparr>, ''/var/log/b2bua.log''),
      (''pidfile'', \<lambda>v c. c\<lparr>Pidfile := v\<rparr>, ''/var/run/b2bua.pid''),
      (''radiusclient'', \<lambda>v c. c\<lparr>Radiusclient := v\<rparr>, ''/usr/local/sbin/radiusclient''),
      (''radiusclient_conf'', \<lambda>v c. c\<lparr>Radiusclient_conf := v\<rparr>, []),
      (''sip_address'', \<lambda>v c. c\<lparr>Sip_address := v\<rparr>, []),
      (''static_route'', \<lambda>v c. c\<lparr>Static_route := v\<rparr>, []),
      (''static_tr_in'', \<lambda>v c. c\<lparr>Static_tr_in := v\<rparr>, []),
      (''static_tr_out'', \<lambda>v c. c\<lparr>Static_tr_out := v\<rparr>, []),
      (''allowed_pts'', \<lambda>v c. c\<lparr>Allowed_pts := v\<rparr>, []),
      (''accept_ips'', \<lambda>v c. c\<lparr>Accept_ips := v\<rparr>, []),
      (''sip_proxy'', \<lambda>v c. c\<lparr>Sip_proxy := v\<rparr>, []),
      (''pass_headers'', \<lambda>v c. c\<lparr>Pass_headers := v\<rparr>, []),
      (''rtp_proxy_clients'', \<lambda>v c. c\<lparr>Rtp_proxy_clients := v\<rparr>, [])]"

text \<open>The short flags share the variables; registering one sets its variable to the default given there.\<close>

definition short_bools :: "bool opt list" where
  "short_bools = [(''f'', \<lambda>v c. c\<lparr>Foreground := v\<rparr>, False), (''H'', \<lambda>v c. c\<lparr>Hide_call_id := v\<rparr>, False)]"

definition short_ints :: "int opt list" where
  "short_ints =
     [(''m'', \<lambda>v c. c\<lparr>Max_credit_time := v\<rparr>, -1), (''M'', \<lambda>v c. c\<lparr>Max_radius_clients := v\<rparr>, 1),
      (''p'', \<lambda>v c. c\<lparr>Sip_port := v\<rparr>, 5060)]"

definition short_strs :: "string opt list" where
  "short_strs =
     [(''l'', \<lambda>v c. c\<lparr>Sip_address := v\<rparr>, []), (''P'', \<lambda>v c. c\<lparr>Pidfile := v\<rparr>, ''/var/run/b2bua.pid''),
      (''L'', \<lambda>v c. c\<lparr>Logfile := v\<rparr>, ''/var/log/sip.log''), (''s'', \<lambda>v c. c\<lparr>Static_route := v\<rparr>, []),
      (''a'', \<lambda>v c. c\<lparr>Accept_ips := v\<rparr>, []), (''t'', \<lambda>v c. c\<lparr>Static_tr_in := v\<rparr>, []),
      (''T'', \<lambda>v c. c\<lparr>Static_tr_out := v\<rparr>, []), (''F'', \<lambda>v c. c\<lparr>Allowed_pts := v\<rparr>, []),
      (''R'', \<lambda>v c. c\<lparr>Radiusclient_conf := v\<rparr>, []), (''c'', \<lambda>v c. c\<lparr>B2bua_socket := v\<rparr>, ''/var/run/b2bua.sock'')]"

definition NewMyConfigParser :: my_config where
  "NewMyConfigParser =
     \<lparr>Accept_ips = [], Acct_enable = False, Alive_acct_int = 0, Allowed_pts = [], Auth_enable = True, B2bua_socket = [],
      Foreground = False, Hide_call_id = False, Keepalive_ans = 0, Keepalive_orig = 0, Logfile = [], Max_credit_time = 0,
      Max_radius_clients = 0, Nat_traversal = False, Precise_acct = False, Digest_auth = False, Digest_auth_only = False,
      Pass_headers = [], Pidfile = [], Radiusclient = [], Radiusclient_conf = [], Rtp_proxy_clients = [], Rtpp_hrtb_ival = 0,
      Rtpp_hrtb_retr_ival = 0, Static_route = [], Sip_address = [], Static_tr_in = [], Static_tr_out = [], Sip_port = 0,
      Sip_proxy = [], Start_acct_enable = False, Accept_ips_map = [], Allowed_pts_map = [], Rtp_proxy_clients_arr = [],
      Pass_headers_arr = [], Keepalive_ans_dur = 0, Keepalive_orig_dur = 0, Hrtb_ival_dur = 0, Hrtb_retr_ival_dur = 0\<rparr>"

section \<open>Flags\<close>

definition set_defaults :: "'v opt list \<Rightarrow> my_config \<Rightarrow> my_config" where
  "set_defaults opts c = fold (\<lambda>(_, put, d). put d) opts c"

definition setupOpts :: "my_config \<Rightarrow> my_config" where
  "setupOpts c = set_defaults str_opts (set_defaults int_opts (set_defaults bool_opts c))"

definition setup_short :: "my_config \<Rightarrow> my_config" where
  "setup_short c = set_defaults short_strs (set_defaults short_ints (set_defaults short_bools c))"

text \<open>The flags that are variables of \<open>Parse\<close> itself.\<close>

record flag_vars =
  fv_disable_digest_auth :: bool
  fv_ka_level :: int
  fv_auth_disable :: bool
  fv_acct_level :: int
  fv_writeconf :: string
  fv_readconf :: string

definition new_flags :: flag_vars where
  "new_flags = \<lparr>fv_disable_digest_auth = False, fv_ka_level = 0, fv_auth_disable = False, fv_acct_level = -1,
     fv_writeconf = [], fv_readconf = []\<rparr>"

datatype flag_set = F_bool string bool | F_int string int | F_str string string

definition put_opt :: "'v opt list \<Rightarrow> string \<Rightarrow> 'v \<Rightarrow> my_config \<Rightarrow> my_config" where
  "put_opt opts name v c = (case map_of opts name of Some (put, d) \<Rightarrow> put v c | None \<Rightarrow> c)"

definition rtp_proxy_client_cb :: "string \<Rightarrow> my_config \<Rightarrow> my_config" where
  "rtp_proxy_client_cb val c =
     (let v = TrimSpace val in if v = [] then c else c\<lparr>Rtp_proxy_clients_arr := Rtp_proxy_clients_arr c @ [v]\<rparr>)"

definition pass_header_cb :: "string \<Rightarrow> my_config \<Rightarrow> my_config" where
  "pass_header_cb val c =
     (let v = TrimSpace val in if v = [] then c else c\<lparr>Pass_headers_arr := Pass_headers_arr c @ [v]\<rparr>)"

fun flag_Parse :: "flag_set \<Rightarrow> my_config \<times> flag_vars \<Rightarrow> my_config \<times> flag_vars" where
  "flag_Parse (F_bool n v) (c, l) =
     (if n = ''D'' then (c, l\<lparr>fv_disable_digest_auth := v\<rparr>)
      else if n = ''u'' then (c, l\<lparr>fv_auth_disable := v\<rparr>)
      else (put_opt (bool_opts @ short_bools) n v c, l))"
| "flag_Parse (F_int n v) (c, l) =
     (if n = ''k'' then (c, l\<lparr>fv_ka_level := v\<rparr>)
      else if n = ''A'' then (c, l\<lparr>fv_acct_level := v\<rparr>)
      else (put_opt (int_opts @ short_ints) n v c, l))"
| "flag_Parse (F_str n v) (c, l) =
     (if n = ''W'' then (c, l\<lparr>fv_writeconf := v\<rparr>)
      else if n = ''C'' \<or> n = ''config'' then (c, l\<lparr>fv_readconf := v\<rparr>)
      else if n = ''r'' \<or> n = ''rtp_proxy_client'' then (rtp_proxy_client_cb v c, l)
      else if n = ''h'' \<or> n = ''pass_header'' then (pass_header_cb v c, l)
      else (put_opt (str_opts @ short_strs) n v c, l))"

section \<open>The configuration file\<close>

text \<open>The ini package: whether the file could be loaded, and its lookups with their defaults.\<close>

record ini_reader =
  ini_loads :: bool
  ini_Bool :: "string \<Rightarrow> bool \<Rightarrow> bool"
  ini_Get :: "string \<Rightarrow> string \<Rightarrow> string"

definition try_read :: "ini_reader \<Rightarrow> string \<Rightarrow> my_config \<Rightarrow> my_config" where
  "try_read ini fname c =
     (if fname = [] \<or> \<not> ini_loads ini then c
      else fold (\<lambda>(n, put, d). put (ini_Get ini (''general.'' @ n) d)) str_opts
             (fold (\<lambda>(n, put, d) c. case Atoi (ini_Get ini (''general.'' @ n) (Itoa d)) of Some v \<Rightarrow> put v c | None \<Rightarrow> c) int_opts
               (fold (\<lambda>(n, put, d). put (ini_Bool ini (''general.'' @ n) d)) bool_opts c)))"

section \<open>Parsing\<close>

definition comma_list :: "string \<Rightarrow> string list" where
  "comma_list s = filter (\<lambda>x. x \<noteq> []) (map TrimSpace (go_split (CHR '','') s))"

definition config_lists :: "my_config \<Rightarrow> my_config" where
  "config_lists c =
     c\<lparr>Rtp_proxy_clients_arr := Rtp_proxy_clients_arr c @ comma_list (Rtp_proxy_clients c),
       Accept_ips_map := Accept_ips_map c @ comma_list (Accept_ips c),
       Pass_headers_arr := Pass_headers_arr c @ comma_list (Pass_headers c)\<rparr>"

definition keepalive_level :: "int \<Rightarrow> my_config \<Rightarrow> my_config result" where
  "keepalive_level k c =
     (if k = 0 then Inr c
      else if k = 1 then Inr (c\<lparr>Keepalive_ans_dur := 32 * second\<rparr>)
      else if k = 2 then Inr (c\<lparr>Keepalive_orig_dur := 32 * second\<rparr>)
      else if k = 3 then Inr (c\<lparr>Keepalive_ans_dur := 32 * second, Keepalive_orig_dur := 32 * second\<rparr>)
      else Inl ''-k argument not in the range 0-3'')"

definition keepalives :: "my_config \<Rightarrow> my_config result" where
  "keepalives c =
     (if Keepalive_ans c < 0 then Inl ''keepalive_ans should be non-negative''
      else (let c1 = (if Keepalive_ans c > 0 then c\<lparr>Keepalive_ans_dur := seconds (Keepalive_ans c)\<rparr> else c) in
            if Keepalive_orig c < 0 then Inl ''keepalive_orig should be non-negative''
            else if Keepalive_orig c > 0 then Inr (c1\<lparr>Keepalive_orig_dur := seconds (Keepalive_orig c)\<rparr>)
            else Inr c1))"

definition accounting_level :: "int \<Rightarrow> my_config \<Rightarrow> my_config result" where
  "accounting_level n c =
     (if n = -1 then Inr c
      else if n = 0 then Inr (c\<lparr>Acct_enable := False, Start_acct_enable := False\<rparr>)
      else if n = 1 then Inr (c\<lparr>Acct_enable := True, Start_acct_enable := False\<rparr>)
      else if n = 2 then Inr (c\<lparr>Acct_enable := True, Start_acct_enable := True\<rparr>)
      else Inl ''-A argument not in the range 0-2'')"

text \<open>What happens before and after the configuration file is read.\<close>

definition early_config :: "flag_vars \<Rightarrow> my_config \<Rightarrow> my_config result" where
  "early_config l c =
     (let c1 = c\<lparr>Allowed_pts_map := map TrimSpace (go_split (CHR '','') (Allowed_pts c))\<rparr> in
      if Sip_address c1 \<noteq> [] then Inl nil_panic
      else Inr (if fv_disable_digest_auth l then c1\<lparr>Digest_auth := False\<rparr> else c1))"

definition late_config :: "bool \<Rightarrow> flag_vars \<Rightarrow> my_config \<Rightarrow> my_config result" where
  "late_config logger_ok l c =
     (if Sip_port c \<le> 0 \<or> Sip_port c > 65535 then Inl ''sip_port should be in the range 1-65535''
      else bind_result (keepalive_level (fv_ka_level l) (config_lists c)) (\<lambda>c1.
           bind_result (keepalives c1) (\<lambda>c2.
             if Max_credit_time c2 < 0 \<and> Max_credit_time c2 \<noteq> -1 then Inl ''max_credit_time should be more than zero''
             else if \<not> logger_ok then Inl ''cannot open the log file''
             else (let c3 = c2\<lparr>Hrtb_ival_dur := seconds (Rtpp_hrtb_ival c2), Hrtb_retr_ival_dur := seconds (Rtpp_hrtb_retr_ival c2)\<rparr>;
                       c4 = (if fv_auth_disable l then c3\<lparr>Auth_enable := False\<rparr> else c3)
                   in accounting_level (fv_acct_level l) c4))))"

text \<open>
  The address is handed to the embedded configuration before that is created, a nil interface at that
  point. Opening the log file is input.
\<close>

definition config_Parse :: "bool \<Rightarrow> ini_reader \<Rightarrow> flag_set list \<Rightarrow> my_config \<Rightarrow> my_config result" where
  "config_Parse logger_ok ini args c =
     (case fold flag_Parse args (setup_short (setupOpts c), new_flags) of (c1, l) \<Rightarrow>
        bind_result (early_config l c1) (\<lambda>c2. late_config logger_ok l (try_read ini (TrimSpace (fv_readconf l)) c2)))"

definition checkIP :: "my_config \<Rightarrow> string \<Rightarrow> bool" where
  "checkIP c ip \<longleftrightarrow> Accept_ips_map c = [] \<or> ip \<in> set (Accept_ips_map c)"

text \<open>The settings the call controller reads.\<close>

definition controller_config :: "sippy_config \<Rightarrow> b2b_route option \<Rightarrow> my_config \<Rightarrow> cc_config" where
  "controller_config sip route c =
     \<lparr>cf_sip = sip, cf_Auth_enable = Auth_enable c, cf_Acct_enable = Acct_enable c, cf_Hide_call_id = Hide_call_id c,
      cf_Static_tr_in = Static_tr_in c, cf_Static_tr_out = Static_tr_out c, cf_Allowed_pts = Allowed_pts c,
      cf_Allowed_pts_map = Allowed_pts_map c, cf_Max_credit_time = Max_credit_time c, cf_Keepalive_ans_dur = Keepalive_ans_dur c,
      cf_Keepalive_orig_dur = Keepalive_orig_dur c, cf_rtp_proxy = (Rtp_proxy_clients_arr c \<noteq> []), cf_static_route = route\<rparr>"

end
