(* ===== verification/B2b_Machine.thy ===== *)
theory B2b_Machine
  imports B2b_Controller "HOL-Library.Sublist"
begin

text \<open>
  The runs of a call controller: its inputs as one step relation, the steps that place no call and those that do,
  and the invariant of all runs, that routes are tried in their order, each one once.
\<close>

section \<open>Runs\<close>

datatype cc_input =
    N_event leg cc_event
  | N_callback cc_callback
  | N_group_expires int
  | N_disconnect "monotime option"

fun cc_step :: "cc_env \<Rightarrow> cc_input \<Rightarrow> call_controller \<Rightarrow> call_controller" where
  "cc_step env (N_event l ev) cc = cc_RecvEvent env l ev cc"
| "cc_step env (N_callback c) cc = callback env c cc"
| "cc_step env (N_group_expires n) cc = group_expires env n cc"
| "cc_step env (N_disconnect t) cc = cc_disconnect t cc"

text \<open>
  An authorisation request is answered once at most: the flag says whether an answer is due. Every input meets
  its own environment.
\<close>

inductive b2b_step :: "bool \<times> call_controller \<Rightarrow> bool \<times> call_controller \<Rightarrow> bool" where
  input: "b2b_step (p, cc) (p \<or> cc_auth_proc (cc_step env i cc) \<and> \<not> cc_auth_proc cc, cc_step env i cc)"
| answer: "b2b_step (True, cc) (False, rDone_nolock env results cc)"

definition b2b_init :: "bool \<times> call_controller \<Rightarrow> bool" where
  "b2b_init s \<longleftrightarrow> (\<exists>i ip src hs cguid ch gseq sid. s = (False, NewCallController i ip src hs cguid ch gseq sid))"

inductive_cases b2b_stepE: "b2b_step s t"

fun attempt :: "cc_action \<Rightarrow> (int \<times> cc_event) option" where
  "attempt (C_originate n u ev) = Some (n, ev)"
| "attempt x = None"

definition attempts :: "call_controller \<Rightarrow> (int \<times> cc_event) list" where
  "attempts cc = List.map_filter attempt (cc_acts cc)"

definition route_numbers :: "call_controller \<Rightarrow> int list" where
  "route_numbers cc = map br_rnum (cc_routes cc)"

section \<open>Steps that place no call\<close>

text \<open>Such a step keeps the routes, does not start the call anew and asks for no authorisation.\<close>

definition placeless :: "call_controller \<Rightarrow> call_controller \<Rightarrow> bool" where
  "placeless cc cc' \<longleftrightarrow> prefix (cc_acts cc) (cc_acts cc') \<and> attempts cc' = attempts cc \<and> cc_routes cc' = cc_routes cc
     \<and> (cc_state cc' = CCStateIdle \<longrightarrow> cc_state cc = CCStateIdle) \<and> (cc_auth_proc cc' \<longrightarrow> cc_auth_proc cc)"

named_theorems placeless_intros \<open>steps that place no call\<close>

lemma attempts_act [simp]:
  "attempts (act x cc) = attempts cc @ (case attempt x of None \<Rightarrow> [] | Some a \<Rightarrow> [a])"
  by (simp add: attempts_def act_def map_filter_append List.map_filter_def split: option.splits)

lemma act_fields [simp]:
  "cc_routes (act x cc) = cc_routes cc" "cc_state (act x cc) = cc_state cc" "cc_auth_proc (act x cc) = cc_auth_proc cc"
  "cc_eTry (act x cc) = cc_eTry cc" "cc_acts (act x cc) = cc_acts cc @ [x]"
  by (simp_all add: act_def)

lemma attempts_update [simp]:
  "attempts (cc\<lparr>cc_state := s\<rparr>) = attempts cc" "attempts (cc\<lparr>cc_routes := rs\<rparr>) = attempts cc"
  "attempts (cc\<lparr>cc_gseq := n\<rparr>) = attempts cc" "attempts (cc\<lparr>cc_auth_proc := b\<rparr>) = attempts cc"
  "attempts (cc\<lparr>cc_acctA := x\<rparr>) = attempts cc" "attempts (cc\<lparr>cc_acctO := b\<rparr>) = attempts cc"
  "attempts (cc\<lparr>cc_cmap := b\<rparr>) = attempts cc" "attempts (cc\<lparr>cc_rtp_proxy_session := b\<rparr>) = attempts cc"
  "attempts (cc\<lparr>cc_huntstop_scodes := ns\<rparr>) = attempts cc" "attempts (cc\<lparr>cc_uaO := b\<rparr>) = attempts cc"
  "attempts (cc\<lparr>cc_proxied := b\<rparr>) = attempts cc" "attempts (cc\<lparr>cc_username := u\<rparr>) = attempts cc"
  "attempts (cc\<lparr>cc_cId := c\<rparr>) = attempts cc" "attempts (cc\<lparr>cc_cli := u\<rparr>) = attempts cc"
  "attempts (cc\<lparr>cc_cld := u\<rparr>) = attempts cc" "attempts (cc\<lparr>cc_caller_name := u\<rparr>) = attempts cc"
  "attempts (cc\<lparr>cc_eTry := et\<rparr>) = attempts cc" "attempts (cc\<lparr>cc_sdp_session := ss\<rparr>) = attempts cc"
  by (simp_all add: attempts_def)

lemma placeless_refl [placeless_intros]: "placeless cc cc"
  by (simp add: placeless_def)

lemma placeless_trans: "placeless a b \<Longrightarrow> placeless b c \<Longrightarrow> placeless a c"
  by (auto simp: placeless_def intro: prefix_order.trans)

lemma placeless_act [placeless_intros]: "attempt x = None \<Longrightarrow> placeless cc (act x cc)"
  by (simp add: placeless_def)

lemma placeless_callback [placeless_intros]: "placeless cc (callback env c cc)"
  by (cases "(env, c, cc)" rule: callback.cases)
    (simp_all add: placeless_def aConn_def oConn_def aFail_def aDisc_def oDisc_def aDead_def oDead_def act_if_def Let_def
      split: option.splits)

lemma placeless_fold: "(\<And>x cc. placeless cc (f x cc)) \<Longrightarrow> placeless cc (fold f xs cc)"
  by (induction xs arbitrary: cc) (auto intro: placeless_refl placeless_trans)

lemma placeless_leg_event [placeless_intros]: "placeless cc (leg_event env l ev cc)"
  unfolding leg_event_def
  by (rule placeless_trans [OF placeless_act placeless_fold]) (simp_all add: placeless_callback)

lemma placeless_fixup: "fixup_event ev cc = Inr (ev', cc') \<Longrightarrow> placeless cc cc'"
  by (auto simp: fixup_event_def placeless_def bind_result_Inr_iff split: option.splits)

lemma placeless_relay_event [placeless_intros]: "placeless cc (relay_event env ev cc)"
  by (auto simp: relay_event_def split: sum.split
      intro: placeless_act placeless_trans [OF placeless_fixup placeless_leg_event])

lemma placeless_send_fail [placeless_intros]: "placeless cc (send_fail env scode reason rtime hs cc)"
proof -
  have "placeless cc (cc\<lparr>cc_gseq := cc_gseq cc + 1\<rparr>)" by (simp add: placeless_def)
  then show ?thesis
    by (auto simp: send_fail_def cc_generic_event_def intro: placeless_trans placeless_leg_event)
qed

lemma placeless_dead: "placeless cc cc' \<Longrightarrow> placeless cc (cc'\<lparr>cc_state := CCStateDead\<rparr>)"
  by (simp add: placeless_def)

lemma placeless_fail_call [placeless_intros]: "placeless cc (fail_call env scode reason rtime cc)"
  by (simp add: fail_call_def placeless_dead placeless_send_fail)

lemma placeless_fail_at [placeless_intros]: "placeless cc (fail_at env scode reason t cc)"
  by (simp add: fail_at_def placeless_intros split: option.splits)

lemma placeless_auth_failed [placeless_intros]: "placeless cc (auth_failed env cc)"
  by (simp add: auth_failed_def placeless_dead placeless_intros split: option.splits)

section \<open>Placing a call\<close>

fun event_call_id :: "cc_event \<Rightarrow> string option" where
  "event_call_id (CCEventTry g ti) = try_call_id ti"
| "event_call_id ev = None"

definition numbered :: "int \<times> cc_event \<Rightarrow> bool" where
  "numbered a \<longleftrightarrow> (\<exists>x. event_call_id (snd a) = Some (x @ ''-b2b_'' @ Itoa (fst a)))"

text \<open>At most one call is placed, under the given number.\<close>

definition places :: "int \<Rightarrow> call_controller \<Rightarrow> call_controller \<Rightarrow> bool" where
  "places n cc cc' \<longleftrightarrow> prefix (cc_acts cc) (cc_acts cc')
     \<and> (attempts cc' = attempts cc \<or> (\<exists>ev. attempts cc' = attempts cc @ [(n, ev)] \<and> numbered (n, ev)))
     \<and> cc_routes cc' = cc_routes cc
     \<and> (cc_state cc' = CCStateIdle \<longrightarrow> cc_state cc = CCStateIdle) \<and> (cc_auth_proc cc' \<longrightarrow> cc_auth_proc cc)"

lemma placeless_places: "placeless cc cc' \<Longrightarrow> places n cc cc'"
  by (simp add: placeless_def places_def)

lemma placeless_then_places: "placeless a b \<Longrightarrow> places n b c \<Longrightarrow> places n a c"
  by (auto simp: placeless_def places_def intro: prefix_order.trans)

lemma places_originate:
  "event_call_id ev = Some (x @ ''-b2b_'' @ Itoa n) \<Longrightarrow> places n cc (act (C_originate n u ev) cc)"
  by (auto simp: places_def numbered_def)

lemma placeless_new_event: "placeless cc (cc\<lparr>cc_gseq := cc_gseq cc + 1\<rparr>)"
  by (simp add: placeless_def)

text \<open>What starting a leg can come to: a panic, the failure for too many hops, or a call with its number.\<close>

lemma start_leg_outcome:
  fixes cc :: call_controller
  defines "cc1 \<equiv> cc\<lparr>cc_gseq := cc_gseq cc + 1\<rparr>"
  obtains (panic) c where "c \<in> {cc, cc1}" "start_leg env r cld u body et cc = act C_panic c"
    | (hops) c n where "c \<in> {cc, cc1}" "hops_left (ev_max_forwards (fst et)) = Inr (Some n)" "n \<le> 0"
        "start_leg env r cld u body et cc = fail_call env 483 ''Too Many Hops'' None c"
    | (placed) cid mf where "try_call_id (snd et) = Some cid" "hops_left (ev_max_forwards (fst et)) = Inr mf"
        "\<And>n. mf = Some n \<Longrightarrow> n > 0"
        "start_leg env r cld u body et cc = act (C_originate (br_rnum r) u
           (leg_try env r cld body (newCCEventGeneric (cc_gseq cc) (ce_now env) None [] []) (fst et) (snd et) cid mf
              (cc_caller_name cc))) cc1"
proof (cases "try_call_id (snd et)")
  case None
  then show thesis using panic [of cc] by (simp add: start_leg_def)
next
  case (Some cid)
  define made where "made = (case auth_body (try_auth_hdr (snd et)) of Inl e \<Rightarrow> False | Inr a \<Rightarrow> True)"
  define c where "c = (if made then cc1 else cc)"
  have c: "c \<in> {cc, cc1}" by (simp add: c_def)
  note start = start_leg_def Some cc_generic_event_def Let_def made_def [symmetric] cc1_def [symmetric] c_def [symmetric]
  show thesis
  proof (cases "hops_left (ev_max_forwards (fst et))")
    case Inl
    then show thesis using c panic [of c] by (simp add: start)
  next
    case (Inr mf)
    show thesis
    proof (cases "too_many_hops mf")
      case True
      then obtain n where "mf = Some n" "n \<le> 0" by (cases mf) (auto simp: too_many_hops_def)
      then show thesis using True c Inr hops [of c n] by (simp add: start)
    next
      case False
      then have "n > 0" if "mf = Some n" for n using that by (simp add: too_many_hops_def)
      then show thesis using False Inr Some c panic [of c] placed by (cases made) (simp_all add: start c_def)
    qed
  qed
qed

lemma leg_try_call_id:
  "event_call_id (leg_try env r cld body g eg ti cid mf cn) =
     Some ((if cf_Hide_call_id (ce_cf env) then ce_md5 env cid else cid) @ ''-b2b_'' @ Itoa (br_rnum r))"
  by (simp add: leg_try_def originate_call_id_def)

lemma places_start_leg: "places (br_rnum r) cc (start_leg env r cld u body et cc)"
proof (cases rule: start_leg_outcome [where env = env and r = r and cld = cld and u = u and body = body and et = et and cc = cc])
  case panic
  then show ?thesis by (auto simp: places_def)
next
  case (hops c n)
  then have "placeless cc c" using placeless_new_event by (auto simp: placeless_refl)
  from placeless_places [OF placeless_trans [OF this placeless_fail_call]] hops show ?thesis by simp
next
  case placed
  then show ?thesis
    using placeless_then_places [OF placeless_new_event places_originate [OF leg_try_call_id]] by simp
qed

lemma placeless_fold_act: "(\<And>x. x \<in> set xs \<Longrightarrow> attempt x = None) \<Longrightarrow> placeless cc (fold act xs cc)"
proof (induction xs arbitrary: cc)
  case (Cons a xs)
  then have "placeless cc (act a cc)" "placeless (act a cc) (fold act xs (act a cc))" by (simp_all add: placeless_act)
  then show ?case by (simp add: placeless_trans)
qed (simp add: placeless_refl)

lemma placeless_group_timer: "placeless cc (fold act (group_timer r) cc)"
  by (rule placeless_fold_act) (auto simp: group_timer_def split: option.splits prod.splits)

lemma placeless_prepare_leg: "placeless cc (prepare_leg env r cc)"
  unfolding prepare_leg_def by (rule placeless_trans [OF _ placeless_group_timer]) (simp add: placeless_def)

lemma places_placeOriginate: "places (br_rnum r) cc (placeOriginate env r cc)"
proof -
  define cc1 where "cc1 = cc\<lparr>cc_huntstop_scodes := br_huntstop_scodes r\<rparr>"
  have "placeless cc cc1" by (simp add: cc1_def placeless_def)
  note q = this placeless_trans [OF this placeless_prepare_leg]
  note fs = placeless_places [OF placeless_trans [OF q(1) placeless_fail_call]] placeless_places [OF placeless_trans [OF q(1) placeless_act]]
    placeless_places [OF placeless_trans [OF q(2) placeless_act]] placeless_then_places [OF q(2) places_start_leg]
  show ?thesis
    unfolding placeOriginate_def Let_def cc1_def [symmetric] by (simp add: fs split: prod.splits bool.splits sum.splits option.splits)
qed

section \<open>Routes are tried in order\<close>

text \<open>The calls placed and the routes left, in this order, bear increasing positive numbers.\<close>

definition in_order :: "call_controller \<Rightarrow> bool" where
  "in_order cc \<longleftrightarrow>
     sorted_wrt (<) (map fst (attempts cc) @ route_numbers cc)
     \<and> (\<forall>n \<in> set (map fst (attempts cc) @ route_numbers cc). 0 < n) \<and> (\<forall>a \<in> set (attempts cc). numbered a)"

definition unrouted :: "call_controller \<Rightarrow> bool" where
  "unrouted cc \<longleftrightarrow> attempts cc = [] \<and> cc_routes cc = []"

definition b2b_inv :: "bool \<times> call_controller \<Rightarrow> bool" where
  "b2b_inv s \<longleftrightarrow> in_order (snd s) \<and> (fst s \<or> cc_state (snd s) = CCStateIdle \<longrightarrow> unrouted (snd s))
     \<and> (cc_state (snd s) = CCStateIdle \<longrightarrow> \<not> fst s)"

lemma unrouted_in_order: "unrouted cc \<Longrightarrow> in_order cc"
  by (simp add: unrouted_def in_order_def route_numbers_def)

lemma places_in_order:
  assumes "in_order cc" and "cc_routes cc = r # rs" and "places (br_rnum r) (cc\<lparr>cc_routes := rs\<rparr>) cc'"
  shows "in_order cc'"
proof -
  from assms(1,2) have r: "sorted_wrt (<) (map fst (attempts cc) @ [br_rnum r] @ map br_rnum rs)"
    "\<forall>n \<in> set (map fst (attempts cc) @ [br_rnum r] @ map br_rnum rs). 0 < n" "\<forall>a \<in> set (attempts cc). numbered a"
    by (simp_all add: in_order_def route_numbers_def)
  from assms(3) have routes: "route_numbers cc' = map br_rnum rs" by (simp add: places_def route_numbers_def)
  from assms(3) consider "attempts cc' = attempts cc" | ev where "attempts cc' = attempts cc @ [(br_rnum r, ev)]" "numbered (br_rnum r, ev)"
    by (auto simp: places_def)
  then show ?thesis
  proof cases
    case 1
    with r routes show ?thesis by (simp add: in_order_def sorted_wrt_append)
  next
    case 2
    with r routes show ?thesis by (simp add: in_order_def)
  qed
qed

lemma next_route_in_order: "in_order cc \<Longrightarrow> in_order (next_route env cc)"
proof (cases "cc_routes cc")
  case (Cons r rs)
  assume "in_order cc"
  from places_in_order [OF this Cons places_placeOriginate] show ?thesis by (simp add: next_route_def Cons)
qed (simp add: next_route_def in_order_def route_numbers_def)

lemma next_route_fields:
  "cc_state (next_route env cc) = CCStateIdle \<Longrightarrow> cc_state cc = CCStateIdle"
  "cc_auth_proc (next_route env cc) \<Longrightarrow> cc_auth_proc cc"
proof -
  have "places (br_rnum r) (cc\<lparr>cc_routes := rs\<rparr>) (placeOriginate env r (cc\<lparr>cc_routes := rs\<rparr>))" for r rs
    by (rule places_placeOriginate)
  then show "cc_state (next_route env cc) = CCStateIdle \<Longrightarrow> cc_state cc = CCStateIdle"
    and "cc_auth_proc (next_route env cc) \<Longrightarrow> cc_auth_proc cc"
    by (auto simp: next_route_def places_def split: list.splits)
qed

lemma placeless_in_order: "placeless cc cc' \<Longrightarrow> in_order cc \<Longrightarrow> in_order cc'"
  by (simp add: placeless_def in_order_def route_numbers_def)

lemma customize_rnum [simp]: "br_rnum (customize n a b c d e r) = n"
  by (simp add: customize_def Let_def)

lemma usable_routes_numbers:
  "sorted_wrt (<) (map br_rnum (usable_routes env credit cc n rs)) \<and> (\<forall>r \<in> set (usable_routes env credit cc n rs). n < br_rnum r)"
proof (induction rs arbitrary: n)
  case (Cons r rs)
  from Cons [of "n + 1"] show ?case by (auto simp: Let_def customize_route_def)
qed simp

text \<open>The routes the answer brings are the first ones of the call.\<close>

definition settled :: "call_controller \<Rightarrow> call_controller \<Rightarrow> bool" where
  "settled cc cc' \<longleftrightarrow> in_order cc' \<and> (cc_state cc' = CCStateIdle \<longrightarrow> cc_state cc = CCStateIdle \<and> unrouted cc')
     \<and> (cc_auth_proc cc' \<longrightarrow> cc_auth_proc cc)"

lemma placeless_settled: "placeless cc cc' \<Longrightarrow> unrouted cc \<Longrightarrow> settled cc cc'"
  by (auto simp: settled_def placeless_in_order unrouted_in_order) (auto simp: placeless_def unrouted_def)

lemma settled_trans: "placeless a b \<Longrightarrow> settled b c \<Longrightarrow> settled a c"
  by (auto simp: settled_def placeless_def)

lemma placeless_unrouted: "placeless cc cc' \<Longrightarrow> unrouted cc \<Longrightarrow> unrouted cc'"
  by (simp add: placeless_def unrouted_def)

lemma settled_start_hunt:
  assumes "unrouted cc"
  shows "settled cc (start_hunt env avps routing cc)"
proof -
  define cc1 where "cc1 = cc\<lparr>cc_routes := cc_routes cc @ usable_routes env (result_credit_time avps) cc 0 routing\<rparr>"
  have "in_order (cc1\<lparr>cc_state := CCStateARComplete\<rparr>)"
    using assms usable_routes_numbers [of env "result_credit_time avps" cc 0 routing]
    by (auto simp: in_order_def unrouted_def cc1_def route_numbers_def)
  from next_route_in_order [OF this] have "settled cc (next_route env (cc1\<lparr>cc_state := CCStateARComplete\<rparr>))"
    using next_route_fields [of env "cc1\<lparr>cc_state := CCStateARComplete\<rparr>"] by (auto simp: settled_def cc1_def)
  moreover have "cc1 = cc" if "cc_routes cc1 = []" using that by (simp add: cc1_def)
  ultimately show ?thesis
    using placeless_settled [OF placeless_fail_call assms] by (auto simp: start_hunt_def Let_def cc1_def [symmetric])
qed

lemma settled_rDone: "unrouted cc \<Longrightarrow> settled cc (rDone_nolock env results cc)"
proof -
  assume u: "unrouted cc"
  have q: "placeless cc (cc\<lparr>cc_acctA := x\<rparr>)" for x by (simp add: placeless_def)
  have "settled cc (auth_accepted env avps cc)" for avps
    unfolding auth_accepted_def Let_def act_if_def
    using u settled_trans [OF q settled_start_hunt [OF placeless_unrouted [OF q u]]]
      placeless_settled [OF placeless_trans [OF q placeless_act] u] placeless_settled [OF q u] placeless_settled [OF placeless_act u]
    by (simp split: sum.split)
  then show ?thesis
    using placeless_settled [OF placeless_auth_failed u] by (simp add: rDone_nolock_def split: option.split)
qed

text \<open>A new call is settled, or waits for the answer to the request it made.\<close>

definition begun :: "call_controller \<Rightarrow> call_controller \<Rightarrow> bool" where
  "begun cc cc' \<longleftrightarrow> settled cc cc' \<or> unrouted cc' \<and> cc_state cc' \<noteq> CCStateIdle"

lemma begun_request: "unrouted cc \<Longrightarrow> cc_state cc \<noteq> CCStateIdle \<Longrightarrow> begun cc0 (request_auth a cc)"
  by (simp add: begun_def request_auth_def unrouted_def)

lemma begun_placeless: "unrouted cc \<Longrightarrow> placeless cc cc' \<Longrightarrow> begun cc cc'"
  by (simp add: begun_def placeless_settled)

lemma begun_trans: "placeless a b \<Longrightarrow> begun b c \<Longrightarrow> begun a c"
  by (auto simp: begun_def intro: settled_trans)

lemma begun_authorise:
  assumes u: "unrouted cc" and "cc_state cc \<noteq> CCStateIdle"
  shows "begun cc (authorise env ti t cc)"
proof -
  have q: "placeless cc (cc\<lparr>cc_username := x\<rparr>)" for x by (simp add: placeless_def)
  have "begun cc (request_auth a (cc\<lparr>cc_username := x\<rparr>))" for a x
    using assms by (auto intro: begun_request simp: unrouted_def)
  moreover have "begun cc (rDone_nolock env res (cc\<lparr>cc_username := x\<rparr>))" for res x
    using settled_trans [OF q settled_rDone [OF placeless_unrouted [OF q u]]] by (simp add: begun_def)
  ultimately show ?thesis
    using begun_placeless [OF u placeless_fail_at] by (auto simp: authorise_def split: sum.split option.split)
qed

lemma placeless_renew: "renew_event env ti (cc\<lparr>cc_cld := x\<rparr>) = (cc', t') \<Longrightarrow> placeless cc cc'"
  by (auto simp: renew_event_def placeless_def split: sum.splits)

lemma placeless_strip_nat: "strip_nat env ti t cc = (cc', t', ti') \<Longrightarrow> placeless cc cc'"
  by (auto simp: strip_nat_def Let_def placeless_refl split: if_splits prod.splits dest: placeless_renew)

lemma placeless_translate_in: "translate_in env ti t cc = (b, cc', t') \<Longrightarrow> placeless cc cc'"
  by (auto simp: translate_in_def placeless_refl split: if_splits prod.splits bool.splits dest: placeless_renew)
    (simp add: placeless_def)

lemma begun_new_call:
  assumes u: "unrouted cc"
  shows "begun cc (new_call env g ti cc)"
proof -
  define cc1 where "cc1 = cc\<lparr>cc_cId := try_call_id ti, cc_cli := try_cli ti, cc_cld := try_cld ti, cc_caller_name := try_caller_name ti\<rparr>"
  have q1: "placeless cc cc1" by (simp add: cc1_def placeless_def)
  have fail: "begun cc (fail_call env a b c cc1)" for a b c
    by (rule begun_placeless [OF u placeless_trans [OF q1 placeless_fail_call]])
  have rest: "begun cc (authorise env ti' t' (cc3\<lparr>cc_rtp_proxy_session := s, cc_eTry := e, cc_state := CCStateWaitRoute\<rparr>))"
    if "placeless cc cc3" for cc3 ti' t' s e
    by (rule begun_trans [OF _ begun_authorise])
      (use that u in \<open>simp_all add: placeless_def unrouted_def\<close>)
  have stop: "begun cc (fail_at env a b c cc3)" "begun cc (act C_panic cc3)" if "placeless cc cc3" for a b c cc3
    using begun_placeless [OF u placeless_trans [OF that placeless_fail_at]] begun_placeless [OF u placeless_trans [OF that placeless_act]] by simp_all
  have q3: "placeless cc cc3" if "placeless cc2 cc3" "placeless cc1 cc2" for cc2 cc3
    by (rule placeless_trans [OF q1 placeless_trans [OF that(2,1)]])
  note steps = rest [OF q3] stop [OF q3] stop(2) [OF q1]
  show ?thesis
    unfolding new_call_def Let_def cc1_def [symmetric]
    by (auto simp: fail split: sum.split prod.splits bool.splits option.split
        dest!: placeless_strip_nat placeless_translate_in intro: steps)
qed

section \<open>The invariant of all runs\<close>

lemma placeless_inv: "b2b_inv (p, cc) \<Longrightarrow> placeless cc cc' \<Longrightarrow> b2b_inv (p \<or> cc_auth_proc cc' \<and> \<not> cc_auth_proc cc, cc')"
  using placeless_in_order [of cc cc'] placeless_unrouted [of cc cc'] by (auto simp: b2b_inv_def) (auto simp: placeless_def)

lemma inv_RecvEvent_A:
  assumes i: "b2b_inv (p, cc)"
  shows "b2b_inv (p \<or> cc_auth_proc (RecvEvent_A env ev cc) \<and> \<not> cc_auth_proc cc, RecvEvent_A env ev cc)"
proof (cases "cc_state cc = CCStateIdle \<and> (\<exists>g ti. ev = CCEventTry g ti)")
  case True
  then obtain g ti where ev: "ev = CCEventTry g ti" by blast
  from True i have u: "unrouted cc" and p: "\<not> p" by (auto simp: b2b_inv_def)
  from begun_new_call [OF u] have "begun cc (new_call env g ti cc)" .
  then show ?thesis
    using True p by (auto simp: RecvEvent_A_def ev begun_def settled_def b2b_inv_def intro: unrouted_in_order)
next
  case False
  have "placeless cc (leg_event env LegA (CCEventDisconnect g' None) (cc\<lparr>cc_gseq := cc_gseq cc + 1\<rparr>))" for g'
    by (rule placeless_trans [OF placeless_new_event placeless_leg_event])
  with False have "placeless cc (RecvEvent_A env ev cc)"
    by (auto simp: RecvEvent_A_def cc_generic_event_def placeless_refl placeless_leg_event split: cc_event.split)
  from placeless_inv [OF i this] show ?thesis .
qed

lemma inv_RecvEvent_O:
  assumes i: "b2b_inv (p, cc)"
  shows "b2b_inv (p \<or> cc_auth_proc (RecvEvent_O env ev cc) \<and> \<not> cc_auth_proc cc, RecvEvent_O env ev cc)"
proof (cases "hunts env ev cc")
  case True
  then have "cc_routes cc \<noteq> []" "cc_state cc = CCStateARComplete" by (auto simp: hunts_def split: cc_event.splits)
  with i have "\<not> p" "in_order (next_route env cc)" "cc_state (next_route env cc) \<noteq> CCStateIdle"
    "cc_auth_proc (next_route env cc) \<longrightarrow> cc_auth_proc cc"
    using next_route_fields [of env cc] by (auto simp: b2b_inv_def unrouted_def next_route_in_order)
  then show ?thesis using True by (auto simp: RecvEvent_O_def b2b_inv_def)
next
  case False
  then show ?thesis using placeless_inv [OF i placeless_relay_event] by (simp add: RecvEvent_O_def)
qed

lemma in_order_suffix:
  assumes "in_order cc" and "cc_routes cc = xs @ ys" and "attempts cc' = attempts cc" and "cc_routes cc' = ys"
  shows "in_order cc'"
  using assms by (auto simp: in_order_def route_numbers_def sorted_wrt_append)

lemma inv_group_expires:
  assumes i: "b2b_inv (p, cc)"
  shows "b2b_inv (p \<or> cc_auth_proc (group_expires env n cc) \<and> \<not> cc_auth_proc cc, group_expires env n cc)"
proof -
  let ?cc = "group_expires env n cc"
  let ?P = "\<lambda>r. br_rnum r \<noteq> n"
  have "cc_routes ?cc \<in> {cc_routes cc, [], dropWhile ?P (cc_routes cc)}"
    by (auto simp: group_expires_def split: list.split)
  then obtain xs where r: "cc_routes cc = xs @ cc_routes ?cc"
    by (metis append_Nil append_Nil2 insertE singletonD takeWhile_dropWhile_id)
  have a: "attempts ?cc = attempts cc" "cc_state ?cc = cc_state cc" "cc_auth_proc ?cc = cc_auth_proc cc"
    by (simp_all add: group_expires_def split: list.split)
  from i have "in_order cc" by (simp add: b2b_inv_def)
  from in_order_suffix [OF this r a(1) refl] show ?thesis
    using i r a by (auto simp: b2b_inv_def unrouted_def)
qed

lemma b2b_inv_step:
  assumes "b2b_inv s" and "b2b_step s t"
  shows "b2b_inv t"
  using assms(2)
proof (cases rule: b2b_step.cases)
  case (input p cc env i)
  with assms(1) have i: "b2b_inv (p, cc)" by simp
  show ?thesis
  proof (cases i)
    case (N_event l ev)
    with input inv_RecvEvent_A [OF i] inv_RecvEvent_O [OF i] show ?thesis by (cases l) (simp_all add: cc_RecvEvent_def)
  next
    case N_callback
    with input placeless_inv [OF i placeless_callback] show ?thesis by simp
  next
    case N_group_expires
    with input inv_group_expires [OF i] show ?thesis by simp
  next
    case (N_disconnect t')
    have "placeless cc (cc_disconnect t' cc)" by (simp add: cc_disconnect_def placeless_act)
    with N_disconnect input placeless_inv [OF i] show ?thesis by simp
  qed
next
  case (answer cc env results)
  with assms(1) have "unrouted cc" "cc_state cc \<noteq> CCStateIdle" by (auto simp: b2b_inv_def)
  with answer settled_rDone [of cc env results] show ?thesis by (auto simp: b2b_inv_def settled_def)
qed

lemma b2b_inv_init: "b2b_init s \<Longrightarrow> b2b_inv s"
  by (clarsimp simp: b2b_init_def b2b_inv_def NewCallController_def)
    (simp add: unrouted_in_order unrouted_def attempts_def List.map_filter_def)

interpretation b2b: invariant_system b2b_init b2b_step b2b_inv
  by unfold_locales (fact b2b_inv_init, fact b2b_inv_step)

lemma Itoa_pos_inj:
  assumes "0 < i" and "0 < j" and "Itoa i = Itoa j"
  shows "i = j"
proof -
  from assms have "nat_digits (nat i) = nat_digits (nat j)" by (simp add: Itoa_def)
  moreover have "digits_val 0 (nat_digits n) = Some n" for n
    by (simp only: nat_digits_value mult_zero_left add_0)
  ultimately have "nat i = nat j" by (metis option.inject)
  with assms show ?thesis by simp
qed

lemma call_id_number: "x @ ''-b2b_'' @ Itoa i = y @ ''-b2b_'' @ Itoa j \<Longrightarrow> Itoa i = Itoa j"
proof -
  have t: "takeWhile (\<lambda>c. c \<noteq> CHR ''_'') (rev (z @ ''-b2b_'' @ Itoa n)) = rev (Itoa n)" for z n
    using Itoa_chars [of "CHR ''_''" n] by (auto simp: takeWhile_append is_digit_def) 
  assume "x @ ''-b2b_'' @ Itoa i = y @ ''-b2b_'' @ Itoa j"
  then have "rev (Itoa i) = rev (Itoa j)" using t by metis
  then show ?thesis by simp
qed

end
