(* ===== verification/B2b_Properties.thy ===== *)
theory B2b_Properties
  imports B2b_Machine
begin

text \<open>
  What makes the call controller correct: the order of its attempts, that the caller is told, what a placed call
  carries, that nothing is placed without authorisation; and how credit limits and group timers work out.
\<close>

section \<open>Lemmas on single steps\<close>

lemma sorted_bounds:
  fixes f :: "'a \<Rightarrow> int"
  shows "sorted_wrt (<) (map f xs) \<Longrightarrow> x \<in> set xs \<Longrightarrow> f (hd xs) \<le> f x \<and> f x \<le> f (last xs)"
  by (induction xs) (auto simp: less_imp_le)

lemma next_route_shorter: "cc_routes cc \<noteq> [] \<Longrightarrow> cc_routes (next_route env cc) = tl (cc_routes cc)"
  using places_placeOriginate [of "hd (cc_routes cc)" "cc\<lparr>cc_routes := tl (cc_routes cc)\<rparr>" env]
  by (cases "cc_routes cc") (simp_all add: next_route_def places_def)

lemma next_route_grows: "prefix (cc_acts cc) (cc_acts (next_route env cc))"
  using places_placeOriginate [of "hd (cc_routes cc)" "cc\<lparr>cc_routes := tl (cc_routes cc)\<rparr>" env]
  by (cases "cc_routes cc") (simp_all add: next_route_def places_def)

lemma leg_event_delivers:
  "prefix (cc_acts cc @ [C_event l ev]) (cc_acts (leg_event env l ev cc))"
  using placeless_fold [of "callback env" "act (C_event l ev) cc" "ce_calls env l ev", OF placeless_callback]
  by (simp add: leg_event_def placeless_def)

lemma RecvEvent_O_grows: "prefix (cc_acts cc) (cc_acts (RecvEvent_O env ev cc))"
  using next_route_grows [of cc env] placeless_relay_event [of cc env ev]
  by (simp add: RecvEvent_O_def placeless_def)

definition leg_events :: "(cc_env \<times> cc_event) list \<Rightarrow> call_controller \<Rightarrow> call_controller" where
  "leg_events es cc = fold (\<lambda>(env, ev). RecvEvent_O env ev) es cc"

lemma leg_events_grow: "prefix (cc_acts cc) (cc_acts (leg_events es cc))"
proof (induction es arbitrary: cc)
  case (Cons e es)
  obtain env ev where e: "e = (env, ev)" by (cases e)
  from RecvEvent_O_grows [of cc env ev] Cons [of "RecvEvent_O env ev cc"] show ?case
    by (simp add: leg_events_def e prefix_order.trans)
qed (simp add: leg_events_def)

text \<open>Relaying an event changes nothing of it but its body, which keeps all but the origin of its description.\<close>

definition relayed :: "cc_event \<Rightarrow> cc_event \<Rightarrow> bool" where
  "relayed ev ev' \<longleftrightarrow> (case event_GetBody ev of None \<Rightarrow> ev' = ev | Some b \<Rightarrow> (\<exists>b'. ev' = event_put_body b' ev))"

definition event_ok :: "cc_event \<Rightarrow> bool" where
  "event_ok ev \<longleftrightarrow> (case event_GetBody ev of None \<Rightarrow> True
     | Some b \<Rightarrow> (case mb_sdp b of None \<Rightarrow> True | Some d \<Rightarrow> sd_o d \<noteq> None))"

lemma relay_event_delivers:
  assumes "event_ok ev"
  shows "\<exists>ev'. relayed ev ev' \<and> prefix (cc_acts cc @ [C_event LegA ev']) (cc_acts (relay_event env ev cc))"
proof (cases "event_GetBody ev")
  case None
  then show ?thesis using leg_event_delivers [of cc LegA ev env] by (auto simp: relay_event_def fixup_event_def relayed_def)
next
  case (Some b)
  from assms Some obtain b' ss where "FixupVersion b (cc_sdp_session cc) = Inr (b', ss)"
    using FixupVersion_Inr [of b "cc_sdp_session cc"] by (auto simp: event_ok_def split: option.splits)
  then have "fixup_event ev cc = Inr (event_put_body b' ev, cc\<lparr>cc_sdp_session := ss\<rparr>)" using Some by (simp add: fixup_event_def)
  then show ?thesis
    using leg_event_delivers [of "cc\<lparr>cc_sdp_session := ss\<rparr>" LegA "event_put_body b' ev" env] Some
    by (auto simp: relay_event_def relayed_def)
qed

lemma leg_events_reach_caller:
  "length (cc_routes cc) < length es \<Longrightarrow> \<forall>(env, ev) \<in> set es. event_ok ev \<Longrightarrow>
     \<exists>(env, ev) \<in> set es. \<exists>ev'. relayed ev ev' \<and> C_event LegA ev' \<in> set (drop (length (cc_acts cc)) (cc_acts (leg_events es cc)))"
proof (induction es arbitrary: cc)
  case (Cons e es)
  obtain env ev where e: "e = (env, ev)" by (cases e)
  let ?cc = "RecvEvent_O env ev cc"
  obtain xs where xs: "cc_acts ?cc = cc_acts cc @ xs" using RecvEvent_O_grows [of cc env ev] by (auto simp: prefix_def)
  obtain ys where ys: "cc_acts (leg_events es ?cc) = cc_acts ?cc @ ys" using leg_events_grow [of ?cc es] by (auto simp: prefix_def)
  have run: "cc_acts (leg_events (e # es) cc) = cc_acts cc @ xs @ ys" using xs ys by (simp add: leg_events_def e)
  show ?case
  proof (cases "hunts env ev cc")
    case True
    then have "cc_routes cc \<noteq> []" by (auto simp: hunts_def split: cc_event.splits)
    then have "length (cc_routes ?cc) < length es"
      using Cons.prems True by (cases "cc_routes cc") (simp_all add: RecvEvent_O_def next_route_shorter)
    from Cons.IH [OF this] Cons.prems(2) obtain e1 ev' where
      "e1 \<in> set es" "relayed (snd e1) ev'" "C_event LegA ev' \<in> set ys" using ys by (auto simp: case_prod_unfold)
    then show ?thesis using run by (auto simp: case_prod_unfold)
  next
    case False
    have "event_ok ev" using Cons.prems(2) e by auto
    then obtain ev' where "relayed ev ev'" "C_event LegA ev' \<in> set xs"
      using relay_event_delivers [of ev cc env] False xs by (auto simp: RecvEvent_O_def prefix_def)
    then show ?thesis using run e by auto
  qed
qed simp

lemma placed_attempt:
  assumes "attempts (placeOriginate env r cc) = attempts cc @ [a]" and "cc_eTry cc = Some (g, ti)"
  obtains mf x cld body g' where "hops_left (ev_max_forwards g) = Inr mf" "\<forall>n. mf = Some n \<longrightarrow> n > 0"
    "a = (br_rnum r, leg_try env r cld body g' g ti x mf (cc_caller_name cc))"
    "ev_max_forwards g' = None"
proof -
  define cc1 where "cc1 = cc\<lparr>cc_huntstop_scodes := br_huntstop_scodes r\<rparr>"
  define cc2 where "cc2 = prepare_leg env r cc1"
  have at: "attempts cc1 = attempts cc" "attempts cc2 = attempts cc"
    using placeless_prepare_leg [of cc1 env r] by (simp_all add: cc1_def cc2_def placeless_def)
  have cn: "cc_caller_name (fold act xs c) = cc_caller_name c" for xs c
    by (induction xs arbitrary: c) (simp_all add: act_def)
  have name: "cc_caller_name cc2 = cc_caller_name cc" by (simp add: cc2_def cc1_def prepare_leg_def cn)
  have no: "attempts (fail_call env x y z cc1) = attempts cc" for x y z
    using placeless_fail_call [of cc1 env x y z] at by (simp add: placeless_def)
  from assms obtain cld nh where
    "placeOriginate env r cc = start_leg env r cld (originating_leg env r nh cc2)
       (if uses_rtpp r cc1 then try_body ti else None) (g, ti) cc2"
    by (auto simp: placeOriginate_def Let_def cc1_def [symmetric] cc2_def [symmetric] no at
        split: prod.splits bool.splits sum.splits option.splits if_splits) (simp add: cc1_def)+
  with assms(1) have st: "attempts (start_leg env r cld (originating_leg env r nh cc2)
      (if uses_rtpp r cc1 then try_body ti else None) (g, ti) cc2) = attempts cc2 @ [a]" by (simp add: at)
  show thesis
  proof (cases rule: start_leg_outcome [where env = env and r = r and cld = cld and et = "(g, ti)" and cc = cc2
        and u = "originating_leg env r nh cc2" and body = "if uses_rtpp r cc1 then try_body ti else None"])
    case panic
    with st show thesis by auto
  next
    case (hops c n)
    with st placeless_fail_call [of c env 483 "''Too Many Hops''" None] show thesis by (auto simp: placeless_def)
  next
    case (placed cid mf)
    with st have "a = (br_rnum r, leg_try env r cld (if uses_rtpp r cc1 then try_body ti else None)
        (newCCEventGeneric (cc_gseq cc2) (ce_now env) None [] []) g ti cid mf (cc_caller_name cc))"
      by (simp add: name)
    from that [OF _ _ this] placed show thesis by (simp add: newCCEventGeneric_def)
  qed
qed




section \<open>Properties\<close>

text \<open>
  Property C4. In every run of a call controller, whatever the legs, the RADIUS server and the group timers do,
  the calls it places use routes with strictly increasing numbers, all below the numbers of the routes still left,
  and bear pairwise different Call-IDs: no route is tried twice and none out of order.
\<close>

theorem routes_tried_once_in_order:
  assumes "reach b2b_init b2b_step (p, cc)"
  shows "sorted_wrt (<) (map fst (attempts cc) @ route_numbers cc)
    \<and> distinct (map (event_call_id \<circ> snd) (attempts cc)) \<and> None \<notin> set (map (event_call_id \<circ> snd) (attempts cc))"
proof -
  have "b2b_inv (p, cc)" by (rule b2b.reach_inv [OF assms])
  then have ord: "sorted_wrt (<) (map fst (attempts cc) @ route_numbers cc)"
    and pos: "\<forall>a \<in> set (attempts cc). 0 < fst a" and num: "\<forall>a \<in> set (attempts cc). numbered a"
    by (auto simp: b2b_inv_def in_order_def)
  have dist: "distinct (map fst (attempts cc))"
    using ord by (simp add: sorted_wrt_append strict_sorted_iff)
  have same: "fst a = fst b" if "a \<in> set (attempts cc)" "b \<in> set (attempts cc)"
      "event_call_id (snd a) = event_call_id (snd b)" for a b
  proof -
    from that(1,2) num have "numbered a" "numbered b" by simp_all
    then obtain x y where "event_call_id (snd a) = Some (x @ ''-b2b_'' @ Itoa (fst a))"
      and "event_call_id (snd b) = Some (y @ ''-b2b_'' @ Itoa (fst b))"
      unfolding numbered_def by (elim exE) 
    with that(3) have "x @ ''-b2b_'' @ Itoa (fst a) = y @ ''-b2b_'' @ Itoa (fst b)"
      by (simp only: option.inject)
    from call_id_number [OF this] have eq: "Itoa (fst a) = Itoa (fst b)" .
    from that(1,2) pos have "0 < fst a" "0 < fst b" by simp_all
    from Itoa_pos_inj [OF this eq] show ?thesis .
  qed
  have "inj_on (event_call_id \<circ> snd) (set (attempts cc))"
    using same dist by (metis (no_types, lifting) comp_apply distinct_map inj_on_def)
  then have "distinct (map (event_call_id \<circ> snd) (attempts cc))"
    using dist by (simp add: distinct_map)
  moreover have "event_call_id (snd a) \<noteq> None" if "a \<in> set (attempts cc)" for a
    using num that unfolding numbered_def by (metis option.distinct(1))
  then have "None \<notin> set (map (event_call_id \<circ> snd) (attempts cc))" by fastforce
  ultimately show ?thesis using ord by blast
qed

text \<open>
  Property C20. Each event of an originating leg either starts the next route or reaches the caller: after one event
  more than there are routes left, one of them has been passed on to the caller's leg. A caller
  is never left without an answer because all routes failed.
\<close>

theorem caller_told_when_routes_run_out:
  assumes "length (cc_routes cc) < length es" and "\<forall>(env, ev) \<in> set es. event_ok ev"
  shows "\<exists>(env, ev) \<in> set es. \<exists>ev'. relayed ev ev' \<and>
    C_event LegA ev' \<in> set (drop (length (cc_acts cc)) (cc_acts (leg_events es cc)))"
  by (rule leg_events_reach_caller [OF assms])

text \<open>
  A call that came with a Max-Forwards of at most one is not placed on any route; one that is
  placed carries a Max-Forwards one lower than the caller's, which is positive.
\<close>

theorem placed_call_loses_a_hop:
  assumes "cc_eTry cc = Some (g, ti)" and "ev_max_forwards g = Some h" and "snd (numeric_GetBody h) = Inr m"
  shows "attempts (placeOriginate env r cc) = attempts cc
    \<or> (1 < m \<and> (\<exists>ev. attempts (placeOriginate env r cc) = attempts cc @ [(br_rnum r, ev)]
         \<and> ev_max_forwards (generic ev) = Some (newSipNumericHF (m - 1))))"
proof (cases "attempts (placeOriginate env r cc) = attempts cc")
  case False
  then obtain ev where a: "attempts (placeOriginate env r cc) = attempts cc @ [(br_rnum r, ev)]"
    using places_placeOriginate [of r cc env] by (auto simp: places_def)
  obtain mf x cld body g' where
    "hops_left (ev_max_forwards g) = Inr mf" "\<forall>n. mf = Some n \<longrightarrow> n > 0"
    "ev = leg_try env r cld body g' g ti x mf (cc_caller_name cc)" by (rule placed_attempt [OF a assms(1)]) auto
  with assms(2,3) a show ?thesis by (auto simp: hops_left_def leg_try_def SetReason_def SetMaxForwards_def)
qed simp


text \<open>
  With the default limit of session time, -1 for no limit, every usable route ends up with a negative
  credit time, so the leg placed on it has no credit limit at all: the credit time the RADIUS server granted is lost.
\<close>

theorem default_limit_loses_credit:
  assumes "cf_Max_credit_time (ce_cf env) = -1" and "r \<in> set (usable_routes env credit cc n routing)"
  shows "br_credit_time r < 0 \<and> u_credit_time (originating_leg env' r nh cc') = None"
proof -
  have m: "seconds (-1) = - second" by (simp add: seconds_def wrap64_def second_def)
  have c: "br_credit_time (customize_route env credit cc k x) < 0" for k x
    using assms(1) by (auto simp: customize_route_def customize_def Let_def m second_def)
  from assms(2) have "br_credit_time r < 0"
    by (induction routing arbitrary: n) (auto simp: Let_def c split: if_splits)
  then show ?thesis by (simp add: originating_leg_def Let_def)
qed

text \<open>
  When a group of routes runs out of time the attempt under way is disconnected so that the first
  route of the next group can be tried. But the leg's disconnect event is passed to the caller, whatever routes are left: the
  next group is not tried and the call ends.
\<close>

theorem group_timeout_ends_the_call:
  assumes "cc_state cc = CCStateARComplete" and "early (ce_a_state env)" and "sorted_wrt (<) (route_numbers cc)"
    and "skipto \<in> set (route_numbers cc)"
  shows "cc_acts (group_expires env skipto cc) = cc_acts cc @ [C_disconnect LegO None]
    \<and> br_rnum (hd (cc_routes (group_expires env skipto cc))) = skipto
    \<and> RecvEvent_O env' (CCEventDisconnect g ra) (group_expires env skipto cc)
      = leg_event env' LegA (CCEventDisconnect g ra) (group_expires env skipto cc)"
proof -
  from assms(4) have ne: "cc_routes cc \<noteq> []" by (auto simp: route_numbers_def)
  from assms(4) obtain r where r: "r \<in> set (cc_routes cc)" "br_rnum r = skipto" by (auto simp: route_numbers_def)
  note le = sorted_bounds [OF assms(3) [unfolded route_numbers_def]]
  have d: "dropWhile (\<lambda>x. br_rnum x \<noteq> skipto) (cc_routes cc) \<noteq> []" using r by (auto simp: dropWhile_eq_Nil_conv)
  then obtain y ys where y: "dropWhile (\<lambda>x. br_rnum x \<noteq> skipto) (cc_routes cc) = y # ys" by (cases "dropWhile (\<lambda>x. br_rnum x \<noteq> skipto) (cc_routes cc)") auto
  have "br_rnum y = skipto" using hd_dropWhile [OF d] y by simp
  with y le [OF r(1)] r(2) ne assms(1,2) show ?thesis
    by (auto simp: group_expires_def RecvEvent_O_def hunts_def relay_event_def fixup_event_def)
qed

end
