(* ===== verification/B2b_CallMap.thy ===== *)
theory B2b_CallMap
  imports B2b_Config B2b_Properties Ua_Operations
begin

text \<open>
  The table of calls, src/cmd/b2bua_radius/call_map.go: what becomes of a request outside every dialog, the
  commands of the control socket, the signals and the periodic check, and the calls leaving the table when their
  controllers drop them. The listing walks a Go map, in an order that is an argument; the legs of a call are the
  user agents the controller holds.
\<close>

section \<open>State\<close>

record call_map =
  cm_ccmap :: "int \<Rightarrow> call_controller option"
  cm_cc_id :: int
  cm_gc_timeout :: duration
  cm_debug_mode :: bool
  cm_safe_restart :: bool

definition NewCallMap :: call_map where
  "NewCallMap = \<lparr>cm_ccmap = (\<lambda>_. None), cm_cc_id = 0, cm_gc_timeout = 60 * second, cm_debug_mode = False, cm_safe_restart = False\<rparr>"

definition put_call :: "int \<Rightarrow> call_controller \<Rightarrow> call_map \<Rightarrow> call_map" where
  "put_call i cc cm = cm\<lparr>cm_ccmap := (cm_ccmap cm)(i \<mapsto> cc)\<rparr>"

definition DropCC :: "int \<Rightarrow> call_map \<Rightarrow> call_map" where
  "DropCC i cm = cm\<lparr>cm_ccmap := (cm_ccmap cm)(i := None)\<rparr>"

section \<open>New dialogs\<close>

text \<open>Randomness, the global counters and the state of the nonce oracle are input.\<close>

record dialog_env =
  de_sip :: sippy_config
  de_cfg :: my_config
  de_proxy :: bool
  de_aes :: "string \<Rightarrow> string"
  de_iv :: string
  de_rnd :: string
  de_guid :: string
  de_gseq :: int
  de_sid :: int

datatype dialog_answer = D_response sip_response | D_call int | D_proxy | D_panic

definition guid_word :: "string \<Rightarrow> int" where
  "guid_word bs = (case bs of [a, b, c, d] \<Rightarrow>
      of_char a + of_char b * 256 + of_char c * 65536 + of_char d * 16777216 | _ \<Rightarrow> 0)"

definition NewSipCiscoGUID :: "string \<Rightarrow> string" where
  "NewSipCiscoGUID arr = go_join (CHR ''-'') (map (\<lambda>i. Itoa (guid_word (take 4 (drop (4 * i) arr)))) [0, 1, 2, 3])"

definition dialog_respond :: "int \<Rightarrow> string \<Rightarrow> sip_request \<Rightarrow> dialog_answer" where
  "dialog_respond scode reason req = (case GenResponse scode reason None None req of Inl e \<Rightarrow> D_panic | Inr rs \<Rightarrow> D_response rs)"

definition call_guid :: "dialog_env \<Rightarrow> sip_request \<Rightarrow> string" where
  "call_guid env req =
     (case m_sip_cisco_guid req of
        Some g \<Rightarrow> g
      | None \<Rightarrow> (case m_sip_h323_conf_id req of Some g \<Rightarrow> g | None \<Rightarrow> NewSipCiscoGUID (de_guid env)))"

definition dialog_challenge :: "dialog_env \<Rightarrow> sip_request \<Rightarrow> challenge_body option result" where
  "dialog_challenge env req =
     (if Auth_enable (de_cfg env) \<and> Digest_auth (de_cfg env) \<and> GetFirstHF ''authorization'' req = None then
        (case m_rtime req of
           None \<Rightarrow> Inl nil_panic
         | Some t \<Rightarrow> Inr (Some (newSipWWWAutenticateBody (de_aes env) (de_iv env) (de_rnd env)
                          (ma_address (url_Host (rq_ruri req))) [] (word_of_int (realt t)))))
      else Inr None)"

definition start_call :: "dialog_env \<Rightarrow> sip_request \<Rightarrow> string \<Rightarrow> host_port \<Rightarrow> challenge_body option \<Rightarrow> call_map \<Rightarrow> dialog_answer \<times> call_map" where
  "start_call env req remote_ip source ch cm =
     (let pass_headers = concat (map (\<lambda>h. GetHFs h req) (Pass_headers_arr (de_cfg env)));
          i = cm_cc_id cm;
          cc = NewCallController i remote_ip source pass_headers (call_guid env req) ch (de_gseq env) (de_sid env)
      in (D_call i, put_call i cc (cm\<lparr>cm_cc_id := wrap64 (i + 1)\<rparr>)))"

definition new_invite :: "dialog_env \<Rightarrow> sip_request \<Rightarrow> call_map \<Rightarrow> dialog_answer \<times> call_map" where
  "new_invite env req cm =
     (case (case m_vias req of [] \<Rightarrow> None | [v] \<Rightarrow> Some v | v # w # _ \<Rightarrow> Some w) of
        None \<Rightarrow> (D_panic, cm)
      | Some (Inl e) \<Rightarrow> (dialog_respond 500 ''Internal Server Error'' req, cm)
      | Some (Inr via) \<Rightarrow>
          (case m_source req of
             None \<Rightarrow> (D_panic, cm)
           | Some source \<Rightarrow>
               if \<not> checkIP (de_cfg env) (ma_address (hp_Host source)) then (dialog_respond 403 ''Forbidden'' req, cm)
               else (case dialog_challenge env req of
                  Inl e \<Rightarrow> (D_panic, cm)
                | Inr ch \<Rightarrow>
                    (case (ch, Digest_auth_only (de_cfg env)) of
                       (Some c, True) \<Rightarrow>
                         (case dialog_respond 401 ''Unauthorized'' req of
                            D_response rs \<Rightarrow> (D_response (AppendHeader (H_WWWAuthenticate (Inr c)) rs), cm)
                          | x \<Rightarrow> (x, cm))
                     | _ \<Rightarrow> start_call env req (ma_address (hp_Host (GetTAddr (de_sip env) via))) source ch cm))))"

definition OnNewDialog :: "dialog_env \<Rightarrow> sip_request \<Rightarrow> call_map \<Rightarrow> dialog_answer \<times> call_map" where
  "OnNewDialog env req cm =
     (case m_to req of
        None \<Rightarrow> (D_panic, cm)
      | Some (Inl e) \<Rightarrow> (dialog_respond 500 ''Internal Server Error'' req, cm)
      | Some (Inr to_body) \<Rightarrow>
          if GetTag to_body \<noteq> [] then (dialog_respond 481 ''Call Leg/Transaction Does Not Exist'' req, cm)
          else if rq_method req = ''INVITE'' then new_invite env req cm
          else if de_proxy env \<and> (rq_method req = ''REGISTER'' \<or> rq_method req = ''SUBSCRIBE'') then (D_proxy, cm)
          else if rq_method req = ''NOTIFY'' \<or> rq_method req = ''PING'' then (dialog_respond 200 ''OK'' req, cm)
          else (dialog_respond 501 ''Not Implemented'' req, cm))"

section \<open>Signals and the periodic check\<close>

definition discAll :: "call_map \<Rightarrow> call_map" where
  "discAll cm = cm\<lparr>cm_ccmap := map_option (cc_disconnect None) \<circ> cm_ccmap cm\<rparr>"

definition toggleDebug :: "call_map \<Rightarrow> call_map" where
  "toggleDebug cm = cm\<lparr>cm_debug_mode := \<not> cm_debug_mode cm\<rparr>"

definition safeRestart :: "call_map \<Rightarrow> call_map" where
  "safeRestart cm = cm\<lparr>cm_safe_restart := True\<rparr>"

datatype gc_outcome = G_runs | G_restarts | G_panics

text \<open>In debug mode the state of both legs is printed, and the originating one may not exist; the ids are those of the table.\<close>

definition GClector :: "int list \<Rightarrow> call_map \<Rightarrow> gc_outcome \<times> call_map" where
  "GClector ids cm =
     (if cm_debug_mode cm \<and> (\<exists>i \<in> set ids. case cm_ccmap cm i of Some cc \<Rightarrow> \<not> cc_uaO cc | None \<Rightarrow> False) then (G_panics, cm)
      else if cm_safe_restart cm then
        if ids = [] then (G_restarts, cm) else (G_runs, cm\<lparr>cm_gc_timeout := second\<rparr>)
      else (G_runs, cm))"

section \<open>Commands\<close>

fun CCState_String :: "cc_state \<Rightarrow> string" where
  "CCState_String CCStateIdle = ''Idle''"
| "CCState_String CCStateWaitRoute = ''WaitRoute''"
| "CCState_String CCStateARComplete = ''ARComplete''"
| "CCState_String CCStateConnected = ''Connected''"
| "CCState_String CCStateDead = ''Dead''"
| "CCState_String CCStateDisconnecting = ''Disconnecting''"

fun state_String :: "ua_state \<Rightarrow> string" where
  "state_String UasStateIdle = ''Idle(UAS)''"
| "state_String UasStateTrying = ''Trying(UAS)''"
| "state_String UasStateRinging = ''Ringing(UAS)''"
| "state_String (UasStateRingingRel r) = ''Ringing(UAS)''"
| "state_String (UasStatePreConnect p c) = ''PreConnect(UAS)''"
| "state_String UasStateUpdating = ''Updating(UAS)''"
| "state_String UacStateIdle = ''Idle(UAC)''"
| "state_String UacStateTrying = ''Trying(UAC)''"
| "state_String UacStateRinging = ''Ringing(UAC)''"
| "state_String UacStateUpdating = ''Updating(UAC)''"
| "state_String (UacStateCancelling d) = ''Cancelling(UAC)''"
| "state_String (UaStateConnected k) = ''Connected''"
| "state_String UaStateDisconnected = ''Disconnected''"
| "state_String UaStateFailed = ''Failed''"
| "state_String UaStateDead = ''Dead''"

definition GetStateName :: "ua \<Rightarrow> string" where
  "GetStateName u = (case u_state u of Some s \<Rightarrow> state_String s | None \<Rightarrow> ''None'')"

definition uri_user :: "address_hf option \<Rightarrow> string" where
  "uri_user h = (case h of Some (Inr a) \<Rightarrow> url_Username (adr_url a) | _ \<Rightarrow> [])"

definition GetCLD :: "ua \<Rightarrow> string" where
  "GetCLD u = uri_user (u_rUri u)"

definition GetCLI :: "ua \<Rightarrow> string" where
  "GetCLI u = uri_user (u_lUri u)"

definition words :: "string list \<Rightarrow> string" where
  "words ws = go_join (CHR '' '') ws"

definition call_line :: "(int \<Rightarrow> ua \<times> ua) \<Rightarrow> int \<Rightarrow> call_controller \<Rightarrow> string option" where
  "call_line legs i cc =
     (case (cc_cId cc, legs i) of
        (None, _) \<Rightarrow> None
      | (Some c, a, o') \<Rightarrow> Some (c @ '': '' @ CCState_String (cc_state cc) @ '' (''
          @ words [GetStateName a, HostPort_String (u_rAddr0 a), GetCLD a, GetCLI a] @ '' -> ''
          @ (if cc_uaO cc then words [GetStateName o', HostPort_String (u_rAddr0 o'), GetCLI o', GetCLD o'] @ '')'' @ [CHR 0x0A]
             else ''N/A)'' @ [CHR 0x0A])))"

text \<open>The replies, and None for the nil dereference of a call that has no Call-ID yet.\<close>

definition line :: "string \<Rightarrow> string" where
  "line s = s @ [CHR 0x0A]"

definition list_calls :: "int list \<Rightarrow> (int \<Rightarrow> ua \<times> ua) \<Rightarrow> call_map \<Rightarrow> string option" where
  "list_calls ids legs cm =
     (let ls = map (\<lambda>i. case cm_ccmap cm i of Some cc \<Rightarrow> call_line legs i cc | None \<Rightarrow> Some []) ids in
      if None \<in> set ls then None
      else Some (line ''In-memory calls:'' @ concat (map the ls) @ line (''Total: '' @ Itoa (int (length ids)))))"

definition has_call_id :: "string \<Rightarrow> call_controller option \<Rightarrow> bool" where
  "has_call_id c x = (case x of Some cc \<Rightarrow> cc_cId cc = Some c | None \<Rightarrow> False)"

definition disconnect_id :: "int list \<Rightarrow> string \<Rightarrow> call_map \<Rightarrow> (string \<times> call_map) option" where
  "disconnect_id ids c cm =
     (if \<exists>i \<in> set ids. (case cm_ccmap cm i of Some cc \<Rightarrow> cc_cId cc = None | None \<Rightarrow> False) then None
      else if \<exists>i \<in> set ids. has_call_id c (cm_ccmap cm i) then
        Some (line ''OK'', cm\<lparr>cm_ccmap := (\<lambda>i. if has_call_id c (cm_ccmap cm i) then map_option (cc_disconnect None) (cm_ccmap cm i)
                                            else cm_ccmap cm i)\<rparr>)
      else Some (line (''ERROR: no call with id of '' @ c @ '' has been found''), cm))"

text \<open>The report of the media relay that a session of it has timed out, a minute ago.\<close>

definition rtp_timeout :: "monotime \<Rightarrow> int \<Rightarrow> call_map \<Rightarrow> string \<times> call_map" where
  "rtp_timeout now idx cm =
     (case cm_ccmap cm idx of
        None \<Rightarrow> (line (''ERROR: no call with id of '' @ Itoa idx @ '' has been found''), cm)
      | Some cc \<Rightarrow>
          let ts = mt_Add now (- 60 * second) in
          (line ''OK'',
           if \<not> cc_proxied cc then cm
           else if cc_state cc = CCStateConnected then put_call idx (cc_disconnect (Some ts) cc) cm
           else if cc_state cc = CCStateARComplete then put_call idx (act (C_disconnect LegO (Some ts)) cc) cm
           else cm))"

datatype cli_reply = R_close | R_send string

definition RecvCommand ::
  "monotime \<Rightarrow> int list \<Rightarrow> (int \<Rightarrow> ua \<times> ua) \<Rightarrow> string \<Rightarrow> call_map \<Rightarrow> (cli_reply \<times> call_map) option" where
  "RecvCommand now ids legs data cm =
     (case go_split (CHR '' '') (TrimSpace data) of
        [] \<Rightarrow> None
      | c # args \<Rightarrow>
          (let cmd = ToLower c in
           if cmd = ''q'' then Some (R_close, cm)
           else if cmd = ''l'' then map_option (\<lambda>s. (R_send s, cm)) (list_calls ids legs cm)
           else if cmd = ''d'' then
             (case args of
                [a] \<Rightarrow> if a = ''*'' then Some (R_send (line ''OK''), discAll cm)
                       else map_option (\<lambda>(s, cm'). (R_send s, cm')) (disconnect_id ids a cm)
              | _ \<Rightarrow> Some (R_send (line ''ERROR: syntax error: d <call-id>''), cm))
           else if cmd = ''r'' then
             (case args of
                [a] \<Rightarrow> (case Atoi a of
                     None \<Rightarrow> Some (R_send (line (''ERROR: non-integer argument: '' @ a)), cm)
                   | Some idx \<Rightarrow> (case rtp_timeout now idx cm of (s, cm') \<Rightarrow> Some (R_send s, cm')))
              | _ \<Rightarrow> Some (R_send (line ''ERROR: syntax error: r [<id>]''), cm))
           else Some (R_send (line ''ERROR: unknown command''), cm)))"

section \<open>Runs of the table\<close>

text \<open>What a controller does is followed by leaving the table, when it drops its call.\<close>

definition drops :: "cc_action list \<Rightarrow> int list" where
  "drops acts = List.map_filter (\<lambda>x. case x of C_drop i \<Rightarrow> Some i | _ \<Rightarrow> None) acts"

definition run_call :: "int \<Rightarrow> (call_controller \<Rightarrow> call_controller) \<Rightarrow> call_map \<Rightarrow> call_map" where
  "run_call i f cm =
     (case cm_ccmap cm i of
        None \<Rightarrow> cm
      | Some cc \<Rightarrow> fold DropCC (drops (drop (length (cc_acts cc)) (cc_acts (f cc)))) (put_call i (f cc) cm))"

text \<open>The counter of calls is a 64-bit number: the runs are those of fewer than $2^{63}$ calls.\<close>

inductive map_step :: "call_map \<Rightarrow> call_map \<Rightarrow> bool" where
  dialog: "cm_cc_id cm < int64_max \<Longrightarrow> map_step cm (snd (OnNewDialog env req cm))"
| input: "map_step cm (run_call i (cc_step env n) cm)"
| answer: "map_step cm (run_call i (rDone_nolock env results) cm)"
| command: "RecvCommand now ids legs data cm = Some (r, cm') \<Longrightarrow> map_step cm cm'"
| check: "map_step cm (snd (GClector ids cm))"
| disconnect_all: "map_step cm (discAll cm)"
| debug: "map_step cm (toggleDebug cm)"
| restart: "map_step cm (safeRestart cm)"

section \<open>A controller touches its own call only\<close>

text \<open>What a controller does to itself: it keeps its number, its actions grow, and it drops no call but its own.\<close>

definition tame :: "call_controller \<Rightarrow> call_controller \<Rightarrow> bool" where
  "tame cc cc' \<longleftrightarrow> cc_id cc' = cc_id cc \<and> prefix (cc_acts cc) (cc_acts cc')
     \<and> (\<forall>i. C_drop i \<in> set (cc_acts cc') \<longrightarrow> C_drop i \<in> set (cc_acts cc) \<or> i = cc_id cc)"

lemma tame_refl [simp]: "tame cc cc"
  by (simp add: tame_def)

lemma tame_trans: "tame a b \<Longrightarrow> tame b c \<Longrightarrow> tame a c"
  by (auto simp: tame_def intro: prefix_order.trans)

lemma cc_id_act [simp]: "cc_id (act x cc) = cc_id cc"
  by (simp add: act_def)

lemma tame_act [simp]: "tame a cc \<Longrightarrow> \<forall>i. x \<noteq> C_drop i \<Longrightarrow> tame a (act x cc)"
  by (auto simp: tame_def intro: prefix_order.trans)

lemma tame_same [simp]:
  "tame a (cc\<lparr>cc_state := s\<rparr>) = tame a cc" "tame a (cc\<lparr>cc_routes := rs\<rparr>) = tame a cc"
  "tame a (cc\<lparr>cc_gseq := n\<rparr>) = tame a cc" "tame a (cc\<lparr>cc_auth_proc := b\<rparr>) = tame a cc"
  "tame a (cc\<lparr>cc_acctA := x\<rparr>) = tame a cc" "tame a (cc\<lparr>cc_acctO := b\<rparr>) = tame a cc"
  "tame a (cc\<lparr>cc_cmap := b\<rparr>) = tame a cc" "tame a (cc\<lparr>cc_rtp_proxy_session := b\<rparr>) = tame a cc"
  "tame a (cc\<lparr>cc_huntstop_scodes := ns\<rparr>) = tame a cc" "tame a (cc\<lparr>cc_uaO := b\<rparr>) = tame a cc"
  "tame a (cc\<lparr>cc_proxied := b\<rparr>) = tame a cc" "tame a (cc\<lparr>cc_username := u\<rparr>) = tame a cc"
  "tame a (cc\<lparr>cc_cId := c\<rparr>) = tame a cc" "tame a (cc\<lparr>cc_cli := u\<rparr>) = tame a cc"
  "tame a (cc\<lparr>cc_cld := u\<rparr>) = tame a cc" "tame a (cc\<lparr>cc_caller_name := u\<rparr>) = tame a cc"
  "tame a (cc\<lparr>cc_eTry := et\<rparr>) = tame a cc" "tame a (cc\<lparr>cc_sdp_session := ss\<rparr>) = tame a cc"
  by (simp_all add: tame_def)

lemma tame_callback: "tame cc (callback env c cc)"
  by (cases "(env, c, cc)" rule: callback.cases)
    (simp_all add: tame_def aConn_def oConn_def aFail_def aDisc_def oDisc_def aDead_def oDead_def act_if_def Let_def
      split: option.splits)

lemma tame_fold: "(\<And>x cc. x \<in> set xs \<Longrightarrow> tame cc (f x cc)) \<Longrightarrow> tame cc (fold f xs cc)"
  by (induction xs arbitrary: cc) (auto intro: tame_trans)

lemma tame_leg_event [simp]: "tame a cc \<Longrightarrow> tame a (leg_event env l ev cc)"
  unfolding leg_event_def by (rule tame_trans [OF _ tame_fold]) (simp_all add: tame_callback)

lemma tame_send_fail [simp]: "tame a cc \<Longrightarrow> tame a (send_fail env scode reason rtime hs cc)"
  by (simp add: send_fail_def cc_generic_event_def)

lemma tame_fail_call [simp]: "tame a cc \<Longrightarrow> tame a (fail_call env scode reason rtime cc)"
  by (simp add: fail_call_def)

lemma tame_fail_at [simp]: "tame a cc \<Longrightarrow> tame a (fail_at env scode reason t cc)"
  by (simp add: fail_at_def split: option.splits)

lemma tame_auth_failed [simp]: "tame a cc \<Longrightarrow> tame a (auth_failed env cc)"
  by (simp add: auth_failed_def split: option.splits)

lemma tame_start_leg [simp]: "tame a cc \<Longrightarrow> tame a (start_leg env r cld u body et cc)"
  by (simp add: start_leg_def cc_generic_event_def Let_def split: option.split sum.split)

lemma tame_prepare_leg [simp]:
  assumes "tame a cc"
  shows "tame a (prepare_leg env r cc)"
proof -
  have "\<forall>i. x \<noteq> C_drop i" if "x \<in> set (group_timer r)" for x
    using that by (auto simp: group_timer_def split: option.splits prod.splits)
  then show ?thesis unfolding prepare_leg_def using assms by (intro tame_trans [OF _ tame_fold]) simp_all
qed

lemma tame_placeOriginate [simp]: "tame a cc \<Longrightarrow> tame a (placeOriginate env r cc)"
  by (simp add: placeOriginate_def Let_def split: prod.split bool.split sum.split option.split)

lemma tame_next_route [simp]: "tame a cc \<Longrightarrow> tame a (next_route env cc)"
  by (simp add: next_route_def split: list.split)

lemma tame_start_hunt [simp]: "tame a cc \<Longrightarrow> tame a (start_hunt env avps routing cc)"
  by (simp add: start_hunt_def Let_def)

lemma tame_auth_accepted [simp]: "tame a cc \<Longrightarrow> tame a (auth_accepted env avps cc)"
  by (simp add: auth_accepted_def Let_def act_if_def split: sum.split)

lemma tame_rDone [simp]: "tame a cc \<Longrightarrow> tame a (rDone_nolock env results cc)"
  by (simp add: rDone_nolock_def split: option.split)

lemma tame_authorise [simp]: "tame a cc \<Longrightarrow> tame a (authorise env ti t cc)"
  by (simp add: authorise_def request_auth_def split: sum.split option.split)

lemma tame_strip_nat: "strip_nat env ti t cc = (cc', t', ti') \<Longrightarrow> tame a cc \<Longrightarrow> tame a cc'"
  by (auto simp: strip_nat_def renew_event_def Let_def split: if_splits sum.splits)

lemma tame_translate_in: "translate_in env ti t cc = (b, cc', t') \<Longrightarrow> tame a cc \<Longrightarrow> tame a cc'"
  by (auto simp: translate_in_def renew_event_def split: if_splits sum.splits prod.splits bool.splits)

lemma tame_new_call [simp]: "tame a cc \<Longrightarrow> tame a (new_call env g ti cc)"
  unfolding new_call_def Let_def
  by (auto split: sum.split prod.splits bool.splits option.split dest!: tame_strip_nat [where a = a] tame_translate_in [where a = a])

lemma tame_relay_event [simp]: "tame a cc \<Longrightarrow> tame a (relay_event env ev cc)"
  by (auto simp: relay_event_def fixup_event_def bind_result_Inr_iff split: sum.split option.splits)

lemma tame_RecvEvent [simp]: "tame a cc \<Longrightarrow> tame a (cc_RecvEvent env l ev cc)"
  by (cases l; cases ev)
    (simp_all add: cc_RecvEvent_def RecvEvent_A_def RecvEvent_O_def cc_generic_event_def)

lemma tame_group_expires [simp]: "tame a cc \<Longrightarrow> tame a (group_expires env n cc)"
  by (simp add: group_expires_def split: list.split)

lemma tame_cc_step: "tame cc (cc_step env i cc)"
  by (cases i) (simp_all add: tame_callback cc_disconnect_def)

end
