(* ===== verification/B2b_Radius.thy ===== *)
theory B2b_Radius
  imports B2b_Properties
begin

text \<open>
  The RADIUS client of src/cmd/b2bua_radius: the attributes it writes to the external program and the
  answers it reads back (radius_client.go), the worker that feeds that program (external_command.go), and
  what becomes of an answer in the call controller. The external program itself is not part of the
  repository; its output is an argument of the definitions.
\<close>

section \<open>Attributes\<close>

definition avpair_names :: "string list" where
  "avpair_names = [''call-id'', ''h323-session-protocol'', ''h323-ivr-out'', ''h323-incoming-conf-id'', ''release-source'',
     ''alert-timepoint'', ''provisional-timepoint'']"

definition cisco_vsa_names :: "string list" where
  "cisco_vsa_names = [''h323-remote-address'', ''h323-conf-id'', ''h323-setup-time'', ''h323-call-origin'', ''h323-call-type'',
     ''h323-connect-time'', ''h323-disconnect-time'', ''h323-disconnect-cause'', ''h323-voice-quality'', ''h323-credit-time'',
     ''h323-return-code'', ''h323-redirect-number'', ''h323-preferred-lang'', ''h323-billing-model'', ''h323-currency'']"

definition coded_pair :: "avp \<Rightarrow> avp" where
  "coded_pair attr = (case attr of (n, v) \<Rightarrow>
     if n \<in> set avpair_names then (''Cisco-AVPair'', n @ ''='' @ v)
     else if n \<in> set cisco_vsa_names then (n, n @ ''='' @ v)
     else (n, v))"

definition prepare_attributes :: "string \<Rightarrow> avp list \<Rightarrow> string list" where
  "prepare_attributes typ attributes = typ # map (\<lambda>attr. case coded_pair attr of (a, v) \<Rightarrow> a @ ''=\"'' @ v @ ''\"'') attributes"

section \<open>Answers\<close>

definition trim_apostrophes :: "string \<Rightarrow> string" where
  "trim_apostrophes s = rev (dropWhile (\<lambda>c. c = CHR 0x27) (rev (dropWhile (\<lambda>c. c = CHR 0x27) s)))"

definition decoded_pair :: "string \<Rightarrow> string \<Rightarrow> avp" where
  "decoded_pair attr val =
     (if attr \<in> set cisco_vsa_names \<or> attr = ''Cisco-AVPair'' then
        (case cut_at ''='' val of Some (a, v) \<Rightarrow> (a, v) | None \<Rightarrow> (attr, val))
      else if take (length attr + 1) val = attr @ ''='' then (attr, drop (length attr + 1) val)
      else (attr, val))"

definition result_line :: "string \<Rightarrow> avp option" where
  "result_line r = (case cut_at '' = '' r of None \<Rightarrow> None | Some (attr, val) \<Rightarrow> Some (decoded_pair attr (trim_apostrophes val)))"

text \<open>The last line is left out of the attributes, and nothing sets the result code.\<close>

definition process_result :: "string list \<Rightarrow> radius_result" where
  "process_result results = \<lparr>rr_Rcode = 0, rr_Avps = (if results = [] then [] else List.map_filter result_line (butlast results))\<rparr>"

section \<open>The worker\<close>

record work_item =
  wi_data :: "string list"
  wi_cancelled :: bool

definition Cancel_work :: "work_item \<Rightarrow> work_item" where
  "Cancel_work wi = wi\<lparr>wi_cancelled := True\<rparr>"

definition batch :: "string list \<Rightarrow> string" where
  "batch data = go_join (CHR 0x0A) data @ [CHR 0x0A, CHR 0x0A]"

text \<open>
  The buffered reader of the standard library on the program's output: a line without its end, if it ends within the
  buffer, or a buffer full of a longer one with the flag that says that the line goes on; a carriage return at the end of a
  full buffer is left for the next call. None is the end of the output.
\<close>

definition bufio_size :: nat where
  "bufio_size = 4096"

definition without_cr :: "string \<Rightarrow> string" where
  "without_cr l = (if l \<noteq> [] \<and> last l = CHR 0x0D then butlast l else l)"

definition ReadLine :: "string \<Rightarrow> (string \<times> bool \<times> string) option" where
  "ReadLine bs =
     (if bs = [] then None
      else if CHR 0x0A \<in> set (take bufio_size bs) then
        (let l = takeWhile (\<lambda>c. c \<noteq> CHR 0x0A) bs in Some (without_cr l, False, drop (Suc (length l)) bs))
      else if length bs < bufio_size then Some (bs, False, [])
      else (let l = take bufio_size bs in
            if last l = CHR 0x0D then Some (butlast l, True, drop (bufio_size - 1) bs) else Some (l, True, drop bufio_size bs)))"

lemma ReadLine_shorter: "ReadLine bs = Some (l, p, rest) \<Longrightarrow> length rest < length bs"
  by (cases bs) (auto simp: ReadLine_def bufio_size_def Let_def split: if_splits)

text \<open>A piece that is not the last one of its line is lost, because the line it was appended to is a new variable for each piece.\<close>

function read_result :: "string \<Rightarrow> string list \<times> string" where
  "read_result bs =
     (case ReadLine bs of
        None \<Rightarrow> ([], [])
      | Some (buf, is_prefix, rest) \<Rightarrow>
          if is_prefix then read_result rest
          else (let s = TrimSpace buf in
                if s = [] then ([], rest)
                else (case read_result rest of (res, rest') \<Rightarrow> (s # res, rest'))))"
  by pat_completeness auto
termination
  by (relation "measure length") (auto dest: ReadLine_shorter)

declare read_result.simps [simp del]

text \<open>The queue's items in order: what is written to the program, and the result each callback gets.\<close>

fun worker_run :: "work_item list \<Rightarrow> string \<Rightarrow> string list \<times> string list option list" where
  "worker_run [] stdout = ([], [])"
| "worker_run (wi # wis) stdout =
     (if wi_cancelled wi then (case worker_run wis stdout of (w, rs) \<Rightarrow> (w, None # rs))
      else (case read_result stdout of (res, rest) \<Rightarrow>
              (case worker_run wis rest of (w, rs) \<Rightarrow> (batch (wi_data wi) # w, Some res # rs))))"

section \<open>Reading back what was written\<close>

definition reply_line :: "avp \<Rightarrow> string" where
  "reply_line attr = (case coded_pair attr of (a, v) \<Rightarrow> a @ '' = '' @ [CHR 0x27] @ v @ [CHR 0x27])"

definition no_apostrophe_ends :: "string \<Rightarrow> bool" where
  "no_apostrophe_ends v \<longleftrightarrow> v = [] \<or> hd v \<noteq> CHR 0x27 \<and> last v \<noteq> CHR 0x27"

definition avp_ok :: "avp \<Rightarrow> bool" where
  "avp_ok attr = (case attr of (n, v) \<Rightarrow> CHR '' '' \<notin> set n \<and> CHR ''='' \<notin> set n \<and> no_apostrophe_ends n \<and> no_apostrophe_ends v
     \<and> n \<noteq> ''Cisco-AVPair'' \<and> take (length n + 1) v \<noteq> n @ ''='')"

lemma cut_at_first:
  assumes "d \<noteq> []" "hd d \<notin> set a"
  shows "cut_at d (a @ d @ b) = Some (a, b)"
  using assms(2)
proof (induction a)
  case Nil
  with assms(1) show ?case by (cases d) auto
next
  case (Cons c a)
  with assms(1) have "take (length d) (c # a @ d @ b) \<noteq> d" by (cases d) auto
  with Cons show ?case by simp
qed

lemma trim_apostrophes_ends:
  assumes "no_apostrophe_ends v"
  shows "trim_apostrophes ([CHR 0x27] @ v @ [CHR 0x27]) = v"
proof (cases v)
  case (Cons c cs)
  then have "hd v \<noteq> CHR 0x27" "hd (rev v) \<noteq> CHR 0x27" "v \<noteq> []"
    using assms by (auto simp: no_apostrophe_ends_def hd_rev simp del: rev.simps)
  then have "dropWhile (\<lambda>c. c = CHR 0x27) (v @ [CHR 0x27]) = v @ [CHR 0x27]"
    "dropWhile (\<lambda>c. c = CHR 0x27) (rev v) = rev v"
    by (simp_all add: dropWhile_eq_self_iff)
  then show ?thesis by (simp add: trim_apostrophes_def)
qed (simp add: trim_apostrophes_def)

lemma coded_pair_decoded:
  assumes "avp_ok (n, v)" "coded_pair (n, v) = (a, w)"
  shows "decoded_pair a w = (n, v) \<and> no_apostrophe_ends w \<and> CHR '' '' \<notin> set a"
proof -
  have cut: "cut_at ''='' (n @ ''='' @ v) = Some (n, v)" using assms(1) by (intro cut_at_first) (auto simp: avp_ok_def)
  have ends: "no_apostrophe_ends (n @ ''='' @ v)" using assms(1)
    by (cases n) (auto simp: avp_ok_def no_apostrophe_ends_def)
  consider "n \<in> set avpair_names" "a = ''Cisco-AVPair''" "w = n @ ''='' @ v"
    | "n \<in> set cisco_vsa_names" "a = n" "w = n @ ''='' @ v"
    | "n \<notin> set cisco_vsa_names" "a = n" "w = v"
    using assms(2) by (auto simp: coded_pair_def split: if_splits)
  then show ?thesis
  proof cases
    case 1
    then show ?thesis using cut ends by (simp add: decoded_pair_def)
  next
    case 2
    then show ?thesis using cut ends assms(1) by (simp add: decoded_pair_def avp_ok_def)
  next
    case 3
    then show ?thesis using assms(1) by (auto simp: decoded_pair_def avp_ok_def)
  qed
qed

lemma result_line_reply: "avp_ok attr \<Longrightarrow> result_line (reply_line attr) = Some attr"
proof -
  assume ok: "avp_ok attr"
  obtain n v a w where p: "attr = (n, v)" "coded_pair attr = (a, w)" by (cases attr, cases "coded_pair attr")
  note d = coded_pair_decoded [OF ok [unfolded p(1)] p(2) [unfolded p(1)]]
  have "cut_at '' = '' (a @ '' = '' @ ([CHR 0x27] @ w @ [CHR 0x27])) = Some (a, [CHR 0x27] @ w @ [CHR 0x27])"
    using d by (intro cut_at_first) auto
  then have cut: "cut_at '' = '' (reply_line attr) = Some (a, [CHR 0x27] @ w @ [CHR 0x27])" by (simp add: reply_line_def p(2))
  show ?thesis unfolding result_line_def cut using d trim_apostrophes_ends [of w] p(1) by simp
qed

text \<open>
  Attributes written the way the RADIUS client codes them, vendor attributes and attribute-value
  pairs included, and sent back in the program's answer format are read back as the attributes they were,
  in their order.
\<close>

theorem radius_attributes_roundtrip:
  assumes "list_all avp_ok avps"
  shows "rr_Avps (process_result (map reply_line avps @ [code])) = avps"
proof -
  have "List.map_filter result_line (map reply_line avps) = avps"
    using assms by (induction avps) (simp_all add: List.map_filter_def result_line_reply)
  then show ?thesis by (simp add: process_result_def butlast_append)
qed

section \<open>Every answer is an acceptance\<close>

text \<open>
  The result code the external program reports in the last line of its answer never reaches the
  call controller: answers that differ in that line only are the same result, and every answer, even none at all
  because the program has died, is treated as an acceptance, so that a call the RADIUS server rejects is
  set up like an accepted one.
\<close>

theorem radius_rejection_is_lost:
  "process_result (lines @ [code]) = process_result (lines @ [code'])
   \<and> rDone_nolock env (Some (process_result answer)) cc = auth_accepted env (rr_Avps (process_result answer)) cc"
  by (simp add: process_result_def rDone_nolock_def)

section \<open>Answers reach their requests\<close>

text \<open>An answer the reader can hand over whole: no blank line in it, and every line with its end fits into the reader's buffer.\<close>

definition answer_ok :: "string list \<Rightarrow> bool" where
  "answer_ok ls \<longleftrightarrow> list_all (\<lambda>l. CHR 0x0A \<notin> set l \<and> length l < bufio_size \<and> TrimSpace (without_cr l) \<noteq> []) ls"

definition answer_bytes :: "string list \<Rightarrow> string" where
  "answer_bytes ls = concat (map (\<lambda>l. l @ [CHR 0x0A]) ls) @ [CHR 0x0A]"

lemma ReadLine_line:
  assumes "CHR 0x0A \<notin> set l" "length l < bufio_size"
  shows "ReadLine (l @ CHR 0x0A # rest) = Some (without_cr l, False, rest)"
proof -
  have "takeWhile (\<lambda>c. c \<noteq> CHR 0x0A) (l @ CHR 0x0A # rest) = l" using assms(1) by (subst takeWhile_append2) auto
  moreover have "CHR 0x0A \<in> set (take bufio_size (l @ CHR 0x0A # rest))"
    using assms(2) by (cases "bufio_size - length l") auto
  ultimately show ?thesis by (simp add: ReadLine_def Let_def)
qed

lemma read_result_answer: "answer_ok ls \<Longrightarrow> read_result (answer_bytes ls @ rest) = (map (TrimSpace \<circ> without_cr) ls, rest)"
proof (induction ls)
  case Nil
  have "ReadLine (CHR 0x0A # rest) = Some ([], False, rest)" using ReadLine_line [of "[]" rest] by (simp add: bufio_size_def without_cr_def)
  then show ?case by (subst read_result.simps) (simp add: answer_bytes_def TrimSpace_def)
next
  case (Cons l ls)
  have "ReadLine (answer_bytes (l # ls) @ rest) = Some (without_cr l, False, answer_bytes ls @ rest)"
    using ReadLine_line [of l "answer_bytes ls @ rest"] Cons.prems by (simp add: answer_bytes_def answer_ok_def)
  with Cons show ?case by (subst read_result.simps) (simp add: answer_ok_def Let_def)
qed

text \<open>A longer line reaches the result without its first buffer full.\<close>

lemma long_line_loses_its_start:
  assumes "CHR 0x0A \<notin> set l" "bufio_size \<le> length l" "l ! (bufio_size - 1) \<noteq> CHR 0x0D"
  shows "read_result (l @ CHR 0x0A # rest) = read_result (drop bufio_size l @ CHR 0x0A # rest)"
proof -
  have ne: "take bufio_size l \<noteq> []" using assms(2) by (auto simp: bufio_size_def)
  then have n: "last (take bufio_size l) = l ! (bufio_size - 1)"
    using assms(2) unfolding last_conv_nth [OF ne] by (simp add: bufio_size_def)
  have "CHR 0x0A \<notin> set (take bufio_size l)" using assms(1) by (meson in_set_takeD)
  then have "ReadLine (l @ CHR 0x0A # rest) = Some (take bufio_size l, True, drop bufio_size l @ CHR 0x0A # rest)"
    using assms(2,3) ne n by (simp add: ReadLine_def Let_def)
  then show ?thesis by (subst read_result.simps) simp
qed

text \<open>
  Property C33. When the external program answers every batch with lines of at most 4095 bytes, none of them blank, and an empty line,
  each request that was not cancelled before a worker took it is written once, in order, and its callback gets the lines of the answer
  to that request, each without the blanks around it; a cancelled request is not written and its callback not called,
  and takes no one else's answer.
\<close>

theorem worker_answers_match:
  assumes "list_all (\<lambda>wi. answer_ok (answer (wi_data wi))) wis"
  shows "worker_run wis (concat (map (\<lambda>wi. if wi_cancelled wi then [] else answer_bytes (answer (wi_data wi))) wis))
    = (map (batch \<circ> wi_data) (filter (Not \<circ> wi_cancelled) wis),
       map (\<lambda>wi. if wi_cancelled wi then None else Some (map (TrimSpace \<circ> without_cr) (answer (wi_data wi)))) wis)"
  using assms by (induction wis) (auto simp: read_result_answer)

end
