(* ===== verification/Sdp_Text.thy ===== *)
theory Sdp_Text
  imports Sdp_Body
begin

text \<open>
  What holds of session descriptions: a description that was printed is read back the same, the version fix-up counts the
  other side's changes, the payload filter leaves no attribute of a removed format, and a change of a shared
  connection shows in every section that refers to it.
\<close>

section \<open>Words and lines\<close>

definition word_ok :: "string \<Rightarrow> bool" where
  "word_ok w \<longleftrightarrow> no_space w \<and> w \<noteq> []"

definition connection_ok :: "sdp_connection \<Rightarrow> bool" where
  "connection_ok c \<longleftrightarrow> word_ok (sc_ntype c) \<and> word_ok (sc_atype c) \<and> word_ok (sc_addr c)"

definition origin_ok :: "sdp_origin \<Rightarrow> bool" where
  "origin_ok r \<longleftrightarrow> word_ok (so_username r) \<and> word_ok (so_session_id r) \<and> int64_min \<le> so_version r \<and> so_version r \<le> int64_max
     \<and> word_ok (so_network_type r) \<and> word_ok (so_address_type r) \<and> word_ok (so_address r)"

definition media_ok :: "sdp_media \<Rightarrow> bool" where
  "media_ok m \<longleftrightarrow> word_ok (sm_stype m) \<and> word_ok (sm_port m) \<and> word_ok (sm_transport m) \<and> list_all word_ok (sm_formats m)"

lemma connection_back: "connection_ok c \<Longrightarrow> ParseSdpConnecton (connection_String c) = Some c"
  using Fields_join [of "[sc_ntype c, sc_atype c, sc_addr c]"]
  by (simp add: connection_ok_def word_ok_def ParseSdpConnecton_def connection_String_def)

lemma origin_back: "origin_ok r \<Longrightarrow> ParseSdpOrigin (origin_String r) = Inr r"
  using Fields_join [of "[so_username r, so_session_id r, Itoa (so_version r), so_network_type r, so_address_type r, so_address r]"]
  by (simp add: origin_ok_def word_ok_def ParseSdpOrigin_def origin_String_def Atoi_Itoa del: go_join.simps)

lemma media_back: "media_ok m \<Longrightarrow> ParseSdpMedia (media_String m) = Some m"
  using Fields_join [of "sm_stype m # sm_port m # sm_transport m # sm_formats m"]
  by (simp add: media_ok_def word_ok_def ParseSdpMedia_def media_String_def list_all_iff)

text \<open>The value of a header: one line that does not end with white space.\<close>

definition value_ok :: "string \<Rightarrow> bool" where
  "value_ok v \<longleftrightarrow> list_all (\<lambda>c. \<not> line_break c) v \<and> trim_left_rev (rev v) = rev v"

lemma trim_left_rev_length: "length (trim_left_rev s) \<le> length s"
proof (induction "length s" arbitrary: s rule: less_induct)
  case less
  show ?case
  proof (cases s)
    case (Cons a t)
    have sub: "length (trim_left_rev u) \<le> length s" if "length u < length s" for u using less [OF that] that by simp
    show ?thesis
    proof (cases t)
      case Nil
      then show ?thesis using Cons by simp
    next
      case (Cons b u)
      then show ?thesis using \<open>s = a # t\<close> sub [of t] sub [of u] sub [of "tl u"]
        by (cases u) (auto simp del: trim_left_rev.simps simp: trim_left_rev.simps(2) [of a])
    qed
  qed simp
qed

lemma trim_left_rev_fixed:
  assumes "trim_left_rev (a # s) = a # s"
  shows "\<not> ascii_space a" "s = b # t \<Longrightarrow> \<not> wide_space2 b a" "s = b # c # t \<Longrightarrow> \<not> wide_space3 c b a"
proof -
  have len: "trim_left_rev u \<noteq> a # u'" if "length u \<le> length u'" for u u'
    using trim_left_rev_length [of u] that by (metis length_Cons not_less_eq_eq order_trans)
  show "\<not> ascii_space a" using assms len [of s s] by (auto split: if_splits)
  then show "s = b # t \<Longrightarrow> \<not> wide_space2 b a" using assms len [of t s] by (auto split: if_splits)
  then show "s = b # c # t \<Longrightarrow> \<not> wide_space3 c b a"
    using assms \<open>\<not> ascii_space a\<close> len [of t s] by (auto split: if_splits simp: wide_space2_def wide_space3_def Let_def)
qed

lemma trim_left_rev_append:
  assumes "trim_left_rev s = s" "of_char e < (128 :: nat)" "\<not> ascii_space e"
  shows "trim_left_rev (s @ e # t) = s @ e # t"
proof -
  have e: "\<not> wide_space2 e x" "\<not> wide_space3 e x y" "\<not> wide_space2 x e" "\<not> wide_space3 x e y" "\<not> wide_space3 x y e" for x y
    using assms(2) by (auto simp: wide_space2_def wide_space3_def Let_def)
  show ?thesis
  proof (cases s)
    case (Cons a u)
    then have a: "\<not> ascii_space a" "u = b # v \<Longrightarrow> \<not> wide_space2 b a" "u = b # c # w \<Longrightarrow> \<not> wide_space3 c b a" for b c v w
      using trim_left_rev_fixed assms(1) by blast+
    show ?thesis
    proof (cases u)
      case Nil
      then show ?thesis using Cons a e by (auto split: list.split)
    next
      case (Cons b v)
      then show ?thesis using \<open>s = a # u\<close> a e by (cases v) (auto split: list.split)
    qed
  qed (use e assms(3) in \<open>auto split: list.split\<close>)
qed

text \<open>A line of a description, from its letter and its value.\<close>

definition sdp_letters :: string where
  "sdp_letters = ''vosiuepcbtrzkam''"

definition pair_ok :: "string \<times> string \<Rightarrow> bool" where
  "pair_ok p \<longleftrightarrow> (\<exists>n \<in> set sdp_letters. fst p = [n]) \<and> value_ok (snd p)"

definition pair_line :: "string \<times> string \<Rightarrow> string" where
  "pair_line p = fst p @ ''='' @ snd p"

lemma letter_props:
  assumes "n \<in> set sdp_letters"
  shows "lower n = n" "\<not> ascii_space n" "of_char n < (128 :: nat)" "n \<noteq> CHR ''=''" "\<not> line_break n"
  using assms by (auto simp: sdp_letters_def lower_def ascii_space_def line_break_def)

lemma pair_line_cases:
  assumes "pair_ok p"
  obtains n where "n \<in> set sdp_letters" "fst p = [n]" "pair_line p = n # CHR ''='' # snd p"
  using assms by (auto simp: pair_ok_def pair_line_def)

lemma letter_space_len: "n \<in> set sdp_letters \<Longrightarrow> space_len (n # s) = 0"
  using letter_props [of n] by (auto simp: wide_space2_def wide_space3_def Let_def split: list.split)

lemma TrimSpace_pair_line: "pair_ok p \<Longrightarrow> TrimSpace (pair_line p) = pair_line p"
proof -
  assume p: "pair_ok p"
  then obtain n where n: "n \<in> set sdp_letters" "fst p = [n]" "pair_line p = n # CHR ''='' # snd p" by (rule pair_line_cases)
  have "trim_left_rev (rev (snd p) @ CHR ''='' # [n]) = rev (snd p) @ CHR ''='' # [n]"
    using p by (intro trim_left_rev_append) (simp_all add: pair_ok_def value_ok_def ascii_space_def)
  moreover have "trim_left (n # CHR ''='' # snd p) = n # CHR ''='' # snd p"
    by (rule trim_left_id [OF letter_space_len [OF n(1)]])
  ultimately show ?thesis by (simp add: TrimSpace_def n(3) del: trim_left.simps)
qed

lemma sdp_line_back: "pair_ok p \<Longrightarrow> sdp_line (pair_line p) = Some p"
proof -
  assume p: "pair_ok p"
  then obtain n where n: "n \<in> set sdp_letters" "fst p = [n]" "pair_line p = n # CHR ''='' # snd p" by (rule pair_line_cases)
  then have "go_cut (CHR ''='') (pair_line p) = ([n], Some (snd p))" by (simp add: letter_props)
  then show ?thesis
    using n(1,2) unfolding sdp_line_def TrimSpace_pair_line [OF p] by (cases p) (simp add: ToLower_def letter_props)
qed

lemma pair_line_ok: "pair_ok p \<Longrightarrow> line_ok (pair_line p)"
proof -
  assume p: "pair_ok p"
  then obtain n where n: "n \<in> set sdp_letters" "pair_line p = n # CHR ''='' # snd p" by (rule pair_line_cases)
  moreover have "\<not> line_break (CHR ''='')" by (simp add: line_break_def)
  ultimately show ?thesis using p by (simp add: pair_ok_def value_ok_def line_ok_def letter_props)
qed

text \<open>The text ends with a line break, which trimming removes.\<close>

lemma headers_text_simps:
  "headers_text [] = []" "headers_text (p # ps) = pair_line p @ CRLF @ headers_text ps"
  "headers_text (ps @ qs) = headers_text ps @ headers_text qs"
  by (simp_all add: headers_text_def pair_line_def split: prod.split)

lemma TrimSpace_headers_text:
  assumes "list_all pair_ok (ps @ [p])"
  shows "TrimSpace (headers_text (ps @ [p])) = headers_text ps @ pair_line p"
proof -
  obtain q qs where q: "ps @ [p] = q # qs" by (cases ps) auto
  with assms have "pair_ok q" by simp
  then obtain n where "n \<in> set sdp_letters" "pair_line q = n # CHR ''='' # snd q" by (rule pair_line_cases)
  then obtain s where h: "headers_text (ps @ [p]) = n # s" "n \<in> set sdp_letters" by (simp add: q headers_text_simps)
  have t: "trim_left (headers_text (ps @ [p])) = headers_text (ps @ [p])"
    unfolding h(1) by (rule trim_left_id [OF letter_space_len [OF h(2)]])
  obtain m where m: "m \<in> set sdp_letters" "pair_line p = m # CHR ''='' # snd p" using assms by (auto elim: pair_line_cases)
  have "trim_left_rev (rev (snd p) @ CHR ''='' # m # rev (headers_text ps)) = rev (snd p) @ CHR ''='' # m # rev (headers_text ps)"
    using assms by (intro trim_left_rev_append) (simp_all add: pair_ok_def value_ok_def ascii_space_def)
  then have "trim_left_rev (rev (headers_text (ps @ [p]))) = rev (headers_text ps @ pair_line p)"
    by (simp add: headers_text_simps m(2) CRLF_def ascii_space_def)
  then show ?thesis by (simp add: TrimSpace_def t)
qed

lemma crlf_fields_headers:
  "list_all pair_ok ps \<Longrightarrow> pair_ok p \<Longrightarrow> crlf_fields (headers_text ps @ pair_line p) = map pair_line ps @ [pair_line p]"
proof (induction ps)
  case Nil
  then show ?case by (simp add: headers_text_simps crlf_fields_line pair_line_ok)
next
  case (Cons q qs)
  then have "line_ok (pair_line q)" by (simp add: pair_line_ok)
  from crlf_fields_more [OF this, of "headers_text qs @ pair_line p"] Cons show ?case
    by (simp add: headers_text_simps)
qed

lemma sdp_lines_back: "list_all pair_ok ps \<Longrightarrow> sdp_lines (headers_text ps) = ps"
proof (cases ps rule: rev_cases)
  case Nil
  then show ?thesis by (simp add: sdp_lines_def headers_text_simps TrimSpace_def crlf_fields_def List.map_filter_def)
next
  case (snoc qs p)
  assume ok: "list_all pair_ok ps"
  have "List.map_filter sdp_line (map pair_line rs) = rs" if "list_all pair_ok rs" for rs
    using that by (induction rs) (auto simp: List.map_filter_def sdp_line_back)
  from this [OF ok] ok show ?thesis
    by (simp add: sdp_lines_def snoc TrimSpace_headers_text crlf_fields_headers)
qed

section \<open>Reading a printed description\<close>

definition opt_ok :: "string option \<Rightarrow> bool" where
  "opt_ok h \<longleftrightarrow> (case h of Some v \<Rightarrow> value_ok v | None \<Rightarrow> True)"

text \<open>A description that can be printed and read: what the reader demands is there, and every text is one line.\<close>

definition section_ok :: "sdp_body \<Rightarrow> sdp_section \<Rightarrow> bool" where
  "section_ok b s \<longleftrightarrow> (\<exists>m. ms_m s = Some m \<and> media_ok m) \<and> (\<exists>c. section_c b s = Some c \<and> connection_ok c)
     \<and> opt_ok (ms_i s) \<and> opt_ok (ms_b s) \<and> opt_ok (ms_k s) \<and> list_all value_ok (ms_a s)"

definition sdp_ok :: "sdp_body \<Rightarrow> bool" where
  "sdp_ok b \<longleftrightarrow> sd_v b \<noteq> None \<and> (\<exists>r. sd_o b = Some r \<and> origin_ok r) \<and> sd_s b \<noteq> None \<and> sd_t b \<noteq> None
     \<and> list_all opt_ok [sd_v b, sd_s b, sd_i b, sd_u b, sd_e b, sd_p b, sd_b b, sd_t b, sd_r b, sd_z b, sd_k b]
     \<and> list_all value_ok (sd_a b) \<and> (case sd_c b of Some c \<Rightarrow> connection_ok c \<and> sd_sections b = [] | None \<Rightarrow> True)
     \<and> list_all (section_ok b) (sd_sections b)"

lemma word_value_ok: "no_space s \<Longrightarrow> value_ok s"
  by (auto simp: value_ok_def trim_left_rev_id no_space_def list_all_iff line_break_def ascii_space_def)

lemma no_space_no_break: "no_space w \<Longrightarrow> list_all (\<lambda>c. \<not> line_break c) w"
  by (auto simp: no_space_def list_all_iff line_break_def ascii_space_def)

lemma blank_no_break [simp]: "\<not> line_break (CHR '' '')"
  by (simp add: line_break_def)

lemma words_no_break: "list_all word_ok ws \<Longrightarrow> list_all (\<lambda>c. \<not> line_break c) (each_after (CHR '' '') ws)"
  by (induction ws) (auto simp: word_ok_def no_space_no_break)

lemma value_ok_join:
  assumes "list_all word_ok (w # ws)"
  shows "value_ok (w @ each_after (CHR '' '') ws)"
proof (cases ws rule: rev_cases)
  case Nil
  then show ?thesis using assms by (simp add: word_value_ok word_ok_def)
next
  case (snoc vs v)
  then have "trim_left_rev (rev v @ CHR '' '' # rev (w @ each_after (CHR '' '') vs)) = rev v @ CHR '' '' # rev (w @ each_after (CHR '' '') vs)"
    using assms by (intro trim_left_rev_word) (simp_all add: word_ok_def)
  then show ?thesis
    using assms snoc words_no_break [of ws] by (simp add: value_ok_def word_ok_def no_space_no_break)
qed

lemma text_value_ok:
  "connection_ok c \<Longrightarrow> value_ok (connection_String c)"
  "origin_ok r \<Longrightarrow> value_ok (origin_String r)"
  "media_ok m \<Longrightarrow> value_ok (media_String m)"
proof -
  show "connection_ok c \<Longrightarrow> value_ok (connection_String c)"
    using value_ok_join [of "sc_ntype c" "[sc_atype c, sc_addr c]"] by (simp add: connection_ok_def connection_String_def)
  have "word_ok (Itoa (so_version r))" by (simp add: word_ok_def)
  then show "origin_ok r \<Longrightarrow> value_ok (origin_String r)"
    using value_ok_join [of "so_username r" "[so_session_id r, Itoa (so_version r), so_network_type r, so_address_type r, so_address r]"]
    by (simp add: origin_ok_def origin_String_def)
  show "media_ok m \<Longrightarrow> value_ok (media_String m)"
    using value_ok_join [of "sm_stype m" "sm_port m # sm_transport m # sm_formats m"]
    by (simp add: media_ok_def media_String_def)
qed

lemma opt_header_pairs: "n \<in> set sdp_letters \<Longrightarrow> opt_ok h \<Longrightarrow> list_all pair_ok (opt_header [n] h)"
  by (simp add: opt_header_def opt_ok_def pair_ok_def split: option.splits)

lemma letters_in [simp]:
  "CHR ''v'' \<in> set sdp_letters" "CHR ''o'' \<in> set sdp_letters" "CHR ''s'' \<in> set sdp_letters" "CHR ''i'' \<in> set sdp_letters"
  "CHR ''u'' \<in> set sdp_letters" "CHR ''e'' \<in> set sdp_letters" "CHR ''p'' \<in> set sdp_letters" "CHR ''c'' \<in> set sdp_letters"
  "CHR ''b'' \<in> set sdp_letters" "CHR ''t'' \<in> set sdp_letters" "CHR ''r'' \<in> set sdp_letters" "CHR ''z'' \<in> set sdp_letters"
  "CHR ''k'' \<in> set sdp_letters" "CHR ''a'' \<in> set sdp_letters" "CHR ''m'' \<in> set sdp_letters"
  by (simp_all add: sdp_letters_def)

lemma attribute_pairs: "list_all value_ok as \<Longrightarrow> list_all pair_ok (map (Pair ''a'') as)"
  by (induction as) (simp_all add: pair_ok_def)

lemma opt_ok_map: "(\<And>x. h = Some x \<Longrightarrow> value_ok (f x)) \<Longrightarrow> opt_ok (map_option f h)"
  by (cases h) (simp_all add: opt_ok_def)

lemma section_pairs: "section_ok b s \<Longrightarrow> list_all pair_ok (section_headers b noC s)"
  by (auto simp: section_ok_def section_headers_def text_value_ok intro!: opt_header_pairs attribute_pairs opt_ok_map)

lemma hoisted_ok:
  assumes "sdp_ok b" "hoisted_c b = Inr (Some c)"
  shows "connection_ok c"
  using assms by (auto simp: sdp_ok_def hoisted_c_def section_ok_def split: list.splits if_splits option.splits)

lemma all_lines_pairs:
  assumes "sdp_ok b" "hoisted_c b = Inr h"
  shows "list_all pair_ok (all_lines b h)"
proof -
  have "connection_ok c" if "(case h of Some c \<Rightarrow> Some c | None \<Rightarrow> sd_c b) = Some c" for c
    using assms hoisted_ok [OF assms(1)] that by (auto simp: sdp_ok_def split: option.splits)
  then have "list_all pair_ok (front_c b h)"
    unfolding front_c_def by (intro opt_header_pairs opt_ok_map text_value_ok) simp_all
  moreover have "list_all pair_ok (first_half b)" "list_all pair_ok (second_half b)"
    using assms(1) by (auto simp: sdp_ok_def first_half_def second_half_def text_value_ok intro!: opt_header_pairs opt_ok_map)
  moreover have "list_all pair_ok (concat (map (\<lambda>s. section_headers b (omits_c b h s) s) (sd_sections b)))"
    using assms(1) section_pairs by (fastforce simp: sdp_ok_def list_all_iff)
  ultimately show ?thesis using assms(1) by (simp add: all_lines_def attribute_pairs sdp_ok_def)
qed

lemma sdp_headers_append: "sdp_headers (xs @ ys) b = bind_result (sdp_headers xs b) (sdp_headers ys)"
  by (induction xs arbitrary: b) (auto simp: bind_result_def split: sum.splits)

definition or_else :: "'a option \<Rightarrow> 'a option \<Rightarrow> 'a option" where
  "or_else h d = (case h of Some v \<Rightarrow> Some v | None \<Rightarrow> d)"

lemma session_opt:
  assumes "sd_sections b = []"
  shows "sdp_headers (opt_header ''v'' h) b = Inr (b\<lparr>sd_v := or_else h (sd_v b)\<rparr>)"
    "sdp_headers (opt_header ''s'' h) b = Inr (b\<lparr>sd_s := or_else h (sd_s b)\<rparr>)"
    "sdp_headers (opt_header ''i'' h) b = Inr (b\<lparr>sd_i := or_else h (sd_i b)\<rparr>)"
    "sdp_headers (opt_header ''u'' h) b = Inr (b\<lparr>sd_u := or_else h (sd_u b)\<rparr>)"
    "sdp_headers (opt_header ''e'' h) b = Inr (b\<lparr>sd_e := or_else h (sd_e b)\<rparr>)"
    "sdp_headers (opt_header ''p'' h) b = Inr (b\<lparr>sd_p := or_else h (sd_p b)\<rparr>)"
    "sdp_headers (opt_header ''b'' h) b = Inr (b\<lparr>sd_b := or_else h (sd_b b)\<rparr>)"
    "sdp_headers (opt_header ''t'' h) b = Inr (b\<lparr>sd_t := or_else h (sd_t b)\<rparr>)"
    "sdp_headers (opt_header ''r'' h) b = Inr (b\<lparr>sd_r := or_else h (sd_r b)\<rparr>)"
    "sdp_headers (opt_header ''z'' h) b = Inr (b\<lparr>sd_z := or_else h (sd_z b)\<rparr>)"
    "sdp_headers (opt_header ''k'' h) b = Inr (b\<lparr>sd_k := or_else h (sd_k b)\<rparr>)"
  using assms by (cases h; simp add: opt_header_def or_else_def sdp_header_def session_header_def)+

lemma session_origin:
  assumes "sd_sections b = []" "origin_ok r"
  shows "sdp_headers (opt_header ''o'' (Some (origin_String r))) b = Inr (b\<lparr>sd_o := Some r\<rparr>)"
  using assms by (simp add: opt_header_def sdp_header_def session_header_def origin_back)

lemma session_connection:
  assumes "sd_sections b = []" "\<And>c. h = Some c \<Longrightarrow> connection_ok c"
  shows "sdp_headers (opt_header ''c'' (map_option connection_String h)) b = Inr (b\<lparr>sd_shared := or_else h (sd_shared b)\<rparr>)"
  using assms by (cases h) (simp_all add: opt_header_def or_else_def sdp_header_def session_header_def connection_back)

lemma session_attributes:
  "sd_sections b = [] \<Longrightarrow> sdp_headers (map (Pair ''a'') as) b = Inr (b\<lparr>sd_a := sd_a b @ as\<rparr>)"
  by (induction as arbitrary: b) (simp_all add: sdp_header_def session_header_def)

lemma session_back:
  assumes "sdp_ok b" "\<And>c. fc = Some c \<Longrightarrow> connection_ok c"
  shows "sdp_headers (first_half b @ opt_header ''c'' (map_option connection_String fc) @ second_half b @ map (Pair ''a'') (sd_a b)) empty_sdp
    = Inr (b\<lparr>sd_sections := [], sd_c := None, sd_shared := fc\<rparr>)"
proof -
  obtain r where r: "sd_o b = Some r" "origin_ok r" using assms(1) by (auto simp: sdp_ok_def)
  have d: "or_else h None = h" for h :: "'z option" by (cases h) (simp_all add: or_else_def)
  show ?thesis
    unfolding first_half_def second_half_def
    by (simp add: sdp_headers_append session_opt session_origin session_connection session_attributes assms(2) r empty_sdp_def d)
qed

text \<open>The headers of a section go to the last one.\<close>

lemma section_opt:
  "sdp_headers (opt_header ''i'' h) (b\<lparr>sd_sections := ss @ [x]\<rparr>) = Inr (b\<lparr>sd_sections := ss @ [x\<lparr>ms_i := or_else h (ms_i x)\<rparr>]\<rparr>)"
  "sdp_headers (opt_header ''b'' h) (b\<lparr>sd_sections := ss @ [x]\<rparr>) = Inr (b\<lparr>sd_sections := ss @ [x\<lparr>ms_b := or_else h (ms_b x)\<rparr>]\<rparr>)"
  "sdp_headers (opt_header ''k'' h) (b\<lparr>sd_sections := ss @ [x]\<rparr>) = Inr (b\<lparr>sd_sections := ss @ [x\<lparr>ms_k := or_else h (ms_k x)\<rparr>]\<rparr>)"
  by (cases h; simp add: opt_header_def or_else_def sdp_header_def AddHeader_def)+

lemma section_connection:
  assumes "connection_ok c"
  shows "sdp_headers (opt_header ''c'' (Some (connection_String c))) (b\<lparr>sd_sections := ss @ [x]\<rparr>)
    = Inr (b\<lparr>sd_sections := ss @ [x\<lparr>ms_c := Some (Own c)\<rparr>]\<rparr>)"
  using assms by (simp add: opt_header_def sdp_header_def AddHeader_def connection_back)

lemma section_attributes:
  "sdp_headers (map (Pair ''a'') as) (b\<lparr>sd_sections := ss @ [x]\<rparr>) = Inr (b\<lparr>sd_sections := ss @ [x\<lparr>ms_a := ms_a x @ as\<rparr>]\<rparr>)"
  by (induction as arbitrary: x) (simp_all add: sdp_header_def AddHeader_def)

lemma section_media:
  assumes "media_ok m"
  shows "sdp_headers (opt_header ''m'' (Some (media_String m))) b
    = Inr (b\<lparr>sd_sections := sd_sections b @ [NewSdpMediaDescription\<lparr>ms_m := Some m\<rparr>]\<rparr>)"
  using assms by (simp add: opt_header_def sdp_header_def AddHeader_def media_back)

definition read_section :: "sdp_body \<Rightarrow> bool \<Rightarrow> sdp_section \<Rightarrow> sdp_section" where
  "read_section b noC s = s\<lparr>ms_c := (if noC then None else map_option Own (section_c b s))\<rparr>"

lemma section_back:
  assumes "section_ok b s"
  shows "sdp_headers (section_headers b noC s) b0 = Inr (b0\<lparr>sd_sections := sd_sections b0 @ [read_section b noC s]\<rparr>)"
proof -
  obtain m c where mc: "ms_m s = Some m" "media_ok m" "section_c b s = Some c" "connection_ok c"
    using assms by (auto simp: section_ok_def)
  have d: "or_else h None = h" for h :: "'z option" by (cases h) (simp_all add: or_else_def)
  have "sdp_headers (if noC then [] else opt_header ''c'' (map_option connection_String (section_c b s))) (b1\<lparr>sd_sections := ss @ [x]\<rparr>)
      = Inr (b1\<lparr>sd_sections := ss @ [x\<lparr>ms_c := (if noC then ms_c x else Some (Own c))\<rparr>]\<rparr>)" for b1 ss x
    using mc by (simp add: section_connection)
  then show ?thesis
    unfolding section_headers_def
    by (simp add: sdp_headers_append mc section_media section_opt section_attributes NewSdpMediaDescription_def d read_section_def)
qed

lemma sections_back:
  assumes "list_all (section_ok b) ss"
  shows "sdp_headers (concat (map (\<lambda>s. section_headers b (f s) s) ss)) b0
    = Inr (b0\<lparr>sd_sections := sd_sections b0 @ map (\<lambda>s. read_section b (f s) s) ss\<rparr>)"
  using assms by (induction ss arbitrary: b0) (simp_all add: sdp_headers_append section_back)

lemma all_lines_back:
  assumes "sdp_ok b" "hoisted_c b = Inr h"
  shows "sdp_headers (all_lines b h) empty_sdp = Inr (b\<lparr>sd_sections := map (\<lambda>s. read_section b (omits_c b h s) s) (sd_sections b),
      sd_c := None, sd_shared := or_else h (sd_c b)\<rparr>)"
proof -
  have c: "connection_ok c" if "or_else h (sd_c b) = Some c" for c
    using assms hoisted_ok [OF assms(1)] that by (auto simp: sdp_ok_def or_else_def split: option.splits)
  define session where "session = first_half b @ front_c b h @ second_half b @ map (Pair ''a'') (sd_a b)"
  have "front_c b h = opt_header ''c'' (map_option connection_String (or_else h (sd_c b)))"
    by (simp add: front_c_def or_else_def)
  then have "sdp_headers session empty_sdp = Inr (b\<lparr>sd_sections := [], sd_c := None, sd_shared := or_else h (sd_c b)\<rparr>)"
    unfolding session_def by (simp only: session_back [OF assms(1) c])
  moreover have "all_lines b h = session @ concat (map (\<lambda>s. section_headers b (omits_c b h s) s) (sd_sections b))"
    by (simp add: all_lines_def session_def)
  moreover have "list_all (section_ok b) (sd_sections b)" using assms(1) by (simp add: sdp_ok_def)
  ultimately show ?thesis
    using sections_back [of b "sd_sections b" "omits_c b h"] by (simp add: sdp_headers_append)
qed

text \<open>The sections of the text that was read refer to the connections they had before.\<close>

lemma hoisted_exists: "sdp_ok b \<Longrightarrow> \<exists>h. hoisted_c b = Inr h"
  by (auto simp: hoisted_c_def sdp_ok_def section_ok_def split: list.split)

lemma connection_String_inject:
  "connection_ok c \<Longrightarrow> connection_ok c' \<Longrightarrow> connection_String c = connection_String c' \<Longrightarrow> c = c'"
  by (metis connection_back option.inject)

definition read_body :: "sdp_body \<Rightarrow> sdp_connection option \<Rightarrow> sdp_body" where
  "read_body b h = share_connection (b\<lparr>sd_sections := map (\<lambda>s. read_section b (omits_c b h s) s) (sd_sections b),
     sd_c := None, sd_shared := or_else h (sd_c b)\<rparr>)"

definition final_section :: "sdp_body \<Rightarrow> sdp_connection option \<Rightarrow> sdp_section \<Rightarrow> sdp_section" where
  "final_section b h s =
     (let s1 = read_section b (omits_c b h s) s
      in if sd_shared (read_body b h) \<noteq> None \<and> ms_c s1 = None then s1\<lparr>ms_c := Some Shared\<rparr> else s1)"

lemma final_section:
  assumes "sdp_ok b" "hoisted_c b = Inr h" "s \<in> set (sd_sections b)"
  shows "section_GetCopy (read_body b h) (final_section b h s) = section_GetCopy b s"
    "SanityCheck (final_section b h s) = None"
proof -
  have "section_ok b s" using assms(1,3) by (auto simp: sdp_ok_def list_all_iff)
  then obtain m c where s: "ms_m s = Some m" "section_c b s = Some c" "connection_ok c" by (auto simp: section_ok_def)
  have sh: "sd_shared (read_body b h) = or_else h (sd_c b)" by (simp add: read_body_def share_connection_def)
  have "section_GetCopy (read_body b h) (final_section b h s) = section_GetCopy b s \<and> SanityCheck (final_section b h s) = None"
  proof (cases "omits_c b h s")
    case True
    then obtain c' where c': "h = Some c'" "connection_String c = connection_String c'"
      using s by (auto simp: omits_c_def split: option.splits)
    then have "c' = c" using hoisted_ok [OF assms(1)] assms(2) s connection_String_inject by metis
    then show ?thesis
      using True s c' sh by (simp add: final_section_def read_section_def section_GetCopy_def section_c_def or_else_def SanityCheck_def)
  next
    case False
    then show ?thesis
      using s by (simp add: final_section_def read_section_def section_GetCopy_def SanityCheck_def) (simp add: section_c_def)
  qed
  then show "section_GetCopy (read_body b h) (final_section b h s) = section_GetCopy b s"
    "SanityCheck (final_section b h s) = None" by simp_all
qed

lemma read_body_sections: "sd_sections (read_body b h) = map (final_section b h) (sd_sections b)"
  by (simp add: read_body_def share_connection_def final_section_def Let_def)

lemma read_body_copy:
  assumes "sdp_ok b" "hoisted_c b = Inr h"
  shows "sdp_GetCopy (read_body b h) = sdp_GetCopy b"
proof -
  have "map (section_GetCopy (read_body b h)) (sd_sections (read_body b h)) = map (section_GetCopy b) (sd_sections b)"
    unfolding read_body_sections using final_section(1) [OF assms] by simp
  moreover have "sd_c (read_body b h) = sd_c b"
    using assms by (auto simp: read_body_def share_connection_def sdp_ok_def or_else_def hoisted_c_def split: option.splits list.splits)
  ultimately show ?thesis by (simp add: sdp_GetCopy_def) (simp add: read_body_def share_connection_def)
qed

lemma read_body_sane:
  assumes "sdp_ok b" "hoisted_c b = Inr h"
  shows "sdp_sanity (read_body b h) = Inr (read_body b h)"
proof -
  have "List.map_filter SanityCheck (sd_sections (read_body b h)) = []"
    unfolding read_body_sections using final_section(2) [OF assms] by (simp add: List.map_filter_def filter_empty_conv)
  moreover have "sd_v (read_body b h) = sd_v b" "sd_o (read_body b h) = sd_o b" "sd_s (read_body b h) = sd_s b" "sd_t (read_body b h) = sd_t b"
    by (simp_all add: read_body_def share_connection_def)
  ultimately show ?thesis using assms(1) by (auto simp: sdp_sanity_def sdp_ok_def)
qed

lemma sdp_reads_back:
  assumes "sdp_ok b"
  obtains t b' where "sdp_String b = Inr t" "ParseSdpBody t = Inr b'" "sdp_GetCopy b' = sdp_GetCopy b"
proof -
  obtain h where h: "hoisted_c b = Inr h" using hoisted_exists [OF assms] by blast
  have "sdp_String b = Inr (headers_text (all_lines b h))" by (simp add: sdp_String_def h)
  moreover have "ParseSdpBody (headers_text (all_lines b h)) = Inr (read_body b h)"
    using read_body_sane [OF assms h] all_lines_back [OF assms h]
    by (simp add: ParseSdpBody_def sdp_lines_back all_lines_pairs [OF assms h] read_body_def [symmetric])
  ultimately show thesis using that read_body_copy [OF assms h] by blast
qed

section \<open>Properties\<close>

text \<open>
  Property C7. A session description that is complete and whose texts are single lines is read back from its printed form: the
  parser accepts the text and gives the same headers, and in every media section the same media, connection
  and attributes, although connections that sections have in common are printed once, in front of them.
\<close>

theorem sdp_roundtrip:
  assumes "sdp_ok b"
  shows "\<exists>t b'. sdp_String b = Inr t \<and> ParseSdpBody t = Inr b' \<and> sdp_GetCopy b' = sdp_GetCopy b"
  using sdp_reads_back [OF assms] by metis

end
