(* ===== verification/B2b_Calls.thy ===== *)
theory B2b_Calls
  imports B2b_CallMap B2b_Radius Sdp_Text
begin

text \<open>
  The table of calls over all runs: fresh numbers, calls that keep out of each other's way, refused requests
  that leave nothing behind, and the commands. Two settings that do not work: digest authentication as the only
  method, and the allowed payload types in a configuration file.
\<close>

section \<open>The invariant of the table\<close>

interpretation ccmap: keyed_table cm_ccmap put_call DropCC
  by unfold_locales (simp_all add: put_call_def DropCC_def)

definition map_init :: "call_map \<Rightarrow> bool" where
  "map_init cm \<longleftrightarrow> cm = NewCallMap"

text \<open>A call of the table carries its key as its number and has dropped no other call.\<close>

definition call_ok :: "int \<Rightarrow> call_controller \<Rightarrow> bool" where
  "call_ok i cc \<longleftrightarrow> cc_id cc = i \<and> (\<forall>j. C_drop j \<in> set (cc_acts cc) \<longrightarrow> j = i)"

definition map_inv :: "call_map \<Rightarrow> bool" where
  "map_inv cm \<longleftrightarrow> 0 \<le> cm_cc_id cm \<and> (\<forall>i cc. cm_ccmap cm i = Some cc \<longrightarrow> call_ok i cc \<and> 0 \<le> i \<and> i < cm_cc_id cm)"

lemma map_invD: "map_inv cm \<Longrightarrow> cm_ccmap cm i = Some cc \<Longrightarrow> call_ok i cc \<and> 0 \<le> i \<and> i < cm_cc_id cm"
  by (simp add: map_inv_def)

lemma call_ok_tame: "call_ok i cc \<Longrightarrow> tame cc cc' \<Longrightarrow> call_ok i cc'"
  by (auto simp: call_ok_def tame_def)

lemma drops_own:
  assumes "call_ok i cc"
  shows "set (drops (drop n (cc_acts cc))) \<subseteq> {i}"
proof -
  have "C_drop j \<in> set xs" if "j \<in> set (drops xs)" for j xs
    using that by (induction xs) (auto simp: drops_def List.map_filter_def split: if_splits cc_action.splits)
  with assms show ?thesis by (auto simp: call_ok_def dest!: in_set_dropD)
qed

lemma DropCC_fold:
  "cm_ccmap (fold DropCC is cm) j = (if j \<in> set is then None else cm_ccmap cm j)" "cm_cc_id (fold DropCC is cm) = cm_cc_id cm"
  by (induction "is" arbitrary: cm) (auto simp: DropCC_def)

text \<open>What one call does leaves the others alone.\<close>

lemma run_call_other:
  assumes "map_inv cm" and "\<And>cc. tame cc (f cc)" and "j \<noteq> i"
  shows "cm_ccmap (run_call i f cm) j = cm_ccmap cm j"
proof (cases "cm_ccmap cm i")
  case (Some cc)
  then have "call_ok i (f cc)" using map_invD [OF assms(1)] call_ok_tame assms(2) by blast
  from drops_own [OF this] assms(3) show ?thesis by (auto simp: run_call_def Some DropCC_fold put_call_def)
qed (simp add: run_call_def)

lemma run_call_inv:
  assumes "map_inv cm" and "\<And>cc. tame cc (f cc)"
  shows "map_inv (run_call i f cm)"
proof (cases "cm_ccmap cm i")
  case (Some cc)
  then have "call_ok i (f cc)" "0 \<le> i \<and> i < cm_cc_id cm"
    using map_invD [OF assms(1) Some] call_ok_tame [OF _ assms(2)] by blast+
  moreover have "0 \<le> cm_cc_id cm" using assms(1) by (simp add: map_inv_def)
  ultimately show ?thesis
    using map_invD [OF assms(1)] unfolding map_inv_def run_call_def Some
    by (auto simp: DropCC_fold put_call_def split: if_splits)
qed (simp add: run_call_def assms)

lemma map_inv_update:
  assumes "map_inv cm" and "\<And>i cc'. cm_ccmap cm' i = Some cc' \<Longrightarrow> \<exists>cc. cm_ccmap cm i = Some cc \<and> tame cc cc'" and "cm_cc_id cm' = cm_cc_id cm"
  shows "map_inv cm'"
  using assms call_ok_tame unfolding map_inv_def by metis

section \<open>New dialogs\<close>

lemma OnNewDialog_cases:
  obtains "snd (OnNewDialog env req cm) = cm" "\<forall>i. fst (OnNewDialog env req cm) \<noteq> D_call i"
  | rip src ch where "OnNewDialog env req cm = start_call env req rip src ch cm" "m_source req = Some src"
      "checkIP (de_cfg env) (ma_address (hp_Host src))" "rq_method req = ''INVITE''"
proof -
  have r: "\<forall>i. dialog_respond s re req \<noteq> D_call i" for s re by (auto simp: dialog_respond_def split: sum.splits)
  have n: "snd (new_invite env req cm) = cm \<and> (\<forall>i. fst (new_invite env req cm) \<noteq> D_call i)
     \<or> (\<exists>rip src ch. new_invite env req cm = start_call env req rip src ch cm \<and> m_source req = Some src
          \<and> checkIP (de_cfg env) (ma_address (hp_Host src)))"
    using r by (auto simp: new_invite_def dialog_respond_def split: list.split option.split sum.split bool.split)
  show thesis
  proof (cases "\<exists>a. m_to req = Some (Inr a) \<and> GetTag a = [] \<and> rq_method req = ''INVITE''")
    case True
    then have "OnNewDialog env req cm = new_invite env req cm" by (auto simp: OnNewDialog_def)
    with n True that show thesis by metis
  next
    case False
    then have "snd (OnNewDialog env req cm) = cm" "\<forall>i. fst (OnNewDialog env req cm) \<noteq> D_call i"
      using r by (auto simp: OnNewDialog_def split: option.split sum.split)
    with that(1) show thesis by blast
  qed
qed

lemma start_call_inv:
  assumes "map_inv cm" and "cm_cc_id cm < int64_max"
  shows "map_inv (snd (start_call env req rip src ch cm))"
proof -
  have n: "0 \<le> cm_cc_id cm" using assms(1) by (simp add: map_inv_def)
  then have w: "wrap64 (cm_cc_id cm + 1) = cm_cc_id cm + 1" using assms(2) by (simp add: wrap64_def int64_max_def)
  have "call_ok (cm_cc_id cm) (NewCallController (cm_cc_id cm) a b c d e f g)" for a b c d e f g
    by (simp add: call_ok_def NewCallController_def)
  then show ?thesis using n w map_invD [OF assms(1)]
    by (fastforce simp: start_call_def Let_def put_call_def map_inv_def)
qed

lemma RecvCommand_calls:
  assumes "RecvCommand now ids legs data cm = Some (r, cm')"
  shows "cm_cc_id cm' = cm_cc_id cm \<and> (\<forall>i cc'. cm_ccmap cm' i = Some cc' \<longrightarrow> (\<exists>cc. cm_ccmap cm i = Some cc \<and> tame cc cc'))"
proof -
  have d: "tame cc (cc_disconnect t cc)" for t cc by (simp add: cc_disconnect_def)
  have all: "cm_cc_id (discAll cm) = cm_cc_id cm"
    "cm_ccmap (discAll cm) i = Some cc' \<Longrightarrow> \<exists>cc. cm_ccmap cm i = Some cc \<and> tame cc cc'" for i cc'
    using d by (auto simp: discAll_def)
  have one: "cm_cc_id cm1 = cm_cc_id cm \<and> (\<forall>i cc'. cm_ccmap cm1 i = Some cc' \<longrightarrow> (\<exists>cc. cm_ccmap cm i = Some cc \<and> tame cc cc'))"
    if "disconnect_id ids a cm = Some (s, cm1)" for a s cm1
    using that d by (auto simp: disconnect_id_def split: if_splits)
  have rtp: "cm_cc_id (snd (rtp_timeout now idx cm)) = cm_cc_id cm"
    "cm_ccmap (snd (rtp_timeout now idx cm)) i = Some cc' \<Longrightarrow> \<exists>cc. cm_ccmap cm i = Some cc \<and> tame cc cc'" for idx i cc'
    using d by (auto simp: rtp_timeout_def put_call_def Let_def split: option.splits if_splits)
  obtain c args where "go_split (CHR '' '') (TrimSpace data) = c # args"
    using go_split_not_Nil by (metis list.exhaust)
  with assms show ?thesis
    using all one rtp unfolding RecvCommand_def
    by (auto simp: Let_def split: if_splits list.splits option.splits prod.splits) (metis snd_conv)+
qed

lemma map_step_inv:
  assumes "map_inv cm" and "map_step cm cm'"
  shows "map_inv cm'"
  using assms(2)
proof cases
  case (dialog env req)
  then show ?thesis
    using assms(1) start_call_inv [OF assms(1)] by (cases rule: OnNewDialog_cases [of env req cm]) auto
next
  case (input i env n)
  then show ?thesis using run_call_inv [OF assms(1) tame_cc_step] by simp
next
  case (answer i env results)
  then show ?thesis using run_call_inv [OF assms(1)] by simp
next
  case (command now ids legs data r)
  from RecvCommand_calls [OF command] show ?thesis by (intro map_inv_update [OF assms(1)]) auto
next
  case (check ids)
  then show ?thesis using assms(1) by (auto simp: GClector_def map_inv_def)
next
  case disconnect_all
  then show ?thesis by (intro map_inv_update [OF assms(1)]) (auto simp: discAll_def cc_disconnect_def)
qed (use assms(1) in \<open>auto simp: toggleDebug_def safeRestart_def map_inv_def\<close>)

interpretation calls: invariant_system map_init map_step map_inv
proof
  show "map_inv s" if "map_init s" for s using that by (simp add: map_init_def map_inv_def NewCallMap_def)
qed (rule map_step_inv)

section \<open>Properties of the table\<close>

text \<open>
  In every run of the table a new call gets a number no call of the table has, and only its own entry changes:
  a fresh idle controller with that number and no attempt. A call is only made for an INVITE that comes from an accepted
  address; every other request leaves the table as it was.
\<close>

theorem new_calls_get_fresh_numbers:
  assumes "reach map_init map_step cm"
  shows "(case OnNewDialog env req cm of
      (D_call i, cm') \<Rightarrow> cm_ccmap cm i = None \<and> rq_method req = ''INVITE''
        \<and> (\<exists>src. m_source req = Some src \<and> checkIP (de_cfg env) (ma_address (hp_Host src)))
        \<and> (\<exists>cc. cm_ccmap cm' = (cm_ccmap cm)(i \<mapsto> cc) \<and> cc_id cc = i \<and> cc_state cc = CCStateIdle \<and> attempts cc = [])
    | (_, cm') \<Rightarrow> cm' = cm)"
proof -
  have fresh: "cm_ccmap cm (cm_cc_id cm) = None"
    using map_invD [OF calls.reach_inv [OF assms], of "cm_cc_id cm"] by (cases "cm_ccmap cm (cm_cc_id cm)") auto
  show ?thesis
  proof (cases rule: OnNewDialog_cases [of env req cm])
    case 1
    then show ?thesis by (cases "OnNewDialog env req cm") (auto split: dialog_answer.split)
  next
    case (2 rip src ch)
    then show ?thesis using fresh
      by (auto simp: start_call_def Let_def put_call_def NewCallController_def attempts_def List.map_filter_def)
  qed
qed

text \<open>
  Property C15. Whatever happens to one call, an event or callback of its legs, a timer, a disconnect or the answer of the RADIUS
  server, the entries of all other calls in the table stay as they are, also when the call drops itself from the table.
\<close>

theorem calls_are_isolated:
  assumes "reach map_init map_step cm" and "j \<noteq> i"
  shows "cm_ccmap (run_call i (cc_step env n) cm) j = cm_ccmap cm j
    \<and> cm_ccmap (run_call i (rDone_nolock env results) cm) j = cm_ccmap cm j"
  using run_call_other [OF calls.reach_inv [OF assms(1)] tame_cc_step assms(2)]
    run_call_other [OF calls.reach_inv [OF assms(1)] tame_rDone assms(2)] by simp

section \<open>The disconnect command\<close>

lemma split_command:
  assumes "no_space c" "c \<noteq> []"
  shows "go_split (CHR '' '') (TrimSpace (''d '' @ c)) = [''d'', c]"
proof -
  have "trim_left (''d '' @ c) = ''d '' @ c"
    by (rule trim_left_id) (simp add: ascii_space_def wide_space2_def wide_space3_def split: list.split)
  moreover have "rev (''d '' @ c) = rev c @ CHR '' '' # ''d''" by simp
  ultimately have "TrimSpace (''d '' @ c) = rev (rev c @ CHR '' '' # ''d'')"
    using trim_left_rev_word [OF assms, of "''d''"] by (simp only: TrimSpace_def)
  then have t: "TrimSpace (''d '' @ c) = ''d'' @ CHR '' '' # c" by simp
  have "CHR '' '' \<notin> set c" using assms(1) by (auto simp: no_space_def list_all_iff ascii_space_def)
  then show ?thesis unfolding t by (subst go_split_append) (simp_all add: go_split_absent)
qed

text \<open>
  The command to disconnect a call by its Call-ID disconnects the calls that have that Call-ID and no others, and
  answers OK exactly if there is one.
\<close>

theorem disconnect_command_hits_its_calls:
  assumes "set ids = dom (cm_ccmap cm)" and "\<forall>cc \<in> ran (cm_ccmap cm). cc_cId cc \<noteq> None"
    and "no_space c" and "c \<noteq> []" and "c \<noteq> ''*''"
  shows "\<exists>reply cm'. RecvCommand now ids legs (''d '' @ c) cm = Some (R_send reply, cm')
    \<and> (\<forall>i. cm_ccmap cm' i = map_option (\<lambda>cc. if cc_cId cc = Some c then cc_disconnect None cc else cc) (cm_ccmap cm i))
    \<and> (reply = line ''OK'' \<longleftrightarrow> (\<exists>cc \<in> ran (cm_ccmap cm). cc_cId cc = Some c))"
proof -
  have none: "\<not> (\<exists>i \<in> set ids. case cm_ccmap cm i of Some cc \<Rightarrow> cc_cId cc = None | None \<Rightarrow> False)"
    using assms(2) by (auto simp: ran_def split: option.splits)
  have some: "(\<exists>i \<in> set ids. has_call_id c (cm_ccmap cm i)) \<longleftrightarrow> (\<exists>cc \<in> ran (cm_ccmap cm). cc_cId cc = Some c)"
    using assms(1) by (auto simp: ran_def has_call_id_def split: option.splits)
  have ids: "\<not> has_call_id c (cm_ccmap cm i)" if "\<not> (\<exists>i \<in> set ids. has_call_id c (cm_ccmap cm i))" for i
    using that assms(1) by (auto simp: has_call_id_def dom_def split: option.splits)
  have upd: "(if has_call_id c x then map_option (cc_disconnect None) x else x)
      = map_option (\<lambda>cc. if cc_cId cc = Some c then cc_disconnect None cc else cc) x" for x
    by (auto simp: has_call_id_def split: option.splits)
  have cmd: "RecvCommand now ids legs (''d '' @ c) cm = map_option (\<lambda>(s, cm'). (R_send s, cm')) (disconnect_id ids c cm)"
    using split_command [OF assms(3,4)] assms(5) by (simp add: RecvCommand_def ToLower_def lower_def)
  show ?thesis
  proof (cases "\<exists>i \<in> set ids. has_call_id c (cm_ccmap cm i)")
    case True
    then show ?thesis using none some upd unfolding cmd disconnect_id_def by auto
  next
    case False
    then have "\<And>i. cm_ccmap cm i = map_option (\<lambda>cc. if cc_cId cc = Some c then cc_disconnect None cc else cc) (cm_ccmap cm i)"
      using ids upd by metis
    with False show ?thesis using none some unfolding cmd disconnect_id_def by (auto simp: line_def)
  qed
qed

section \<open>Credentials that are never seen\<close>

definition auth_named :: "sip_header \<Rightarrow> bool" where
  "auth_named h \<longleftrightarrow> match_name ''authorization'' h"

fun is_generic :: "sip_header \<Rightarrow> bool" where
  "is_generic (H_Generic n b) = True"
| "is_generic h = False"

lemma auth_named_cases: "auth_named h \<Longrightarrow> (\<exists>a. h = H_Authorization a) \<or> is_generic h"
  by (cases h) (simp_all add: auth_named_def match_name_def ToLower_def lower_def)

lemma factory_not_generic:
  assumes "map_of (sip_header_name_map pe) n = Some factory" and "h \<in> set (factory b)"
  shows "\<not> is_generic h"
proof -
  from map_of_SomeD [OF assms(1)] assms(2) show ?thesis
    unfolding sip_header_name_map_def
    by (auto simp: address_headers_def CreateSipVia_def CreateSipContact_def split: if_splits)
qed

lemma lower_upper_same: "lower (upper c) = lower c"
  by (auto simp: lower_def upper_def Let_def of_char_of)

lemma ToLower_title_same: "ToLower (title_from w s) = ToLower s"
  by (induction s arbitrary: w) (auto simp: ToLower_def lower_upper_same)

lemma ParseSipHeader_auth:
  assumes "ParseSipHeader pe l = Inr hs" and "h \<in> set hs" and "auth_named h"
  shows "\<exists>a. h = H_Authorization a"
proof (rule ccontr)
  assume no: "\<nexists>a. h = H_Authorization a"
  with auth_named_cases [OF assms(3)] have g: "is_generic h" by blast
  obtain n b where cut: "go_cut (CHR '':'') l = (n, Some b)" using assms(1)
    by (auto simp: ParseSipHeader_def split: prod.splits option.splits)
  have "map_of (sip_header_name_map pe) (ToLower (TrimSpace n)) = None"
    using assms(1,2) g factory_not_generic [of pe "ToLower (TrimSpace n)" _ h "TrimSpace b"] cut
    by (auto simp: ParseSipHeader_def Let_def split: option.splits)
  moreover from this have h: "h = H_Generic (Title (TrimSpace n)) (TrimSpace b)"
    using assms(1,2) cut by (auto simp: ParseSipHeader_def Let_def)
  then have "ToLower (TrimSpace n) = ''authorization''"
    using assms(3) by (simp add: auth_named_def match_name_def Title_def ToLower_title_same) (simp add: ToLower_def lower_def)
  ultimately show False by (simp add: sip_header_name_map_def)
qed

lemma AppendHeader_auth:
  assumes "auth_named h \<Longrightarrow> \<exists>a. h = H_Authorization a" and "x \<in> set (m_headers (AppendHeader h m))" and "auth_named x"
  shows "x \<in> set (m_headers m)"
  using assms by (cases h) (auto simp: push_header_def)

lemma parse_headers_auth:
  "\<lbrakk>parse_headers pe ls m = Inr m'; \<forall>x \<in> set (m_headers m). \<not> auth_named x\<rbrakk> \<Longrightarrow> \<forall>x \<in> set (m_headers m'). \<not> auth_named x"
proof (induction ls arbitrary: m)
  case (Cons l ls)
  from Cons.prems(1) obtain hs where hs: "ParseSipHeader pe l = Inr hs"
    "parse_headers pe ls (appendHeaders (filter (\<lambda>h. \<not> asterisk h) hs) m) = Inr m'"
    by (auto simp: bind_result_Inr_iff)
  have "\<forall>x \<in> set (m_headers (appendHeaders hs' m0)). \<not> auth_named x"
    if "set hs' \<subseteq> set hs" "\<forall>x \<in> set (m_headers m0). \<not> auth_named x" for hs' and m0 :: sip_msg
    using that
  proof (induction hs' arbitrary: m0)
    case (Cons h hs')
    have "auth_named h \<Longrightarrow> \<exists>a. h = H_Authorization a" using ParseSipHeader_auth [OF hs(1)] Cons.prems(1) by auto
    then have "\<forall>x \<in> set (m_headers (AppendHeader h m0)). \<not> auth_named x" using AppendHeader_auth Cons.prems(2) by blast
    with Cons show ?case by (simp add: appendHeaders_def)
  qed (simp add: appendHeaders_def)
  from Cons.IH [OF hs(2) this] Cons.prems(2) show ?case by simp
qed simp

lemma init_body_fields:
  "init_body mbody m = Inr m' \<Longrightarrow> m_headers m' = m_headers m"
  by (auto simp: init_body_def Let_def bind_result_Inr_iff split: option.splits prod.splits sum.splits)

lemma ParseSipRequest_auth:
  assumes "ParseSipRequest pe rtime wire = Inr req" and "x \<in> set (m_headers req)"
  shows "\<not> auth_named x"
proof -
  from assms(1) obtain m mbody where p: "ParseSipMsg pe rtime wire = Inr (m, mbody)"
    and rest: "(case Fields (m_startline m) of
         [meth, ruri, sipver] \<Rightarrow>
           (case ParseSipURL (pe_tel pe) False (pe_cfg pe) ruri of
              Inl e \<Rightarrow> Inl (if e = index_panic then e else ''Bad SIP URL in SIP request: '' @ ruri)
            | Inr u \<Rightarrow> init_body mbody (sip_msg.extend m (sip_request.fields meth sipver u None None False)))
       | _ \<Rightarrow> Inl (''SIP bad start line in SIP request: '' @ m_startline m)) = Inr req"
    unfolding ParseSipRequest_def bind_result_Inr_iff by auto
  from rest obtain meth ruri sipver where f: "Fields (m_startline m) = [meth, ruri, sipver]" by (auto split: list.splits)
  obtain r where m: "init_body mbody (sip_msg.extend m r) = Inr req" using rest by (auto simp: f split: sum.splits)
  have "m_headers req = m_headers m" using init_body_fields [OF m] by (simp add: sip_msg.defs)
  moreover obtain ls m0 where "parse_headers pe ls m0 = Inr m" "m_headers m0 = []"
    using p by (auto simp: ParseSipMsg_def bind_result_Inr_iff required_headers_def NewSipMsg_def
        split: prod.splits list.splits if_splits)
  ultimately show ?thesis using parse_headers_auth [of pe ls m0 m] assms(2) by auto
qed

lemma credentials_unseen:
  assumes "ParseSipRequest pe rtime wire = Inr req"
  shows "GetFirstHF ''authorization'' req = None"
proof -
  have "\<not> auth_named x" if "x \<in> set (own_headers req @ map H_Via vs @ map H_Route rs)" for x vs rs
    using that auth_named_cases [of x] by (auto simp: own_headers_def split: option.splits)
  then show ?thesis
    unfolding GetFirstHF_def find_None_iff set_append using ParseSipRequest_auth [OF assms] unfolding auth_named_def set_append by blast
qed

text \<open>
  A request that was received and parsed never shows its credentials to the table of calls: the Authorization header
  is kept in a field of its own and not among the headers that are searched for it. With digest
  authentication as the only method, no INVITE therefore ever makes a call, not even one with valid credentials: from an accepted
  address it is challenged again.
\<close>

theorem digest_only_admits_no_call:
  assumes "ParseSipRequest pe rtime wire = Inr req"
    and "Auth_enable (de_cfg env)" and "Digest_auth (de_cfg env)" and "Digest_auth_only (de_cfg env)"
  shows "GetFirstHF ''authorization'' (req\<lparr>m_source := src\<rparr>) = None
    \<and> (\<forall>i. fst (OnNewDialog env (req\<lparr>m_source := src\<rparr>) cm) \<noteq> D_call i) \<and> snd (OnNewDialog env (req\<lparr>m_source := src\<rparr>) cm) = cm"
proof -
  let ?req = "req\<lparr>m_source := src\<rparr>"
  have hf: "GetFirstHF ''authorization'' ?req = None"
    using credentials_unseen [OF assms(1)] by (simp add: GetFirstHF_def own_headers_def)
  then have ch: "dialog_challenge env ?req \<noteq> Inr None" using assms(2,3) by (auto simp: dialog_challenge_def split: option.splits)
  have r: "dialog_respond s re ?req \<noteq> D_call i" for s re i by (auto simp: dialog_respond_def split: sum.splits)
  have "(\<forall>i. fst (new_invite env ?req cm) \<noteq> D_call i) \<and> snd (new_invite env ?req cm) = cm"
    using ch r assms(4) by (auto simp: new_invite_def split: list.split option.split sum.split bool.split dialog_answer.split)
  with hf r show ?thesis by (auto simp: OnNewDialog_def split: option.split sum.split)
qed

section \<open>Allowed payload types from a file\<close>

fun sets_pts :: "flag_set \<Rightarrow> bool" where
  "sets_pts (F_str n v) \<longleftrightarrow> n = ''allowed_pts'' \<or> n = ''F''"
| "sets_pts _ \<longleftrightarrow> False"

lemma flag_pts:
  assumes "\<not> sets_pts f"
  shows "Allowed_pts (fst (flag_Parse f z)) = Allowed_pts (fst z)"
proof -
  have b: "Allowed_pts (put_opt (bool_opts @ short_bools) n v c) = Allowed_pts c" for n v c
    by (auto simp: put_opt_def bool_opts_def short_bools_def)
  have i: "Allowed_pts (put_opt (int_opts @ short_ints) n v c) = Allowed_pts c" for n v c
    by (auto simp: put_opt_def int_opts_def short_ints_def)
  have s: "Allowed_pts (put_opt (str_opts @ short_strs) n v c) = Allowed_pts c" if "n \<noteq> ''allowed_pts''" "n \<noteq> ''F''" for n v c
    using that by (auto simp: put_opt_def str_opts_def short_strs_def)
  show ?thesis
    using assms b i s by (cases f; cases z) (auto simp: rtp_proxy_client_cb_def pass_header_cb_def Let_def)
qed

lemma try_read_map: "Allowed_pts_map (try_read ini fname c) = Allowed_pts_map c"
  by (simp add: try_read_def str_opts_def int_opts_def bool_opts_def split: option.split)

lemma late_config_map: "late_config ok l c = Inr c' \<Longrightarrow> Allowed_pts_map c' = Allowed_pts_map c"
  by (auto simp: late_config_def keepalive_level_def keepalives_def accounting_level_def config_lists_def Let_def
      bind_result_Inr_iff split: if_splits)

lemma flags_pts: "list_all (Not \<circ> sets_pts) args \<Longrightarrow> Allowed_pts (fst (fold flag_Parse args z)) = Allowed_pts (fst z)"
  by (induction args arbitrary: z) (simp_all add: flag_pts)

lemma file_pts_map:
  assumes "config_Parse ok ini args NewMyConfigParser = Inr c" and "list_all (Not \<circ> sets_pts) args"
  shows "Allowed_pts_map c = [[]]"
proof -
  obtain c1 l where p: "fold flag_Parse args (setup_short (setupOpts NewMyConfigParser), new_flags) = (c1, l)" by force
  have "Allowed_pts (setup_short (setupOpts NewMyConfigParser)) = []"
    by (simp add: setup_short_def setupOpts_def set_defaults_def str_opts_def int_opts_def bool_opts_def short_strs_def
        short_ints_def short_bools_def)
  then have a: "Allowed_pts c1 = []"
    using flags_pts [OF assms(2), of "(setup_short (setupOpts NewMyConfigParser), new_flags)"] p by simp
  from assms(1) p obtain c2 where "early_config l c1 = Inr c2"
    "late_config ok l (try_read ini (TrimSpace (fv_readconf l)) c2) = Inr c"
    by (auto simp: config_Parse_def bind_result_Inr_iff)
  moreover from this(1) have "Allowed_pts_map c2 = [[]]"
    by (auto simp: early_config_def Let_def a TrimSpace_def split: if_splits)
  ultimately show ?thesis using late_config_map try_read_map by metis
qed

text \<open>
  The allowed payload types are read from the flags before the configuration file is. When they are set in the file
  only, the list that calls are checked against stays empty: every call whose first media section is plain RTP is
  refused with 488, whatever payload types it offers.
\<close>

theorem file_allowed_pts_refuse_media:
  assumes "config_Parse ok ini args NewMyConfigParser = Inr c" and "list_all (Not \<circ> sets_pts) args" and "Allowed_pts c \<noteq> []"
    and "ce_cf env = controller_config sip route c"
    and "GetSdp b = (b1, Inr d)" and "sd_sections d = s # ss" and "ms_m s = Some m" and "ToLower (sm_transport m) = ''rtp/avp''"
    and "[] \<notin> set (sm_formats m)"
  shows "allowed_body env (Some b) = Inl (488, ''Not Acceptable Here'')"
proof -
  have "filter (\<lambda>pt. pt \<in> set (Allowed_pts_map c)) (sm_formats m) = []"
    using file_pts_map [OF assms(1,2)] assms(9) by (auto simp: filter_empty_conv)
  then have "allowed_media (Allowed_pts_map c) s = Inl (488, ''Not Acceptable Here'')"
    by (simp add: allowed_media_def assms(7,8))
  then show ?thesis using assms(3) by (simp add: allowed_body_def assms(4-6) controller_config_def)
qed

section \<open>Only allowed payload types pass\<close>

text \<open>
  Property C22. With allowed payload types configured, a body with media sections that is let through has been parsed, and only its first
  section is looked at. If that section is plain RTP (RTP/AVP), then the payload types it offers from then on are those of the
  original that are allowed, in their order and at least one, and its attributes are the original ones less, when a payload type was removed,
  those that map or describe a payload type no longer offered; nothing else of the section changes. If its transport is another one, as RTP/SAVP,
  the section passes unfiltered. The session lines and all further sections pass as they were, whatever payload types they offer.
\<close>

theorem only_allowed_payloads_pass:
  assumes "cf_Allowed_pts (ce_cf env) \<noteq> []" and "allowed_body env (Some b) = Inr (Some b')"
    and "GetSdp b = (b1, Inr d)" and "sd_sections d = s # ss"
  shows "\<exists>m. ms_m s = Some m \<and>
    (if ToLower (sm_transport m) = ''rtp/avp'' then
       (let fs = filter (\<lambda>pt. pt \<in> set (cf_Allowed_pts_map (ce_cf env))) (sm_formats m);
            as = (if fs = sm_formats m then ms_a s else filter (\<lambda>a. attribute_pt a = [] \<or> attribute_pt a \<in> set fs) (ms_a s))
        in fs \<noteq> [] \<and> mb_sdp b' = Some (d\<lparr>sd_sections := s\<lparr>ms_m := Some (m\<lparr>sm_formats := fs\<rparr>), ms_a := as\<rparr> # ss\<rparr>))
     else mb_sdp b' = Some d)"
proof -
  obtain s' where s': "allowed_media (cf_Allowed_pts_map (ce_cf env)) s = Inr s'" "mb_sdp b' = Some (d\<lparr>sd_sections := s' # ss\<rparr>)"
    using assms(1,2) by (auto simp: allowed_body_def assms(3,4) split: sum.splits)
  then obtain m where m: "ms_m s = Some m" by (auto simp: allowed_media_def split: option.splits)
  have same: "d\<lparr>sd_sections := s # ss\<rparr> = d" "s\<lparr>ms_m := Some m\<rparr> = s"
    using assms(4) m by simp_all
  let ?fs = "filter (\<lambda>pt. pt \<in> set (cf_Allowed_pts_map (ce_cf env))) (sm_formats m)"
  show ?thesis
  proof (cases "?fs = sm_formats m")
    case True
    have e: "s' = s" and ne: "ToLower (sm_transport m) = ''rtp/avp'' \<longrightarrow> ?fs \<noteq> []"
      using s'(1) m True by (auto simp: allowed_media_def Let_def split: if_splits)
    show ?thesis unfolding m option.inject Let_def
      by (rule exI [of _ m]) (use s'(2) ne True same in \<open>simp add: e\<close>)
  next
    case False
    then have "length ?fs < length (sm_formats m)" by (metis filter_id_conv length_filter_less)
    then show ?thesis using s' m same False by (auto simp: allowed_media_def SetFormats_def optimize_a_def HasFormat_def Let_def split: if_splits)
  qed
qed

end
