(* ===== verification/B2b_Accounting.thy ===== *)
theory B2b_Accounting
  imports B2b_Radius
begin

text \<open>
  The accounting of a call leg, src/cmd/b2bua_radius/radius_accounting.go: the Start, Alive and Stop records and
  their attributes, the goroutine that sends the Alive records, and the texts of the times in them. An
  operation that dereferences a missing time stamp has no result.
\<close>

section \<open>Times\<close>

text \<open>\<open>time.Duration.Round\<close> rounds halves away from zero, \<open>time.Time.Round\<close> rounds them up.\<close>

definition duration_Round :: "duration \<Rightarrow> duration \<Rightarrow> duration" where
  "duration_Round d m =
     (let r = \<bar>d\<bar> mod m in
      if d < 0 then (if r + r < m then d + r else d - m + r)
      else if r + r < m then d - r else d + m - r)"

definition time_Round :: "int \<Rightarrow> duration \<Rightarrow> int" where
  "time_Round t m = (let r = t mod m in if r + r < m then t - r else t + m - r)"

definition two_digits :: "int \<Rightarrow> string" where
  "two_digits n = (if n < 10 then ''0'' else []) @ Itoa n"

definition three_digits :: "int \<Rightarrow> string" where
  "three_digits n = (if n < 100 then ''0'' else []) @ two_digits n"

text \<open>Year, month and day of a day counted from 1 January 1970, in the proleptic Gregorian calendar.\<close>

definition civil :: "int \<Rightarrow> int \<times> int \<times> int" where
  "civil days =
     (let z = days + 719468; era = z div 146097; doe = z mod 146097;
          yoe = (doe - doe div 1460 + doe div 36524 - doe div 146096) div 365;
          doy = doe - (365 * yoe + yoe div 4 - yoe div 100);
          mp = (5 * doy + 2) div 153;
          m = (if mp < 10 then mp + 3 else mp - 9)
      in (yoe + era * 400 + (if m \<le> 2 then 1 else 0), m, doy - (153 * mp + 2) div 5 + 1))"

definition year_text :: "int \<Rightarrow> string" where
  "year_text y = (if y < 1000 then ''0'' else []) @ (if y < 100 then ''0'' else []) @ two_digits y"

definition clock_text :: "bool \<Rightarrow> int \<Rightarrow> string" where
  "clock_text ms t =
     (let s = (t div second) mod 86400
      in two_digits (s div 3600) @ '':'' @ two_digits (s mod 3600 div 60) @ '':'' @ two_digits (s mod 60)
         @ (if ms then ''.'' @ three_digits (t mod second div millisecond) else []))"

definition ftime :: "bool \<Rightarrow> int \<Rightarrow> string" where
  "ftime ms t =
     (let days = t div second div 86400 in case civil days of (y, m, d) \<Rightarrow>
        clock_text ms t @ '' GMT '' @ [''Sun'', ''Mon'', ''Tue'', ''Wed'', ''Thu'', ''Fri'', ''Sat''] ! nat ((days + 4) mod 7)
        @ '' '' @ [''Jan'', ''Feb'', ''Mar'', ''Apr'', ''May'', ''Jun'', ''Jul'', ''Aug'', ''Sep'', ''Oct'', ''Nov'', ''Dec''] ! nat (m - 1)
        @ '' '' @ Itoa d @ '' '' @ year_text y)"

section \<open>Records\<close>

definition sipErrToH323Err :: "int \<Rightarrow> string option" where
  "sipErrToH323Err = map_of
     [(400, ''7f''), (401, ''39''), (402, ''15''), (403, ''39''), (404, ''1''), (405, ''7f''), (406, ''7f''), (407, ''15''), (408, ''66''),
      (409, ''29''), (410, ''1''), (411, ''7f''), (413, ''7f''), (414, ''7f''), (415, ''4f''), (420, ''7f''), (480, ''12''), (481, ''7f''),
      (482, ''7f''), (483, ''7f''), (484, ''1c''), (485, ''1''), (486, ''11''), (487, ''12''), (488, ''7f''), (500, ''29''), (501, ''4f''),
      (502, ''26''), (503, ''3f''), (504, ''66''), (505, ''7f''), (580, ''2f''), (600, ''11''), (603, ''15''), (604, ''1''), (606, ''3a'')]"

definition disconnect_cause :: "int \<Rightarrow> string" where
  "disconnect_cause result =
     (if result \<ge> 400 then (case sipErrToH323Err result of Some c \<Rightarrow> c | None \<Rightarrow> ''7f'')
      else if result < 200 then ''10'' else ''0'')"

record acct_config =
  ac_Alive_acct_int :: int
  ac_Start_acct_enable :: bool
  ac_Precise_acct :: bool

record radius_accounting =
  ra_crec :: bool
  ra_drec :: bool
  ra_iTime :: "monotime option"
  ra_cTime :: "monotime option"
  ra_p1xx_ts :: "monotime option"
  ra_p100_ts :: "monotime option"
  ra_user_agent :: string
  ra_attributes :: "avp list"
  ra_el_closed :: bool
  ra_alive :: bool
  ra_complete :: bool
  ra_ms_precision :: bool
  ra_sip_cid :: string
  ra_sent :: "(string \<times> avp list) list"

text \<open>
  \<open>ra_alive\<close> says whether the goroutine of the Alive records runs, \<open>ra_el_closed\<close> whether the channel it watches is closed,
  \<open>ra_sent\<close> are the records handed to the RADIUS client.
\<close>

definition NewRadiusAccounting :: "string \<Rightarrow> radius_accounting" where
  "NewRadiusAccounting origin =
     \<lparr>ra_crec = False, ra_drec = False, ra_iTime = None, ra_cTime = None, ra_p1xx_ts = None, ra_p100_ts = None, ra_user_agent = [],
      ra_attributes = [(''h323-call-origin'', origin), (''h323-call-type'', ''VoIP''), (''h323-session-protocol'', ''sipv2'')],
      ra_el_closed = False, ra_alive = False, ra_complete = False, ra_ms_precision = False, ra_sip_cid = [], ra_sent = []\<rparr>"

definition SetParams :: "string \<Rightarrow> string \<Rightarrow> string \<Rightarrow> string \<Rightarrow> string \<Rightarrow> string \<Rightarrow> string \<Rightarrow> radius_accounting \<Rightarrow> radius_accounting" where
  "SetParams username caller callee h323_cid sip_cid remote_ip h323_in_cid a =
     a\<lparr>ra_attributes := ra_attributes a
         @ [(''User-Name'', username), (''Calling-Station-Id'', caller), (''Called-Station-Id'', callee), (''h323-conf-id'', h323_cid),
            (''call-id'', sip_cid), (''Acct-Session-Id'', sip_cid), (''h323-remote-address'', remote_ip)]
         @ (if h323_in_cid \<noteq> [] \<and> h323_in_cid \<noteq> h323_cid then [(''h323-incoming-conf-id'', h323_in_cid)] else []),
       ra_sip_cid := sip_cid, ra_complete := True\<rparr>"

text \<open>How long the call has lasted and how long it took to connect: from the leg, or for Alive records from the stored times.\<close>

definition acct_times :: "ua_env \<Rightarrow> monotime \<Rightarrow> ua option \<Rightarrow> radius_accounting \<Rightarrow> (duration \<times> duration) option" where
  "acct_times env rtime u a =
     (case u of
        Some v \<Rightarrow> map_option (\<lambda>(duration, delay, _). (duration, delay)) (GetAcct env (Some rtime) v)
      | None \<Rightarrow> (case (ra_cTime a, ra_iTime a) of
            (Some c, Some i) \<Rightarrow> Some (mt_Sub rtime c, mt_Sub c i)
          | _ \<Rightarrow> None))"

definition precise :: "acct_config \<Rightarrow> duration \<Rightarrow> duration" where
  "precise cfg d = (if ac_Precise_acct cfg then d else duration_Round d second)"

definition end_attributes :: "bool \<Rightarrow> string \<Rightarrow> string \<Rightarrow> int \<Rightarrow> int \<Rightarrow> duration \<Rightarrow> avp list" where
  "end_attributes ms typ origin result disconnected duration =
     (if typ \<noteq> ''Start'' then
        [(''h323-disconnect-time'', ftime ms disconnected),
         (''Acct-Session-Time'', Itoa (duration_Round duration second div second)),
         (''h323-disconnect-cause'', disconnect_cause result)] else [])
     @ (if typ = ''Stop'' then
          [(''release-source'', if origin = ''caller'' then ''2'' else if origin = ''callee'' then ''4'' else ''8'')] else [])"

definition record_attributes ::
  "string \<Rightarrow> string \<Rightarrow> int \<Rightarrow> monotime \<Rightarrow> duration \<Rightarrow> duration \<Rightarrow> radius_accounting \<Rightarrow> avp list" where
  "record_attributes typ origin result i duration delay a =
     (let ms = ra_ms_precision a in
      ra_attributes a
      @ end_attributes ms typ origin result (realt i + delay + duration) duration
      @ [(''h323-connect-time'', ftime ms (realt i + delay)), (''h323-setup-time'', ftime ms (realt i)), (''Acct-Status-Type'', typ)]
      @ (if ra_user_agent a \<noteq> [] then [(''h323-ivr-out'', ''sip_ua:'' @ ra_user_agent a)] else [])
      @ (case ra_p1xx_ts a of Some t \<Rightarrow> [(''Acct-Delay-Time'', Itoa (time_Round (realt t) second div second))] | None \<Rightarrow> [])
      @ (case ra_p100_ts a of Some t \<Rightarrow> [(''provisional-timepoint'', ftime ms (realt t))] | None \<Rightarrow> []))"

definition asend ::
  "acct_config \<Rightarrow> ua_env \<Rightarrow> string \<Rightarrow> monotime option \<Rightarrow> string \<Rightarrow> int \<Rightarrow> ua option \<Rightarrow> radius_accounting \<Rightarrow> radius_accounting option" where
  "asend cfg env typ rtime origin result u a =
     (if \<not> ra_complete a then Some a
      else (case (acct_times env (case rtime of Some t \<Rightarrow> t | None \<Rightarrow> e_now env) u a, ra_iTime a) of
          (Some (duration, delay), Some i) \<Rightarrow>
            Some (a\<lparr>ra_sent := ra_sent a @ [(typ, record_attributes typ origin result i (precise cfg duration) (precise cfg delay) a)]\<rparr>)
        | _ \<Rightarrow> None))"

section \<open>Connecting and disconnecting\<close>

definition note_progress :: "ua \<Rightarrow> radius_accounting \<Rightarrow> radius_accounting" where
  "note_progress u a =
     a\<lparr>ra_p1xx_ts := (case u_p1xx_ts u of Some t \<Rightarrow> Some t | None \<Rightarrow> ra_p1xx_ts a),
       ra_p100_ts := (case u_p100_ts u of Some t \<Rightarrow> Some t | None \<Rightarrow> ra_p100_ts a)\<rparr>"

definition begin_alive :: "acct_config \<Rightarrow> radius_accounting \<Rightarrow> radius_accounting" where
  "begin_alive cfg a =
     (let a1 = a\<lparr>ra_attributes := ra_attributes a @ [(''h323-voice-quality'', ''0''), (''Acct-Terminate-Cause'', ''User-Request'')]\<rparr>
      in if ac_Alive_acct_int cfg > 0 then a1\<lparr>ra_el_closed := False, ra_alive := True\<rparr> else a1)"

definition at_connect :: "ua \<Rightarrow> radius_accounting \<Rightarrow> radius_accounting" where
  "at_connect u a = note_progress u (a\<lparr>ra_crec := True, ra_iTime := u_setup_ts u, ra_cTime := u_connect_ts u,
     ra_user_agent := (if ra_user_agent a = [] then u_remote_ua u else ra_user_agent a)\<rparr>)"

definition at_disconnect :: "ua \<Rightarrow> monotime option \<Rightarrow> radius_accounting \<Rightarrow> radius_accounting" where
  "at_disconnect u rtime a = note_progress u (a\<lparr>ra_drec := True, ra_el_closed := True,
     ra_iTime := (case ra_iTime a of None \<Rightarrow> u_setup_ts u | Some t \<Rightarrow> Some t),
     ra_cTime := (case ra_cTime a of None \<Rightarrow> rtime | Some t \<Rightarrow> Some t),
     ra_user_agent := (if ra_user_agent a = [] then u_remote_ua u else ra_user_agent a)\<rparr>)"

definition acct_Conn :: "acct_config \<Rightarrow> ua_env \<Rightarrow> ua \<Rightarrow> monotime option \<Rightarrow> string \<Rightarrow> radius_accounting \<Rightarrow> radius_accounting option" where
  "acct_Conn cfg env u rtime origin a =
     (if ra_crec a then Some a
      else map_option (begin_alive cfg)
             (if ac_Start_acct_enable cfg then asend cfg env ''Start'' rtime origin 0 (Some u) (at_connect u a) else Some (at_connect u a)))"

definition acct_Disc :: "acct_config \<Rightarrow> ua_env \<Rightarrow> ua \<Rightarrow> monotime option \<Rightarrow> string \<Rightarrow> int \<Rightarrow> radius_accounting \<Rightarrow> radius_accounting option" where
  "acct_Disc cfg env u rtime origin result a =
     (if ra_drec a then Some a
      else asend cfg env ''Stop'' rtime origin result (Some u) (at_disconnect u rtime a))"

text \<open>The goroutine wakes up because its timer fired, or because the channel was closed, and then it ends.\<close>

definition alive_timer :: "acct_config \<Rightarrow> ua_env \<Rightarrow> radius_accounting \<Rightarrow> radius_accounting option" where
  "alive_timer cfg env a = (if ra_alive a then asend cfg env ''Alive'' None [] 0 None a else Some a)"

definition alive_closed :: "radius_accounting \<Rightarrow> radius_accounting" where
  "alive_closed a = (if ra_el_closed a then a\<lparr>ra_alive := False\<rparr> else a)"

datatype acct_input =
    A_conn ua_env ua "monotime option" string
  | A_disc ua_env ua "monotime option" string int
  | A_timer ua_env
  | A_closed

fun acct_step :: "acct_config \<Rightarrow> acct_input \<Rightarrow> radius_accounting \<Rightarrow> radius_accounting option" where
  "acct_step cfg (A_conn env u rtime origin) a = acct_Conn cfg env u rtime origin a"
| "acct_step cfg (A_disc env u rtime origin result) a = acct_Disc cfg env u rtime origin result a"
| "acct_step cfg (A_timer env) a = alive_timer cfg env a"
| "acct_step cfg A_closed a = Some (alive_closed a)"

fun acct_run :: "acct_config \<Rightarrow> acct_input list \<Rightarrow> radius_accounting \<Rightarrow> radius_accounting option" where
  "acct_run cfg [] a = Some a"
| "acct_run cfg (i # is) a = (case acct_step cfg i a of None \<Rightarrow> None | Some a' \<Rightarrow> acct_run cfg is a')"

section \<open>One Start and one Stop\<close>

definition sent_types :: "radius_accounting \<Rightarrow> string list" where
  "sent_types a = map fst (ra_sent a)"

text \<open>What the legs have when they call: a leg that was set up, and that is connected when it reports so.\<close>

fun acct_input_ok :: "acct_input \<Rightarrow> bool" where
  "acct_input_ok (A_conn env u rtime origin) \<longleftrightarrow> u_setup_ts u \<noteq> None \<and> u_connect_ts u \<noteq> None"
| "acct_input_ok (A_disc env u rtime origin result) \<longleftrightarrow> u_setup_ts u \<noteq> None"
| "acct_input_ok _ \<longleftrightarrow> True"

fun is_disc :: "acct_input \<Rightarrow> bool" where
  "is_disc (A_disc env u rtime origin result) \<longleftrightarrow> True"
| "is_disc _ \<longleftrightarrow> False"

definition acct_inv :: "radius_accounting \<Rightarrow> bool" where
  "acct_inv a \<longleftrightarrow>
     count_list (sent_types a) ''Start'' \<le> 1 \<and> (\<not> ra_crec a \<longrightarrow> count_list (sent_types a) ''Start'' = 0)
   \<and> count_list (sent_types a) ''Stop'' = of_bool (ra_drec a \<and> ra_complete a)
   \<and> (\<not> ra_complete a \<longrightarrow> ra_sent a = [])
   \<and> (ra_alive a \<longrightarrow> ra_crec a) \<and> (ra_crec a \<longrightarrow> ra_iTime a \<noteq> None \<and> ra_cTime a \<noteq> None)
   \<and> ''Acct-Session-Time'' \<notin> fst ` set (ra_attributes a)"

lemma asend_sent:
  assumes "ra_iTime a \<noteq> None" and "case u of Some v \<Rightarrow> u_setup_ts v \<noteq> None | None \<Rightarrow> ra_cTime a \<noteq> None"
  shows "\<exists>r. asend cfg env typ rtime origin result u a
    = Some (if ra_complete a then a\<lparr>ra_sent := ra_sent a @ [(typ, r)]\<rparr> else a)"
proof -
  let ?t = "case rtime of Some t \<Rightarrow> t | None \<Rightarrow> e_now env"
  obtain i where i: "ra_iTime a = Some i" using assms(1) by blast
  have "acct_times env ?t u a \<noteq> None"
  proof (cases u)
    case (Some v)
    then obtain s where "u_setup_ts v = Some s" using assms(2) by auto
    then show ?thesis unfolding acct_times_def Some GetAcct_def Let_def by (cases "u_connect_ts v") (simp_all add: case_prod_unfold)
  qed (use assms i in \<open>auto simp: acct_times_def\<close>)
  then obtain p where "acct_times env ?t u a = Some p" by blast
  then show ?thesis using i by (auto simp: asend_def case_prod_unfold)
qed

lemma at_connect_simps [simp]:
  "ra_crec (at_connect u a)" "ra_drec (at_connect u a) = ra_drec a" "ra_iTime (at_connect u a) = u_setup_ts u"
  "ra_cTime (at_connect u a) = u_connect_ts u" "ra_attributes (at_connect u a) = ra_attributes a"
  "ra_alive (at_connect u a) = ra_alive a" "ra_complete (at_connect u a) = ra_complete a" "ra_sent (at_connect u a) = ra_sent a"
  by (simp_all add: at_connect_def note_progress_def)

lemma at_disconnect_simps [simp]:
  "ra_crec (at_disconnect u t a) = ra_crec a" "ra_drec (at_disconnect u t a)" "ra_el_closed (at_disconnect u t a)"
  "ra_iTime (at_disconnect u t a) = (case ra_iTime a of None \<Rightarrow> u_setup_ts u | Some t \<Rightarrow> Some t)"
  "ra_cTime (at_disconnect u t a) = (case ra_cTime a of None \<Rightarrow> t | Some t \<Rightarrow> Some t)"
  "ra_attributes (at_disconnect u t a) = ra_attributes a" "ra_alive (at_disconnect u t a) = ra_alive a"
  "ra_complete (at_disconnect u t a) = ra_complete a" "ra_sent (at_disconnect u t a) = ra_sent a"
  by (simp_all add: at_disconnect_def note_progress_def)

lemma begin_alive_simps [simp]:
  "ra_crec (begin_alive cfg a) = ra_crec a" "ra_drec (begin_alive cfg a) = ra_drec a" "ra_iTime (begin_alive cfg a) = ra_iTime a"
  "ra_cTime (begin_alive cfg a) = ra_cTime a" "ra_complete (begin_alive cfg a) = ra_complete a" "ra_sent (begin_alive cfg a) = ra_sent a"
  "ra_attributes (begin_alive cfg a) = ra_attributes a @ [(''h323-voice-quality'', ''0''), (''Acct-Terminate-Cause'', ''User-Request'')]"
  by (simp_all add: begin_alive_def Let_def)

lemma acct_step_inv:
  assumes "acct_inv a" and "acct_input_ok i"
  shows "\<exists>a'. acct_step cfg i a = Some a' \<and> acct_inv a' \<and> ra_complete a' = ra_complete a
     \<and> ra_drec a' = (ra_drec a \<or> is_disc i)"
proof (cases i)
  case (A_conn env u rtime origin)
  with assms(2) have "u_setup_ts u \<noteq> None" "u_connect_ts u \<noteq> None" by simp_all
  then obtain r where "asend cfg env ''Start'' rtime origin 0 (Some u) (at_connect u a)
      = Some (if ra_complete a then (at_connect u a)\<lparr>ra_sent := ra_sent a @ [(''Start'', r)]\<rparr> else at_connect u a)"
    using asend_sent [of "at_connect u a" "Some u"] by fastforce
  then show ?thesis using assms by (auto simp: A_conn acct_Conn_def acct_inv_def sent_types_def)
next
  case (A_disc env u rtime origin result)
  with assms(2) have "u_setup_ts u \<noteq> None" by simp
  then obtain r where "asend cfg env ''Stop'' rtime origin result (Some u) (at_disconnect u rtime a)
      = Some (if ra_complete a then (at_disconnect u rtime a)\<lparr>ra_sent := ra_sent a @ [(''Stop'', r)]\<rparr> else at_disconnect u rtime a)"
    using asend_sent [of "at_disconnect u rtime a" "Some u"] by (fastforce split: option.splits)
  then show ?thesis using assms by (auto simp: A_disc acct_Disc_def acct_inv_def sent_types_def split: option.splits)
next
  case (A_timer env)
  show ?thesis
  proof (cases "ra_alive a")
    case True
    with assms(1) have "ra_iTime a \<noteq> None" "ra_cTime a \<noteq> None" by (auto simp: acct_inv_def)
    then obtain r where "asend cfg env ''Alive'' None [] 0 None a
        = Some (if ra_complete a then a\<lparr>ra_sent := ra_sent a @ [(''Alive'', r)]\<rparr> else a)"
      using asend_sent [of a None] by fastforce
    with True assms(1) show ?thesis by (auto simp: A_timer alive_timer_def acct_inv_def sent_types_def)
  qed (use assms in \<open>simp add: A_timer alive_timer_def\<close>)
next
  case A_closed
  then show ?thesis using assms by (auto simp: alive_closed_def acct_inv_def sent_types_def)
qed

lemma acct_run_inv:
  assumes "acct_inv a" and "list_all acct_input_ok is"
  shows "\<exists>a'. acct_run cfg is a = Some a' \<and> acct_inv a' \<and> ra_complete a' = ra_complete a
    \<and> ra_drec a' = (ra_drec a \<or> list_ex is_disc is)"
  using assms
proof (induction "is" arbitrary: a)
  case (Cons i "is")
  obtain a1 where "acct_step cfg i a = Some a1" "acct_inv a1" "ra_complete a1 = ra_complete a" "ra_drec a1 = (ra_drec a \<or> is_disc i)"
    using acct_step_inv [of a i cfg] Cons.prems by auto
  with Cons.IH [of a1] Cons.prems(2) show ?case by auto
qed simp

lemma new_accounting_inv:
  "acct_inv (SetParams username caller callee h323_cid sip_cid remote_ip in_cid (NewRadiusAccounting origin))"
  by (auto simp: acct_inv_def SetParams_def NewRadiusAccounting_def sent_types_def)

lemma new_accounting [simp]:
  "ra_complete (SetParams username caller callee h323_cid sip_cid remote_ip in_cid a)"
  "ra_drec (SetParams username caller callee h323_cid sip_cid remote_ip in_cid (NewRadiusAccounting origin)) = False"
  by (simp_all add: SetParams_def NewRadiusAccounting_def)

text \<open>
  Property C5. Whatever sequence of connect and disconnect reports, timer expiries and wake-ups an accounting sees
  once its parameters are set, no operation fails on a missing time stamp as long as the legs that report were set up
  (and connected where they say so), at most one Start record is sent, and exactly one Stop record is sent if a
  disconnect was ever reported and none otherwise.
\<close>

theorem one_start_one_stop:
  assumes "list_all acct_input_ok is"
  shows "\<exists>a'. acct_run cfg is (SetParams username caller callee h323_cid sip_cid remote_ip in_cid (NewRadiusAccounting origin)) = Some a'
    \<and> count_list (sent_types a') ''Start'' \<le> 1
    \<and> count_list (sent_types a') ''Stop'' = of_bool (list_ex is_disc is)"
  using acct_run_inv [OF new_accounting_inv assms, of cfg username caller callee h323_cid sip_cid remote_ip in_cid origin]
  by (auto simp: acct_inv_def split: if_splits)

section \<open>Nothing after the end\<close>

lemma settled_step: "\<lbrakk>ra_crec a; ra_drec a; \<not> ra_alive a\<rbrakk> \<Longrightarrow> acct_step cfg i a = Some a"
  by (cases i) (auto simp: acct_Conn_def acct_Disc_def alive_timer_def alive_closed_def)

lemma settled_run: "\<lbrakk>ra_crec a; ra_drec a; \<not> ra_alive a\<rbrakk> \<Longrightarrow> acct_run cfg is a = Some a"
  by (induction "is") (simp_all add: settled_step)

text \<open>
  Once a connected call has reported its end and the goroutine of the Alive records has been woken by the closed
  channel, the accounting is over: no later report, timer or wake-up changes it or sends another record.
\<close>

theorem accounting_ends:
  assumes "ra_crec a" and "acct_Disc cfg env u rtime origin result a = Some a'" and "\<not> ra_drec a"
  shows "acct_run cfg is (alive_closed a') = Some (alive_closed a')"
proof -
  from assms have "ra_crec a'" "ra_drec a'" "ra_el_closed a'"
    by (auto simp: acct_Disc_def asend_def split: if_splits option.splits prod.splits)
  then show ?thesis by (intro settled_run) (simp_all add: alive_closed_def)
qed

section \<open>The time that is billed\<close>

lemma duration_Round_half: "0 < m \<Longrightarrow> 2 * \<bar>duration_Round d m - d\<bar> \<le> m"
proof -
  assume m: "0 < m"
  define r where "r = \<bar>d\<bar> mod m"
  from m have "0 \<le> r" "r < m" by (simp_all add: r_def)
  then show ?thesis unfolding duration_Round_def Let_def r_def [symmetric] by (simp split: if_split)
qed

lemma duration_Round_dvd:
  assumes "0 < m"
  shows "m dvd duration_Round d m"
proof -
  have "m dvd \<bar>d\<bar> - \<bar>d\<bar> mod m" by (simp add: minus_mod_eq_mult_div)
  then obtain k where k: "\<bar>d\<bar> - \<bar>d\<bar> mod m = m * k" by blast
  have "duration_Round d m = m * k \<or> duration_Round d m = m * (k + 1) \<or> duration_Round d m = m * (- k)
      \<or> duration_Round d m = m * (- k - 1)"
    using k by (auto simp: duration_Round_def Let_def algebra_simps split: if_splits)
  then show ?thesis by auto
qed

lemma duration_Round_idem: "0 < m \<Longrightarrow> duration_Round (duration_Round d m) m = duration_Round d m"
  using duration_Round_dvd [of m d] by (auto simp: duration_Round_def [of "duration_Round d m"] Let_def)

lemma precise_session: "duration_Round (precise cfg d) second = duration_Round d second"
  by (simp add: precise_def duration_Round_idem second_def)

text \<open>
  Property C26. The Stop record of a call carries one session time, the time between connection and
  disconnection by the leg's own clock, to the nearest second whether or not precise accounting is on: it is never more than half a second
  off. A call that never connected is recorded with a session time of zero.
\<close>

theorem stop_bills_the_call:
  assumes "list_all acct_input_ok is" and "\<not> list_ex is_disc is" and "u_setup_ts u \<noteq> None"
  shows "\<exists>a a' avps n. acct_run cfg is (SetParams username caller callee h323_cid sip_cid remote_ip in_cid (NewRadiusAccounting origin)) = Some a
    \<and> acct_Disc cfg env u (Some t) source result a = Some a' \<and> ra_sent a' = ra_sent a @ [(''Stop'', avps)]
    \<and> filter (\<lambda>x. fst x = ''Acct-Session-Time'') avps = [(''Acct-Session-Time'', Itoa n)]
    \<and> (case (u_connect_ts u, u_disconnect_ts u) of
         (None, _) \<Rightarrow> n = 0
       | (Some c, d) \<Rightarrow> 2 * \<bar>n * second - mt_Sub (case d of Some d \<Rightarrow> d | None \<Rightarrow> t) c\<bar> \<le> second)"
proof -
  let ?a = "SetParams username caller callee h323_cid sip_cid remote_ip in_cid (NewRadiusAccounting origin)"
  obtain a where a: "acct_run cfg is ?a = Some a" "acct_inv a" "ra_complete a" "\<not> ra_drec a"
    using acct_run_inv [OF new_accounting_inv assms(1), of cfg username caller callee h323_cid sip_cid remote_ip in_cid origin]
      assms(2) by auto
  define duration where "duration = (case (u_connect_ts u, u_disconnect_ts u) of (None, _) \<Rightarrow> 0
       | (Some c, d) \<Rightarrow> mt_Sub (case d of Some d \<Rightarrow> d | None \<Rightarrow> t) c)"
  have "\<exists>delay. acct_times env t (Some u) (at_disconnect u (Some t) a) = Some (duration, delay)"
    using assms(3) by (auto simp: duration_def acct_times_def GetAcct_def Let_def split: option.split)
  then obtain delay where g: "acct_times env t (Some u) (at_disconnect u (Some t) a) = Some (duration, delay)" by blast
  obtain i where i: "ra_iTime (at_disconnect u (Some t) a) = Some i" using assms(3) by (cases "ra_iTime a") auto
  let ?r = "record_attributes ''Stop'' source result i (precise cfg duration) (precise cfg delay) (at_disconnect u (Some t) a)"
  let ?n = "duration_Round duration second div second"
  have "acct_Disc cfg env u (Some t) source result a = Some ((at_disconnect u (Some t) a)\<lparr>ra_sent := ra_sent a @ [(''Stop'', ?r)]\<rparr>)"
    using a(3,4) g i by (simp add: acct_Disc_def asend_def)
  moreover have "filter (\<lambda>x. fst x = ''Acct-Session-Time'') (ra_attributes a) = []"
    using a(2) unfolding acct_inv_def filter_empty_conv by (metis image_eqI)
  then have "filter (\<lambda>x. fst x = ''Acct-Session-Time'') ?r = [(''Acct-Session-Time'', Itoa ?n)]"
    by (simp add: record_attributes_def end_attributes_def Let_def precise_session split: option.splits)
  moreover have "2 * \<bar>?n * second - duration\<bar> \<le> second"
    using duration_Round_half [of second duration] duration_Round_dvd [of second duration] by (simp add: second_def)
  moreover have "duration = 0 \<Longrightarrow> ?n = 0" by (simp add: duration_Round_def second_def)
  ultimately show ?thesis using a(1) by (auto simp: duration_def split: option.splits)
qed

end
