(* ===== verification/B2b_Witnesses.thy ===== *)
theory B2b_Witnesses
  imports B2b_Properties Wire_Witnesses
begin

text \<open>A call with two routes on which the properties of the call controller are applied.\<close>

definition w_route :: "int \<Rightarrow> b2b_route" where
  "w_route n = empty_route\<lparr>br_cld := ''200'', br_cld_set := True, br_hostport := ''192.0.2.7'', br_hostonly := ''192.0.2.7'',
     br_ainfo := [\<lparr>ai_ip = ''192.0.2.7'', ai_port = ''5060''\<rparr>], br_credit_time := 60 * second, br_crt_set := True,
     br_rnum := n\<rparr>"

definition w_cf :: "bool \<Rightarrow> cc_config" where
  "w_cf auth = \<lparr>cf_sip = s_cfg, cf_Auth_enable = auth, cf_Acct_enable = False, cf_Hide_call_id = False, cf_Static_tr_in = [],
     cf_Static_tr_out = [], cf_Allowed_pts = [], cf_Allowed_pts_map = [[]], cf_Max_credit_time = -1, cf_Keepalive_ans_dur = 0,
     cf_Keepalive_orig_dur = 0, cf_rtp_proxy = False, cf_static_route = Some (w_route 0)\<rparr>"

definition w_env :: "bool \<Rightarrow> cc_env" where
  "w_env auth = \<lparr>ce_cf = w_cf auth, ce_pe = w_pe, ce_a_state = UAS_STATE_TRYING, ce_o_state = UA_STATE_NONE, ce_now = s_time 1,
     ce_re = (\<lambda>g p r s. None), ce_md5 = (\<lambda>s. s), ce_resolve = (\<lambda>h. None), ce_src_is_ip = True,
     ce_rtpp_ok = True,
     ce_calls = (\<lambda>l e. []), ce_ref = 1, ce_ltag = ''lt''\<rparr>"

definition w_generic :: cc_generic where
  "w_generic = (newCCEventGeneric 1 (s_time 1) None [] [])\<lparr>ev_max_forwards := Some (newSipNumericHF 70)\<rparr>"

definition w_try :: try_info where
  "w_try = \<lparr>try_call_id = Some ''c1'', try_cli = ''100'', try_cld = ''200'', try_caller_name = [], try_auth_hdr = None,
     try_body = None, try_routes = []\<rparr>"

definition w_cc0 :: call_controller where
  "w_cc0 = NewCallController 1 ''192.0.2.9'' s_peer [] ''g'' None 5 1"

definition w_cc1 :: call_controller where
  "w_cc1 = cc_step (w_env False) (N_event LegA (CCEventTry w_generic w_try)) w_cc0"

lemma w_cc1_attempts: "map fst (attempts w_cc1) = [1]"
  by code_simp

theorem routes_tried_once_in_order_witness:
  "map fst (attempts w_cc1) = [1] \<and> sorted_wrt (<) (map fst (attempts w_cc1) @ route_numbers w_cc1)
     \<and> distinct (map (event_call_id \<circ> snd) (attempts w_cc1))"
proof -
  have "reach b2b_init b2b_step (False, w_cc0)"
    unfolding w_cc0_def by (rule reach_init) (unfold b2b_init_def, blast)
  from reach_step [OF this b2b_step.input [of False w_cc0 "w_env False" "N_event LegA (CCEventTry w_generic w_try)"]]
  obtain p where "reach b2b_init b2b_step (p, w_cc1)" unfolding w_cc1_def by blast
  from routes_tried_once_in_order [OF this] w_cc1_attempts show ?thesis by blast
qed

definition w_hunting :: call_controller where
  "w_hunting = w_cc0\<lparr>cc_state := CCStateARComplete, cc_cId := Some ''c1'', cc_eTry := Some (w_generic, w_try),
     cc_uaO := True, cc_routes := [w_route 2, w_route 3]\<rparr>"

definition w_failure :: cc_event where
  "w_failure = CCEventFail w_generic [] 486 ''Busy Here'' None"

theorem caller_told_when_routes_run_out_witness:
  "C_event LegA w_failure \<in> set (drop 0 (cc_acts (leg_events (replicate 3 (w_env False, w_failure)) w_hunting)))"
proof -
  have "length (cc_routes w_hunting) < length (replicate 3 (w_env False, w_failure))" by (simp add: w_hunting_def)
  moreover have "event_GetBody w_failure = None" by (simp add: w_failure_def)
  then have "event_ok w_failure" and same: "relayed w_failure ev' \<longleftrightarrow> ev' = w_failure" for ev'
    by (simp_all add: event_ok_def relayed_def)
  then have "\<forall>(env, ev) \<in> set (replicate 3 (w_env False, w_failure)). event_ok ev" by simp
  ultimately obtain ev' where "relayed w_failure ev'"
    "C_event LegA ev' \<in> set (drop (length (cc_acts w_hunting)) (cc_acts (leg_events (replicate 3 (w_env False, w_failure)) w_hunting)))"
    using caller_told_when_routes_run_out [of w_hunting "replicate 3 (w_env False, w_failure)"] by auto
  then show ?thesis using same set_drop_subset by fastforce
qed

theorem placed_call_loses_a_hop_witness:
  "\<exists>ev. attempts (placeOriginate (w_env False) (w_route 1) w_hunting) = [(1, ev)]
     \<and> ev_max_forwards (generic ev) = Some (newSipNumericHF 69)"
proof -
  have e: "cc_eTry w_hunting = Some (w_generic, w_try)" by (simp add: w_hunting_def)
  have h: "ev_max_forwards w_generic = Some (newSipNumericHF 70)" by (simp add: w_generic_def)
  have n: "snd (numeric_GetBody (newSipNumericHF 70)) = Inr 70" by code_simp
  have "map fst (attempts (placeOriginate (w_env False) (w_route 1) w_hunting)) = [1]" by code_simp
  moreover have "attempts w_hunting = []" "br_rnum (w_route 1) = 1" by code_simp+
  ultimately show ?thesis
    using placed_call_loses_a_hop [OF e h n, of "w_env False" "w_route 1"] by auto
qed


theorem default_limit_loses_credit_witness:
  "\<exists>r. r \<in> set (usable_routes (w_env False) (30 * second) w_cc0 0 [w_route 0])
     \<and> u_credit_time (originating_leg (w_env False) r s_peer w_cc0) = None"
proof -
  obtain r rs where r: "usable_routes (w_env False) (30 * second) w_cc0 0 [w_route 0] = r # rs"
  proof -
    have "length (usable_routes (w_env False) (30 * second) w_cc0 0 [w_route 0]) = 1" by code_simp
    then show thesis using that by (cases "usable_routes (w_env False) (30 * second) w_cc0 0 [w_route 0]") auto
  qed
  have "cf_Max_credit_time (ce_cf (w_env False)) = -1" by (simp add: w_env_def w_cf_def)
  from default_limit_loses_credit [OF this, of r "30 * second" w_cc0 0 "[w_route 0]" "w_env False" s_peer w_cc0] r
  show ?thesis by auto
qed

theorem group_timeout_ends_the_call_witness:
  "cc_acts (group_expires (w_env False) 3 w_hunting) = [C_disconnect LegO None]
     \<and> RecvEvent_O (w_env False) (CCEventDisconnect w_generic None) (group_expires (w_env False) 3 w_hunting)
       = leg_event (w_env False) LegA (CCEventDisconnect w_generic None) (group_expires (w_env False) 3 w_hunting)"
proof -
  have a: "cc_state w_hunting = CCStateARComplete" "early (ce_a_state (w_env False))"
    "sorted_wrt (<) (route_numbers w_hunting)" "3 \<in> set (route_numbers w_hunting)"
    by (simp_all add: w_hunting_def w_env_def early_def route_numbers_def w_route_def)
  have "cc_acts w_hunting = []"
    by (simp add: w_hunting_def w_cc0_def NewCallController_def)
  with group_timeout_ends_the_call [OF a, of "w_env False" w_generic None] show ?thesis by simp
qed

end
