(* ===== verification/Call_Witnesses.thy ===== *)
theory Call_Witnesses
  imports B2b_Calls B2b_Accounting B2b_Witnesses Sdp_Versions Ua_Witnesses
begin

text \<open>Descriptions, attributes, accounting records and a table of calls on which the properties of the RADIUS B2BUA are applied.\<close>

section \<open>Descriptions\<close>

definition w_origin :: "int \<Rightarrow> sdp_origin" where
  "w_origin v = \<lparr>so_username = ''-'', so_session_id = ''7'', so_version = v, so_network_type = ''IN'', so_address_type = ''IP4'',
     so_address = ''192.0.2.7''\<rparr>"

definition w_media :: sdp_section where
  "w_media = \<lparr>ms_m = Some \<lparr>sm_stype = ''audio'', sm_port = ''4000'', sm_transport = ''RTP/AVP'', sm_formats = [''0'', ''8'']\<rparr>, ms_i = None,
     ms_c = Some Shared, ms_b = None, ms_k = None, ms_a = [''rtpmap:8 PCMA/8000'', ''sendrecv'']\<rparr>"

definition w_sdp :: "int \<Rightarrow> sdp_body" where
  "w_sdp v = empty_sdp\<lparr>sd_sections := [w_media, w_media], sd_v := Some ''0'', sd_o := Some (w_origin v), sd_s := Some ''-'',
     sd_t := Some ''0 0'', sd_shared := Some \<lparr>sc_ntype = ''IN'', sc_atype = ''IP4'', sc_addr = ''192.0.2.7''\<rparr>\<rparr>"

lemma w_sdp_ok: "sdp_ok (w_sdp 3)"
proof -
  have "origin_ok (w_origin 3)" "list_all opt_ok [sd_v (w_sdp 3), sd_s (w_sdp 3), sd_i (w_sdp 3), sd_u (w_sdp 3), sd_e (w_sdp 3),
      sd_p (w_sdp 3), sd_b (w_sdp 3), sd_t (w_sdp 3), sd_r (w_sdp 3), sd_z (w_sdp 3), sd_k (w_sdp 3)]"
    "list_all value_ok (ms_a w_media)" "media_ok (the (ms_m w_media))" "connection_ok (the (sd_shared (w_sdp 3)))" by code_simp+
  then show ?thesis
    by (simp add: sdp_ok_def section_ok_def section_c_def w_sdp_def empty_sdp_def w_media_def opt_ok_def)
qed

theorem sdp_roundtrip_witness:
  "\<exists>t b'. sdp_String (w_sdp 3) = Inr t \<and> ParseSdpBody t = Inr b' \<and> sdp_GetCopy b' = sdp_GetCopy (w_sdp 3)"
  by (rule sdp_roundtrip [OF w_sdp_ok])


section \<open>Attributes and answers\<close>

definition w_avps :: "avp list" where
  "w_avps = [(''User-Name'', ''alice''), (''call-id'', ''c1''), (''h323-remote-address'', ''192.0.2.9'')]"

theorem radius_attributes_roundtrip_witness: "rr_Avps (process_result (map reply_line w_avps @ [''0''])) = w_avps"
proof -
  have "list_all avp_ok w_avps" by code_simp
  then show ?thesis by (rule radius_attributes_roundtrip)
qed

definition w_items :: "work_item list" where
  "w_items = [\<lparr>wi_data = [''AUTH'', ''a''], wi_cancelled = False\<rparr>, \<lparr>wi_data = [''ACCT''], wi_cancelled = True\<rparr>,
     \<lparr>wi_data = [''ACCT'', ''b''], wi_cancelled = False\<rparr>]"

theorem worker_answers_match_witness:
  "worker_run w_items (concat (map (\<lambda>wi. if wi_cancelled wi then [] else answer_bytes [hd (wi_data wi), ''0'']) w_items))
     = ([batch [''AUTH'', ''a''], batch [''ACCT'', ''b'']], [Some [''AUTH'', ''0''], None, Some [''ACCT'', ''0'']])"
proof -
  have t: "TrimSpace ''0'' \<noteq> []" "TrimSpace ''AUTH'' \<noteq> []" "TrimSpace ''ACCT'' \<noteq> []" by code_simp+
  then have h: "list_all (\<lambda>wi. answer_ok [hd (wi_data wi), ''0'']) w_items"
    by (simp add: w_items_def answer_ok_def bufio_size_def without_cr_def)
  have "(map (batch \<circ> wi_data) (filter (Not \<circ> wi_cancelled) w_items),
       map (\<lambda>wi. if wi_cancelled wi then None else Some (map (TrimSpace \<circ> without_cr) [hd (wi_data wi), ''0''])) w_items)
     = ([batch [''AUTH'', ''a''], batch [''ACCT'', ''b'']], [Some [''AUTH'', ''0''], None, Some [''ACCT'', ''0'']])" by code_simp
  with worker_answers_match [of "\<lambda>d. [hd d, ''0'']" w_items, OF h] show ?thesis by simp
qed

section \<open>Accounting\<close>

text \<open>A leg that connected after two seconds and was disconnected after another 10.6 seconds.\<close>

definition w_leg :: ua where
  "w_leg = s_ua\<lparr>u_setup_ts := Some (s_time 0), u_connect_ts := Some (s_time (2 * second)),
     u_disconnect_ts := Some (s_time (2 * second + 10600 * millisecond))\<rparr>"

definition w_acct :: acct_config where
  "w_acct = \<lparr>ac_Alive_acct_int = 30, ac_Start_acct_enable = True, ac_Precise_acct = False\<rparr>"

definition w_reports :: "acct_input list" where
  "w_reports = [A_conn (s_uaenv 1) w_leg None ''caller'', A_timer (s_uaenv 2), A_disc (s_uaenv 3) w_leg None ''callee'' 0,
     A_disc (s_uaenv 4) w_leg None ''caller'' 0, A_closed]"

theorem one_start_one_stop_witness:
  "\<exists>a'. acct_run w_acct w_reports (SetParams ''u'' ''a'' ''b'' ''g'' ''c1'' ''192.0.2.9'' [] (NewRadiusAccounting ''answer'')) = Some a'
    \<and> count_list (sent_types a') ''Start'' \<le> 1 \<and> count_list (sent_types a') ''Stop'' = 1"
proof -
  have h: "list_all acct_input_ok w_reports" by (simp add: w_reports_def w_leg_def)
  have "list_ex is_disc w_reports" by (simp add: w_reports_def)
  with one_start_one_stop [OF h, of w_acct "''u''" "''a''" "''b''" "''g''" "''c1''" "''192.0.2.9''" "[]" "''answer''"] show ?thesis by simp
qed

theorem stop_bills_the_call_witness:
  "\<exists>a a' avps n. acct_run w_acct (take 2 w_reports)
       (SetParams ''u'' ''a'' ''b'' ''g'' ''c1'' ''192.0.2.9'' [] (NewRadiusAccounting ''answer'')) = Some a
    \<and> acct_Disc w_acct (s_uaenv 3) w_leg (Some (s_time 4)) ''caller'' 0 a = Some a' \<and> ra_sent a' = ra_sent a @ [(''Stop'', avps)]
    \<and> filter (\<lambda>x. fst x = ''Acct-Session-Time'') avps = [(''Acct-Session-Time'', Itoa n)]
    \<and> 2 * \<bar>n * second - 10600 * millisecond\<bar> \<le> second"
proof -
  have h: "list_all acct_input_ok (take 2 w_reports)" "\<not> list_ex is_disc (take 2 w_reports)" "u_setup_ts w_leg \<noteq> None"
    by (simp_all add: w_reports_def w_leg_def)
  have "u_connect_ts w_leg = Some (s_time (2 * second))" "u_disconnect_ts w_leg = Some (s_time (2 * second + 10600 * millisecond))"
    by (simp_all add: w_leg_def)
  with stop_bills_the_call [OF h, of w_acct "''u''" "''a''" "''b''" "''g''" "''c1''" "''192.0.2.9''" "[]" "''answer''" "s_uaenv 3"
      "s_time 4" "''caller''" 0] show ?thesis by (simp add: mt_Sub_def s_time_def)
qed

section \<open>The table of calls\<close>

definition w_config :: my_config where
  "w_config = NewMyConfigParser\<lparr>Accept_ips_map := [''192.0.2.7'']\<rparr>"

definition w_dialog :: "my_config \<Rightarrow> dialog_env" where
  "w_dialog c = \<lparr>de_sip = s_cfg, de_cfg = c, de_proxy = False, de_aes = w_aes, de_iv = w_iv, de_rnd = [], de_guid = ''0123456789abcdef'',
     de_gseq = 1, de_sid = 1\<rparr>"

definition w_invite :: sip_request where
  "w_invite = (s_request ''INVITE'' 1 ''b1'' [])\<lparr>m_source := Some s_peer, m_rtime := Some (s_time 5)\<rparr>"

lemma w_invite_call: "\<exists>cm'. OnNewDialog (w_dialog w_config) w_invite NewCallMap = (D_call 0, cm')"
  by (simp add: OnNewDialog_def w_invite_def new_invite_def start_call_def dialog_challenge_def checkIP_def w_dialog_def
      w_config_def NewMyConfigParser_def NewCallMap_def s_peer_def NewHostPort_def NewMyAddress_def normalize_def Let_def)

lemma w_map_reach: "reach map_init map_step NewCallMap"
  by (rule reach_init) (simp add: map_init_def)

theorem new_calls_get_fresh_numbers_witness:
  "cm_ccmap NewCallMap 0 = None \<and> (\<exists>cc. cm_ccmap (snd (OnNewDialog (w_dialog w_config) w_invite NewCallMap)) = (cm_ccmap NewCallMap)(0 \<mapsto> cc)
     \<and> cc_id cc = 0 \<and> cc_state cc = CCStateIdle)"
proof -
  obtain cm' where c: "OnNewDialog (w_dialog w_config) w_invite NewCallMap = (D_call 0, cm')"
    using w_invite_call by blast
  from new_calls_get_fresh_numbers [OF w_map_reach, where env = "w_dialog w_config" and req = w_invite] show ?thesis unfolding c by auto
qed

theorem calls_are_isolated_witness:
  "cm_ccmap (run_call 0 (cc_step (w_env True) (N_disconnect None)) (snd (OnNewDialog (w_dialog w_config) w_invite NewCallMap))) 1
     = cm_ccmap (snd (OnNewDialog (w_dialog w_config) w_invite NewCallMap)) 1"
proof -
  have "map_step NewCallMap (snd (OnNewDialog (w_dialog w_config) w_invite NewCallMap))"
    by (rule map_step.dialog) (simp add: NewCallMap_def int64_max_def)
  from reach_step [OF w_map_reach this] calls_are_isolated [of _ 1 0 "w_env True" "N_disconnect None"] show ?thesis by simp
qed

definition w_login :: string where
  "w_login = ''INVITE sip:b@h SIP/2.0'' @ CRLF @ ''v: SIP/2.0/UDP h;branch=z1'' @ CRLF @ ''f: <sip:a@h>;tag=x'' @ CRLF
     @ ''t: <sip:b@h>'' @ CRLF @ ''i: c1'' @ CRLF @ ''CSeq: 1 INVITE'' @ CRLF
     @ ''Authorization: Digest username='' @ [CHR 0x22] @ ''a'' @ [CHR 0x22] @ CRLF @ CRLF"

lemma w_login_parses: "case ParseSipRequest w_pe (Some (s_time 1)) w_login of
    Inr rq \<Rightarrow> (case m_sip_authorization rq of Some (Inr a) \<Rightarrow> au_username a = ''a'' | _ \<Rightarrow> False) | Inl e \<Rightarrow> False"
  by code_simp

theorem digest_only_admits_no_call_witness:
  "\<exists>req. ParseSipRequest w_pe (Some (s_time 1)) w_login = Inr req \<and> m_sip_authorization req \<noteq> None
     \<and> (\<forall>i. fst (OnNewDialog (w_dialog (w_config\<lparr>Digest_auth := True, Digest_auth_only := True\<rparr>)) (req\<lparr>m_source := Some s_peer\<rparr>) NewCallMap) \<noteq> D_call i)"
proof -
  obtain req where r: "ParseSipRequest w_pe (Some (s_time 1)) w_login = Inr req" and a: "m_sip_authorization req \<noteq> None"
    using w_login_parses by (auto split: sum.splits option.splits)
  have c: "Auth_enable (de_cfg (w_dialog (w_config\<lparr>Digest_auth := True, Digest_auth_only := True\<rparr>)))" "Digest_auth (de_cfg (w_dialog (w_config\<lparr>Digest_auth := True, Digest_auth_only := True\<rparr>)))"
    "Digest_auth_only (de_cfg (w_dialog (w_config\<lparr>Digest_auth := True, Digest_auth_only := True\<rparr>)))"
    by (simp_all add: w_dialog_def w_config_def NewMyConfigParser_def)
  from digest_only_admits_no_call [OF r c, of "Some s_peer" NewCallMap] r a show ?thesis by blast
qed

section \<open>Payload types\<close>

definition w_offer :: msg_body where
  "w_offer = NewMsgBody (''v=0'' @ CRLF @ ''o=- 7 3 IN IP4 192.0.2.7'' @ CRLF @ ''s=-'' @ CRLF @ ''t=0 0'' @ CRLF
     @ ''m=audio 4000 RTP/AVP 0 8'' @ CRLF @ ''c=IN IP4 192.0.2.7'' @ CRLF @ ''a=rtpmap:0 PCMU/8000'' @ CRLF) ''application/sdp''"

lemma w_offer_parses: "case GetSdp w_offer of (b1, Inr d) \<Rightarrow> (case sd_sections d of s # ss \<Rightarrow> (case ms_m s of
      Some m \<Rightarrow> ToLower (sm_transport m) = ''rtp/avp'' \<and> sm_formats m = [''0'', ''8''] | None \<Rightarrow> False) | [] \<Rightarrow> False) | (b1, Inl e) \<Rightarrow> False"
  by code_simp

lemma w_offer_sdp: "\<exists>b1 d s ss m. GetSdp w_offer = (b1, Inr d) \<and> sd_sections d = s # ss \<and> ms_m s = Some m
    \<and> ToLower (sm_transport m) = ''rtp/avp'' \<and> sm_formats m = [''0'', ''8'']"
proof -
  obtain b1 r where g: "GetSdp w_offer = (b1, r)" by (cases "GetSdp w_offer")
  with w_offer_parses obtain d where r: "r = Inr d" by (cases r) auto
  with w_offer_parses g obtain s ss where s: "sd_sections d = s # ss" by (cases "sd_sections d") auto
  with w_offer_parses g r obtain m where "ms_m s = Some m" by (cases "ms_m s") auto
  then show ?thesis using w_offer_parses g r s by auto
qed

definition w_ini :: ini_reader where
  "w_ini = \<lparr>ini_loads = True, ini_Bool = (\<lambda>n d. d), ini_Get = (\<lambda>n d. if n = ''general.allowed_pts'' then ''0,8'' else d)\<rparr>"

lemma w_late_config:
  assumes "0 < Sip_port c" "Sip_port c \<le> 65535" "Keepalive_ans c = 0" "Keepalive_orig c = 0" "Max_credit_time c = -1"
  shows "\<exists>c'. late_config True (new_flags\<lparr>fv_readconf := f\<rparr>) c = Inr c' \<and> Allowed_pts c' = Allowed_pts c"
  using assms by (simp add: late_config_def new_flags_def keepalive_level_def keepalives_def accounting_level_def config_lists_def Let_def)

lemma w_early_config:
  "Sip_address c = [] \<Longrightarrow> \<exists>c'. early_config (new_flags\<lparr>fv_readconf := f\<rparr>) c = Inr c'"
  by (simp add: early_config_def new_flags_def Let_def)

lemma w_file_options:
  assumes "f \<noteq> []"
  shows "Allowed_pts (try_read w_ini f c) = ''0,8''" "Sip_port (try_read w_ini f c) = 5060" "Keepalive_ans (try_read w_ini f c) = 0"
    "Keepalive_orig (try_read w_ini f c) = 0" "Max_credit_time (try_read w_ini f c) = -1"
  using assms
  by (simp_all add: try_read_def w_ini_def str_opts_def int_opts_def bool_opts_def Atoi_Itoa int64_min_def int64_max_def)

lemma w_file_config:
  "\<exists>c. config_Parse True w_ini [F_str ''config'' ''f''] NewMyConfigParser = Inr c \<and> Allowed_pts c = ''0,8''"
proof -
  let ?c = "setup_short (setupOpts NewMyConfigParser)"
  have t: "TrimSpace ''f'' = ''f''" by code_simp
  have flags: "fold flag_Parse [F_str ''config'' ''f''] (?c, new_flags) = (?c, new_flags\<lparr>fv_readconf := ''f''\<rparr>)" by simp
  have "Sip_address (setup_short c) = []" for c by (simp add: setup_short_def set_defaults_def short_strs_def)
  then obtain c1 where c1: "early_config (new_flags\<lparr>fv_readconf := ''f''\<rparr>) ?c = Inr c1" using w_early_config by blast
  obtain c' where "late_config True (new_flags\<lparr>fv_readconf := ''f''\<rparr>) (try_read w_ini ''f'' c1) = Inr c'" "Allowed_pts c' = ''0,8''"
    using w_late_config [of "try_read w_ini ''f'' c1" "''f''"] w_file_options [of "''f''" c1] by auto
  then show ?thesis unfolding config_Parse_def flags by (simp add: c1 t)
qed

theorem file_allowed_pts_refuse_media_witness:
  "\<exists>c. config_Parse True w_ini [F_str ''config'' ''f''] NewMyConfigParser = Inr c \<and> Allowed_pts c = ''0,8''
     \<and> allowed_body ((w_env False)\<lparr>ce_cf := controller_config s_cfg None c\<rparr>) (Some w_offer) = Inl (488, ''Not Acceptable Here'')"
proof -
  obtain c where c: "config_Parse True w_ini [F_str ''config'' ''f''] NewMyConfigParser = Inr c" "Allowed_pts c = ''0,8''"
    using w_file_config by blast
  obtain b1 d s ss m where o': "GetSdp w_offer = (b1, Inr d)" "sd_sections d = s # ss" "ms_m s = Some m"
      "ToLower (sm_transport m) = ''rtp/avp''" "sm_formats m = [''0'', ''8'']"
    using w_offer_sdp by blast
  have h: "list_all (Not \<circ> sets_pts) [F_str ''config'' ''f'']" "Allowed_pts c \<noteq> []" "[] \<notin> set (sm_formats m)"
    using c(2) o'(5) by simp_all
  show ?thesis
    using file_allowed_pts_refuse_media [OF c(1) h(1,2) _ o'(1-4) h(3), of "(w_env False)\<lparr>ce_cf := controller_config s_cfg None c\<rparr>" s_cfg None] c
    by simp
qed

definition w_g711a :: cc_env where
  "w_g711a = (w_env False)\<lparr>ce_cf := (w_cf False)\<lparr>cf_Allowed_pts := ''8'', cf_Allowed_pts_map := [''8'']\<rparr>\<rparr>"

lemma w_g711a_passes: "case allowed_body w_g711a (Some w_offer) of Inr (Some b') \<Rightarrow> True | _ \<Rightarrow> False"
  by code_simp

theorem only_allowed_payloads_pass_witness:
  "\<exists>b' d' s' m' ss. allowed_body w_g711a (Some w_offer) = Inr (Some b') \<and> mb_sdp b' = Some d' \<and> sd_sections d' = s' # ss
     \<and> ms_m s' = Some m' \<and> sm_formats m' = [''8'']"
proof -
  obtain b' where b': "allowed_body w_g711a (Some w_offer) = Inr (Some b')"
    using w_g711a_passes by (auto split: sum.splits option.splits)
  obtain b1 d s ss m where o': "GetSdp w_offer = (b1, Inr d)" "sd_sections d = s # ss" "ms_m s = Some m"
      "ToLower (sm_transport m) = ''rtp/avp''" "sm_formats m = [''0'', ''8'']"
    using w_offer_sdp by blast
  have a: "cf_Allowed_pts (ce_cf w_g711a) \<noteq> []" "cf_Allowed_pts_map (ce_cf w_g711a) = [''8'']" by (simp_all add: w_g711a_def)
  from only_allowed_payloads_pass [OF a(1) b' o'(1,2)] o'(3-5) have "mb_sdp b' = Some (d\<lparr>sd_sections := s\<lparr>ms_m := Some (m\<lparr>sm_formats := [''8'']\<rparr>),
      ms_a := filter (\<lambda>a. attribute_pt a = [] \<or> attribute_pt a \<in> {''8''}) (ms_a s)\<rparr> # ss\<rparr>)"
    by (simp add: a(2))
  with b' show ?thesis by fastforce
qed

end
