(* ===== verification/Rtpp_Cmd.thy ===== *)
theory Rtpp_Cmd
  imports Sippy_Text Sippy_Time
begin

text \<open>
  Commands of the RTP proxy control protocol, \<^verbatim>\<open>sippy/rtp_proxy/cmd.go\<close>: the options of an update or lookup
  command, whole commands, read and printed, and the counters a proxy reports. A Go slice that may be nil is an option.
  The conversions of floating point numbers are arguments.
\<close>

section \<open>Options of update and lookup commands\<close>

text \<open>The longest beginning of bytes in the set, or outside of it, and the rest.\<close>

definition extract_to_next_token :: "string \<Rightarrow> string \<Rightarrow> bool \<Rightarrow> string \<times> string" where
  "extract_to_next_token s match invert =
     (let p = (\<lambda>c. if invert then c \<notin> set match else c \<in> set match) in (takeWhile p s, dropWhile p s))"

record update_lookup_opts =
  ul_DestinationIP :: string
  ul_LocalIP :: string
  ul_Codecs :: "string list option"
  ul_Otherparams :: string
  ul_RemoteIP :: string
  ul_RemotePort :: string
  ul_FromTag :: string
  ul_ToTag :: string
  ul_NotifySocket :: string
  ul_NotifyTag :: string
  ul_SubArgs :: string

definition address_chars :: string where "address_chars = ''1234567890.''"
definition codec_chars :: string where "codec_chars = ''1234567890,''"

function read_options :: "string \<Rightarrow> update_lookup_opts \<Rightarrow> update_lookup_opts" where
  "read_options [] self = self"
| "read_options (c # s) self =
     (if c = CHR ''R'' then
        (case extract_to_next_token s address_chars False of
           (v, t) \<Rightarrow> read_options t (if TrimSpace v = [] then self else self\<lparr>ul_DestinationIP := TrimSpace v\<rparr>))
      else if c = CHR ''L'' then
        (case extract_to_next_token s address_chars False of
           (v, t) \<Rightarrow> read_options t (if TrimSpace v = [] then self else self\<lparr>ul_LocalIP := TrimSpace v\<rparr>))
      else if c = CHR ''c'' then
        (case extract_to_next_token s codec_chars False of
           (v, t) \<Rightarrow> read_options t (if TrimSpace v = [] then self
             else self\<lparr>ul_Codecs := Some (go_split (CHR '','') (TrimSpace v))\<rparr>))
      else
        (case extract_to_next_token (c # s) ''cR'' True of
           (v, t) \<Rightarrow> read_options t (self\<lparr>ul_Otherparams := ul_Otherparams self @ v\<rparr>)))"
  by pat_completeness auto

termination
  by (relation "measure (length \<circ> fst)")
    (auto simp: extract_to_next_token_def Let_def less_Suc_eq_le length_dropWhile_le)

definition no_opts :: update_lookup_opts where
  "no_opts = \<lparr>ul_DestinationIP = [], ul_LocalIP = [], ul_Codecs = None, ul_Otherparams = [], ul_RemoteIP = [], ul_RemotePort = [],
     ul_FromTag = [], ul_ToTag = [], ul_NotifySocket = [], ul_NotifyTag = [], ul_SubArgs = []\<rparr>"

text \<open>The tags and the notification address behind address and port.\<close>

definition read_tags :: "string \<Rightarrow> update_lookup_opts \<Rightarrow> update_lookup_opts result" where
  "read_tags s self =
     (case FieldsN s 2 of
        [] \<Rightarrow> Inl index_panic
      | f # more_fields \<Rightarrow>
          (let o1 = self\<lparr>ul_FromTag := f\<rparr> in
           case more_fields of
             [] \<Rightarrow> Inr o1
           | r # _ \<Rightarrow>
               (case FieldsN r 3 of
                  [t] \<Rightarrow> Inr (o1\<lparr>ul_ToTag := t\<rparr>)
                | [n, g] \<Rightarrow> Inr (o1\<lparr>ul_NotifySocket := n, ul_NotifyTag := g\<rparr>)
                | t # n # g # _ \<Rightarrow> Inr (o1\<lparr>ul_ToTag := t, ul_NotifySocket := n, ul_NotifyTag := g\<rparr>)
                | [] \<Rightarrow> Inl index_panic)))"

definition NewUpdateLookupOpts :: "string \<Rightarrow> string \<Rightarrow> update_lookup_opts result" where
  "NewUpdateLookupOpts s args =
     (let (args1, subargs) = (case cut_at '' && '' args of Some (a, b) \<Rightarrow> (a, Some b) | None \<Rightarrow> (args, None)) in
      case FieldsN args1 3 of
        [ip, port, rest] \<Rightarrow>
          bind_result (read_tags rest (no_opts\<lparr>ul_RemoteIP := ip, ul_RemotePort := port\<rparr>)) (\<lambda>o1.
            let o2 = read_options s o1 in
            Inr (case subargs of Some b \<Rightarrow> o2\<lparr>ul_SubArgs := b\<rparr> | None \<Rightarrow> o2))
      | _ \<Rightarrow> Inl ''The lookup opts must have at least three arguments'')"

text \<open>A text behind a prefix, nothing when it is empty.\<close>

definition after :: "string \<Rightarrow> string \<Rightarrow> string" where
  "after pre s = (if s = [] then [] else pre @ s)"

definition options_text :: "update_lookup_opts \<Rightarrow> string" where
  "options_text self =
     after ''R'' (ul_DestinationIP self) @ after ''L'' (ul_LocalIP self)
     @ (case ul_Codecs self of Some cs \<Rightarrow> ''c'' @ go_join (CHR '','') cs | None \<Rightarrow> [])
     @ ul_Otherparams self"

definition Getstr :: "string \<Rightarrow> bool \<Rightarrow> bool \<Rightarrow> update_lookup_opts \<Rightarrow> string result" where
  "Getstr call_id swaptags skipnotify self =
     (if swaptags \<and> ul_ToTag self = [] then Inl ''UpdateLookupOpts::Getstr(swaptags = True): ToTag is not set''
      else
        (let (from, to) = (if swaptags then (ul_ToTag self, ul_FromTag self) else (ul_FromTag self, ul_ToTag self)) in
         Inr (options_text self @ '' '' @ call_id @ after '' '' (ul_RemoteIP self) @ after '' '' (ul_RemotePort self)
              @ after '' '' from @ after '' '' to
              @ (if skipnotify then [] else after '' '' (ul_NotifySocket self) @ after '' '' (ul_NotifyTag self))
              @ after '' && '' (ul_SubArgs self))))"

section \<open>Commands\<close>

record rtp_proxy_cmd =
  pc_Type :: char
  pc_ULOpts :: "update_lookup_opts option"
  pc_CommandOpts :: string
  pc_CallId :: string
  pc_Args :: string
  pc_Nretr :: int

text \<open>The letter of a command in upper case; a byte outside ASCII becomes the first byte of the replacement character.\<close>

definition cmd_type :: "char \<Rightarrow> char" where
  "cmd_type c = (if 128 \<le> (of_char c :: nat) then CHR 0xEF else upper c)"

definition session_cmds :: string where "session_cmds = ''ULDPSRCQ''"

definition new_cmd :: "char \<Rightarrow> rtp_proxy_cmd" where
  "new_cmd c = \<lparr>pc_Type = c, pc_ULOpts = None, pc_CommandOpts = [], pc_CallId = [], pc_Args = [], pc_Nretr = 0\<rparr>"

definition NewRtp_proxy_cmd :: "string \<Rightarrow> rtp_proxy_cmd result" where
  "NewRtp_proxy_cmd cmd =
     (case cmd of
        [] \<Rightarrow> Inl index_panic
      | c # s \<Rightarrow>
          (let self = new_cmd (cmd_type c) in
           if cmd_type c \<in> set session_cmds then
             (case FieldsN cmd 3 of
                [command_opts, call_id, args] \<Rightarrow>
                  (if cmd_type c \<in> set ''UL'' then
                     bind_result (NewUpdateLookupOpts (tl command_opts) args) (\<lambda>ul.
                       Inr (self\<lparr>pc_CallId := call_id, pc_ULOpts := Some ul\<rparr>))
                   else Inr (self\<lparr>pc_CallId := call_id, pc_Args := args, pc_CommandOpts := tl command_opts\<rparr>))
              | _ \<Rightarrow> Inl ''The command must have at least three parts'')
           else if cmd_type c = CHR ''G'' then
             (if s = [] then Inl index_panic
              else if space_len s = 0 then
                (case FieldsN s 2 of
                   [] \<Rightarrow> Inl index_panic
                 | [a] \<Rightarrow> Inr (self\<lparr>pc_CommandOpts := a\<rparr>)
                 | a # b # _ \<Rightarrow> Inr (self\<lparr>pc_CommandOpts := a, pc_Args := b\<rparr>))
              else Inr (self\<lparr>pc_Args := TrimSpace s\<rparr>))
           else Inr (self\<lparr>pc_CommandOpts := s\<rparr>)))"

definition cmd_String :: "rtp_proxy_cmd \<Rightarrow> string result" where
  "cmd_String self =
     bind_result
       (case pc_ULOpts self of
          Some ul \<Rightarrow> Getstr (pc_CallId self) False False ul
        | None \<Rightarrow> Inr (pc_CommandOpts self @ after '' '' (pc_CallId self)))
       (\<lambda>s. Inr (pc_Type self # s @ after '' '' (pc_Args self)))"

section \<open>Counters\<close>

text \<open>The counters are 64-bit numbers; the floating point total has its own field.\<close>

record 'f rtpp_stats =
  rs_all_names :: "string list"
  rs_Verbose :: bool
  rs_dict :: "string \<rightharpoonup> int"
  rs_total_duration :: 'f

definition NewRtpp_stats :: "'f \<Rightarrow> string list \<Rightarrow> 'f rtpp_stats" where
  "NewRtpp_stats zero snames =
     \<lparr>rs_all_names = snames, rs_Verbose = False,
      rs_dict = (\<lambda>n. if n \<in> set snames \<and> n \<noteq> ''total_duration'' then Some 0 else None), rs_total_duration = zero\<rparr>"

text \<open>Names and values go in step. The counters before a bad value stay changed; a name without a value panics.\<close>

fun add_values :: "(string \<Rightarrow> 'f result) \<Rightarrow> ('f \<Rightarrow> 'f \<Rightarrow> 'f) \<Rightarrow> string list \<Rightarrow> string list \<Rightarrow> 'f rtpp_stats \<Rightarrow> 'f rtpp_stats \<times> string option" where
  "add_values pf addf [] vs self = (self, None)"
| "add_values pf addf (n # ns) [] self = (self, Some index_panic)"
| "add_values pf addf (n # ns) (v # vs) self =
     (if n = ''total_duration'' then
        (case pf v of
           Inl e \<Rightarrow> (self, Some e)
         | Inr x \<Rightarrow> add_values pf addf ns vs (self\<lparr>rs_total_duration := addf (rs_total_duration self) x\<rparr>))
      else (case Atoi v of
              None \<Rightarrow> (self, Some (''strconv.ParseInt: parsing '' @ v))
            | Some x \<Rightarrow> add_values pf addf ns vs
                (self\<lparr>rs_dict := (rs_dict self)(n \<mapsto> wrap64 ((case rs_dict self n of Some y \<Rightarrow> y | None \<Rightarrow> 0) + x))\<rparr>)))"

definition ParseAndAdd :: "(string \<Rightarrow> 'f result) \<Rightarrow> ('f \<Rightarrow> 'f \<Rightarrow> 'f) \<Rightarrow> string \<Rightarrow> 'f rtpp_stats \<Rightarrow> 'f rtpp_stats \<times> string option" where
  "ParseAndAdd pf addf rstr self =
     add_values pf addf (rs_all_names self) (FieldsN rstr (length (rs_all_names self))) self"

definition stats_String :: "('f \<Rightarrow> string) \<Rightarrow> 'f rtpp_stats \<Rightarrow> string" where
  "stats_String ff self =
     go_join (CHR '' '') (map (\<lambda>n.
       (if rs_Verbose self then n @ ''='' else [])
       @ (if n = ''total_duration'' then ff (rs_total_duration self)
          else Itoa (case rs_dict self n of Some y \<Rightarrow> y | None \<Rightarrow> 0))) (rs_all_names self))"

section \<open>Commands survive the way to the proxy\<close>

definition rtpp_word :: "string \<Rightarrow> bool" where
  "rtpp_word w \<longleftrightarrow> no_space w \<and> w \<noteq> [] \<and> CHR ''&'' \<notin> set w"

definition opts_ok :: "update_lookup_opts \<Rightarrow> bool" where
  "opts_ok ul \<longleftrightarrow>
     set (ul_DestinationIP ul) \<subseteq> set address_chars \<and> set (ul_LocalIP ul) \<subseteq> set address_chars
     \<and> (case ul_Codecs ul of None \<Rightarrow> True | Some cs \<Rightarrow> cs \<noteq> [] \<and> cs \<noteq> [[]] \<and> list_all (\<lambda>c. set c \<subseteq> set ''1234567890'') cs)
     \<and> no_space (ul_Otherparams ul) \<and> set (ul_Otherparams ul) \<inter> set ''cR'' = {}
     \<and> (ul_Otherparams ul \<noteq> [] \<longrightarrow> hd (ul_Otherparams ul) \<notin> set (address_chars @ codec_chars @ ''L''))
     \<and> rtpp_word (ul_RemoteIP ul) \<and> rtpp_word (ul_RemotePort ul) \<and> rtpp_word (ul_FromTag ul)
     \<and> (ul_ToTag ul = [] \<or> rtpp_word (ul_ToTag ul))
     \<and> (ul_NotifySocket ul = [] \<and> ul_NotifyTag ul = [] \<or> rtpp_word (ul_NotifySocket ul) \<and> rtpp_word (ul_NotifyTag ul))"

text \<open>What a command of each kind consists of.\<close>

definition cmd_ok :: "rtp_proxy_cmd \<Rightarrow> bool" where
  "cmd_ok c \<longleftrightarrow> pc_Nretr c = 0 \<and> cmd_type (pc_Type c) = pc_Type c \<and>
     (if pc_Type c \<in> set ''UL'' then
        pc_CommandOpts c = [] \<and> pc_Args c = [] \<and> rtpp_word (pc_CallId c)
        \<and> (case pc_ULOpts c of None \<Rightarrow> False | Some ul \<Rightarrow> opts_ok ul)
      else pc_ULOpts c = None \<and>
        (if pc_Type c \<in> set session_cmds then
           no_space (pc_Type c # pc_CommandOpts c) \<and> rtpp_word (pc_CallId c) \<and> pc_Args c \<noteq> [] \<and> space_len (pc_Args c) = 0
         else if pc_Type c = CHR ''G'' then
           pc_CallId c = [] \<and> no_space (pc_CommandOpts c) \<and> space_len (pc_Args c) = 0 \<and> TrimSpace (pc_Args c) = pc_Args c
           \<and> (pc_CommandOpts c \<noteq> [] \<or> pc_Args c \<noteq> [])
         else pc_CallId c = [] \<and> pc_Args c = []))"

lemma fields_scan_word: "no_space s \<Longrightarrow> s \<noteq> [] \<Longrightarrow> 0 < n \<Longrightarrow> fields_scan n False [] 0 s = [s]"
  using fields_scan_words [of s "[]" n] by simp

lemma fields_scan_join:
  "ws \<noteq> [] \<Longrightarrow> list_all (\<lambda>w. no_space w \<and> w \<noteq> []) ws \<Longrightarrow> length ws \<le> n
     \<Longrightarrow> fields_scan n False [] 0 (go_join (CHR '' '') ws) = ws"
  using fields_scan_words [of "hd ws" "tl ws" n] by (cases ws) (auto simp: list_all_iff)

lemma FieldsN_3:
  assumes "no_space a" "a \<noteq> []" "no_space b" "b \<noteq> []" "space_len s = 0" "s \<noteq> []"
  shows "FieldsN (a @ CHR '' '' # b @ CHR '' '' # s) 3 = [a, b, s]"
  using assms by (simp add: FieldsN_def fields_scan_field fields_scan_last [unfolded One_nat_def])

lemma FieldsN_2:
  assumes "no_space a" "a \<noteq> []" "space_len s = 0" "s \<noteq> []"
  shows "FieldsN (a @ CHR '' '' # s) 2 = [a, s]"
  using assms by (simp add: FieldsN_def fields_scan_field fields_scan_last [unfolded One_nat_def])

lemma cut_subargs: "CHR ''&'' \<notin> set a \<Longrightarrow> cut_at '' && '' (a @ '' && '' @ b) = Some (a, b)"
proof (induction a)
  case (Cons c a)
  have "take (Suc (Suc (Suc 0))) (a @ '' && '' @ b) \<noteq> ''&& ''" using Cons.prems by (cases a) auto
  with Cons show ?case by simp
qed simp

lemma cut_no_subargs: "CHR ''&'' \<notin> set a \<Longrightarrow> cut_at '' && '' a = None"
proof (induction a)
  case (Cons c a)
  have "take (Suc (Suc (Suc 0))) a \<noteq> ''&& ''" using Cons.prems by (cases a) auto
  with Cons show ?case by simp
qed simp

text \<open>Reading an option stops at a byte that cannot belong to it.\<close>

definition stops :: "string \<Rightarrow> string \<Rightarrow> bool" where
  "stops cs t \<longleftrightarrow> t = [] \<or> hd t \<notin> set cs"

lemma extract_stops:
  "set v \<subseteq> set cs \<Longrightarrow> stops cs t \<Longrightarrow> extract_to_next_token (v @ t) cs False = (v, t)"
  by (cases t) (auto simp: extract_to_next_token_def stops_def Let_def takeWhile_append2 dropWhile_append2 subset_iff
      takeWhile_append dropWhile_append)

lemma no_space_chars: "no_space address_chars" "no_space codec_chars"
  by (simp_all add: address_chars_def codec_chars_def ascii_space_def)

lemma no_space_subset: "no_space s \<Longrightarrow> set t \<subseteq> set s \<Longrightarrow> no_space t"
  by (auto simp: no_space_def list_all_iff)

lemma read_address:
  assumes "v \<noteq> []" "set v \<subseteq> set address_chars" "stops address_chars t"
  shows "read_options (CHR ''R'' # v @ t) self = read_options t (self\<lparr>ul_DestinationIP := v\<rparr>)"
    and "read_options (CHR ''L'' # v @ t) self = read_options t (self\<lparr>ul_LocalIP := v\<rparr>)"
  using assms TrimSpace_no_space [OF no_space_subset [OF no_space_chars(1) assms(2)]] by (simp_all add: extract_stops)

lemma codecs_chars:
  assumes "list_all (\<lambda>c. set c \<subseteq> set ''1234567890'') cs"
  shows "set (go_join (CHR '','') cs) \<subseteq> set codec_chars"
proof -
  have "set (go_join (CHR '','') cs) \<subseteq> insert (CHR '','') (\<Union> (set ` set cs))"
    using set_each_after [of "CHR '',''" "tl cs"] by (cases cs) auto
  also have "\<dots> \<subseteq> insert (CHR '','') (set ''1234567890'')" using assms unfolding list_all_iff by blast
  also have "\<dots> \<subseteq> set codec_chars" by (simp add: codec_chars_def)
  finally show ?thesis .
qed

lemma read_codecs:
  assumes "cs \<noteq> []" "cs \<noteq> [[]]" "list_all (\<lambda>c. set c \<subseteq> set ''1234567890'') cs" "stops codec_chars t"
  shows "read_options (CHR ''c'' # go_join (CHR '','') cs @ t) self = read_options t (self\<lparr>ul_Codecs := Some cs\<rparr>)"
proof -
  let ?v = "go_join (CHR '','') cs"
  have sub: "set ?v \<subseteq> set codec_chars"
    by (rule codecs_chars [OF assms(3)])
  have "?v \<noteq> []" using assms(1,2) by (cases cs; cases "tl cs") auto
  moreover have "go_split (CHR '','') ?v = cs" using assms(1,3) by (intro go_split_join) (auto simp: list_all_iff)
  ultimately show ?thesis
    using TrimSpace_no_space [OF no_space_subset [OF no_space_chars(2) sub]] extract_stops [OF sub assms(4)] by simp
qed

lemma read_others:
  assumes "set v \<inter> set ''cR'' = {}" "v \<noteq> []" "hd v \<notin> set ''L''"
  shows "read_options v self = self\<lparr>ul_Otherparams := ul_Otherparams self @ v\<rparr>"
proof -
  obtain c t where v: "v = c # t" using assms(2) by (cases v) auto
  have "extract_to_next_token v ''cR'' True = (v, [])" using assms(1) by (auto simp: extract_to_next_token_def Let_def)
  with v assms show ?thesis by auto
qed

lemma read_options_text:
  assumes ok: "opts_ok ul" and self: "ul_DestinationIP self = []" "ul_LocalIP self = []" "ul_Codecs self = None" "ul_Otherparams self = []"
  shows "read_options (options_text ul) self
    = self\<lparr>ul_DestinationIP := ul_DestinationIP ul, ul_LocalIP := ul_LocalIP ul, ul_Codecs := ul_Codecs ul, ul_Otherparams := ul_Otherparams ul\<rparr>"
proof -
  let ?o = "ul_Otherparams ul"
  let ?c = "(case ul_Codecs ul of Some cs \<Rightarrow> ''c'' @ go_join (CHR '','') cs | None \<Rightarrow> [])"
  let ?l = "after ''L'' (ul_LocalIP ul)"
  have o_stops: "stops address_chars ?o" "stops codec_chars ?o" using ok by (auto simp: opts_ok_def stops_def)
  have c_stops: "stops address_chars (?c @ ?o)" using o_stops by (auto simp: stops_def address_chars_def split: option.splits)
  have l_stops: "stops address_chars (?l @ ?c @ ?o)" using c_stops by (auto simp: stops_def address_chars_def after_def)
  have 1: "read_options ?o s = s\<lparr>ul_Otherparams := ?o\<rparr>" if "ul_Otherparams s = []" for s :: update_lookup_opts
  proof (cases "?o = []")
    case False
    then show ?thesis using ok that by (subst read_others) (auto simp: opts_ok_def)
  qed (use that in simp)
  have 2: "read_options (?c @ ?o) s = s\<lparr>ul_Codecs := ul_Codecs ul, ul_Otherparams := ?o\<rparr>"
    if "ul_Otherparams s = []" "ul_Codecs s = None" for s :: update_lookup_opts
  proof (cases "ul_Codecs ul")
    case (Some cs)
    then show ?thesis using ok that 1 read_codecs [of cs ?o s] o_stops by (simp add: opts_ok_def)
  qed (use that 1 in simp)
  have 3: "read_options (?l @ ?c @ ?o) s = s\<lparr>ul_LocalIP := ul_LocalIP ul, ul_Codecs := ul_Codecs ul, ul_Otherparams := ?o\<rparr>"
    if "ul_Otherparams s = []" "ul_Codecs s = None" "ul_LocalIP s = []" for s :: update_lookup_opts
  proof (cases "ul_LocalIP ul = []")
    case False
    then show ?thesis using ok that 2 read_address(2) [of "ul_LocalIP ul" "?c @ ?o" s] c_stops by (simp add: opts_ok_def after_def)
  qed (use that 2 in \<open>simp add: after_def\<close>)
  show ?thesis
  proof (cases "ul_DestinationIP ul = []")
    case False
    then show ?thesis using ok self 3 read_address(1) [of "ul_DestinationIP ul" "?l @ ?c @ ?o" self] l_stops
      by (simp add: opts_ok_def options_text_def after_def)
  qed (use self 3 in \<open>simp add: options_text_def after_def\<close>)
qed

lemma options_no_space:
  assumes "opts_ok ul"
  shows "no_space (options_text ul)"
proof -
  have "no_space (ul_DestinationIP ul)" "no_space (ul_LocalIP ul)"
    using assms no_space_subset [OF no_space_chars(1)] by (simp_all add: opts_ok_def)
  moreover have "no_space (go_join (CHR '','') cs)" if "ul_Codecs ul = Some cs" for cs
    using assms that no_space_subset [OF no_space_chars(2) codecs_chars] by (simp add: opts_ok_def)
  ultimately show ?thesis
    using assms by (auto simp: options_text_def after_def opts_ok_def ascii_space_def split: option.splits)
qed

text \<open>The arguments of a command, and the words behind its address and port.\<close>

definition tag_words :: "update_lookup_opts \<Rightarrow> string list" where
  "tag_words ul = ul_FromTag ul # filter (\<lambda>w. w \<noteq> []) [ul_ToTag ul, ul_NotifySocket ul, ul_NotifyTag ul]"

definition opts_args :: "update_lookup_opts \<Rightarrow> string" where
  "opts_args ul = ul_RemoteIP ul @ '' '' @ ul_RemotePort ul @ '' '' @ go_join (CHR '' '') (tag_words ul)"

lemma Getstr_args:
  assumes "opts_ok ul"
  shows "Getstr cid False False ul = Inr (options_text ul @ '' '' @ cid @ '' '' @ opts_args ul @ after '' && '' (ul_SubArgs ul))"
  using assms by (auto simp: Getstr_def opts_ok_def rtpp_word_def after_def opts_args_def tag_words_def)

lemma read_tags_words:
  assumes "opts_ok ul" "ul_ToTag self = []" "ul_NotifySocket self = []" "ul_NotifyTag self = []"
  shows "read_tags (go_join (CHR '' '') (tag_words ul)) self
    = Inr (self\<lparr>ul_FromTag := ul_FromTag ul, ul_ToTag := ul_ToTag ul, ul_NotifySocket := ul_NotifySocket ul, ul_NotifyTag := ul_NotifyTag ul\<rparr>)"
proof -
  let ?ws = "filter (\<lambda>w. w \<noteq> []) [ul_ToTag ul, ul_NotifySocket ul, ul_NotifyTag ul]"
  have ws: "list_all (\<lambda>w. no_space w \<and> w \<noteq> []) ?ws" "length ?ws \<le> 3" and f: "no_space (ul_FromTag ul)" "ul_FromTag ul \<noteq> []"
    using assms(1) by (auto simp: opts_ok_def rtpp_word_def)
  show ?thesis
  proof (cases "?ws = []")
    case True
    then have "FieldsN (go_join (CHR '' '') (tag_words ul)) 2 = [ul_FromTag ul]" "ul_ToTag ul = []" "ul_NotifySocket ul = []" "ul_NotifyTag ul = []"
      using f by (auto simp: tag_words_def FieldsN_def fields_scan_word split: if_splits)
    then show ?thesis using assms(2-) by (simp add: read_tags_def)
  next
    case False
    let ?r = "go_join (CHR '' '') ?ws"
    have join: "go_join (CHR '' '') (tag_words ul) = ul_FromTag ul @ CHR '' '' # ?r"
      using False by (cases ?ws) (simp_all add: tag_words_def)
    have "?r \<noteq> []" "space_len ?r = 0"
      using False ws(1) by (cases ?ws; auto simp: space_len_word simp del: filter.simps)+
    then have "FieldsN (go_join (CHR '' '') (tag_words ul)) 2 = [ul_FromTag ul, ?r]"
      unfolding join using f by (intro FieldsN_2)
    moreover have "FieldsN ?r 3 = ?ws" unfolding FieldsN_def by (rule fields_scan_join [OF False ws])
    ultimately show ?thesis
      using assms False by (auto simp: read_tags_def opts_ok_def rtpp_word_def Let_def)
  qed
qed

lemma NewUpdateLookupOpts_text:
  assumes ok: "opts_ok ul"
  shows "NewUpdateLookupOpts (options_text ul) (opts_args ul @ after '' && '' (ul_SubArgs ul)) = Inr ul"
proof -
  let ?t = "go_join (CHR '' '') (tag_words ul)"
  have amp: "CHR ''&'' \<notin> set (opts_args ul)" using ok
    by (auto simp: opts_args_def tag_words_def opts_ok_def rtpp_word_def)
  have cut: "cut_at '' && '' (opts_args ul @ after '' && '' (ul_SubArgs ul))
      = (if ul_SubArgs ul = [] then None else Some (opts_args ul, ul_SubArgs ul))"
    using amp cut_subargs [OF amp, of "ul_SubArgs ul"] cut_no_subargs [OF amp] by (simp add: after_def)
  have "?t \<noteq> []" "space_len ?t = 0" using ok by (auto simp: tag_words_def opts_ok_def rtpp_word_def space_len_word)
  then have f: "FieldsN (opts_args ul) 3 = [ul_RemoteIP ul, ul_RemotePort ul, ?t]"
    using ok FieldsN_3 [of "ul_RemoteIP ul" "ul_RemotePort ul" ?t] by (simp add: opts_args_def opts_ok_def rtpp_word_def)
  let ?s = "no_opts\<lparr>ul_RemoteIP := ul_RemoteIP ul, ul_RemotePort := ul_RemotePort ul\<rparr>"
  have tags: "read_tags ?t ?s = Inr (?s\<lparr>ul_FromTag := ul_FromTag ul, ul_ToTag := ul_ToTag ul,
      ul_NotifySocket := ul_NotifySocket ul, ul_NotifyTag := ul_NotifyTag ul\<rparr>)"
    by (rule read_tags_words [OF ok]) (simp_all add: no_opts_def)
  have "cut_at '' && '' (opts_args ul) = None" by (rule cut_no_subargs [OF amp])
  then show ?thesis
    unfolding NewUpdateLookupOpts_def cut using f tags
    by (auto simp: read_options_text [OF ok] no_opts_def after_def)
qed

lemma cmd_type_session: "c \<in> set session_cmds \<Longrightarrow> cmd_type c = c \<and> no_space [c]"
  by (auto simp: session_cmds_def cmd_type_def upper_def ascii_space_def)

text \<open>
  Property C31. A command that has the parts its letter asks for is read back from its printed form as it was: type, Call-ID,
  options in any combination, address, port, tags, notification socket and sub-commands of an update or lookup, and
  options and arguments of all others.
\<close>

theorem rtpp_command_roundtrip:
  assumes "cmd_ok c"
  shows "\<exists>t. cmd_String c = Inr t \<and> NewRtp_proxy_cmd t = Inr c"
proof -
  have u: "cmd_type (pc_Type c) = pc_Type c" and n: "pc_Nretr c = 0" using assms by (simp_all add: cmd_ok_def)
  consider (ul) ul where "pc_Type c \<in> set ''UL''" "pc_ULOpts c = Some ul" "opts_ok ul" "pc_CommandOpts c = []" "pc_Args c = []" "rtpp_word (pc_CallId c)"
    | (session) "pc_Type c \<in> set session_cmds" "pc_Type c \<notin> set ''UL''" "pc_ULOpts c = None" "no_space (pc_Type c # pc_CommandOpts c)"
        "rtpp_word (pc_CallId c)" "pc_Args c \<noteq> []" "space_len (pc_Args c) = 0"
    | (G) "pc_Type c = CHR ''G''" "pc_ULOpts c = None" "pc_CallId c = []" "no_space (pc_CommandOpts c)" "space_len (pc_Args c) = 0"
        "TrimSpace (pc_Args c) = pc_Args c" "pc_CommandOpts c \<noteq> [] \<or> pc_Args c \<noteq> []"
    | (other) "pc_Type c \<notin> set session_cmds" "pc_Type c \<noteq> CHR ''G''" "pc_ULOpts c = None" "pc_CallId c = []" "pc_Args c = []"
    using assms unfolding cmd_ok_def by (auto split: if_splits option.splits)
  then show ?thesis
  proof cases
    case ul
    then have s: "pc_Type c \<in> set session_cmds" by (auto simp: session_cmds_def)
    let ?a = "opts_args ul @ after '' && '' (ul_SubArgs ul)"
    have "space_len ?a = 0" "?a \<noteq> []" using ul(3) by (auto simp: opts_args_def opts_ok_def rtpp_word_def space_len_word)
    then have "FieldsN (pc_Type c # options_text ul @ '' '' @ pc_CallId c @ '' '' @ ?a) 3 = [pc_Type c # options_text ul, pc_CallId c, ?a]"
      using FieldsN_3 [of "pc_Type c # options_text ul" "pc_CallId c" ?a] cmd_type_session [OF s] options_no_space [OF ul(3)] ul(6)
      by (simp add: rtpp_word_def)
    then show ?thesis using ul s u n NewUpdateLookupOpts_text [OF ul(3)]
      by (simp add: cmd_String_def Getstr_args NewRtp_proxy_cmd_def new_cmd_def after_def [of _ "[]"])
  next
    case session
    then have "FieldsN (pc_Type c # pc_CommandOpts c @ '' '' @ pc_CallId c @ '' '' @ pc_Args c) 3
        = [pc_Type c # pc_CommandOpts c, pc_CallId c, pc_Args c]"
      using FieldsN_3 [of "pc_Type c # pc_CommandOpts c" "pc_CallId c" "pc_Args c"] by (simp add: rtpp_word_def)
    then show ?thesis using session u n
      by (simp add: cmd_String_def NewRtp_proxy_cmd_def new_cmd_def after_def rtpp_word_def)
  next
    case G
    have s: "CHR ''G'' \<notin> set session_cmds" "cmd_type (CHR ''G'') = CHR ''G''"
      by (simp_all add: session_cmds_def cmd_type_def upper_def)
    show ?thesis
    proof (cases "pc_CommandOpts c = []")
      case True
      have "TrimSpace (CHR '' '' # pc_Args c) = TrimSpace (pc_Args c)" by (simp add: TrimSpace_def ascii_space_def)
      then show ?thesis using G True s n
        by (simp add: cmd_String_def NewRtp_proxy_cmd_def new_cmd_def after_def ascii_space_def)
    next
      case False
      have "FieldsN (pc_CommandOpts c @ after '' '' (pc_Args c)) 2 = pc_CommandOpts c # (if pc_Args c = [] then [] else [pc_Args c])"
        using G(4,5) False FieldsN_2 [of "pc_CommandOpts c" "pc_Args c"]
        by (simp add: after_def FieldsN_def fields_scan_word)
      then show ?thesis using G False s n space_len_word [of "pc_CommandOpts c" "after '' '' (pc_Args c)"]
        by (simp add: cmd_String_def NewRtp_proxy_cmd_def new_cmd_def after_def [of _ "[]"])
    qed
  next
    case other
    then show ?thesis using u n by (simp add: cmd_String_def NewRtp_proxy_cmd_def new_cmd_def after_def)
  qed
qed

end
