(* ===== verification/Rtpp_Session.thy ===== *)
theory Rtpp_Session
  imports Msg_Body Sippy_Headers
begin

text \<open>
  Media relay sessions, \<^verbatim>\<open>sippy/rtp_proxy/session/\<close>: the session with its two sides, its queue of commands of which
  one at a time is with the proxy, the answers to update commands, and the exchange of the addresses
  in a session description by those of the relay.

  Function values the code hands on are data here: what is to be done with the answer to a command, and with the
  result of an update. A callback of the application is a number. The calls the session makes to the outside are
  a log. What the client of the proxy says about itself is an argument. A command that does not fit into the
  channel blocks its sender, which holds the lock the answers need: that is the error \<open>blocked\<close>.
\<close>

definition blocked :: string where
  "blocked = ''all goroutines are asleep - deadlock''"

section \<open>State\<close>

record rtpp_caps =
  rp_sbind :: bool
  rp_local :: bool
  rp_tnot :: bool
  rp_address :: string

record update_result =
  ur_rtpproxy_address :: string
  ur_rtpproxy_port :: int
  ur_family :: string
  ur_sendonly :: bool

record subcommand =
  sb_commands :: "string list"
  sb_handleResults :: "string list \<Rightarrow> update_result \<Rightarrow> update_result \<times> string option"

datatype side = Caller | Callee

datatype up_cb =
    UP_play side string int "nat option" int
  | UP_record string "nat option" int
  | UP_sdp side nat

record update_params =
  up_remote_ip :: string
  up_remote_port :: string
  up_result_callback :: up_cb
  up_options :: string
  up_index :: int
  up_atype :: string
  up_subcommands :: "subcommand list"

definition NewUpdateParams :: "int \<Rightarrow> up_cb \<Rightarrow> update_params" where
  "NewUpdateParams index cb =
     \<lparr>up_remote_ip = ''0.0.0.0'', up_remote_port = ''0'', up_result_callback = cb, up_options = [], up_index = index,
      up_atype = ''IP4'', up_subcommands = []\<rparr>"

datatype rtpp_cb =
    CB_nil
  | CB_command "nat option"
  | CB_record1 string "nat option" int
  | CB_update side update_params

record rtpp_cmd =
  wc_cmd :: string
  wc_cb :: rtpp_cb
  wc_client :: nat

record rtpps_side =
  sp_session_exists :: bool
  sp_laddress :: string
  sp_raddress :: "host_port option"
  sp_codecs :: string
  sp_repacketize :: int
  sp_after_sdp_change :: bool
  sp_from_tag :: string
  sp_to_tag :: string

text \<open>A change of a session description under way: the body, the section its callbacks work on, and the answers still missing.\<close>

record sdp_job =
  jb_body :: msg_body
  jb_sect :: nat
  jb_left :: int

datatype rtpp_out =
    O_send nat string
  | O_result nat string
  | O_after side update_result
  | O_sdp nat "msg_body option" "string option"

record rtpp_session =
  px_call_id :: string
  px_from_tag :: string
  px_to_tag :: string
  px_client :: "nat option"
  px_max_index :: int
  px_notify_socket :: string
  px_notify_tag :: string
  px_insert_nortpp :: bool
  px_caller :: rtpps_side
  px_callee :: rtpps_side
  px_inflight :: "rtpp_cmd option"
  px_wi :: "rtpp_cmd list"
  px_jobs :: "nat \<rightharpoonup> sdp_job"
  px_njobs :: nat
  px_out :: "rtpp_out list"

definition emit_out :: "rtpp_out \<Rightarrow> rtpp_session \<Rightarrow> rtpp_session" where
  "emit_out x s = s\<lparr>px_out := px_out s @ [x]\<rparr>"

fun the_side :: "side \<Rightarrow> rtpp_session \<Rightarrow> rtpps_side" where
  "the_side Caller s = px_caller s"
| "the_side Callee s = px_callee s"

fun put_side :: "side \<Rightarrow> rtpps_side \<Rightarrow> rtpp_session \<Rightarrow> rtpp_session" where
  "put_side Caller x s = s\<lparr>px_caller := x\<rparr>"
| "put_side Callee x s = s\<lparr>px_callee := x\<rparr>"

fun otherside :: "side \<Rightarrow> side" where
  "otherside Caller = Callee"
| "otherside Callee = Caller"

definition new_side :: "string \<Rightarrow> string \<Rightarrow> rtpps_side" where
  "new_side from to =
     \<lparr>sp_session_exists = False, sp_laddress = [], sp_raddress = None, sp_codecs = [], sp_repacketize = 0,
      sp_after_sdp_change = False, sp_from_tag = from, sp_to_tag = to\<rparr>"

text \<open>The clients with their numbers, in order; the random choice and the random names are arguments.\<close>

definition NewRtp_proxy_session ::
  "bool list \<Rightarrow> nat option \<Rightarrow> string \<times> string \<times> string \<Rightarrow> string \<Rightarrow> string \<Rightarrow> string \<Rightarrow> string \<Rightarrow> string \<Rightarrow> rtpp_session result" where
  "NewRtp_proxy_session clients idx random call_id from_tag to_tag notify_socket notify_tag =
     (let online_clients = filter (\<lambda>i. clients ! i) [0..<length clients];
          n = length online_clients;
          (r1, r2, r3) = random;
          cid = (if call_id = [] then r1 else call_id);
          from = (if from_tag = [] then r2 else from_tag);
          to = (if to_tag = [] then r3 else to_tag)
      in if n = 0 then Inl ''No online RTP proxy client has been found''
         else Inr \<lparr>px_call_id = cid, px_from_tag = from, px_to_tag = to,
           px_client = Some (online_clients ! (case idx of None \<Rightarrow> 0 | Some i \<Rightarrow> i mod n)),
           px_max_index = -1, px_notify_socket = notify_socket, px_notify_tag = notify_tag, px_insert_nortpp = False,
           px_caller = new_side from to, px_callee = new_side to from, px_inflight = None, px_wi = [],
           px_jobs = Map.empty, px_njobs = 0, px_out = []\<rparr>)"

section \<open>The queue of commands\<close>

definition channel_size :: nat where "channel_size = 50"

definition send_command :: "string \<Rightarrow> rtpp_cb \<Rightarrow> rtpp_session \<Rightarrow> rtpp_session result" where
  "send_command cmd cb s =
     (case px_client s of
        None \<Rightarrow> Inr s
      | Some cl \<Rightarrow>
          (let new_cmd = \<lparr>wc_cmd = cmd, wc_cb = cb, wc_client = cl\<rparr> in
           case px_inflight s of
             None \<Rightarrow> Inr (emit_out (O_send cl cmd) (s\<lparr>px_inflight := Some new_cmd\<rparr>))
           | Some _ \<Rightarrow> if length (px_wi s) < channel_size then Inr (s\<lparr>px_wi := px_wi s @ [new_cmd]\<rparr>) else Inl blocked))"

text \<open>The command that is done, and the next one sent.\<close>

definition take_done :: "rtpp_session \<Rightarrow> rtpp_cmd option \<times> rtpp_session" where
  "take_done s =
     (px_inflight s,
      case px_wi s of
        [] \<Rightarrow> s\<lparr>px_inflight := None\<rparr>
      | c # cs \<Rightarrow> emit_out (O_send (wc_client c) (wc_cmd c)) (s\<lparr>px_inflight := Some c, px_wi := cs\<rparr>))"

definition stream_id :: "rtpp_session \<Rightarrow> int \<Rightarrow> string" where
  "stream_id s index = px_call_id s @ ''-'' @ Itoa index"

section \<open>Recording, playing, updates\<close>

definition start_recording1 :: "string \<Rightarrow> nat option \<Rightarrow> int \<Rightarrow> rtpp_session \<Rightarrow> rtpp_session result" where
  "start_recording1 rname rcb index s =
     send_command (''C '' @ stream_id s index @ '' '' @ rname @ ''.o '' @ px_to_tag s @ '' '' @ px_from_tag s) (CB_command rcb) s"

definition start_recording :: "string \<Rightarrow> nat option \<Rightarrow> int \<Rightarrow> rtpp_session \<Rightarrow> rtpp_session result" where
  "start_recording rname rcb index s =
     (if rname = [] then
        send_command (''R '' @ stream_id s index @ '' '' @ px_from_tag s @ '' '' @ px_to_tag s) (CB_command rcb) s
      else
        send_command (''C '' @ stream_id s index @ '' '' @ rname @ ''.a '' @ px_from_tag s @ '' '' @ px_to_tag s)
          (CB_record1 rname rcb index) s)"

definition play_now :: "side \<Rightarrow> string \<Rightarrow> int \<Rightarrow> nat option \<Rightarrow> int \<Rightarrow> rtpp_session \<Rightarrow> rtpp_session result" where
  "play_now sd prompt_name n_times rcb index s =
     (let self = the_side sd s in
      send_command (''P'' @ Itoa n_times @ '' '' @ stream_id s index @ '' '' @ prompt_name @ '' '' @ sp_codecs self @ '' ''
        @ sp_from_tag self @ '' '' @ sp_to_tag self) (CB_command rcb) s)"

definition bind_options :: "rtpp_caps \<Rightarrow> rtpps_side \<Rightarrow> string" where
  "bind_options caps self =
     (if rp_sbind caps then
        (case sp_raddress self of
           Some hp \<Rightarrow> ''R'' @ ma_address (hp_Host hp)
         | None \<Rightarrow> if sp_laddress self \<noteq> [] \<and> rp_local caps then ''L'' @ sp_laddress self else [])
      else [])"

definition update_command :: "rtpp_caps \<Rightarrow> side \<Rightarrow> update_params \<Rightarrow> rtpp_session \<Rightarrow> string" where
  "update_command caps sd up s =
     (let self = the_side sd s in
      ''U'' @ up_options up @ '' '' @ stream_id s (up_index up) @ '' '' @ up_remote_ip up @ '' '' @ up_remote_port up
      @ '' '' @ sp_from_tag self
      @ (if sp_session_exists (the_side (otherside sd) s) then '' '' @ sp_to_tag self else [])
      @ (if px_notify_socket s \<noteq> [] \<and> up_index up = 0 \<and> rp_tnot caps
         then '' '' @ px_notify_socket s @ '' '' @ px_notify_tag s else []))"

text \<open>Without a client, after the session was deleted, nothing happens any more.\<close>

definition update :: "rtpp_caps \<Rightarrow> side \<Rightarrow> update_params \<Rightarrow> rtpp_session \<Rightarrow> rtpp_session result" where
  "update caps sd up s =
     (let s1 = s\<lparr>px_max_index := max (px_max_index s) (up_index up)\<rparr> in
      if px_client s1 = None then Inr s1
      else
        (let up1 = up\<lparr>up_options := up_options up @ bind_options caps (the_side sd s1)\<rparr> in
         send_command (update_command caps sd up1 s1) (CB_update sd up1) s1))"

definition play :: "rtpp_caps \<Rightarrow> side \<Rightarrow> string \<Rightarrow> int \<Rightarrow> nat option \<Rightarrow> int \<Rightarrow> rtpp_session \<Rightarrow> rtpp_session result" where
  "play caps sd prompt_name n_times rcb index s =
     (if \<not> sp_session_exists (the_side sd s) then Inr s
      else if \<not> sp_session_exists (the_side (otherside sd) s) then
        update caps (otherside sd) (NewUpdateParams index (UP_play sd prompt_name n_times rcb index)) s
      else play_now sd prompt_name n_times rcb index s)"

definition PlayCaller :: "rtpp_caps \<Rightarrow> string \<Rightarrow> int \<Rightarrow> nat option \<Rightarrow> int \<Rightarrow> rtpp_session \<Rightarrow> rtpp_session result" where
  "PlayCaller caps prompt_name n_times rcb index s = play caps Caller prompt_name n_times rcb index s"

definition stop_play :: "side \<Rightarrow> nat option \<Rightarrow> int \<Rightarrow> rtpp_session \<Rightarrow> rtpp_session result" where
  "stop_play sd rcb index s =
     (if \<not> sp_session_exists (the_side (otherside sd) s) then Inr s
      else (let self = the_side sd s in
            send_command (''S '' @ stream_id s index @ '' '' @ sp_from_tag self @ '' '' @ sp_to_tag self) (CB_command rcb) s))"

definition StopPlayCaller :: "nat option \<Rightarrow> int \<Rightarrow> rtpp_session \<Rightarrow> rtpp_session result" where
  "StopPlayCaller rcb index s = stop_play Caller rcb index s"

definition StartRecording :: "rtpp_caps \<Rightarrow> string \<Rightarrow> nat option \<Rightarrow> int \<Rightarrow> rtpp_session \<Rightarrow> rtpp_session result" where
  "StartRecording caps rname rcb index s =
     (if \<not> sp_session_exists (px_caller s) then update caps Caller (NewUpdateParams index (UP_record rname rcb index)) s
      else start_recording rname rcb index s)"

section \<open>Addresses in a session description\<close>

definition update_connection :: "nat \<Rightarrow> (sdp_connection \<Rightarrow> sdp_connection) \<Rightarrow> sdp_body \<Rightarrow> sdp_body result" where
  "update_connection i f b =
     (if length (sd_sections b) \<le> i then Inl index_panic
      else (case ms_c (sd_sections b ! i) of
              None \<Rightarrow> Inl nil_panic
            | Some (Own c) \<Rightarrow> Inr (b\<lparr>sd_sections := (sd_sections b)[i := (sd_sections b ! i)\<lparr>ms_c := Some (Own (f c))\<rparr>]\<rparr>)
            | Some Shared \<Rightarrow> Inr (b\<lparr>sd_shared := map_option f (sd_shared b)\<rparr>)))"

definition relay_section :: "int \<Rightarrow> update_result \<Rightarrow> sdp_section \<Rightarrow> sdp_section result" where
  "relay_section repacketize ur sect =
     bind_result (of_option (ms_m sect)) (\<lambda>m.
       let s1 = (if sm_port m \<noteq> ''0'' then sect\<lparr>ms_m := Some (m\<lparr>sm_port := Itoa (ur_rtpproxy_port ur)\<rparr>)\<rparr> else sect);
           s2 = (if ur_sendonly ur then
                   (let s' = RemoveAHeader ''sendrecv'' s1 in
                    if HasAHeader [''recvonly'', ''sendonly'', ''inactive''] s' then s' else AddHeader ''a'' ''sendonly'' s')
                 else s1);
           s3 = (if 0 < repacketize then AddHeader ''a'' (''ptime:'' @ Itoa repacketize) (RemoveAHeader ''ptime:'' s2) else s2)
       in Inr s3)"

definition relay_sdp :: "int \<Rightarrow> nat \<Rightarrow> update_result \<Rightarrow> sdp_body \<Rightarrow> sdp_body result" where
  "relay_sdp repacketize i ur d =
     bind_result (update_connection i (\<lambda>c. c\<lparr>sc_atype := ur_family ur, sc_addr := ur_rtpproxy_address ur\<rparr>) d) (\<lambda>d1.
       bind_result (relay_section repacketize ur (sd_sections d1 ! i)) (\<lambda>s.
         Inr (d1\<lparr>sd_sections := (sd_sections d1)[i := s]\<rparr>)))"

definition hide_origin :: "sdp_body \<Rightarrow> sdp_body result" where
  "hide_origin d =
     bind_result (of_option (sd_o d)) (\<lambda>r.
       Inr (d\<lparr>sd_o := Some (r\<lparr>so_address := ''192.0.2.1'', so_address_type := ''IP4'', so_network_type := ''IN''\<rparr>)\<rparr>))"

definition set_needs_update :: "bool \<Rightarrow> msg_body \<Rightarrow> msg_body" where
  "set_needs_update v mb = mb\<lparr>mb_needs_update := v\<rparr>"

definition put_job :: "nat \<Rightarrow> sdp_job \<Rightarrow> rtpp_session \<Rightarrow> rtpp_session" where
  "put_job j jb s = s\<lparr>px_jobs := (px_jobs s)(j \<mapsto> jb)\<rparr>"

text \<open>All answers are there: the description goes to the application.\<close>

definition finish_job :: "nat \<Rightarrow> sdp_job \<Rightarrow> rtpp_session \<Rightarrow> rtpp_session result" where
  "finish_job j jb s =
     bind_result (of_option (mb_sdp (jb_body jb))) (\<lambda>d.
       bind_result (hide_origin (if px_insert_nortpp s then sdp_AppendAHeader ''nortpproxy=yes'' d else d)) (\<lambda>d1.
         let body = set_needs_update False ((jb_body jb)\<lparr>mb_sdp := Some d1\<rparr>)
         in Inr (emit_out (O_sdp j (Some body) None) (put_job j (jb\<lparr>jb_body := body\<rparr>) s))))"

definition sdp_change_finish :: "side \<Rightarrow> nat \<Rightarrow> update_result option \<Rightarrow> string option \<Rightarrow> rtpp_session \<Rightarrow> rtpp_session result" where
  "sdp_change_finish sd j ur ex s =
     bind_result (of_option (px_jobs s j)) (\<lambda>jb.
       if \<not> mb_needs_update (jb_body jb) then Inr s
       else (case ex of
         Some e \<Rightarrow> Inr (emit_out (O_sdp j None (Some e)) (put_job j (jb\<lparr>jb_body := set_needs_update False (jb_body jb)\<rparr>) s))
       | None \<Rightarrow>
           bind_result
             (case ur of
                None \<Rightarrow> Inr (jb, s)
              | Some u \<Rightarrow>
                  bind_result (of_option (mb_sdp (jb_body jb))) (\<lambda>d.
                    bind_result (relay_sdp (sp_repacketize (the_side sd s)) (jb_sect jb) u d) (\<lambda>d1.
                      Inr (jb\<lparr>jb_body := (jb_body jb)\<lparr>mb_sdp := Some d1\<rparr>\<rparr>,
                           if sp_after_sdp_change (the_side sd s) then emit_out (O_after sd u) s else s))))
             (\<lambda>(jb1, s1).
                let jb2 = jb1\<lparr>jb_left := jb_left jb1 - 1\<rparr> in
                if 0 < jb_left jb2 then Inr (put_job j jb2 s1) else finish_job j jb2 s1)))"

definition run_up_cb :: "up_cb \<Rightarrow> update_result option \<Rightarrow> string option \<Rightarrow> rtpp_session \<Rightarrow> rtpp_session result" where
  "run_up_cb cb ur ex s =
     (case cb of
        UP_play sd prompt n_times rcb index \<Rightarrow> play_now sd prompt n_times rcb index s
      | UP_record rname rcb index \<Rightarrow> start_recording rname rcb index s
      | UP_sdp sd j \<Rightarrow> sdp_change_finish sd j ur ex s)"

section \<open>Answers\<close>

text \<open>The results of the sub-commands, cut into the shares of each.\<close>

fun handle_results :: "subcommand list \<Rightarrow> string list \<Rightarrow> update_result \<Rightarrow> update_result \<times> string option" where
  "handle_results [] rs ur = (ur, None)"
| "handle_results (c # cs) rs ur =
     (case sb_handleResults c (take (length (sb_commands c)) rs) ur of
        (ur1, Some e) \<Rightarrow> (ur1, Some e)
      | (ur1, None) \<Rightarrow>
          (let rest = drop (length (sb_commands c)) rs in if rest = [] then (ur1, None) else handle_results cs rest ur1))"

text \<open>The command a final result of -1 belongs to.\<close>

fun failed_command :: "subcommand list \<Rightarrow> nat \<Rightarrow> string option" where
  "failed_command [] foff = None"
| "failed_command (c # cs) foff =
     (if length (sb_commands c) < foff then failed_command cs (foff - length (sb_commands c))
      else Some (sb_commands c ! (foff - 1)))"

definition zero_result :: update_result where
  "zero_result = \<lparr>ur_rtpproxy_address = [], ur_rtpproxy_port = 0, ur_family = [], ur_sendonly = False\<rparr>"

definition subcommand_results :: "subcommand list \<Rightarrow> string option \<Rightarrow> update_result \<times> string option" where
  "subcommand_results subs t =
     (if subs = [] then (zero_result, None)
      else
        (let res = (case t of None \<Rightarrow> [] | Some r \<Rightarrow> map TrimSpace (split_at ''&&'' r));
             expected = sum_list (map (length \<circ> sb_commands) subs)
         in if expected < length res then (zero_result, Some ''RTPProxy errored: too many results'')
            else (case (if res \<noteq> [] \<and> last res = ''-1'' then failed_command subs (length res) else None) of
                    Some c \<Rightarrow> (zero_result, Some (''RTPProxy errored: '' @ c @ '': -1''))
                  | None \<Rightarrow> handle_results subs (res @ replicate (expected - length res) ''0'') zero_result)))"

text \<open>What an update answer says: the error, or port, address and family of the relay's end.\<close>

definition rtpp_answer :: "rtpp_caps \<Rightarrow> bool \<Rightarrow> string \<Rightarrow> update_params \<Rightarrow> (update_result option \<times> string option) result" where
  "rtpp_answer caps has_client result up =
     (if result = [] then Inr (None, Some ''RTPProxy errored'')
      else
        (let (t0, t) = (case cut_at ''&&'' (TrimSpace result) of Some (a, b) \<Rightarrow> (a, Some b) | None \<Rightarrow> (TrimSpace result, None)) in
         case Fields t0 of
           [] \<Rightarrow> Inl index_panic
         | p # t1 \<Rightarrow>
             if take 1 p = ''E'' then Inr (None, Some (''RTPProxy errored: '' @ p))
             else (case subcommand_results (up_subcommands up) t of
               (ur, Some e) \<Rightarrow> Inr (None, Some e)
             | (ur, None) \<Rightarrow>
                 (case Atoi p of
                    None \<Rightarrow> Inr (None, Some ''RTPProxy errored: bad port'')
                  | Some port \<Rightarrow>
                      if port = 0 then Inr (None, Some ''RTPProxy errored: bad port'')
                      else bind_result
                        (case t1 of
                           [] \<Rightarrow> if has_client then Inr (rp_address caps, ''IP4'') else Inl nil_panic
                         | a # t2 \<Rightarrow> Inr (a, if t2 \<noteq> [] \<and> hd t2 = ''6'' then ''IP6'' else ''IP4''))
                        (\<lambda>(addr, family).
                           Inr (Some (ur\<lparr>ur_rtpproxy_port := port, ur_rtpproxy_address := addr, ur_family := family,
                             ur_sendonly := (up_atype up = ''IP4'' \<and> up_remote_ip up = ''0.0.0.0''
                               \<or> up_atype up = ''IP6'' \<and> up_remote_ip up = ''::'')\<rparr>), None))))))"

definition ProcessRtppResult :: "rtpp_caps \<Rightarrow> string \<Rightarrow> update_params \<Rightarrow> rtpp_session \<Rightarrow> rtpp_session result" where
  "ProcessRtppResult caps result up s =
     bind_result (rtpp_answer caps (px_client s \<noteq> None) result up) (\<lambda>(ur, ex). run_up_cb (up_result_callback up) ur ex s)"

definition update_done :: "rtpp_caps \<Rightarrow> side \<Rightarrow> string \<Rightarrow> update_params \<Rightarrow> rtpp_session \<Rightarrow> rtpp_session result" where
  "update_done caps sd result up s =
     ProcessRtppResult caps result up (put_side sd ((the_side sd s)\<lparr>sp_session_exists := True\<rparr>) s)"

definition command_result :: "string \<Rightarrow> nat option \<Rightarrow> rtpp_session \<Rightarrow> rtpp_session" where
  "command_result result rcb s = (case rcb of None \<Rightarrow> s | Some k \<Rightarrow> emit_out (O_result k result) s)"

definition run_rtpp_cb :: "rtpp_caps \<Rightarrow> rtpp_cb \<Rightarrow> string \<Rightarrow> rtpp_session \<Rightarrow> rtpp_session result" where
  "run_rtpp_cb caps cb res s =
     (case cb of
        CB_nil \<Rightarrow> Inr s
      | CB_command rcb \<Rightarrow> Inr (command_result res rcb s)
      | CB_record1 rname rcb index \<Rightarrow> start_recording1 rname rcb index s
      | CB_update sd up \<Rightarrow> update_done caps sd res up s)"

definition cmd_done :: "rtpp_caps \<Rightarrow> string \<Rightarrow> rtpp_session \<Rightarrow> rtpp_session result" where
  "cmd_done caps res s =
     (case take_done s of (d, s1) \<Rightarrow> case d of None \<Rightarrow> Inr s1 | Some c \<Rightarrow> run_rtpp_cb caps (wc_cb c) res s1)"

section \<open>Changes of a session description\<close>

definition relayed_transport :: "string \<Rightarrow> bool" where
  "relayed_transport t \<longleftrightarrow> ToLower t \<in> set [''udp'', ''udptl'', ''rtp/avp'', ''rtp/savp'', ''udp/bfcp'']"

text \<open>The numbers of the sections that are relayed; a section without media header is dereferenced.\<close>

definition relayed_sections :: "sdp_body \<Rightarrow> nat list result" where
  "relayed_sections d =
     (if list_all (\<lambda>s. ms_m s \<noteq> None) (sd_sections d)
      then Inr (filter (\<lambda>i. relayed_transport (sm_transport (the (ms_m (sd_sections d ! i))))) [0..<length (sd_sections d)])
      else Inl nil_panic)"

definition section_params :: "side \<Rightarrow> nat \<Rightarrow> string \<Rightarrow> sdp_body \<Rightarrow> int \<Rightarrow> nat \<Rightarrow> update_params result" where
  "section_params sd j options d i k =
     bind_result (of_option (ms_m (sd_sections d ! k))) (\<lambda>m.
       bind_result (of_option (section_c d (sd_sections d ! k))) (\<lambda>c.
         Inr ((NewUpdateParams i (UP_sdp sd j))\<lparr>up_remote_ip := sc_addr c, up_remote_port := sm_port m, up_atype := sc_atype c,
           up_options := (if sc_atype c = ''IP6'' then ''6'' @ options else options)\<rparr>)))"

fun update_sections :: "rtpp_caps \<Rightarrow> side \<Rightarrow> nat \<Rightarrow> string \<Rightarrow> sdp_body \<Rightarrow> int \<Rightarrow> nat list \<Rightarrow> rtpp_session \<Rightarrow> rtpp_session result" where
  "update_sections caps sd j options d i [] s = Inr s"
| "update_sections caps sd j options d i (k # ks) s =
     bind_result (section_params sd j options d i k) (\<lambda>up.
       bind_result (update caps sd up s) (update_sections caps sd j options d (i + 1) ks))"

text \<open>
  The callbacks of all sections refer to the one variable of the loop over the sections, as the module's Go version 1.19
  has it, and they run after the loop, because the lock of the session is held during the loop: they all work on the last section.
\<close>

definition on_sdp_change :: "rtpp_caps \<Rightarrow> side \<Rightarrow> msg_body \<Rightarrow> rtpp_session \<Rightarrow> rtpp_session result" where
  "on_sdp_change caps sd body s =
     (case GetSdp body of
        (body1, Inl e) \<Rightarrow> Inl e
      | (body1, Inr d) \<Rightarrow>
          bind_result (relayed_sections d) (\<lambda>sects.
            let j = px_njobs s; s1 = s\<lparr>px_njobs := Suc j\<rparr> in
            if sects = [] then
              Inr (emit_out (O_sdp j (Some (set_needs_update False body1)) None) s1)
            else
              (let self = the_side sd s1;
                   formats = sm_formats (the (ms_m (sd_sections d ! hd sects)));
                   s2 = put_side sd (self\<lparr>sp_codecs := go_join (CHR '','') formats\<rparr>) s1;
                   options = (if 0 < sp_repacketize self then ''z'' @ Itoa (sp_repacketize self) else []);
                   s3 = put_job j \<lparr>jb_body = body1, jb_sect = last sects, jb_left = int (length sects)\<rparr> s2
               in update_sections caps sd j options d 0 sects s3)))"

definition OnCallerSdpChange :: "rtpp_caps \<Rightarrow> msg_body \<Rightarrow> rtpp_session \<Rightarrow> rtpp_session result" where
  "OnCallerSdpChange caps body s = on_sdp_change caps Caller body s"

definition OnCalleeSdpChange :: "rtpp_caps \<Rightarrow> msg_body \<Rightarrow> rtpp_session \<Rightarrow> rtpp_session result" where
  "OnCalleeSdpChange caps body s = on_sdp_change caps Callee body s"

section \<open>The end of a session\<close>

definition delete_command :: "rtpp_session \<Rightarrow> int \<Rightarrow> string" where
  "delete_command s index = ''D '' @ stream_id s index @ '' '' @ px_from_tag s @ '' '' @ px_to_tag s"

text \<open>One command for each number, from the highest down to zero.\<close>

fun delete_streams :: "nat \<Rightarrow> rtpp_session \<Rightarrow> rtpp_session result" where
  "delete_streams 0 s = Inr s"
| "delete_streams (Suc n) s =
     bind_result (send_command (delete_command s (int n)) CB_nil s) (\<lambda>s1. delete_streams n (s1\<lparr>px_max_index := int n - 1\<rparr>))"

definition Delete :: "rtpp_session \<Rightarrow> rtpp_session result" where
  "Delete s =
     (if px_client s = None then Inr s
      else bind_result (delete_streams (nat (px_max_index s + 1)) s) (\<lambda>s1. Inr (s1\<lparr>px_client := None\<rparr>)))"

section \<open>Settings\<close>

definition SetLaddress :: "side \<Rightarrow> string \<Rightarrow> rtpp_session \<Rightarrow> rtpp_session" where
  "SetLaddress sd a s = put_side sd ((the_side sd s)\<lparr>sp_laddress := a\<rparr>) s"

definition SetRaddress :: "side \<Rightarrow> host_port option \<Rightarrow> rtpp_session \<Rightarrow> rtpp_session" where
  "SetRaddress sd a s = put_side sd ((the_side sd s)\<lparr>sp_raddress := a\<rparr>) s"

definition SetInsertNortpp :: "bool \<Rightarrow> rtpp_session \<Rightarrow> rtpp_session" where
  "SetInsertNortpp v s = s\<lparr>px_insert_nortpp := v\<rparr>"

definition SetAfterCallerSdpChange :: "bool \<Rightarrow> rtpp_session \<Rightarrow> rtpp_session" where
  "SetAfterCallerSdpChange v s = s\<lparr>px_caller := (px_caller s)\<lparr>sp_after_sdp_change := v\<rparr>\<rparr>"

end
