(* ===== verification/Rtpp_Relay.thy ===== *)
theory Rtpp_Relay
  imports Rtpp_Session "HOL-Library.Sublist"
begin

text \<open>
  What a media relay session promises. Its commands reach the proxy one at a time, in the order they were
  given, and each answer goes to the command it answers: the queue refines a list. Deleting the session takes back every
  stream it created. A session description with one media section leaves with the address of the relay; of several, only
  the last does.
\<close>

section \<open>The queue of commands is a list\<close>

definition outstanding :: "rtpp_session \<Rightarrow> rtpp_cmd list" where
  "outstanding s = (case px_inflight s of None \<Rightarrow> px_wi s | Some c \<Rightarrow> c # px_wi s)"

definition queue_inv :: "rtpp_session \<Rightarrow> bool" where
  "queue_inv s \<longleftrightarrow> (px_inflight s = None \<longrightarrow> px_wi s = []) \<and> length (px_wi s) \<le> channel_size"

fun sent_of :: "rtpp_out list \<Rightarrow> (nat \<times> string) list" where
  "sent_of [] = []"
| "sent_of (O_send cl c # xs) = (cl, c) # sent_of xs"
| "sent_of (_ # xs) = sent_of xs"

lemma sent_of_append [simp]: "sent_of (xs @ ys) = sent_of xs @ sent_of ys"
  by (induction xs rule: sent_of.induct) auto

definition wire :: "rtpp_cmd \<Rightarrow> nat \<times> string" where
  "wire c = (wc_client c, wc_cmd c)"

lemma send_command_cases:
  assumes "queue_inv s" "px_client s = Some cl"
  shows "send_command cmd cb s =
    (if length (outstanding s) = Suc channel_size then Inl blocked
     else Inr (if outstanding s = [] then emit_out (O_send cl cmd) (s\<lparr>px_inflight := Some \<lparr>wc_cmd = cmd, wc_cb = cb, wc_client = cl\<rparr>\<rparr>)
               else s\<lparr>px_wi := px_wi s @ [\<lparr>wc_cmd = cmd, wc_cb = cb, wc_client = cl\<rparr>]\<rparr>))"
  using assms by (auto simp: send_command_def outstanding_def queue_inv_def channel_size_def split: option.splits)

text \<open>Use of the queue: a command is given, or the proxy answers.\<close>

datatype link_op = L_send string rtpp_cb | L_answer string

fun link_run :: "link_op list \<Rightarrow> rtpp_session \<Rightarrow> ((rtpp_cmd \<times> string) list \<times> rtpp_session) result" where
  "link_run [] s = Inr ([], s)"
| "link_run (L_send cmd cb # ops) s = bind_result (send_command cmd cb s) (link_run ops)"
| "link_run (L_answer res # ops) s =
     (case take_done s of (d, s1) \<Rightarrow>
        bind_result (link_run ops s1) (\<lambda>(as, s2). Inr ((case d of None \<Rightarrow> as | Some c \<Rightarrow> (c, res) # as), s2)))"

text \<open>The same on a list; a command that would be the fifty-second outstanding one blocks.\<close>

fun list_run :: "nat \<Rightarrow> link_op list \<Rightarrow> rtpp_cmd list \<Rightarrow> ((rtpp_cmd \<times> string) list \<times> rtpp_cmd list) result" where
  "list_run cl [] q = Inr ([], q)"
| "list_run cl (L_send cmd cb # ops) q =
     (if length q = Suc channel_size then Inl blocked else list_run cl ops (q @ [\<lparr>wc_cmd = cmd, wc_cb = cb, wc_client = cl\<rparr>]))"
| "list_run cl (L_answer res # ops) q =
     (case q of
        [] \<Rightarrow> list_run cl ops []
      | c # cs \<Rightarrow> bind_result (list_run cl ops cs) (\<lambda>(as, q'). Inr ((c, res) # as, q')))"

fun commands_of :: "nat \<Rightarrow> link_op list \<Rightarrow> rtpp_cmd list" where
  "commands_of cl [] = []"
| "commands_of cl (L_send cmd cb # ops) = \<lparr>wc_cmd = cmd, wc_cb = cb, wc_client = cl\<rparr> # commands_of cl ops"
| "commands_of cl (L_answer res # ops) = commands_of cl ops"

lemma send_command_link:
  assumes "queue_inv s" "px_client s = Some cl" "send_command cmd cb s = Inr s1"
  shows "queue_inv s1" "px_client s1 = Some cl" "outstanding s1 = outstanding s @ [\<lparr>wc_cmd = cmd, wc_cb = cb, wc_client = cl\<rparr>]"
    "sent_of (px_out s1) = sent_of (px_out s) @ (if outstanding s = [] then [(cl, cmd)] else [])"
  using assms by (auto simp: send_command_def outstanding_def queue_inv_def channel_size_def emit_out_def Let_def split: option.splits if_splits)

lemma take_done_link:
  assumes "queue_inv s" "take_done s = (d, s1)"
  shows "queue_inv s1" "px_client s1 = px_client s" "outstanding s1 = tl (outstanding s)"
    "d = (case outstanding s of [] \<Rightarrow> None | c # _ \<Rightarrow> Some c)"
    "sent_of (px_out s1) = sent_of (px_out s) @ map wire (take 1 (tl (outstanding s)))"
  using assms by (auto simp: take_done_def outstanding_def queue_inv_def emit_out_def wire_def split: option.splits list.splits)

text \<open>Everything given so far: what was sent and what waits behind the command with the proxy.\<close>

definition given :: "rtpp_session \<Rightarrow> (nat \<times> string) list" where
  "given s = sent_of (px_out s) @ map wire (drop 1 (outstanding s))"

lemma send_command_given:
  assumes "queue_inv s" "px_client s = Some cl" "send_command cmd cb s = Inr s1"
  shows "given s1 = given s @ [(cl, cmd)]"
  unfolding given_def send_command_link(3,4) [OF assms] by (cases "outstanding s") (simp_all add: wire_def)

lemma take_done_given:
  assumes "queue_inv s" "take_done s = (d, s1)"
  shows "given s1 = given s"
  unfolding given_def take_done_link(3,5) [OF assms] by (cases "outstanding s"; cases "tl (outstanding s)") simp_all

lemma link_refines:
  assumes "queue_inv s" "px_client s = Some cl"
  shows "case list_run cl ops (outstanding s) of
      Inl e \<Rightarrow> link_run ops s = Inl e
    | Inr (as, q) \<Rightarrow> (\<exists>s'. link_run ops s = Inr (as, s') \<and> outstanding s' = q \<and> queue_inv s'
        \<and> map fst as @ q = outstanding s @ commands_of cl ops
        \<and> given s' = given s @ map wire (commands_of cl ops))"
  using assms
proof (induction ops arbitrary: s)
  case (Cons x ops)
  show ?case
  proof (cases x)
    case (L_send cmd cb)
    show ?thesis
    proof (cases "length (outstanding s) = Suc channel_size")
      case True
      then show ?thesis using L_send send_command_cases [OF Cons.prems] by simp
    next
      case False
      then obtain s1 where s1: "send_command cmd cb s = Inr s1" using send_command_cases [OF Cons.prems, of cmd cb] by simp
      note l = send_command_link [OF Cons.prems s1]
      show ?thesis using Cons.IH [OF l(1,2)] L_send False s1 send_command_given [OF Cons.prems s1]
        by (auto simp: l(3) wire_def split: sum.splits prod.splits)
    qed
  next
    case (L_answer res)
    obtain d s1 where t: "take_done s = (d, s1)" by (cases "take_done s")
    note l = take_done_link [OF Cons.prems(1) t]
    show ?thesis using Cons.IH [OF l(1)] Cons.prems(2) L_answer t l(2-4) take_done_given [OF Cons.prems(1) t]
      by (cases "outstanding s") (auto split: sum.splits prod.splits)
  qed
qed auto

lemma new_session_link:
  assumes "NewRtp_proxy_session clients idx random cid from to sock tag = Inr s"
  shows "queue_inv s" "outstanding s = []" "sent_of (px_out s) = []"
  using assms by (auto simp: NewRtp_proxy_session_def queue_inv_def outstanding_def Let_def split: if_splits prod.splits)

text \<open>
  Property C8. Commands given to a relay session while answers come in, in any order of the two, are sent to the proxy one at a time and in
  the order they were given, none twice and none skipped, and every answer goes to the command sent last: the session behaves as a list of
  outstanding commands of which the first is with the proxy. A fifty-second outstanding command blocks the session for good.
\<close>

theorem rtpp_link_refines_list:
  assumes "NewRtp_proxy_session clients idx random cid from to sock tag = Inr s" and "px_client s = Some cl"
  shows "case list_run cl ops [] of
      Inl e \<Rightarrow> link_run ops s = Inl e \<and> e = blocked
    | Inr (as, q) \<Rightarrow> (\<exists>s'. link_run ops s = Inr (as, s') \<and> outstanding s' = q
        \<and> map fst as @ q = commands_of cl ops
        \<and> sent_of (px_out s') = map (\<lambda>c. (cl, wc_cmd c)) (take (length as + 1) (commands_of cl ops)))"
proof -
  note s = new_session_link [OF assms(1)]
  have client: "c \<in> set (commands_of cl ops) \<Longrightarrow> wire c = (cl, wc_cmd c)" for c
    by (induction cl ops rule: commands_of.induct) (auto simp: wire_def)
  have inl: "e = blocked" if "list_run cl ops q = Inl e" for q e
    using that by (induction cl ops q rule: list_run.induct) (auto split: if_splits list.splits simp: bind_result_def split: sum.splits)
  show ?thesis
  proof (cases "list_run cl ops []")
    case (Inl e)
    then show ?thesis using link_refines [OF s(1) assms(2), of ops] s inl by simp
  next
    case (Inr x)
    obtain as q where x: "x = (as, q)" by (cases x)
    obtain s' where s': "link_run ops s = Inr (as, s')" "outstanding s' = q" "map fst as @ q = commands_of cl ops"
      "sent_of (px_out s') @ map wire (drop 1 q) = map wire (commands_of cl ops)"
      using link_refines [OF s(1) assms(2), of ops] s Inr x by (auto simp: given_def)
    have "map wire (commands_of cl ops) = map wire (take (length as + 1) (commands_of cl ops)) @ map wire (drop 1 q)"
      unfolding s'(3) [symmetric] by (cases q) simp_all
    with s'(4) have "sent_of (px_out s') = map wire (take (length as + 1) (commands_of cl ops))" by simp
    also have "\<dots> = map (\<lambda>c. (cl, wc_cmd c)) (take (length as + 1) (commands_of cl ops))"
      using client by (intro map_cong) (auto dest: in_set_takeD)
    finally show ?thesis using Inr x s' by simp
  qed
qed

section \<open>Operations of a session\<close>

datatype session_op =
    S_play rtpp_caps string int "nat option" int
  | S_stop "nat option" int
  | S_record rtpp_caps string "nat option" int
  | S_sdp rtpp_caps side msg_body
  | S_answer rtpp_caps string
  | S_laddress side string
  | S_raddress side "host_port option"
  | S_nortpp bool
  | S_after bool
  | S_delete

fun session_step :: "session_op \<Rightarrow> rtpp_session \<Rightarrow> rtpp_session result" where
  "session_step (S_play caps prompt n rcb i) s = PlayCaller caps prompt n rcb i s"
| "session_step (S_stop rcb i) s = StopPlayCaller rcb i s"
| "session_step (S_record caps rname rcb i) s = StartRecording caps rname rcb i s"
| "session_step (S_sdp caps sd body) s = on_sdp_change caps sd body s"
| "session_step (S_answer caps res) s = cmd_done caps res s"
| "session_step (S_laddress sd a) s = Inr (SetLaddress sd a s)"
| "session_step (S_raddress sd a) s = Inr (SetRaddress sd a s)"
| "session_step (S_nortpp v) s = Inr (SetInsertNortpp v s)"
| "session_step (S_after v) s = Inr (SetAfterCallerSdpChange v s)"
| "session_step S_delete s = Delete s"

fun session_run :: "session_op list \<Rightarrow> rtpp_session \<Rightarrow> rtpp_session result" where
  "session_run [] s = Inr s"
| "session_run (x # xs) s = bind_result (session_step x s) (session_run xs)"

text \<open>What every operation but the deletion keeps: the client and the names, and what was given; numbers of streams only grow.\<close>

definition grows :: "rtpp_session \<Rightarrow> rtpp_session \<Rightarrow> bool" where
  "grows s s' \<longleftrightarrow> px_client s' = px_client s \<and> px_max_index s \<le> px_max_index s' \<and> px_call_id s' = px_call_id s
     \<and> px_from_tag s' = px_from_tag s \<and> px_to_tag s' = px_to_tag s
     \<and> (queue_inv s \<longrightarrow> queue_inv s' \<and> prefix (given s) (given s') \<and> (px_client s = None \<longrightarrow> given s' = given s))"

lemma grows_refl [simp, intro!]: "grows s s"
  by (simp add: grows_def)

lemma grows_trans [trans]: "grows s t \<Longrightarrow> grows t u \<Longrightarrow> grows s u"
  unfolding grows_def by (auto intro: prefix_order.trans)

lemma grows_same:
  assumes "px_client s' = px_client s" "px_max_index s \<le> px_max_index s'" "px_call_id s' = px_call_id s"
    "px_from_tag s' = px_from_tag s" "px_to_tag s' = px_to_tag s" "px_inflight s' = px_inflight s" "px_wi s' = px_wi s"
    "sent_of (px_out s') = sent_of (px_out s)"
  shows "grows s s'"
proof -
  have "outstanding s' = outstanding s" by (simp add: outstanding_def assms cong: option.case_cong)
  then have "given s' = given s" using assms by (simp add: given_def)
  then show ?thesis using assms by (simp add: grows_def queue_inv_def)
qed

lemma grows_emit: "sent_of [x] = [] \<Longrightarrow> grows s (emit_out x s)"
  by (rule grows_same) (simp_all add: emit_out_def)

lemma grows_side: "grows s (put_side sd x s)"
  by (rule grows_same) (cases sd; simp)+

lemma grows_quiet [simp, intro!]:
  "grows s (put_side sd x s)" "grows s (put_job j jb s)" "grows s (s\<lparr>px_njobs := n\<rparr>)" "grows s (s\<lparr>px_insert_nortpp := v\<rparr>)"
  "px_max_index s \<le> m \<Longrightarrow> grows s (s\<lparr>px_max_index := m\<rparr>)"
  by (rule grows_side) (rule grows_same; simp add: put_job_def)+

lemma grows_send: "send_command cmd cb s = Inr s' \<Longrightarrow> grows s s'"
proof (cases "px_client s")
  case (Some cl)
  assume s': "send_command cmd cb s = Inr s'"
  then have *: "px_max_index s \<le> px_max_index s'" "px_call_id s' = px_call_id s" "px_from_tag s' = px_from_tag s"
      "px_to_tag s' = px_to_tag s" "px_client s' = px_client s"
    by (auto simp: send_command_def emit_out_def Let_def split: option.splits if_splits)
  show ?thesis using * send_command_link [OF _ Some s'] send_command_given [OF _ Some s'] Some by (simp add: grows_def)
qed (simp add: send_command_def)

lemma grows_take_done: "take_done s = (d, s') \<Longrightarrow> grows s s'"
  using take_done_link [of s d s'] take_done_given [of s d s']
  by (auto simp: grows_def take_done_def emit_out_def split: list.splits)

lemma grows_update:
  assumes "update caps sd up s = Inr s'"
  shows "grows s s'" "up_index up \<le> px_max_index s'"
proof -
  let ?s1 = "s\<lparr>px_max_index := max (px_max_index s) (up_index up)\<rparr>"
  have "grows ?s1 s'" using assms by (auto simp: update_def Let_def split: if_splits dest: grows_send)
  then show "up_index up \<le> px_max_index s'" by (simp add: grows_def)
  have "grows s ?s1" by simp
  then show "grows s s'" using \<open>grows ?s1 s'\<close> by (rule grows_trans)
qed

lemma grows_play: "play caps sd p n rcb i s = Inr s' \<Longrightarrow> grows s s'" "play_now sd p n rcb i s = Inr s' \<Longrightarrow> grows s s'"
    "stop_play sd rcb i s = Inr s' \<Longrightarrow> grows s s'" "start_recording rn rcb i s = Inr s' \<Longrightarrow> grows s s'"
    "start_recording1 rn rcb i s = Inr s' \<Longrightarrow> grows s s'"
  by (auto simp: play_def play_now_def stop_play_def start_recording_def start_recording1_def Let_def
      split: if_splits intro: grows_send grows_update)

lemma grows_finish_job: "finish_job j jb s = Inr s' \<Longrightarrow> grows s s'"
  by (auto simp: finish_job_def bind_result_Inr_iff Let_def intro!: grows_trans [OF grows_quiet(2) grows_emit])

lemma grows_sdp_finish:
  assumes "sdp_change_finish sd j ur ex s = Inr s'"
  shows "grows s s'"
proof -
  obtain jb where jb: "px_jobs s j = Some jb" using assms by (auto simp: sdp_change_finish_def bind_result_Inr_iff)
  show ?thesis
  proof (cases "mb_needs_update (jb_body jb)")
    case True
    show ?thesis
    proof (cases ex)
      case (Some e)
      then have "s' = emit_out (O_sdp j None (Some e)) (put_job j (jb\<lparr>jb_body := set_needs_update False (jb_body jb)\<rparr>) s)"
        using assms jb True by (simp add: sdp_change_finish_def)
      then show ?thesis by (auto intro: grows_trans [OF grows_quiet(2) grows_emit])
    next
      case None
      then obtain jb1 s1 where s1: "s1 = s \<or> (\<exists>u. s1 = emit_out (O_after sd u) s)"
        and s': "(let jb2 = jb1\<lparr>jb_left := jb_left jb1 - 1\<rparr> in
            if 0 < jb_left jb2 then Inr (put_job j jb2 s1) else finish_job j jb2 s1) = Inr s'"
        using assms jb True unfolding sdp_change_finish_def bind_result_Inr_iff
        by (auto simp: bind_result_Inr_iff simp del: Let_def split: option.splits if_splits)
      have "grows s s1" using s1 by (auto intro: grows_emit)
      moreover have "grows s1 s'" using s' by (auto simp: Let_def split: if_splits intro: grows_finish_job)
      ultimately show ?thesis by (rule grows_trans)
    qed
  next
    case False
    then show ?thesis using assms jb by (simp add: sdp_change_finish_def)
  qed
qed

lemma grows_run_rtpp_cb: "run_rtpp_cb caps cb res s = Inr s' \<Longrightarrow> grows s s'"
proof (cases cb)
  case (CB_update sd up)
  let ?t = "put_side sd ((the_side sd s)\<lparr>sp_session_exists := True\<rparr>) s"
  assume "run_rtpp_cb caps cb res s = Inr s'"
  then obtain ur ex where "run_up_cb (up_result_callback up) ur ex ?t = Inr s'"
    using CB_update by (auto simp: run_rtpp_cb_def update_done_def ProcessRtppResult_def bind_result_Inr_iff)
  then have "grows ?t s'"
    by (cases "up_result_callback up") (auto simp: run_up_cb_def intro: grows_play grows_sdp_finish)
  then show ?thesis by (rule grows_trans [OF grows_quiet(1)])
qed (auto simp: run_rtpp_cb_def command_result_def intro: grows_play grows_emit split: option.splits)

lemma grows_cmd_done: "cmd_done caps res s = Inr s' \<Longrightarrow> grows s s'"
  by (auto simp: cmd_done_def split: prod.splits option.splits dest!: grows_take_done grows_run_rtpp_cb intro: grows_trans)

lemma grows_update_sections: "update_sections caps sd j opts d i ks s = Inr s' \<Longrightarrow> grows s s'"
  by (induction caps sd j opts d i ks s rule: update_sections.induct)
    (auto simp: bind_result_Inr_iff dest!: grows_update(1) intro: grows_trans)

lemma grows_sdp_change:
  assumes "on_sdp_change caps sd body s = Inr s'"
  shows "grows s s'"
proof -
  let ?s1 = "s\<lparr>px_njobs := Suc (px_njobs s)\<rparr>"
  have "grows ?s1 s'"
    using assms by (auto simp: on_sdp_change_def bind_result_Inr_iff Let_def
        split: prod.splits sum.splits if_splits intro!: grows_emit dest!: grows_update_sections
        intro: grows_trans [OF grows_quiet(1) grows_trans [OF grows_quiet(2)]])
  then show ?thesis by (rule grows_trans [OF grows_quiet(3)])
qed

lemma grows_step: "session_step x s = Inr s' \<Longrightarrow> x \<noteq> S_delete \<Longrightarrow> grows s s'"
  by (cases x) (auto simp: PlayCaller_def StopPlayCaller_def StartRecording_def SetLaddress_def SetRaddress_def SetInsertNortpp_def
      SetAfterCallerSdpChange_def intro: grows_play grows_update grows_sdp_change grows_cmd_done grows_quiet(1) [of s Caller, simplified]
      split: if_splits)

lemma grows_run: "session_run xs s = Inr s' \<Longrightarrow> S_delete \<notin> set xs \<Longrightarrow> grows s s'"
  by (induction xs arbitrary: s) (auto simp: bind_result_Inr_iff dest!: grows_step intro: grows_trans)

section \<open>Deletion\<close>

lemma link_fields [simp]:
  "queue_inv (s\<lparr>px_client := c\<rparr>) = queue_inv s" "outstanding (s\<lparr>px_client := c\<rparr>) = outstanding s" "given (s\<lparr>px_client := c\<rparr>) = given s"
  "queue_inv (s\<lparr>px_max_index := m\<rparr>) = queue_inv s" "outstanding (s\<lparr>px_max_index := m\<rparr>) = outstanding s" "given (s\<lparr>px_max_index := m\<rparr>) = given s"
  by (simp_all add: queue_inv_def given_def outstanding_def cong: option.case_cong)

lemma delete_streams_link:
  assumes "delete_streams n s = Inr s'" "queue_inv s" "px_client s = Some cl"
  shows "queue_inv s' \<and> px_client s' = Some cl \<and> given s' = given s @ map (\<lambda>i. (cl, delete_command s (int i))) (rev [0..<n])"
  using assms
proof (induction n arbitrary: s)
  case (Suc n)
  then obtain s1 where s1: "send_command (delete_command s (int n)) CB_nil s = Inr s1"
    and r: "delete_streams n (s1\<lparr>px_max_index := int n - 1\<rparr>) = Inr s'"
    by (auto simp: bind_result_Inr_iff)
  let ?t = "s1\<lparr>px_max_index := int n - 1\<rparr>"
  note l = send_command_link [OF Suc.prems(2,3) s1] send_command_given [OF Suc.prems(2,3) s1]
  have names: "delete_command ?t = delete_command s" using grows_send [OF s1]
    by (auto simp: grows_def delete_command_def stream_id_def)
  have "queue_inv ?t" "px_client ?t = Some cl" "given ?t = given s1"
    using l by simp_all
  then show ?case using Suc.IH [OF r] l(5) names by simp
qed simp

lemma Delete_link:
  assumes "Delete s = Inr s'" "queue_inv s" "px_client s = Some cl"
  shows "queue_inv s' \<and> px_client s' = None
    \<and> given s' = given s @ map (\<lambda>i. (cl, delete_command s (int i))) (rev [0..<nat (px_max_index s + 1)])"
proof -
  obtain s1 where s1: "delete_streams (nat (px_max_index s + 1)) s = Inr s1" "s' = s1\<lparr>px_client := None\<rparr>"
    using assms by (auto simp: Delete_def bind_result_Inr_iff)
  from delete_streams_link [OF s1(1) assms(2,3)] show ?thesis
    unfolding s1(2) by simp
qed

lemma run_queue_inv: "session_run xs s = Inr s' \<Longrightarrow> queue_inv s \<Longrightarrow> queue_inv s'"
proof (induction xs arbitrary: s)
  case (Cons x xs)
  then obtain s1 where s1: "session_step x s = Inr s1" "session_run xs s1 = Inr s'" by (auto simp: bind_result_Inr_iff)
  have "queue_inv s1"
  proof (cases "x = S_delete")
    case True
    then have d: "Delete s = Inr s1" using s1(1) by simp
    show ?thesis
    proof (cases "px_client s")
      case None
      then show ?thesis using d Cons.prems(2) by (simp add: Delete_def)
    next
      case (Some cl)
      then show ?thesis using Delete_link [OF d Cons.prems(2)] by simp
    qed
  next
    case False
    then show ?thesis using grows_step [OF s1(1)] Cons.prems(2) by (simp add: grows_def)
  qed
  with Cons.IH s1(2) show ?case by blast
qed simp

lemma deleted_run: "session_run xs s = Inr s' \<Longrightarrow> queue_inv s \<Longrightarrow> px_client s = None \<Longrightarrow> given s' = given s"
proof (induction xs arbitrary: s)
  case (Cons x xs)
  then obtain s1 where s1: "session_step x s = Inr s1" "session_run xs s1 = Inr s'" by (auto simp: bind_result_Inr_iff)
  have "queue_inv s1 \<and> px_client s1 = None \<and> given s1 = given s"
  proof (cases "x = S_delete")
    case True
    then show ?thesis using s1(1) Cons.prems by (simp add: Delete_def)
  next
    case False
    then show ?thesis using grows_step [OF s1(1)] Cons.prems by (simp add: grows_def)
  qed
  with Cons.IH [OF s1(2)] show ?case by simp
qed simp

text \<open>
  Property C9. When a session that is in use gives an update command for a stream and is deleted later, whatever happens in between, a
  delete command for that stream is given to the same proxy behind the update, and after the deletion no further command is ever given,
  by no operation and no late answer; those already given are still sent.
\<close>

theorem deletion_releases_every_stream:
  assumes "NewRtp_proxy_session clients idx random cid from to sock tag = Inr s0"
    and "session_run before s0 = Inr s" and "px_client s = Some cl"
    and "update caps sd up s = Inr s1" and "0 \<le> up_index up"
    and "session_run between s1 = Inr s2" and "S_delete \<notin> set between"
    and "Delete s2 = Inr s3" and "session_run later s3 = Inr s4"
  shows "(cl, delete_command s (up_index up)) \<in> set (drop (length (given s1)) (given s3)) \<and> given s4 = given s3"
proof -
  have q: "queue_inv s" using run_queue_inv [OF assms(2)] new_session_link [OF assms(1)] by blast
  have u: "grows s s1" "up_index up \<le> px_max_index s1" using grows_update [OF assms(4)] by auto
  have g: "grows s1 s2" using grows_run [OF assms(6,7)] .
  with u q have q2: "queue_inv s2" "px_client s2 = Some cl" "up_index up \<le> px_max_index s2" "prefix (given s1) (given s2)"
      "delete_command s2 = delete_command s"
    using assms(3) by (auto simp: grows_def delete_command_def stream_id_def)
  note d = Delete_link [OF assms(8) q2(1,2)]
  obtain xs where "given s2 = given s1 @ xs" using q2(4) by (auto simp: prefix_def)
  moreover have "(cl, delete_command s (up_index up)) \<in> set (map (\<lambda>i. (cl, delete_command s2 (int i))) (rev [0..<nat (px_max_index s2 + 1)]))"
    using assms(5) q2(3,5) by (auto intro!: image_eqI [of _ _ "nat (up_index up)"])
  ultimately show ?thesis using d deleted_run [OF assms(9)] by simp
qed

section \<open>Session descriptions\<close>

text \<open>A good answer to an update: a port and an address.\<close>

definition good_answer :: "int \<times> string \<Rightarrow> bool" where
  "good_answer x \<longleftrightarrow> (case x of (p, a) \<Rightarrow> 0 < p \<and> p \<le> 65535 \<and> no_space a \<and> a \<noteq> [] \<and> CHR ''&'' \<notin> set a)"

definition answer_text :: "int \<times> string \<Rightarrow> string" where
  "answer_text x = Itoa (fst x) @ '' '' @ snd x"

lemma cut_absent_at: "d \<noteq> [] \<Longrightarrow> hd d \<notin> set s \<Longrightarrow> cut_at d s = None"
proof (induction s)
  case (Cons c s)
  then have "take (length d) (c # s) \<noteq> d" by (cases d) auto
  with Cons show ?case by simp
qed simp

lemma Itoa_positive:
  assumes "0 < p" "p \<le> 65535"
  shows "Atoi (Itoa p) = Some p" "Itoa p \<noteq> ''0''" "take 1 (Itoa p) \<noteq> ''E''" "CHR ''&'' \<notin> set (Itoa p)"
proof -
  show a: "Atoi (Itoa p) = Some p" using assms by (intro Atoi_Itoa) (simp_all add: int64_min_def int64_max_def)
  have "Atoi ''0'' = Some 0" by code_simp
  with a assms show "Itoa p \<noteq> ''0''" by auto
  show "CHR ''&'' \<notin> set (Itoa p)" using Itoa_chars by (fastforce simp: is_digit_def)
  show "take 1 (Itoa p) \<noteq> ''E''"
  proof
    assume "take 1 (Itoa p) = ''E''"
    then have "CHR ''E'' \<in> set (Itoa p)" by (metis in_set_takeD list.set_intros(1))
    then show False using Itoa_chars by (fastforce simp: is_digit_def)
  qed
qed

definition up_held :: "update_params \<Rightarrow> bool" where
  "up_held up \<longleftrightarrow> up_atype up = ''IP4'' \<and> up_remote_ip up = ''0.0.0.0'' \<or> up_atype up = ''IP6'' \<and> up_remote_ip up = ''::''"

definition relay_result :: "int \<times> string \<Rightarrow> update_params \<Rightarrow> update_result" where
  "relay_result x up =
     \<lparr>ur_rtpproxy_address = snd x, ur_rtpproxy_port = fst x, ur_family = ''IP4'',
      ur_sendonly = up_held up\<rparr>"

lemma relay_result_simps [simp]:
  "ur_rtpproxy_address (relay_result x up) = snd x" "ur_rtpproxy_port (relay_result x up) = fst x" "ur_family (relay_result x up) = ''IP4''" "ur_sendonly (relay_result x up) = up_held up"
  by (simp_all add: relay_result_def)

lemma good_answer_read:
  assumes "good_answer x" "up_subcommands up = []"
  shows "rtpp_answer caps hc (answer_text x) up = Inr (Some (relay_result x up), None)"
proof -
  obtain p a where x: "x = (p, a)" by (cases x)
  then have g: "0 < p" "p \<le> 65535" "no_space a" "a \<noteq> []" "CHR ''&'' \<notin> set a" using assms(1) by (simp_all add: good_answer_def)
  let ?t = "Itoa p @ CHR '' '' # a"
  have "trim_left ?t = ?t" by (intro trim_left_id space_len_word) simp_all
  then have "TrimSpace ?t = ?t" using trim_left_rev_word [OF g(3,4), of "rev (Itoa p)"] by (simp add: TrimSpace_def)
  moreover have "cut_at ''&&'' ?t = None" using g Itoa_positive(4) [OF g(1,2)] by (intro cut_absent_at) auto
  moreover have "Fields ?t = [Itoa p, a]" using Fields_join [of "[Itoa p, a]"] g by simp
  ultimately show ?thesis using Itoa_positive [OF g(1,2)] g assms(2) x
    by (simp add: rtpp_answer_def answer_text_def relay_result_def up_held_def subcommand_results_def zero_result_def)
qed

text \<open>
  What one answer makes of the section it is applied to: the address of the relay in its connection header (the section's own, or
  the one it shares with others), the port in its media header unless that is zero, \<open>sendonly\<close> if the section the answer is for
  was on hold, and the packet time the relay repacketizes to.
\<close>

definition held :: "sdp_body \<Rightarrow> nat \<Rightarrow> bool" where
  "held d k = (case section_c d (sd_sections d ! k) of
     None \<Rightarrow> False
   | Some c \<Rightarrow> sc_atype c = ''IP4'' \<and> sc_addr c = ''0.0.0.0'' \<or> sc_atype c = ''IP6'' \<and> sc_addr c = ''::'')"

definition relayed_port :: "int \<times> string \<Rightarrow> sdp_media \<Rightarrow> sdp_media" where
  "relayed_port x m = (if sm_port m = ''0'' then m else m\<lparr>sm_port := Itoa (fst x)\<rparr>)"

definition relayed_addr :: "int \<times> string \<Rightarrow> sdp_connection \<Rightarrow> sdp_connection" where
  "relayed_addr x c = c\<lparr>sc_atype := ''IP4'', sc_addr := snd x\<rparr>"

definition relayed_ref :: "int \<times> string \<Rightarrow> c_ref \<Rightarrow> c_ref" where
  "relayed_ref x r = (case r of Shared \<Rightarrow> Shared | Own c \<Rightarrow> Own (relayed_addr x c))"

definition without :: "string \<Rightarrow> string list \<Rightarrow> string list" where
  "without p as = filter (\<lambda>h. take (length p) h \<noteq> p) as"

definition has_direction :: "string list \<Rightarrow> bool" where
  "has_direction as \<longleftrightarrow> (\<exists>h \<in> set as. h \<in> set [''recvonly'', ''sendonly'', ''inactive''])"

definition relayed_attrs :: "int \<Rightarrow> bool \<Rightarrow> string list \<Rightarrow> string list" where
  "relayed_attrs rep hold as =
     (let as1 = (if \<not> hold then as
                 else if has_direction (without ''sendrecv'' as) then without ''sendrecv'' as
                 else without ''sendrecv'' as @ [''sendonly''])
      in if 0 < rep then without ''ptime:'' as1 @ [''ptime:'' @ Itoa rep] else as1)"

definition relay_step :: "int \<Rightarrow> nat \<Rightarrow> bool \<Rightarrow> int \<times> string \<Rightarrow> sdp_body \<Rightarrow> sdp_body" where
  "relay_step rep l hold x d =
     (let s = sd_sections d ! l in
      d\<lparr>sd_sections := (sd_sections d)[l := s\<lparr>ms_m := map_option (relayed_port x) (ms_m s),
            ms_c := map_option (relayed_ref x) (ms_c s), ms_a := relayed_attrs rep hold (ms_a s)\<rparr>],
        sd_shared := (if ms_c s = Some Shared then map_option (relayed_addr x) (sd_shared d) else sd_shared d)\<rparr>)"

definition relayable :: "nat \<Rightarrow> sdp_body \<Rightarrow> bool" where
  "relayable l d \<longleftrightarrow> l < length (sd_sections d) \<and> sd_o d \<noteq> None \<and> ms_m (sd_sections d ! l) \<noteq> None \<and> ms_c (sd_sections d ! l) \<noteq> None"

lemma attrs:
  "RemoveAHeader p s = s\<lparr>ms_a := without p (ms_a s)\<rparr>" "AddHeader ''a'' v s = s\<lparr>ms_a := ms_a s @ [v]\<rparr>"
  "HasAHeader [''recvonly'', ''sendonly'', ''inactive''] s = has_direction (ms_a s)"
  by (simp_all add: RemoveAHeader_def AddHeader_def HasAHeader_def without_def has_direction_def)

lemma relay_section_eq:
  assumes "ms_m s = Some m"
  shows "relay_section rep ur s = Inr (s\<lparr>ms_m := Some (relayed_port (ur_rtpproxy_port ur, a) m), ms_a := relayed_attrs rep (ur_sendonly ur) (ms_a s)\<rparr>)"
proof -
  define s1 where "s1 = s\<lparr>ms_m := Some (relayed_port (ur_rtpproxy_port ur, a) m)\<rparr>"
  have port: "(if sm_port m \<noteq> ''0'' then s\<lparr>ms_m := Some (m\<lparr>sm_port := Itoa (ur_rtpproxy_port ur)\<rparr>)\<rparr> else s) = s1"
    using assms by (simp add: s1_def relayed_port_def)
  have "relay_section rep ur s = Inr (s1\<lparr>ms_a := relayed_attrs rep (ur_sendonly ur) (ms_a s1)\<rparr>)"
    unfolding relay_section_def relayed_attrs_def assms of_option_simps bind_result_simps port
    by (cases "ur_sendonly ur"; cases "0 < rep") (simp_all add: attrs Let_def)
  then show ?thesis by (simp add: s1_def)
qed

lemma relay_sdp_eq:
  assumes "relayable l d"
  shows "relay_sdp rep l (relay_result x up) d = Inr (relay_step rep l (ur_sendonly (relay_result x up)) x d)"
    and "relayable l (relay_step rep l h x d)"
proof -
  obtain m r where mr: "ms_m (sd_sections d ! l) = Some m" "ms_c (sd_sections d ! l) = Some r" "l < length (sd_sections d)"
    using assms by (auto simp: relayable_def)
  have order: "s\<lparr>ms_c := c, ms_m := m', ms_a := as\<rparr> = s\<lparr>ms_m := m', ms_c := c, ms_a := as\<rparr>"
    "ms_c s = c \<Longrightarrow> s\<lparr>ms_m := m', ms_a := as\<rparr> = s\<lparr>ms_m := m', ms_c := c, ms_a := as\<rparr>" for s :: sdp_section and c m' as
    by (cases s; simp)+
  have session: "d\<lparr>sd_shared := c, sd_sections := ss\<rparr> = d\<lparr>sd_sections := ss, sd_shared := c\<rparr>" for c ss by (cases d) simp
  have same: "d\<lparr>sd_sections := ss, sd_shared := sd_shared d\<rparr> = d\<lparr>sd_sections := ss\<rparr>" for ss by (cases d) simp
  show "relay_sdp rep l (relay_result x up) d = Inr (relay_step rep l (ur_sendonly (relay_result x up)) x d)"
    using mr by (cases r) (simp_all add: relay_sdp_def update_connection_def relay_section_eq [of _ m _ _ "snd x"] relay_step_def relayed_ref_def
        relayed_addr_def [abs_def] Let_def order session same)
  show "relayable l (relay_step rep l h x d)"
    using assms by (simp add: relayable_def relay_step_def Let_def)
qed

definition relay_with :: "nat \<Rightarrow> int \<times> string \<Rightarrow> string list \<Rightarrow> sdp_body \<Rightarrow> sdp_body" where
  "relay_with l x as d =
     (let s = sd_sections d ! l in
      d\<lparr>sd_sections := (sd_sections d)[l := s\<lparr>ms_m := map_option (relayed_port x) (ms_m s),
            ms_c := map_option (relayed_ref x) (ms_c s), ms_a := as\<rparr>],
        sd_shared := (if ms_c s = Some Shared then map_option (relayed_addr x) (sd_shared d) else sd_shared d)\<rparr>)"

text \<open>A later answer replaces what an earlier one has put into the section, its attributes apart.\<close>

lemma relay_with_again:
  assumes "l < length (sd_sections d)" "good_answer y"
  shows "relay_with l x as (relay_with l y as' d) = relay_with l x as d"
proof -
  have "Itoa (fst y) \<noteq> ''0''" using assms(2) Itoa_positive(2) by (auto simp: good_answer_def)
  then have "relayed_port x (relayed_port y m) = relayed_port x m" for m by (simp add: relayed_port_def)
  moreover have addr: "relayed_addr x (relayed_addr y c) = relayed_addr x c" for c by (simp add: relayed_addr_def)
  moreover have "relayed_ref x (relayed_ref y r) = relayed_ref x r" for r
    by (cases r) (simp_all add: relayed_ref_def addr)
  moreover have "map_option (relayed_ref y) r = Some Shared \<longleftrightarrow> r = Some Shared" for r
    by (cases r; cases "the r") (auto simp: relayed_ref_def)
  ultimately show ?thesis using assms(1)
    by (simp add: relay_with_def Let_def option.map_comp comp_def)
qed

lemma relay_answers:
  assumes "l < length (sd_sections d)" "\<forall>p \<in> set ps. good_answer (snd p)" "ps \<noteq> []"
  shows "foldl (\<lambda>d p. relay_step rep l (fst p) (snd p) d) d ps
    = relay_with l (snd (last ps)) (foldl (\<lambda>as p. relayed_attrs rep (fst p) as) (ms_a (sd_sections d ! l)) ps) d"
  using assms(2,3)
proof (induction ps rule: rev_induct)
  case (snoc p ps)
  have step: "relay_step rep l h x d' = relay_with l x (relayed_attrs rep h (ms_a (sd_sections d' ! l))) d'" for h x d'
    by (simp add: relay_step_def relay_with_def)
  have attrs: "ms_a (sd_sections (relay_with l x as d) ! l) = as" for x as
    using assms(1) by (simp add: relay_with_def Let_def)
  show ?case
  proof (cases "ps = []")
    case False
    then have "good_answer (snd (last ps))" using snoc.prems(1) by simp
    with False show ?thesis using snoc relay_with_again [OF assms(1)] by (simp add: step attrs)
  qed (simp add: step)
qed simp

text \<open>
  The finished description. The section with number l has the address, and unless its port was zero the port, of the answer x; its attributes are
  those of the answers in their order, and its information, bandwidth and key are as they were. The other sections are as they were, but one that
  shares its connection header with section l now shows the relay's address there. Of the session itself the address of the origin is hidden, and an
  attribute can be added.
\<close>

definition relayed_as :: "int \<Rightarrow> bool \<Rightarrow> bool list \<Rightarrow> sdp_body \<Rightarrow> nat \<Rightarrow> int \<times> string \<Rightarrow> sdp_body \<Rightarrow> bool" where
  "relayed_as rep nortpp holds d0 l x d \<longleftrightarrow>
     (\<exists>m0 c0. ms_m (sd_sections d0 ! l) = Some m0 \<and> section_c d0 (sd_sections d0 ! l) = Some c0
        \<and> sd_sections d = (sd_sections d0)[l := (sd_sections d0 ! l)\<lparr>
            ms_m := Some (m0\<lparr>sm_port := if sm_port m0 = ''0'' then ''0'' else Itoa (fst x)\<rparr>),
            ms_c := Some (if ms_c (sd_sections d0 ! l) = Some Shared then Shared else Own (c0\<lparr>sc_atype := ''IP4'', sc_addr := snd x\<rparr>)),
            ms_a := foldl (\<lambda>as h. relayed_attrs rep h as) (ms_a (sd_sections d0 ! l)) holds\<rparr>]
        \<and> sd_shared d = (if ms_c (sd_sections d0 ! l) = Some Shared then Some (c0\<lparr>sc_atype := ''IP4'', sc_addr := snd x\<rparr>) else sd_shared d0)
        \<and> d\<lparr>sd_sections := sd_sections d0, sd_shared := sd_shared d0, sd_o := sd_o d0, sd_a := sd_a d0\<rparr> = d0
        \<and> sd_o d = map_option (\<lambda>r. r\<lparr>so_address := ''192.0.2.1'', so_address_type := ''IP4'', so_network_type := ''IN''\<rparr>) (sd_o d0)
        \<and> sd_a d = sd_a d0 @ (if nortpp then [''nortpproxy=yes''] else []))"

definition finished :: "bool \<Rightarrow> sdp_body \<Rightarrow> sdp_body" where
  "finished nortpp d = d\<lparr>sd_o := map_option (\<lambda>r. r\<lparr>so_address := ''192.0.2.1'', so_address_type := ''IP4'', so_network_type := ''IN''\<rparr>) (sd_o d),
     sd_a := sd_a d @ (if nortpp then [''nortpproxy=yes''] else [])\<rparr>"

lemma finished_relayed:
  assumes "relayable l d" "section_c d (sd_sections d ! l) \<noteq> None" "\<forall>p \<in> set ps. good_answer (snd p)" "ps \<noteq> []"
  shows "relayed_as rep nortpp (map fst ps) d l (snd (last ps)) (finished nortpp (foldl (\<lambda>d p. relay_step rep l (fst p) (snd p) d) d ps))"
proof -
  obtain m r c where l: "ms_m (sd_sections d ! l) = Some m" "ms_c (sd_sections d ! l) = Some r" "l < length (sd_sections d)"
      "section_c d (sd_sections d ! l) = Some c"
    using assms(1,2) by (auto simp: relayable_def)
  have attrs: "foldl (\<lambda>as p. relayed_attrs rep (fst p) as) as0 ps = foldl (\<lambda>as h. relayed_attrs rep h as) as0 (map fst ps)" for as0
    by (simp add: foldl_map)
  have port: "relayed_port x m = m\<lparr>sm_port := if sm_port m = ''0'' then ''0'' else Itoa (fst x)\<rparr>" for x
    by (cases m) (simp add: relayed_port_def)
  show ?thesis unfolding relayed_as_def relay_answers [OF l(3) assms(3,4)] attrs
    using l by (intro exI [of _ m] exI [of _ c]) (cases r, simp_all add: finished_def relay_with_def relayed_ref_def relayed_addr_def section_c_def port Let_def)
qed

lemma relayed_others:
  assumes "relayed_as rep nortpp holds d l x d'" "k \<noteq> l"
  shows "sd_sections d' ! k = sd_sections d ! k
    \<and> section_c d' (sd_sections d' ! k) =
        (if ms_c (sd_sections d ! k) = Some Shared \<and> ms_c (sd_sections d ! l) = Some Shared
         then map_option (\<lambda>c. c\<lparr>sc_atype := ''IP4'', sc_addr := snd x\<rparr>) (section_c d (sd_sections d ! k))
         else section_c d (sd_sections d ! k))"
proof -
  obtain c0 s' where r: "section_c d (sd_sections d ! l) = Some c0" "sd_sections d' = (sd_sections d)[l := s']"
      "sd_shared d' = (if ms_c (sd_sections d ! l) = Some Shared then Some (c0\<lparr>sc_atype := ''IP4'', sc_addr := snd x\<rparr>) else sd_shared d)"
    using assms(1) unfolding relayed_as_def by blast
  then have "sd_sections d' ! k = sd_sections d ! k" using assms(2) by simp
  with r show ?thesis by (auto simp: section_c_def split: option.splits c_ref.splits)
qed

lemma sdp_change_finish_good:
  assumes "px_jobs s j = Some jb" "mb_needs_update (jb_body jb)" "mb_sdp (jb_body jb) = Some d"
    "relay_sdp (sp_repacketize (the_side sd s)) (jb_sect jb) u d = Inr d1"
  shows "sdp_change_finish sd j (Some u) None s =
    (let s1 = (if sp_after_sdp_change (the_side sd s) then emit_out (O_after sd u) s else s);
         jb2 = jb\<lparr>jb_body := (jb_body jb)\<lparr>mb_sdp := Some d1\<rparr>, jb_left := jb_left jb - 1\<rparr>
     in if 0 < jb_left jb - 1 then Inr (put_job j jb2 s1) else finish_job j jb2 s1)"
  using assms by (simp add: sdp_change_finish_def Let_def)

lemma finish_job_good:
  assumes "mb_sdp (jb_body jb) = Some d" "sd_o d \<noteq> None"
  shows "\<exists>s' b. finish_job j jb s = Inr s' \<and> px_out s' = px_out s @ [O_sdp j (Some b) None] \<and> mb_sdp b = Some (finished (px_insert_nortpp s) d)
    \<and> \<not> mb_needs_update b"
proof -
  obtain r where r: "sd_o d = Some r" using assms(2) by auto
  have "hide_origin (if px_insert_nortpp s then sdp_AppendAHeader ''nortpproxy=yes'' d else d) = Inr (finished (px_insert_nortpp s) d)"
    using r by (cases d) (simp add: hide_origin_def sdp_AppendAHeader_def finished_def)
  moreover have "px_out (emit_out y (put_job j jb' s)) = px_out s @ [y]" for y jb' by (simp add: emit_out_def put_job_def)
  ultimately show ?thesis using assms(1) by (simp add: finish_job_def set_needs_update_def Let_def)
qed

text \<open>The commands of a change of the description, with whether the section of each is on hold.\<close>

definition job_cmd :: "side \<Rightarrow> nat \<Rightarrow> rtpp_cmd \<Rightarrow> bool \<Rightarrow> bool" where
  "job_cmd sd j c hold \<longleftrightarrow> (\<exists>up. wc_cb c = CB_update sd up \<and> up_result_callback up = UP_sdp sd j \<and> up_subcommands up = [] \<and> up_held up = hold)"

definition waiting :: "side \<Rightarrow> nat \<Rightarrow> int \<Rightarrow> bool \<Rightarrow> bool list \<Rightarrow> nat \<Rightarrow> sdp_body \<Rightarrow> rtpp_session \<Rightarrow> bool" where
  "waiting sd j rep nortpp holds l d s \<longleftrightarrow> queue_inv s \<and> list_all2 (job_cmd sd j) (outstanding s) holds
     \<and> sp_repacketize (the_side sd s) = rep \<and> px_insert_nortpp s = nortpp \<and> relayable l d
     \<and> (\<exists>jb. px_jobs s j = Some jb \<and> jb_left jb = int (length holds) \<and> jb_sect jb = l \<and> mb_needs_update (jb_body jb)
          \<and> mb_sdp (jb_body jb) = Some d)"

lemma quiet_link [simp]:
  "queue_inv (put_job j jb s) = queue_inv s" "outstanding (put_job j jb s) = outstanding s"
  "queue_inv (emit_out x s) = queue_inv s" "outstanding (emit_out x s) = outstanding s"
  "queue_inv (put_side sd y s) = queue_inv s" "outstanding (put_side sd y s) = outstanding s"
  "px_jobs (put_side sd y s) = px_jobs s" "px_jobs (emit_out x s) = px_jobs s"
  "the_side sd (put_side sd y s) = y" "the_side sd (emit_out x s) = the_side sd s" "the_side sd (put_job j jb s) = the_side sd s"
  "px_insert_nortpp (emit_out x s) = px_insert_nortpp s" "px_insert_nortpp (put_side sd y s) = px_insert_nortpp s"
  "px_insert_nortpp (put_job j jb s) = px_insert_nortpp s" "px_jobs (put_job j jb s) = (px_jobs s)(j \<mapsto> jb)"
  by (cases sd; simp add: put_job_def emit_out_def queue_inv_def outstanding_def cong: option.case_cong)+

lemma take_done_rest:
  assumes "take_done s = (c, s')"
  shows "px_jobs s' = px_jobs s" "the_side sd s' = the_side sd s" "px_insert_nortpp s' = px_insert_nortpp s"
  using assms by (cases sd; auto simp: take_done_def emit_out_def split: list.splits)+

lemma answer_step:
  assumes "waiting sd j rep nortpp (h # hs) l d s" "good_answer x"
  shows "\<exists>s'. cmd_done caps (answer_text x) s = Inr s' \<and>
    (if hs = [] then \<exists>b. last (px_out s') = O_sdp j (Some b) None \<and> mb_sdp b = Some (finished nortpp (relay_step rep l h x d)) \<and> \<not> mb_needs_update b
     else waiting sd j rep nortpp hs l (relay_step rep l h x d) s')"
proof -
  have q: "queue_inv s" "sp_repacketize (the_side sd s) = rep" "px_insert_nortpp s = nortpp" "relayable l d"
    using assms(1) by (simp_all add: waiting_def)
  obtain c cs where o: "outstanding s = c # cs" "job_cmd sd j c h" "list_all2 (job_cmd sd j) cs hs"
    using assms(1) by (auto simp: waiting_def list_all2_Cons2)
  then obtain up where up: "wc_cb c = CB_update sd up" "up_result_callback up = UP_sdp sd j" "up_subcommands up = []" "up_held up = h"
    by (auto simp: job_cmd_def)
  obtain jb where jb: "px_jobs s j = Some jb" "jb_left jb = 1 + int (length hs)" "jb_sect jb = l" "mb_needs_update (jb_body jb)"
      "mb_sdp (jb_body jb) = Some d"
    using assms(1) by (auto simp: waiting_def)
  obtain d1 s1 where t: "take_done s = (d1, s1)" by (cases "take_done s")
  note tl = take_done_link [OF q(1) t] take_done_rest [OF t]
  define d' where "d' = relay_step rep l h x d"
  define s2 where "s2 = put_side sd ((the_side sd s1)\<lparr>sp_session_exists := True\<rparr>) s1"
  define s3 where "s3 = (if sp_after_sdp_change (the_side sd s2) then emit_out (O_after sd (relay_result x up)) s2 else s2)"
  have s3: "queue_inv s3" "outstanding s3 = cs" "px_jobs s3 = px_jobs s" "sp_repacketize (the_side sd s3) = rep" "px_insert_nortpp s3 = nortpp"
    using tl o q by (simp_all add: s3_def s2_def)
  have rep: "sp_repacketize (the_side sd s2) = rep" using tl q by (simp add: s2_def)
  have d': "relay_sdp rep l (relay_result x up) d = Inr d'" "relayable l d'"
    using relay_sdp_eq [OF q(4)] up(4) by (simp_all add: d'_def)
  define jb2 where "jb2 = jb\<lparr>jb_body := (jb_body jb)\<lparr>mb_sdp := Some d'\<rparr>, jb_left := jb_left jb - 1\<rparr>"
  have "cmd_done caps (answer_text x) s = sdp_change_finish sd j (Some (relay_result x up)) None s2"
    using t tl(4) o(1) up good_answer_read [OF assms(2) up(3)]
    by (simp add: cmd_done_def run_rtpp_cb_def update_done_def ProcessRtppResult_def run_up_cb_def s2_def)
  also have "\<dots> = (if hs \<noteq> [] then Inr (put_job j jb2 s3) else finish_job j jb2 s3)"
    using sdp_change_finish_good [of s2 j jb d sd "relay_result x up" d'] jb d'(1) tl rep
    by (simp add: s2_def s3_def jb2_def Let_def)
  finally have fin: "cmd_done caps (answer_text x) s = (if hs \<noteq> [] then Inr (put_job j jb2 s3) else finish_job j jb2 s3)" .
  show ?thesis
  proof (cases "hs = []")
    case True
    have "sd_o d' \<noteq> None" using d'(2) by (simp add: relayable_def)
    then show ?thesis using finish_job_good [of jb2 d' j s3] True s3 fin by (auto simp: jb2_def d'_def)
  next
    case False
    have "waiting sd j rep nortpp hs l d' (put_job j jb2 s3)"
      using o s3 jb d'(2) by (auto simp: waiting_def jb2_def)
    with False fin show ?thesis by (simp add: d'_def)
  qed
qed

lemma answers_run:
  "waiting sd j rep nortpp holds l d s \<Longrightarrow> length xs = length holds \<Longrightarrow> xs \<noteq> [] \<Longrightarrow> list_all good_answer xs \<Longrightarrow>
   \<exists>s' b. session_run (map (\<lambda>x. S_answer caps (answer_text x)) xs) s = Inr s' \<and> last (px_out s') = O_sdp j (Some b) None
     \<and> mb_sdp b = Some (finished nortpp (foldl (\<lambda>d p. relay_step rep l (fst p) (snd p) d) d (zip holds xs))) \<and> \<not> mb_needs_update b"
proof (induction xs arbitrary: s d holds)
  case (Cons x xs)
  then obtain h hs where hs: "holds = h # hs" "length xs = length hs" by (cases holds) auto
  obtain s1 where s1: "cmd_done caps (answer_text x) s = Inr s1"
      "if hs = [] then \<exists>b. last (px_out s1) = O_sdp j (Some b) None \<and> mb_sdp b = Some (finished nortpp (relay_step rep l h x d)) \<and> \<not> mb_needs_update b
       else waiting sd j rep nortpp hs l (relay_step rep l h x d) s1"
    using answer_step [of sd j rep nortpp h hs l d s x caps] Cons.prems hs by auto
  show ?case
  proof (cases "hs = []")
    case True
    then show ?thesis using s1 hs by simp
  next
    case False
    then have "xs \<noteq> []" using hs by auto
    then show ?thesis using Cons.IH [of hs "relay_step rep l h x d" s1] Cons.prems s1 False hs by simp
  qed
qed simp

text \<open>A parsed description has a media header and a connection in every section.\<close>

definition complete_sdp :: "sdp_body \<Rightarrow> bool" where
  "complete_sdp d \<longleftrightarrow> sd_o d \<noteq> None \<and> (\<forall>s \<in> set (sd_sections d). ms_m s \<noteq> None \<and> section_c d s \<noteq> None)"

lemma sdp_headers_own:
  "sdp_headers xs b = Inr b' \<Longrightarrow> \<forall>s \<in> set (sd_sections b). ms_c s \<noteq> Some Shared \<Longrightarrow> \<forall>s \<in> set (sd_sections b'). ms_c s \<noteq> Some Shared"
proof (induction xs arbitrary: b)
  case (Cons x xs)
  obtain name v where x: "x = (name, v)" by (cases x)
  obtain b1 where b1: "sdp_header x b = Inr b1" "sdp_headers xs b1 = Inr b'" using Cons.prems(1) by (auto simp: bind_result_Inr_iff)
  have add: "ms_c (AddHeader n w s) \<noteq> Some Shared" if "ms_c s \<noteq> Some Shared" for n w s
    using that by (auto simp: AddHeader_def)
  have new: "ms_c NewSdpMediaDescription \<noteq> Some Shared" by (simp add: NewSdpMediaDescription_def)
  have sess: "sd_sections b2 = sd_sections b0" if "session_header name v b0 = Inr b2" for b0 b2
    using that by (auto simp: session_header_def bind_result_Inr_iff split: if_splits)
  have "\<forall>s \<in> set (sd_sections b1). ms_c s \<noteq> Some Shared"
  proof (cases "name = ''m''")
    case True
    then show ?thesis using b1(1) x Cons.prems(2) add new by (auto simp: sdp_header_def Let_def)
  next
    case False
    show ?thesis
    proof (cases "sd_sections b = []")
      case True
      then show ?thesis using b1(1) x False sess [of b b1] by (simp add: sdp_header_def)
    next
      case f: False
      have "last (sd_sections b) \<in> set (sd_sections b)" using f by simp
      moreover have "\<forall>s \<in> set (butlast (sd_sections b)). ms_c s \<noteq> Some Shared" using Cons.prems(2) by (meson in_set_butlastD)
      ultimately show ?thesis using b1(1) x False f Cons.prems(2) add by (auto simp: sdp_header_def)
    qed
  qed
  with Cons.IH b1(2) show ?case by blast
qed simp

lemma parsed_complete:
  assumes "ParseSdpBody t = Inr d"
  shows "complete_sdp d"
proof -
  obtain b where b: "sdp_headers (sdp_lines t) empty_sdp = Inr b" "sdp_sanity (share_connection b) = Inr d"
    using assms by (auto simp: ParseSdpBody_def bind_result_Inr_iff)
  have own: "\<forall>s \<in> set (sd_sections b). ms_c s \<noteq> Some Shared" using sdp_headers_own [OF b(1)] by (simp add: empty_sdp_def)
  have d: "d = share_connection b" "sd_o d \<noteq> None" "List.map_filter SanityCheck (sd_sections d) = []"
    using b(2) by (auto simp: sdp_sanity_def split: if_splits list.splits)
  then have sane: "\<forall>s \<in> set (sd_sections d). SanityCheck s = None" by (auto simp: List.map_filter_def filter_empty_conv)
  have "section_c d s \<noteq> None" if "s \<in> set (sd_sections d)" "ms_c s \<noteq> None" for s
    using that own d(1) by (auto simp: share_connection_def section_c_def split: if_splits c_ref.splits)
  then show ?thesis using sane d(2) by (fastforce simp: complete_sdp_def SanityCheck_def split: if_splits)
qed

lemma fresh_GetSdp:
  assumes "GetSdp body = (b1, Inr d)" "mb_sdp body = None"
  shows "mb_sdp b1 = Some d" "mb_needs_update b1 = mb_needs_update body" "complete_sdp d"
proof -
  have part: "mb_sdp m = None \<and> mb_needs_update m = mb_needs_update body" if "sdp_part body = Inr m" for m
    using that assms(2) by (auto simp: sdp_part_def split: if_splits option.splits)
  show "mb_sdp b1 = Some d" "mb_needs_update b1 = mb_needs_update body" "complete_sdp d"
    using assms part parsed_complete
    by (auto simp: GetSdp_def msg_parse_def split: prod.splits option.splits if_splits sum.splits)
qed

lemma update_sections_link:
  assumes "queue_inv s" "px_client s = Some cl" "length (outstanding s) + length ks \<le> Suc channel_size"
    "\<forall>k \<in> set ks. ms_m (sd_sections d ! k) \<noteq> None \<and> section_c d (sd_sections d ! k) \<noteq> None"
  shows "\<exists>s' cs. update_sections caps sd j opts d i ks s = Inr s' \<and> queue_inv s' \<and> outstanding s' = outstanding s @ cs
    \<and> list_all2 (job_cmd sd j) cs (map (held d) ks) \<and> px_jobs s' = px_jobs s
    \<and> the_side sd s' = the_side sd s \<and> px_insert_nortpp s' = px_insert_nortpp s"
  using assms
proof (induction ks arbitrary: i s)
  case (Cons k ks)
  then obtain m c where "ms_m (sd_sections d ! k) = Some m" "section_c d (sd_sections d ! k) = Some c" by auto
  then obtain up where up: "section_params sd j opts d i k = Inr up" "up_result_callback up = UP_sdp sd j" "up_subcommands up = []"
      "up_held up = held d k"
    by (auto simp: section_params_def NewUpdateParams_def up_held_def held_def)
  let ?s = "s\<lparr>px_max_index := max (px_max_index s) (up_index up)\<rparr>"
  let ?up = "up\<lparr>up_options := up_options up @ bind_options caps (the_side sd ?s)\<rparr>"
  have q: "queue_inv ?s" "px_client ?s = Some cl" using Cons.prems by simp_all
  have "length (outstanding ?s) \<noteq> Suc channel_size" using Cons.prems(3) by simp
  then have "\<exists>s1. send_command (update_command caps sd ?up ?s) (CB_update sd ?up) ?s = Inr s1"
    unfolding send_command_cases [OF q] by simp
  then obtain s1 where s1: "send_command (update_command caps sd ?up ?s) (CB_update sd ?up) ?s = Inr s1" by blast
  note l = send_command_link [OF q s1]
  have u: "update caps sd up s = Inr s1" using s1 Cons.prems(2) by (simp add: update_def Let_def)
  have kept: "px_jobs s1 = px_jobs s" "the_side sd s1 = the_side sd s" "px_insert_nortpp s1 = px_insert_nortpp s"
    using s1 by (cases sd; auto simp: send_command_def emit_out_def Let_def split: option.splits if_splits)+
  have "length (outstanding s1) + length ks \<le> Suc channel_size" using Cons.prems(3) l(3) by simp
  then obtain s' cs where s': "update_sections caps sd j opts d (i + 1) ks s1 = Inr s'" "queue_inv s'" "outstanding s' = outstanding s1 @ cs"
      "list_all2 (job_cmd sd j) cs (map (held d) ks)" "px_jobs s' = px_jobs s1" "the_side sd s' = the_side sd s1"
      "px_insert_nortpp s' = px_insert_nortpp s1"
    using Cons.IH [OF l(1,2)] Cons.prems(4) by fastforce
  define c1 where "c1 = \<lparr>wc_cmd = update_command caps sd ?up ?s, wc_cb = CB_update sd ?up, wc_client = cl\<rparr>"
  have "job_cmd sd j c1 (held d k)" using up by (auto simp: job_cmd_def c1_def up_held_def)
  moreover have "outstanding s' = outstanding s @ c1 # cs" using s'(3) l(3) by (simp add: c1_def)
  ultimately have "queue_inv s' \<and> outstanding s' = outstanding s @ c1 # cs 
      \<and> list_all2 (job_cmd sd j) (c1 # cs) (map (held d) (k # ks)) \<and> px_jobs s' = px_jobs s
      \<and> the_side sd s' = the_side sd s \<and> px_insert_nortpp s' = px_insert_nortpp s"
    using s' kept by simp
  moreover have "update_sections caps sd j opts d i (k # ks) s = Inr s'" using up(1) u s'(1) by simp
  ultimately show ?case by blast
qed auto

lemma sdp_change_waits:
  assumes body: "GetSdp body = (b1, Inr d)" "mb_needs_update body" "mb_sdp body = None"
    and sects: "relayed_sections d = Inr ks" "ks \<noteq> []" "length ks \<le> Suc channel_size"
    and s: "queue_inv s" "outstanding s = []" "px_client s = Some cl"
  shows "\<exists>s1. on_sdp_change caps sd body s = Inr s1 \<and> waiting sd (px_njobs s) (sp_repacketize (the_side sd s)) (px_insert_nortpp s)
      (map (held d) ks) (last ks) d s1"
proof -
  note b1 = fresh_GetSdp [OF body(1,3)]
  have k: "k < length (sd_sections d)" if "k \<in> set ks" for k
    using sects(1) that by (auto simp: relayed_sections_def split: if_splits)
  have parts: "\<forall>k \<in> set ks. ms_m (sd_sections d ! k) \<noteq> None \<and> section_c d (sd_sections d ! k) \<noteq> None"
    using b1(3) k by (auto simp: complete_sdp_def)
  define jb where "jb = \<lparr>jb_body = b1, jb_sect = last ks, jb_left = int (length ks)\<rparr>"
  define s0 where "s0 = s\<lparr>px_njobs := Suc (px_njobs s)\<rparr>"
  define s3 where "s3 = put_job (px_njobs s) jb (put_side sd ((the_side sd s0)\<lparr>sp_codecs := go_join (CHR '','')
      (sm_formats (the (ms_m (sd_sections d ! hd ks))))\<rparr>) s0)"
  have s0: "queue_inv s0" "outstanding s0 = []" "px_client s0 = Some cl"
    using s by (simp_all add: s0_def queue_inv_def outstanding_def split: option.splits)
  have s3: "queue_inv s3" "outstanding s3 = []" "px_jobs s3 (px_njobs s) = Some jb"
    using s0 by (simp_all add: s3_def)
  have cl: "px_client s3 = Some cl" using s0(3) by (cases sd) (simp_all add: s3_def put_job_def)
  obtain s1 cs where s1: "update_sections caps sd (px_njobs s)
        (if 0 < sp_repacketize (the_side sd s0) then ''z'' @ Itoa (sp_repacketize (the_side sd s0)) else []) d 0 ks s3 = Inr s1"
      "queue_inv s1" "outstanding s1 = cs" "list_all2 (job_cmd sd (px_njobs s)) cs (map (held d) ks)" "px_jobs s1 = px_jobs s3"
      "the_side sd s1 = the_side sd s3" "px_insert_nortpp s1 = px_insert_nortpp s3"
    using update_sections_link [OF s3(1) cl _ parts] s3(2) sects(3) by fastforce
  have kept: "sp_repacketize (the_side sd s1) = sp_repacketize (the_side sd s)" "px_insert_nortpp s1 = px_insert_nortpp s"
    using s1(6,7) by (cases sd; simp add: s3_def s0_def put_job_def)+
  have "last ks \<in> set ks" using sects(2) by simp
  then have "relayable (last ks) d" using parts k b1(3) by (auto simp: relayable_def complete_sdp_def section_c_def split: option.splits)
  then have "waiting sd (px_njobs s) (sp_repacketize (the_side sd s)) (px_insert_nortpp s) (map (held d) ks) (last ks) d s1"
    using s1 s3 b1 body(2) kept by (auto simp: waiting_def jb_def)
  moreover have "on_sdp_change caps sd body s = Inr s1"
    unfolding s1(1) [symmetric, unfolded s3_def s0_def jb_def] by (simp add: on_sdp_change_def body(1) sects Let_def)
  ultimately show ?thesis by blast
qed

lemma sdp_change_answers:
  assumes "GetSdp body = (b1, Inr d)" "mb_needs_update body" "mb_sdp body = None" "relayed_sections d = Inr ks" "ks \<noteq> []"
    "length ks \<le> Suc channel_size" "queue_inv s" "outstanding s = []" "px_client s = Some cl" "length xs = length ks" "list_all good_answer xs"
  shows "\<exists>s' b d'. session_run (S_sdp caps sd body # map (\<lambda>x. S_answer caps (answer_text x)) xs) s = Inr s'
    \<and> last (px_out s') = O_sdp (px_njobs s) (Some b) None \<and> mb_sdp b = Some d' \<and> \<not> mb_needs_update b
    \<and> relayed_as (sp_repacketize (the_side sd s)) (px_insert_nortpp s) (map (held d) ks) d (last ks) (last xs) d'"
proof -
  let ?rep = "sp_repacketize (the_side sd s)" and ?ps = "zip (map (held d) ks) xs"
  obtain s1 where s1: "on_sdp_change caps sd body s = Inr s1"
      "waiting sd (px_njobs s) ?rep (px_insert_nortpp s) (map (held d) ks) (last ks) d s1"
    using sdp_change_waits [OF assms(1-9)] by blast
  have ne: "xs \<noteq> []" using assms(5,10) by auto
  have xs: "?ps \<noteq> []" "map fst ?ps = map (held d) ks" "snd (last ?ps) = last xs" "\<forall>p \<in> set ?ps. good_answer (snd p)"
    using assms(5,10,11) ne last_zip [of "map (held d) ks" xs] by (auto simp: list_all_iff dest: set_zip_rightD)
  have "last ks \<in> set ks" using assms(5) by simp
  then have "section_c d (sd_sections d ! last ks) \<noteq> None"
    using assms(4) fresh_GetSdp(3) [OF assms(1,3)] by (auto simp: complete_sdp_def relayed_sections_def split: if_splits)
  moreover have "relayable (last ks) d" using s1(2) by (simp add: waiting_def)
  ultimately have "relayed_as ?rep (px_insert_nortpp s) (map (held d) ks) d (last ks) (last xs)
      (finished (px_insert_nortpp s) (foldl (\<lambda>d p. relay_step ?rep (last ks) (fst p) (snd p) d) d ?ps))"
    using finished_relayed [OF _ _ xs(4,1), of "last ks" d ?rep "px_insert_nortpp s"] unfolding xs(2,3) by blast
  with answers_run [OF s1(2), of xs caps] ne assms(10,11) s1(1) show ?thesis by fastforce
qed

text \<open>
  Property C23. In a session with nothing outstanding, a description with one media section that is relayed and the good answer to the update it causes
  lead to one result, whose body is marked as done. In it that section has the port of the answer in its media header (a port of zero stays zero) and the
  address of the answer in its connection header, a section on hold is marked \<open>sendonly\<close>, the packet time is the one the relay is told to use, and all
  other lines of the section are kept. The records of the other sections are unchanged; one that has no connection of its own but uses that of the session
  shows the relay's address with it, as the header is shared. Of the session's own lines only the origin's address and, where configured, an attribute change.
\<close>

theorem relay_takes_over_media:
  assumes "GetSdp body = (b1, Inr d)" and "mb_needs_update body" and "mb_sdp body = None" and "relayed_sections d = Inr [k]"
    and "NewRtp_proxy_session clients idx random cid from to sock tag = Inr s0"
    and "session_run before s0 = Inr s" and "outstanding s = []" and "px_client s = Some cl" and "good_answer x"
  shows "\<exists>s' b d'. session_run [S_sdp caps sd body, S_answer caps (answer_text x)] s = Inr s'
    \<and> last (px_out s') = O_sdp (px_njobs s) (Some b) None \<and> mb_sdp b = Some d' \<and> \<not> mb_needs_update b
    \<and> relayed_as (sp_repacketize (the_side sd s)) (px_insert_nortpp s) [held d k] d k x d'"
  using sdp_change_answers [OF assms(1-4) _ _ run_queue_inv [OF assms(6) new_session_link(1) [OF assms(5)]] assms(7,8), of "[x]" caps sd]
    assms(9) by (simp add: channel_size_def)

text \<open>
  Property C37. With several relayed media sections the answers to all updates are applied to the last one. Every other section leaves with the record it
  came with: the port the peer had put there, although the relay has allotted a port for it, and its own connection, if it has one. The last section has
  the port and address of the last answer. If it uses the connection of the session, that header gets the relay's address, and the other sections that use it
  show the relay's address with the peer's port; if it has a connection of its own, the session's connection is unchanged too.
\<close>

theorem only_last_section_relayed:
  assumes "GetSdp body = (b1, Inr d)" and "mb_needs_update body" and "mb_sdp body = None" and "relayed_sections d = Inr ks"
    and "1 < length ks" and "length ks \<le> 51"
    and "NewRtp_proxy_session clients idx random cid from to sock tag = Inr s0"
    and "session_run before s0 = Inr s" and "outstanding s = []" and "px_client s = Some cl"
    and "length xs = length ks" and "list_all good_answer xs"
  shows "\<exists>s' b d'. session_run (S_sdp caps sd body # map (\<lambda>x. S_answer caps (answer_text x)) xs) s = Inr s'
    \<and> last (px_out s') = O_sdp (px_njobs s) (Some b) None \<and> mb_sdp b = Some d'
    \<and> relayed_as (sp_repacketize (the_side sd s)) (px_insert_nortpp s) (map (held d) ks) d (last ks) (last xs) d'
    \<and> (\<forall>k \<in> set (butlast ks). sd_sections d' ! k = sd_sections d ! k
         \<and> section_c d' (sd_sections d' ! k) =
             (if ms_c (sd_sections d ! k) = Some Shared \<and> ms_c (sd_sections d ! last ks) = Some Shared
              then map_option (\<lambda>c. c\<lparr>sc_atype := ''IP4'', sc_addr := snd (last xs)\<rparr>) (section_c d (sd_sections d ! k))
              else section_c d (sd_sections d ! k)))"
proof -
  have ks: "ks \<noteq> []" "length ks \<le> Suc channel_size" using assms(5,6) by (auto simp: channel_size_def)
  obtain s' b d' where s': "session_run (S_sdp caps sd body # map (\<lambda>x. S_answer caps (answer_text x)) xs) s = Inr s'"
      "last (px_out s') = O_sdp (px_njobs s) (Some b) None" "mb_sdp b = Some d'"
      "relayed_as (sp_repacketize (the_side sd s)) (px_insert_nortpp s) (map (held d) ks) d (last ks) (last xs) d'"
    using sdp_change_answers [OF assms(1-4) ks run_queue_inv [OF assms(8) new_session_link(1) [OF assms(7)]] assms(9-12), of caps sd] by blast
  have "distinct ks" using assms(4) by (auto simp: relayed_sections_def split: if_splits)
  then have "k \<noteq> last ks" if "k \<in> set (butlast ks)" for k
    using that assms(5) by (cases ks rule: rev_cases) auto
  with s' show ?thesis using relayed_others [OF s'(4)] by blast
qed

end
