(* ===== verification/Rtpp_Client.thy ===== *)
theory Rtpp_Client
  imports Sippy_Headers Sippy_Text
begin

text \<open>
  The client of an RTP proxy, \<^verbatim>\<open>sippy/rtp_proxy/client.go\<close> and \<^verbatim>\<open>client_opts.go\<close>: the version check,
  the questions about its capabilities, the heartbeat, and going on-line and off-line. The transport is an interface: a command
  goes out with what is to be done with its answer, and the outstanding ones are part of the state, as are the
  armed timers, whose delays do not matter here.
\<close>

section \<open>State\<close>

datatype capability = Cap_copy | Cap_stat | Cap_tnot | Cap_sbind | Cap_wdnt

datatype client_cb = CK_version | CK_heartbeat | CK_caps nat capability | CK_user nat

datatype client_timer = T_version | T_heartbeat

record caps_checker =
  ch_caps_requested :: nat
  ch_caps_received :: nat

record rtpp_client =
  cl_online :: bool
  cl_supported :: "capability \<Rightarrow> bool"
  cl_caps_done :: bool
  cl_shut_down :: bool
  cl_active_sessions :: int
  cl_sessions_created :: int
  cl_active_streams :: int
  cl_preceived :: int
  cl_ptransmitted :: int
  cl_checkers :: "caps_checker list"
  cl_outstanding :: "(string \<times> client_cb) list"
  cl_timers :: "client_timer list"
  cl_results :: "(nat \<times> string) list"

definition NewRtp_proxy_client_base :: rtpp_client where
  "NewRtp_proxy_client_base =
     \<lparr>cl_online = False, cl_supported = (\<lambda>_. False), cl_caps_done = False, cl_shut_down = False, cl_active_sessions = -1,
      cl_sessions_created = 0, cl_active_streams = 0, cl_preceived = 0, cl_ptransmitted = 0, cl_checkers = [],
      cl_outstanding = [], cl_timers = [], cl_results = []\<rparr>"

definition SendCommand :: "string \<Rightarrow> client_cb \<Rightarrow> rtpp_client \<Rightarrow> rtpp_client" where
  "SendCommand cmd cb c = c\<lparr>cl_outstanding := cl_outstanding c @ [(cmd, cb)]\<rparr>"

definition arm :: "client_timer \<Rightarrow> rtpp_client \<Rightarrow> rtpp_client" where
  "arm t c = c\<lparr>cl_timers := cl_timers c @ [t]\<rparr>"

section \<open>Operations\<close>

definition version_check :: "rtpp_client \<Rightarrow> rtpp_client" where
  "version_check c = (if cl_shut_down c then c else SendCommand ''V'' CK_version c)"

definition heartbeat :: "rtpp_client \<Rightarrow> rtpp_client" where
  "heartbeat c = (if cl_shut_down c then c else SendCommand ''Ib'' CK_heartbeat c)"

definition capstable :: "(string \<times> capability) list" where
  "capstable = [(''20071218'', Cap_copy), (''20080403'', Cap_stat), (''20081224'', Cap_tnot), (''20090810'', Cap_sbind), (''20150617'', Cap_wdnt)]"

definition newRtppCapsChecker :: "rtpp_client \<Rightarrow> rtpp_client" where
  "newRtppCapsChecker c =
     (let k = length (cl_checkers c);
          c1 = c\<lparr>cl_caps_done := False, cl_checkers := cl_checkers c @ [\<lparr>ch_caps_requested = length capstable, ch_caps_received = 0\<rparr>]\<rparr>
      in fold (\<lambda>(vers, cap). SendCommand (''VF '' @ vers) (CK_caps k cap)) capstable c1)"

definition GoOnline :: "rtpp_client \<Rightarrow> rtpp_client" where
  "GoOnline c =
     (if cl_shut_down c then c
      else if \<not> cl_online c then
        (if \<not> cl_caps_done c then newRtppCapsChecker c else heartbeat (c\<lparr>cl_online := True\<rparr>))
      else c)"

definition GoOffline :: "rtpp_client \<Rightarrow> rtpp_client" where
  "GoOffline c =
     (if cl_shut_down c then c
      else if cl_online c then arm T_version (c\<lparr>cl_online := False\<rparr>)
      else c)"

definition caps_query_done :: "nat \<Rightarrow> capability \<Rightarrow> string \<Rightarrow> rtpp_client \<Rightarrow> rtpp_client" where
  "caps_query_done k cap result c =
     (if length (cl_checkers c) \<le> k then c
      else
        (let ch = cl_checkers c ! k;
             received = ch_caps_received ch + 1;
             c1 = c\<lparr>cl_checkers := (cl_checkers c)[k := ch\<lparr>ch_caps_received := received\<rparr>],
                    cl_supported := (cl_supported c)(cap := (result = ''1''))\<rparr>
         in if received = ch_caps_requested ch then GoOnline (c1\<lparr>cl_caps_done := True\<rparr>) else c1))"

definition version_check_reply :: "string \<Rightarrow> rtpp_client \<Rightarrow> rtpp_client" where
  "version_check_reply version c =
     (if cl_shut_down c then c
      else if version = ''20040107'' then GoOnline c
      else if cl_online c then GoOffline c
      else arm T_version c)"

text \<open>The lines of the statistics; a carriage return at the end of a line is dropped, a bad number reads as zero.\<close>

definition scan_lines :: "string \<Rightarrow> string list" where
  "scan_lines s =
     map (\<lambda>l. if l \<noteq> [] \<and> last l = CHR 0x0D then butlast l else l)
       (let ls = go_split (CHR 0x0A) s in if last ls = [] then butlast ls else ls)"

definition stat_number :: "string \<Rightarrow> int" where
  "stat_number s = fst (Atoi_value (TrimSpace s))"

definition stat_of :: "string \<Rightarrow> string list \<Rightarrow> int" where
  "stat_of name ls =
     fold (\<lambda>l n. case go_cut (CHR '':'') l of (k, Some v) \<Rightarrow> if k = name then stat_number v else n | (k, None) \<Rightarrow> n) ls 0"

definition UpdateActive :: "string list \<Rightarrow> rtpp_client \<Rightarrow> rtpp_client" where
  "UpdateActive ls c =
     c\<lparr>cl_sessions_created := stat_of ''sessions created'' ls, cl_active_sessions := stat_of ''active sessions'' ls,
       cl_active_streams := stat_of ''active streams'' ls, cl_preceived := stat_of ''packets received'' ls,
       cl_ptransmitted := stat_of ''packets transmitted'' ls\<rparr>"

definition heartbeat_reply :: "string \<Rightarrow> rtpp_client \<Rightarrow> rtpp_client" where
  "heartbeat_reply stats c =
     (if cl_shut_down c \<or> \<not> cl_online c then c
      else arm T_heartbeat
        (if stats = [] then GoOffline (c\<lparr>cl_active_sessions := -1\<rparr>) else UpdateActive (scan_lines stats) c))"

definition Shutdown :: "rtpp_client \<Rightarrow> rtpp_client" where
  "Shutdown c = (if cl_shut_down c then c else c\<lparr>cl_shut_down := True\<rparr>)"

definition Start :: "bool \<Rightarrow> rtpp_client \<Rightarrow> rtpp_client" where
  "Start no_version_check c =
     (if \<not> no_version_check then version_check c else c\<lparr>cl_caps_done := True, cl_online := True\<rparr>)"

section \<open>A client at work\<close>

fun answer_cb :: "client_cb \<Rightarrow> string \<Rightarrow> rtpp_client \<Rightarrow> rtpp_client" where
  "answer_cb CK_version res c = version_check_reply res c"
| "answer_cb CK_heartbeat res c = heartbeat_reply res c"
| "answer_cb (CK_caps k cap) res c = caps_query_done k cap res c"
| "answer_cb (CK_user n) res c = c\<lparr>cl_results := cl_results c @ [(n, res)]\<rparr>"

fun fire :: "client_timer \<Rightarrow> rtpp_client \<Rightarrow> rtpp_client" where
  "fire T_version c = version_check c"
| "fire T_heartbeat c = heartbeat c"

text \<open>
  An outstanding command is answered, with the empty text when the transport gave up, a timer fires, the
  application sends a command or shuts the client down, or the transport reports that the proxy does not answer.
\<close>

inductive client_step :: "rtpp_client \<Rightarrow> rtpp_client \<Rightarrow> bool" where
  answered: "\<lbrakk>cl_outstanding c = xs @ (cmd, cb) # ys\<rbrakk>
     \<Longrightarrow> client_step c (answer_cb cb res (c\<lparr>cl_outstanding := xs @ ys\<rparr>))"
| fired: "\<lbrakk>cl_timers c = ts @ t # us\<rbrakk> \<Longrightarrow> client_step c (fire t (c\<lparr>cl_timers := ts @ us\<rparr>))"
| command: "client_step c (SendCommand cmd (CK_user n) c)"
| offline: "client_step c (GoOffline c)"
| shutdown: "client_step c (Shutdown c)"

definition client_init :: "rtpp_client \<Rightarrow> bool" where
  "client_init c \<longleftrightarrow> c = Start False NewRtp_proxy_client_base"

definition asked :: "client_cb \<Rightarrow> rtpp_client \<Rightarrow> bool" where
  "asked cb c \<longleftrightarrow> cb \<in> snd ` set (cl_outstanding c)"

definition caps_left :: "nat \<Rightarrow> rtpp_client \<Rightarrow> nat" where
  "caps_left k c = length (filter (\<lambda>x. \<exists>cap. snd x = CK_caps k cap) (cl_outstanding c))"

text \<open>An off-line client has a version check under way or scheduled, or questions about capabilities; an on-line one is checked, and its heartbeat goes on.\<close>

definition monitored :: "rtpp_client \<Rightarrow> bool" where
  "monitored c \<longleftrightarrow> cl_caps_done c \<and> (asked CK_heartbeat c \<or> T_heartbeat \<in> set (cl_timers c))"

definition trying :: "rtpp_client \<Rightarrow> bool" where
  "trying c \<longleftrightarrow> asked CK_version c \<or> T_version \<in> set (cl_timers c) \<or> (\<exists>k cap. asked (CK_caps k cap) c)"

definition in_service :: "rtpp_client \<Rightarrow> bool" where
  "in_service c \<longleftrightarrow> cl_shut_down c \<or> (if cl_online c then monitored c else trying c)"

definition caps_inv :: "rtpp_client \<Rightarrow> bool" where
  "caps_inv c \<longleftrightarrow>
     (\<forall>k < length (cl_checkers c). ch_caps_requested (cl_checkers c ! k) = 5
        \<and> caps_left k c + ch_caps_received (cl_checkers c ! k) = 5)
     \<and> (\<forall>k cap. asked (CK_caps k cap) c \<longrightarrow> k < length (cl_checkers c))"

definition client_inv :: "rtpp_client \<Rightarrow> bool" where
  "client_inv c \<longleftrightarrow> caps_inv c \<and> in_service c"

section \<open>The invariant\<close>

lemma client_fields [simp]:
  "cl_online (SendCommand cmd cb c) = cl_online c" "cl_shut_down (SendCommand cmd cb c) = cl_shut_down c"
  "cl_caps_done (SendCommand cmd cb c) = cl_caps_done c" "cl_timers (SendCommand cmd cb c) = cl_timers c"
  "cl_checkers (SendCommand cmd cb c) = cl_checkers c"
  "asked cb' (SendCommand cmd cb c) \<longleftrightarrow> cb' = cb \<or> asked cb' c"
  "caps_left k (SendCommand cmd cb c) = caps_left k c + (case cb of CK_caps k' _ \<Rightarrow> of_bool (k' = k) | _ \<Rightarrow> 0)"
  "asked cb (arm t c) = asked cb c" "caps_left k (arm t c) = caps_left k c" "cl_checkers (arm t c) = cl_checkers c"
  "cl_timers (arm t c) = cl_timers c @ [t]" "cl_online (arm t c) = cl_online c" "cl_shut_down (arm t c) = cl_shut_down c"
  "cl_caps_done (arm t c) = cl_caps_done c"
  by (auto simp: SendCommand_def arm_def asked_def caps_left_def split: client_cb.splits)

lemma same_questions [simp]:
  "asked cb (c\<lparr>cl_online := v0\<rparr>) = asked cb c" "caps_left k (c\<lparr>cl_online := v0\<rparr>) = caps_left k c"
  "asked cb (c\<lparr>cl_caps_done := v1\<rparr>) = asked cb c" "caps_left k (c\<lparr>cl_caps_done := v1\<rparr>) = caps_left k c"
  "asked cb (c\<lparr>cl_checkers := v2\<rparr>) = asked cb c" "caps_left k (c\<lparr>cl_checkers := v2\<rparr>) = caps_left k c"
  "asked cb (c\<lparr>cl_supported := v3\<rparr>) = asked cb c" "caps_left k (c\<lparr>cl_supported := v3\<rparr>) = caps_left k c"
  "asked cb (c\<lparr>cl_shut_down := v4\<rparr>) = asked cb c" "caps_left k (c\<lparr>cl_shut_down := v4\<rparr>) = caps_left k c"
  "asked cb (c\<lparr>cl_timers := v5\<rparr>) = asked cb c" "caps_left k (c\<lparr>cl_timers := v5\<rparr>) = caps_left k c"
  "asked cb (c\<lparr>cl_active_sessions := v6\<rparr>) = asked cb c" "caps_left k (c\<lparr>cl_active_sessions := v6\<rparr>) = caps_left k c"
  "asked cb (c\<lparr>cl_results := v7\<rparr>) = asked cb c" "caps_left k (c\<lparr>cl_results := v7\<rparr>) = caps_left k c"
  "asked cb (UpdateActive ls c) = asked cb c" "caps_left k (UpdateActive ls c) = caps_left k c"
  by (simp_all add: asked_def caps_left_def UpdateActive_def)

lemma UpdateActive_fields [simp]:
  "cl_online (UpdateActive ls c) = cl_online c" "cl_shut_down (UpdateActive ls c) = cl_shut_down c" "cl_checkers (UpdateActive ls c) = cl_checkers c"
  "cl_caps_done (UpdateActive ls c) = cl_caps_done c" "cl_timers (UpdateActive ls c) = cl_timers c"
  by (simp_all add: UpdateActive_def)

lemma checker_fields [simp]:
  "cl_online (newRtppCapsChecker c) = cl_online c" "cl_shut_down (newRtppCapsChecker c) = cl_shut_down c"
  "cl_checkers (newRtppCapsChecker c) = cl_checkers c @ [\<lparr>ch_caps_requested = 5, ch_caps_received = 0\<rparr>]"
  "asked cb (newRtppCapsChecker c) \<longleftrightarrow> asked cb c \<or> (\<exists>cap. cb = CK_caps (length (cl_checkers c)) cap)"
  "caps_left k (newRtppCapsChecker c) = caps_left k c + (if k = length (cl_checkers c) then 5 else 0)"
proof -
  show "asked cb (newRtppCapsChecker c) \<longleftrightarrow> asked cb c \<or> (\<exists>cap. cb = CK_caps (length (cl_checkers c)) cap)"
    by (auto simp: newRtppCapsChecker_def capstable_def Let_def) (metis capability.exhaust)
qed (simp_all add: newRtppCapsChecker_def capstable_def Let_def)

lemma no_caps_left: "caps_inv c \<Longrightarrow> length (cl_checkers c) \<le> k \<Longrightarrow> caps_left k c = 0"
  unfolding caps_inv_def caps_left_def asked_def length_0_conv filter_empty_conv by (metis imageI not_le)

lemma caps_inv_cong:
  "caps_inv c \<Longrightarrow> cl_checkers c' = cl_checkers c \<Longrightarrow> (\<And>k. caps_left k c' = caps_left k c)
     \<Longrightarrow> (\<And>k cap. asked (CK_caps k cap) c' = asked (CK_caps k cap) c) \<Longrightarrow> caps_inv c'"
  by (simp add: caps_inv_def)

lemma caps_inv_GoOnline: "caps_inv c \<Longrightarrow> caps_inv (GoOnline c)"
proof -
  assume i: "caps_inv c"
  have "caps_inv (newRtppCapsChecker c)"
    using i no_caps_left [OF i] by (auto simp: caps_inv_def nth_append less_Suc_eq)
  moreover have "caps_inv (heartbeat (c\<lparr>cl_online := True\<rparr>))"
    by (rule caps_inv_cong [OF i]) (simp_all add: heartbeat_def)
  ultimately show ?thesis using i by (simp add: GoOnline_def)
qed

lemma GoOnline_service: "(\<not> cl_shut_down c \<Longrightarrow> cl_online c \<Longrightarrow> monitored c) \<Longrightarrow> in_service (GoOnline c)"
  by (auto simp: in_service_def GoOnline_def heartbeat_def monitored_def trying_def)

lemma GoOffline_service: "(\<not> cl_online c \<Longrightarrow> in_service c) \<Longrightarrow> in_service (GoOffline c)"
  by (auto simp: in_service_def GoOffline_def trying_def)

lemma caps_inv_quiet: "caps_inv c \<Longrightarrow> caps_inv (GoOffline c)" "caps_inv c \<Longrightarrow> caps_inv (arm t c)"
    "caps_inv c \<Longrightarrow> caps_inv (UpdateActive ls c)"  "caps_inv c \<Longrightarrow> caps_inv (Shutdown c)"
  by (erule caps_inv_cong; simp add: GoOffline_def Shutdown_def)+

text \<open>What is left when one command is taken from the outstanding ones.\<close>

definition drop_cmd :: "(string \<times> client_cb) list \<Rightarrow> rtpp_client \<Rightarrow> rtpp_client" where
  "drop_cmd os c = c\<lparr>cl_outstanding := os\<rparr>"

lemma drop_cmd_fields [simp]:
  "cl_online (drop_cmd os c) = cl_online c" "cl_shut_down (drop_cmd os c) = cl_shut_down c" "cl_checkers (drop_cmd os c) = cl_checkers c"
  "cl_caps_done (drop_cmd os c) = cl_caps_done c" "cl_timers (drop_cmd os c) = cl_timers c"
  by (simp_all add: drop_cmd_def)

lemma drop_cmd_questions:
  assumes "cl_outstanding c = xs @ (cmd, cb) # ys"
  shows "cb' \<noteq> cb \<Longrightarrow> asked cb' (drop_cmd (xs @ ys) c) = asked cb' c"
    and "caps_left k c = caps_left k (drop_cmd (xs @ ys) c) + (case cb of CK_caps k' _ \<Rightarrow> of_bool (k' = k) | _ \<Rightarrow> 0)"
    and "asked cb' (drop_cmd (xs @ ys) c) \<Longrightarrow> asked cb' c" and "asked cb c"
  using assms by (auto simp: drop_cmd_def asked_def caps_left_def split: client_cb.splits)

lemma service_monitored: "in_service c \<Longrightarrow> \<not> cl_shut_down c \<Longrightarrow> cl_online c \<Longrightarrow> monitored c"
  and service_trying: "in_service c \<Longrightarrow> \<not> cl_shut_down c \<Longrightarrow> \<not> cl_online c \<Longrightarrow> trying c"
  by (simp_all add: in_service_def)

lemma answered_inv:
  assumes inv: "client_inv c" and o: "cl_outstanding c = xs @ (cmd, cb) # ys"
  shows "client_inv (answer_cb cb res (drop_cmd (xs @ ys) c))"
proof -
  let ?c = "drop_cmd (xs @ ys) c"
  note q = drop_cmd_questions [OF o]
  have ci: "caps_inv c" and sv: "in_service c" using inv by (auto simp: client_inv_def)
  have rest: "caps_inv ?c" if "\<And>k cap. cb \<noteq> CK_caps k cap"
  proof (rule caps_inv_cong [OF ci])
    show "asked (CK_caps k cap) ?c = asked (CK_caps k cap) c" for k cap using q(1) [of "CK_caps k cap"] that by metis
    show "caps_left k ?c = caps_left k c" for k using q(2) [of k] that by (cases cb) auto
  qed simp
  show ?thesis
  proof (cases cb)
    case (CK_caps k cap)
    have k: "k < length (cl_checkers c)" using ci q(4) CK_caps by (auto simp: caps_inv_def)
    let ?ch = "cl_checkers c ! k"
    have n: "ch_caps_requested ?ch = 5" "caps_left k ?c + Suc (ch_caps_received ?ch) = 5"
      using ci k q(2) [of k] CK_caps by (auto simp: caps_inv_def)
    define c1 where "c1 = ?c\<lparr>cl_checkers := (cl_checkers c)[k := ?ch\<lparr>ch_caps_received := Suc (ch_caps_received ?ch)\<rparr>],
        cl_supported := (cl_supported ?c)(cap := (res = ''1''))\<rparr>"
    have "ch_caps_requested (cl_checkers c1 ! i) = 5 \<and> caps_left i c1 + ch_caps_received (cl_checkers c1 ! i) = 5"
      if "i < length (cl_checkers c1)" for i
      using that ci n k q(2) [of i] CK_caps by (cases "i = k") (auto simp: c1_def caps_inv_def)
    moreover have "i < length (cl_checkers c1)" if "asked (CK_caps i cap') c1" for i cap'
      using that q(3) [of "CK_caps i cap'"] ci by (auto simp: c1_def caps_inv_def)
    ultimately have c1: "caps_inv c1" by (auto simp: caps_inv_def)
    have answer: "answer_cb cb res ?c = (if Suc (ch_caps_received ?ch) = 5 then GoOnline (c1\<lparr>cl_caps_done := True\<rparr>) else c1)"
      using CK_caps k n(1) by (simp add: caps_query_done_def c1_def Let_def)
    have mon: "monitored c1" if "cl_online c" "\<not> cl_shut_down c"
      using service_monitored [OF sv that(2,1)] q(1) [of CK_heartbeat] CK_caps by (auto simp: monitored_def c1_def)
    show ?thesis
    proof (cases "Suc (ch_caps_received ?ch) = 5")
      case True
      have "caps_inv (c1\<lparr>cl_caps_done := True\<rparr>)" by (rule caps_inv_cong [OF c1]) simp_all
      moreover have "in_service (GoOnline (c1\<lparr>cl_caps_done := True\<rparr>))"
        using mon by (intro GoOnline_service) (auto simp: c1_def monitored_def)
      ultimately show ?thesis using answer True caps_inv_GoOnline by (simp add: client_inv_def)
    next
      case False
      then have "0 < caps_left k c1" using n by (simp add: c1_def)
      then have "\<exists>cap. asked (CK_caps k cap) c1" 
        unfolding caps_left_def asked_def length_greater_0_conv filter_empty_conv by (metis imageI)
      then have "in_service c1" using mon by (auto simp: in_service_def trying_def c1_def)
      then show ?thesis using answer False c1 by (simp add: client_inv_def)
    qed
  next
    case CK_version
    have "monitored ?c" if "\<not> cl_shut_down c" "cl_online c"
      using service_monitored [OF sv that] q(1) [of CK_heartbeat] CK_version by (auto simp: monitored_def)
    then have "in_service (version_check_reply res ?c)"
      using GoOnline_service [of ?c] GoOffline_service [of ?c]
      by (auto simp: version_check_reply_def in_service_def trying_def)
    moreover have "caps_inv (version_check_reply res ?c)"
      using rest CK_version by (simp add: version_check_reply_def caps_inv_GoOnline caps_inv_quiet)
    ultimately show ?thesis using CK_version by (simp add: client_inv_def)
  next
    case CK_heartbeat
    have "trying ?c" if "\<not> cl_shut_down c" "\<not> cl_online c"
      using service_trying [OF sv that] q(1) [of CK_version] q(1) [of "CK_caps k cap" for k cap] CK_heartbeat
      unfolding trying_def by auto
    then have idle: "in_service ?c" if "cl_shut_down c \<or> \<not> cl_online c" using that by (simp add: in_service_def) blast
    have "in_service (heartbeat_reply res ?c)"
    proof (cases "cl_shut_down c \<or> \<not> cl_online c")
      case True
      then show ?thesis using idle by (simp add: heartbeat_reply_def)
    next
      case False
      then have "cl_caps_done c" using service_monitored [OF sv] by (simp add: monitored_def)
      then have m: "in_service (arm T_heartbeat (UpdateActive (scan_lines res) ?c))" using False by (simp add: in_service_def monitored_def)
      have "in_service (arm T_heartbeat (GoOffline (?c\<lparr>cl_active_sessions := -1\<rparr>)))"
        using False by (simp add: in_service_def GoOffline_def trying_def)
      with m False show ?thesis by (simp add: heartbeat_reply_def)
    qed
    moreover have "caps_inv (?c\<lparr>cl_active_sessions := -1\<rparr>)" by (rule caps_inv_cong [OF rest]) (simp_all add: CK_heartbeat)
    then have "caps_inv (heartbeat_reply res ?c)"
      using rest CK_heartbeat by (simp add: heartbeat_reply_def caps_inv_quiet)
    ultimately show ?thesis using CK_heartbeat by (simp add: client_inv_def)
  next
    case (CK_user n)
    have "in_service ?c" using sv q(1) CK_user by (auto simp: in_service_def monitored_def trying_def)
    then have "in_service (answer_cb cb res ?c)" unfolding in_service_def monitored_def trying_def by (simp add: CK_user split: if_splits)
    moreover have "caps_inv (answer_cb cb res ?c)" by (rule caps_inv_cong [OF rest]) (simp_all add: CK_user)
    ultimately show ?thesis by (simp add: client_inv_def)
  qed
qed

lemma fired_inv:
  assumes inv: "client_inv c" and t: "cl_timers c = ts @ t # us"
  shows "client_inv (fire t (c\<lparr>cl_timers := ts @ us\<rparr>))"
proof -
  let ?c = "c\<lparr>cl_timers := ts @ us\<rparr>"
  have ci: "caps_inv c" and sv: "in_service c" using inv by (auto simp: client_inv_def)
  have "caps_inv (fire t ?c)" 
    by (rule caps_inv_cong [OF ci]) (cases t; simp add: version_check_def heartbeat_def)+
  moreover have "in_service (fire t ?c)" using sv t
    by (cases t) (auto simp: in_service_def monitored_def trying_def version_check_def heartbeat_def)
  ultimately show ?thesis by (simp add: client_inv_def)
qed

interpretation proxy_client: invariant_system client_init client_step client_inv
proof
  fix c :: rtpp_client assume "client_init c"
  then show "client_inv c"
    by (simp add: client_init_def Start_def version_check_def NewRtp_proxy_client_base_def client_inv_def caps_inv_def in_service_def trying_def
        SendCommand_def asked_def)
next
  fix c t assume "client_inv c" "client_step c t"
  from this(2,1) show "client_inv t"
  proof cases
    case (answered xs cmd cb ys res)
    then show ?thesis using answered_inv [of c xs cmd cb ys res] \<open>client_inv c\<close> by (simp add: drop_cmd_def)
  next
    case (fired ts t us)
    then show ?thesis using fired_inv \<open>client_inv c\<close> by blast
  next
    case (command cmd n)
    have "caps_inv t" unfolding command by (rule caps_inv_cong [of c]) (use \<open>client_inv c\<close> in \<open>simp_all add: client_inv_def\<close>)
    then show ?thesis using \<open>client_inv c\<close> by (auto simp: command client_inv_def in_service_def monitored_def trying_def)
  next
    case offline
    then show ?thesis using \<open>client_inv c\<close> by (simp add: client_inv_def caps_inv_quiet GoOffline_service)
  next
    case shutdown
    then show ?thesis using \<open>client_inv c\<close> caps_inv_quiet(4) [of c] by (auto simp: client_inv_def in_service_def Shutdown_def split: if_splits)
  qed
qed

text \<open>
  Property C24. Whatever answers, timeouts and timers a proxy client that was started meets, until it is shut down it never gets stuck: while it is on-line its
  capabilities are known and a heartbeat is under way or scheduled, and while it is off-line a version check is under way or scheduled or
  the questions about the capabilities are under way.
\<close>

theorem proxy_client_never_stuck:
  assumes "reach client_init client_step c" and "\<not> cl_shut_down c"
  shows "if cl_online c then cl_caps_done c \<and> (asked CK_heartbeat c \<or> T_heartbeat \<in> set (cl_timers c))
    else asked CK_version c \<or> T_version \<in> set (cl_timers c) \<or> (\<exists>k cap. asked (CK_caps k cap) c)"
  using proxy_client.reach_inv [OF assms(1)] assms(2) unfolding client_inv_def in_service_def monitored_def trying_def by blast

end
