(* ===== verification/Sippy_Clock.thy ===== *)
theory Sippy_Clock
  imports Sippy_Time Sippy_Text Complex_Main "HOL-Library.Log_Nat"
begin

text \<open>
  The clocks behind the time stamps: the recursive filter of \<^verbatim>\<open>sippy/math/recfilter.go\<close>, conversions of
  \<^verbatim>\<open>sippy/time/time.go\<close>, and the constructors of \<^verbatim>\<open>sippy/time/monotime.go\<close>, which follow the offset between the two clocks
  through the filter. Instants are nanoseconds; a number of type float64 is the rational it stands for, and every operation on such numbers rounds its result to
  53 significant bits. Exponents are unbounded, and no two operations are fused into one. The readings of the clocks are arguments, \<open>None\<close> where reading fails.
\<close>

section \<open>Floating point numbers\<close>

definition round_even :: "rat \<Rightarrow> int" where
  "round_even x =
     (let n = \<lfloor>x\<rfloor>; d = x - of_int n
      in if d < 1 / 2 then n else if 1 / 2 < d then n + 1 else if even n then n else n + 1)"

text \<open>The exponent of the leading bit.\<close>

definition binade :: "rat \<Rightarrow> int" where
  "binade x =
     (case quotient_of x of (p, q) \<Rightarrow>
        (let k = bitlen \<bar>p\<bar> - bitlen q in if 1 \<le> \<bar>x\<bar> * 2 powi (- k) then k else k - 1))"

definition fl64 :: "rat \<Rightarrow> rat" where
  "fl64 x = (if x = 0 then 0 else of_int (round_even (x * 2 powi (52 - binade x))) * 2 powi (binade x - 52))"

lemma round_even_near: "\<bar>of_int (round_even x) - x\<bar> \<le> 1 / 2"
proof -
  have "of_int \<lfloor>x\<rfloor> \<le> x" "x < of_int \<lfloor>x\<rfloor> + 1" using floor_correct [of x] by simp_all
  then show ?thesis unfolding round_even_def Let_def by (simp add: abs_if; linarith)
qed

lemma binade_below:
  assumes "x \<noteq> 0"
  shows "2 powi binade x \<le> \<bar>x\<bar>"
proof -
  obtain p q where pq: "quotient_of x = (p, q)" by fastforce
  have q: "0 < q" and x: "x = of_int p / of_int q" using quotient_of_denom_pos [OF pq] quotient_of_div [OF pq] by simp_all
  have p: "0 < \<bar>p\<bar>" using assms x by auto
  define k where "k = bitlen \<bar>p\<bar> - bitlen q"
  have bl: "0 < bitlen \<bar>p\<bar>" "0 < bitlen q" using p q bitlen_nonneg [of "\<bar>p\<bar>"] bitlen_nonneg [of q] bitlen_eq_zero_iff [of "\<bar>p\<bar>"] bitlen_eq_zero_iff [of q] by linarith+
  show ?thesis
  proof (cases "1 \<le> \<bar>x\<bar> * 2 powi (- k)")
    case True
    then have "2 powi k \<le> \<bar>x\<bar>" by (simp add: power_int_minus field_simps)
    then show ?thesis using True pq by (simp add: binade_def k_def)
  next
    case False
    have "(2 :: int) ^ nat (bitlen \<bar>p\<bar> - 1) \<le> \<bar>p\<bar>" "q \<le> 2 ^ nat (bitlen q)" using bitlen_bounds [OF p] bitlen_bounds [OF q] by simp_all
    then have "(of_int (2 ^ nat (bitlen \<bar>p\<bar> - 1)) :: rat) \<le> of_int \<bar>p\<bar>" "(of_int q :: rat) \<le> of_int (2 ^ nat (bitlen q))"
      by (simp_all only: of_int_le_iff)
    then have b: "(2 :: rat) powi (bitlen \<bar>p\<bar> - 1) \<le> of_int \<bar>p\<bar>" "(of_int q :: rat) \<le> 2 powi bitlen q"
      using bl by (simp_all add: power_int_def)
    have "(2 :: rat) powi (k - 1) = 2 powi (bitlen \<bar>p\<bar> - 1) / 2 powi bitlen q"
      by (simp add: k_def power_int_diff [symmetric] algebra_simps)
    also have "\<dots> \<le> of_int \<bar>p\<bar> / of_int q" using b q by (intro frac_le) simp_all
    also have "\<dots> = \<bar>x\<bar>" using x q by simp
    finally show ?thesis using False pq by (simp add: binade_def k_def)
  qed
qed

text \<open>A result is off by at most one part in two to the 53.\<close>

lemma fl64_near: "\<bar>fl64 x - x\<bar> \<le> \<bar>x\<bar> / 2 ^ 53"
proof (cases "x = 0")
  case False
  let ?s = "2 powi (binade x - 52) :: rat" and ?y = "x * 2 powi (52 - binade x)"
  have inv: "2 powi (52 - binade x) * ?s = 1" by (simp add: power_int_add [symmetric])
  then have "fl64 x - x = (of_int (round_even ?y) - ?y) * ?s" using False by (simp add: fl64_def algebra_simps)
  then have "\<bar>fl64 x - x\<bar> = \<bar>of_int (round_even ?y) - ?y\<bar> * ?s" by (simp add: abs_mult)
  also have "\<dots> \<le> 1 / 2 * ?s" using round_even_near by (intro mult_right_mono) simp_all
  also have "\<dots> = 2 powi binade x / 2 ^ 53" by (simp add: power_int_diff)
  also have "\<dots> \<le> \<bar>x\<bar> / 2 ^ 53" using binade_below [OF False] by (simp add: divide_right_mono)
  finally show ?thesis .
qed (simp add: fl64_def)

lemma fl64_pos: "0 < x \<Longrightarrow> 0 < fl64 x"
  using fl64_near [of x] by (simp add: abs_if split: if_splits)

lemma fl64_nonneg: "0 \<le> x \<Longrightarrow> 0 \<le> fl64 x"
  using fl64_pos [of x] by (cases "x = 0") (simp_all add: fl64_def order.order_iff_strict)

section \<open>Filter and conversions\<close>

record rec_filter =
  rf_lastval :: rat
  rf_a :: rat
  rf_b :: rat

definition NewRecFilter :: "rat \<Rightarrow> rat \<Rightarrow> rec_filter" where
  "NewRecFilter fcoef initval = \<lparr>rf_lastval = initval, rf_a = fl64 (1 - fcoef), rf_b = fcoef\<rparr>"

definition rf_Apply :: "rat \<Rightarrow> rec_filter \<Rightarrow> rec_filter" where
  "rf_Apply x f = f\<lparr>rf_lastval := fl64 (fl64 (rf_a f * x) + fl64 (rf_b f * rf_lastval f))\<rparr>"

text \<open>The filter's value is the weighted mean, up to three parts in two to the 53 of what is added.\<close>

lemma rf_Apply_near:
  "\<bar>rf_lastval (rf_Apply x f) - (rf_a f * x + rf_b f * rf_lastval f)\<bar> \<le> (\<bar>rf_a f * x\<bar> + \<bar>rf_b f * rf_lastval f\<bar>) * 3 / 2 ^ 53"
proof -
  define u where "u = rf_a f * x"
  define v where "v = rf_b f * rf_lastval f"
  have e: "\<bar>fl64 u - u\<bar> \<le> \<bar>u\<bar> / 2 ^ 53" "\<bar>fl64 v - v\<bar> \<le> \<bar>v\<bar> / 2 ^ 53" "\<bar>fl64 (fl64 u + fl64 v) - (fl64 u + fl64 v)\<bar> \<le> \<bar>fl64 u + fl64 v\<bar> / 2 ^ 53"
    by (rule fl64_near)+
  have "\<bar>fl64 u + fl64 v\<bar> \<le> 2 * (\<bar>u\<bar> + \<bar>v\<bar>)" using e(1,2) by (simp add: abs_if split: if_splits)
  then have "\<bar>fl64 u + fl64 v\<bar> / 2 ^ 53 \<le> 2 * (\<bar>u\<bar> + \<bar>v\<bar>) / 2 ^ 53" by (rule divide_right_mono) simp
  moreover have "\<bar>fl64 (fl64 u + fl64 v) - (u + v)\<bar> \<le> \<bar>fl64 (fl64 u + fl64 v) - (fl64 u + fl64 v)\<bar> + \<bar>fl64 u - u\<bar> + \<bar>fl64 v - v\<bar>"
    by linarith
  ultimately have "\<bar>fl64 (fl64 u + fl64 v) - (u + v)\<bar> \<le> 2 * (\<bar>u\<bar> + \<bar>v\<bar>) / 2 ^ 53 + \<bar>u\<bar> / 2 ^ 53 + \<bar>v\<bar> / 2 ^ 53"
    using e by linarith
  then show ?thesis by (simp add: rf_Apply_def u_def v_def add_divide_distrib algebra_simps)
qed

text \<open>A time in seconds, as \<open>time.Unix\<close> and \<open>Time.Unix\<close> have it; the difference of two times is cut to 64 bits.\<close>

definition unix_time :: "int \<Rightarrow> int" where "unix_time s = s * second"
definition unix_of :: "int \<Rightarrow> int" where "unix_of t = t div second"
definition time_Sub :: "int \<Rightarrow> int \<Rightarrow> duration" where "time_Sub t u = max int64_min (min int64_max (t - u))"

definition rat_trunc :: "rat \<Rightarrow> int" where
  "rat_trunc x = (if 0 \<le> x then \<lfloor>x\<rfloor> else \<lceil>x\<rceil>)"

definition FloatToDuration :: "rat \<Rightarrow> duration" where
  "FloatToDuration v = rat_trunc (fl64 (v * of_int second))"

text \<open>\<open>Duration.Seconds\<close>: whole seconds and the rest, with the sign of the duration.\<close>

definition Seconds :: "duration \<Rightarrow> rat" where
  "Seconds d =
     (let q = (if 0 \<le> d then d div second else - (- d div second)); r = d - q * second
      in fl64 (of_int q + fl64 (of_int r / of_int second)))"

text \<open>Whole and fractional part have the same sign, and both are exact.\<close>

definition FloatToTime :: "rat \<Rightarrow> int" where
  "FloatToTime t = rat_trunc t * second + rat_trunc (fl64 ((t - of_int (rat_trunc t)) * of_int second))"

definition TimeToFloat :: "int \<Rightarrow> rat" where
  "TimeToFloat t = fl64 (fl64 (of_int t) / of_int second)"

definition RoundTime :: "int \<Rightarrow> int" where
  "RoundTime t = (t div second + (if 500000000 \<le> t mod second then 1 else 0)) * second"

section \<open>Reading the clocks\<close>

record mono_globals =
  mg_monot_max :: int
  mg_realt_flt :: rec_filter

definition newMonoTime :: "int option \<Rightarrow> int option \<Rightarrow> monotime result" where
  "newMonoTime mclock real_clock =
     (case mclock of
        None \<Rightarrow> Inl ''Cannot read monolitic clock''
      | Some m \<Rightarrow> (case real_clock of None \<Rightarrow> Inl ''Cannot read realtime clock'' | Some r \<Rightarrow> Inr \<lparr>monot = m, realt = r\<rparr>))"

definition globals_of :: "monotime \<Rightarrow> mono_globals" where
  "globals_of t = \<lparr>mg_monot_max = monot t, mg_realt_flt = NewRecFilter (fl64 (99 / 100)) (Seconds (time_Sub (realt t) (monot t)))\<rparr>"

definition globals_Apply :: "int \<Rightarrow> int \<Rightarrow> mono_globals \<Rightarrow> duration \<times> mono_globals" where
  "globals_Apply re mo g =
     (let f = rf_Apply (Seconds (time_Sub re mo)) (mg_realt_flt g)
      in (FloatToDuration (rf_lastval f), g\<lparr>mg_realt_flt := f, mg_monot_max := max (mg_monot_max g) mo\<rparr>))"

definition NewMonoTime :: "int option \<Rightarrow> int option \<Rightarrow> mono_globals \<Rightarrow> monotime result \<times> mono_globals" where
  "NewMonoTime mclock real_clock g =
     (case newMonoTime mclock real_clock of
        Inl e \<Rightarrow> (Inl e, g)
      | Inr t \<Rightarrow> (case globals_Apply (realt t) (monot t) g of (d, g1) \<Rightarrow> (Inr (t\<lparr>realt := monot t + d\<rparr>), g1)))"

text \<open>A stamp for a given wall-clock time. When it would be later than the last one the real-time clock is read.\<close>

definition NewMonoTime1 :: "int option \<Rightarrow> int \<Rightarrow> mono_globals \<Rightarrow> monotime result \<times> mono_globals" where
  "NewMonoTime1 real_clock re g =
     (let mo = FloatToTime (fl64 (TimeToFloat re - rf_lastval (mg_realt_flt g))) in
      if mg_monot_max g < mo then
        (case real_clock of
           None \<Rightarrow> (Inl ''Cannot read realtime clock'', g)
         | Some now \<Rightarrow> (let m = max (mg_monot_max g) now in (Inr \<lparr>monot = m, realt = re\<rparr>, g\<lparr>mg_monot_max := m\<rparr>)))
      else (Inr \<lparr>monot = mo, realt = re\<rparr>, g))"

text \<open>A stamp from its text; reading a number is an argument.\<close>

definition NewMonoTimeFromString :: "(string \<Rightarrow> rat result) \<Rightarrow> int option \<Rightarrow> string \<Rightarrow> mono_globals \<Rightarrow> monotime result \<times> mono_globals" where
  "NewMonoTimeFromString parse real_clock s g =
     (case go_cut (CHR ''-'') s of (a, b) \<Rightarrow>
        case parse a of
          Inl e \<Rightarrow> (Inl e, g)
        | Inr re \<Rightarrow>
            (case b of
               None \<Rightarrow> NewMonoTime1 real_clock (FloatToTime re) g
             | Some m \<Rightarrow> (case parse m of
                   Inl e \<Rightarrow> (Inl e, g)
                 | Inr mo \<Rightarrow> (Inr \<lparr>monot = FloatToTime mo, realt = FloatToTime re\<rparr>, g))))"

definition OffsetFromNow :: "int option \<Rightarrow> monotime \<Rightarrow> duration result" where
  "OffsetFromNow mclock t =
     (case mclock of None \<Rightarrow> Inl ''Cannot read monolitic clock'' | Some now \<Rightarrow> Inr (time_Sub now (monot t)))"

section \<open>Stamps\<close>

text \<open>A stamp has the monotonic time that was read, and the latest monotonic time given out never goes back.\<close>

lemma NewMonoTime_reading:
  assumes "NewMonoTime (Some mo) (Some re) g = (r, g1)"
  shows "\<exists>t. r = Inr t \<and> monot t = mo \<and> mg_monot_max g \<le> mg_monot_max g1 \<and> mo \<le> mg_monot_max g1"
  using assms by (auto simp: NewMonoTime_def newMonoTime_def globals_Apply_def Let_def)

text \<open>
  A stamp made for a wall-clock time ahead of the last stamp takes the real-time clock's reading for its monotonic time, and so is
  ahead of a stamp read at that moment by the whole offset of the clocks.
\<close>

lemma future_stamp_has_wall_clock:
  assumes "mg_monot_max g < FloatToTime (fl64 (TimeToFloat re - rf_lastval (mg_realt_flt g)))" and "mg_monot_max g \<le> now_mono" and "0 \<le> gap"
  shows "\<exists>g1. NewMonoTime1 (Some (now_mono + gap)) re g = (Inr \<lparr>monot = now_mono + gap, realt = re\<rparr>, g1)
    \<and> mg_monot_max g1 = now_mono + gap \<and> mt_Sub \<lparr>monot = now_mono + gap, realt = re\<rparr> \<lparr>monot = now_mono, realt = now_mono + gap\<rparr> = gap"
  using assms by (simp add: NewMonoTime1_def Let_def mt_Sub_def)

end
