(* ===== verification/Rtpp_Udp.thy ===== *)
theory Rtpp_Udp
  imports Rtpp_Client Sippy_Clock
begin

text \<open>
  The transports of the RTP proxy client: datagrams with retransmission, \<^verbatim>\<open>sippy/rtp_proxy/client/udp.go\<close>,
  streams with their workers, \<^verbatim>\<open>client/stream.go\<close>, and the choice between them from an address text,
  \<^verbatim>\<open>client_opts.go\<close>. Times are rational numbers of seconds: the filter of the delays rounds as float64 numbers do, doubling an interval is exact, and
  the subtractions that count the repetitions that fit into the limit are taken as exact. Cookies
  and measured delays are arguments, and the calls to the outside are a log.
\<close>

section \<open>Retransmissions\<close>

text \<open>The loop does not end for a first interval of zero.\<close>

partial_function (option) count_retrans :: "rat \<Rightarrow> rat \<Rightarrow> int \<Rightarrow> int option" where
  "count_retrans first_retr timeout n =
     (if timeout - first_retr < 0 then Some n else count_retrans (first_retr * 2) (timeout - first_retr) (n + 1))"

definition getnretrans :: "rat \<Rightarrow> rat \<Rightarrow> int result option" where
  "getnretrans first_retr timeout =
     (if first_retr < 0 then Some (Inl ''getnretrans'') else map_option Inr (count_retrans first_retr timeout 0))"

section \<open>Datagrams\<close>

record rtpp_req_udp =
  rq_next_retr :: rat
  rq_triesleft :: int
  rq_command :: string
  rq_result_callback :: "nat option"
  rq_retransmits :: int

datatype udp_out =
    U_send string
  | U_wait string rat
  | U_offline
  | U_result nat string

record udp_client =
  uc_pending :: "string \<rightharpoonup> rtpp_req_udp"
  uc_delay_flt :: rec_filter
  uc_worker :: bool
  uc_out :: "udp_out list"

definition udp_emit :: "udp_out list \<Rightarrow> udp_client \<Rightarrow> udp_client" where
  "udp_emit xs u = u\<lparr>uc_out := uc_out u @ xs\<rparr>"

definition NewRtp_proxy_client_udp :: udp_client where
  "NewRtp_proxy_client_udp = \<lparr>uc_pending = Map.empty, uc_delay_flt = NewRecFilter (fl64 (95 / 100)) (25 / 100), uc_worker = True, uc_out = []\<rparr>"

definition exp_time :: "string \<Rightarrow> rat" where
  "exp_time command = (if take 1 command = ''I'' then 10 else if take 1 command = ''G'' then 1 else 3)"

text \<open>\<open>None\<close> is a call that does not return; an empty command and a missing worker panic.\<close>

definition Send_command :: "string \<Rightarrow> string \<Rightarrow> nat option \<Rightarrow> udp_client \<Rightarrow> udp_client result option" where
  "Send_command cookie command cb u =
     (if command = [] then Some (Inl index_panic)
      else
        (let next_retr = rf_lastval (uc_delay_flt u) * 4;
             cmd = cookie @ '' '' @ command in
         case getnretrans next_retr (exp_time command) of
           None \<Rightarrow> None
         | Some (Inl e) \<Rightarrow> Some (Inr u)
         | Some (Inr nretr) \<Rightarrow>
             if \<not> uc_worker u then Some (Inl nil_panic)
             else
               (let preq = \<lparr>rq_next_retr = next_retr, rq_triesleft = nretr - 1, rq_command = cmd, rq_result_callback = cb, rq_retransmits = 0\<rparr>
                in Some (Inr (udp_emit [U_wait cookie next_retr, U_send cmd] (u\<lparr>uc_pending := (uc_pending u)(cookie \<mapsto> preq)\<rparr>))))))"

definition call_result :: "nat option \<Rightarrow> string \<Rightarrow> udp_out list" where
  "call_result cb res = (case cb of None \<Rightarrow> [] | Some k \<Rightarrow> [U_result k res])"

definition retransmit :: "string \<Rightarrow> udp_client \<Rightarrow> udp_client" where
  "retransmit cookie u =
     (case uc_pending u cookie of
        None \<Rightarrow> u
      | Some req \<Rightarrow>
          if rq_triesleft req \<le> 0 \<or> \<not> uc_worker u then
            udp_emit (U_offline # call_result (rq_result_callback req) []) (u\<lparr>uc_pending := (uc_pending u)(cookie := None)\<rparr>)
          else
            (let retr = rq_next_retr req * 2;
                 req1 = req\<lparr>rq_next_retr := retr, rq_retransmits := rq_retransmits req + 1, rq_triesleft := rq_triesleft req - 1\<rparr>
             in udp_emit [U_wait cookie retr, U_send (rq_command req)] (u\<lparr>uc_pending := (uc_pending u)(cookie \<mapsto> req1)\<rparr>)))"

text \<open>An answer to a command that was repeated says nothing about the delay.\<close>

definition process_reply :: "string \<Rightarrow> rat \<Rightarrow> udp_client \<Rightarrow> udp_client" where
  "process_reply data delay u =
     (case FieldsN data 2 of
        [cookie, result] \<Rightarrow>
          (case uc_pending u cookie of
             None \<Rightarrow> u
           | Some req \<Rightarrow>
               (let u1 = udp_emit (call_result (rq_result_callback req) (TrimSpace result)) (u\<lparr>uc_pending := (uc_pending u)(cookie := None)\<rparr>)
                in if rq_retransmits req = 0 then u1\<lparr>uc_delay_flt := rf_Apply delay (uc_delay_flt u1)\<rparr> else u1))
      | _ \<Rightarrow> u)"

definition udp_Shutdown :: "udp_client \<Rightarrow> udp_client" where
  "udp_Shutdown u = u\<lparr>uc_worker := False\<rparr>"

text \<open>The address to bind to when none is given.\<close>

definition setup_addr :: "host_port \<Rightarrow> host_port option \<Rightarrow> host_port result" where
  "setup_addr hostport bind_address =
     (case bind_address of
        Some b \<Rightarrow> Inr b
      | None \<Rightarrow>
          (let h = ma_address (hp_Host hostport) in
           if h = [] then Inl index_panic
           else if hd h = CHR ''['' then Inr (NewHostPort (if h = ''[::1]'' then ''[::1]'' else ''[::]'') ''0'')
           else Inr (NewHostPort (if take 4 h = ''127.'' then ''127.0.0.1'' else ''0.0.0.0'') ''0'')))"

definition Reconnect :: "bool \<Rightarrow> udp_client \<Rightarrow> udp_client" where
  "Reconnect changed u =
     (if changed then u\<lparr>uc_worker := True, uc_delay_flt := NewRecFilter (fl64 (95 / 100)) (25 / 100)\<rparr> else u)"

section \<open>Streams\<close>

definition max_retries :: nat where "max_retries = 3"

text \<open>
  One command over a stream: each try dials, writes and reads, and gives the error or the text read. The tries are numbered
  by the retries made before; the first good one ends the loop.
\<close>

function send_raw :: "(nat \<Rightarrow> string result) \<Rightarrow> nat \<Rightarrow> string \<Rightarrow> string result" where
  "send_raw attempt retries err =
     (if max_retries < retries then Inl (''Error sending to the rtpproxy: '' @ err)
      else (case attempt retries of
              Inr rval \<Rightarrow> Inr (TrimSpace rval)
            | Inl e \<Rightarrow> send_raw attempt (Suc retries) e))"
  by pat_completeness auto

termination
  by (relation "measure (\<lambda>(_, retries, _). Suc max_retries - retries)") auto

declare send_raw.simps [simp del]

text \<open>A worker's turn: the text for the callback and whether the delay counts.\<close>

definition worker_turn :: "(nat \<Rightarrow> string result) \<Rightarrow> string \<times> bool" where
  "worker_turn attempt =
     (case send_raw attempt 0 [] of
        Inl e \<Rightarrow> ([], False)
      | Inr data \<Rightarrow> (data, data \<noteq> []))"

definition stream_command :: "string \<Rightarrow> string result" where
  "stream_command command =
     (if command = [] then Inl index_panic
      else Inr (if last command \<noteq> CHR 0x0A then command @ [CHR 0x0A] else command))"

text \<open>A worker takes requests until it meets the mark of the shutdown, which it puts back for the others.\<close>

fun stream_run :: "(string \<times> nat option) option list \<Rightarrow> (string \<Rightarrow> nat \<Rightarrow> string result) \<Rightarrow> (nat \<times> string) list \<times> (string \<times> nat option) option list" where
  "stream_run [] net = ([], [])"
| "stream_run (None # wi) net = ([], wi @ [None])"
| "stream_run (Some (cmd, cb) # wi) net =
     (case stream_run wi net of (rs, left) \<Rightarrow>
        ((case cb of None \<Rightarrow> [] | Some k \<Rightarrow> [(k, fst (worker_turn (net cmd)))]) @ rs, left))"

section \<open>Addresses of proxies\<close>

datatype rtpp_class = Class_udp | Class_stream

text \<open>Host and port of a path of the families with brackets; an empty one is indexed.\<close>

definition path6 :: "string \<Rightarrow> string result" where
  "path6 spath =
     (if spath = [] then Inl index_panic
      else
        (let (h, p) = (if last spath \<noteq> CHR '']'' then
                         (case last_cut (CHR '':'') spath of None \<Rightarrow> (spath, ''22222'') | Some (a, b) \<Rightarrow> (a, b))
                       else (spath, ''22222'')) in
         if h = [] then Inl index_panic
         else Inr ((if hd h \<noteq> CHR ''['' then ''['' @ h @ '']'' else h) @ '':'' @ p)))"

definition path4 :: "string \<Rightarrow> string" where
  "path4 spath = (case go_cut (CHR '':'') spath of (h, None) \<Rightarrow> h @ '':22222'' | (h, Some p) \<Rightarrow> h @ '':'' @ p)"

text \<open>
  The class of the transport, the address and the address of the media; resolving, with the text of the result, is an argument.
\<close>

definition NewRtpProxyClientOpts ::
  "(string \<Rightarrow> string \<Rightarrow> string result) \<Rightarrow> string \<Rightarrow> string \<Rightarrow> (rtpp_class \<times> string \<times> string) result" where
  "NewRtpProxyClientOpts resolve sip_address spath =
     (let inet = (\<lambda>cls net hp.
            bind_result (resolve net hp) (\<lambda>a.
              case SplitHostPort a of None \<Rightarrow> Inl ''bad address'' | Some (h, _) \<Rightarrow> Inr (cls, a, h)));
          local_path = (\<lambda>path. bind_result (resolve ''unix'' path) (\<lambda>a. Inr (Class_stream, a, sip_address)))
      in if take 4 spath = ''udp:'' then inet Class_udp ''udp'' (path4 (drop 4 spath))
         else if take 5 spath = ''udp6:'' then bind_result (path6 (drop 5 spath)) (inet Class_udp ''udp'')
         else if take 4 spath = ''tcp:'' then inet Class_stream ''tcp'' (path4 (drop 4 spath))
         else if take 5 spath = ''tcp6:'' then bind_result (path6 (drop 5 spath)) (inet Class_stream ''tcp'')
         else if take 5 spath = ''unix:'' then local_path (drop 5 spath)
         else if take 6 spath = ''cunix:'' then local_path (drop 6 spath)
         else local_path spath)"

section \<open>How long a command takes\<close>

lemma count_retrans_Some:
  assumes "0 < f" "0 \<le> t"
  shows "\<exists>n. count_retrans f t k = Some (k + int n) \<and> f * (2 ^ n - 1) \<le> t \<and> t < f * (2 ^ Suc n - 1)"
proof -
  have "\<exists>m :: nat. t / f < of_nat m" by (rule reals_Archimedean2)
  then obtain m :: nat where "t < of_nat m * f" using assms(1) by (auto simp: pos_divide_less_eq mult.commute)
  then show ?thesis using assms
  proof (induction m arbitrary: f t k rule: less_induct)
    case (less m)
    show ?case
    proof (cases "t - f < 0")
      case True
      then have "count_retrans f t k = Some k" by (subst count_retrans.simps) simp
      then show ?thesis using True less.prems by (intro exI [of _ 0]) simp
    next
      case False
      have "m \<noteq> 0" using less.prems by (cases m) auto
      then have m: "t - f < of_nat (m - 1) * (f * 2)" "m - 1 < m"
        using less.prems False by (auto simp: of_nat_diff algebra_simps)
      obtain n where n: "count_retrans (f * 2) (t - f) (k + 1) = Some (k + 1 + int n)" "f * 2 * (2 ^ n - 1) \<le> t - f" "t - f < f * 2 * (2 ^ Suc n - 1)"
        using less.IH [OF m(2,1)] less.prems False by fastforce
      have "count_retrans f t k = Some (k + int (Suc n))" using n(1) False by (subst count_retrans.simps) (simp add: add.assoc)
      moreover have "f * (2 ^ Suc n - 1) \<le> t" "t < f * (2 ^ Suc (Suc n) - 1)" using n(2,3) by (simp_all add: algebra_simps)
      ultimately show ?thesis by blast
    qed
  qed
qed

text \<open>The timer of a cookie fires some number of times in a row.\<close>

definition expire :: "nat \<Rightarrow> string \<Rightarrow> udp_client \<Rightarrow> udp_client" where
  "expire n cookie u = (retransmit cookie ^^ n) u"

fun waits_of :: "string \<Rightarrow> udp_out list \<Rightarrow> rat list" where
  "waits_of ck [] = []"
| "waits_of ck (U_wait ck' t # xs) = (if ck' = ck then t # waits_of ck xs else waits_of ck xs)"
| "waits_of ck (_ # xs) = waits_of ck xs"

fun sends_of :: "udp_out list \<Rightarrow> string list" where
  "sends_of [] = []"
| "sends_of (U_send s # xs) = s # sends_of xs"
| "sends_of (_ # xs) = sends_of xs"

lemma expire_Suc: "expire (Suc n) ck u = expire n ck (retransmit ck u)"
  by (simp add: expire_def funpow_swap1 del: funpow.simps) (simp add: funpow_swap1)

text \<open>A pending request with tries left: the timers to come, and what is reported at the end.\<close>

lemma expire_pending:
  assumes "uc_worker u" "uc_pending u ck = Some req" "rq_result_callback req = Some cb" "rq_triesleft req = int n"
  shows "\<exists>xs. uc_out (expire (Suc n) ck u) = uc_out u @ xs @ [U_offline, U_result cb []]
    \<and> uc_pending (expire (Suc n) ck u) = (uc_pending u)(ck := None) \<and> uc_worker (expire (Suc n) ck u)
    \<and> xs = concat (map (\<lambda>i. [U_wait ck (rq_next_retr req * 2 ^ Suc i), U_send (rq_command req)]) [0..<n])"
  using assms
proof (induction n arbitrary: u req)
  case 0
  then show ?case by (simp add: expire_def retransmit_def udp_emit_def call_result_def)
next
  case (Suc n)
  let ?u = "retransmit ck u"
  let ?req = "req\<lparr>rq_next_retr := rq_next_retr req * 2, rq_retransmits := rq_retransmits req + 1, rq_triesleft := rq_triesleft req - 1\<rparr>"
  have u: "uc_worker ?u" "uc_pending ?u = (uc_pending u)(ck \<mapsto> ?req)"
      "uc_out ?u = uc_out u @ [U_wait ck (rq_next_retr req * 2), U_send (rq_command req)]"
    using Suc.prems by (simp_all add: retransmit_def udp_emit_def Let_def)
  have "[0..<Suc n] = 0 # map Suc [0..<n]" by (simp add: map_Suc_upt upt_conv_Cons)
  then have list: "concat (map (\<lambda>i. [U_wait ck (rq_next_retr req * 2 ^ Suc i), U_send (rq_command req)]) [0..<Suc n])
      = [U_wait ck (rq_next_retr req * 2), U_send (rq_command req)]
        @ concat (map (\<lambda>i. [U_wait ck (rq_next_retr req * 2 * 2 ^ Suc i), U_send (rq_command req)]) [0..<n])"
    by (simp add: comp_def mult.assoc del: upt_Suc)
  have "uc_pending ?u ck = Some ?req" "rq_triesleft ?req = int n" "rq_result_callback ?req = Some cb" using u(2) Suc.prems by simp_all
  note ih = Suc.IH [OF u(1) this(1,3,2)]
  then show ?case unfolding expire_Suc [of "Suc n"] list u(2,3) fun_upd_upd by simp
qed

lemma log_append [simp]: "sends_of (xs @ ys) = sends_of xs @ sends_of ys" "waits_of ck (xs @ ys) = waits_of ck xs @ waits_of ck ys"
  by (induction xs rule: sends_of.induct) auto

lemma log_repeats:
  "sends_of (concat (map (\<lambda>i. [U_wait ck (g i), U_send c]) is)) = replicate (length is) c"
  "waits_of ck (concat (map (\<lambda>i. [U_wait ck (g i), U_send c]) is)) = map g is"
  "count_list (concat (map (\<lambda>i. [U_wait ck (g i), U_send c]) is)) (U_result k r) = 0"
  by (induction "is") simp_all

lemma sum_doubling: "sum_list (map (\<lambda>i. f * 2 ^ i) [0..<n]) = f * (2 ^ n - 1 :: rat)"
  by (induction n) (simp_all add: algebra_simps)

text \<open>
  Property C32. A command over UDP that is never answered is sent a fixed number of times, as many as timers of doubling length fit into its time
  limit (three seconds, ten for statistics, one for queries) and at least once; then the client is told that the proxy is off-line and the callback
  is called, once, with an empty answer, and nothing is pending any more. When at least one timer fits, all of this happens within the limit.
\<close>

theorem unanswered_command_times_out:
  assumes "uc_worker u" and "0 < rf_lastval (uc_delay_flt u)" and "command \<noteq> []"
  shows "\<exists>n u1. Send_command cookie command (Some cb) u = Some (Inr u1)
    \<and> (let f = rf_lastval (uc_delay_flt u) * 4; fin = expire (max 1 n) cookie u1; log = drop (length (uc_out u)) (uc_out fin) in
         f * (2 ^ n - 1) \<le> exp_time command \<and> exp_time command < f * (2 ^ Suc n - 1)
         \<and> sends_of log = replicate (max 1 n) (cookie @ '' '' @ command)
         \<and> waits_of cookie log = map (\<lambda>i. f * 2 ^ i) [0..<max 1 n]
         \<and> (0 < n \<longrightarrow> sum_list (waits_of cookie log) \<le> exp_time command)
         \<and> drop (length log - 2) log = [U_offline, U_result cb []] \<and> count_list log (U_result cb []) = 1
         \<and> uc_pending fin = (uc_pending u)(cookie := None))"
proof -
  let ?f = "rf_lastval (uc_delay_flt u) * 4" and ?cmd = "cookie @ '' '' @ command"
  have t: "0 < ?f" "0 \<le> exp_time command" using assms(2) by (simp_all add: exp_time_def)
  obtain n where n: "count_retrans ?f (exp_time command) 0 = Some (int n)" "?f * (2 ^ n - 1) \<le> exp_time command" "exp_time command < ?f * (2 ^ Suc n - 1)"
    using count_retrans_Some [OF t, of 0] by auto
  let ?req = "\<lparr>rq_next_retr = ?f, rq_triesleft = int n - 1, rq_command = ?cmd, rq_result_callback = Some cb, rq_retransmits = 0\<rparr>"
  define u1 where "u1 = udp_emit [U_wait cookie ?f, U_send ?cmd] (u\<lparr>uc_pending := (uc_pending u)(cookie \<mapsto> ?req)\<rparr>)"
  have send: "Send_command cookie command (Some cb) u = Some (Inr u1)"
    using assms t(1) n(1) by (auto simp: Send_command_def getnretrans_def u1_def Let_def)
  define m where "m = max 1 n - 1"
  have m: "max 1 n = Suc m" by (simp add: m_def)
  define fin where "fin = expire (max 1 n) cookie u1"
  define xs where "xs = concat (map (\<lambda>i. [U_wait cookie (?f * 2 ^ Suc i), U_send ?cmd]) [0..<m])"
  have fin: "uc_out fin = uc_out u @ [U_wait cookie ?f, U_send ?cmd] @ xs @ [U_offline, U_result cb []]"
      "uc_pending fin = (uc_pending u)(cookie := None)"
  proof -
    have "uc_out fin = uc_out u1 @ xs @ [U_offline, U_result cb []] \<and> uc_pending fin = (uc_pending u1)(cookie := None)"
    proof (cases n)
      case 0
      then have "m = 0" by (simp add: m_def)
      then show ?thesis using 0 assms(1) by (simp add: fin_def xs_def u1_def expire_def retransmit_def udp_emit_def call_result_def)
    next
      case (Suc k)
      then have "int n - 1 = int m" by (simp add: m_def)
      then show ?thesis using expire_pending [of u1 cookie ?req cb m] assms(1)
        unfolding fin_def m xs_def by (simp add: u1_def udp_emit_def)
    qed
    then show "uc_out fin = uc_out u @ [U_wait cookie ?f, U_send ?cmd] @ xs @ [U_offline, U_result cb []]"
        "uc_pending fin = (uc_pending u)(cookie := None)"
      unfolding u1_def udp_emit_def by (simp_all add: fun_eq_iff)
  qed
  define log where "log = drop (length (uc_out u)) (uc_out fin)"
  have log: "log = [U_wait cookie ?f, U_send ?cmd] @ xs @ [U_offline, U_result cb []]" using fin(1) by (simp add: log_def)
  have upt: "map (\<lambda>i. ?f * 2 ^ i) [0..<Suc m] = ?f # map (\<lambda>i. ?f * 2 ^ Suc i) [0..<m]"
    by (simp add: upt_conv_Cons map_Suc_upt [symmetric] comp_def del: upt_Suc)
  have waits: "waits_of cookie log = map (\<lambda>i. ?f * 2 ^ i) [0..<max 1 n]"
    unfolding m upt by (simp add: log xs_def log_repeats)
  have "sends_of log = replicate (max 1 n) ?cmd" unfolding m by (simp add: log xs_def log_repeats)
  moreover have "sum_list (waits_of cookie log) \<le> exp_time command" if "0 < n"
    using that n(2) sum_doubling [of ?f n] by (simp add: waits max_def)
  moreover have "drop (length log - 2) log = [U_offline, U_result cb []]" "count_list log (U_result cb []) = 1"
    by (simp_all add: log xs_def log_repeats)
  ultimately show ?thesis using send n(2,3) waits fin(2) unfolding fin_def log_def Let_def by blast
qed

section \<open>Every command is reported once\<close>

datatype udp_op = UO_send string string nat | UO_timer string | UO_reply string rat | UO_shutdown

fun udp_step :: "udp_op \<Rightarrow> udp_client \<Rightarrow> udp_client result option" where
  "udp_step (UO_send cookie command cb) u = Send_command cookie command (Some cb) u"
| "udp_step (UO_timer cookie) u = Some (Inr (retransmit cookie u))"
| "udp_step (UO_reply data delay) u = Some (Inr (process_reply data delay u))"
| "udp_step UO_shutdown u = Some (Inr (udp_Shutdown u))"

fun udp_run :: "udp_op list \<Rightarrow> udp_client \<Rightarrow> udp_client result option" where
  "udp_run [] u = Some (Inr u)"
| "udp_run (x # xs) u = (case udp_step x u of None \<Rightarrow> None | Some (Inl e) \<Rightarrow> Some (Inl e) | Some (Inr u1) \<Rightarrow> udp_run xs u1)"

fun given_of :: "udp_op list \<Rightarrow> (string \<times> nat) list" where
  "given_of [] = []"
| "given_of (UO_send cookie command cb # xs) = (cookie, cb) # given_of xs"
| "given_of (_ # xs) = given_of xs"

definition reports :: "nat \<Rightarrow> udp_client \<Rightarrow> nat" where
  "reports cb u = length (filter (\<lambda>x. \<exists>r. x = U_result cb r) (uc_out u))"

definition delays_ok :: "udp_op list \<Rightarrow> bool" where
  "delays_ok xs \<longleftrightarrow> (\<forall>data delay. UO_reply data delay \<in> set xs \<longrightarrow> 0 \<le> delay)"

lemma filter_coefficients [simp]: "0 \<le> fl64 (1 - fl64 (19 / 20))" "0 < fl64 (19 / 20)"
  using fl64_near [of "19 / 20"] by (auto intro!: fl64_nonneg fl64_pos simp: abs_if split: if_splits)

definition udp_inv :: "(string \<times> nat) list \<Rightarrow> udp_client \<Rightarrow> bool" where
  "udp_inv S u \<longleftrightarrow> distinct (map fst S) \<and> distinct (map snd S)
     \<and> (\<forall>(ck, cb) \<in> set S. reports cb u = (case uc_pending u ck of None \<Rightarrow> 1 | Some _ \<Rightarrow> 0))
     \<and> (\<forall>ck req. uc_pending u ck = Some req \<longrightarrow> (\<exists>cb. (ck, cb) \<in> set S \<and> rq_result_callback req = Some cb))
     \<and> (\<forall>cb. cb \<notin> snd ` set S \<longrightarrow> reports cb u = 0)
     \<and> 0 < rf_lastval (uc_delay_flt u) \<and> 0 \<le> rf_a (uc_delay_flt u) \<and> 0 < rf_b (uc_delay_flt u)"

lemma reports_emit [simp]:
  "reports cb (udp_emit xs u) = reports cb u + length (filter (\<lambda>x. \<exists>r. x = U_result cb r) xs)"
  "reports cb (u\<lparr>uc_pending := p\<rparr>) = reports cb u" "reports cb (u\<lparr>uc_delay_flt := f\<rparr>) = reports cb u"
  "reports cb (u\<lparr>uc_worker := w\<rparr>) = reports cb u"
  by (simp_all add: reports_def udp_emit_def)

lemma udp_emit_fields [simp]:
  "uc_pending (udp_emit xs u) = uc_pending u" "uc_delay_flt (udp_emit xs u) = uc_delay_flt u" "uc_worker (udp_emit xs u) = uc_worker u"
  by (simp_all add: udp_emit_def)

lemma udp_invD:
  assumes "udp_inv S u"
  shows "distinct (map fst S)" "distinct (map snd S)"
    "\<And>ck cb. (ck, cb) \<in> set S \<Longrightarrow> reports cb u = (case uc_pending u ck of None \<Rightarrow> 1 | Some _ \<Rightarrow> 0)"
    "\<And>ck req. uc_pending u ck = Some req \<Longrightarrow> \<exists>cb. (ck, cb) \<in> set S \<and> rq_result_callback req = Some cb"
    "\<And>cb. cb \<notin> snd ` set S \<Longrightarrow> reports cb u = 0"
    "0 < rf_lastval (uc_delay_flt u)" "0 \<le> rf_a (uc_delay_flt u)" "0 < rf_b (uc_delay_flt u)"
  using assms unfolding udp_inv_def by blast+

lemma udp_invI:
  assumes "distinct (map fst S)" "distinct (map snd S)"
    "\<And>ck cb. (ck, cb) \<in> set S \<Longrightarrow> reports cb u = (case uc_pending u ck of None \<Rightarrow> 1 | Some _ \<Rightarrow> 0)"
    "\<And>ck req. uc_pending u ck = Some req \<Longrightarrow> \<exists>cb. (ck, cb) \<in> set S \<and> rq_result_callback req = Some cb"
    "\<And>cb. cb \<notin> snd ` set S \<Longrightarrow> reports cb u = 0"
    "0 < rf_lastval (uc_delay_flt u)" "0 \<le> rf_a (uc_delay_flt u)" "0 < rf_b (uc_delay_flt u)"
  shows "udp_inv S u"
  using assms unfolding udp_inv_def by blast

lemma distinct_pairs:
  assumes "distinct (map fst S)" "distinct (map snd S)" "(k, c) \<in> set S" "(k', c') \<in> set S"
  shows "k = k' \<longleftrightarrow> c = c'"
proof -
  have "inj_on fst (set S)" "inj_on snd (set S)" using assms(1,2) by (simp_all add: distinct_map)
  then show ?thesis using assms(3,4) by (metis fst_conv inj_onD prod.inject snd_conv)
qed

text \<open>A request leaves the table with one report.\<close>

lemma udp_inv_report:
  assumes i: "udp_inv S u" and p: "uc_pending u ck = Some req"
    and xs: "xs = pre @ call_result (rq_result_callback req) r" "\<forall>x \<in> set pre. \<forall>cb r. x \<noteq> U_result cb r"
  shows "udp_inv S (udp_emit xs (u\<lparr>uc_pending := (uc_pending u)(ck := None)\<rparr>))" (is "udp_inv S ?v")
proof -
  note d = udp_invD [OF i]
  obtain cb where cb: "(ck, cb) \<in> set S" "rq_result_callback req = Some cb" using d(4) [OF p] by blast
  have "filter (\<lambda>x. \<exists>r. x = U_result c r) pre = []" for c using xs(2) by (auto simp: filter_empty_conv)
  then have n: "reports c ?v = reports c u + of_bool (c = cb)" for c
    using cb(2) by (simp add: xs(1) call_result_def)
  show ?thesis
  proof (rule udp_invI)
    fix k c assume kc: "(k, c) \<in> set S"
    then have "k = ck \<longleftrightarrow> c = cb" using distinct_pairs [OF d(1,2) kc cb(1)] by simp
    then show "reports c ?v = (case uc_pending ?v k of None \<Rightarrow> 1 | Some _ \<Rightarrow> 0)"
      unfolding n using d(3) [OF kc] p by (cases "k = ck") simp_all
  next
    fix c assume c: "c \<notin> snd ` set S"
    then have "c \<noteq> cb" using cb(1) by force
    then show "reports c ?v = 0" unfolding n using d(5) [OF c] by simp
  next
    fix k r assume "uc_pending ?v k = Some r"
    then have "uc_pending u k = Some r" by (simp split: if_splits)
    then show "\<exists>cb. (k, cb) \<in> set S \<and> rq_result_callback r = Some cb" by (rule d(4))
  qed (use d in simp_all)
qed

lemma retransmit_inv: "udp_inv S u \<Longrightarrow> udp_inv S (retransmit ck u)"
proof (cases "uc_pending u ck")
  case (Some req)
  assume i: "udp_inv S u"
  show ?thesis
  proof (cases "rq_triesleft req \<le> 0 \<or> \<not> uc_worker u")
    case True
    have "udp_inv S (udp_emit (U_offline # call_result (rq_result_callback req) []) (u\<lparr>uc_pending := (uc_pending u)(ck := None)\<rparr>))"
      by (rule udp_inv_report [OF i Some, of _ "[U_offline]"]) simp_all
    then show ?thesis using Some True by (simp add: retransmit_def)
  next
    case False
    define req1 where "req1 = req\<lparr>rq_next_retr := rq_next_retr req * 2, rq_retransmits := rq_retransmits req + 1, rq_triesleft := rq_triesleft req - 1\<rparr>"
    let ?v = "udp_emit [U_wait ck (rq_next_retr req * 2), U_send (rq_command req)] (u\<lparr>uc_pending := (uc_pending u)(ck \<mapsto> req1)\<rparr>)"
    note d = udp_invD [OF i]
    have "udp_inv S ?v"
    proof (rule udp_invI)
      fix k c assume kc: "(k, c) \<in> set S"
      then show "reports c ?v = (case uc_pending ?v k of None \<Rightarrow> 1 | Some _ \<Rightarrow> 0)"
        using d(3) [OF kc] Some by (cases "k = ck") simp_all
    next
      fix k r assume "uc_pending ?v k = Some r"
      then show "\<exists>cb. (k, cb) \<in> set S \<and> rq_result_callback r = Some cb"
        using d(4) [of k] Some by (cases "k = ck") (auto simp: req1_def)
    qed (use d in simp_all)
    then show ?thesis using Some False by (simp add: retransmit_def req1_def Let_def)
  qed
qed (simp add: retransmit_def)

lemma reply_inv: "udp_inv S u \<Longrightarrow> 0 \<le> delay \<Longrightarrow> udp_inv S (process_reply data delay u)"
proof -
  assume i: "udp_inv S u" and delay: "0 \<le> delay"
  have flt: "udp_inv S (v\<lparr>uc_delay_flt := rf_Apply delay (uc_delay_flt v)\<rparr>)" if "udp_inv S v" for v
  proof -
    note d = udp_invD [OF that]
    show ?thesis
    proof (rule udp_invI)
      show "0 < rf_lastval (uc_delay_flt (v\<lparr>uc_delay_flt := rf_Apply delay (uc_delay_flt v)\<rparr>))"
        using d(6-8) delay by (simp add: rf_Apply_def fl64_pos fl64_nonneg add_nonneg_pos)
    qed (use d in \<open>simp_all add: rf_Apply_def\<close>)
  qed
  have "udp_inv S (udp_emit (call_result (rq_result_callback req) r) (u\<lparr>uc_pending := (uc_pending u)(ck := None)\<rparr>))"
    if "uc_pending u ck = Some req" for ck req r
    by (rule udp_inv_report [OF i that, of _ "[]"]) simp_all
  then show ?thesis using i flt [of "udp_emit xs (u\<lparr>uc_pending := p\<rparr>)" for xs p]
    by (auto simp: process_reply_def Let_def split: list.splits option.splits)
qed

lemma send_inv:
  assumes i: "udp_inv S u" and s: "Send_command ck command (Some cb) u = Some (Inr v)" and new: "ck \<notin> fst ` set S" "cb \<notin> snd ` set S"
  shows "udp_inv (S @ [(ck, cb)]) v"
proof -
  note d = udp_invD [OF i]
  have "\<not> rf_lastval (uc_delay_flt u) * 4 < 0" using d(6) by simp
  then obtain req ws where v: "v = udp_emit ws (u\<lparr>uc_pending := (uc_pending u)(ck \<mapsto> req)\<rparr>)" "rq_result_callback req = Some cb"
      "\<forall>x \<in> set ws. \<forall>c r. x \<noteq> U_result c r"
    using s by (auto simp: Send_command_def getnretrans_def Let_def split: if_splits option.splits)
  have n: "reports c v = reports c u" for c using v(3) by (simp add: v(1) filter_empty_conv)
  show ?thesis
  proof (rule udp_invI)
    fix k c assume kc: "(k, c) \<in> set (S @ [(ck, cb)])"
    show "reports c v = (case uc_pending v k of None \<Rightarrow> 1 | Some _ \<Rightarrow> 0)"
    proof (cases "(k, c) \<in> set S")
      case True
      then have "k \<noteq> ck" using new(1) by force
      then show ?thesis using n d(3) [OF True] by (simp add: v(1))
    next
      case False
      then show ?thesis using kc n d(5) [OF new(2)] by (simp add: v(1))
    qed
  next
    fix k r assume "uc_pending v k = Some r"
    then show "\<exists>c. (k, c) \<in> set (S @ [(ck, cb)]) \<and> rq_result_callback r = Some c"
      using d(4) [of k] v(2) by (cases "k = ck") (auto simp: v(1))
  next
    fix c assume "c \<notin> snd ` set (S @ [(ck, cb)])"
    then show "reports c v = 0" using n d(5) by simp
  qed (use d new v in auto)
qed

lemma udp_run_inv:
  "udp_run xs u = Some (Inr v) \<Longrightarrow> udp_inv S u \<Longrightarrow> delays_ok xs \<Longrightarrow> distinct (map fst (S @ given_of xs)) \<Longrightarrow> distinct (map snd (S @ given_of xs))
     \<Longrightarrow> udp_inv (S @ given_of xs) v"
proof (induction xs arbitrary: u S)
  case (Cons x xs)
  obtain w where w: "udp_step x u = Some (Inr w)" "udp_run xs w = Some (Inr v)"
    using Cons.prems(1) by (auto split: option.splits sum.splits)
  have ok: "delays_ok xs" using Cons.prems(3) by (simp add: delays_ok_def)
  show ?case
  proof (cases x)
    case (UO_send ck command cb)
    have "udp_inv (S @ [(ck, cb)]) w"
      using send_inv [OF Cons.prems(2), of ck command cb w] w(1) Cons.prems(4,5) UO_send by auto
    then show ?thesis using Cons.IH [OF w(2), of "S @ [(ck, cb)]"] ok Cons.prems(4,5) UO_send by simp
  next
    case (UO_timer ck)
    then have "udp_inv S w" using w(1) retransmit_inv [OF Cons.prems(2), of ck] by simp
    then show ?thesis using Cons.IH [OF w(2) _ ok, of S] Cons.prems(4,5) UO_timer by simp
  next
    case (UO_reply data delay)
    then have "0 \<le> delay" using Cons.prems(3) by (simp add: delays_ok_def)
    then have "udp_inv S w" using w(1) reply_inv [OF Cons.prems(2), of delay data] UO_reply by simp
    then show ?thesis using Cons.IH [OF w(2) _ ok, of S] Cons.prems(4,5) UO_reply by simp
  next
    case UO_shutdown
    have "udp_inv S (udp_Shutdown u)" using udp_invD [OF Cons.prems(2)] by (intro udp_invI) (simp_all add: udp_Shutdown_def)
    then have "udp_inv S w" using w(1) UO_shutdown by simp
    then show ?thesis using Cons.IH [OF w(2) _ ok, of S] Cons.prems(4,5) UO_shutdown by simp
  qed
qed simp

text \<open>
  Property C16. However commands, timers and datagrams of the proxy (late, repeated, with unknown cookies or not to be read) interleave, the callback of a command is called exactly
  once when the command is no longer pending, and not before: by its answer or by the last timer, never by both, nor by the answer to another command.
\<close>

theorem every_command_reported_once:
  assumes "udp_run xs NewRtp_proxy_client_udp = Some (Inr u)" and "delays_ok xs"
    and "distinct (map fst (given_of xs))" and "distinct (map snd (given_of xs))" and "(cookie, cb) \<in> set (given_of xs)"
  shows "length (filter (\<lambda>x. \<exists>r. x = U_result cb r) (uc_out u)) = (case uc_pending u cookie of None \<Rightarrow> 1 | Some _ \<Rightarrow> 0)"
proof -
  have "udp_inv [] NewRtp_proxy_client_udp"
    by (rule udp_invI) (simp_all add: NewRtp_proxy_client_udp_def NewRecFilter_def reports_def)
  then have "udp_inv (given_of xs) u" using udp_run_inv [OF assms(1) _ assms(2), of "[]"] assms(3,4) by simp
  from udp_invD(3) [OF this assms(5)] show ?thesis by (simp add: reports_def)
qed

end
