(* ===== verification/Sip_Agents.thy ===== *)
theory Sip_Agents
  imports Sip_Msg_Text Client_Transaction
begin

text \<open>
  Two users of the transaction manager: the registration agent (\<^verbatim>\<open>sippy/sip_registration_manager.go\<close>), which keeps a
  binding at a registrar alive, and the stateful proxy (\<^verbatim>\<open>sippy/stateful_proxy.go\<close>). Requests handed to the manager, callbacks and
  timers are a log; random parts are arguments. Callbacks that may be nil are booleans.
\<close>

section \<open>Registration agent\<close>

datatype reg_out =
    R_send sip_request
  | R_timer duration
  | R_ok duration "sip_address option"
  | R_fail string

record reg_agent =
  rg_dead :: bool
  rg_Rmsg :: "sip_request option"
  rg_config :: sippy_config
  rg_user :: "string option"
  rg_passw :: "string option"
  rg_rok_cb :: bool
  rg_Rfail_cb :: bool
  rg_atries :: int
  rg_out :: "reg_out list"

definition reg_emit :: "reg_out \<Rightarrow> reg_agent \<Rightarrow> reg_agent" where
  "reg_emit x a = a\<lparr>rg_out := rg_out a @ [x]\<rparr>"

text \<open>
  The record address with its port removed is in To and From, the request goes to its domain, and the lifetime asked for is a
  parameter of the contact.
\<close>

definition NewSipRegistrationAgent ::
  "sippy_config \<Rightarrow> sip_url \<Rightarrow> sip_url option \<Rightarrow> string option \<Rightarrow> string option \<Rightarrow> bool \<Rightarrow> bool \<Rightarrow> host_port option \<Rightarrow> int \<Rightarrow>
   string \<Rightarrow> string \<Rightarrow> string \<Rightarrow> reg_agent" where
  "NewSipRegistrationAgent cfg aor contact_url user passw rok rfail tgt expires_param rnd_tag rnd_branch rnd_callid =
     (let ruri = aor\<lparr>url_Username := []\<rparr>;
          to_addr = NewSipAddress [] (aor\<lparr>url_Port := None\<rparr>);
          from_addr = SetTag rnd_tag to_addr;
          contact = SetParam ''expires'' (Itoa expires_param)
            (case contact_url of None \<Rightarrow> NewSipContact cfg | Some u \<Rightarrow> NewSipAddress [] u)
      in \<lparr>rg_dead = False,
          rg_Rmsg = (case NewSipRequest ''REGISTER'' ruri [] (Some (Inr to_addr)) (Some (Inr from_addr)) None 1 None None None
                        (Some (Inr contact)) [] tgt None None cfg rnd_branch rnd_callid of Inr r \<Rightarrow> Some r | Inl _ \<Rightarrow> None),
          rg_config = cfg, rg_user = user, rg_passw = passw, rg_rok_cb = rok, rg_Rfail_cb = rfail, rg_atries = 0, rg_out = []\<rparr>)"

text \<open>
  The message is kept, and after it was sent its Via gets a new branch and its CSeq the next number. The CSeq header is one
  object, also in the list of headers.
\<close>

definition next_cseq :: "cseq_body result \<Rightarrow> cseq_body result" where
  "next_cseq c = (case c of Inl e \<Rightarrow> Inl e | Inr b \<Rightarrow> Inr (b\<lparr>CSeq_num := CSeq_num b + 1\<rparr>))"

definition bump_header :: "sip_header \<Rightarrow> sip_header" where
  "bump_header h = (case h of H_CSeq c \<Rightarrow> H_CSeq (next_cseq c) | _ \<Rightarrow> h)"

definition prepare_next :: "string \<Rightarrow> sip_request \<Rightarrow> sip_request result" where
  "prepare_next rnd_branch m =
     (case m_vias m of
        [] \<Rightarrow> Inl index_panic
      | v # vs \<Rightarrow>
          bind_result (of_option (m_cseq m)) (\<lambda>c.
            Inr (m\<lparr>m_vias := (case v of Inl e \<Rightarrow> Inl e | Inr b \<Rightarrow> Inr (GenBranch rnd_branch b)) # vs,
                   m_cseq := Some (next_cseq c), m_headers := map bump_header (m_headers m)\<rparr>)))"

definition DoRegister :: "string \<Rightarrow> reg_agent \<Rightarrow> reg_agent result" where
  "DoRegister rnd_branch a =
     (if rg_dead a then Inr a
      else bind_result (of_option (rg_Rmsg a)) (\<lambda>m.
        bind_result (prepare_next rnd_branch m) (\<lambda>m1.
          Inr (reg_emit (R_send m) (a\<lparr>rg_Rmsg := Some m1\<rparr>)))))"

definition StopRegister :: "reg_agent \<Rightarrow> reg_agent" where
  "StopRegister a = a\<lparr>rg_dead := True, rg_Rmsg := None\<rparr>"

definition AuthDone :: "string \<Rightarrow> sip_header \<Rightarrow> reg_agent \<Rightarrow> reg_agent result" where
  "AuthDone rnd_branch auth a =
     bind_result (of_option (rg_Rmsg a)) (\<lambda>m.
       DoRegister rnd_branch (a\<lparr>rg_Rmsg := Some (AppendHeader auth m), rg_atries := rg_atries a + 1\<rparr>))"

text \<open>The challenges of a response, those of the registrar first; each says which header answers it.\<close>

definition challenges :: "sip_response \<Rightarrow> (bool \<times> challenge_body result) list" where
  "challenges rs = map (Pair False) (m_sip_www_authenticates rs) @ map (Pair True) (m_sip_proxy_authenticates rs)"

text \<open>Only the first challenge is tried; when no answer to it can be made, nothing happens.\<close>

definition HandleAuth ::
  "hash_fun \<Rightarrow> nonce \<Rightarrow> (sip_url \<Rightarrow> string) \<Rightarrow> string \<Rightarrow> (bool \<times> challenge_body result) list \<Rightarrow> reg_agent \<Rightarrow> reg_agent result" where
  "HandleAuth hash rnd url_text rnd_branch chs a =
     bind_result (of_option (rg_Rmsg a)) (\<lambda>m.
       case chs of
         [] \<Rightarrow> Inl index_panic
       | (proxy, c) # _ \<Rightarrow>
           (case GenAuthHF hash rnd (case rg_user a of Some u \<Rightarrow> u | None \<Rightarrow> []) (case rg_passw a of Some p \<Rightarrow> p | None \<Rightarrow> [])
                  ''REGISTER'' (url_text (rq_ruri m)) [] c of
              Inl e \<Rightarrow> Inr a
            | Inr body \<Rightarrow> AuthDone rnd_branch (if proxy then H_ProxyAuthorization (Inr body) else H_Authorization (Inr body)) a))"

text \<open>
  The lifetime granted: the parameter of the first contact, else the number of the Expires header, which is read without
  being parsed first, else three minutes. A contact that is an asterisk is dereferenced.
\<close>

definition granted_contact :: "sip_response \<Rightarrow> (int \<times> sip_address option) result" where
  "granted_contact rs =
     (case m_contacts rs of
        [] \<Rightarrow> Inr (-1, None)
      | c # _ \<Rightarrow>
          if ct_Asterisk c then Inl nil_panic
          else (case ct_address c of
                  Inl e \<Rightarrow> Inr (-1, None)
                | Inr a \<Rightarrow> Inr (case Atoi (GetParam ''expires'' a) of Some n \<Rightarrow> n | None \<Rightarrow> -1, Some a)))"

definition granted_time :: "int \<Rightarrow> sip_response \<Rightarrow> int" where
  "granted_time tout rs =
     (let t1 = (if tout = -1 then (case GetFirstHF ''expires'' rs of Some (H_Expires h) \<Rightarrow> Number h | _ \<Rightarrow> tout) else tout)
      in if t1 = -1 then 180 else t1)"

definition registered :: "sip_response \<Rightarrow> reg_agent \<Rightarrow> reg_agent result" where
  "registered rs a =
     bind_result (granted_contact rs) (\<lambda>(tout, contact).
       let expires = seconds (granted_time tout rs);
           a1 = reg_emit (R_timer expires) a;
           a2 = (if rg_rok_cb a then reg_emit (R_ok expires contact) a1 else a1)
       in Inr (a2\<lparr>rg_atries := 0\<rparr>))"

definition GetSCodeReason :: "sip_response \<Rightarrow> string" where
  "GetSCodeReason rs = rs_reason rs"

definition reg_failed :: "sip_response \<Rightarrow> reg_agent \<Rightarrow> reg_agent" where
  "reg_failed rs a =
     (let a1 = (if rg_Rfail_cb a then reg_emit (R_fail (GetSL rs)) a else a)
      in (reg_emit (R_timer (60 * second)) a1)\<lparr>rg_atries := 0\<rparr>)"

definition RecvResponse ::
  "hash_fun \<Rightarrow> nonce \<Rightarrow> (sip_url \<Rightarrow> string) \<Rightarrow> string \<Rightarrow> sip_response \<Rightarrow> reg_agent \<Rightarrow> reg_agent result" where
  "RecvResponse hash rnd url_text rnd_branch rs a =
     (if rg_dead a \<or> rs_scode rs < 200 then Inr a
      else if rs_scode rs < 300 \<and> GetSCodeReason rs \<noteq> ''Auth Failed'' then registered rs a
      else if (rs_scode rs = 401 \<or> rs_scode rs = 407) \<and> rg_user a \<noteq> None \<and> rg_passw a \<noteq> None \<and> rg_atries a < 3
              \<and> challenges rs \<noteq> [] then HandleAuth hash rnd url_text rnd_branch (challenges rs) a
      else Inr (reg_failed rs a))"

section \<open>Stateful proxy\<close>

datatype proxy_out = P_request sip_request | P_response sip_response

text \<open>A request gets the proxy's Via in front and goes to the one destination; a response loses its first Via.\<close>

definition proxy_RecvRequest :: "sippy_config \<Rightarrow> host_port \<Rightarrow> string \<Rightarrow> sip_request \<Rightarrow> proxy_out" where
  "proxy_RecvRequest cfg destination rnd_branch rq =
     P_request (rq\<lparr>m_vias := Inr (GenBranch rnd_branch (newSipViaBody cfg)) # m_vias rq, m_target := Some destination\<rparr>)"

definition proxy_RecvResponse :: "sip_response \<Rightarrow> proxy_out result" where
  "proxy_RecvResponse rs = (case m_vias rs of [] \<Rightarrow> Inl index_panic | v # vs \<Rightarrow> Inr (P_response (rs\<lparr>m_vias := vs\<rparr>)))"

section \<open>The requests of an agent\<close>

datatype reg_op = G_register string | G_response hash_fun nonce string sip_response | G_stop

fun reg_step :: "(sip_url \<Rightarrow> string) \<Rightarrow> reg_op \<Rightarrow> reg_agent \<Rightarrow> reg_agent result" where
  "reg_step ut (G_register rnd) a = DoRegister rnd a"
| "reg_step ut (G_response hash n rnd rs) a = RecvResponse hash n ut rnd rs a"
| "reg_step ut G_stop a = Inr (StopRegister a)"

fun reg_run :: "(sip_url \<Rightarrow> string) \<Rightarrow> reg_op list \<Rightarrow> reg_agent \<Rightarrow> reg_agent result" where
  "reg_run ut [] a = Inr a"
| "reg_run ut (x # xs) a = bind_result (reg_step ut x a) (reg_run ut xs)"

fun requests_of :: "reg_out list \<Rightarrow> sip_request list" where
  "requests_of [] = []"
| "requests_of (R_send m # xs) = m # requests_of xs"
| "requests_of (_ # xs) = requests_of xs"

lemma requests_of_append [simp]: "requests_of (xs @ ys) = requests_of xs @ requests_of ys"
  by (induction xs rule: requests_of.induct) auto


definition of_agent :: "reg_agent \<Rightarrow> sip_request \<Rightarrow> bool" where
  "of_agent a0 m \<longleftrightarrow>
     (\<exists>m0. rg_Rmsg a0 = Some m0 \<and> rq_method m = rq_method m0 \<and> m_call_id m = m_call_id m0 \<and> m_from m = m_from m0 \<and> m_to m = m_to m0)
     \<and> m_vias m \<noteq> []"

definition reg_cseq :: "int \<Rightarrow> cseq_body result option" where
  "reg_cseq n = Some (Inr \<lparr>CSeq_num = n, CSeq_Method = ''REGISTER''\<rparr>)"

definition agent_ok :: "reg_agent \<Rightarrow> reg_agent \<Rightarrow> bool" where
  "agent_ok a0 a \<longleftrightarrow>
     (let ms = requests_of (rg_out a) in
      (rg_dead a \<longleftrightarrow> rg_Rmsg a = None)
      \<and> (\<forall>m. rg_Rmsg a = Some m \<longrightarrow> of_agent a0 m \<and> m_cseq m = reg_cseq (int (length ms) + 1))
      \<and> (\<forall>i < length ms. of_agent a0 (ms ! i) \<and> m_cseq (ms ! i) = reg_cseq (int i + 1)))"

lemma NewSipRequest_unrouted:
  "\<exists>m. NewSipRequest meth u sv t f v n c mf b ct [] tgt un ex cfg rb rc = Inr m"
  by (cases tgt) (simp_all add: NewSipRequest_def request_target_def Let_def)

lemma agent_ok_new:
  "agent_ok (NewSipRegistrationAgent cfg aor cu user passw rok rfail tgt ex rt rb rc)
            (NewSipRegistrationAgent cfg aor cu user passw rok rfail tgt ex rt rb rc)"
proof -
  define t f c where "t = NewSipAddress [] (aor\<lparr>url_Port := None\<rparr>)" and "f = SetTag rt t"
    and "c = SetParam ''expires'' (Itoa ex) (case cu of None \<Rightarrow> NewSipContact cfg | Some u \<Rightarrow> NewSipAddress [] u)"
  obtain m where new: "NewSipRequest ''REGISTER'' (aor\<lparr>url_Username := []\<rparr>) [] (Some (Inr t)) (Some (Inr f)) None 1 None None None
      (Some (Inr c)) [] tgt None None cfg rb rc = Inr m" using NewSipRequest_unrouted by blast
  then have m: "rg_Rmsg (NewSipRegistrationAgent cfg aor cu user passw rok rfail tgt ex rt rb rc) = Some m"
    by (simp add: NewSipRegistrationAgent_def Let_def t_def f_def c_def)
  from NewSipRequest_Inr [OF new] m show ?thesis
    by (simp add: agent_ok_def of_agent_def reg_cseq_def) (simp add: NewSipRegistrationAgent_def Let_def)
qed

lemma prepare_next_ok:
  assumes "prepare_next rnd m = Inr m1" and "of_agent a0 m" and "m_cseq m = reg_cseq n"
  shows "of_agent a0 m1 \<and> m_cseq m1 = reg_cseq (n + 1)"
  using assms by (auto simp: prepare_next_def of_agent_def reg_cseq_def next_cseq_def split: list.splits)

lemma DoRegister_ok:
  assumes "agent_ok a0 a" and "DoRegister rnd a = Inr b"
  shows "agent_ok a0 b"
proof (cases "rg_dead a")
  case False
  with assms(2) obtain m m1 where m: "rg_Rmsg a = Some m" "prepare_next rnd m = Inr m1"
    and b: "b = reg_emit (R_send m) (a\<lparr>rg_Rmsg := Some m1\<rparr>)"
    by (auto simp: DoRegister_def of_option_def bind_result_Inr_iff split: option.splits)
  have "of_agent a0 m \<and> m_cseq m = reg_cseq (int (length (requests_of (rg_out a))) + 1)"
    using assms(1) m(1) by (auto simp: agent_ok_def Let_def)
  with prepare_next_ok [OF m(2)] assms(1) False show ?thesis
    by (auto simp: agent_ok_def Let_def b reg_emit_def nth_append less_Suc_eq)
qed (use assms in \<open>simp add: DoRegister_def\<close>)

lemma DoRegister_sends:
  assumes "agent_ok a0 a" and "\<not> rg_dead a"
  shows "\<exists>b m. DoRegister rnd a = Inr b \<and> rg_out b = rg_out a @ [R_send m] \<and> \<not> rg_dead b"
proof -
  obtain m where m: "rg_Rmsg a = Some m" "of_agent a0 m" "\<exists>n. m_cseq m = reg_cseq n" using assms by (auto simp: agent_ok_def Let_def)
  then obtain v vs where "m_vias m = v # vs" by (cases "m_vias m") (auto simp: of_agent_def)
  with m assms(2) show ?thesis by (auto simp: DoRegister_def prepare_next_def reg_cseq_def reg_emit_def)
qed

lemma agent_ok_quiet:
  assumes "agent_ok a0 a" and "rg_dead b = rg_dead a" and "rg_Rmsg b = rg_Rmsg a"
    and "requests_of (rg_out b) = requests_of (rg_out a)"
  shows "agent_ok a0 b"
  using assms by (simp add: agent_ok_def)

lemma of_agent_credentials:
  assumes "h = H_Authorization x \<or> h = H_ProxyAuthorization x"
  shows "of_agent a0 (AppendHeader h m) = of_agent a0 m" and "m_cseq (AppendHeader h m) = m_cseq m"
  using assms by (auto simp: of_agent_def)

lemma AuthDone_ok:
  assumes "agent_ok a0 a" and "AuthDone rnd h a = Inr b" and "h = H_Authorization x \<or> h = H_ProxyAuthorization x"
  shows "agent_ok a0 b"
proof -
  from assms(2) obtain m where m: "rg_Rmsg a = Some m"
    and b: "DoRegister rnd (a\<lparr>rg_Rmsg := Some (AppendHeader h m), rg_atries := rg_atries a + 1\<rparr>) = Inr b"
    by (auto simp: AuthDone_def of_option_def bind_result_Inr_iff split: option.splits)
  have "agent_ok a0 (a\<lparr>rg_Rmsg := Some (AppendHeader h m), rg_atries := rg_atries a + 1\<rparr>)"
    using assms(1) m of_agent_credentials [OF assms(3)] by (simp add: agent_ok_def Let_def)
  from DoRegister_ok [OF this b] show ?thesis .
qed

lemma HandleAuth_ok:
  assumes "agent_ok a0 a" and "HandleAuth hash n ut rnd chs a = Inr b"
  shows "agent_ok a0 b"
proof -
  define ans where "ans m c = GenAuthHF hash n (case rg_user a of Some u \<Rightarrow> u | None \<Rightarrow> []) (case rg_passw a of Some p \<Rightarrow> p | None \<Rightarrow> [])
    ''REGISTER'' (ut (rq_ruri m)) [] c" for m :: sip_request and c
  from assms(2) obtain m where m: "rg_Rmsg a = Some m" by (cases "rg_Rmsg a") (simp_all add: HandleAuth_def of_option_def)
  with assms(2) obtain proxy c cs where chs: "chs = (proxy, c) # cs"
    by (cases chs) (auto simp: HandleAuth_def of_option_def)
  show ?thesis
  proof (cases "ans m c")
    case (Inl e)
    with assms m chs show ?thesis by (simp add: HandleAuth_def of_option_def ans_def)
  next
    case (Inr body)
    with assms(2) m chs have "AuthDone rnd (if proxy then H_ProxyAuthorization (Inr body) else H_Authorization (Inr body)) a = Inr b"
      by (simp add: HandleAuth_def of_option_def ans_def)
    from AuthDone_ok [OF assms(1) this, of "Inr body"] show ?thesis by simp
  qed
qed

lemma branch_taken:
  "(if P then u else if Q then v else if R then w else x) = y \<Longrightarrow> u = y \<or> v = y \<or> w = y \<or> x = y"
  by (simp split: if_splits)

lemma RecvResponse_ok:
  assumes "agent_ok a0 a" and "RecvResponse hash n ut rnd rs a = Inr b"
  shows "agent_ok a0 b"
proof -
  consider "b = a" | "registered rs a = Inr b" | "HandleAuth hash n ut rnd (challenges rs) a = Inr b" | "b = reg_failed rs a"
    using branch_taken [OF assms(2) [unfolded RecvResponse_def]] unfolding sum.inject by metis
  then show ?thesis
  proof cases
    case 3
    then show ?thesis by (rule HandleAuth_ok [OF assms(1)])
  next
    case 2
    then show ?thesis
      by (cases "rg_rok_cb a")
        (auto simp: registered_def reg_emit_def Let_def bind_result_Inr_iff intro!: agent_ok_quiet [OF assms(1)])
  next
    case 4
    then show ?thesis by (simp add: reg_failed_def reg_emit_def Let_def agent_ok_quiet [OF assms(1)])
  qed (use assms(1) in simp)
qed

lemma StopRegister_ok: "agent_ok a0 a \<Longrightarrow> agent_ok a0 (StopRegister a)"
  by (simp add: StopRegister_def agent_ok_def Let_def)

lemma reg_step_ok:
  assumes "agent_ok a0 a" and "reg_step ut x a = Inr b"
  shows "agent_ok a0 b"
  using assms(2) DoRegister_ok [OF assms(1)] RecvResponse_ok [OF assms(1)] StopRegister_ok [OF assms(1)] by (cases x) auto

lemma reg_run_ok: "\<lbrakk>agent_ok a0 a; reg_run ut xs a = Inr b\<rbrakk> \<Longrightarrow> agent_ok a0 b"
  by (induction xs arbitrary: a) (auto simp: bind_result_Inr_iff dest: reg_step_ok [rotated])

text \<open>A stopped agent sends nothing and arms no timer, whatever arrives.\<close>

lemma stopped_agent_is_silent:
  "rg_dead a \<Longrightarrow> reg_run ut xs a = Inr b \<Longrightarrow> rg_out b = rg_out a"
proof (induction xs arbitrary: a)
  case (Cons x xs)
  then obtain c where "reg_step ut x a = Inr c" "reg_run ut xs c = Inr b" by (auto simp: bind_result_Inr_iff)
  moreover from this(1) Cons.prems(1) have "rg_dead c \<and> rg_out c = rg_out a"
    by (cases x) (auto simp: DoRegister_def RecvResponse_def StopRegister_def)
  ultimately show ?case using Cons.IH [of c] by simp
qed simp

text \<open>
  Property C25. Whatever responses, timers and stops a registration agent sees, the REGISTER requests it hands to the
  transaction manager carry the sequence numbers 1, 2, 3 and so on without a gap, all in the Call-ID, From and To the agent was made
  with; an agent that was stopped adds none.
\<close>

theorem registrations_numbered_in_one_dialog:
  assumes "a0 = NewSipRegistrationAgent cfg aor cu user passw rok rfail tgt ex rt rb rc"
    and "reg_run ut xs a0 = Inr a"
  shows "(\<forall>i < length (requests_of (rg_out a)). m_cseq (requests_of (rg_out a) ! i) = reg_cseq (int i + 1)
            \<and> of_agent a0 (requests_of (rg_out a) ! i))
         \<and> (rg_dead a \<longrightarrow> (\<forall>ys b. reg_run ut ys a = Inr b \<longrightarrow> rg_out b = rg_out a))"
  using reg_run_ok [OF agent_ok_new assms(2) [unfolded assms(1)]] stopped_agent_is_silent [of a ut]
  by (auto simp: agent_ok_def Let_def assms(1))

section \<open>The lifetime of a registration\<close>

text \<open>The number of a parsed Expires header is 0 until the header is parsed, and nothing parses it.\<close>

definition unread :: "sip_header \<Rightarrow> bool" where
  "unread h = (case h of H_Expires e \<Rightarrow> Number e = 0 | _ \<Rightarrow> True)"

lemma ParseSipHeader_unread:
  assumes "ParseSipHeader pe l = Inr hs" and "h \<in> set hs"
  shows "unread h"
proof -
  from assms obtain n factory b where "(n, factory) \<in> set (sip_header_name_map pe) \<and> h \<in> set (factory b) \<or> (\<exists>v. h = H_Generic n v)"
    by (fastforce simp: ParseSipHeader_def Let_def split: prod.splits option.splits dest: map_of_SomeD)
  then show ?thesis
    by (auto simp: unread_def sip_header_name_map_def address_headers_def CreateSipVia_def CreateSipContact_def createSipNumericHF_def
        split: if_splits)
qed

lemma AppendHeader_headers: "set (m_headers (AppendHeader h m)) \<subseteq> insert h (set (m_headers m))"
  by (cases h) (auto simp: push_header_def)

lemma appendHeaders_headers: "set (m_headers (appendHeaders hs m)) \<subseteq> set hs \<union> set (m_headers m)"
proof (induction hs arbitrary: m)
  case (Cons h hs)
  then show ?case using Cons.IH [of "AppendHeader h m"] AppendHeader_headers [of h m] by (auto simp: appendHeaders_def)
qed (simp add: appendHeaders_def)

lemma parse_headers_unread:
  "\<lbrakk>parse_headers pe ls m = Inr m'; \<forall>x \<in> set (m_headers m). unread x\<rbrakk> \<Longrightarrow> \<forall>x \<in> set (m_headers m'). unread x"
proof (induction ls arbitrary: m)
  case (Cons l ls)
  from Cons.prems(1) obtain hs where hs: "ParseSipHeader pe l = Inr hs"
    "parse_headers pe ls (appendHeaders (filter (\<lambda>h. \<not> asterisk h) hs) m) = Inr m'" by (auto simp: bind_result_Inr_iff)
  have "\<forall>x \<in> set (m_headers (appendHeaders (filter (\<lambda>h. \<not> asterisk h) hs) m)). unread x"
    using appendHeaders_headers [of "filter (\<lambda>h. \<not> asterisk h) hs" m] ParseSipHeader_unread [OF hs(1)] Cons.prems(2) by auto
  from Cons.IH [OF hs(2) this] show ?case .
qed simp

lemma init_body_headers: "init_body mbody m = Inr m' \<Longrightarrow> m_headers m' = m_headers m \<and> m_contacts m' = m_contacts m"
  by (auto simp: init_body_def Let_def bind_result_Inr_iff split: option.splits prod.splits sum.splits)

lemma ParseSipResponse_unread:
  assumes "ParseSipResponse pe rtime wire = Inr rs"
  shows "\<forall>x \<in> set (m_headers rs). unread x"
proof -
  from assms obtain m mbody r where p: "ParseSipMsg pe rtime wire = Inr (m, mbody)" and b: "init_body mbody (sip_msg.extend m r) = Inr rs"
    unfolding ParseSipResponse_def by (auto simp: bind_result_Inr_iff split: option.splits prod.splits)
  have "m_headers rs = m_headers m" using init_body_headers [OF b] by (simp add: sip_msg.defs)
  moreover obtain ls m0 where "parse_headers pe ls m0 = Inr m" "m_headers m0 = []"
    using p by (auto simp: ParseSipMsg_def bind_result_Inr_iff required_headers_def NewSipMsg_def
        split: prod.splits list.splits if_splits)
  ultimately show ?thesis using parse_headers_unread [of pe ls m0 m] by simp
qed

lemma GetFirstHF_expires:
  assumes "GetFirstHF ''expires'' rs = Some h" and "h = H_Expires e"
  shows "h \<in> set (m_headers rs)"
proof -
  have "h \<in> set (m_headers rs @ own_headers rs @ map H_Via (take 1 (m_vias rs)) @ map H_Route (take 1 (m_routes rs)))"
    using assms(1) unfolding GetFirstHF_def find_Some_iff by (metis nth_mem)
  with assms(2) show ?thesis by (auto simp: own_headers_def split: option.splits)
qed

text \<open>
  Property C38. The lifetime a registrar grants in an Expires header is not used: when a response of class 2xx that was received and parsed
  grants no lifetime with its contact, the agent arms its next registration with no delay at all, whatever the Expires header says,
  and reports the registration as already expired.
\<close>

theorem expires_header_registers_at_once:
  assumes "ParseSipResponse pe rtime wire = Inr rs" and "GetFirstHF ''expires'' rs = Some (H_Expires e)"
    and "200 \<le> rs_scode rs" and "rs_scode rs < 300" and "rs_reason rs \<noteq> ''Auth Failed''"
    and "granted_contact rs = Inr (-1, contact)" and "\<not> rg_dead a"
  shows "RecvResponse hash n ut rnd rs a =
    Inr (a\<lparr>rg_atries := 0, rg_out := rg_out a @ R_timer 0 # (if rg_rok_cb a then [R_ok 0 contact] else [])\<rparr>)"
proof -
  have "Number e = 0"
    using ParseSipResponse_unread [OF assms(1)] GetFirstHF_expires [OF assms(2) refl] by (auto simp: unread_def)
  then have "seconds (granted_time (-1) rs) = 0" by (simp add: granted_time_def assms(2) seconds_def wrap64_def)
  with assms(3-7) show ?thesis by (simp add: RecvResponse_def GetSCodeReason_def registered_def reg_emit_def Let_def)
qed

section \<open>What the proxy forwards\<close>

text \<open>
  The response to a forwarded request goes back with the Vias the request came with: the proxy takes off exactly the one it
  put on.
\<close>

lemma proxy_restores_vias:
  assumes "proxy_RecvRequest cfg dst rnd rq = P_request rq'" and "GenResponse scode reason bdy server rq' = Inr rs"
  shows "\<exists>rs'. proxy_RecvResponse rs = Inr (P_response rs') \<and> m_vias rs' = m_vias rq \<and> rs_scode rs' = scode
    \<and> m_call_id rs' = m_call_id rq \<and> m_cseq rs' = m_cseq rq"
  using assms GenResponse_Inr [OF assms(2)] by (auto simp: proxy_RecvRequest_def proxy_RecvResponse_def)

end
