(* ===== verification/Rtpp_Witnesses.thy ===== *)
theory Rtpp_Witnesses
  imports Rtpp_Cmd Rtpp_Relay Rtpp_Client Rtpp_Udp Sip_Agents Wire_Witnesses
begin

text \<open>A command, a relay session, a proxy client and a registration on which the properties of the RTP proxy client and of the agents are applied.\<close>

section \<open>Commands\<close>

definition w_opts :: update_lookup_opts where
  "w_opts = \<lparr>ul_DestinationIP = ''192.0.2.7'', ul_LocalIP = [], ul_Codecs = Some [''0'', ''8''], ul_Otherparams = ''z20'',
     ul_RemoteIP = ''192.0.2.9'', ul_RemotePort = ''4000'', ul_FromTag = ''ft'', ul_ToTag = ''tt'', ul_NotifySocket = [], ul_NotifyTag = [],
     ul_SubArgs = ''M4:1''\<rparr>"

definition w_update :: rtp_proxy_cmd where
  "w_update = (new_cmd (CHR ''U''))\<lparr>pc_ULOpts := Some w_opts, pc_CallId := ''c1-0''\<rparr>"

theorem rtpp_command_roundtrip_witness: "\<exists>t. cmd_String w_update = Inr t \<and> NewRtp_proxy_cmd t = Inr w_update"
proof -
  have "cmd_ok w_update" by code_simp
  then show ?thesis by (rule rtpp_command_roundtrip)
qed

section \<open>Relay sessions\<close>

definition w_caps :: rtpp_caps where
  "w_caps = \<lparr>rp_sbind = True, rp_local = True, rp_tnot = True, rp_address = ''192.0.2.20''\<rparr>"

definition w_relay :: rtpp_session where
  "w_relay = \<lparr>px_call_id = ''c1'', px_from_tag = ''ft'', px_to_tag = ''tt'', px_client = Some 1, px_max_index = -1, px_notify_socket = [],
     px_notify_tag = [], px_insert_nortpp = False, px_caller = new_side ''ft'' ''tt'', px_callee = new_side ''tt'' ''ft'', px_inflight = None,
     px_wi = [], px_jobs = Map.empty, px_njobs = 0, px_out = []\<rparr>"

text \<open>The first of two clients is off-line.\<close>

lemma w_new_relay: "NewRtp_proxy_session [False, True] None ([], [], []) ''c1'' ''ft'' ''tt'' [] [] = Inr w_relay"
  by (simp add: NewRtp_proxy_session_def w_relay_def Let_def)

lemma w_relay_client: "px_client w_relay = Some 1"
  by (simp add: w_relay_def)

theorem rtpp_link_refines_list_witness:
  "\<exists>s'. link_run [L_send ''a'' CB_nil, L_send ''b'' CB_nil, L_answer ''0'', L_send ''c'' CB_nil] w_relay
       = Inr ([(\<lparr>wc_cmd = ''a'', wc_cb = CB_nil, wc_client = 1\<rparr>, ''0'')], s') \<and> sent_of (px_out s') = [(1, ''a''), (1, ''b'')]"
proof -
  let ?c = "\<lambda>t. \<lparr>wc_cmd = t, wc_cb = CB_nil, wc_client = 1\<rparr>"
  have "list_run 1 [L_send ''a'' CB_nil, L_send ''b'' CB_nil, L_answer ''0'', L_send ''c'' CB_nil] []
      = Inr ([(?c ''a'', ''0'')], [?c ''b'', ?c ''c''])" by (simp add: channel_size_def)
  with rtpp_link_refines_list [OF w_new_relay w_relay_client, of "[L_send ''a'' CB_nil, L_send ''b'' CB_nil, L_answer ''0'', L_send ''c'' CB_nil]"]
  show ?thesis by auto
qed

theorem deletion_releases_every_stream_witness:
  "\<exists>s1 s3 s4. update w_caps Caller (NewUpdateParams 0 (UP_record ''r'' None 0)) w_relay = Inr s1
    \<and> Delete s1 = Inr s3 \<and> session_run [S_record w_caps ''r'' None 0] s3 = Inr s4
    \<and> (1, ''D c1-0 ft tt'') \<in> set (drop (length (given s1)) (given s3)) \<and> given s4 = given s3"
proof -
  obtain s1 where s1: "update w_caps Caller (NewUpdateParams 0 (UP_record ''r'' None 0)) w_relay = Inr s1"
      "px_client s1 = Some 1" "px_max_index s1 = 0" "px_inflight s1 \<noteq> None" "px_wi s1 = []"
    by (simp add: update_def w_relay_def NewUpdateParams_def send_command_def emit_out_def Let_def)
  obtain c where c: "px_inflight s1 = Some c" using s1(4) by blast
  obtain s3 where s3: "Delete s1 = Inr s3" "px_client s3 = None"
    using s1 c by (simp add: Delete_def send_command_def channel_size_def Let_def)
  obtain s4 where s4: "session_run [S_record w_caps ''r'' None 0] s3 = Inr s4"
    using s3(2) by (cases "sp_session_exists (px_caller s3)")
      (simp_all add: StartRecording_def start_recording_def update_def send_command_def Let_def)
  have n: "session_run [] w_relay = Inr w_relay" "session_run [] s1 = Inr s1" by simp_all
  have "delete_command w_relay (up_index (NewUpdateParams 0 (UP_record ''r'' None 0))) = ''D c1-0 ft tt''"
    by (simp add: delete_command_def stream_id_def w_relay_def NewUpdateParams_def) code_simp
  with deletion_releases_every_stream [OF w_new_relay n(1) w_relay_client s1(1) _ n(2) _ s3(1) s4] s1 s3 s4
  show ?thesis by (simp add: NewUpdateParams_def) 
qed

text \<open>An offer with two media sections, and one with a single section.\<close>

definition w_media_text :: "string \<Rightarrow> string" where
  "w_media_text port = ''m=audio '' @ port @ '' RTP/AVP 0 8'' @ CRLF @ ''c=IN IP4 192.0.2.7'' @ CRLF"

definition w_call_offer :: "string list \<Rightarrow> msg_body" where
  "w_call_offer ports = NewMsgBody (''v=0'' @ CRLF @ ''o=- 7 3 IN IP4 192.0.2.7'' @ CRLF @ ''s=-'' @ CRLF @ ''t=0 0'' @ CRLF
     @ concat (map w_media_text ports)) ''application/sdp''"

lemma w_call_offer_fields: "mb_needs_update (w_call_offer ps)" "mb_sdp (w_call_offer ps) = None"
  by (simp_all add: w_call_offer_def NewMsgBody_def)

lemma w_one_section: "case GetSdp (w_call_offer [''4000'']) of (b1, Inr d) \<Rightarrow> relayed_sections d = Inr [0] | (b1, Inl e) \<Rightarrow> False"
  by code_simp

lemma w_two_sections: "case GetSdp (w_call_offer [''4000'', ''4002'']) of (b1, Inr d) \<Rightarrow> relayed_sections d = Inr [0, 1] | (b1, Inl e) \<Rightarrow> False"
  by code_simp

lemma w_relay_idle: "session_run [] w_relay = Inr w_relay" "outstanding w_relay = []"
  by (simp_all add: w_relay_def outstanding_def)

theorem relay_takes_over_media_witness:
  "\<exists>b1 d s' b d'. GetSdp (w_call_offer [''4000'']) = (b1, Inr d)
    \<and> session_run [S_sdp w_caps Caller (w_call_offer [''4000'']), S_answer w_caps ''42 192.0.2.20''] w_relay = Inr s'
    \<and> last (px_out s') = O_sdp 0 (Some b) None \<and> mb_sdp b = Some d' \<and> relayed_as 0 False [held d 0] d 0 (42, ''192.0.2.20'') d'"
proof -
  obtain b1 d where d: "GetSdp (w_call_offer [''4000'']) = (b1, Inr d)" "relayed_sections d = Inr [0]"
    using w_one_section by (auto split: prod.splits sum.splits)
  have g: "good_answer (42, ''192.0.2.20'')" and a: "answer_text (42, ''192.0.2.20'') = ''42 192.0.2.20''" by code_simp+
  have j: "px_njobs w_relay = 0" "sp_repacketize (the_side Caller w_relay) = 0" "px_insert_nortpp w_relay = False"
    by (simp_all add: w_relay_def new_side_def)
  from relay_takes_over_media [OF d(1) w_call_offer_fields d(2) w_new_relay w_relay_idle w_relay_client g, of w_caps Caller]
  show ?thesis unfolding a j using d(1) by blast
qed

theorem only_last_section_relayed_witness:
  "\<exists>b1 d s' b d'. GetSdp (w_call_offer [''4000'', ''4002'']) = (b1, Inr d)
    \<and> session_run [S_sdp w_caps Caller (w_call_offer [''4000'', ''4002'']), S_answer w_caps ''42 192.0.2.20'', S_answer w_caps ''44 192.0.2.20'']
        w_relay = Inr s'
    \<and> last (px_out s') = O_sdp 0 (Some b) None \<and> mb_sdp b = Some d' \<and> sd_sections d' ! 0 = sd_sections d ! 0
    \<and> relayed_as 0 False [held d 0, held d 1] d 1 (44, ''192.0.2.20'') d'"
proof -
  obtain b1 d where d: "GetSdp (w_call_offer [''4000'', ''4002'']) = (b1, Inr d)" "relayed_sections d = Inr [0, 1]"
    using w_two_sections by (auto split: prod.splits sum.splits)
  have g: "list_all good_answer [(42, ''192.0.2.20''), (44, ''192.0.2.20'')]" by code_simp
  have "answer_text (42, ''192.0.2.20'') = ''42 192.0.2.20''" "answer_text (44, ''192.0.2.20'') = ''44 192.0.2.20''" by code_simp+
  then have a: "map (\<lambda>x. S_answer w_caps (answer_text x)) [(42, ''192.0.2.20''), (44, ''192.0.2.20'')]
      = [S_answer w_caps ''42 192.0.2.20'', S_answer w_caps ''44 192.0.2.20'']" by simp
  have j: "px_njobs w_relay = 0" "sp_repacketize (the_side Caller w_relay) = 0" "px_insert_nortpp w_relay = False"
    by (simp_all add: w_relay_def new_side_def)
  have l: "1 < length [0, 1 :: nat]" "length [0, 1 :: nat] \<le> 51" "length [(42 :: int, ''192.0.2.20''), (44, ''192.0.2.20'')] = length [0, 1 :: nat]"
    by simp_all
  from only_last_section_relayed [OF d(1) w_call_offer_fields d(2) l(1,2) w_new_relay w_relay_idle w_relay_client l(3) g, of w_caps Caller]
  obtain s' b d' where "session_run [S_sdp w_caps Caller (w_call_offer [''4000'', ''4002'']), S_answer w_caps ''42 192.0.2.20'',
      S_answer w_caps ''44 192.0.2.20''] w_relay = Inr s'" "last (px_out s') = O_sdp 0 (Some b) None" "mb_sdp b = Some d'"
    "sd_sections d' ! 0 = sd_sections d ! 0" "relayed_as 0 False [held d 0, held d 1] d 1 (44, ''192.0.2.20'') d'" unfolding a j by auto
  with d(1) show ?thesis by blast
qed

section \<open>The client of a proxy\<close>

text \<open>The proxy answers the version check with another version, and the client goes on asking.\<close>

theorem proxy_client_never_stuck_witness:
  "\<exists>c. reach client_init client_step c \<and> \<not> cl_online c
    \<and> (asked CK_version c \<or> T_version \<in> set (cl_timers c) \<or> (\<exists>k cap. asked (CK_caps k cap) c))"
proof -
  let ?c0 = "Start False NewRtp_proxy_client_base"
  let ?c1 = "answer_cb CK_version ''19990101'' (?c0\<lparr>cl_outstanding := [] @ []\<rparr>)"
  have "client_init ?c0" by (simp add: client_init_def)
  moreover have "client_step ?c0 ?c1" by (rule answered) (simp add: Start_def version_check_def SendCommand_def NewRtp_proxy_client_base_def)
  ultimately have r: "reach client_init client_step ?c1" by (meson reach.intros)
  have "\<not> cl_shut_down ?c1 \<and> \<not> cl_online ?c1"
    by (simp add: Start_def version_check_def SendCommand_def NewRtp_proxy_client_base_def version_check_reply_def arm_def)
  with proxy_client_never_stuck [OF r] r show ?thesis by auto
qed

theorem unanswered_command_times_out_witness:
  "\<exists>n u1. Send_command ''k1'' ''V'' (Some 7) NewRtp_proxy_client_udp = Some (Inr u1)
    \<and> sends_of (uc_out (expire (max 1 n) ''k1'' u1)) = replicate (max 1 n) ''k1 V'' \<and> 2 ^ n - 1 \<le> (3 :: rat) \<and> 3 < (2 :: rat) ^ Suc n - 1"
proof -
  have h: "uc_worker NewRtp_proxy_client_udp" "0 < rf_lastval (uc_delay_flt NewRtp_proxy_client_udp)" "''V'' \<noteq> []"
    and z: "uc_out NewRtp_proxy_client_udp = []" "rf_lastval (uc_delay_flt NewRtp_proxy_client_udp) = 1 / 4" "exp_time ''V'' = 3"
    by (simp_all add: NewRtp_proxy_client_udp_def NewRecFilter_def exp_time_def)
  from unanswered_command_times_out [OF h, of "''k1''" 7] show ?thesis unfolding z Let_def by auto
qed

text \<open>Of two commands the second is answered twice and the first not at all.\<close>

definition w_datagrams :: "udp_op list" where
  "w_datagrams = [UO_send ''k1'' ''V'' 1, UO_send ''k2'' ''Ib'' 2, UO_reply ''k2 ok'' (1 / 10), UO_timer ''k1'', UO_reply ''k2 ok'' (1 / 10),
     UO_reply ''nonsense'' 1]"

lemma w_retrans: "getnretrans 1 3 = Some (Inr 2)" "getnretrans 1 10 = Some (Inr 3)"
  by (simp_all add: getnretrans_def count_retrans.simps [of 1 3 0] count_retrans.simps [of 2 2 1] count_retrans.simps [of 4 0 2]
      count_retrans.simps [of 1 10 0] count_retrans.simps [of 2 9 1] count_retrans.simps [of 4 7 2] count_retrans.simps [of 8 3 3])

lemma w_datagrams_run:
  "\<exists>u. udp_run w_datagrams NewRtp_proxy_client_udp = Some (Inr u) \<and> uc_pending u ''k1'' \<noteq> None \<and> uc_pending u ''k2'' = None"
proof -
  have f: "FieldsN ''k2 ok'' 2 = [''k2'', ''ok'']" "FieldsN ''nonsense'' 2 = [''nonsense'']" by code_simp+
  show ?thesis
    by (simp add: w_datagrams_def NewRtp_proxy_client_udp_def NewRecFilter_def Send_command_def exp_time_def w_retrans udp_emit_def retransmit_def
        process_reply_def f call_result_def Let_def)
qed

theorem every_command_reported_once_witness:
  "\<exists>u. udp_run w_datagrams NewRtp_proxy_client_udp = Some (Inr u)
    \<and> length (filter (\<lambda>x. \<exists>r. x = U_result 1 r) (uc_out u)) = 0 \<and> length (filter (\<lambda>x. \<exists>r. x = U_result 2 r) (uc_out u)) = 1"
proof -
  obtain u where u: "udp_run w_datagrams NewRtp_proxy_client_udp = Some (Inr u)" "uc_pending u ''k1'' \<noteq> None" "uc_pending u ''k2'' = None"
    using w_datagrams_run by blast
  have h: "delays_ok w_datagrams" "distinct (map fst (given_of w_datagrams))" "distinct (map snd (given_of w_datagrams))"
      "(''k1'', 1) \<in> set (given_of w_datagrams)" "(''k2'', 2) \<in> set (given_of w_datagrams)"
    by (auto simp: w_datagrams_def delays_ok_def)
  from every_command_reported_once [OF u(1) h(1-4)] every_command_reported_once [OF u(1) h(1-3,5)] u show ?thesis
    by (auto split: option.splits)
qed

section \<open>Registrations\<close>

definition w_agent :: reg_agent where
  "w_agent = NewSipRegistrationAgent s_cfg s_url None None None True True None 3600 ''ft'' ''b1'' ''c1''"

lemma map_two: "length xs = 2 \<Longrightarrow> map f xs = [f (xs ! 0), f (xs ! 1)]"
  by (auto simp: length_Suc_conv numeral_2_eq_2)

theorem registrations_numbered_in_one_dialog_witness:
  "\<exists>a. reg_run (\<lambda>_. []) [G_register ''b2'', G_register ''b3'', G_stop, G_register ''b4''] w_agent = Inr a
    \<and> map m_cseq (requests_of (rg_out a)) = [reg_cseq 1, reg_cseq 2] \<and> rg_dead a"
proof -
  have ok: "agent_ok w_agent w_agent" unfolding w_agent_def by (rule agent_ok_new)
  have n: "\<not> rg_dead w_agent" "rg_out w_agent = []" by (simp_all add: w_agent_def NewSipRegistrationAgent_def Let_def)
  from DoRegister_sends [OF ok n(1), of "''b2''"] n(2) obtain b m where b: "DoRegister ''b2'' w_agent = Inr b" "rg_out b = [R_send m]" "\<not> rg_dead b" by auto
  from DoRegister_sends [OF DoRegister_ok [OF ok b(1)] b(3)] obtain c m' where c: "DoRegister ''b3'' b = Inr c" "rg_out c = rg_out b @ [R_send m']" by blast
  obtain a where a: "reg_run (\<lambda>_. []) [G_register ''b2'', G_register ''b3'', G_stop, G_register ''b4''] w_agent = Inr a"
      "length (requests_of (rg_out a)) = 2" "rg_dead a"
    using b c by (simp add: StopRegister_def DoRegister_def [of "''b4''"])
  note n = registrations_numbered_in_one_dialog [OF w_agent_def a(1), THEN conjunct1, rule_format, THEN conjunct1, unfolded a(2)]
  have "map m_cseq (requests_of (rg_out a)) = [reg_cseq 1, reg_cseq 2]"
    unfolding map_two [OF a(2)] using n [of 0] n [of 1] by simp
  from a(1) this a(3) show ?thesis by (intro exI [of _ a] conjI)
qed

definition w_granted :: string where
  "w_granted = ''SIP/2.0 200 OK'' @ CRLF @ ''v: SIP/2.0/UDP h;branch=z1'' @ CRLF @ ''f: <sip:a@h>;tag=x'' @ CRLF
     @ ''t: <sip:a@h>;tag=y'' @ CRLF @ ''i: c1'' @ CRLF @ ''CSeq: 1 REGISTER'' @ CRLF @ ''Expires: 3600'' @ CRLF @ CRLF"

lemma w_granted_parses: "case ParseSipResponse w_pe (Some (s_time 1)) w_granted of
    Inr rs \<Rightarrow> (case GetFirstHF ''expires'' rs of Some (H_Expires e) \<Rightarrow> True | _ \<Rightarrow> False) \<and> rs_scode rs = 200 \<and> rs_reason rs = ''OK''
      \<and> m_contacts rs = []
  | Inl e \<Rightarrow> False"
  by code_simp

theorem expires_header_registers_at_once_witness:
  "\<exists>rs. ParseSipResponse w_pe (Some (s_time 1)) w_granted = Inr rs
    \<and> RecvResponse w_hash [] (\<lambda>_. []) [] rs w_agent = Inr (w_agent\<lparr>rg_out := [R_timer 0, R_ok 0 None]\<rparr>)"
proof -
  obtain rs e where rs: "ParseSipResponse w_pe (Some (s_time 1)) w_granted = Inr rs" "GetFirstHF ''expires'' rs = Some (H_Expires e)"
      "rs_scode rs = 200" "rs_reason rs = ''OK''" "m_contacts rs = []"
    using w_granted_parses by (auto split: sum.splits option.splits sip_header.splits)
  have h: "200 \<le> rs_scode rs" "rs_scode rs < 300" "rs_reason rs \<noteq> ''Auth Failed''" using rs by simp_all
  have c: "granted_contact rs = Inr (-1, None)" using rs(5) by (simp add: granted_contact_def)
  have a: "\<not> rg_dead w_agent" "rg_rok_cb w_agent" "rg_out w_agent = []" "rg_atries w_agent = 0"
    by (simp_all add: w_agent_def NewSipRegistrationAgent_def Let_def)
  from expires_header_registers_at_once [OF rs(1,2) h c a(1), of w_hash "[]" "\<lambda>_. []" "[]"] a rs(1) show ?thesis by simp
qed

end
