(* ===== verification/Stir_Shaken.thy ===== *)
theory Stir_Shaken
  imports Nonce_Oracle Digest_Auth Sippy_Clock
begin

text \<open>
  Signed caller identities, \<^verbatim>\<open>sippy/stir_shaken/\<close>. What the code takes from the Go packages for certificates, keys,
  signatures, hashes and JSON is a record of functions, the argument of the definitions that use it: the
  blocks of a PEM text, the parsers, signing, verification and the chains to a root. Times are nanoseconds since 1970.
\<close>

section \<open>Passports\<close>

record sshaken_header =
  sh_Alg :: string
  sh_Ppt :: string
  sh_Typ :: string
  sh_X5u :: string

record sshaken_payload =
  sp_Attest :: string
  sp_DestTN :: "string list"
  sp_Iat :: int
  sp_OrigTN :: string
  sp_Origid :: string

record sshaken_passport =
  pp_ppt_hdr_param :: string
  pp_alg_hdr_param :: string
  pp_signature :: string
  pp_Header :: sshaken_header
  pp_Payload :: sshaken_payload

definition Attest :: "sshaken_passport \<Rightarrow> string" where "Attest p = sp_Attest (pp_Payload p)"
definition Origid :: "sshaken_passport \<Rightarrow> string" where "Origid p = sp_Origid (pp_Payload p)"
definition X5u :: "sshaken_passport \<Rightarrow> string" where "X5u p = sh_X5u (pp_Header p)"
definition OrigTN :: "sshaken_passport \<Rightarrow> string" where "OrigTN p = sp_OrigTN (pp_Payload p)"

definition DestTN :: "sshaken_passport \<Rightarrow> string" where
  "DestTN p = (case sp_DestTN (pp_Payload p) of [] \<Rightarrow> [] | n # _ \<Rightarrow> n)"

definition Iat :: "sshaken_passport \<Rightarrow> int" where "Iat p = unix_time (sp_Iat (pp_Payload p))"

definition check_claims :: "sshaken_passport \<Rightarrow> unit result" where
  "check_claims p =
     (let h = pp_Header p; b = pp_Payload p in
      if sh_Alg h \<noteq> ''ES256'' then Inl ''alg value should be ES256''
      else if sh_Ppt h \<noteq> ''shaken'' then Inl ''ppt value should be shaken''
      else if sh_Typ h \<noteq> ''passport'' then Inl ''typ value should be passport''
      else if sh_X5u h = [] then Inl ''x5u value should not be empty''
      else if sp_Attest b = [] then Inl ''attest value should not be empty''
      else if sp_DestTN b = [] then Inl ''dest tn value should not be empty''
      else if sp_Iat b = 0 then Inl ''missing iat claim''
      else if sp_OrigTN b = [] then Inl ''orig tn value should not be empty''
      else if sp_Origid b = [] then Inl ''origid value should not be empty''
      else Inr ())"

section \<open>Certificates, keys and JSON\<close>

record certificate =
  x5_NotBefore :: int
  x5_NotAfter :: int
  x5_Extensions :: "nat list list"
  x5_PublicKey :: "string option"

record crypto =
  cr_pem :: "string \<Rightarrow> (string \<times> string) list"
  cr_certificate :: "string \<Rightarrow> certificate result"
  cr_ec_key :: "string \<Rightarrow> string result"
  cr_oid :: "string \<Rightarrow> nat list result"
  cr_pool :: "string \<Rightarrow> string option"
  cr_chains :: "string \<Rightarrow> certificate \<Rightarrow> nat result"
  cr_Sum256 :: "string \<Rightarrow> string"
  cr_Sign :: "string \<Rightarrow> string \<Rightarrow> (nat \<times> nat) result"
  cr_Verify :: "string \<Rightarrow> string \<Rightarrow> nat \<Rightarrow> nat \<Rightarrow> bool"
  cr_header_json :: "sshaken_header \<Rightarrow> string"
  cr_payload_json :: "sshaken_payload \<Rightarrow> string"
  cr_json_header :: "string \<Rightarrow> sshaken_header result"
  cr_json_payload :: "string \<Rightarrow> sshaken_payload result"

definition TNAUTHLIST_EXT :: "nat list" where "TNAUTHLIST_EXT = [1, 3, 6, 1, 5, 5, 7, 1, 26]"
definition EC_P256_PARAMS :: "nat list" where "EC_P256_PARAMS = [1, 2, 840, 10045, 3, 1, 7]"
definition AUTH_DATE_FRESHNESS :: duration where "AUTH_DATE_FRESHNESS = 60 * second"
definition VERIFY_DATE_FRESHNESS :: duration where "VERIFY_DATE_FRESHNESS = 60 * second"

definition load_certificate :: "crypto \<Rightarrow> string \<Rightarrow> certificate result" where
  "load_certificate cr buf =
     (case cr_pem cr buf of [] \<Rightarrow> Inl ''cannot decode certificate'' | (_, bytes) # _ \<Rightarrow> cr_certificate cr bytes)"

definition load_cert :: "crypto \<Rightarrow> string \<Rightarrow> certificate result" where
  "load_cert cr buf =
     (if buf = [] then Inl ''empty certificate''
      else case cr_pem cr buf of [] \<Rightarrow> Inl ''error decoding a certificate'' | (_, bytes) # _ \<Rightarrow> cr_certificate cr bytes)"

fun key_of_blocks :: "crypto \<Rightarrow> (string \<times> string) list \<Rightarrow> string result" where
  "key_of_blocks cr [] = Inl ''cannot decode private key''"
| "key_of_blocks cr ((ty, bytes) # bs) =
     (if ty = ''EC PRIVATE KEY'' then cr_ec_key cr bytes
      else if ty = ''EC PARAMETERS'' then
        bind_result (cr_oid cr bytes) (\<lambda>obj. if obj \<noteq> EC_P256_PARAMS then Inl ''Wrong EC params'' else key_of_blocks cr bs)
      else Inl ''bad private key'')"

definition load_privatekey :: "crypto \<Rightarrow> string \<Rightarrow> string result" where
  "load_privatekey cr buf = key_of_blocks cr (cr_pem cr buf)"

definition check_cert_validity :: "certificate \<Rightarrow> int \<Rightarrow> unit result" where
  "check_cert_validity cert date =
     (if date < x5_NotBefore cert \<or> x5_NotAfter cert < date then Inl ''Date is outside the certificate validity'' else Inr ())"

section \<open>Signing\<close>

definition cleanup :: "string \<Rightarrow> string" where
  "cleanup s = filter (\<lambda>c. c \<in> set ''0123456789*#'') s"

definition signed_header :: "string \<Rightarrow> sshaken_header" where
  "signed_header cr_url = \<lparr>sh_Alg = ''ES256'', sh_Ppt = ''shaken'', sh_Typ = ''passport'', sh_X5u = cr_url\<rparr>"

definition signed_payload :: "int \<Rightarrow> string \<Rightarrow> string \<Rightarrow> string \<Rightarrow> string \<Rightarrow> sshaken_payload" where
  "signed_payload iat attest orig_tn dest_tn origid =
     \<lparr>sp_Attest = attest, sp_DestTN = [dest_tn], sp_Iat = iat, sp_OrigTN = orig_tn, sp_Origid = origid\<rparr>"

definition build_unsigned_pport :: "crypto \<Rightarrow> int \<Rightarrow> string \<Rightarrow> string \<Rightarrow> string \<Rightarrow> string \<Rightarrow> string \<Rightarrow> string" where
  "build_unsigned_pport cr iat_ts attest cr_url orig_tn dest_tn origid =
     B64EncodeNoPad (cr_header_json cr (signed_header cr_url)) @ ''.''
     @ B64EncodeNoPad (cr_payload_json cr (signed_payload (unix_of iat_ts) attest orig_tn dest_tn origid))"

text \<open>A number in 32 bytes; one that needs more makes the offset of the copy negative.\<close>

definition padded :: "nat \<Rightarrow> string result" where
  "padded r = (if r < 256 ^ 32 then Inr (be_bytes 32 r) else Inl slice_panic)"

definition gen_identity :: "crypto \<Rightarrow> string \<Rightarrow> int \<Rightarrow> string \<Rightarrow> string \<Rightarrow> string \<Rightarrow> string \<Rightarrow> string \<Rightarrow> string result" where
  "gen_identity cr pkey date attest cr_url orig_tn dest_tn origid =
     (let unsigned_buf = build_unsigned_pport cr date attest cr_url (cleanup orig_tn) (cleanup dest_tn) origid in
      bind_result (cr_Sign cr pkey (cr_Sum256 cr unsigned_buf)) (\<lambda>(r, s).
        bind_result (padded r) (\<lambda>r_padded.
          bind_result (padded s) (\<lambda>s_padded.
            Inr (unsigned_buf @ ''.'' @ B64EncodeNoPad (r_padded @ s_padded) @ '';info=<'' @ cr_url @ ''>;ppt=shaken'')))))"

definition Authenticate ::
  "crypto \<Rightarrow> int \<Rightarrow> int \<Rightarrow> string \<Rightarrow> string \<Rightarrow> string \<Rightarrow> string \<Rightarrow> string \<Rightarrow> string \<Rightarrow> string \<Rightarrow> string result" where
  "Authenticate cr now date attest origid cert_buf pkey_buf cr_url orig_tn dest_tn =
     (if AUTH_DATE_FRESHNESS < time_Sub now date then Inl ''Date header value is older than local policy''
      else bind_result (load_certificate cr cert_buf) (\<lambda>cert.
        bind_result (load_privatekey cr pkey_buf) (\<lambda>pkey.
          bind_result (check_cert_validity cert now) (\<lambda>_.
            bind_result (check_cert_validity cert date) (\<lambda>_.
              gen_identity cr pkey date attest cr_url orig_tn dest_tn origid)))))"

section \<open>Verification\<close>

definition identity_param :: "string \<Rightarrow> sshaken_passport \<Rightarrow> sshaken_passport" where
  "identity_param param p =
     (case go_cut (CHR ''='') param of
        (k, None) \<Rightarrow> p
      | (k, Some v) \<Rightarrow>
          if k = ''alg'' then p\<lparr>pp_alg_hdr_param := trim_quotes v\<rparr>
          else if k = ''ppt'' then p\<lparr>pp_ppt_hdr_param := trim_quotes v\<rparr>
          else p)"

definition no_passport :: sshaken_passport where
  "no_passport = \<lparr>pp_ppt_hdr_param = [], pp_alg_hdr_param = [], pp_signature = [],
     pp_Header = \<lparr>sh_Alg = [], sh_Ppt = [], sh_Typ = [], sh_X5u = []\<rparr>,
     pp_Payload = \<lparr>sp_Attest = [], sp_DestTN = [], sp_Iat = 0, sp_OrigTN = [], sp_Origid = []\<rparr>\<rparr>"

definition ParseIdentity :: "crypto \<Rightarrow> string \<Rightarrow> sshaken_passport result" where
  "ParseIdentity cr hdr_buf =
     (case go_cut (CHR '';'') hdr_buf of
        (_, None) \<Rightarrow> Inl ''no parameters in Identity''
      | (a, Some ps) \<Rightarrow>
          (case go_split (CHR ''.'') a of
             [h, b, sg] \<Rightarrow>
               (let p = fold identity_param (go_split (CHR '';'') ps) no_passport in
                bind_result (bind_result (B64DecodeNoPad h) (cr_json_header cr)) (\<lambda>hdr.
                  bind_result (bind_result (B64DecodeNoPad b) (cr_json_payload cr)) (\<lambda>payload.
                    bind_result (B64DecodeNoPad sg) (\<lambda>s.
                      Inr (p\<lparr>pp_Header := hdr, pp_Payload := payload, pp_signature := s\<rparr>)))))
           | _ \<Rightarrow> Inl ''Bad signature''))"

definition NewVerifier :: "crypto \<Rightarrow> string \<Rightarrow> string result" where
  "NewVerifier cr chain_buf =
     (case cr_pool cr chain_buf of None \<Rightarrow> Inl ''error parsing the root certificates'' | Some roots \<Rightarrow> Inr roots)"

definition validate_certificate :: "crypto \<Rightarrow> string \<Rightarrow> certificate \<Rightarrow> unit result" where
  "validate_certificate cr roots cert =
     (if TNAUTHLIST_EXT \<notin> set (x5_Extensions cert) then Inl ''The certificate misses TnAuthList extension''
      else bind_result (cr_chains cr roots cert) (\<lambda>n. if n = 0 then Inl ''no matching root certificate'' else Inr ()))"

definition verify_signature :: "crypto \<Rightarrow> certificate \<Rightarrow> sshaken_passport \<Rightarrow> int \<Rightarrow> string \<Rightarrow> string \<Rightarrow> unit result" where
  "verify_signature cr cert p iat_ts orig_tn dest_tn =
     (if length (pp_signature p) \<noteq> 64 then Inl ''Bad raw signature length, should be 64''
      else
        (let unsigned_buf = build_unsigned_pport cr iat_ts (Attest p) (X5u p) orig_tn dest_tn (Origid p);
             r = be_value (take 32 (pp_signature p)); s = be_value (drop 32 (pp_signature p)) in
         case x5_PublicKey cert of
           None \<Rightarrow> Inl ''wrong public key''
         | Some pub_key \<Rightarrow>
             if \<not> cr_Verify cr pub_key (cr_Sum256 cr unsigned_buf) r s then Inl ''verification failed'' else Inr ()))"

text \<open>
  The date the signature is checked for: that of the passport, unless it is neither the date of the message nor fresh. The negated
  difference wraps. The result of checking the validity of the certificate is dropped.
\<close>

definition signature_date :: "int \<Rightarrow> int \<Rightarrow> int \<Rightarrow> int" where
  "signature_date now iat date =
     (let d = time_Sub now iat; diff = (if d < 0 then wrap64 (- d) else d) in
      if iat \<noteq> date \<and> VERIFY_DATE_FRESHNESS < diff then date else iat)"

definition Verify_identity :: "crypto \<Rightarrow> string \<Rightarrow> int \<Rightarrow> sshaken_passport \<Rightarrow> string \<Rightarrow> string \<Rightarrow> string \<Rightarrow> int \<Rightarrow> unit result" where
  "Verify_identity cr roots now p cert_buf orig_tn_p dest_tn_p date =
     (if pp_ppt_hdr_param p \<noteq> ''shaken'' then Inl ''Unsupported ppt extension''
      else if pp_alg_hdr_param p \<noteq> [] \<and> pp_alg_hdr_param p \<noteq> ''ES256'' then Inl ''Unsupported alg''
      else bind_result (check_claims p) (\<lambda>_.
        if VERIFY_DATE_FRESHNESS < time_Sub now date then Inl ''Date header value is older than local policy''
        else if OrigTN p \<noteq> cleanup orig_tn_p \<or> DestTN p \<noteq> cleanup dest_tn_p then Inl ''Signature would not verify successfully''
        else bind_result (load_cert cr cert_buf) (\<lambda>cert.
          bind_result (validate_certificate cr roots cert) (\<lambda>_.
            verify_signature cr cert p (signature_date now (Iat p) date) (cleanup orig_tn_p) (cleanup dest_tn_p)))))"

section \<open>What a signature covers\<close>

lemma b64_free: "c \<in> {CHR ''.'', CHR '';''} \<Longrightarrow> c \<notin> set (B64EncodeNoPad s)"
proof
  assume c: "c \<in> {CHR ''.'', CHR '';''}" "c \<in> set (B64EncodeNoPad s)"
  then obtain n where n: "n < 64" "c = b64_char n" using b64_plain_B64EncodeNoPad [of s] by (auto simp: b64_plain_def)
  have "\<forall>n \<in> set [0..<64]. b64_char n \<notin> {CHR ''.'', CHR '';''}" by code_simp
  with c(1) n show False by simp
qed

text \<open>The date a signature is checked for is at most the limit of freshness in the past.\<close>

lemma signature_date_fresh:
  assumes "\<not> VERIFY_DATE_FRESHNESS < time_Sub now date"
  shows "now - signature_date now iat date \<le> VERIFY_DATE_FRESHNESS"
proof -
  have s: "now - x \<le> VERIFY_DATE_FRESHNESS" if "\<not> VERIFY_DATE_FRESHNESS < time_Sub now x" for x
    using that by (auto simp: time_Sub_def VERIFY_DATE_FRESHNESS_def second_def int64_min_def int64_max_def)
  show ?thesis
  proof (cases "iat \<noteq> date \<and> VERIFY_DATE_FRESHNESS < (if time_Sub now iat < 0 then wrap64 (- time_Sub now iat) else time_Sub now iat)")
    case True
    then show ?thesis using s [OF assms] by (simp add: signature_date_def Let_def)
  next
    case False
    then have "signature_date now iat date = iat" by (simp add: signature_date_def Let_def)
    moreover have "\<not> VERIFY_DATE_FRESHNESS < time_Sub now iat"
      using False assms by (auto simp: VERIFY_DATE_FRESHNESS_def second_def split: if_splits)
    ultimately show ?thesis using s by simp
  qed
qed

lemma Verify_identity_Inr:
  assumes "Verify_identity cr roots now p cert_buf orig dest date = Inr ()"
  obtains cert pub where "load_cert cr cert_buf = Inr cert" "validate_certificate cr roots cert = Inr ()" "x5_PublicKey cert = Some pub"
    "OrigTN p = cleanup orig" "DestTN p = cleanup dest" "\<not> VERIFY_DATE_FRESHNESS < time_Sub now date"
    "cr_Verify cr pub (cr_Sum256 cr (build_unsigned_pport cr (signature_date now (Iat p) date) (Attest p) (X5u p) (cleanup orig) (cleanup dest) (Origid p)))
       (be_value (take 32 (pp_signature p))) (be_value (drop 32 (pp_signature p)))"
  using assms that unfolding Verify_identity_def verify_signature_def Let_def
  by (auto simp: bind_result_Inr_iff split: if_splits option.splits)

text \<open>The date is that of the passport or that of the message.\<close>

lemma signature_date_of: "signature_date now iat date \<in> {iat, date}"
  by (simp add: signature_date_def Let_def)

text \<open>
  Property C14. An identity that is accepted for a call was signed for that call. Let \<open>hs\<close> be the hashes the owner of the certificate's key has signed, so that
  signatures verify with that key for those hashes only. Then the owner has signed the hash of the text that is made of exactly the caller's and the called number of the call,
  the attestation, certificate address and origin of the passport, and the passport's or the message's date; the passport names the numbers of the call; the message's date and the date
  signed are not more than 60 seconds in the past (dates in the future pass); and the certificate has the authority extension and a chain to a root.
\<close>

theorem only_signed_calls_verify:
  assumes "Verify_identity cr roots now p cert_buf orig dest date = Inr ()"
    and "load_cert cr cert_buf = Inr cert"
    and "\<And>pub h r s. x5_PublicKey cert = Some pub \<Longrightarrow> cr_Verify cr pub h r s \<Longrightarrow> h \<in> hs"
  shows "(\<exists>t \<in> {Iat p, date}. cr_Sum256 cr (build_unsigned_pport cr t (Attest p) (X5u p) (cleanup orig) (cleanup dest) (Origid p)) \<in> hs
        \<and> now - t \<le> 60 * second)
    \<and> now - date \<le> 60 * second
    \<and> OrigTN p = cleanup orig \<and> DestTN p = cleanup dest
    \<and> TNAUTHLIST_EXT \<in> set (x5_Extensions cert) \<and> (\<exists>n > 0. cr_chains cr roots cert = Inr n)"
proof -
  let ?i = "signature_date now (Iat p) date"
  from assms(1) obtain cert' pub where v: "load_cert cr cert_buf = Inr cert'" "validate_certificate cr roots cert' = Inr ()" "x5_PublicKey cert' = Some pub"
    "OrigTN p = cleanup orig" "DestTN p = cleanup dest" "\<not> VERIFY_DATE_FRESHNESS < time_Sub now date"
    "cr_Verify cr pub (cr_Sum256 cr (build_unsigned_pport cr ?i (Attest p) (X5u p) (cleanup orig) (cleanup dest) (Origid p)))
       (be_value (take 32 (pp_signature p))) (be_value (drop 32 (pp_signature p)))" by (rule Verify_identity_Inr)
  have c: "cert' = cert" using v(1) assms(2) by simp
  have "cr_Sum256 cr (build_unsigned_pport cr ?i (Attest p) (X5u p) (cleanup orig) (cleanup dest) (Origid p)) \<in> hs"
    using assms(3) [OF v(3) [unfolded c] v(7)] .
  moreover have "now - ?i \<le> 60 * second" using signature_date_fresh [OF v(6), of "Iat p"] by (simp add: VERIFY_DATE_FRESHNESS_def)
  moreover have "now - date \<le> 60 * second"
    using signature_date_fresh [OF v(6), of date] by (simp add: VERIFY_DATE_FRESHNESS_def signature_date_def Let_def)
  moreover have "TNAUTHLIST_EXT \<in> set (x5_Extensions cert) \<and> (\<exists>n > 0. cr_chains cr roots cert = Inr n)"
    using v(2) c by (auto simp: validate_certificate_def bind_result_Inr_iff split: if_splits)
  ultimately show ?thesis using signature_date_of v(4,5) by blast
qed

section \<open>What is signed is accepted\<close>

lemma info_param: "identity_param (''info=<'' @ u @ ''>'') p = p"
  using cut_append [of "CHR ''=''" "''info''" "''<'' @ u @ ''>''"] by (simp add: identity_param_def)

lemma identity_parameters:
  assumes "CHR '';'' \<notin> set url"
  shows "fold identity_param (go_split (CHR '';'') (''info=<'' @ url @ ''>;ppt=shaken'')) no_passport = no_passport\<lparr>pp_ppt_hdr_param := ''shaken''\<rparr>"
proof -
  have "go_split (CHR '';'') ((''info=<'' @ url @ ''>'') @ CHR '';'' # ''ppt=shaken'') = [''info=<'' @ url @ ''>'', ''ppt=shaken'']"
    using assms by (subst go_split_append) auto
  moreover have "identity_param ''ppt=shaken'' no_passport = no_passport\<lparr>pp_ppt_hdr_param := ''shaken''\<rparr>"
    by (simp add: identity_param_def trim_quotes_def)
  ultimately show ?thesis using info_param [of url no_passport] by simp
qed

lemma ParseIdentity_made:
  assumes "CHR '';'' \<notin> set url" and "cr_json_header cr (cr_header_json cr h) = Inr h" and "cr_json_payload cr (cr_payload_json cr b) = Inr b"
  shows "ParseIdentity cr (B64EncodeNoPad (cr_header_json cr h) @ ''.'' @ B64EncodeNoPad (cr_payload_json cr b) @ ''.''
      @ B64EncodeNoPad sg @ '';info=<'' @ url @ ''>;ppt=shaken'')
    = Inr (no_passport\<lparr>pp_ppt_hdr_param := ''shaken'', pp_Header := h, pp_Payload := b, pp_signature := sg\<rparr>)"
proof -
  let ?a = "B64EncodeNoPad (cr_header_json cr h) @ CHR ''.'' # B64EncodeNoPad (cr_payload_json cr b) @ CHR ''.'' # B64EncodeNoPad sg"
  have "CHR '';'' \<notin> set ?a" using b64_free [of "CHR '';''"] by auto
  then have "go_cut (CHR '';'') (?a @ CHR '';'' # ''info=<'' @ url @ ''>;ppt=shaken'') = (?a, Some (''info=<'' @ url @ ''>;ppt=shaken''))"
    by (rule cut_append)
  moreover have "go_split (CHR ''.'') ?a = [B64EncodeNoPad (cr_header_json cr h), B64EncodeNoPad (cr_payload_json cr b), B64EncodeNoPad sg]"
    using b64_free [of "CHR ''.''"] by (simp add: go_split_append go_split_absent)
  ultimately show ?thesis using identity_parameters [OF assms(1)] assms(2,3) by (simp add: ParseIdentity_def B64_roundtrip)
qed

lemma padded_Inr: "padded r = Inr b \<Longrightarrow> length b = 32 \<and> be_value b = r"
  by (auto simp: padded_def be_value_bytes split: if_splits)

text \<open>Rounding the date to seconds does not change what is signed, whichever date verification takes.\<close>

lemma signature_date_seconds: "unix_of (signature_date now (unix_time (unix_of date)) date) = unix_of date"
  by (simp add: signature_date_def Let_def) (simp add: unix_of_def unix_time_def second_def)

definition shaken_complete :: "crypto \<Rightarrow> string \<Rightarrow> string \<Rightarrow> string \<Rightarrow> bool" where
  "shaken_complete cr roots cert_buf pkey_buf \<longleftrightarrow>
     (\<exists>cert pub key. load_cert cr cert_buf = Inr cert \<and> validate_certificate cr roots cert = Inr () \<and> x5_PublicKey cert = Some pub
        \<and> load_privatekey cr pkey_buf = Inr key \<and> (\<forall>h r s. cr_Sign cr key h = Inr (r, s) \<longrightarrow> cr_Verify cr pub h r s))"

text \<open>
  Property C29. What was signed is accepted: an identity that \<open>Authenticate\<close> made for a call is parsed and verified for this call by everyone who has a root
  of its certificate and reads it within the limit of freshness of the message's date, when what signing with the key gives verifies with the certificate's key, the
  JSON texts of header and payload are read back, the address of the certificate has no semicolon and none of the claims is empty.
\<close>

theorem authenticated_identity_verifies:
  assumes "Authenticate cr now date attest origid cert_buf pkey_buf url orig dest = Inr identity"
    and "shaken_complete cr roots cert_buf pkey_buf"
    and "cr_json_header cr (cr_header_json cr (signed_header url)) = Inr (signed_header url)"
    and "let b = signed_payload (unix_of date) attest (cleanup orig) (cleanup dest) origid in cr_json_payload cr (cr_payload_json cr b) = Inr b"
    and "CHR '';'' \<notin> set url" and "[] \<notin> {url, attest, cleanup orig, origid}" and "unix_of date \<noteq> 0"
    and "\<not> VERIFY_DATE_FRESHNESS < time_Sub later date"
  shows "\<exists>p. ParseIdentity cr identity = Inr p \<and> Verify_identity cr roots later p cert_buf orig dest date = Inr ()"
proof -
  let ?b = "signed_payload (unix_of date) attest (cleanup orig) (cleanup dest) origid"
  let ?u = "build_unsigned_pport cr date attest url (cleanup orig) (cleanup dest) origid"
  from assms(2) obtain cert pub key where k: "load_cert cr cert_buf = Inr cert" "validate_certificate cr roots cert = Inr ()"
    "x5_PublicKey cert = Some pub" "load_privatekey cr pkey_buf = Inr key" "\<And>h r s. cr_Sign cr key h = Inr (r, s) \<Longrightarrow> cr_Verify cr pub h r s"
    unfolding shaken_complete_def by blast
  from assms(1) k(4) have "gen_identity cr key date attest url orig dest origid = Inr identity"
    by (auto simp: Authenticate_def bind_result_Inr_iff split: if_splits)
  then obtain r s rb sb where g: "cr_Sign cr key (cr_Sum256 cr ?u) = Inr (r, s)" "padded r = Inr rb" "padded s = Inr sb"
    "identity = ?u @ ''.'' @ B64EncodeNoPad (rb @ sb) @ '';info=<'' @ url @ ''>;ppt=shaken''"
    by (auto simp: gen_identity_def Let_def bind_result_Inr_iff)
  let ?p = "no_passport\<lparr>pp_ppt_hdr_param := ''shaken'', pp_Header := signed_header url, pp_Payload := ?b, pp_signature := rb @ sb\<rparr>"
  have parse: "ParseIdentity cr identity = Inr ?p"
    using ParseIdentity_made [OF assms(5,3) assms(4) [unfolded Let_def], of "rb @ sb"] by (simp add: g(4) build_unsigned_pport_def)
  have fields: "Attest ?p = attest" "X5u ?p = url" "Origid ?p = origid" "OrigTN ?p = cleanup orig" "DestTN ?p = cleanup dest" "Iat ?p = unix_time (unix_of date)"
    by (simp_all add: Attest_def X5u_def Origid_def OrigTN_def DestTN_def Iat_def signed_header_def signed_payload_def)
  have sig: "length (rb @ sb) = 64" "be_value (take 32 (rb @ sb)) = r" "be_value (drop 32 (rb @ sb)) = s"
    using padded_Inr [OF g(2)] padded_Inr [OF g(3)] by auto
  have "build_unsigned_pport cr (signature_date later (Iat ?p) date) attest url (cleanup orig) (cleanup dest) origid = ?u"
    by (simp add: build_unsigned_pport_def fields(6) signature_date_seconds)
  then have "verify_signature cr cert ?p (signature_date later (Iat ?p) date) (cleanup orig) (cleanup dest) = Inr ()"
    using k(3) k(5) [OF g(1)] sig by (simp add: verify_signature_def Let_def fields(1-3))
  moreover have "check_claims ?p = Inr ()"
    using assms(6,7) by (auto simp: check_claims_def Let_def signed_header_def signed_payload_def)
  ultimately have "Verify_identity cr roots later ?p cert_buf orig dest date = Inr ()"
    using k(1,2) assms(8) fields(4,5) by (simp add: Verify_identity_def no_passport_def)
  with parse show ?thesis by blast
qed

end
