(* ===== verification/Shaken_Witnesses.thy ===== *)
theory Shaken_Witnesses
  imports Stir_Shaken
begin

text \<open>A key, a certificate and a call with a signed identity, with texts that stand for the JSON of header and payload.\<close>

section \<open>Identities\<close>

fun enc_word :: "string \<Rightarrow> string" where
  "enc_word [] = ''.''"
| "enc_word (c # s) = CHR ''c'' # c # enc_word s"

definition enc_words :: "string list \<Rightarrow> string" where
  "enc_words ws = concat (map enc_word ws)"

fun dec_words :: "string \<Rightarrow> string \<Rightarrow> string list" where
  "dec_words w [] = []"
| "dec_words w (m # s) =
     (if m = CHR ''.'' then rev w # dec_words [] s
      else case s of [] \<Rightarrow> [] | c # t \<Rightarrow> dec_words (c # w) t)"

lemma dec_word: "dec_words w (enc_word v @ s) = (rev w @ v) # dec_words [] s"
  by (induction v arbitrary: w) simp_all

lemma dec_enc_words [simp]: "dec_words [] (enc_words ws) = ws"
  by (induction ws) (simp_all add: enc_words_def dec_word)

definition w_header_json :: "sshaken_header \<Rightarrow> string" where
  "w_header_json h = enc_words [sh_Alg h, sh_Ppt h, sh_Typ h, sh_X5u h]"

definition w_json_header :: "string \<Rightarrow> sshaken_header result" where
  "w_json_header s = (case dec_words [] s of
     [a, p, t, x] \<Rightarrow> Inr \<lparr>sh_Alg = a, sh_Ppt = p, sh_Typ = t, sh_X5u = x\<rparr> | _ \<Rightarrow> Inl ''json'')"

definition w_payload_json :: "sshaken_payload \<Rightarrow> string" where
  "w_payload_json b = enc_words ([sp_Attest b, sp_OrigTN b, sp_Origid b, if sp_Iat b < 0 then ''-'' else [], replicate (nat \<bar>sp_Iat b\<bar>) (CHR ''i'')] @ sp_DestTN b)"

definition w_json_payload :: "string \<Rightarrow> sshaken_payload result" where
  "w_json_payload s = (case dec_words [] s of
     a # r # g # n # i # ds \<Rightarrow> Inr \<lparr>sp_Attest = a, sp_DestTN = ds, sp_Iat = (if n = [] then int (length i) else - int (length i)), sp_OrigTN = r, sp_Origid = g\<rparr>
   | _ \<Rightarrow> Inl ''json'')"

lemma w_header_back: "w_json_header (w_header_json h) = Inr h"
  by (simp add: w_json_header_def w_header_json_def)

lemma w_payload_back: "w_json_payload (w_payload_json b) = Inr b"
  by (simp add: w_json_payload_def w_payload_json_def)

definition w_shaken_text :: string where
  "w_shaken_text = B64EncodeNoPad (w_header_json (signed_header ''https://c.example'')) @ ''.''
     @ B64EncodeNoPad (w_payload_json (signed_payload 5 ''A'' ''12025550100'' ''12025550101'' ''o-1''))"

definition w_crypto :: crypto where
  "w_crypto = \<lparr>cr_pem = (\<lambda>b. if b = ''cert'' then [(''CERTIFICATE'', ''c'')] else [(''EC PRIVATE KEY'', ''k'')]),
     cr_certificate = (\<lambda>_. Inr \<lparr>x5_NotBefore = 0, x5_NotAfter = 100 * second, x5_Extensions = [TNAUTHLIST_EXT], x5_PublicKey = Some ''p''\<rparr>),
     cr_ec_key = Inr, cr_oid = (\<lambda>_. Inr []), cr_pool = Some, cr_chains = (\<lambda>_ _. Inr 1), cr_Sum256 = (\<lambda>s. s),
     cr_Sign = (\<lambda>k h. if h = w_shaken_text then Inr (2, 3) else Inl ''not signed''),
     cr_Verify = (\<lambda>k h r s. h = w_shaken_text \<and> r = 2 \<and> s = 3),
     cr_header_json = w_header_json, cr_payload_json = w_payload_json, cr_json_header = w_json_header, cr_json_payload = w_json_payload\<rparr>"

lemma w_numbers: "cleanup ''+12025550100'' = ''12025550100''" "cleanup ''(1)2025550101'' = ''12025550101''"
  by (simp_all add: cleanup_def)

lemma w_unsigned: "build_unsigned_pport w_crypto (5 * second) ''A'' ''https://c.example'' ''12025550100'' ''12025550101'' ''o-1'' = w_shaken_text"
  by (simp add: build_unsigned_pport_def w_crypto_def w_shaken_text_def unix_of_def second_def)

lemma w_authenticated:
  "\<exists>identity. Authenticate w_crypto (6 * second) (5 * second) ''A'' ''o-1'' ''cert'' ''key'' ''https://c.example'' ''+12025550100'' ''(1)2025550101'' = Inr identity"
proof -
  have "padded 2 = Inr (be_bytes 32 2)" "padded 3 = Inr (be_bytes 32 3)" by (simp_all add: padded_def)
  moreover have "cr_Sign w_crypto ''k'' (cr_Sum256 w_crypto w_shaken_text) = Inr (2, 3)" "load_privatekey w_crypto ''key'' = Inr ''k''"
    "load_certificate w_crypto ''cert'' = Inr \<lparr>x5_NotBefore = 0, x5_NotAfter = 100 * second, x5_Extensions = [TNAUTHLIST_EXT], x5_PublicKey = Some ''p''\<rparr>"
    by (simp_all add: w_crypto_def load_privatekey_def load_certificate_def)
  moreover have "\<not> AUTH_DATE_FRESHNESS < time_Sub (6 * second) (5 * second)"
    by (simp add: AUTH_DATE_FRESHNESS_def time_Sub_def second_def int64_min_def int64_max_def)
  ultimately show ?thesis
    by (simp add: Authenticate_def gen_identity_def check_cert_validity_def w_numbers w_unsigned Let_def) (simp add: second_def)
qed

lemma w_complete: "shaken_complete w_crypto ''roots'' ''cert'' ''key''"
proof -
  let ?c = "\<lparr>x5_NotBefore = 0, x5_NotAfter = 100 * second, x5_Extensions = [TNAUTHLIST_EXT], x5_PublicKey = Some ''p''\<rparr>"
  have "load_cert w_crypto ''cert'' = Inr ?c" "validate_certificate w_crypto ''roots'' ?c = Inr ()" "load_privatekey w_crypto ''key'' = Inr ''k''"
    "\<forall>h r s. cr_Sign w_crypto ''k'' h = Inr (r, s) \<longrightarrow> cr_Verify w_crypto ''p'' h r s"
    by (simp_all add: w_crypto_def load_privatekey_def load_cert_def validate_certificate_def)
  then show ?thesis unfolding shaken_complete_def by (intro exI [of _ ?c] exI [of _ "''p''"] exI [of _ "''k''"]) simp
qed

theorem authenticated_identity_verifies_witness:
  "\<exists>identity p. Authenticate w_crypto (6 * second) (5 * second) ''A'' ''o-1'' ''cert'' ''key'' ''https://c.example'' ''+12025550100'' ''(1)2025550101'' = Inr identity
    \<and> ParseIdentity w_crypto identity = Inr p \<and> Verify_identity w_crypto ''roots'' (8 * second) p ''cert'' ''+12025550100'' ''(1)2025550101'' (5 * second) = Inr ()"
proof -
  obtain identity where i: "Authenticate w_crypto (6 * second) (5 * second) ''A'' ''o-1'' ''cert'' ''key'' ''https://c.example'' ''+12025550100'' ''(1)2025550101'' = Inr identity"
    using w_authenticated by blast
  have j: "cr_json_header w_crypto (cr_header_json w_crypto h) = Inr h" "let b = b0 in cr_json_payload w_crypto (cr_payload_json w_crypto b) = Inr b" for h b0
    by (simp_all add: w_crypto_def w_header_back w_payload_back)
  have c: "CHR '';'' \<notin> set ''https://c.example''" "[] \<notin> {''https://c.example'', ''A'', cleanup ''+12025550100'', ''o-1''}" "unix_of (5 * second) \<noteq> 0"
    "\<not> VERIFY_DATE_FRESHNESS < time_Sub (8 * second) (5 * second)"
    by (simp_all add: w_numbers unix_of_def VERIFY_DATE_FRESHNESS_def time_Sub_def second_def int64_min_def int64_max_def)
  from authenticated_identity_verifies [OF i w_complete j c] i show ?thesis by blast
qed

definition w_passport :: sshaken_passport where
  "w_passport = no_passport\<lparr>pp_ppt_hdr_param := ''shaken'', pp_signature := be_bytes 32 2 @ be_bytes 32 3,
     pp_Header := signed_header ''https://c.example'', pp_Payload := signed_payload 5 ''A'' ''12025550100'' ''12025550101'' ''o-1''\<rparr>"

theorem only_signed_calls_verify_witness:
  "Verify_identity w_crypto ''roots'' (8 * second) w_passport ''cert'' ''+12025550100'' ''(1)2025550101'' (5 * second) = Inr ()
    \<and> (\<exists>t \<in> {Iat w_passport, 5 * second}. cr_Sum256 w_crypto (build_unsigned_pport w_crypto t (Attest w_passport) (X5u w_passport)
          (cleanup ''+12025550100'') (cleanup ''(1)2025550101'') (Origid w_passport)) \<in> {w_shaken_text} \<and> 8 * second - t \<le> 60 * second)"
proof -
  let ?c = "\<lparr>x5_NotBefore = 0, x5_NotAfter = 100 * second, x5_Extensions = [TNAUTHLIST_EXT], x5_PublicKey = Some ''p''\<rparr>"
  have b: "be_value (be_bytes 32 2) = 2" "be_value (be_bytes 32 3) = 3" by (simp_all add: be_value_bytes)
  have f: "Attest w_passport = ''A''" "X5u w_passport = ''https://c.example''" "Origid w_passport = ''o-1''" "Iat w_passport = 5 * second"
    "OrigTN w_passport = ''12025550100''" "DestTN w_passport = ''12025550101''"
    by (simp_all add: w_passport_def Attest_def X5u_def Origid_def Iat_def OrigTN_def DestTN_def signed_header_def signed_payload_def unix_time_def)
  have l: "load_cert w_crypto ''cert'' = Inr ?c" and vc: "validate_certificate w_crypto ''roots'' ?c = Inr ()"
    by (simp_all add: w_crypto_def load_cert_def validate_certificate_def)
  have d: "signature_date (8 * second) (5 * second) (5 * second) = 5 * second" by (simp add: signature_date_def Let_def)
  have s: "verify_signature w_crypto ?c w_passport (5 * second) ''12025550100'' ''12025550101'' = Inr ()"
    unfolding verify_signature_def f(1-3) w_unsigned Let_def by (simp add: w_passport_def b) (simp add: w_crypto_def)
  have cl: "check_claims w_passport = Inr ()" by (simp add: check_claims_def w_passport_def signed_header_def signed_payload_def Let_def)
  have pp: "pp_ppt_hdr_param w_passport = ''shaken''" "pp_alg_hdr_param w_passport = []" by (simp_all add: w_passport_def no_passport_def)
  have t: "\<not> VERIFY_DATE_FRESHNESS < time_Sub (8 * second) (5 * second)"
    by (simp add: VERIFY_DATE_FRESHNESS_def time_Sub_def second_def int64_min_def int64_max_def)
  have v: "Verify_identity w_crypto ''roots'' (8 * second) w_passport ''cert'' ''+12025550100'' ''(1)2025550101'' (5 * second) = Inr ()"
    unfolding Verify_identity_def w_numbers f(4-6) l cl d bind_result_simps by (simp only: vc s pp t bind_result_simps) simp
  have u: "h \<in> {w_shaken_text}" if "x5_PublicKey ?c = Some pub" "cr_Verify w_crypto pub h r s" for pub h r s
    using that(2) by (simp add: w_crypto_def)
  show ?thesis by (rule conjI [OF v conjunct1 [OF only_signed_calls_verify [OF v l u]]])
qed

end
