(* ===== verification/B2b_Simple.thy ===== *)
theory B2b_Simple
  imports B2b_CallMap
begin

text \<open>
  The application \<^verbatim>\<open>cmd/b2bua_simple/main.go\<close>: every call goes to one next hop. A controller passes the events of each leg to the
  other; its legs are the lists of events given to them here. The table keeps the calls until a leg ends.
\<close>

section \<open>Call controllers\<close>

datatype simple_leg = Leg_A | Leg_O

record simple_cc =
  sc_id :: int
  sc_uaA :: "cc_event list"
  sc_uaO :: "cc_event list option"
  sc_disconnects :: nat

definition NewSimpleController :: "int \<Rightarrow> simple_cc" where
  "NewSimpleController i = \<lparr>sc_id = i, sc_uaA = [], sc_uaO = None, sc_disconnects = 0\<rparr>"

text \<open>The event that ends the call of a caller who begins with anything but a Try; the number of the event is an argument.\<close>

definition simple_hangup :: "int \<Rightarrow> cc_event \<Rightarrow> cc_event" where
  "simple_hangup seq e = CCEventDisconnect (newCCEventGeneric seq (ev_rtime (generic e)) (Some (ev_rtime (generic e))) [] []) None"

definition simple_RecvEvent :: "int \<Rightarrow> cc_event \<Rightarrow> simple_leg \<Rightarrow> simple_cc \<Rightarrow> simple_cc" where
  "simple_RecvEvent seq e leg cc =
     (case leg of
        Leg_A \<Rightarrow>
          (case sc_uaO cc of
             None \<Rightarrow> (case e of
                CCEventTry _ _ \<Rightarrow> cc\<lparr>sc_uaO := Some [e]\<rparr>
              | _ \<Rightarrow> cc\<lparr>sc_uaA := sc_uaA cc @ [simple_hangup seq e]\<rparr>)
           | Some es \<Rightarrow> cc\<lparr>sc_uaO := Some (es @ [e])\<rparr>)
      | Leg_O \<Rightarrow> cc\<lparr>sc_uaA := sc_uaA cc @ [e]\<rparr>)"

definition simple_disconnect :: "simple_cc \<Rightarrow> simple_cc" where
  "simple_disconnect cc = cc\<lparr>sc_disconnects := sc_disconnects cc + 1\<rparr>"

section \<open>The table of calls\<close>

text \<open>The numbers come from a counter that starts with one.\<close>

record simple_map =
  sm_ccmap :: "int \<Rightarrow> simple_cc option"
  sm_next_cc_id :: int

definition NewSimpleMap :: simple_map where
  "NewSimpleMap = \<lparr>sm_ccmap = (\<lambda>_. None), sm_next_cc_id = 1\<rparr>"

definition simple_OnNewDialog :: "sip_request \<Rightarrow> simple_map \<Rightarrow> dialog_answer \<times> simple_map" where
  "simple_OnNewDialog req cm =
     (case m_to req of
        None \<Rightarrow> (D_panic, cm)
      | Some (Inl e) \<Rightarrow> (dialog_respond 500 ''Internal Server Error'' req, cm)
      | Some (Inr to_body) \<Rightarrow>
          if GetTag to_body \<noteq> [] then (dialog_respond 481 ''Call Leg/Transaction Does Not Exist'' req, cm)
          else if rq_method req = ''INVITE'' then
            (let i = sm_next_cc_id cm in
             (D_call i, cm\<lparr>sm_ccmap := (sm_ccmap cm)(i \<mapsto> NewSimpleController i), sm_next_cc_id := wrap64 (i + 1)\<rparr>))
          else if rq_method req = ''REGISTER'' then (D_proxy, cm)
          else if rq_method req = ''NOTIFY'' \<or> rq_method req = ''PING'' then (dialog_respond 200 ''OK'' req, cm)
          else (dialog_respond 501 ''Not Implemented'' req, cm))"

definition simple_Remove :: "int \<Rightarrow> simple_map \<Rightarrow> simple_map" where
  "simple_Remove i cm = cm\<lparr>sm_ccmap := (sm_ccmap cm)(i := None)\<rparr>"

definition simple_Shutdown :: "simple_map \<Rightarrow> simple_map" where
  "simple_Shutdown cm = cm\<lparr>sm_ccmap := map_option simple_disconnect \<circ> sm_ccmap cm\<rparr>"

definition simple_event :: "int \<Rightarrow> int \<Rightarrow> cc_event \<Rightarrow> simple_leg \<Rightarrow> simple_map \<Rightarrow> simple_map" where
  "simple_event i seq e leg cm =
     (case sm_ccmap cm i of None \<Rightarrow> cm | Some cc \<Rightarrow> cm\<lparr>sm_ccmap := (sm_ccmap cm)(i \<mapsto> simple_RecvEvent seq e leg cc)\<rparr>)"

section \<open>The next hop\<close>

definition next_hop :: "string \<Rightarrow> host_port" where
  "next_hop nh_addr =
     (if nh_addr = [] then NewHostPort ''192.168.0.102'' ''5060''
      else if take 1 nh_addr = ''['' then
        (case go_cut (CHR '']'') nh_addr of (a, b) \<Rightarrow>
           NewHostPort (a @ '']'')
             (case b of
                None \<Rightarrow> ''5060''
              | Some r \<Rightarrow> (case go_cut (CHR '':'') r of (_, Some p) \<Rightarrow> p | (_, None) \<Rightarrow> ''5060'')))
      else (case go_cut (CHR '':'') nh_addr of (a, b) \<Rightarrow> NewHostPort a (case b of Some p \<Rightarrow> p | None \<Rightarrow> ''5060'')))"

text \<open>An address with a port is read as written, one of IPv6 with its brackets.\<close>

lemma next_hop_read:
  "h \<noteq> [] \<Longrightarrow> hd h \<noteq> CHR ''['' \<Longrightarrow> CHR '':'' \<notin> set h \<Longrightarrow> next_hop (h @ '':'' @ p) = NewHostPort h p"
  "CHR '']'' \<notin> set h \<Longrightarrow> next_hop (''['' @ h @ '']:'' @ p) = NewHostPort (''['' @ h @ '']'') p"
  "h \<noteq> [] \<Longrightarrow> hd h \<noteq> CHR ''['' \<Longrightarrow> CHR '':'' \<notin> set h \<Longrightarrow> next_hop h = NewHostPort h ''5060''"
proof -
  assume h: "h \<noteq> []" "hd h \<noteq> CHR ''[''" "CHR '':'' \<notin> set h"
  have t: "take 1 (h @ s) \<noteq> ''[''" for s using h(1,2) by (cases h) simp_all
  show "next_hop (h @ '':'' @ p) = NewHostPort h p"
    using cut_append [OF h(3), of p] t [of "'':'' @ p"] h(1) unfolding next_hop_def by (simp only: append_Cons append_Nil append_is_Nil_conv) simp
  show "next_hop h = NewHostPort h ''5060''"
    using cut_absent [OF h(3)] t [of "[]"] h(1) unfolding next_hop_def by simp
next
  assume "CHR '']'' \<notin> set h"
  then have "go_cut (CHR '']'') ((CHR ''['' # h) @ CHR '']'' # '':'' @ p) = (CHR ''['' # h, Some ('':'' @ p))"
    by (intro cut_append) simp
  then show "next_hop (''['' @ h @ '']:'' @ p) = NewHostPort (''['' @ h @ '']'') p"
    by (simp add: next_hop_def)
qed

section \<open>Events are passed on\<close>

fun simple_run :: "(int \<times> cc_event \<times> simple_leg) list \<Rightarrow> simple_cc \<Rightarrow> simple_cc" where
  "simple_run [] cc = cc"
| "simple_run ((seq, e, leg) # xs) cc = simple_run xs (simple_RecvEvent seq e leg cc)"

definition events_of :: "simple_leg \<Rightarrow> (int \<times> cc_event \<times> simple_leg) list \<Rightarrow> cc_event list" where
  "events_of leg xs = map (fst \<circ> snd) (filter (\<lambda>x. snd (snd x) = leg) xs)"

fun is_try :: "cc_event \<Rightarrow> bool" where
  "is_try (CCEventTry _ _) = True"
| "is_try _ = False"

lemma simple_run_append: "simple_run (xs @ ys) cc = simple_run ys (simple_run xs cc)"
  by (induction xs cc rule: simple_run.induct) simp_all

lemma simple_run_relays:
  "sc_uaO cc = Some es \<Longrightarrow> sc_uaO (simple_run xs cc) = Some (es @ events_of Leg_A xs) \<and> sc_uaA (simple_run xs cc) = sc_uaA cc @ events_of Leg_O xs"
proof (induction xs arbitrary: cc es)
  case (Cons x xs)
  obtain seq e leg where x: "x = (seq, e, leg)" by (cases x)
  let ?cc = "simple_RecvEvent seq e leg cc"
  have "sc_uaO ?cc = Some (es @ (if leg = Leg_A then [e] else [])) \<and> sc_uaA ?cc = sc_uaA cc @ (if leg = Leg_O then [e] else [])"
    using Cons.prems by (cases leg) (simp_all add: simple_RecvEvent_def)
  with Cons.IH [of ?cc] show ?case by (cases leg) (simp_all add: x events_of_def)
qed (simp add: events_of_def)

lemma simple_run_early:
  assumes "list_all (\<lambda>(seq, e, leg). leg = Leg_A \<and> \<not> is_try e) xs" and "sc_uaO cc = None"
  shows "sc_uaO (simple_run xs cc) = None \<and> sc_uaA (simple_run xs cc) = sc_uaA cc @ map (\<lambda>(seq, e, leg). simple_hangup seq e) xs"
  using assms
proof (induction xs arbitrary: cc)
  case (Cons x xs)
  obtain seq e where x: "x = (seq, e, Leg_A)" "\<not> is_try e" using Cons.prems(1) by (cases x) auto
  then have "simple_RecvEvent seq e Leg_A cc = cc\<lparr>sc_uaA := sc_uaA cc @ [simple_hangup seq e]\<rparr>"
    using Cons.prems(2) by (cases e) (simp_all add: simple_RecvEvent_def)
  with Cons x show ?case by simp
qed simp

text \<open>
  A call is transparent: from the first Try on, the leg to the next hop gets exactly the events of the caller's leg and the caller's leg exactly those of the other, in order;
  each event before it hangs up the caller.
\<close>

theorem simple_calls_are_transparent:
  assumes "list_all (\<lambda>(seq, e, leg). leg = Leg_A \<and> \<not> is_try e) before" and "is_try e"
  shows "let cc = simple_run (before @ (seq, e, Leg_A) # rest) (NewSimpleController i) in
    sc_uaO cc = Some (e # events_of Leg_A rest)
    \<and> sc_uaA cc = map (\<lambda>(seq, e, leg). simple_hangup seq e) before @ events_of Leg_O rest"
proof -
  let ?c = "simple_run before (NewSimpleController i)"
  have c: "sc_uaO ?c = None" "sc_uaA ?c = map (\<lambda>(seq, e, leg). simple_hangup seq e) before"
    using simple_run_early [OF assms(1), of "NewSimpleController i"] by (simp_all add: NewSimpleController_def)
  have "simple_RecvEvent seq e Leg_A ?c = ?c\<lparr>sc_uaO := Some [e]\<rparr>" using assms(2) c(1) by (cases e) (simp_all add: simple_RecvEvent_def)
  with simple_run_relays [of "?c\<lparr>sc_uaO := Some [e]\<rparr>" "[e]" rest] c show ?thesis
    by (simp add: Let_def simple_run_append)
qed

text \<open>Other calls are not touched by what happens to one.\<close>

lemma simple_calls_isolated:
  "j \<noteq> i \<Longrightarrow> sm_ccmap (simple_event i seq e leg cm) j = sm_ccmap cm j"
  "j \<noteq> i \<Longrightarrow> sm_ccmap (simple_Remove i cm) j = sm_ccmap cm j"
  by (simp_all add: simple_event_def simple_Remove_def split: option.split)

end
