(* ===== verification/Spec2Isabelle.thy ===== *)
theory Spec2Isabelle
  imports Fifo_Queue Tx_Witnesses Ua_Witnesses Wire_Witnesses Call_Witnesses Rtpp_Witnesses Shaken_Witnesses B2b_Simple
begin

text \<open>
  A verification library for go-b2bua, a SIP back-to-back user agent library in Go. The theories
  follow the packages under \<^verbatim>\<open>src/sippy\<close>. Messages arrive as datagrams at the transaction manager,
  which finds or creates the transaction they belong to; transactions repeat requests and responses,
  match answers and call the user agent of the call; a user agent is the state machine of one leg of
  a call and talks to the application by call control events.

  \<^bold>\<open>Layers and theories.\<close>

  \<^item> \<open>Sippy_Prelude\<close>: results (an error text or a value), Go's \<open>Itoa\<close>, \<open>Atoi\<close>, \<open>Split\<close> and
    \<open>TrimSpace\<close>, generic lemmas on lists and maps, and a small theory of runs and invariants as locales.
    \<open>Sippy_Text\<close> adds cutting, joining, letter case, \<open>net.SplitHostPort\<close>, field splitting
    (\<^verbatim>\<open>utils/misc.go\<close>) and URL escaping (\<^verbatim>\<open>utils/urlencode.go\<close>).
  \<^item> \<open>Fifo_Queue\<close>: the linked queue of \<^verbatim>\<open>container/fifo.go\<close> on an explicit heap; the locale
    \<open>queue_store\<close> is its contract, and the theorem refines list queues.
  \<^item> \<open>Sippy_Time\<close>: monotonic time stamps (\<^verbatim>\<open>time/monotime.go\<close>).
  \<^item> \<open>Sippy_Headers\<close>: addresses, ports, URLs, name-addresses, Via, CSeq, RAck and numeric headers
    as values, and transaction identifiers (\<^verbatim>\<open>net/hostport.go\<close>, \<^verbatim>\<open>headers/\<close>).
  \<^item> \<open>Sip_Url_Text\<close>, \<open>Sip_Address_Text\<close>, \<open>Sip_Header_Text\<close>: their texts, read and printed. The
    theorems are round trips for all printable values. \<open>Nonce_Oracle\<close> is the nonce oracle of
    \<^verbatim>\<open>security/hash_oracle.go\<close> and \<open>Digest_Auth\<close> the challenges and credentials of
    \<^verbatim>\<open>headers/sip_authorization.go\<close> and \<^verbatim>\<open>headers/sip_www_authenticate.go\<close>.
  \<^item> \<open>Sippy_Msg\<close>: messages, requests, responses (\<^verbatim>\<open>sip_msg.go\<close>, \<^verbatim>\<open>sip_request.go\<close>,
    \<^verbatim>\<open>sip_response.go\<close>): header insertion, construction of responses, ACK and CANCEL, copies, identifiers.
    \<open>Sdp_Body\<close>, \<open>Msg_Body\<close>: session descriptions and message bodies (\<^verbatim>\<open>sdp_body.go\<close>, \<^verbatim>\<open>sdp/\<close>,
    \<^verbatim>\<open>sdp_session.go\<close>, \<^verbatim>\<open>msg_body.go\<close>); \<open>Sdp_Text\<close> and \<open>Sdp_Versions\<close> have the theorems about their
    texts and their versions.
    \<open>Sip_Msg_Text\<close> parses and prints whole messages with their bodies; \<open>Sip_Wire\<close> has the theorems about it.
  \<^item> \<open>Tx_State\<close>, \<open>Server_Transaction\<close>, \<open>Client_Transaction\<close>: \<^verbatim>\<open>base_transaction.go\<close>,
    \<^verbatim>\<open>server_transaction.go\<close> and \<^verbatim>\<open>client_transaction.go\<close>: timers, repetitions, reliable
    provisional responses, ACK, PRACK and CANCEL, with the tables of the manager they change.
  \<^item> \<open>Local4Remote\<close>: the choice of the local address for a remote one (\<^verbatim>\<open>local4remote.go\<close>).
  \<^item> \<open>Sip_TM\<close>: the transaction manager (\<^verbatim>\<open>sip_transaction_manager.go\<close>).
  \<^item> \<open>Cc_Events\<close>: call control events (\<^verbatim>\<open>cc_events.go\<close>, \<^verbatim>\<open>cc_event_redirect.go\<close>).
  \<^item> \<open>Ua_Core\<close>, \<open>Ua_Messages\<close>, \<open>Ua_Events\<close>: the user agent (\<^verbatim>\<open>ua.go\<close>) and its states
    (\<^verbatim>\<open>ua_state_*.go\<close>, \<^verbatim>\<open>uac_state_*.go\<close>, \<^verbatim>\<open>uas_state_*.go\<close>) with the handlers for requests,
    responses and events; \<open>Ua_Machine\<close> makes the inputs of a user agent one step relation,
    \<open>Ua_Relation\<close> proves once for all handlers what relates the states before and after a step,
    \<open>Ua_Properties\<close> and \<open>Ua_Operations\<close> draw the consequences.
  \<^item> \<open>B2b_Route\<close>, \<open>B2b_Controller\<close>: the application \<^verbatim>\<open>cmd/b2bua_radius\<close>, its routes and number
    translation (\<^verbatim>\<open>b2broute.go\<close>, \<^verbatim>\<open>re_replace.go\<close>) and its call controller
    (\<^verbatim>\<open>call_controller.go\<close>), which authorises a call and hunts through its routes. \<open>B2b_Machine\<close> makes its
    inputs a step relation with an invariant, \<open>B2b_Properties\<close> has the theorems. \<open>B2b_Radius\<close>,
    \<open>B2b_Accounting\<close>, \<open>B2b_Config\<close>: the RADIUS client with its external program
    (\<^verbatim>\<open>radius_client.go\<close>, \<^verbatim>\<open>external_command.go\<close>), accounting records (\<^verbatim>\<open>radius_accounting.go\<close>)
    and options (\<^verbatim>\<open>my_config_parser.go\<close>). \<open>B2b_CallMap\<close> is the table of calls with its commands
    (\<^verbatim>\<open>call_map.go\<close>), \<open>B2b_Calls\<close> composes it with controllers, configuration and the parser.
  \<^item> \<open>Rtpp_Cmd\<close>, \<open>Rtpp_Session\<close>, \<open>Rtpp_Client\<close>, \<open>Rtpp_Udp\<close>: the control of a media relay
    (\<^verbatim>\<open>rtp_proxy/\<close>): the commands as texts, a session with the queue of its commands and the exchange of
    addresses in session descriptions, the client that watches over the proxy, and the transports. \<open>Rtpp_Relay\<close> has the
    theorems about sessions; in it the queue of a session refines a list.
  \<^item> \<open>Sip_Agents\<close>: the registration agent and the stateful proxy (\<^verbatim>\<open>sip_registration_manager.go\<close>,
    \<^verbatim>\<open>stateful_proxy.go\<close>).
  \<^item> \<open>Stir_Shaken\<close>: signed caller identities (\<^verbatim>\<open>stir_shaken/\<close>), with certificates, signatures, hashes and JSON as a
    record of functions. \<open>Sippy_Clock\<close>: the clocks behind the time stamps (\<^verbatim>\<open>time/\<close>, \<^verbatim>\<open>math/recfilter.go\<close>).
  \<^item> \<open>B2b_Simple\<close>: the application \<^verbatim>\<open>cmd/b2bua_simple\<close>, which sends every call to one next hop.
  \<^item> \<open>Sippy_Samples\<close>, \<open>Tx_Witnesses\<close>, \<open>Ua_Witnesses\<close>, \<open>Text_Witnesses\<close>, \<open>Wire_Witnesses\<close>,
    \<open>B2b_Witnesses\<close>, \<open>Call_Witnesses\<close>, \<open>Rtpp_Witnesses\<close>, \<open>Shaken_Witnesses\<close>: a concrete call on which the
    properties are applied. This theory joins user agent and server transaction.

  \<^bold>\<open>How the code is translated.\<close> A Go struct is a record, a pointer that may be nil an option, an
  error return the left side of a sum; a nil dereference or an index out of range is such an error
  too where the code can reach it. Callbacks and messages leave a handler as a log of outputs in the
  order the code makes the calls. Timers are fields that say whether and for how long they are armed;
  their expiry is an operation. Mutexes of the manager's tables are booleans, so that a lock that is
  never released is visible. Random strings, the clock, sockets, digest functions and the floating
  point conversions are arguments of the definitions that use them. The arithmetic of the filters of
  \<^verbatim>\<open>math/recfilter.go\<close> rounds as float64 does (\<open>fl64\<close>: 53 bits, to the nearest, ties to even); the times of the
  commands to a proxy are rational numbers. Output of the external program is read as bytes, in pieces of at most
  4096, the way \<open>bufio.Reader.ReadLine\<close> hands them out.
  \<^bold>\<open>What the theorems show.\<close> Invariants of every run of a user agent, over any inputs and environments (call stages with
  the one way back that a late CANCEL opens, event order, CSeq numbers, silence after the end); the exact effect of the transaction operations (ACK, CANCEL, PRACK,
  repetitions and their bounds, timeouts, keys); identifiers and texts that survive the
  way through the network; the order, termination and authorisation of route hunting; the separation
  of calls in the table, their media offers and their accounting records; that the commands to
  a media relay are sent in order, answered once and leave no stream behind; that made identities are
  accepted, and accepted ones were signed. Hashes are nowhere assumed to be injective: what is shown is equality of digests
  or that a hash was signed; and the defects the model exposes, stated as theorems about what the code does.

  \<^bold>\<open>Not modelled.\<close> Sockets, goroutines and operating system timers (\<^verbatim>\<open>udp_server.go\<close>,
  \<^verbatim>\<open>timeout.go\<close>), logging, the
  interactive command line, and the example programs: they are input and output around the parts above.
\<close>

section \<open>Responses on the transaction at hand\<close>

text \<open>A response the user agent logs for the transaction at hand, handed to that transaction.\<close>

fun deliver :: "sippy_config \<Rightarrow> string \<Rightarrow> ua_out \<Rightarrow> server_transaction \<times> sip_tm \<Rightarrow> server_transaction \<times> sip_tm" where
  "deliver cfg tag (O_response True rs ack_wait lossemul) (x, tm) =
     SendResponseWithLossEmul cfg tag rs False None lossemul x tm"
| "deliver cfg tag y z = z"

lemma non_invite_final:
  assumes "tx_alive x" "\<not> tx_needack x" "\<not> st_pr_rel x" "tx_userv x = Some uv" "tx_tid x = Some k"
    and "200 \<le> rs_scode rs" "m_to rs = Some (Inr a)" "m_vias rs = Inr via0 # vs"
    and "SendResponseWithLossEmul cfg tag rs False cb 0 x tm = (x', tm')"
  shows "\<not> tx_alive x'" "\<exists>rs'. rs_scode rs' = rs_scode rs \<and> tm_sent tm' = tm_sent tm @
      [\<lparr>sn_userv = uv, sn_data = P_resp rs' (uv_laddress uv), sn_address = GetTAddr cfg via0\<rparr>]"
proof -
  obtain rs' where rs': "ensure_to_tag tag rs = Some rs'" "rs_scode rs' = rs_scode rs" "m_vias rs' = Inr via0 # vs"
    using assms(6-8) by (auto simp: ensure_to_tag_def set_To_def)
  have "SendResponseWithLossEmul cfg tag rs False cb 0 x tm =
      (server_cleanup (x\<lparr>tx_data := Some (P_resp rs' (uv_laddress uv)), tx_address := Some (GetTAddr cfg via0),
          tx_state := COMPLETED, st_teE := None\<rparr>),
       transmitData uv (P_resp rs' (uv_laddress uv)) (GetTAddr cfg via0) (st_checksum x) (tid_CallId k) 0 (tserver_del k tm))"
    using assms(1-6) rs' by (simp add: SendResponseWithLossEmul_def reliable_provisional_def Let_def cancelTeE_def
        transmit_and_finish_def)
  with assms(9) rs'(2) show "\<not> tx_alive x'" "\<exists>rs'. rs_scode rs' = rs_scode rs \<and> tm_sent tm' = tm_sent tm @
      [\<lparr>sn_userv = uv, sn_data = P_resp rs' (uv_laddress uv), sn_address = GetTAddr cfg via0\<rparr>]"
    by (auto simp: server_cleanup_def base_cleanup_def tm_simps tserver_del_def)
qed

lemma ringing_bye_outputs:
  assumes "u_uasResp u = Some r" "rq_method rq = ''BYE''" "wf_request rq"
  obtains r200 where "u_out (fst (UasRinging_RecvRequest env rq u)) = u_out u @
      [O_response True ((response_GetCopy r)\<lparr>rs_scode := 487, rs_reason := ''Request Terminated'', m_body := None\<rparr>) False (u_uas_lossemul u),
       O_response True r200 False (u_uas_lossemul u)]"
proof -
  obtain r200 where r200: "GenResponse 200 ''OK'' None (u_local_ua u) rq = Inr r200"
    using GenResponse_ex [OF assms(3)] by blast
  have "u_out (fst (UasRinging_RecvRequest env rq u)) = u_out u @
      [O_response True ((response_GetCopy r)\<lparr>rs_scode := 487, rs_reason := ''Request Terminated'', m_body := None\<rparr>) False (u_uas_lossemul u),
       O_response True r200 False (u_uas_lossemul u)]"
    using assms r200
    by (simp add: UasRinging_RecvRequest_def Let_def SendUasResponse_def out_if_def out_def respond_def appendHeaders_def
        go_Disconnected_def go_def stay_def ResetSdpChange_def CancelExpireTimer_def enqueue_disconnect_def new_event_def
        Enqueue_def SetDisconnectTs_def split: list.splits sum.splits option.splits)
  then show ?thesis by (rule that)
qed

text \<open>A BYE for a call that is still ringing is not answered: the user agent first sends the
  INVITE's 487 on the BYE's own transaction, which is finished by it, so the 200 that
  follows is dropped. On the wire there is only the 487, as the answer to the BYE.\<close>

theorem bye_of_ringing_call_not_answered:
  assumes "u_uasResp u = Some r" "rq_method rq = ''BYE''" "wf_request rq" "u_uas_lossemul u = 0"
    and "m_to (response_GetCopy r) = Some (Inr a)" "m_vias (response_GetCopy r) = Inr via0 # vs"
    and "tx_alive x" "\<not> tx_needack x" "\<not> st_pr_rel x" "tx_userv x = Some uv" "tx_tid x = Some k"
  shows "(let outs = drop (length (u_out u)) (u_out (fst (UasRinging_RecvRequest env rq u)))
          in \<exists>rs. rs_scode rs = 487 \<and> tm_sent (snd (fold (deliver cfg tag) outs (x, tm))) = tm_sent tm @
               [\<lparr>sn_userv = uv, sn_data = P_resp rs (uv_laddress uv), sn_address = GetTAddr cfg via0\<rparr>])"
proof -
  let ?r487 = "(response_GetCopy r)\<lparr>rs_scode := 487, rs_reason := ''Request Terminated'', m_body := None\<rparr>"
  obtain r200 where outs: "u_out (fst (UasRinging_RecvRequest env rq u)) = u_out u @
      [O_response True ?r487 False 0, O_response True r200 False 0]"
    using ringing_bye_outputs [OF assms(1-3)] assms(4) by metis
  obtain x1 tm1 where s: "SendResponseWithLossEmul cfg tag ?r487 False None 0 x tm = (x1, tm1)" by fastforce
  have "\<not> tx_alive x1" "\<exists>rs. rs_scode rs = 487 \<and> tm_sent tm1 = tm_sent tm @
      [\<lparr>sn_userv = uv, sn_data = P_resp rs (uv_laddress uv), sn_address = GetTAddr cfg via0\<rparr>]"
    using non_invite_final [OF assms(7-11) _ _ _ s] assms(5,6) by simp_all
  then show ?thesis by (simp add: outs s SendResponseWithLossEmul_def [of cfg tag r200])
qed

theorem bye_of_ringing_call_not_answered_witness:
  "(let u = s_ua\<lparr>u_uasResp := Some (s_response 100 s_invite)\<rparr>; rq = s_request ''BYE'' 2 ''b4'' ''tt'';
        outs = drop (length (u_out u)) (u_out (fst (UasRinging_RecvRequest (s_uaenv 40) rq u)))
    in length (tm_sent (snd (fold (deliver s_cfg ''tt'') outs (s_stx\<lparr>tx_needack := False, st_pr_rel := False\<rparr>, s_tm)))) = 1)"
proof -
  have copy: "m_to (response_GetCopy (s_response 100 s_invite)) = Some (Inr (s_to []))"
    "m_vias (response_GetCopy (s_response 100 s_invite)) = [Inr (s_via ''b1'')]"
    by (simp_all add: response_GetCopy_def msg_getCopy_def s_response_def NewSipResponse_def appendHeaders_def push_header_def
        NewSipMsg_def sip_msg.defs sip_response.defs)
  from bye_of_ringing_call_not_answered [of "s_ua\<lparr>u_uasResp := Some (s_response 100 s_invite)\<rparr>" "s_response 100 s_invite"
      "s_request ''BYE'' 2 ''b4'' ''tt''" "s_to []" "s_via ''b1''" "[]" "s_stx\<lparr>tx_needack := False, st_pr_rel := False\<rparr>"
      s_uv "s_key [] [] ''z9hG4bKb1''" "s_uaenv 40" s_cfg "''tt''" s_tm] copy
  show ?thesis by (auto simp: Let_def s_ua_def NewUA_def s_stx_def)
qed

end
